(* ===== verification/Prelude.thy ===== *)
theory Prelude
  imports Main "HOL-Library.Char_ord" "HOL-Library.List_Lexorder" "HOL-Library.Sublist"
begin

text \<open>
  What every component shares: Python exceptions as values, the result type
  \<open>'a res\<close> of code that may raise, sequencing of checks, and decimal text.
  The library is offline validation code, so nearly every function is a sequence
  of \<open>if <condition>: _reject(code, field, detail)\<close> statements around a few
  computed values; \<open>bind_res\<close>, \<open>reject_if\<close> and \<open>run_all\<close> are that shape.
\<close>

section \<open>Exceptions\<close>

text \<open>
  The exception classes the modules raise on purpose. Their stable part is the
  code and the field (or path); the \<open>detail\<close> text is for humans and is not kept.
\<close>

datatype exn_class =
    ChannelValidationError
  | VoucherValidationError
  | RecipientBindingValidationError
  | CanonicalizationError
  | DomainNormalizationError
  | SettlementError
  | ClosureError
  | AuthorizationError
  | SignerError
  | ReconciliationInvalid
  | CapabilityContractError
  | FakeAdapterError
  | FakeExecutorError
  | FailureLabError

text \<open>
  \<open>Exn c code field\<close> is a rejection of class \<open>c\<close>. \<open>PyRaise n\<close> is an exception the
  interpreter or the standard library raises out of the same code and that the
  module does not turn into a rejection, named by its class (\<open>''TypeError''\<close> for
  an unhashable member test, \<open>''ValueError''\<close> for an over-long integer text, ...).
\<close>

datatype exn = Exn exn_class string string | PyRaise string

fun exn_code :: "exn \<Rightarrow> string" where
  "exn_code (Exn c code f) = code"
| "exn_code (PyRaise n) = []"

fun is_exn :: "exn_class \<Rightarrow> exn \<Rightarrow> bool" where
  "is_exn c (Exn c' code f) = (c = c')"
| "is_exn c (PyRaise n) = False"

type_synonym 'a res = "exn + 'a"

section \<open>Sequencing\<close>

named_theorems res_simps \<open>inversion of successful results\<close>

definition bind_res :: "'a res \<Rightarrow> ('a \<Rightarrow> 'b res) \<Rightarrow> 'b res" where
  "bind_res m f = (case m of Inl e \<Rightarrow> Inl e | Inr x \<Rightarrow> f x)"

definition reject_if :: "bool \<Rightarrow> exn \<Rightarrow> unit res" where
  "reject_if b e = (if b then Inl e else Inr ())"

fun run_all :: "unit res list \<Rightarrow> unit res" where
  "run_all [] = Inr ()"
| "run_all (c # cs) = bind_res c (\<lambda>_. run_all cs)"

lemma bind_res_simps [simp]:
  "bind_res (Inl e) f = Inl e"
  "bind_res (Inr x) f = f x"
  by (simp_all add: bind_res_def)

lemma bind_res_eq_Inr [res_simps]:
  "bind_res m f = Inr y \<longleftrightarrow> (\<exists>x. m = Inr x \<and> f x = Inr y)"
  by (cases m) auto

lemma bind_res_eq_Inl:
  "bind_res m f = Inl e \<longleftrightarrow> m = Inl e \<or> (\<exists>x. m = Inr x \<and> f x = Inl e)"
  by (cases m) auto

lemma bind_unit_eq_Inr [res_simps]:
  "bind_res (m :: unit res) f = Inr y \<longleftrightarrow> m = Inr () \<and> f () = Inr y"
  by (cases m) auto

lemma bind_res_cong [fundef_cong]:
  "m = m' \<Longrightarrow> (\<And>x. m' = Inr x \<Longrightarrow> f x = f' x) \<Longrightarrow> bind_res m f = bind_res m' f'"
  by (cases m') auto

lemma bind_res_assoc: "bind_res (bind_res m f) g = bind_res m (\<lambda>x. bind_res (f x) g)"
  by (cases m) auto

lemma reject_if_simps [simp]:
  "reject_if True e = Inl e" "reject_if False e = Inr ()"
  by (simp_all add: reject_if_def)

lemma reject_if_eq_Inr [res_simps]: "reject_if b e = Inr u \<longleftrightarrow> \<not> b"
  by (simp add: reject_if_def)

lemma reject_if_eq_Inl: "reject_if b e = Inl e' \<longleftrightarrow> b \<and> e = e'"
  by (auto simp: reject_if_def)

lemma run_all_eq_Inr [res_simps]: "run_all cs = Inr u \<longleftrightarrow> (\<forall>c\<in>set cs. c = Inr ())"
  by (induction cs) (auto simp: res_simps)

lemma run_all_eq_Inl: "run_all cs = Inl e \<Longrightarrow> \<exists>c\<in>set cs. c = Inl e"
  by (induction cs) (auto simp: bind_res_eq_Inl)

lemma run_all_append: "run_all (xs @ ys) = bind_res (run_all xs) (\<lambda>_. run_all ys)"
  by (induction xs) (auto simp: bind_res_assoc)

text \<open>A list function that stops at the first failure, as a comprehension over a raising body.\<close>

fun map_res :: "('a \<Rightarrow> 'b res) \<Rightarrow> 'a list \<Rightarrow> 'b list res" where
  "map_res f [] = Inr []"
| "map_res f (x # xs) = bind_res (f x) (\<lambda>y. bind_res (map_res f xs) (\<lambda>ys. Inr (y # ys)))"

lemma map_res_eq_Inr [res_simps]:
  "map_res f xs = Inr ys \<longleftrightarrow> list_all2 (\<lambda>x y. f x = Inr y) xs ys"
  by (induction xs arbitrary: ys) (auto simp: res_simps list_all2_Cons1)

lemma run_all_Cons_Inr: "run_all (c # cs) = Inr u \<longleftrightarrow> c = Inr () \<and> run_all cs = Inr ()"
  by (auto simp: bind_unit_eq_Inr)

lemma run_all_map_reject:
  "run_all (map (\<lambda>x. reject_if (\<not> p x) (e x)) xs) = Inr u \<longleftrightarrow> (\<forall>x\<in>set xs. p x)"
  by (auto simp: run_all_eq_Inr reject_if_eq_Inr)

text \<open>\<open>catch_class c e m\<close>: an \<open>except\<close> clause for class \<open>c\<close> that raises \<open>e\<close> instead.\<close>

definition catch_class :: "exn_class \<Rightarrow> exn \<Rightarrow> 'a res \<Rightarrow> 'a res" where
  "catch_class c e m = (case m of Inl e' \<Rightarrow> (if is_exn c e' then Inl e else Inl e') | Inr x \<Rightarrow> Inr x)"

lemma catch_class_Inr [res_simps]: "catch_class c e m = Inr x \<longleftrightarrow> m = Inr x"
  by (cases m) (auto simp: catch_class_def)

section \<open>Which exceptions escape\<close>

text \<open>\<open>raises P m\<close>: if \<open>m\<close> raises, the exception satisfies \<open>P\<close>.\<close>

named_theorems raises_intros \<open>which exceptions a computation may raise\<close>

definition raises :: "(exn \<Rightarrow> bool) \<Rightarrow> 'a res \<Rightarrow> bool" where
  "raises P m \<longleftrightarrow> (case m of Inl e \<Rightarrow> P e | Inr _ \<Rightarrow> True)"

lemma raisesD: "raises P m \<Longrightarrow> m = Inl e \<Longrightarrow> P e"
  by (simp add: raises_def)

lemma raises_Inr [raises_intros]: "raises P (Inr x)"
  by (simp add: raises_def)

lemma raises_Inl [raises_intros]: "P e \<Longrightarrow> raises P (Inl e)"
  by (simp add: raises_def)

lemma raises_bind [raises_intros]:
  "raises P m \<Longrightarrow> (\<And>x. m = Inr x \<Longrightarrow> raises P (f x)) \<Longrightarrow> raises P (bind_res m f)"
  by (cases m) (auto simp: raises_def)

lemma raises_reject_if [raises_intros]: "(b \<Longrightarrow> P e) \<Longrightarrow> raises P (reject_if b e)"
  by (auto simp: raises_def reject_if_def)

lemma raises_run_all_Cons [raises_intros]:
  "raises P c \<Longrightarrow> (c = Inr () \<Longrightarrow> raises P (run_all cs)) \<Longrightarrow> raises P (run_all (c # cs))"
  by (cases c) (auto simp: raises_def)

lemma raises_run_all_Nil [raises_intros]: "raises P (run_all [])"
  by (simp add: raises_def)

lemma raises_run_all_map [raises_intros]:
  "(\<And>x. x \<in> set xs \<Longrightarrow> raises P (f x)) \<Longrightarrow> raises P (run_all (map f xs))"
  by (induction xs) (auto intro!: raises_intros)

lemma raises_if [raises_intros]:
  "(b \<Longrightarrow> raises P x) \<Longrightarrow> (\<not> b \<Longrightarrow> raises P y) \<Longrightarrow> raises P (if b then x else y)"
  by simp

lemma raises_let [raises_intros]: "raises P (f x) \<Longrightarrow> raises P (let y = x in f y)"
  by simp

lemma raises_prod [raises_intros]: "(\<And>a b. x = (a, b) \<Longrightarrow> raises P (f a b)) \<Longrightarrow> raises P (case x of (a, b) \<Rightarrow> f a b)"
  by (cases x) simp

lemma raises_catch_class [raises_intros]: "raises P m \<Longrightarrow> P e \<Longrightarrow> raises P (catch_class c e m)"
  by (cases m) (auto simp: raises_def catch_class_def)

section \<open>Decimal text\<close>

definition digit_char :: "nat \<Rightarrow> char" where
  "digit_char n = ''0123456789'' ! n"

definition is_digit :: "char \<Rightarrow> bool" where
  "is_digit c \<longleftrightarrow> 48 \<le> (of_char c :: nat) \<and> (of_char c :: nat) \<le> 57"

definition digit_val :: "char \<Rightarrow> nat" where
  "digit_val c = of_char c - 48"

fun dec_nat :: "nat \<Rightarrow> string" where
  "dec_nat n = (if n < 10 then [digit_char n] else dec_nat (n div 10) @ [digit_char (n mod 10)])"

declare dec_nat.simps [simp del]

definition undec_nat :: "string \<Rightarrow> nat" where
  "undec_nat s = foldl (\<lambda>a c. 10 * a + digit_val c) 0 s"

text \<open>Python's \<open>str\<close> on an integer.\<close>

definition str_int :: "int \<Rightarrow> string" where
  "str_int i = (if i < 0 then CHR ''-'' # dec_nat (nat (- i)) else dec_nat (nat i))"

lemma less_10_cases: "n < (10::nat) \<Longrightarrow> n \<in> {0, 1, 2, 3, 4, 5, 6, 7, 8, 9}"
  by auto

lemma of_char_digit_char [simp]: "n < 10 \<Longrightarrow> of_char (digit_char n) = 48 + n"
  by (drule less_10_cases) (auto simp: digit_char_def)

lemma digit_char_props [simp]:
  assumes "n < 10"
  shows "is_digit (digit_char n)" "digit_val (digit_char n) = n"
  using assms by (auto simp: is_digit_def digit_val_def)

lemma digit_char_val:
  assumes "is_digit c"
  shows "digit_char (digit_val c) = c"
proof -
  have "digit_val c < 10" "48 + digit_val c = of_char c"
    using assms by (auto simp: is_digit_def digit_val_def)
  then have "(of_char (digit_char (digit_val c)) :: nat) = of_char c"
    by (metis of_char_digit_char)
  then show ?thesis by simp
qed

lemma digit_val_less: "is_digit c \<Longrightarrow> digit_val c < 10"
  by (auto simp: is_digit_def digit_val_def)

lemma undec_nat_snoc [simp]: "undec_nat (s @ [c]) = 10 * undec_nat s + digit_val c"
  by (simp add: undec_nat_def)

lemma undec_dec [simp]: "undec_nat (dec_nat n) = n"
proof (induction n rule: dec_nat.induct)
  case (1 n)
  show ?case
  proof (cases "n < 10")
    case True
    then show ?thesis by (simp add: dec_nat.simps [of n] undec_nat_def)
  next
    case False
    with 1 show ?thesis by (simp add: dec_nat.simps [of n])
  qed
qed

lemma dec_nat_inj [simp]: "dec_nat m = dec_nat n \<longleftrightarrow> m = n"
  by (metis undec_dec)

lemma dec_nat_digits: "list_all is_digit (dec_nat n)"
proof (induction n rule: dec_nat.induct)
  case (1 n)
  then show ?case by (cases "n < 10") (simp_all add: dec_nat.simps [of n])
qed

lemma dec_nat_not_Nil [simp]: "dec_nat n \<noteq> []"
  by (subst dec_nat.simps) simp

lemma dec_nat_no_leading_zero: "0 < n \<Longrightarrow> hd (dec_nat n) \<noteq> CHR ''0''"
proof (induction n rule: dec_nat.induct)
  case (1 n)
  show ?case
  proof (cases "n < 10")
    case True
    have "digit_val (digit_char n) \<noteq> digit_val CHR ''0''"
      using True 1(2) by (simp add: digit_val_def [of "CHR ''0''"])
    then have "digit_char n \<noteq> CHR ''0''" by metis
    with True show ?thesis by (simp add: dec_nat.simps [of n])
  next
    case False
    with 1 show ?thesis by (simp add: dec_nat.simps [of n])
  qed
qed

lemma dec_nat_0 [simp]: "dec_nat 0 = ''0''"
  by (simp add: dec_nat.simps digit_char_def)

lemma undec_nat_Cons: "undec_nat (c # s) = digit_val c * 10 ^ length s + undec_nat s"
proof (induction s rule: rev_induct)
  case Nil
  then show ?case by (simp add: undec_nat_def)
next
  case (snoc x xs)
  have "undec_nat (c # xs @ [x]) = 10 * undec_nat (c # xs) + digit_val x"
    using undec_nat_snoc [of "c # xs" x] by simp
  with snoc show ?case by (simp add: algebra_simps)
qed

lemma dec_undec:
  assumes "list_all is_digit s" "s \<noteq> []" "hd s \<noteq> CHR ''0'' \<or> length s = 1"
  shows "dec_nat (undec_nat s) = s"
  using assms
proof (induction s rule: rev_induct)
  case Nil
  then show ?case by simp
next
  case (snoc c s)
  show ?case
  proof (cases "s = []")
    case True
    with snoc.prems show ?thesis
      by (simp add: undec_nat_def dec_nat.simps [of "digit_val c"] digit_val_less digit_char_val)
  next
    case False
    with snoc.prems have IH: "dec_nat (undec_nat s) = s"
      by (intro snoc.IH) auto
    have "undec_nat s \<noteq> 0"
    proof
      assume "undec_nat s = 0"
      with IH have "s = ''0''" by simp
      with False snoc.prems show False by simp
    qed
    with IH snoc.prems show ?thesis
      by (simp add: dec_nat.simps [of "10 * undec_nat s + digit_val c"] digit_val_less digit_char_val)
  qed
qed

lemma str_int_nonneg [simp]: "0 \<le> i \<Longrightarrow> str_int i = dec_nat (nat i)"
  by (simp add: str_int_def)

lemma str_int_inj_nonneg: "0 \<le> i \<Longrightarrow> 0 \<le> j \<Longrightarrow> str_int i = str_int j \<longleftrightarrow> i = j"
  by auto

end
