(* ===== verification/Py_Values.thy ===== *)
theory Py_Values
  imports Prelude
begin

text \<open>
  The Python values the protocol modules receive, dictionaries with the checks for
  closed objects, and the regular expressions and integer bounds every module of
  \<^verbatim>\<open>packages/channel-protocol\<close> repeats. A string is its UTF-8 text (lone surrogates
  in their three-byte form), so an ASCII literal is itself. A float is carried by its
  \<^verbatim>\<open>repr\<close> and is never compared with another number by the code modelled here.
\<close>

section \<open>Values\<close>

text \<open>Dictionary keys: text, an integer or None; other hashable keys are left out.\<close>

datatype pykey = KStr string | KInt int | KNone

text \<open>\<open>POther t\<close> is any object of a type \<open>t\<close> that is neither JSON nor unhashable.\<close>

datatype pyval =
    PNone
  | PBool bool
  | PInt int
  | PFloat string
  | PStr string
  | PList "pyval list"
  | PDict "(pykey \<times> pyval) list"
  | POther string

type_synonym pydict = "(pykey \<times> pyval) list"

instantiation pykey :: linorder
begin

fun less_eq_pykey :: "pykey \<Rightarrow> pykey \<Rightarrow> bool" where
  "less_eq_pykey (KStr a) (KStr b) = (a \<le> b)"
| "less_eq_pykey (KStr a) _ = True"
| "less_eq_pykey (KInt i) (KStr b) = False"
| "less_eq_pykey (KInt i) (KInt j) = (i \<le> j)"
| "less_eq_pykey (KInt i) KNone = True"
| "less_eq_pykey KNone KNone = True"
| "less_eq_pykey KNone _ = False"

definition less_pykey :: "pykey \<Rightarrow> pykey \<Rightarrow> bool" where
  "less_pykey a b \<longleftrightarrow> a \<le> b \<and> \<not> b \<le> a"

instance
proof
  fix x y z :: pykey
  show "x < y \<longleftrightarrow> x \<le> y \<and> \<not> y \<le> x" by (rule less_pykey_def)
  show "x \<le> x" by (cases x) auto
  show "x \<le> y \<Longrightarrow> y \<le> z \<Longrightarrow> x \<le> z" by (cases x; cases y; cases z) auto
  show "x \<le> y \<Longrightarrow> y \<le> x \<Longrightarrow> x = y" by (cases x; cases y) auto
  show "x \<le> y \<or> y \<le> x" by (cases x; cases y) auto
qed

end

section \<open>Dictionaries\<close>

definition has_key :: "pydict \<Rightarrow> string \<Rightarrow> bool" where
  "has_key d k \<longleftrightarrow> KStr k \<in> fst ` set d"

text \<open>
  \<open>d.get(k)\<close>, and \<open>d[k]\<close> where a preceding closed-object check has established the
  key (the modelled code subscripts checked keys only).
\<close>

definition item :: "pydict \<Rightarrow> string \<Rightarrow> pyval" where
  "item d k = (case map_of d (KStr k) of Some v \<Rightarrow> v | None \<Rightarrow> PNone)"

definition missing_keys :: "string list \<Rightarrow> pydict \<Rightarrow> string list" where
  "missing_keys required d = filter (\<lambda>k. \<not> List.member (map fst d) (KStr k)) required"

definition unknown_keys :: "string list \<Rightarrow> pydict \<Rightarrow> pykey list" where
  "unknown_keys allowed d = filter (\<lambda>k. \<not> List.member (map KStr allowed) k) (map fst d)"

text \<open>\<open>sorted\<close> raises TypeError on a list that mixes text, numbers and None.\<close>

fun key_kind :: "pykey \<Rightarrow> nat" where
  "key_kind (KStr s) = 0"
| "key_kind (KInt i) = 1"
| "key_kind KNone = 2"

definition mixed_keys :: "pykey list \<Rightarrow> bool" where
  "mixed_keys ks = list_ex (\<lambda>k. key_kind k \<noteq> key_kind (hd ks)) ks"

text \<open>
  The closed-object check of \<^verbatim>\<open>channel.py\<close> and \<^verbatim>\<open>recipient_binding.py\<close> formats keys
  with \<^verbatim>\<open>str\<close> before sorting; the one of \<^verbatim>\<open>voucher.py\<close> and \<^verbatim>\<open>settlement.py\<close> sorts the
  unknown keys themselves (\<open>sorts = True\<close>).
\<close>

definition closed_with ::
  "exn_class \<Rightarrow> bool \<Rightarrow> pyval \<Rightarrow> string \<Rightarrow> string list \<Rightarrow> string list \<Rightarrow> pydict res" where
  "closed_with C sorts v f required allowed =
     (case v of
        PDict d \<Rightarrow>
          (if missing_keys required d \<noteq> [] then Inl (Exn C ''missing_field'' f)
           else if unknown_keys allowed d \<noteq> [] then
             (if sorts \<and> mixed_keys (unknown_keys allowed d) then Inl (PyRaise ''TypeError'')
              else Inl (Exn C ''unknown_field'' f))
           else Inr d)
      | _ \<Rightarrow> Inl (Exn C ''invalid_type'' f))"

lemma missing_keys_Nil: "missing_keys required d = [] \<longleftrightarrow> (\<forall>k\<in>set required. has_key d k)"
  by (simp add: missing_keys_def has_key_def filter_empty_conv)

lemma unknown_keys_Nil: "unknown_keys allowed d = [] \<longleftrightarrow> fst ` set d \<subseteq> KStr ` set allowed"
  by (auto simp: unknown_keys_def filter_empty_conv)

lemma closed_with_Inr [res_simps]:
  "closed_with C sorts v f required allowed = Inr d \<longleftrightarrow>
     v = PDict d \<and> (\<forall>k\<in>set required. has_key d k) \<and> fst ` set d \<subseteq> KStr ` set allowed"
  by (cases v) (auto simp: closed_with_def missing_keys_Nil unknown_keys_Nil)

lemma item_Some: "map_of d (KStr k) = Some v \<Longrightarrow> item d k = v"
  by (simp add: item_def)

lemma has_key_map_of: "has_key d k \<longleftrightarrow> (\<exists>v. map_of d (KStr k) = Some v)"
  by (force simp: has_key_def dom_map_of_conv_image_fst [symmetric])

lemma item_not_PNone_has_key: "item d k \<noteq> PNone \<Longrightarrow> has_key d k"
  by (auto simp: item_def has_key_map_of split: option.splits)

fun is_bool :: "pyval \<Rightarrow> bool" where
  "is_bool (PBool b) = True"
| "is_bool _ = False"

lemma is_bool_iff: "is_bool v \<longleftrightarrow> (\<exists>b. v = PBool b)"
  by (cases v) auto

section \<open>Equality and membership\<close>

fun num_of :: "pyval \<Rightarrow> int option" where
  "num_of (PBool b) = Some (if b then 1 else 0)"
| "num_of (PInt i) = Some i"
| "num_of _ = None"

text \<open>\<open>==\<close>: a bool equals the integer it is, dictionaries ignore order.\<close>

primrec py_eq :: "pyval \<Rightarrow> pyval \<Rightarrow> bool"
  and py_eq_list :: "pyval list \<Rightarrow> pyval list \<Rightarrow> bool"
  and py_eq_items :: "pydict \<Rightarrow> pydict \<Rightarrow> bool"
  and py_eq_item :: "pykey \<times> pyval \<Rightarrow> pydict \<Rightarrow> bool"
where
  "py_eq PNone w = (w = PNone)"
| "py_eq (PBool b) w = (num_of w = Some (if b then 1 else 0))"
| "py_eq (PInt i) w = (num_of w = Some i)"
| "py_eq (PFloat t) w = (w = PFloat t)"
| "py_eq (PStr s) w = (w = PStr s)"
| "py_eq (PList xs) w = (case w of PList ys \<Rightarrow> py_eq_list xs ys | _ \<Rightarrow> False)"
| "py_eq (PDict d) w = (case w of PDict e \<Rightarrow> length d = length e \<and> py_eq_items d e | _ \<Rightarrow> False)"
| "py_eq (POther t) w = (w = POther t)"
| "py_eq_list [] ys = (ys = [])"
| "py_eq_list (x # xs) ys = (case ys of [] \<Rightarrow> False | y # ys' \<Rightarrow> py_eq x y \<and> py_eq_list xs ys')"
| "py_eq_items [] e = True"
| "py_eq_items (kv # d) e = (py_eq_item kv e \<and> py_eq_items d e)"
| "py_eq_item (k, v) e = (case map_of e k of None \<Rightarrow> False | Some w \<Rightarrow> py_eq v w)"

text \<open>\<open>v in {...}\<close> over a set of strings hashes \<open>v\<close> first.\<close>

fun py_in :: "pyval \<Rightarrow> string list \<Rightarrow> bool res" where
  "py_in (PList xs) ss = Inl (PyRaise ''TypeError'')"
| "py_in (PDict d) ss = Inl (PyRaise ''TypeError'')"
| "py_in (PStr s) ss = Inr (List.member ss s)"
| "py_in _ ss = Inr False"

lemma py_in_Inr_True [res_simps]: "py_in v ss = Inr True \<longleftrightarrow> (\<exists>s\<in>set ss. v = PStr s)"
  by (cases v) auto

lemma py_eq_str_iff [simp]: "py_eq v (PStr s) \<longleftrightarrow> v = PStr s"
  by (cases v) auto

section \<open>Text formats\<close>

definition u64_max :: int where "u64_max = 18446744073709551615"
definition json_safe_max :: int where "json_safe_max = 9007199254740991"
definition zero_hash :: string where "zero_hash = ''sha256:'' @ replicate 64 (CHR ''0'')"

definition in_range :: "nat \<Rightarrow> nat \<Rightarrow> char \<Rightarrow> bool" where
  "in_range lo hi c \<longleftrightarrow> lo \<le> of_char c \<and> of_char c \<le> hi"

text \<open>\<^verbatim>\<open>[0-9a-f]\<close>, \<^verbatim>\<open>[1-9A-HJ-NP-Za-km-z]\<close>, \<^verbatim>\<open>[A-Za-z0-9]\<close> and \<^verbatim>\<open>[A-Za-z0-9._:-]\<close>.\<close>

definition is_hex :: "char \<Rightarrow> bool" where
  "is_hex c \<longleftrightarrow> is_digit c \<or> in_range 97 102 c"

definition is_base58 :: "char \<Rightarrow> bool" where
  "is_base58 c \<longleftrightarrow> in_range 49 57 c \<or> in_range 65 72 c \<or> in_range 74 78 c \<or>
     in_range 80 90 c \<or> in_range 97 107 c \<or> in_range 109 122 c"

definition is_alnum :: "char \<Rightarrow> bool" where
  "is_alnum c \<longleftrightarrow> is_digit c \<or> in_range 65 90 c \<or> in_range 97 122 c"

definition is_id_char :: "char \<Rightarrow> bool" where
  "is_id_char c \<longleftrightarrow> is_alnum c \<or> c = CHR ''.'' \<or> c = CHR ''_'' \<or> c = CHR '':'' \<or> c = CHR ''-''"

definition amount_text :: "string \<Rightarrow> bool" where
  "amount_text s \<longleftrightarrow> s = ''0'' \<or> (s \<noteq> [] \<and> in_range 49 57 (hd s) \<and> list_all is_digit s)"

definition hash_text :: "string \<Rightarrow> bool" where
  "hash_text s \<longleftrightarrow> take 7 s = ''sha256:'' \<and> length (drop 7 s) = 64 \<and> list_all is_hex (drop 7 s)"

definition identifier_text :: "string \<Rightarrow> bool" where
  "identifier_text s \<longleftrightarrow> s \<noteq> [] \<and> is_alnum (hd s) \<and> list_all is_id_char (tl s) \<and> length s \<le> 128"

definition pubkey_text :: "string \<Rightarrow> bool" where
  "pubkey_text s \<longleftrightarrow> 32 \<le> length s \<and> length s \<le> 44 \<and> list_all is_base58 s"

definition signature_text :: "string \<Rightarrow> bool" where
  "signature_text s \<longleftrightarrow> 64 \<le> length s \<and> length s \<le> 88 \<and> list_all is_base58 s"

text \<open>A lone surrogate is the three-byte form \<open>ED A0..BF xx\<close>.\<close>

fun has_surrogate :: "string \<Rightarrow> bool" where
  "has_surrogate (c # d # r) =
     ((of_char c = (237::nat) \<and> in_range 160 191 d) \<or> has_surrogate (d # r))"
| "has_surrogate _ = False"

text \<open>
  The code-point length of a text: UTF-8 continuation bytes are not counted.
\<close>

definition py_len :: "string \<Rightarrow> nat" where
  "py_len s = length (filter (\<lambda>c. \<not> in_range 128 191 c) s)"

section \<open>Checks that every module repeats\<close>

text \<open>\<open>isinstance(value, str) and PATTERN.fullmatch(value)\<close>, else a rejection.\<close>

definition string_with :: "exn_class \<Rightarrow> (string \<Rightarrow> bool) \<Rightarrow> string \<Rightarrow> pyval \<Rightarrow> string \<Rightarrow> string res" where
  "string_with C pattern code v f =
     (case v of PStr s \<Rightarrow> (if pattern s then Inr s else Inl (Exn C code f))
      | _ \<Rightarrow> Inl (Exn C code f))"

text \<open>\<open>value != expected or type(value) is not type(expected)\<close> for the literals in use.\<close>

definition literal_with :: "exn_class \<Rightarrow> string \<Rightarrow> pyval \<Rightarrow> pyval \<Rightarrow> string \<Rightarrow> unit res" where
  "literal_with C code v expected f = reject_if (v \<noteq> expected) (Exn C code f)"

text \<open>\<open>type(value) is not int\<close> or out of range, one rejection code for both.\<close>

definition integer_with :: "exn_class \<Rightarrow> string \<Rightarrow> int \<Rightarrow> int \<Rightarrow> pyval \<Rightarrow> string \<Rightarrow> int res" where
  "integer_with C code lo hi v f =
     (case v of PInt i \<Rightarrow> (if lo \<le> i \<and> i \<le> hi then Inr i else Inl (Exn C code f))
      | _ \<Rightarrow> Inl (Exn C code f))"

text \<open>
  \<open>int(value)\<close> raises ValueError beyond CPython's limit of 4300 digits, before the
  range check is reached.
\<close>

definition amount_with :: "exn_class \<Rightarrow> pyval \<Rightarrow> string \<Rightarrow> int res" where
  "amount_with C v f =
     (case v of
        PStr s \<Rightarrow>
          (if \<not> amount_text s then Inl (Exn C ''invalid_amount'' f)
           else if 4300 < length s then Inl (PyRaise ''ValueError'')
           else if int (undec_nat s) > u64_max then Inl (Exn C ''amount_out_of_range'' f)
           else Inr (int (undec_nat s)))
      | _ \<Rightarrow> Inl (Exn C ''invalid_amount'' f))"

lemma has_surrogate_char: "has_surrogate s \<Longrightarrow> \<exists>c\<in>set s. of_char c = (237::nat)"
  by (induction s rule: has_surrogate.induct) auto

lemma hash_no_surrogate [simp]: "hash_text h \<Longrightarrow> \<not> has_surrogate h"
proof
  assume "hash_text h" "has_surrogate h"
  then obtain c where c: "c \<in> set h" "of_char c = (237::nat)" using has_surrogate_char by blast
  from \<open>hash_text h\<close> have "take 7 h = ''sha256:''" "list_all is_hex (drop 7 h)" by (simp_all add: hash_text_def)
  then have "c \<in> set ''sha256:'' \<or> is_hex c"
    using c(1) by (metis append_take_drop_id list_all_iff set_append Un_iff)
  with c(2) show False by (auto simp: is_hex_def is_digit_def in_range_def)
qed

lemma string_with_Inr [res_simps]:
  "string_with C p code v f = Inr s \<longleftrightarrow> v = PStr s \<and> p s"
  by (cases v) (auto simp: string_with_def)

lemma literal_with_Inr [res_simps]: "literal_with C code v e f = Inr u \<longleftrightarrow> v = e"
  by (simp add: literal_with_def res_simps)

lemma integer_with_Inr [res_simps]:
  "integer_with C code lo hi v f = Inr i \<longleftrightarrow> v = PInt i \<and> lo \<le> i \<and> i \<le> hi"
  by (cases v) (auto simp: integer_with_def)

lemma amount_with_Inr [res_simps]:
  "amount_with C v f = Inr a \<longleftrightarrow>
     (\<exists>s. v = PStr s \<and> amount_text s \<and> length s \<le> 4300 \<and> a = int (undec_nat s) \<and> a \<le> u64_max)"
  by (cases v) (auto simp: amount_with_def)

lemma amount_with_nonneg: "amount_with C v f = Inr a \<Longrightarrow> 0 \<le> a \<and> a \<le> u64_max"
  by (auto simp: res_simps)

lemma amount_text_dec: "amount_text (dec_nat n)"
proof (cases "n = 0")
  case True
  then show ?thesis by (simp add: amount_text_def)
next
  case False
  then have h: "hd (dec_nat n) \<noteq> CHR ''0''" by (simp add: dec_nat_no_leading_zero)
  have d: "list_all is_digit (dec_nat n)" by (rule dec_nat_digits)
  then have "is_digit (hd (dec_nat n))" by (cases "dec_nat n") auto
  moreover have "(of_char (hd (dec_nat n)) :: nat) \<noteq> 48"
    using h by (metis of_char_eq_iff of_char_digit_char add_0_right zero_less_numeral dec_nat_0
        dec_nat.simps list.inject)
  ultimately show ?thesis
    using d by (auto simp: amount_text_def in_range_def is_digit_def)
qed

lemma amount_text_dec_undec: "amount_text s \<Longrightarrow> dec_nat (undec_nat s) = s"
proof (cases "s = ''0''")
  case True
  then show ?thesis by (simp add: undec_nat_def digit_val_def)
next
  case False
  assume "amount_text s"
  with False show ?thesis
    by (intro dec_undec) (auto simp: amount_text_def in_range_def)
qed

text \<open>Printing an amount and reading it back: the texts and the unsigned numbers correspond.\<close>

lemma amount_text_inj:
  "amount_text s \<Longrightarrow> amount_text t \<Longrightarrow> undec_nat s = undec_nat t \<Longrightarrow> s = t"
  by (metis amount_text_dec_undec)

lemma raises_closed_with [raises_intros]:
  "P (Exn C ''invalid_type'' f) \<Longrightarrow> P (Exn C ''missing_field'' f) \<Longrightarrow> P (Exn C ''unknown_field'' f) \<Longrightarrow>
     (sorts \<Longrightarrow> P (PyRaise ''TypeError'')) \<Longrightarrow> raises P (closed_with C sorts v f required allowed)"
  by (cases v) (auto simp: closed_with_def raises_def)

lemma raises_string_with [raises_intros]:
  "P (Exn C code f) \<Longrightarrow> raises P (string_with C p code v f)"
  by (cases v) (auto simp: string_with_def raises_def)

lemma raises_literal_with [raises_intros]:
  "P (Exn C code f) \<Longrightarrow> raises P (literal_with C code v e f)"
  by (auto simp: literal_with_def intro!: raises_intros)

lemma raises_integer_with [raises_intros]:
  "P (Exn C code f) \<Longrightarrow> raises P (integer_with C code lo hi v f)"
  by (cases v) (auto simp: integer_with_def raises_def)

lemma raises_amount_with [raises_intros]:
  "P (Exn C ''invalid_amount'' f) \<Longrightarrow> P (Exn C ''amount_out_of_range'' f) \<Longrightarrow> P (PyRaise ''ValueError'') \<Longrightarrow>
     raises P (amount_with C v f)"
  by (cases v) (auto simp: amount_with_def raises_def)

lemma raises_py_in [raises_intros]: "P (PyRaise ''TypeError'') \<Longrightarrow> raises P (py_in v ss)"
  by (cases v) (auto simp: raises_def)

section \<open>Stored JSON\<close>

text \<open>
  A TEXT column written with \<^verbatim>\<open>json.dumps(..., sort_keys=True)\<close> and fixed separators is
  represented by the value \<^verbatim>\<open>json.loads\<close> reads back from it: the same value with sorted
  keys, non-string keys turned into text. Text and value determine each other.
\<close>

fun key_text :: "pykey \<Rightarrow> string" where
  "key_text (KStr s) = s"
| "key_text (KInt i) = str_int i"
| "key_text KNone = ''null''"

primrec json_dumps :: "bool \<Rightarrow> pyval \<Rightarrow> pyval res"
  and json_dumps_list :: "bool \<Rightarrow> pyval list \<Rightarrow> pyval list res"
  and json_dumps_items :: "bool \<Rightarrow> pydict \<Rightarrow> pydict res"
  and json_dumps_item :: "bool \<Rightarrow> pykey \<times> pyval \<Rightarrow> (pykey \<times> pyval) res"
where
  "json_dumps allow_nan PNone = Inr PNone"
| "json_dumps allow_nan (PBool b) = Inr (PBool b)"
| "json_dumps allow_nan (PInt i) =
     (if 4300 < length (dec_nat (nat \<bar>i\<bar>)) then Inl (PyRaise ''ValueError'') else Inr (PInt i))"
| "json_dumps allow_nan (PFloat t) =
     (if \<not> allow_nan \<and> List.member [''nan'', ''inf'', ''-inf''] t then Inl (PyRaise ''ValueError'')
      else Inr (PFloat t))"
| "json_dumps allow_nan (PStr s) = Inr (PStr s)"
| "json_dumps allow_nan (PList xs) =
     bind_res (json_dumps_list allow_nan xs) (\<lambda>ys. Inr (PList ys))"
| "json_dumps allow_nan (PDict d) =
     (if mixed_keys (map fst d) then Inl (PyRaise ''TypeError'')
      else bind_res (json_dumps_items allow_nan d) (\<lambda>d'.
        Inr (PDict (map (\<lambda>(k, v). (KStr (key_text k), v)) (sort_key fst d')))))"
| "json_dumps allow_nan (POther t) = Inl (PyRaise ''TypeError'')"
| "json_dumps_list allow_nan [] = Inr []"
| "json_dumps_list allow_nan (x # xs) =
     bind_res (json_dumps allow_nan x) (\<lambda>y.
     bind_res (json_dumps_list allow_nan xs) (\<lambda>ys. Inr (y # ys)))"
| "json_dumps_items allow_nan [] = Inr []"
| "json_dumps_items allow_nan (kv # d) =
     bind_res (json_dumps_item allow_nan kv) (\<lambda>kv'.
     bind_res (json_dumps_items allow_nan d) (\<lambda>d'. Inr (kv' # d')))"
| "json_dumps_item allow_nan (k, v) = bind_res (json_dumps allow_nan v) (\<lambda>v'. Inr (k, v'))"

text \<open>Whether a text anywhere in the value holds a lone surrogate.\<close>

primrec val_surrogate :: "pyval \<Rightarrow> bool"
  and list_surrogate :: "pyval list \<Rightarrow> bool"
  and items_surrogate :: "pydict \<Rightarrow> bool"
  and item_surrogate :: "pykey \<times> pyval \<Rightarrow> bool"
where
  "val_surrogate PNone = False"
| "val_surrogate (PBool b) = False"
| "val_surrogate (PInt i) = False"
| "val_surrogate (PFloat t) = False"
| "val_surrogate (PStr s) = has_surrogate s"
| "val_surrogate (PList xs) = list_surrogate xs"
| "val_surrogate (PDict d) = items_surrogate d"
| "val_surrogate (POther t) = False"
| "list_surrogate [] = False"
| "list_surrogate (x # xs) = (val_surrogate x \<or> list_surrogate xs)"
| "items_surrogate [] = False"
| "items_surrogate (kv # d) = (item_surrogate kv \<or> items_surrogate d)"
| "item_surrogate (k, v) = (has_surrogate (key_text k) \<or> val_surrogate v)"

end
