(* ===== verification/Py_Time.thy ===== *)
theory Py_Time
  imports Py_Values
begin

text \<open>
  The parts of Python's \<^verbatim>\<open>datetime\<close> and \<^verbatim>\<open>re\<close> that the modules use for time: the
  proleptic Gregorian calendar, the timestamp pattern \<^verbatim>\<open>\d{4}-\d{2}-\d{2}T\d{2}:\d{2}:\d{2}Z\<close>,
  \<^verbatim>\<open>strptime\<close>, \<^verbatim>\<open>fromisoformat\<close> and \<^verbatim>\<open>strftime\<close> (CPython 3.11, which the repository
  pins). An instant is its number of microseconds since the day before 0001-01-01.
  The main result is that printing an instant and parsing it back is the instant cut
  to seconds.
\<close>

section \<open>Calendar\<close>

definition leap :: "int \<Rightarrow> bool" where
  "leap y \<longleftrightarrow> y mod 4 = 0 \<and> (y mod 100 \<noteq> 0 \<or> y mod 400 = 0)"

definition days_before_year :: "int \<Rightarrow> int" where
  "days_before_year y = (y - 1) * 365 + (y - 1) div 4 - (y - 1) div 100 + (y - 1) div 400"

definition days_before_month :: "int \<Rightarrow> int \<Rightarrow> int" where
  "days_before_month y m =
     [0, 31, 59, 90, 120, 151, 181, 212, 243, 273, 304, 334] ! nat (m - 1) +
     (if 2 < m \<and> leap y then 1 else 0)"

definition days_in_month :: "int \<Rightarrow> int \<Rightarrow> int" where
  "days_in_month y m =
     (if m = 2 \<and> leap y then 29 else [31, 28, 31, 30, 31, 30, 31, 31, 30, 31, 30, 31] ! nat (m - 1))"

definition ymd2ord :: "int \<Rightarrow> int \<Rightarrow> int \<Rightarrow> int" where
  "ymd2ord y m d = days_before_year y + days_before_month y m + d"

definition valid_date :: "int \<Rightarrow> int \<Rightarrow> int \<Rightarrow> bool" where
  "valid_date y m d \<longleftrightarrow> 1 \<le> y \<and> y \<le> 9999 \<and> 1 \<le> m \<and> m \<le> 12 \<and> 1 \<le> d \<and> d \<le> days_in_month y m"

text \<open>The inverse: an estimate of the year, corrected by at most one.\<close>

definition ord_year :: "int \<Rightarrow> int" where
  "ord_year n =
     (let y = (400 * (n - 1)) div 146097 + 1
      in if n \<le> days_before_year y then y - 1
         else if days_before_year (y + 1) < n then y + 1 else y)"

definition ord_month :: "int \<Rightarrow> int \<Rightarrow> int" where
  "ord_month y r = int (length (filter (\<lambda>m. days_before_month y m < r) [1, 2, 3, 4, 5, 6, 7, 8, 9, 10, 11, 12]))"

definition ord2ymd :: "int \<Rightarrow> int \<times> int \<times> int" where
  "ord2ymd n =
     (let y = ord_year n; r = n - days_before_year y; m = ord_month y r
      in (y, m, r - days_before_month y m))"

lemma div_lower: "0 < n \<Longrightarrow> n * (x div n) \<le> (x::int)"
  and div_upper: "0 < n \<Longrightarrow> x < n * (x div n) + (n::int)"
  using pos_mod_bound [of n x] pos_mod_sign [of n x] by (simp_all add: minus_mod_eq_mult_div [symmetric])

lemma div_unique_int: "0 < n \<Longrightarrow> n * q \<le> x \<Longrightarrow> x < n * q + n \<Longrightarrow> x div n = (q::int)"
  by (rule int_div_pos_eq [of _ _ _ "x - n * q"]) auto

lemma div_pred_int:
  assumes "0 < (n::int)"
  shows "y div n = (y - 1) div n + (if y mod n = 0 then 1 else 0)"
proof (cases "y mod n = 0")
  case True
  then have e: "n * (y div n) = y" by (simp add: minus_mod_eq_mult_div [symmetric])
  then have "(y - 1) div n = y div n - 1"
    using assms by (intro div_unique_int) (auto simp: algebra_simps)
  with True show ?thesis by simp
next
  case False
  then have "0 < y mod n" using pos_mod_sign [OF assms, of y] by linarith
  then have "(y - 1) div n = y div n"
    using assms pos_mod_bound [OF assms, of y] minus_mod_eq_mult_div [of y n]
    by (intro div_unique_int) linarith+
  with False show ?thesis by simp
qed

lemma days_before_year_Suc: "days_before_year (y + 1) = days_before_year y + (if leap y then 366 else 365)"
proof -
  have m: "y mod 400 = 0 \<Longrightarrow> y mod 100 = 0" "y mod 100 = 0 \<Longrightarrow> y mod 4 = 0"
    using mod_mod_cancel [of 100 400 y] mod_mod_cancel [of 4 100 y] by simp_all
  have e: "y div 4 = (y - 1) div 4 + (if y mod 4 = 0 then 1 else 0)"
    "y div 100 = (y - 1) div 100 + (if y mod 100 = 0 then 1 else 0)"
    "y div 400 = (y - 1) div 400 + (if y mod 400 = 0 then 1 else 0)"
    by (rule div_pred_int, simp)+
  have "days_before_year (y + 1) = 365 * y + y div 4 - y div 100 + y div 400"
    by (simp add: days_before_year_def)
  also have "\<dots> = days_before_year y + (if leap y then 366 else 365)"
    unfolding e days_before_year_def leap_def using m by (cases "y mod 400 = 0"; cases "y mod 100 = 0"; cases "y mod 4 = 0") simp_all
  finally show ?thesis .
qed

lemma days_before_year_mono_nat: "days_before_year y + 365 * int k \<le> days_before_year (y + int k)"
proof (induction k)
  case 0
  then show ?case by simp
next
  case (Suc k)
  have "days_before_year (y + int (Suc k)) =
      days_before_year (y + int k) + (if leap (y + int k) then 366 else 365)"
    using days_before_year_Suc [of "y + int k"] by (simp add: algebra_simps)
  with Suc show ?case by (auto simp: algebra_simps)
qed

lemma days_before_year_mono: "y \<le> y' \<Longrightarrow> days_before_year y + 365 * (y' - y) \<le> days_before_year y'"
  using days_before_year_mono_nat [of y "nat (y' - y)"] by simp

lemma year_bounds_arith:
  assumes "4 * a \<le> z" "z < 4 * a + 4" "100 * b \<le> z" "z < 100 * b + 100" "400 * c \<le> z" "z < 400 * c + (400::int)"
  shows "146097 * z - 700 \<le> 400 * (z * 365 + a - b + c)" "400 * (z * 365 + a - b + c) \<le> 146097 * z + 400"
  using assms by (simp_all add: algebra_simps)

lemma days_before_year_bounds:
  "146097 * (y - 1) - 700 \<le> 400 * days_before_year y"
  "400 * days_before_year y \<le> 146097 * (y - 1) + 400"
  unfolding days_before_year_def
  by (rule year_bounds_arith; rule div_lower div_upper, simp)+

lemma ord_year_correct: "days_before_year (ord_year n) < n \<and> n \<le> days_before_year (ord_year n + 1)"
proof -
  define y where "y = (400 * (n - 1)) div 146097 + 1"
  have y: "146097 * (y - 1) \<le> 400 * (n - 1)" "400 * (n - 1) < 146097 * y"
    using div_lower [of 146097 "400 * (n - 1)"] div_upper [of 146097 "400 * (n - 1)"]
    unfolding y_def by simp_all
  note b = days_before_year_bounds [of "y - 1"] days_before_year_bounds [of y]
    days_before_year_bounds [of "y + 1"] days_before_year_bounds [of "y + 2"]
  have "days_before_year (y - 1) < n" using y b(2) by simp
  moreover have "n \<le> days_before_year (y + 2)" using y b(7) by simp
  moreover have "ord_year n = (if n \<le> days_before_year y then y - 1 else if days_before_year (y + 1) < n then y + 1 else y)"
    unfolding ord_year_def Let_def y_def by (rule refl)
  ultimately show ?thesis by (simp add: add.assoc)
qed

lemma ord_year_unique:
  assumes "days_before_year y < n" "n \<le> days_before_year (y + 1)"
  shows "ord_year n = y"
proof (rule ccontr)
  assume "ord_year n \<noteq> y"
  then consider "ord_year n + 1 \<le> y" | "y + 1 \<le> ord_year n" by linarith
  then show False
    using ord_year_correct [of n] assms days_before_year_mono [of "ord_year n + 1" y]
      days_before_year_mono [of "y + 1" "ord_year n"]
    by cases auto
qed

lemma month_cases: "1 \<le> m \<Longrightarrow> m \<le> 12 \<Longrightarrow> m \<in> {1, 2, 3, 4, 5, 6, 7, 8, 9, 10, 11, 12 :: int}"
  by simp presburger

lemma ord_month_unique:
  assumes "1 \<le> m" "m \<le> 12" "1 \<le> d" "d \<le> days_in_month y m"
  shows "ord_month y (days_before_month y m + d) = m"
proof (cases "leap y")
  case True
  show ?thesis
    using month_cases [OF assms(1,2)] assms(3,4) unfolding insert_iff empty_iff
    by (elim disjE) (simp_all add: True ord_month_def days_before_month_def days_in_month_def)
next
  case False
  show ?thesis
    using month_cases [OF assms(1,2)] assms(3,4) unfolding insert_iff empty_iff
    by (elim disjE) (simp_all add: False ord_month_def days_before_month_def days_in_month_def)
qed

lemma ymd_within_year:
  assumes "valid_date y m d"
  shows "days_before_year y < ymd2ord y m d \<and> ymd2ord y m d \<le> days_before_year (y + 1)"
proof -
  have m: "1 \<le> m" "m \<le> 12" "1 \<le> d" "d \<le> days_in_month y m"
    using assms by (auto simp: valid_date_def)
  show ?thesis
    using month_cases [OF m(1,2)] m(3,4) unfolding insert_iff empty_iff
    by (elim disjE; cases "leap y")
       (simp_all add: ymd2ord_def days_before_year_Suc days_before_month_def days_in_month_def)
qed

lemma ord2ymd_ymd2ord: "valid_date y m d \<Longrightarrow> ord2ymd (ymd2ord y m d) = (y, m, d)"
  using ord_year_unique [OF ymd_within_year [THEN conjunct1] ymd_within_year [THEN conjunct2]]
    ord_month_unique [of m d y]
  by (simp add: ord2ymd_def ymd2ord_def valid_date_def)

text \<open>The month of a day of the year, by the twelve month ends.\<close>

lemma ord_month_step:
  assumes "1 \<le> m" "m \<le> 12" "days_before_month y m < r" "r \<le> days_before_month y m + days_in_month y m"
  shows "ord_month y r = m"
  using ord_month_unique [of m "r - days_before_month y m" y] assms by simp

lemma day_of_year_month:
  assumes "1 \<le> r" "r \<le> (if leap y then 366 else 365)"
  shows "\<exists>m\<in>{1, 2, 3, 4, 5, 6, 7, 8, 9, 10, 11, 12}.
    days_before_month y m < r \<and> r \<le> days_before_month y m + days_in_month y m"
proof (cases "leap y")
  case True
  with assms show ?thesis by (simp add: days_before_month_def days_in_month_def) linarith
next
  case False
  with assms show ?thesis by (simp add: days_before_month_def days_in_month_def) linarith
qed

lemma ord_month_correct:
  assumes "1 \<le> r" "r \<le> (if leap y then 366 else 365)"
  shows "1 \<le> ord_month y r \<and> ord_month y r \<le> 12 \<and> days_before_month y (ord_month y r) < r \<and>
    r \<le> days_before_month y (ord_month y r) + days_in_month y (ord_month y r)"
proof -
  obtain m where m: "m \<in> {1, 2, 3, 4, 5, 6, 7, 8, 9, 10, 11, 12}" "days_before_month y m < r"
    "r \<le> days_before_month y m + days_in_month y m"
    using day_of_year_month [OF assms] by blast
  then have r: "1 \<le> m" "m \<le> 12" by auto
  show ?thesis using ord_month_step [OF r m(2,3)] m(2,3) r by simp
qed

lemma ord2ymd_correct:
  assumes "ord2ymd n = (y, m, d)" "1 \<le> y" "y \<le> 9999"
  shows "valid_date y m d" "ymd2ord y m d = n"
proof -
  have y: "y = ord_year n" using assms(1) by (simp add: ord2ymd_def Let_def)
  have r: "1 \<le> n - days_before_year y" "n - days_before_year y \<le> (if leap y then 366 else 365)"
    using ord_year_correct [of n] days_before_year_Suc [of y] by (auto simp: y)
  show "valid_date y m d" "ymd2ord y m d = n"
    using ord_month_correct [OF r] assms
    by (auto simp: ord2ymd_def Let_def valid_date_def ymd2ord_def y [symmetric])
qed

section \<open>Timestamp text\<close>

text \<open>
  The decimal digits of Unicode 14 outside ASCII that \<^verbatim>\<open>\d\<close> matches, as UTF-8: the leading
  bytes and the last byte of the zero of each block of ten.
\<close>

definition digit_blocks :: "(nat list \<times> nat) list" where
  "digit_blocks =
    [([217], 160), ([219], 176), ([223], 128), ([224, 165], 166), ([224, 167], 166),
     ([224, 169], 166), ([224, 171], 166), ([224, 173], 166), ([224, 175], 166),
     ([224, 177], 166), ([224, 179], 166), ([224, 181], 166), ([224, 183], 166),
     ([224, 185], 144), ([224, 187], 144), ([224, 188], 160), ([225, 129], 128),
     ([225, 130], 144), ([225, 159], 160), ([225, 160], 144), ([225, 165], 134),
     ([225, 167], 144), ([225, 170], 128), ([225, 170], 144), ([225, 173], 144),
     ([225, 174], 176), ([225, 177], 128), ([225, 177], 144), ([234, 152], 160),
     ([234, 163], 144), ([234, 164], 128), ([234, 167], 144), ([234, 167], 176),
     ([234, 169], 144), ([234, 175], 176), ([239, 188], 144), ([240, 144, 146], 160),
     ([240, 144, 180], 176), ([240, 145, 129], 166), ([240, 145, 131], 176),
     ([240, 145, 132], 182), ([240, 145, 135], 144), ([240, 145, 139], 176),
     ([240, 145, 145], 144), ([240, 145, 147], 144), ([240, 145, 153], 144),
     ([240, 145, 155], 128), ([240, 145, 156], 176), ([240, 145, 163], 160),
     ([240, 145, 165], 144), ([240, 145, 177], 144), ([240, 145, 181], 144),
     ([240, 145, 182], 160), ([240, 150, 169], 160), ([240, 150, 171], 128),
     ([240, 150, 173], 144), ([240, 157, 159], 142), ([240, 157, 159], 152),
     ([240, 157, 159], 162), ([240, 157, 159], 172), ([240, 157, 159], 182),
     ([240, 158, 133], 128), ([240, 158, 139], 176), ([240, 158, 165], 144),
     ([240, 159, 175], 176)]"

fun take_unicode_digit :: "(nat list \<times> nat) list \<Rightarrow> string \<Rightarrow> (nat \<times> bool \<times> string) option" where
  "take_unicode_digit [] s = None"
| "take_unicode_digit ((pre, base) # bs) s =
     (case drop (length pre) s of
        c # r \<Rightarrow>
          (if map of_char (take (length pre) s) = pre \<and> in_range base (base + 9) c
           then Some (of_char c - base, False, r) else take_unicode_digit bs s)
      | [] \<Rightarrow> take_unicode_digit bs s)"

text \<open>One \<^verbatim>\<open>\d\<close>: its value, whether it is ASCII, and the rest.\<close>

fun take_digit :: "string \<Rightarrow> (nat \<times> bool \<times> string) option" where
  "take_digit [] = None"
| "take_digit (c # r) =
     (if is_digit c then Some (digit_val c, True, r) else take_unicode_digit digit_blocks (c # r))"

fun scan :: "char option list \<Rightarrow> string \<Rightarrow> (nat \<times> bool) list option" where
  "scan [] s = (if s = [] then Some [] else None)"
| "scan (Some c # p) s = (case s of [] \<Rightarrow> None | d # r \<Rightarrow> if d = c then scan p r else None)"
| "scan (None # p) s =
     (case take_digit s of
        None \<Rightarrow> None
      | Some (v, a, r) \<Rightarrow> (case scan p r of None \<Rightarrow> None | Some ds \<Rightarrow> Some ((v, a) # ds)))"

definition timestamp_pattern :: "char option list" where
  "timestamp_pattern =
     [None, None, None, None, Some (CHR ''-''), None, None, Some (CHR ''-''), None, None,
      Some (CHR ''T''), None, None, Some (CHR '':''), None, None, Some (CHR '':''), None, None,
      Some (CHR ''Z'')]"

definition micros :: "int \<Rightarrow> int \<Rightarrow> int \<Rightarrow> int \<Rightarrow> int \<Rightarrow> int \<Rightarrow> int" where
  "micros y m d H M S = (((ymd2ord y m d * 24 + H) * 60 + M) * 60 + S) * 1000000"

definition clock_of :: "int \<Rightarrow> int \<Rightarrow> int \<Rightarrow> int \<Rightarrow> int \<Rightarrow> int \<Rightarrow> int option" where
  "clock_of y m d H M S =
     (if valid_date y m d \<and> H \<le> 23 \<and> M \<le> 59 \<and> S \<le> 59 then Some (micros y m d H M S) else None)"

text \<open>
  \<^verbatim>\<open>strptime\<close> with \<^verbatim>\<open>%Y-%m-%dT%H:%M:%SZ\<close>: the year may use any digits, the month only ASCII
  digits, and in the other fields only the last digit may be non-ASCII, and only where
  the first one leaves it free.
\<close>

fun strptime_fields :: "(nat \<times> bool) list \<Rightarrow> int option" where
  "strptime_fields
     [(y1, _), (y2, _), (y3, _), (y4, _), (m1, am1), (m2, am2), (d1, ad1), (d2, ad2),
      (h1, ah1), (h2, ah2), (n1, an1), (n2, an2), (s1, as1), (s2, as2)] =
     (if am1 \<and> am2 \<and> ad1 \<and> (d1 = 1 \<or> d1 = 2 \<or> ad2) \<and> ah1 \<and> (h1 = 0 \<or> h1 = 1 \<or> ah2) \<and> an1 \<and> as1
      then clock_of (int (1000 * y1 + 100 * y2 + 10 * y3 + y4)) (int (10 * m1 + m2)) (int (10 * d1 + d2))
             (int (10 * h1 + h2)) (int (10 * n1 + n2)) (int (10 * s1 + s2))
      else None)"
| "strptime_fields _ = None"

text \<open>\<^verbatim>\<open>fromisoformat\<close> reads ASCII digits only.\<close>

definition isoformat_fields :: "(nat \<times> bool) list \<Rightarrow> int option" where
  "isoformat_fields ds = (if list_all snd ds then strptime_fields ds else None)"

definition strptime_utc :: "string \<Rightarrow> int option" where
  "strptime_utc s = Option.bind (scan timestamp_pattern s) strptime_fields"

definition fromisoformat_utc :: "string \<Rightarrow> int option" where
  "fromisoformat_utc s = Option.bind (scan timestamp_pattern s) isoformat_fields"

lemma fromisoformat_imp_strptime: "fromisoformat_utc s = Some t \<Longrightarrow> strptime_utc s = Some t"
  by (auto simp: fromisoformat_utc_def strptime_utc_def isoformat_fields_def
      split: bind_splits if_splits)

definition timestamp_with ::
  "exn_class \<Rightarrow> (string \<Rightarrow> int option) \<Rightarrow> pyval \<Rightarrow> string \<Rightarrow> int res" where
  "timestamp_with C parse v f =
     (case v of
        PStr s \<Rightarrow> (case parse s of Some t \<Rightarrow> Inr t | None \<Rightarrow> Inl (Exn C ''invalid_timestamp'' f))
      | _ \<Rightarrow> Inl (Exn C ''invalid_timestamp'' f))"

lemma timestamp_with_Inr [res_simps]:
  "timestamp_with C parse v f = Inr t \<longleftrightarrow> (\<exists>s. v = PStr s \<and> parse s = Some t)"
  by (cases v) (auto simp: timestamp_with_def split: option.splits)

lemma raises_timestamp_with [raises_intros]:
  "P (Exn C ''invalid_timestamp'' f) \<Longrightarrow> raises P (timestamp_with C parse v f)"
  by (cases v) (auto simp: timestamp_with_def raises_def split: option.splits)

section \<open>Clocks and printing\<close>

text \<open>A \<^verbatim>\<open>datetime\<close>: its wall clock in microseconds and its UTC offset, None when naive.\<close>

record py_datetime =
  wall :: int
  utcoffset :: "int option"

definition instant :: "py_datetime \<Rightarrow> int" where
  "instant t = (case utcoffset t of None \<Rightarrow> wall t | Some off \<Rightarrow> wall t - off)"

definition utc_datetime :: "int \<Rightarrow> py_datetime" where
  "utc_datetime us = \<lparr>wall = us, utcoffset = Some 0\<rparr>"

definition to_seconds :: "int \<Rightarrow> int" where
  "to_seconds us = us div 1000000 * 1000000"

definition pad2 :: "int \<Rightarrow> string" where
  "pad2 n = [digit_char (nat (n div 10)), digit_char (nat (n mod 10))]"

text \<open>\<^verbatim>\<open>strftime("%Y-%m-%dT%H:%M:%SZ")\<close>; CPython 3.11 on glibc does not pad the year.\<close>

definition strftime_utc :: "int \<Rightarrow> string" where
  "strftime_utc us =
     (let secs = us div 1000000; (y, m, d) = ord2ymd (secs div 86400)
      in str_int y @ ''-'' @ pad2 m @ ''-'' @ pad2 d @ ''T'' @ pad2 (secs div 3600 mod 24) @ '':'' @
         pad2 (secs div 60 mod 60) @ '':'' @ pad2 (secs mod 60) @ ''Z'')"

text \<open>The instants whose year has four digits.\<close>

definition four_digit_year :: "int \<Rightarrow> bool" where
  "four_digit_year us \<longleftrightarrow> (let y = ord_year (us div 1000000 div 86400) in 1000 \<le> y \<and> y \<le> 9999)"

lemma take_digit_digit_char [simp]: "n < 10 \<Longrightarrow> take_digit (digit_char n # r) = Some (n, True, r)"
  by simp

lemma dec_nat_4:
  assumes "1000 \<le> n" "n \<le> 9999"
  shows "dec_nat n = [digit_char (n div 1000), digit_char (n div 100 mod 10), digit_char (n div 10 mod 10),
    digit_char (n mod 10)]"
proof -
  have "n div 10 div 10 = n div 100" "n div 10 div 10 div 10 = n div 1000"
    by (simp_all add: div_mult2_eq [symmetric])
  moreover have "\<not> n div 100 < 10" "\<not> n div 10 < 10" "n div 1000 < 10"
    using assms by auto
  ultimately show ?thesis
    using assms by (simp add: dec_nat.simps [of n] dec_nat.simps [of "n div 10"]
        dec_nat.simps [of "n div 100"] dec_nat.simps [of "n div 1000"])
qed

lemma scan_literal [simp]: "scan (Some c # p) (c # r) = scan p r"
  by simp

lemma scan_digit [simp]:
  "n < 10 \<Longrightarrow> scan (None # p) (digit_char n # r) = map_option ((#) (n, True)) (scan p r)"
  by (simp split: option.split)

lemma strftime_components:
  assumes "four_digit_year us"
  obtains y m d where "ord2ymd (us div 1000000 div 86400) = (y, m, d)" "1000 \<le> y" "valid_date y m d"
    "ymd2ord y m d = us div 1000000 div 86400"
proof -
  obtain y m d where e: "ord2ymd (us div 1000000 div 86400) = (y, m, d)" by (metis prod_cases3)
  then have "y = ord_year (us div 1000000 div 86400)" by (simp add: ord2ymd_def Let_def)
  with assms have "1000 \<le> y" "y \<le> 9999" by (simp_all add: four_digit_year_def Let_def)
  with e show ?thesis using ord2ymd_correct [OF e] by (intro that [of y m d]) auto
qed

lemma micros_of_seconds:
  "(((s div 86400 * 24 + s div 3600 mod 24) * 60 + s div 60 mod 60) * 60 + s mod 60) = (s :: int)"
proof -
  have "s div 3600 = s div 60 div 60" "s div 86400 = s div 60 div 60 div 24"
    by (simp_all add: zdiv_zmult2_eq [symmetric])
  then show ?thesis
    using mult_div_mod_eq [of 24 "s div 60 div 60"] mult_div_mod_eq [of 60 "s div 60"] mult_div_mod_eq [of 60 s]
    by simp
qed

lemma two_digits: "0 \<le> n \<Longrightarrow> n \<le> 99 \<Longrightarrow> 10 * nat (n div 10) + nat (n mod 10) = nat n"
proof -
  assume "0 \<le> n" "n \<le> 99"
  then have "int (10 * nat (n div 10) + nat (n mod 10)) = n"
    by (simp add: pos_imp_zdiv_nonneg_iff)
  then show ?thesis by linarith
qed

lemma pad2_digits: "0 \<le> n \<Longrightarrow> n \<le> 99 \<Longrightarrow> nat (n div 10) < 10 \<and> nat (n mod 10) < 10"
  by auto

lemma four_digits:
  "1000 * (n div 1000) + 100 * (n div 100 mod 10) + 10 * (n div 10 mod 10) + n mod 10 = (n::nat)"
proof -
  have arith: "10 * a + r = m \<Longrightarrow> 10 * b + q = a \<Longrightarrow> 10 * c + p = b \<Longrightarrow>
      1000 * c + 100 * p + 10 * q + r = m" for a b c m p q r :: nat
    by simp
  have "n div 100 = n div 10 div 10" "n div 1000 = n div 10 div 10 div 10"
    by (simp_all add: div_mult2_eq [symmetric])
  then show ?thesis
    by (simp only:) (rule arith [OF mult_div_mod_eq mult_div_mod_eq mult_div_mod_eq])
qed

lemma days_in_month_le: "1 \<le> m \<Longrightarrow> m \<le> 12 \<Longrightarrow> days_in_month y m \<le> 31"
  using month_cases [of m] by (auto simp: days_in_month_def)

lemma scan_strftime:
  assumes "1000 \<le> y" "valid_date y m d" "0 \<le> H" "H \<le> 99" "0 \<le> M" "M \<le> 99" "0 \<le> S" "S \<le> 99"
  shows "scan timestamp_pattern
      (str_int y @ ''-'' @ pad2 m @ ''-'' @ pad2 d @ ''T'' @ pad2 H @ '':'' @ pad2 M @ '':'' @ pad2 S @ ''Z'') =
    Some (map (\<lambda>n. (n, True))
      [nat y div 1000, nat y div 100 mod 10, nat y div 10 mod 10, nat y mod 10, nat (m div 10), nat (m mod 10),
       nat (d div 10), nat (d mod 10), nat (H div 10), nat (H mod 10), nat (M div 10), nat (M mod 10),
       nat (S div 10), nat (S mod 10)])"
proof -
  have v: "1 \<le> m" "m \<le> 12" "1 \<le> d" "y \<le> 9999" "d \<le> 31"
    using assms(2) days_in_month_le [of m y] by (auto simp: valid_date_def)
  then have "nat y div 1000 < 10" by simp
  then show ?thesis
    using v assms pad2_digits [of m] pad2_digits [of d] pad2_digits [of H] pad2_digits [of M] pad2_digits [of S]
    by (simp add: timestamp_pattern_def dec_nat_4 pad2_def del: scan.simps(2,3))
qed

lemma strptime_text:
  assumes "1000 \<le> y" "valid_date y m d" "0 \<le> H" "H \<le> 23" "0 \<le> M" "M \<le> 59" "0 \<le> S" "S \<le> 59"
  shows "strptime_utc
      (str_int y @ ''-'' @ pad2 m @ ''-'' @ pad2 d @ ''T'' @ pad2 H @ '':'' @ pad2 M @ '':'' @ pad2 S @ ''Z'') =
    Some (micros y m d H M S)"
proof -
  have v: "1 \<le> m" "m \<le> 12" "1 \<le> d" "y \<le> 9999" "d \<le> 31"
    using assms(2) days_in_month_le [of m y] by (auto simp: valid_date_def)
  have two: "10 * nat (m div 10) + nat (m mod 10) = nat m" "10 * nat (d div 10) + nat (d mod 10) = nat d"
    "10 * nat (H div 10) + nat (H mod 10) = nat H" "10 * nat (M div 10) + nat (M mod 10) = nat M"
    "10 * nat (S div 10) + nat (S mod 10) = nat S"
    using v assms by (simp_all add: two_digits)
  have ints: "int (nat m) = m" "int (nat d) = d" "int (nat H) = H" "int (nat M) = M" "int (nat S) = S"
    "int (nat y) = y"
    using v assms by simp_all
  have "clock_of y m d H M S = Some (micros y m d H M S)"
    using assms by (simp add: clock_of_def)
  moreover have sc: "H \<le> 99" "M \<le> 99" "S \<le> 99" using assms by auto
  ultimately show ?thesis
    unfolding strptime_utc_def
    by (simp only: scan_strftime [OF assms(1,2,3) sc(1) assms(5) sc(2) assms(7) sc(3)] bind.simps list.map
        strptime_fields.simps two four_digits ints simp_thms if_True)
qed

theorem strptime_strftime:
  assumes "four_digit_year us"
  shows "strptime_utc (strftime_utc us) = Some (to_seconds us)"
proof -
  define s where "s = us div 1000000"
  obtain y m d where e: "ord2ymd (s div 86400) = (y, m, d)" "1000 \<le> y" "valid_date y m d"
    "ymd2ord y m d = s div 86400"
    using strftime_components [OF assms] unfolding s_def by metis
  have b: "0 \<le> s div 3600 mod 24" "s div 3600 mod 24 \<le> 23" "0 \<le> s div 60 mod 60" "s div 60 mod 60 \<le> 59"
    "0 \<le> s mod 60" "s mod 60 \<le> 59"
    using pos_mod_bound [of 24 "s div 3600"] pos_mod_bound [of 60 "s div 60"] pos_mod_bound [of 60 s] by simp_all
  have t: "strftime_utc us = str_int y @ ''-'' @ pad2 m @ ''-'' @ pad2 d @ ''T'' @ pad2 (s div 3600 mod 24) @ '':'' @
      pad2 (s div 60 mod 60) @ '':'' @ pad2 (s mod 60) @ ''Z''"
    by (simp only: strftime_utc_def Let_def s_def [symmetric] e(1) prod.case)
  have "strptime_utc (strftime_utc us) = Some (micros y m d (s div 3600 mod 24) (s div 60 mod 60) (s mod 60))"
    unfolding t by (rule strptime_text [OF e(2,3) b])
  also have "\<dots> = Some (to_seconds us)"
    unfolding micros_def e(4) micros_of_seconds to_seconds_def s_def by (rule refl)
  finally show ?thesis .
qed

lemma to_seconds_le: "to_seconds us \<le> us"
  unfolding to_seconds_def by presburger

lemma to_seconds_mono: "a \<le> b \<Longrightarrow> to_seconds a \<le> to_seconds b"
  by (simp add: to_seconds_def zdiv_mono1)

end
