(* ===== verification/Canonical.thy ===== *)
theory Canonical
  imports Py_Time Sha256
begin

text \<open>
  \<^verbatim>\<open>foundry_channel_protocol/canonical.py\<close>: the JSON value domain of signed objects, RFC 8785
  bytes and their SHA-256 text, self-hashed records, canonical sets and registered
  domains. The third-party \<^verbatim>\<open>rfc8785\<close> serializer is the argument \<open>jcs\<close> (\<open>None\<close> when it
  raises); \<^verbatim>\<open>hashlib\<close> is \<open>sha256_hex\<close>. The four hooks of
  \<^verbatim>\<open>parse_strict_json\<close> are here; the reader that calls them is in \<open>Strict_Json\<close>.
\<close>

type_synonym serializer = "pyval \<Rightarrow> string option"

definition canon_error :: "string \<Rightarrow> string \<Rightarrow> string \<Rightarrow> exn" where
  "canon_error code stage path = Exn CanonicalizationError code (stage @ '':'' @ path)"

section \<open>The value domain\<close>

primrec validate_json_value :: "pyval \<Rightarrow> string \<Rightarrow> unit res"
  and validate_json_list :: "pyval list \<Rightarrow> string \<Rightarrow> nat \<Rightarrow> unit res"
  and validate_json_items :: "pydict \<Rightarrow> string \<Rightarrow> unit res"
  and validate_json_item :: "pykey \<times> pyval \<Rightarrow> string \<Rightarrow> unit res"
where
  "validate_json_value PNone path = Inl (canon_error ''null_forbidden'' ''projection'' path)"
| "validate_json_value (PBool b) path = Inr ()"
| "validate_json_value (PInt i) path =
     reject_if (\<not> (0 \<le> i \<and> i \<le> json_safe_max)) (canon_error ''unsafe_integer'' ''projection'' path)"
| "validate_json_value (PFloat t) path = Inl (canon_error ''float_forbidden'' ''projection'' path)"
| "validate_json_value (PStr s) path =
     reject_if (has_surrogate s) (canon_error ''lone_surrogate'' ''canonicalization'' path)"
| "validate_json_value (PList xs) path = validate_json_list xs path 0"
| "validate_json_value (PDict d) path = validate_json_items d path"
| "validate_json_value (POther t) path =
     Inl (canon_error ''unsupported_json_type'' ''projection'' path)"
| "validate_json_list [] path n = Inr ()"
| "validate_json_list (x # xs) path n =
     bind_res (validate_json_value x (path @ ''['' @ dec_nat n @ '']'')) (\<lambda>_.
     validate_json_list xs path (Suc n))"
| "validate_json_items [] path = Inr ()"
| "validate_json_items (kv # d) path =
     bind_res (validate_json_item kv path) (\<lambda>_. validate_json_items d path)"
| "validate_json_item (k, v) path =
     (case k of
        KStr s \<Rightarrow>
          bind_res (reject_if (has_surrogate s)
            (canon_error ''lone_surrogate'' ''canonicalization'' (path @ ''.<key>''))) (\<lambda>_.
          validate_json_value v (path @ ''.'' @ s))
      | _ \<Rightarrow> Inl (canon_error ''non_string_key'' ''projection'' path))"

text \<open>The values a signed object may hold, declaratively.\<close>

primrec signable :: "pyval \<Rightarrow> bool"
  and signable_list :: "pyval list \<Rightarrow> bool"
  and signable_items :: "pydict \<Rightarrow> bool"
  and signable_item :: "pykey \<times> pyval \<Rightarrow> bool"
where
  "signable PNone = False"
| "signable (PBool b) = True"
| "signable (PInt i) = (0 \<le> i \<and> i \<le> json_safe_max)"
| "signable (PFloat t) = False"
| "signable (PStr s) = (\<not> has_surrogate s)"
| "signable (PList xs) = signable_list xs"
| "signable (PDict d) = signable_items d"
| "signable (POther t) = False"
| "signable_list [] = True"
| "signable_list (x # xs) = (signable x \<and> signable_list xs)"
| "signable_items [] = True"
| "signable_items (kv # d) = (signable_item kv \<and> signable_items d)"
| "signable_item (k, v) = ((case k of KStr s \<Rightarrow> \<not> has_surrogate s | _ \<Rightarrow> False) \<and> signable v)"

section \<open>Decoder hooks\<close>

text \<open>\<^verbatim>\<open>object_pairs_hook\<close>: the pairs of one object in document order.\<close>

fun pairs_without_duplicates :: "pydict \<Rightarrow> (string \<times> pyval) list \<Rightarrow> pydict res" where
  "pairs_without_duplicates acc [] = Inr acc"
| "pairs_without_duplicates acc ((k, v) # ps) =
     (if has_key acc k then Inl (canon_error ''duplicate_key'' ''parse'' (''$.'' @ k))
      else pairs_without_duplicates (acc @ [(KStr k, v)]) ps)"

definition reject_float :: "string \<Rightarrow> pyval res" where
  "reject_float t =
     Inl (canon_error
       (if List.member [''-0.0'', ''-0e0'', ''-0E0''] t then ''negative_zero'' else ''float_forbidden'')
       ''parse'' ''$'')"

text \<open>The text of a JSON integer: an optional minus and digits.\<close>

definition int_of_text :: "string \<Rightarrow> int" where
  "int_of_text t = (case t of CHR ''-'' # r \<Rightarrow> - int (undec_nat r) | _ \<Rightarrow> int (undec_nat t))"

definition digit_count :: "string \<Rightarrow> nat" where
  "digit_count t = (case t of CHR ''-'' # r \<Rightarrow> length r | _ \<Rightarrow> length t)"

definition parse_integer :: "string \<Rightarrow> pyval res" where
  "parse_integer t =
     (if t = ''-0'' then Inl (canon_error ''negative_zero'' ''parse'' ''$'')
      else if 4300 < digit_count t then Inl (PyRaise ''ValueError'')
      else let parsed = int_of_text t
           in if \<not> (0 \<le> parsed \<and> parsed \<le> json_safe_max)
              then Inl (canon_error ''unsafe_integer'' ''parse'' ''$'') else Inr (PInt parsed))"

definition reject_constant :: "string \<Rightarrow> pyval res" where
  "reject_constant t = Inl (canon_error ''non_finite_number'' ''parse'' ''$'')"

section \<open>Bytes and hashes\<close>

definition canonical_json_bytes :: "serializer \<Rightarrow> pyval \<Rightarrow> string res" where
  "canonical_json_bytes jcs v =
     bind_res (validate_json_value v ''$'') (\<lambda>_.
     case jcs v of
       Some b \<Rightarrow> Inr b
     | None \<Rightarrow> Inl (canon_error ''jcs_rejected'' ''canonicalization'' ''$''))"

definition sha256_raw_bytes :: "string \<Rightarrow> string" where
  "sha256_raw_bytes b = ''sha256:'' @ sha256_hex b"

definition sha256_canonical_json :: "serializer \<Rightarrow> pyval \<Rightarrow> string res" where
  "sha256_canonical_json jcs v =
     bind_res (canonical_json_bytes jcs v) (\<lambda>b. Inr (sha256_raw_bytes b))"

definition hash_pattern :: "pyval \<Rightarrow> bool" where
  "hash_pattern v = (case v of PStr s \<Rightarrow> hash_text s | _ \<Rightarrow> False)"

definition verify_declared_hash :: "pyval \<Rightarrow> pyval \<Rightarrow> unit res" where
  "verify_declared_hash v expected =
     run_all
       [reject_if (\<not> hash_pattern v)
          (canon_error ''invalid_hash'' ''hash_verification'' ''$.declared_hash''),
        reject_if (\<not> hash_pattern expected)
          (canon_error ''invalid_hash'' ''hash_verification'' ''$.expected_hash''),
        reject_if (v \<noteq> expected) (canon_error ''hash_mismatch'' ''hash_verification'' ''$'')]"

definition unsigned_record_projection :: "pyval \<Rightarrow> string \<Rightarrow> pydict res" where
  "unsigned_record_projection record own =
     (case record of
        PDict d \<Rightarrow>
          (if own = [] then Inl (canon_error ''invalid_hash_field'' ''projection'' ''$'')
           else if \<not> has_key d own
             then Inl (canon_error ''own_hash_missing'' ''projection'' (''$.'' @ own))
           else Inr (filter (\<lambda>kv. fst kv \<noteq> KStr own) d))
      | _ \<Rightarrow> Inl (canon_error ''invalid_record'' ''projection'' ''$''))"

definition verify_self_hashed_record :: "serializer \<Rightarrow> pyval \<Rightarrow> string \<Rightarrow> pydict res" where
  "verify_self_hashed_record jcs record own =
     bind_res (unsigned_record_projection record own) (\<lambda>projection.
     bind_res (sha256_canonical_json jcs (PDict projection)) (\<lambda>expected.
     bind_res (verify_declared_hash
         (case record of PDict d \<Rightarrow> item d own | _ \<Rightarrow> PNone) (PStr expected)) (\<lambda>_.
     Inr projection)))"

section \<open>Sets, amounts, integers, timestamps, domains\<close>

fun str_of :: "pyval \<Rightarrow> string option" where
  "str_of (PStr s) = Some s"
| "str_of _ = None"

definition validate_canonical_set :: "pyval \<Rightarrow> string \<Rightarrow> string list res" where
  "validate_canonical_set values path =
     (case values of
        PList vs \<Rightarrow>
          (if list_ex (\<lambda>v. str_of v = None) vs
             then Inl (canon_error ''invalid_canonical_set'' ''projection'' path)
           else let ss = map (the \<circ> str_of) vs
                in if \<not> distinct ss then Inl (canon_error ''canonical_set_duplicate'' ''projection'' path)
                   else if ss \<noteq> sort ss then Inl (canon_error ''canonical_set_order'' ''projection'' path)
                   else Inr ss)
      | _ \<Rightarrow> Inl (canon_error ''invalid_canonical_set'' ''projection'' path))"

definition validate_amount_text :: "pyval \<Rightarrow> string \<Rightarrow> bool \<Rightarrow> string res" where
  "validate_amount_text v path u64 =
     (case v of
        PStr s \<Rightarrow>
          (if \<not> amount_text s then Inl (canon_error ''invalid_amount'' ''schema'' path)
           else if u64 \<and> 4300 < length s then Inl (PyRaise ''ValueError'')
           else if u64 \<and> int (undec_nat s) > u64_max
             then Inl (canon_error ''amount_out_of_range'' ''schema'' path)
           else Inr s)
      | _ \<Rightarrow> Inl (canon_error ''invalid_amount'' ''schema'' path))"

definition validate_unsigned_integer :: "pyval \<Rightarrow> string \<Rightarrow> int \<Rightarrow> int res" where
  "validate_unsigned_integer v path maximum =
     (case v of
        PInt i \<Rightarrow>
          (if 0 \<le> i \<and> i \<le> maximum then Inr i else Inl (canon_error ''invalid_integer'' ''schema'' path))
      | _ \<Rightarrow> Inl (canon_error ''invalid_integer'' ''schema'' path))"

definition validate_timestamp_text :: "pyval \<Rightarrow> string \<Rightarrow> string res" where
  "validate_timestamp_text v path =
     (case v of
        PStr s \<Rightarrow>
          (case strptime_utc s of
             Some t \<Rightarrow> Inr s
           | None \<Rightarrow> Inl (canon_error ''invalid_timestamp'' ''schema'' path))
      | _ \<Rightarrow> Inl (canon_error ''invalid_timestamp'' ''schema'' path))"

definition explicit_domains :: "string list" where
  "explicit_domains =
     [''foundry.channels.voucher'', ''foundry.channels.recipient-binding'',
      ''foundry.channels.recipient-binding-journal'', ''foundry.channels.voucher-ledger-scope'']"

definition type_domains :: "(string \<times> string) list" where
  "type_domains =
     [(''foundry.channels.channel-snapshot'', ''channel''),
      (''foundry.channels.settlement-request'', ''settlement_request''),
      (''foundry.channels.settlement-execution-commitment'', ''settlement_execution_commitment''),
      (''foundry.channels.settlement-authorization'', ''execution_authorization''),
      (''foundry.channels.settlement-observation'', ''settlement_observation''),
      (''foundry.channels.reconciled-settlement-receipt'', ''reconciled_settlement_receipt''),
      (''foundry.channels.recovery-record'', ''settlement_recovery_record''),
      (''foundry.channels.settlement-journal-entry'', ''settlement_journal_entry''),
      (''foundry.channels.closure-request'', ''channel_closure_request''),
      (''foundry.channels.closure-request-snapshot'', ''closure_snapshot_at_request''),
      (''foundry.channels.closure-freeze'', ''closure_snapshot_at_freeze''),
      (''foundry.channels.refund-request'', ''refund_request''),
      (''foundry.channels.refund-projection'', ''refund_projection''),
      (''foundry.channels.refund-execution-commitment'', ''refund_execution_commitment''),
      (''foundry.channels.technical-refund-receipt'', ''technical_refund_receipt''),
      (''foundry.channels.refund-observation'', ''channel_refund_observation''),
      (''foundry.channels.reconciled-refund'', ''reconciled_channel_refund''),
      (''foundry.channels.epoch-transition-eligibility'', ''epoch_transition_eligibility''),
      (''foundry.channels.refund-journal-entry'', ''refund_journal_entry'')]"

definition registered_domains :: "string list" where
  "registered_domains = explicit_domains @ map fst type_domains"

definition verify_registered_domain :: "pydict \<Rightarrow> string \<Rightarrow> unit res" where
  "verify_registered_domain projection expected =
     (if \<not> List.member registered_domains expected
        then Inl (canon_error ''domain_unregistered'' ''domain_verification'' ''$.domain'')
      else if List.member explicit_domains expected
        then reject_if (item projection ''domain'' \<noteq> PStr expected)
               (canon_error ''domain_mismatch'' ''domain_verification'' ''$.domain'')
      else case map_of type_domains expected of
             None \<Rightarrow> Inl (PyRaise ''KeyError'')
           | Some t \<Rightarrow>
               reject_if (item projection ''type'' \<noteq> PStr t \<or>
                   item projection ''protocol_version'' \<noteq> PStr ''1.0.0'')
                 (canon_error ''domain_mismatch'' ''domain_verification'' ''$''))"

section \<open>Lemmas\<close>

lemma validate_json_list_signable:
  "(\<And>x path. x \<in> set xs \<Longrightarrow> validate_json_value x path = Inr () \<longleftrightarrow> signable x) \<Longrightarrow>
     validate_json_list xs path n = Inr () \<longleftrightarrow> signable_list xs"
  by (induction xs arbitrary: n) (auto simp: res_simps)

lemma validate_json_items_signable:
  "(\<And>k v path. (k, v) \<in> set d \<Longrightarrow> validate_json_value v path = Inr () \<longleftrightarrow> signable v) \<Longrightarrow>
     validate_json_items d path = Inr () \<longleftrightarrow> signable_items d"
proof (induction d)
  case (Cons kv d)
  obtain k v where kv: "kv = (k, v)" by (cases kv)
  have v: "\<And>path. validate_json_value v path = Inr () \<longleftrightarrow> signable v"
    using Cons.prems [of k v] by (simp add: kv)
  have "validate_json_items d path = Inr () \<longleftrightarrow> signable_items d"
    using Cons.prems by (intro Cons.IH) auto
  then show ?case by (cases k) (auto simp: kv res_simps v)
qed simp

lemma validate_json_signable: "validate_json_value v path = Inr () \<longleftrightarrow> signable v"
proof (induction v arbitrary: path)
  case (PList xs)
  then show ?case by (simp add: validate_json_list_signable)
next
  case (PDict d)
  then have "validate_json_items d path = Inr () \<longleftrightarrow> signable_items d"
    by (intro validate_json_items_signable) fastforce
  then show ?case by simp
qed (auto simp: res_simps)

lemma canonical_json_bytes_Inr [res_simps]:
  "canonical_json_bytes jcs v = Inr b \<longleftrightarrow> signable v \<and> jcs v = Some b"
  by (auto simp: canonical_json_bytes_def res_simps validate_json_signable split: option.splits)

lemma sha256_canonical_json_Inr [res_simps]:
  "sha256_canonical_json jcs v = Inr h \<longleftrightarrow>
     (\<exists>b. signable v \<and> jcs v = Some b \<and> h = sha256_raw_bytes b)"
  by (auto simp: sha256_canonical_json_def res_simps)

lemma sha256_raw_hash_text [simp]: "hash_text (sha256_raw_bytes b)"
  unfolding sha256_raw_bytes_def by (rule sha.prefixed_hash_text)

lemma verify_declared_hash_Inr [res_simps]:
  "verify_declared_hash v e = Inr u \<longleftrightarrow> v = e \<and> hash_pattern v"
  by (auto simp: verify_declared_hash_def res_simps)

lemma unsigned_record_projection_Inr [res_simps]:
  "unsigned_record_projection rec own = Inr p \<longleftrightarrow>
     (\<exists>d. rec = PDict d \<and> own \<noteq> [] \<and> has_key d own \<and> p = filter (\<lambda>kv. fst kv \<noteq> KStr own) d)"
  by (cases rec) (auto simp: unsigned_record_projection_def)

lemma canon_error_not [simp]: "canon_error c s p \<noteq> PyRaise n"
  by (simp add: canon_error_def)

lemma item_snoc_fresh: "\<not> has_key d k \<Longrightarrow> item (d @ [(KStr k, v)]) k = v"
  by (auto simp: item_def has_key_map_of map_add_def split: option.splits)

lemma filter_fresh: "\<not> has_key d k \<Longrightarrow> filter (\<lambda>kv. fst kv \<noteq> KStr k) d = d"
  by (force simp: has_key_def filter_id_conv)

lemma verify_self_hashed_record_Inr:
  "verify_self_hashed_record jcs rec own = Inr p \<longleftrightarrow>
     (\<exists>d b. rec = PDict d \<and> own \<noteq> [] \<and> has_key d own \<and> p = filter (\<lambda>kv. fst kv \<noteq> KStr own) d \<and>
        signable (PDict p) \<and> jcs (PDict p) = Some b \<and> item d own = PStr (sha256_raw_bytes b))"
  by (auto simp: verify_self_hashed_record_def res_simps hash_pattern_def)

lemma type_domain_inj:
  "map_of type_domains a = Some t \<Longrightarrow> map_of type_domains b = Some t \<Longrightarrow> a = b"
proof -
  assume "map_of type_domains a = Some t" "map_of type_domains b = Some t"
  then have "(a, t) \<in> set type_domains" "(b, t) \<in> set type_domains"
    by (auto dest: map_of_SomeD)
  moreover have "distinct (map snd type_domains)" by code_simp
  ultimately show "a = b" by (metis distinct_map inj_onD snd_conv fst_conv)
qed

lemma str_of_Some [simp]: "str_of v = Some s \<longleftrightarrow> v = PStr s" by (cases v) auto
lemma map_the_str_of: "map (the \<circ> str_of) (map PStr ss) = ss" by (induction ss) auto
lemma all_strings: "\<forall>v\<in>set vs. str_of v \<noteq> None \<Longrightarrow> vs = map PStr (map (the \<circ> str_of) vs)"
  by (induction vs) auto

lemma raises_json_list:
  "(\<And>x path. x \<in> set xs \<Longrightarrow> raises P (validate_json_value x path)) \<Longrightarrow> raises P (validate_json_list xs path n)"
  by (induction xs arbitrary: n) (auto intro!: raises_intros)

lemma raises_json_items:
  assumes "\<And>code stage path. P (canon_error code stage path)"
  shows "(\<And>k v path. (k, v) \<in> set d \<Longrightarrow> raises P (validate_json_value v path)) \<Longrightarrow>
     raises P (validate_json_items d path)"
proof (induction d)
  case (Cons kv d)
  obtain k v where kv: "kv = (k, v)" by (cases kv)
  have v: "\<And>path. raises P (validate_json_value v path)"
    using Cons.prems [of k v] by (simp add: kv)
  have "raises P (validate_json_items d path)"
    using Cons.prems by (intro Cons.IH) auto
  with v show ?case by (cases k) (auto simp: kv assms intro!: raises_intros)
qed (simp add: raises_intros)

lemma raises_validate_json_value [raises_intros]:
  assumes e: "\<And>code stage path. P (canon_error code stage path)"
  shows "raises P (validate_json_value v path)"
proof (induction v arbitrary: path)
  case (PList xs)
  then show ?case by (simp add: raises_json_list)
next
  case (PDict d)
  then have "raises P (validate_json_items d path)"
    by (intro raises_json_items e) fastforce
  then show ?case by simp
qed (auto intro!: raises_intros e)

lemma raises_canonical_json_bytes [raises_intros]:
  "(\<And>code stage path. P (canon_error code stage path)) \<Longrightarrow> raises P (canonical_json_bytes jcs v)"
  by (auto simp: canonical_json_bytes_def intro!: raises_intros split: option.splits)

section \<open>A serializer for examples\<close>

text \<open>A signable value can be stored as text.\<close>

lemma signable_items_append: "signable_items (d @ e) \<longleftrightarrow> signable_items d \<and> signable_items e"
  by (induction d) auto

lemma length_dec_nat: "n < 10 ^ k \<Longrightarrow> 0 < k \<Longrightarrow> length (dec_nat n) \<le> k"
proof (induction n arbitrary: k rule: dec_nat.induct)
  case (1 n)
  show ?case
  proof (cases "n < 10")
    case False
    with 1 obtain j where k: "k = Suc j" "0 < j" by (cases k; cases "k - 1") auto
    with 1 False have "length (dec_nat (n div 10)) \<le> j" by (intro 1(1)) auto
    with False k show ?thesis by (simp add: dec_nat.simps [of n])
  qed (use 1 in \<open>simp add: dec_nat.simps [of n]\<close>)
qed

lemma signable_list_json_dumps:
  "(\<And>x. x \<in> set xs \<Longrightarrow> signable x \<Longrightarrow> \<exists>w. json_dumps b x = Inr w) \<Longrightarrow> signable_list xs \<Longrightarrow>
     \<exists>w. json_dumps_list b xs = Inr w"
proof (induction xs)
  case (Cons x xs)
  then obtain y ys where "json_dumps b x = Inr y" "json_dumps_list b xs = Inr ys" by fastforce
  then show ?case by simp
qed simp

lemma signable_items_json_dumps:
  assumes "\<And>k x. (k, x) \<in> set d \<Longrightarrow> signable x \<Longrightarrow> \<exists>w. json_dumps b x = Inr w" "signable_items d"
  shows "(\<exists>w. json_dumps_items b d = Inr w) \<and> (\<forall>k\<in>set (map fst d). key_kind k = 0)"
  using assms
proof (induction d)
  case (Cons kv d)
  obtain k x where kv: "kv = (k, x)" by (cases kv)
  with Cons.prems have "\<exists>w. json_dumps b x = Inr w" "key_kind k = 0"
    by (auto split: pykey.splits)
  moreover have "(\<exists>w. json_dumps_items b d = Inr w) \<and> (\<forall>k\<in>set (map fst d). key_kind k = 0)"
    using Cons.prems by (intro Cons.IH) auto
  ultimately show ?case by (auto simp: kv)
qed simp

lemma signable_json_dumps: "signable v \<Longrightarrow> \<exists>w. json_dumps b v = Inr w"
proof (induction v)
  case (PInt i)
  have "nat \<bar>i\<bar> < 10 ^ 16" using PInt by (simp add: json_safe_max_def nat_less_iff)
  then have "length (dec_nat (nat \<bar>i\<bar>)) \<le> 16" by (rule length_dec_nat) simp
  then show ?case by simp
next
  case (PList xs)
  then show ?case using signable_list_json_dumps [of xs b] by auto
next
  case (PDict d)
  have "(\<exists>w. json_dumps_items b d = Inr w) \<and> (\<forall>k\<in>set (map fst d). key_kind k = 0)"
    by (rule signable_items_json_dumps) (use PDict in \<open>auto simp: snds.simps\<close>)
  moreover from this have "\<not> mixed_keys (map fst d)"
    by (cases d) (auto simp: mixed_keys_def list_ex_iff)
  ultimately show ?case by auto
qed simp_all

lemma zero_hash_text [simp]: "\<not> has_surrogate zero_hash"
  by code_simp

text \<open>RFC 8785 on values whose texts are ASCII without characters to escape.\<close>

fun join_comma :: "string list \<Rightarrow> string" where
  "join_comma [] = []"
| "join_comma [s] = s"
| "join_comma (s # t # ss) = s @ '','' @ join_comma (t # ss)"

primrec example_jcs_text :: "pyval \<Rightarrow> string"
  and example_jcs_list :: "pyval list \<Rightarrow> string list"
  and example_jcs_items :: "pydict \<Rightarrow> (pykey \<times> string) list"
  and example_jcs_item :: "pykey \<times> pyval \<Rightarrow> pykey \<times> string"
where
  "example_jcs_text PNone = ''null''"
| "example_jcs_text (PBool b) = (if b then ''true'' else ''false'')"
| "example_jcs_text (PInt i) = str_int i"
| "example_jcs_text (PFloat t) = t"
| "example_jcs_text (PStr s) = [CHR 34] @ s @ [CHR 34]"
| "example_jcs_text (PList xs) = ''['' @ join_comma (example_jcs_list xs) @ '']''"
| "example_jcs_text (PDict d) =
     ''{'' @ join_comma (map snd (sort_key fst (example_jcs_items d))) @ ''}''"
| "example_jcs_text (POther t) = t"
| "example_jcs_list [] = []"
| "example_jcs_list (x # xs) = example_jcs_text x # example_jcs_list xs"
| "example_jcs_items [] = []"
| "example_jcs_items (kv # d) = example_jcs_item kv # example_jcs_items d"
| "example_jcs_item (k, v) = (k, [CHR 34] @ key_text k @ [CHR 34] @ '':'' @ example_jcs_text v)"

definition example_jcs :: serializer where
  "example_jcs v = Some (example_jcs_text v)"

section \<open>Properties\<close>

text \<open>
  Property C34. Canonical bytes exist exactly for the values of the signed domain (no null, no
  float, integers in the JSON-safe unsigned range, no lone surrogate, text keys only) that the
  serializer accepts, and they are the serializer's bytes; every other value is rejected with a
  CanonicalizationError.
\<close>

theorem canonical_bytes_domain:
  "(canonical_json_bytes jcs v = Inr b \<longleftrightarrow> signable v \<and> jcs v = Some b) \<and>
   (\<forall>e. canonical_json_bytes jcs v = Inl e \<longrightarrow> is_exn CanonicalizationError e)"
proof (intro conjI allI impI canonical_json_bytes_Inr)
  fix e
  assume "canonical_json_bytes jcs v = Inl e"
  then show "is_exn CanonicalizationError e"
    by (rule raisesD [OF raises_canonical_json_bytes, rotated]) (simp add: canon_error_def)
qed

theorem canonical_bytes_domain_witness:
  "is_exn CanonicalizationError (canon_error ''null_forbidden'' ''projection'' ''$.a'') \<and>
   canonical_json_bytes example_jcs (PDict [(KStr ''b'', PInt 1), (KStr ''a'', PStr ''x'')]) =
     Inr (''{'' @ [CHR 34] @ ''a'' @ [CHR 34] @ '':'' @ [CHR 34] @ ''x'' @ [CHR 34] @ '','' @
          [CHR 34] @ ''b'' @ [CHR 34] @ '':1}'')"
proof
  have "canonical_json_bytes example_jcs (PDict [(KStr ''a'', PNone)]) =
      Inl (canon_error ''null_forbidden'' ''projection'' ''$.a'')"
    by code_simp
  then show "is_exn CanonicalizationError (canon_error ''null_forbidden'' ''projection'' ''$.a'')"
    using canonical_bytes_domain [of example_jcs "PDict [(KStr ''a'', PNone)]"] by blast
qed code_simp

text \<open>
  Hashing a record and storing the hash in its own field makes a record that
  verifies, and verification returns the record without the field.
\<close>

theorem self_hash_roundtrip:
  assumes "own \<noteq> []" "\<not> has_key d own" "sha256_canonical_json jcs (PDict d) = Inr h"
  shows "verify_self_hashed_record jcs (PDict (d @ [(KStr own, PStr h)])) own = Inr d"
  using assms
  by (auto simp: verify_self_hashed_record_Inr res_simps item_snoc_fresh filter_fresh has_key_def
      simp del: signable.simps)

theorem self_hash_roundtrip_witness:
  "verify_self_hashed_record example_jcs
     (PDict ([(KStr ''n'', PInt 7)] @
        [(KStr ''own_hash'', PStr (sha256_raw_bytes (example_jcs_text (PDict [(KStr ''n'', PInt 7)]))))]))
     ''own_hash'' = Inr [(KStr ''n'', PInt 7)]"
  by (rule self_hash_roundtrip)
     (simp_all add: has_key_def sha256_canonical_json_Inr json_safe_max_def example_jcs_def)

text \<open>
  A self-hashed record cannot be altered under its hash: two accepted records with
  the same declared hash have the same canonical bytes, or those bytes are a SHA-256 collision.
\<close>

theorem self_hash_binds:
  assumes "verify_self_hashed_record jcs (PDict r) own = Inr p"
    and "verify_self_hashed_record jcs (PDict r') own = Inr p'"
    and "item r own = item r' own"
  shows "\<exists>b b'. jcs (PDict p) = Some b \<and> jcs (PDict p') = Some b' \<and> (b = b' \<or> b \<noteq> b' \<and> sha256_hex b = sha256_hex b')"
  using assms by (auto simp: verify_self_hashed_record_Inr sha256_raw_bytes_def)

theorem self_hash_binds_witness:
  "\<exists>b b'. example_jcs (PDict [(KStr ''n'', PInt 7)]) = Some b \<and>
     example_jcs (PDict [(KStr ''n'', PInt 7)]) = Some b' \<and>
     (b = b' \<or> b \<noteq> b' \<and> sha256_hex b = sha256_hex b')"
proof -
  let ?h = "PStr (sha256_raw_bytes (example_jcs_text (PDict [(KStr ''n'', PInt 7)])))"
  have v: "verify_self_hashed_record example_jcs (PDict [(KStr ''n'', PInt 7), (KStr ''h'', ?h)]) ''h'' =
      Inr [(KStr ''n'', PInt 7)]"
    by (simp add: verify_self_hashed_record_Inr has_key_def item_def json_safe_max_def example_jcs_def)
  show ?thesis by (rule self_hash_binds [OF v v refl])
qed

text \<open>
  The canonical set check accepts exactly the strictly increasing lists of texts, and
  returns them.
\<close>

theorem canonical_set_exact:
  "validate_canonical_set v path = Inr ss \<longleftrightarrow> v = PList (map PStr ss) \<and> sorted_wrt (<) ss"
proof
  assume a: "validate_canonical_set v path = Inr ss"
  then obtain vs where v: "v = PList vs" and s: "\<forall>x\<in>set vs. str_of x \<noteq> None"
    "ss = map (the \<circ> str_of) vs" "distinct ss" "ss = sort ss"
    by (cases v) (auto simp: validate_canonical_set_def list_ex_iff Let_def split: if_splits)
  then show "v = PList (map PStr ss) \<and> sorted_wrt (<) ss"
    using all_strings [OF s(1)] by (metis sorted_sort strict_sorted_iff)
next
  assume a: "v = PList (map PStr ss) \<and> sorted_wrt (<) ss"
  then have "distinct ss" "sort ss = ss" by (auto simp: strict_sorted_iff sorted_sort_id)
  with a show "validate_canonical_set v path = Inr ss"
    by (simp add: validate_canonical_set_def list_ex_iff map_the_str_of del: map_map)
qed

text \<open>
  Domain separation: an object that passes the domain check for two different
  registered domains passes one of them by its domain field and the other by its type field;
  within each kind at most one domain is accepted.
\<close>

theorem domain_separation:
  assumes "verify_registered_domain p a = Inr ()" "verify_registered_domain p b = Inr ()" "a \<noteq> b"
  shows "(a \<in> set explicit_domains) \<noteq> (b \<in> set explicit_domains)"
  using assms type_domain_inj [of a _ b]
  by (auto simp: verify_registered_domain_def res_simps split: if_splits option.splits)

theorem domain_separation_witness:
  "(''foundry.channels.voucher'' \<in> set explicit_domains) \<noteq>
   (''foundry.channels.refund-request'' \<in> set explicit_domains)"
  by (rule domain_separation [of "[(KStr ''domain'', PStr ''foundry.channels.voucher''),
        (KStr ''type'', PStr ''refund_request''), (KStr ''protocol_version'', PStr ''1.0.0'')]"]) code_simp+

end
