(* ===== verification/Channel.thy ===== *)
theory Channel
  imports Canonical
begin

text \<open>
  \<^verbatim>\<open>foundry_channel_protocol/channel.py\<close>: fail-closed validation of a Channel v1 snapshot, the
  accounting values derived from it, and validation of one observed funding transition.
  Every check is kept in source order; \<open>validate_channel\<close> is cut into the blocks its body
  has (identity, amounts and policy, accounting, times, close window, lifecycle).
\<close>

definition channel_fields :: "string list" where
  "channel_fields =
     [''type'', ''protocol_version'', ''account_version'', ''environment'', ''network'', ''genesis_hash'',
      ''program_id'', ''channel_id'', ''channel_account'', ''epoch'', ''sender'',
      ''recipient_claim_pubkey'', ''recipient_wallet'', ''mint'', ''decimals'', ''vault_token_account'',
      ''funded_total_base_units'', ''activated_authorized_total_base_units'',
      ''settled_total_base_units'', ''refunded_total_base_units'', ''latest_activated_sequence'',
      ''latest_activated_voucher_hash'', ''status'', ''expires_at'', ''close_requested_at'',
      ''claim_deadline'', ''policy'', ''created_at'', ''updated_at'']"

definition channel_required :: "string list" where
  "channel_required =
     filter (\<lambda>k. \<not> List.member [''recipient_wallet'', ''close_requested_at'', ''claim_deadline''] k)
       channel_fields"

definition funding_fields :: "string list" where
  "funding_fields =
     [''type'', ''protocol_version'', ''funding_id'', ''channel_id'', ''channel_account'', ''mint'',
      ''amount_base_units'', ''funded_total_after_base_units'', ''transaction_signature'',
      ''observed_slot'', ''observed_at'']"

definition policy_fields :: "string list" where
  "policy_fields =
     [''type'', ''protocol_version'', ''channel_id'', ''max_cumulative_authorized_base_units'',
      ''allow_partial_settlement'', ''allow_top_up'', ''minimum_close_grace_seconds'', ''rebind_mode'']"

definition channel_statuses :: "string list" where
  "channel_statuses =
     [''closing'', ''draft'', ''funding'', ''active'', ''settling'', ''closed'', ''expired'', ''blocked'',
      ''disputed'', ''needs_recovery'', ''needs_review'']"

record accounting_projection =
  funded_total_base_units :: int
  activated_authorized_total_base_units :: int
  settled_total_base_units :: int
  refunded_total_base_units :: int
  vault_balance_base_units :: int
  outstanding_right_base_units :: int
  unallocated_capacity_base_units :: int

section \<open>Field checks\<close>

abbreviation ch_reject :: "string \<Rightarrow> string \<Rightarrow> exn" where
  "ch_reject \<equiv> Exn ChannelValidationError"

definition ch_closed_object :: "pyval \<Rightarrow> string \<Rightarrow> string list \<Rightarrow> string list \<Rightarrow> pydict res" where
  "ch_closed_object v f required allowed = closed_with ChannelValidationError False v f required allowed"

definition ch_literal :: "pyval \<Rightarrow> pyval \<Rightarrow> string \<Rightarrow> unit res" where
  "ch_literal v expected f = literal_with ChannelValidationError ''invalid_literal'' v expected f"

definition ch_integer :: "pyval \<Rightarrow> string \<Rightarrow> int \<Rightarrow> int option \<Rightarrow> int res" where
  "ch_integer v f minimum maximum =
     (case v of
        PInt i \<Rightarrow>
          (if i < minimum \<or> (case maximum of None \<Rightarrow> False | Some m \<Rightarrow> m < i)
           then Inl (ch_reject ''integer_out_of_range'' f) else Inr i)
      | _ \<Rightarrow> Inl (ch_reject ''invalid_integer'' f))"

definition ch_amount :: "pyval \<Rightarrow> string \<Rightarrow> int res" where
  "ch_amount v f = amount_with ChannelValidationError v f"

definition ch_pubkey :: "pyval \<Rightarrow> string \<Rightarrow> string res" where
  "ch_pubkey v f = string_with ChannelValidationError pubkey_text ''invalid_pubkey'' v f"

definition ch_identifier :: "pyval \<Rightarrow> string \<Rightarrow> string res" where
  "ch_identifier v f = string_with ChannelValidationError identifier_text ''invalid_identifier'' v f"

definition ch_timestamp :: "pyval \<Rightarrow> string \<Rightarrow> int res" where
  "ch_timestamp v f = timestamp_with ChannelValidationError fromisoformat_utc v f"

definition ignore :: "'a res \<Rightarrow> unit res" where
  "ignore m = bind_res m (\<lambda>_. Inr ())"

definition validate_policy :: "pyval \<Rightarrow> string \<Rightarrow> int res" where
  "validate_policy v channel_id =
     bind_res (ch_closed_object v ''policy'' policy_fields policy_fields) (\<lambda>policy.
     bind_res (run_all
       [ch_literal (item policy ''type'') (PStr ''channel_policy'') ''policy.type'',
        ch_literal (item policy ''protocol_version'') (PStr ''1.0.0'') ''policy.protocol_version'',
        reject_if (\<not> py_eq (item policy ''channel_id'') (PStr channel_id))
          (ch_reject ''policy_channel_mismatch'' ''policy.channel_id'')]) (\<lambda>_.
     bind_res (ch_amount (item policy ''max_cumulative_authorized_base_units'')
         ''policy.max_cumulative_authorized_base_units'') (\<lambda>limit.
     bind_res (run_all
       [ch_literal (item policy ''allow_partial_settlement'') (PBool True)
          ''policy.allow_partial_settlement'',
        reject_if (\<not> is_bool (item policy ''allow_top_up''))
          (ch_reject ''invalid_type'' ''policy.allow_top_up''),
        ignore (ch_integer (item policy ''minimum_close_grace_seconds'')
          ''policy.minimum_close_grace_seconds'' 1 (Some 31536000))]) (\<lambda>_.
     bind_res (py_in (item policy ''rebind_mode'') [''disabled'', ''current_and_new_wallet'']) (\<lambda>known.
     bind_res (reject_if (\<not> known) (ch_reject ''invalid_rebind_mode'' ''policy.rebind_mode'')) (\<lambda>_.
     Inr limit))))))"

section \<open>Snapshot validation\<close>

definition check_identity :: "pydict \<Rightarrow> (string \<times> int) res" where
  "check_identity channel =
     bind_res (run_all
       [ch_literal (item channel ''type'') (PStr ''channel'') ''type'',
        ch_literal (item channel ''protocol_version'') (PStr ''1.0.0'') ''protocol_version'',
        ch_literal (item channel ''account_version'') (PInt 1) ''account_version'',
        ch_literal (item channel ''environment'') (PStr ''devnet'') ''environment'',
        ch_literal (item channel ''network'') (PStr ''solana:devnet'') ''network'']) (\<lambda>_.
     bind_res (run_all (map (\<lambda>f. ignore (ch_pubkey (item channel f) f))
       [''genesis_hash'', ''program_id'', ''channel_account'', ''sender'', ''recipient_claim_pubkey'',
        ''mint'', ''vault_token_account''])) (\<lambda>_.
     bind_res (if has_key channel ''recipient_wallet''
               then ignore (ch_pubkey (item channel ''recipient_wallet'') ''recipient_wallet'')
               else Inr ()) (\<lambda>_.
     bind_res (ch_identifier (item channel ''channel_id'') ''channel_id'') (\<lambda>channel_id.
     bind_res (ignore (ch_integer (item channel ''epoch'') ''epoch'' 0 None)) (\<lambda>_.
     bind_res (ignore (ch_integer (item channel ''decimals'') ''decimals'' 0 (Some 18))) (\<lambda>_.
     bind_res (ch_integer (item channel ''latest_activated_sequence'') ''latest_activated_sequence''
         0 None) (\<lambda>sequence.
     bind_res (reject_if (\<not> hash_pattern (item channel ''latest_activated_voucher_hash''))
         (ch_reject ''invalid_hash'' ''latest_activated_voucher_hash'')) (\<lambda>_.
     Inr (channel_id, sequence)))))))))"

definition check_accounting :: "int \<Rightarrow> int \<Rightarrow> int \<Rightarrow> int \<Rightarrow> int \<Rightarrow> int \<Rightarrow> unit res" where
  "check_accounting funded activated settled refunded policy_limit sequence =
     run_all
       [reject_if (refunded > funded)
          (ch_reject ''refund_exceeds_funding'' ''refunded_total_base_units''),
        reject_if (activated > funded - refunded)
          (ch_reject ''authorization_exceeds_capacity'' ''activated_authorized_total_base_units''),
        reject_if (activated > policy_limit)
          (ch_reject ''authorization_exceeds_policy'' ''activated_authorized_total_base_units''),
        reject_if (settled > activated)
          (ch_reject ''settlement_exceeds_authorization'' ''settled_total_base_units''),
        reject_if ((sequence = 0) \<noteq> (activated = 0))
          (ch_reject ''activation_state_inconsistent'' ''latest_activated_sequence'')]"

definition check_times :: "pydict \<Rightarrow> (int \<times> int \<times> int) res" where
  "check_times channel =
     bind_res (ch_timestamp (item channel ''created_at'') ''created_at'') (\<lambda>created.
     bind_res (ch_timestamp (item channel ''updated_at'') ''updated_at'') (\<lambda>updated.
     bind_res (ch_timestamp (item channel ''expires_at'') ''expires_at'') (\<lambda>expires.
     bind_res (run_all
       [reject_if (updated < created) (ch_reject ''time_order_invalid'' ''updated_at''),
        reject_if (expires \<le> created) (ch_reject ''time_order_invalid'' ''expires_at'')]) (\<lambda>_.
     Inr (created, updated, expires)))))"

fun int_value :: "pyval \<Rightarrow> int" where
  "int_value (PInt i) = i"
| "int_value _ = 0"

fun dict_of :: "pyval \<Rightarrow> pydict" where
  "dict_of (PDict d) = d"
| "dict_of _ = []"

text \<open>A text that is present and not empty, as the code checks signatures and versions.\<close>

definition nonempty_text :: "pyval \<Rightarrow> bool" where
  "nonempty_text v = (case v of PStr s \<Rightarrow> s \<noteq> [] | _ \<Rightarrow> False)"

definition text_value :: "pyval \<Rightarrow> string" where
  "text_value v = (case v of PStr s \<Rightarrow> s | _ \<Rightarrow> [])"

definition amount_of :: "pyval \<Rightarrow> int" where
  "amount_of v = int (undec_nat (text_value v))"

text \<open>\<^verbatim>\<open>json.dumps\<close> of an object with sorted keys, kept as the object its text reads back as.\<close>

definition json_text :: "pydict \<Rightarrow> pydict res" where
  "json_text d = bind_res (json_dumps True (PDict d)) (\<lambda>v. Inr (dict_of v))"

definition check_close_fields :: "pydict \<Rightarrow> int \<Rightarrow> int \<Rightarrow> string res" where
  "check_close_fields channel created updated =
     bind_res (py_in (item channel ''status'') channel_statuses) (\<lambda>known.
     bind_res (reject_if (\<not> known) (ch_reject ''invalid_status'' ''status'')) (\<lambda>_.
     let status = the (str_of (item channel ''status''));
         has_close = has_key channel ''close_requested_at'';
         has_deadline = has_key channel ''claim_deadline''
     in
     bind_res (run_all
       [reject_if (has_close \<noteq> has_deadline)
          (ch_reject ''closing_fields_incomplete'' ''close_requested_at''),
        reject_if (List.member [''closing'', ''closed''] status \<and> \<not> has_close)
          (ch_reject ''closing_fields_required'' ''status''),
        reject_if (has_close \<and>
            List.member [''draft'', ''funding'', ''active'', ''settling'', ''expired''] status)
          (ch_reject ''closing_fields_forbidden'' ''status'')]) (\<lambda>_.
     bind_res (if \<not> has_close then Inr () else
       bind_res (ch_timestamp (item channel ''close_requested_at'') ''close_requested_at'') (\<lambda>close_requested.
       bind_res (ch_timestamp (item channel ''claim_deadline'') ''claim_deadline'') (\<lambda>claim_deadline.
       let grace = int_value (item (dict_of (item channel ''policy'')) ''minimum_close_grace_seconds'')
       in run_all
         [reject_if (close_requested < created \<or> close_requested > updated)
            (ch_reject ''close_snapshot_order_invalid'' ''close_requested_at''),
          reject_if (claim_deadline \<le> close_requested) (ch_reject ''close_window_invalid'' ''claim_deadline''),
          reject_if (claim_deadline - close_requested < grace * 1000000)
            (ch_reject ''close_grace_too_short'' ''claim_deadline'')]))) (\<lambda>_.
     Inr status))))"

definition check_lifecycle ::
  "pydict \<Rightarrow> string \<Rightarrow> int \<Rightarrow> int \<Rightarrow> int \<Rightarrow> int \<Rightarrow> int \<Rightarrow> int \<Rightarrow> unit res" where
  "check_lifecycle channel status funded activated settled refunded updated expires =
     (let vault = funded - settled - refunded in
      run_all
       [reject_if (vault < 0) (ch_reject ''conservation_violation'' ''funded_total_base_units''),
        reject_if (status = ''draft'' \<and> (funded \<noteq> 0 \<or> activated \<noteq> 0 \<or> settled \<noteq> 0 \<or> refunded \<noteq> 0))
          (ch_reject ''draft_accounting_nonzero'' ''status''),
        reject_if (status = ''funding'' \<and> (activated \<noteq> 0 \<or> settled \<noteq> 0 \<or> refunded \<noteq> 0))
          (ch_reject ''funding_accounting_invalid'' ''status''),
        reject_if (List.member [''active'', ''settling'', ''closing''] status \<and> funded = 0)
          (ch_reject ''funding_required'' ''status''),
        reject_if (List.member [''funding'', ''active''] status \<and> updated \<ge> expires)
          (ch_reject ''channel_expiry_transition_required'' ''status''),
        reject_if (status = ''settling'' \<and> \<not> has_key channel ''recipient_wallet'')
          (ch_reject ''settlement_wallet_required'' ''recipient_wallet''),
        reject_if (status = ''settling'' \<and> activated \<le> settled)
          (ch_reject ''settlement_right_required'' ''status''),
        reject_if (status = ''expired'' \<and> updated < expires) (ch_reject ''expiry_not_reached'' ''updated_at''),
        reject_if (status = ''expired'' \<and> activated \<noteq> settled)
          (ch_reject ''expired_outstanding_right'' ''status''),
        reject_if (status = ''closed'' \<and> activated \<noteq> settled)
          (ch_reject ''closed_outstanding_right'' ''status''),
        reject_if (status = ''closed'' \<and> vault \<noteq> 0) (ch_reject ''closed_vault_nonzero'' ''status''),
        if status = ''closed'' then
          bind_res (reject_if (\<not> has_key channel ''claim_deadline'') (PyRaise ''AssertionError'')) (\<lambda>_.
          bind_res (ch_timestamp (item channel ''claim_deadline'') ''claim_deadline'') (\<lambda>claim_deadline.
          reject_if (updated < claim_deadline) (ch_reject ''closed_before_claim_deadline'' ''updated_at'')))
        else Inr ()])"

definition make_projection :: "int \<Rightarrow> int \<Rightarrow> int \<Rightarrow> int \<Rightarrow> accounting_projection" where
  "make_projection funded activated settled refunded =
     \<lparr>funded_total_base_units = funded,
      activated_authorized_total_base_units = activated,
      settled_total_base_units = settled,
      refunded_total_base_units = refunded,
      vault_balance_base_units = funded - settled - refunded,
      outstanding_right_base_units = activated - settled,
      unallocated_capacity_base_units = funded - refunded - activated\<rparr>"

definition validate_channel :: "pyval \<Rightarrow> accounting_projection res" where
  "validate_channel v =
     bind_res (ch_closed_object v ''channel'' channel_required channel_fields) (\<lambda>channel.
     bind_res (check_identity channel) (\<lambda>(channel_id, sequence).
     bind_res (ch_amount (item channel ''funded_total_base_units'') ''funded_total_base_units'') (\<lambda>funded.
     bind_res (ch_amount (item channel ''activated_authorized_total_base_units'')
         ''activated_authorized_total_base_units'') (\<lambda>activated.
     bind_res (ch_amount (item channel ''settled_total_base_units'') ''settled_total_base_units'') (\<lambda>settled.
     bind_res (ch_amount (item channel ''refunded_total_base_units'') ''refunded_total_base_units'') (\<lambda>refunded.
     bind_res (validate_policy (item channel ''policy'') channel_id) (\<lambda>policy_limit.
     bind_res (check_accounting funded activated settled refunded policy_limit sequence) (\<lambda>_.
     bind_res (check_times channel) (\<lambda>(created, updated, expires).
     bind_res (check_close_fields channel created updated) (\<lambda>status.
     bind_res (check_lifecycle channel status funded activated settled refunded updated expires) (\<lambda>_.
     Inr (make_projection funded activated settled refunded))))))))))))"

section \<open>Funding transition\<close>

definition funding_immutable_fields :: "string list" where
  "funding_immutable_fields =
     [''environment'', ''network'', ''genesis_hash'', ''program_id'', ''channel_id'', ''channel_account'',
      ''epoch'', ''sender'', ''recipient_claim_pubkey'', ''recipient_wallet'', ''mint'', ''decimals'',
      ''vault_token_account'', ''activated_authorized_total_base_units'', ''settled_total_base_units'',
      ''refunded_total_base_units'', ''latest_activated_sequence'', ''latest_activated_voucher_hash'',
      ''expires_at'', ''policy'', ''created_at'']"

definition expected_status_after :: "pydict \<Rightarrow> string res" where
  "expected_status_after previous =
     (if item previous ''status'' = PStr ''funding'' then Inr ''active''
      else if item previous ''status'' = PStr ''active'' then
        (if item (dict_of (item previous ''policy'')) ''allow_top_up'' \<noteq> PBool True
         then Inl (ch_reject ''top_up_forbidden'' ''previous_channel.policy.allow_top_up'')
         else Inr ''active'')
      else Inl (ch_reject ''funding_lifecycle_forbidden'' ''previous_channel.status''))"

definition check_funding_event :: "pydict \<Rightarrow> int \<Rightarrow> int res" where
  "check_funding_event event previous_funded =
     bind_res (run_all
       [ch_literal (item event ''type'') (PStr ''channel_funding'') ''funding.type'',
        ch_literal (item event ''protocol_version'') (PStr ''1.0.0'') ''funding.protocol_version'',
        ignore (ch_identifier (item event ''funding_id'') ''funding.funding_id''),
        ignore (ch_identifier (item event ''channel_id'') ''funding.channel_id''),
        ignore (ch_pubkey (item event ''channel_account'') ''funding.channel_account''),
        ignore (ch_pubkey (item event ''mint'') ''funding.mint'')]) (\<lambda>_.
     bind_res (ch_amount (item event ''amount_base_units'') ''funding.amount_base_units'') (\<lambda>amount.
     bind_res (reject_if (amount = 0) (ch_reject ''zero_funding'' ''funding.amount_base_units'')) (\<lambda>_.
     bind_res (ch_amount (item event ''funded_total_after_base_units'')
         ''funding.funded_total_after_base_units'') (\<lambda>after_total.
     bind_res (run_all
       [reject_if (after_total \<noteq> previous_funded + amount)
          (ch_reject ''funding_total_mismatch'' ''funding.funded_total_after_base_units''),
        ignore (ch_integer (item event ''observed_slot'') ''funding.observed_slot'' 0 None),
        ignore (ch_timestamp (item event ''observed_at'') ''funding.observed_at''),
        ignore (string_with ChannelValidationError signature_text ''invalid_transaction_signature''
          (item event ''transaction_signature'') ''funding.transaction_signature'')]) (\<lambda>_.
     Inr after_total)))))"

definition validate_funding_transition ::
  "pyval \<Rightarrow> pyval \<Rightarrow> pyval \<Rightarrow> accounting_projection res" where
  "validate_funding_transition previous_channel funding channel_after =
     bind_res (validate_channel previous_channel) (\<lambda>previous_projection.
     let previous = dict_of previous_channel in
     bind_res (expected_status_after previous) (\<lambda>expected_after_status.
     bind_res (ch_closed_object funding ''funding'' funding_fields funding_fields) (\<lambda>event.
     bind_res (check_funding_event event (funded_total_base_units previous_projection)) (\<lambda>after_total.
     bind_res (validate_channel channel_after) (\<lambda>projection.
     let channel = dict_of channel_after in
     bind_res (reject_if (item channel ''status'' \<noteq> PStr expected_after_status)
         (ch_reject ''funding_status_transition_invalid'' ''channel_after.status'')) (\<lambda>_.
     bind_res (run_all (map (\<lambda>f. reject_if (\<not> py_eq (item event f) (item channel f))
           (ch_reject ''funding_identity_mismatch'' (''funding.'' @ f)))
         [''channel_id'', ''channel_account'', ''mint''])) (\<lambda>_.
     bind_res (run_all (map (\<lambda>f. reject_if (\<not> py_eq (item previous f) (item channel f))
           (ch_reject ''funding_immutable_field_changed'' (''channel_after.'' @ f)))
         funding_immutable_fields)) (\<lambda>_.
     bind_res (reject_if (after_total \<noteq> funded_total_base_units projection)
         (ch_reject ''funding_snapshot_mismatch'' ''funding.funded_total_after_base_units'')) (\<lambda>_.
     bind_res (ch_timestamp (item previous ''updated_at'') ''previous_channel.updated_at'') (\<lambda>previous_updated.
     bind_res (ch_timestamp (item event ''observed_at'') ''funding.observed_at'') (\<lambda>observed_at.
     bind_res (ch_timestamp (item channel ''updated_at'') ''channel_after.updated_at'') (\<lambda>after_updated.
     bind_res (reject_if (\<not> (previous_updated \<le> observed_at \<and> observed_at \<le> after_updated))
         (ch_reject ''funding_time_order_invalid'' ''funding.observed_at'')) (\<lambda>_.
     Inr projection)))))))))))))"

section \<open>What an accepted snapshot satisfies\<close>

lemma json_items_lookup:
  assumes "json_dumps_items b d = Inr d'"
  shows "map fst d' = map fst d \<and> (map_of d k = Some (PStr s) \<longrightarrow> map_of d' k = Some (PStr s))"
  using assms by (induction d arbitrary: d') (auto simp: bind_res_eq_Inr)

lemma map_of_filter_key: "map_of d k = (case filter (\<lambda>x. fst x = k) d of [] \<Rightarrow> None | x # _ \<Rightarrow> Some (snd x))"
  by (induction d) auto

lemma map_of_sort_key: "map_of (sort_key fst d) k = map_of d k"
  by (simp add: map_of_filter_key sort_key_stable)

text \<open>A text field of an object with text keys is the same in the stored text.\<close>

lemma json_text_item:
  assumes "json_text d = Inr e" "fst ` set d \<subseteq> range KStr" "item d f = PStr s"
  shows "item e f = PStr s"
proof -
  from assms(1) obtain d' where d': "json_dumps_items True d = Inr d'"
    and e: "e = map (\<lambda>(k, v). (KStr (key_text k), v)) (sort_key fst d')"
    by (auto simp: json_text_def bind_res_eq_Inr split: if_splits)
  have "KStr (key_text (fst kv)) = fst kv" if "kv \<in> set d'" for kv
  proof -
    have "fst kv \<in> fst ` set d"
      using that json_items_lookup [OF d'] by (metis image_eqI list.set_map)
    with assms(2) show ?thesis by auto
  qed
  then have "e = sort_key fst d'" unfolding e by (intro map_idI) auto
  moreover have "map_of d (KStr f) = Some (PStr s)"
    using assms(3) by (auto simp: item_def split: option.splits)
  ultimately show ?thesis
    using json_items_lookup [OF d'] by (simp add: item_def map_of_sort_key)
qed

lemma signable_json_text: "signable (PDict d) \<Longrightarrow> \<exists>e. json_text d = Inr e"
  using signable_json_dumps [of "PDict d" True] unfolding json_text_def bind_res_eq_Inr by blast

lemma ignore_Inr [res_simps]: "ignore m = Inr u \<longleftrightarrow> (\<exists>x. m = Inr x)"
  by (cases m) (auto simp: ignore_def)

lemma ch_integer_Inr [res_simps]:
  "ch_integer v f lo hi = Inr i \<longleftrightarrow> v = PInt i \<and> lo \<le> i \<and> (\<forall>m. hi = Some m \<longrightarrow> i \<le> m)"
  by (cases v) (auto simp: ch_integer_def not_less split: option.splits)

lemmas ch_checks = ch_closed_object_def ch_literal_def ch_amount_def ch_pubkey_def
  ch_identifier_def ch_timestamp_def

lemma check_accounting_Inr [res_simps]:
  "check_accounting F A S R L n = Inr u \<longleftrightarrow>
     R \<le> F \<and> A \<le> F - R \<and> A \<le> L \<and> S \<le> A \<and> (n = 0 \<longleftrightarrow> A = 0)"
  by (auto simp: check_accounting_def res_simps)

text \<open>The amounts a snapshot states, and everything its acceptance says about them.\<close>

lemma validate_channelE:
  assumes "validate_channel v = Inr p"
  obtains channel F A S R L n channel_id created updated expires status where
    "v = PDict channel" "p = make_projection F A S R"
    "\<forall>k\<in>set channel_required. has_key channel k"
    "check_identity channel = Inr (channel_id, n)"
    "ch_amount (item channel ''funded_total_base_units'') ''funded_total_base_units'' = Inr F"
    "ch_amount (item channel ''activated_authorized_total_base_units'')
       ''activated_authorized_total_base_units'' = Inr A"
    "ch_amount (item channel ''settled_total_base_units'') ''settled_total_base_units'' = Inr S"
    "ch_amount (item channel ''refunded_total_base_units'') ''refunded_total_base_units'' = Inr R"
    "validate_policy (item channel ''policy'') channel_id = Inr L"
    "check_accounting F A S R L n = Inr ()"
    "check_times channel = Inr (created, updated, expires)"
    "check_close_fields channel created updated = Inr status"
    "check_lifecycle channel status F A S R updated expires = Inr ()"
proof -
  from assms show thesis
    unfolding validate_channel_def
    by (clarsimp simp: bind_res_eq_Inr ch_closed_object_def closed_with_Inr split: prod.splits)
       (rule that; assumption?; simp add: channel_required_def)
qed

definition accounting_ok :: "accounting_projection \<Rightarrow> bool" where
  "accounting_ok p \<longleftrightarrow>
     0 \<le> settled_total_base_units p \<and>
     settled_total_base_units p \<le> activated_authorized_total_base_units p \<and>
     activated_authorized_total_base_units p \<le> funded_total_base_units p - refunded_total_base_units p \<and>
     0 \<le> refunded_total_base_units p \<and> funded_total_base_units p \<le> u64_max \<and>
     funded_total_base_units p =
       vault_balance_base_units p + settled_total_base_units p + refunded_total_base_units p \<and>
     outstanding_right_base_units p =
       activated_authorized_total_base_units p - settled_total_base_units p \<and>
     unallocated_capacity_base_units p =
       funded_total_base_units p - refunded_total_base_units p - activated_authorized_total_base_units p \<and>
     vault_balance_base_units p = outstanding_right_base_units p + unallocated_capacity_base_units p"

lemma validate_channel_accounting:
  assumes "validate_channel v = Inr p"
  shows "accounting_ok p"
  using assms
  by (rule validate_channelE)
     (auto simp: accounting_ok_def make_projection_def check_accounting_Inr ch_amount_def
        dest!: amount_with_nonneg)

definition status_of :: "pyval \<Rightarrow> string" where
  "status_of v = the (str_of (item (dict_of v) ''status''))"

definition lifecycle_ok :: "pyval \<Rightarrow> accounting_projection \<Rightarrow> bool" where
  "lifecycle_ok v p \<longleftrightarrow>
     status_of v \<in> set channel_statuses \<and>
     (status_of v = ''draft'' \<longrightarrow> p = make_projection 0 0 0 0) \<and>
     (status_of v = ''funding'' \<longrightarrow> p = make_projection (funded_total_base_units p) 0 0 0) \<and>
     (status_of v \<in> {''active'', ''settling'', ''closing''} \<longrightarrow> 0 < funded_total_base_units p) \<and>
     (status_of v = ''settling'' \<longrightarrow>
        has_key (dict_of v) ''recipient_wallet'' \<and> 0 < outstanding_right_base_units p) \<and>
     (status_of v \<in> {''expired'', ''closed''} \<longrightarrow> outstanding_right_base_units p = 0) \<and>
     (status_of v = ''closed'' \<longrightarrow> vault_balance_base_units p = 0 \<and> unallocated_capacity_base_units p = 0)"

lemma check_close_fields_status:
  assumes "check_close_fields channel created updated = Inr status"
  shows "item channel ''status'' = PStr status" "status \<in> set channel_statuses"
  using assms by (auto simp: check_close_fields_def res_simps Let_def)

lemma check_lifecycle_Inr:
  assumes "check_lifecycle channel status F A S R updated expires = Inr ()"
  shows lifecycle_vault: "S + R \<le> F"
    and lifecycle_draft: "status = ''draft'' \<Longrightarrow> F = 0 \<and> A = 0 \<and> S = 0 \<and> R = 0"
    and lifecycle_funding: "status = ''funding'' \<Longrightarrow> A = 0 \<and> S = 0 \<and> R = 0"
    and lifecycle_funded: "status \<in> {''active'', ''settling'', ''closing''} \<Longrightarrow> F \<noteq> 0"
    and lifecycle_live: "status \<in> {''funding'', ''active''} \<Longrightarrow> updated < expires"
    and lifecycle_settling: "status = ''settling'' \<Longrightarrow> has_key channel ''recipient_wallet'' \<and> S < A"
    and lifecycle_expired: "status = ''expired'' \<Longrightarrow> expires \<le> updated \<and> A = S"
    and lifecycle_closed: "status = ''closed'' \<Longrightarrow> A = S \<and> F = S + R"
  using assms
  unfolding check_lifecycle_def Let_def run_all_Cons_Inr reject_if_eq_Inr
  by (elim conjE; force)+

lemma lifecycle_closed_deadline:
  assumes "check_lifecycle channel status F A S R updated expires = Inr ()" "status = ''closed''"
  obtains deadline where
    "ch_timestamp (item channel ''claim_deadline'') ''claim_deadline'' = Inr deadline" "deadline \<le> updated"
  using assms
  unfolding check_lifecycle_def Let_def run_all_Cons_Inr
  by (elim conjE) (auto simp: res_simps)

lemma raises_ignore [raises_intros]: "raises P m \<Longrightarrow> raises P (ignore m)"
  by (cases m) (auto simp: ignore_def raises_def)

lemma raises_ch_integer [raises_intros]:
  "P (ch_reject ''integer_out_of_range'' f) \<Longrightarrow> P (ch_reject ''invalid_integer'' f) \<Longrightarrow>
     raises P (ch_integer v f lo hi)"
  by (cases v) (auto simp: ch_integer_def raises_def)

definition channel_exn :: "exn \<Rightarrow> bool" where
  "channel_exn e \<longleftrightarrow>
     (case e of
        Exn c code f \<Rightarrow> c = ChannelValidationError \<and> code \<noteq> ''conservation_violation''
      | PyRaise n \<Rightarrow> n = ''TypeError'' \<or> n = ''ValueError'')"

lemma channel_exn_simps [simp]:
  "channel_exn (Exn c code f) \<longleftrightarrow> c = ChannelValidationError \<and> code \<noteq> ''conservation_violation''"
  "channel_exn (PyRaise n) \<longleftrightarrow> n = ''TypeError'' \<or> n = ''ValueError''"
  by (simp_all add: channel_exn_def)

lemma raises_validate_policy: "raises channel_exn (validate_policy v channel_id)"
  unfolding validate_policy_def ch_checks by (intro raises_intros; simp)

lemma raises_check_identity: "raises channel_exn (check_identity channel)"
  unfolding check_identity_def ch_checks by (intro raises_intros; simp)

lemma raises_check_accounting: "raises channel_exn (check_accounting F A S R L n)"
  unfolding check_accounting_def by (intro raises_intros; simp)

lemma raises_check_times: "raises channel_exn (check_times channel)"
  unfolding check_times_def ch_checks by (intro raises_intros; simp)

lemma raises_check_close_fields: "raises channel_exn (check_close_fields channel created updated)"
  unfolding check_close_fields_def ch_checks by (intro raises_intros; simp)

lemma check_close_fields_closed:
  assumes "check_close_fields channel created updated = Inr status" "status = ''closed''"
  shows "has_key channel ''claim_deadline''"
proof -
  have "has_key channel ''close_requested_at'' = has_key channel ''claim_deadline''"
    "has_key channel ''close_requested_at''"
    using assms unfolding check_close_fields_def Let_def bind_res_eq_Inr run_all.simps bind_unit_eq_Inr reject_if_eq_Inr
    by auto
  then show ?thesis by simp
qed

lemma raises_check_lifecycle:
  assumes "S \<le> A" "A \<le> F - R" "status = ''closed'' \<Longrightarrow> has_key channel ''claim_deadline''"
  shows "raises channel_exn (check_lifecycle channel status F A S R updated expires)"
  using assms unfolding check_lifecycle_def ch_checks by (intro raises_intros; simp)

definition fund :: "int \<Rightarrow> accounting_projection \<Rightarrow> accounting_projection" where
  "fund a p = p\<lparr>funded_total_base_units := funded_total_base_units p + a,
     vault_balance_base_units := vault_balance_base_units p + a,
     unallocated_capacity_base_units := unallocated_capacity_base_units p + a\<rparr>"

lemma validate_funding_transitionE:
  assumes "validate_funding_transition prev ev aft = Inr q"
  obtains event amount st t0 t1 t2 p where
    "validate_channel prev = Inr p" "validate_channel aft = Inr q"
    "ev = PDict event" "expected_status_after (dict_of prev) = Inr st"
    "item (dict_of aft) ''status'' = PStr st"
    "check_funding_event event (funded_total_base_units p) = Inr (funded_total_base_units q)"
    "\<forall>f\<in>{''channel_id'', ''channel_account'', ''mint''}. py_eq (item event f) (item (dict_of aft) f)"
    "\<forall>f\<in>set funding_immutable_fields. py_eq (item (dict_of prev) f) (item (dict_of aft) f)"
    "ch_timestamp (item (dict_of prev) ''updated_at'') ''previous_channel.updated_at'' = Inr t0"
    "ch_timestamp (item event ''observed_at'') ''funding.observed_at'' = Inr t1"
    "ch_timestamp (item (dict_of aft) ''updated_at'') ''channel_after.updated_at'' = Inr t2"
    "t0 \<le> t1" "t1 \<le> t2"
proof -
  from assms show thesis
    unfolding validate_funding_transition_def Let_def bind_unit_eq_Inr bind_res_eq_Inr reject_if_eq_Inr
      run_all_map_reject ch_closed_object_def closed_with_Inr sum.inject not_not list.set
    by (elim exE conjE, hypsubst) (rule that, (assumption | simp)+)
qed

lemma check_funding_event_Inr:
  "check_funding_event event F = Inr F' \<Longrightarrow>
     \<exists>s. item event ''amount_base_units'' = PStr s \<and> amount_text s \<and> 0 < undec_nat s \<and> F' = F + int (undec_nat s)"
  unfolding check_funding_event_def bind_unit_eq_Inr bind_res_eq_Inr reject_if_eq_Inr run_all.simps ch_amount_def
    amount_with_Inr
  by (elim exE conjE) (auto simp: gr0I)

lemma same_amount:
  assumes "f \<in> set funding_immutable_fields"
    "\<forall>f\<in>set funding_immutable_fields. py_eq (item d f) (item d' f)"
    "ch_amount (item d f) g = Inr a" "ch_amount (item d' f) g' = Inr b"
  shows "a = b"
  using assms by (auto simp: ch_amount_def res_simps)

definition example_key :: "char \<Rightarrow> string" where
  "example_key c = replicate 32 c"

lemma key_no_surrogate [simp]: "of_char c \<noteq> (237::nat) \<Longrightarrow> \<not> has_surrogate (example_key c)"
  using has_surrogate_char [of "example_key c"] by (auto simp: example_key_def)

definition example_policy :: pyval where
  "example_policy = PDict
     [(KStr ''type'', PStr ''channel_policy''), (KStr ''protocol_version'', PStr ''1.0.0''),
      (KStr ''channel_id'', PStr ''channel-1''),
      (KStr ''max_cumulative_authorized_base_units'', PStr ''900''),
      (KStr ''allow_partial_settlement'', PBool True), (KStr ''allow_top_up'', PBool True),
      (KStr ''minimum_close_grace_seconds'', PInt 3600), (KStr ''rebind_mode'', PStr ''disabled'')]"

definition example_channel :: "string \<Rightarrow> string \<Rightarrow> pyval" where
  "example_channel funded updated = PDict
     [(KStr ''type'', PStr ''channel''), (KStr ''protocol_version'', PStr ''1.0.0''),
      (KStr ''account_version'', PInt 1), (KStr ''environment'', PStr ''devnet''),
      (KStr ''network'', PStr ''solana:devnet''), (KStr ''genesis_hash'', PStr (example_key CHR ''1'')),
      (KStr ''program_id'', PStr (example_key CHR ''2'')), (KStr ''channel_id'', PStr ''channel-1''),
      (KStr ''channel_account'', PStr (example_key CHR ''3'')), (KStr ''epoch'', PInt 0),
      (KStr ''sender'', PStr (example_key CHR ''4'')),
      (KStr ''recipient_claim_pubkey'', PStr (example_key CHR ''5'')),
      (KStr ''recipient_wallet'', PStr (example_key CHR ''6'')),
      (KStr ''mint'', PStr (example_key CHR ''7'')), (KStr ''decimals'', PInt 6),
      (KStr ''vault_token_account'', PStr (example_key CHR ''8'')),
      (KStr ''funded_total_base_units'', PStr funded),
      (KStr ''activated_authorized_total_base_units'', PStr ''400''),
      (KStr ''settled_total_base_units'', PStr ''150''), (KStr ''refunded_total_base_units'', PStr ''0''),
      (KStr ''latest_activated_sequence'', PInt 3),
      (KStr ''latest_activated_voucher_hash'', PStr (''sha256:'' @ replicate 64 (CHR ''a''))),
      (KStr ''status'', PStr ''active''), (KStr ''expires_at'', PStr ''2026-12-31T00:00:00Z''),
      (KStr ''policy'', example_policy), (KStr ''created_at'', PStr ''2026-01-01T00:00:00Z''),
      (KStr ''updated_at'', PStr updated)]"
definition example_funding :: pyval where
  "example_funding = PDict
     [(KStr ''type'', PStr ''channel_funding''), (KStr ''protocol_version'', PStr ''1.0.0''),
      (KStr ''funding_id'', PStr ''funding-2''), (KStr ''channel_id'', PStr ''channel-1''),
      (KStr ''channel_account'', PStr (example_key CHR ''3'')), (KStr ''mint'', PStr (example_key CHR ''7'')),
      (KStr ''amount_base_units'', PStr ''250''), (KStr ''funded_total_after_base_units'', PStr ''1250''),
      (KStr ''transaction_signature'', PStr (replicate 64 (CHR ''9''))), (KStr ''observed_slot'', PInt 77),
      (KStr ''observed_at'', PStr ''2026-02-02T00:00:00Z'')]"

definition example_before :: pyval where
  "example_before = example_channel ''1000'' ''2026-02-01T00:00:00Z''"

definition example_after :: pyval where
  "example_after = example_channel ''1250'' ''2026-02-03T00:00:00Z''"

lemma example_before_valid: "validate_channel example_before = Inr (make_projection 1000 400 150 0)"
  by code_simp

lemma example_after_valid: "validate_channel example_after = Inr (make_projection 1250 400 150 0)"
  by code_simp

lemma example_times [simp]:
  "fromisoformat_utc ''2026-02-01T00:00:00Z'' = Some 63905587200000000"
  "fromisoformat_utc ''2026-02-02T00:00:00Z'' = Some 63905673600000000"
  "fromisoformat_utc ''2026-02-03T00:00:00Z'' = Some 63905760000000000"
  by code_simp+

lemma example_funding_checked:
  "check_funding_event (dict_of example_funding) 1000 = Inr 1250"
  by code_simp

lemma example_identity_kept:
  "run_all (map (\<lambda>f. reject_if
     (\<not> py_eq (item (dict_of example_before) f) (item (dict_of example_after) f)) (e f))
     funding_immutable_fields) = Inr ()"
  unfolding run_all_map_reject by code_simp

lemma example_funding_valid:
  "validate_funding_transition example_before example_funding example_after =
     Inr (make_projection 1250 400 150 0)"
  using example_funding_checked
  by (simp add: validate_funding_transition_def example_before_valid example_after_valid
      example_identity_kept make_projection_def)
     (simp add: expected_status_after_def example_before_def example_after_def example_channel_def
      item_def ch_closed_object_def closed_with_def example_funding_def missing_keys_def
      unknown_keys_def funding_fields_def ch_timestamp_def timestamp_with_def example_policy_def)

section \<open>Properties\<close>

text \<open>
  Property C32. An accepted snapshot satisfies the channel accounting law: every unit of
  funding is in the vault, settled or refunded; the recipient's outstanding right plus the
  unallocated capacity is exactly the vault; 0 <= S <= A <= F - R and F fits in 64 bits.
\<close>

theorem channel_accounting_conserved:
  assumes "validate_channel v = Inr p"
  shows "accounting_ok p"
  using assms by (rule validate_channel_accounting)

theorem channel_accounting_conserved_witness:
  "accounting_ok (make_projection 1000 400 150 0)"
  by (rule channel_accounting_conserved [OF example_before_valid])

text \<open>
  What the lifecycle status of an accepted snapshot says about its accounting:
  a draft holds nothing, a funding channel has no activated right, active, settling and
  closing channels are funded, a settling channel has a bound wallet and a right to settle,
  and expired and closed channels leave no right open, a closed one nothing in the vault.
\<close>

theorem channel_lifecycle_accounting:
  assumes "validate_channel v = Inr p"
  shows "lifecycle_ok v p"
  using assms
proof (rule validate_channelE)
  fix channel F A S R updated expires created status
  assume v: "v = PDict channel" and p: "p = make_projection F A S R"
    and F: "ch_amount (item channel ''funded_total_base_units'') ''funded_total_base_units'' = Inr F"
    and cf: "check_close_fields channel created updated = Inr status"
    and lc: "check_lifecycle channel status F A S R updated expires = Inr ()"
  have st: "status_of v = status" "status \<in> set channel_statuses"
    using check_close_fields_status [OF cf] by (simp_all add: status_of_def v)
  have "0 \<le> F" using F by (auto simp: ch_amount_def dest!: amount_with_nonneg)
  then have "status \<in> {''active'', ''settling'', ''closing''} \<longrightarrow> 0 < F"
    using lifecycle_funded [OF lc] by linarith
  moreover have "status = ''draft'' \<longrightarrow> p = make_projection 0 0 0 0"
    using lifecycle_draft [OF lc] by (simp add: p)
  moreover have "status = ''funding'' \<longrightarrow> p = make_projection F 0 0 0"
    using lifecycle_funding [OF lc] by (simp add: p)
  moreover have "status = ''settling'' \<longrightarrow> has_key channel ''recipient_wallet'' \<and> S < A"
    using lifecycle_settling [OF lc] by simp
  moreover have "status \<in> {''expired'', ''closed''} \<longrightarrow> A = S"
    using lifecycle_expired [OF lc] lifecycle_closed [OF lc] by blast
  moreover have "status = ''closed'' \<longrightarrow> F = S + R"
    using lifecycle_closed [OF lc] by simp
  ultimately show ?thesis
    unfolding lifecycle_ok_def st(1) using st(2)
    by (simp add: v p make_projection_def)
qed

theorem channel_lifecycle_accounting_witness:
  "lifecycle_ok example_before (make_projection 1000 400 150 0)"
  by (rule channel_lifecycle_accounting [OF example_before_valid])

text \<open>
  Validation of a snapshot fails only with a ChannelValidationError, or with the
  TypeError of an unhashable status or mode and the ValueError of an over-long amount text; the
  AssertionError and the conservation_violation branch of the code cannot be reached.
\<close>

theorem validate_channel_exceptions:
  assumes "validate_channel v = Inl e"
  shows "channel_exn e"
proof -
  have "raises channel_exn (validate_channel v)"
    unfolding validate_channel_def ch_closed_object_def ch_amount_def
    by (intro raises_intros raises_check_identity raises_validate_policy raises_check_accounting
        raises_check_times raises_check_close_fields raises_check_lifecycle check_close_fields_closed;
        (assumption | simp add: check_accounting_Inr | blast))
  then show ?thesis using assms by (rule raisesD)
qed

theorem validate_channel_exceptions_witness:
  "channel_exn (ch_reject ''invalid_type'' ''channel'')"
  by (rule validate_channel_exceptions [of PNone]) code_simp

text \<open>
  Property C33. An accepted funding transition is exactly one deposit: both snapshots are
  valid, the observed amount is positive, and the accounting after is the accounting before
  with that amount added to the funding, the vault and the unallocated capacity, and with
  the activated, settled and refunded totals unchanged.
\<close>

theorem funding_transition_refines_fund:
  assumes "validate_funding_transition previous event after = Inr q"
  shows "\<exists>p s. validate_channel previous = Inr p \<and> validate_channel after = Inr q \<and>
           item (dict_of event) ''amount_base_units'' = PStr s \<and> 0 < undec_nat s \<and>
           q = fund (int (undec_nat s)) p"
  using assms
proof (rule validate_funding_transitionE)
  fix p ev
  assume p: "validate_channel previous = Inr p" and q: "validate_channel after = Inr q"
    and ev: "event = PDict ev"
    and fe: "check_funding_event ev (funded_total_base_units p) = Inr (funded_total_base_units q)"
    and same: "\<forall>f\<in>set funding_immutable_fields. py_eq (item (dict_of previous) f) (item (dict_of after) f)"
  from check_funding_event_Inr [OF fe] obtain s where
    s: "item ev ''amount_base_units'' = PStr s" "0 < undec_nat s"
      "funded_total_base_units q = funded_total_base_units p + int (undec_nat s)" by blast
  from p obtain F A S R where P: "p = make_projection F A S R"
    "ch_amount (item (dict_of previous) ''activated_authorized_total_base_units'')
       ''activated_authorized_total_base_units'' = Inr A"
    "ch_amount (item (dict_of previous) ''settled_total_base_units'') ''settled_total_base_units'' = Inr S"
    "ch_amount (item (dict_of previous) ''refunded_total_base_units'') ''refunded_total_base_units'' = Inr R"
    by (rule validate_channelE) simp
  from q obtain F' A' S' R' where Q: "q = make_projection F' A' S' R'"
    "ch_amount (item (dict_of after) ''activated_authorized_total_base_units'')
       ''activated_authorized_total_base_units'' = Inr A'"
    "ch_amount (item (dict_of after) ''settled_total_base_units'') ''settled_total_base_units'' = Inr S'"
    "ch_amount (item (dict_of after) ''refunded_total_base_units'') ''refunded_total_base_units'' = Inr R'"
    by (rule validate_channelE) simp
  have "A' = A" "S' = S" "R' = R"
    using same_amount [OF _ same P(2) Q(2)] same_amount [OF _ same P(3) Q(3)]
      same_amount [OF _ same P(4) Q(4)] by (simp_all add: funding_immutable_fields_def)
  then have "q = fund (int (undec_nat s)) p"
    using s(3) by (simp add: P(1) Q(1) fund_def make_projection_def)
  with p q ev s show ?thesis by auto
qed

theorem funding_transition_refines_fund_witness:
  "\<exists>p s. validate_channel example_before = Inr p \<and>
     validate_channel example_after = Inr (make_projection 1250 400 150 0) \<and>
     item (dict_of example_funding) ''amount_base_units'' = PStr s \<and> 0 < undec_nat s \<and>
     make_projection 1250 400 150 0 = fund (int (undec_nat s)) p"
  by (rule funding_transition_refines_fund [OF example_funding_valid])

end
