(* ===== verification/Voucher.thy ===== *)
theory Voucher
  imports Channel
begin

text \<open>
  \<^verbatim>\<open>foundry_channel_protocol/voucher.py\<close>, offline verification: the closed voucher payload and its
  canonical bytes, the authoritative context, and \<^verbatim>\<open>verify_voucher\<close>. The signature verifier is an
  argument; a call returns \<open>VTrue\<close> (the object True), \<open>VOther\<close> (anything else) or raises
  (\<open>VRaise\<close>). Context fields are Python values because the code checks their types itself.
\<close>

definition voucher_fields :: "string list" where
  "voucher_fields = [''type'', ''protocol_version'', ''payload'', ''voucher_hash'', ''sender_signature'']"

definition payload_fields :: "string list" where
  "payload_fields =
     [''domain'', ''protocol_version'', ''environment'', ''network'', ''genesis_hash'', ''program_id'',
      ''channel_id'', ''channel_account'', ''epoch'', ''sequence'', ''previous_activated_voucher_hash'',
      ''sender'', ''recipient_claim_pubkey'', ''mint'', ''cumulative_authorized_base_units'',
      ''issued_at'', ''expires_at'']"

datatype verdict = VTrue | VOther | VRaise

text \<open>Public key, message bytes, signature.\<close>

type_synonym signature_verifier = "string \<Rightarrow> string \<Rightarrow> string \<Rightarrow> verdict"

record voucher_context =
  ctx_environment :: pyval
  ctx_network :: pyval
  ctx_genesis_hash :: pyval
  ctx_program_id :: pyval
  ctx_channel_id :: pyval
  ctx_channel_account :: pyval
  ctx_epoch :: pyval
  ctx_sender :: pyval
  ctx_recipient_claim_pubkey :: pyval
  ctx_mint :: pyval
  ctx_funded_total :: pyval
  ctx_refunded_total :: pyval
  ctx_policy_limit :: pyval
  ctx_channel_expires_at :: py_datetime
  ctx_latest_sequence :: pyval
  ctx_latest_total :: pyval
  ctx_latest_hash :: pyval

record verified_voucher =
  vv_voucher_hash :: string
  vv_canonical_payload :: string
  vv_sequence :: int
  vv_cumulative_total :: int
  vv_expires_at :: int

section \<open>Field checks\<close>

abbreviation vo_reject :: "string \<Rightarrow> string \<Rightarrow> exn" where
  "vo_reject \<equiv> Exn VoucherValidationError"

definition vo_closed_object :: "pyval \<Rightarrow> string \<Rightarrow> string list \<Rightarrow> pydict res" where
  "vo_closed_object v f required = closed_with VoucherValidationError True v f required required"

definition vo_literal :: "pyval \<Rightarrow> pyval \<Rightarrow> string \<Rightarrow> unit res" where
  "vo_literal v expected f = literal_with VoucherValidationError ''invalid_literal'' v expected f"

definition vo_integer :: "pyval \<Rightarrow> string \<Rightarrow> int \<Rightarrow> int res" where
  "vo_integer v f minimum =
     integer_with VoucherValidationError ''invalid_integer'' minimum json_safe_max v f"

definition vo_string :: "pyval \<Rightarrow> string \<Rightarrow> (string \<Rightarrow> bool) \<Rightarrow> string res" where
  "vo_string v f pattern = string_with VoucherValidationError pattern ''invalid_string'' v f"

definition vo_amount :: "pyval \<Rightarrow> string \<Rightarrow> int res" where
  "vo_amount v f = amount_with VoucherValidationError v f"

definition vo_timestamp :: "pyval \<Rightarrow> string \<Rightarrow> int res" where
  "vo_timestamp v f = timestamp_with VoucherValidationError strptime_utc v f"

definition vo_utc :: "py_datetime \<Rightarrow> string \<Rightarrow> int res" where
  "vo_utc t f =
     (if utcoffset t \<noteq> Some 0 then Inl (vo_reject ''invalid_clock'' f) else Inr (instant t))"

lemmas vo_checks = vo_closed_object_def vo_literal_def vo_integer_def vo_string_def vo_amount_def
  vo_timestamp_def

section \<open>Payload\<close>

definition check_payload :: "pydict \<Rightarrow> unit res" where
  "check_payload p =
     bind_res (run_all
       [reject_if (\<not> py_eq (item p ''domain'') (PStr ''foundry.channels.voucher''))
          (vo_reject ''domain_mismatch'' ''payload.domain''),
        reject_if (\<not> py_eq (item p ''protocol_version'') (PStr ''1.0.0''))
          (vo_reject ''protocol_version_unsupported'' ''payload.protocol_version''),
        reject_if (\<not> py_eq (item p ''environment'') (PStr ''devnet''))
          (vo_reject ''environment_mismatch'' ''payload.environment''),
        reject_if (\<not> py_eq (item p ''network'') (PStr ''solana:devnet''))
          (vo_reject ''network_mismatch'' ''payload.network'')]) (\<lambda>_.
     bind_res (run_all (map (\<lambda>f. ignore (vo_string (item p f) (''payload.'' @ f) pubkey_text))
       [''genesis_hash'', ''program_id'', ''channel_account'', ''sender'', ''recipient_claim_pubkey'',
        ''mint''])) (\<lambda>_.
     bind_res (run_all
       [ignore (vo_string (item p ''channel_id'') ''payload.channel_id'' identifier_text),
        ignore (vo_integer (item p ''epoch'') ''payload.epoch'' 0),
        ignore (vo_integer (item p ''sequence'') ''payload.sequence'' 1),
        ignore (vo_string (item p ''previous_activated_voucher_hash'')
          ''payload.previous_activated_voucher_hash'' hash_text),
        ignore (vo_amount (item p ''cumulative_authorized_base_units'')
          ''payload.cumulative_authorized_base_units'')]) (\<lambda>_.
     bind_res (vo_timestamp (item p ''issued_at'') ''payload.issued_at'') (\<lambda>issued.
     bind_res (vo_timestamp (item p ''expires_at'') ''payload.expires_at'') (\<lambda>expires.
     reject_if (expires \<le> issued) (vo_reject ''voucher_time_order_invalid'' ''payload.expires_at''))))))"

definition canonical_voucher_payload :: "serializer \<Rightarrow> pyval \<Rightarrow> string res" where
  "canonical_voucher_payload jcs payload =
     bind_res (vo_closed_object payload ''payload'' payload_fields) (\<lambda>normalized.
     bind_res (check_payload normalized) (\<lambda>_.
     catch_class CanonicalizationError (vo_reject ''canonicalization_failed'' ''payload'')
       (canonical_json_bytes jcs (PDict normalized))))"

definition voucher_payload_hash :: "serializer \<Rightarrow> pyval \<Rightarrow> string res" where
  "voucher_payload_hash jcs payload =
     bind_res (canonical_voucher_payload jcs payload) (\<lambda>b. Inr (sha256_raw_bytes b))"

section \<open>Context\<close>

fun int_between :: "int \<Rightarrow> int \<Rightarrow> pyval \<Rightarrow> bool" where
  "int_between lo hi (PInt i) = (lo \<le> i \<and> i \<le> hi)"
| "int_between lo hi _ = False"

definition context_validate :: "voucher_context \<Rightarrow> unit res" where
  "context_validate c =
     (let funded = int_value (ctx_funded_total c);
          refunded = int_value (ctx_refunded_total c);
          policy = int_value (ctx_policy_limit c);
          amount = int_value (ctx_latest_total c);
          sequence = int_value (ctx_latest_sequence c)
      in
      bind_res (reject_if (\<not> py_eq (ctx_environment c) (PStr ''devnet'') \<or>
          \<not> py_eq (ctx_network c) (PStr ''solana:devnet''))
        (vo_reject ''invalid_context_domain'' ''context.network'')) (\<lambda>_.
      bind_res (run_all (map (\<lambda>(f, v). ignore (vo_string v (''context.'' @ f) pubkey_text))
        [(''genesis_hash'', ctx_genesis_hash c), (''program_id'', ctx_program_id c),
         (''channel_account'', ctx_channel_account c), (''sender'', ctx_sender c),
         (''recipient_claim_pubkey'', ctx_recipient_claim_pubkey c), (''mint'', ctx_mint c)])) (\<lambda>_.
      bind_res (ignore (vo_string (ctx_channel_id c) ''context.channel_id'' identifier_text)) (\<lambda>_.
      bind_res (run_all (map (\<lambda>(f, v). reject_if (\<not> int_between 0 u64_max v)
            (vo_reject ''invalid_context_amount'' (''context.'' @ f)))
        [(''funded_total_base_units'', ctx_funded_total c),
         (''refunded_total_base_units'', ctx_refunded_total c),
         (''policy_limit_base_units'', ctx_policy_limit c),
         (''latest_activated_total_base_units'', ctx_latest_total c)])) (\<lambda>_.
      bind_res (run_all (map (\<lambda>(f, v). reject_if (\<not> int_between 0 json_safe_max v)
            (vo_reject ''invalid_context_integer'' (''context.'' @ f)))
        [(''epoch'', ctx_epoch c), (''latest_activated_sequence'', ctx_latest_sequence c)])) (\<lambda>_.
      bind_res (run_all
        [reject_if (refunded > funded)
           (vo_reject ''invalid_context_accounting'' ''context.refunded_total_base_units''),
         reject_if (amount > funded - refunded)
           (vo_reject ''invalid_context_accounting'' ''context.latest_activated_total''),
         reject_if (amount > policy)
           (vo_reject ''invalid_context_accounting'' ''context.policy_limit''),
         reject_if ((sequence = 0) \<noteq> (amount = 0))
           (vo_reject ''invalid_context_accounting'' ''context.latest_activated_sequence''),
         ignore (vo_string (ctx_latest_hash c) ''context.latest_activated_voucher_hash'' hash_text),
         reject_if (if sequence = 0 then ctx_latest_hash c \<noteq> PStr zero_hash
                    else ctx_latest_hash c = PStr zero_hash)
           (vo_reject ''invalid_context_accounting'' ''context.latest_activated_voucher_hash'')]) (\<lambda>_.
      ignore (vo_utc (ctx_channel_expires_at c) ''context.channel_expires_at''))))))))"

section \<open>Verification\<close>

text \<open>The fields of the payload compared with the context, with their rejection codes.\<close>

definition context_fields :: "voucher_context \<Rightarrow> (string \<times> string \<times> pyval) list" where
  "context_fields c =
     [(''environment'', ''environment_mismatch'', ctx_environment c),
      (''network'', ''network_mismatch'', ctx_network c),
      (''genesis_hash'', ''genesis_hash_mismatch'', ctx_genesis_hash c),
      (''program_id'', ''program_id_mismatch'', ctx_program_id c),
      (''channel_id'', ''channel_mismatch'', ctx_channel_id c),
      (''channel_account'', ''channel_account_mismatch'', ctx_channel_account c),
      (''epoch'', ''epoch_mismatch'', ctx_epoch c),
      (''sender'', ''sender_mismatch'', ctx_sender c),
      (''recipient_claim_pubkey'', ''recipient_mismatch'', ctx_recipient_claim_pubkey c),
      (''mint'', ''mint_mismatch'', ctx_mint c)]"

definition max_opt :: "int \<Rightarrow> int option \<Rightarrow> int" where
  "max_opt a b = (case b of None \<Rightarrow> a | Some x \<Rightarrow> max a x)"

definition check_authorization ::
  "voucher_context \<Rightarrow> int option \<Rightarrow> int option \<Rightarrow> int \<Rightarrow> int \<Rightarrow> unit res" where
  "check_authorization c issued_sequence issued_total sequence amount =
     (let amount_field = ''payload.cumulative_authorized_base_units'' in
      run_all
       [reject_if (sequence \<le> max_opt (int_value (ctx_latest_sequence c)) issued_sequence)
          (vo_reject ''sequence_not_monotonic'' ''payload.sequence''),
        reject_if (amount < max_opt (int_value (ctx_latest_total c)) issued_total)
          (vo_reject ''cumulative_amount_decreased'' amount_field),
        reject_if (amount = 0) (vo_reject ''zero_cumulative_authorization'' amount_field),
        reject_if (amount > int_value (ctx_funded_total c) - int_value (ctx_refunded_total c))
          (vo_reject ''authorization_exceeds_funding'' amount_field),
        reject_if (amount > int_value (ctx_policy_limit c))
          (vo_reject ''authorization_exceeds_policy'' amount_field)])"

definition check_signature :: "signature_verifier \<Rightarrow> string \<Rightarrow> string \<Rightarrow> string \<Rightarrow> unit res" where
  "check_signature sv key message signature =
     (case sv key message signature of
        VRaise \<Rightarrow> Inl (vo_reject ''signature_verifier_failed'' ''voucher.sender_signature'')
      | VOther \<Rightarrow> Inl (vo_reject ''invalid_sender_signature'' ''voucher.sender_signature'')
      | VTrue \<Rightarrow> Inr ())"

definition verify_voucher ::
  "serializer \<Rightarrow> signature_verifier \<Rightarrow> pyval \<Rightarrow> voucher_context \<Rightarrow> py_datetime \<Rightarrow>
   int option \<Rightarrow> int option \<Rightarrow> verified_voucher res" where
  "verify_voucher jcs sv voucher c now issued_sequence issued_total =
     bind_res (context_validate c) (\<lambda>_.
     bind_res (vo_utc now ''now'') (\<lambda>checked_now.
     bind_res (vo_closed_object voucher ''voucher'' voucher_fields) (\<lambda>envelope.
     bind_res (run_all
       [vo_literal (item envelope ''type'') (PStr ''channel_voucher'') ''voucher.type'',
        vo_literal (item envelope ''protocol_version'') (PStr ''1.0.0'') ''voucher.protocol_version'']) (\<lambda>_.
     bind_res (vo_closed_object (item envelope ''payload'') ''payload'' payload_fields) (\<lambda>payload.
     bind_res (canonical_voucher_payload jcs (PDict payload)) (\<lambda>canonical.
     let expected_hash = sha256_raw_bytes canonical in
     bind_res (vo_string (item envelope ''voucher_hash'') ''voucher.voucher_hash'' hash_text) (\<lambda>supplied_hash.
     bind_res (reject_if (supplied_hash \<noteq> expected_hash)
         (vo_reject ''voucher_hash_mismatch'' ''voucher.voucher_hash'')) (\<lambda>_.
     bind_res (vo_string (item envelope ''sender_signature'') ''voucher.sender_signature''
         signature_text) (\<lambda>signature.
     bind_res (run_all (map (\<lambda>(f, code, expected). reject_if (\<not> py_eq (item payload f) expected)
           (vo_reject code (''payload.'' @ f))) (context_fields c))) (\<lambda>_.
     bind_res (reject_if (\<not> py_eq (item payload ''previous_activated_voucher_hash'') (ctx_latest_hash c))
         (vo_reject ''previous_voucher_hash_mismatch'' ''payload.previous_activated_voucher_hash'')) (\<lambda>_.
     bind_res (vo_integer (item payload ''sequence'') ''payload.sequence'' 1) (\<lambda>sequence.
     bind_res (vo_amount (item payload ''cumulative_authorized_base_units'')
         ''payload.cumulative_authorized_base_units'') (\<lambda>amount.
     bind_res (check_authorization c issued_sequence issued_total sequence amount) (\<lambda>_.
     bind_res (vo_timestamp (item payload ''issued_at'') ''payload.issued_at'') (\<lambda>issued.
     bind_res (vo_timestamp (item payload ''expires_at'') ''payload.expires_at'') (\<lambda>expires.
     bind_res (run_all
       [reject_if (issued > checked_now) (vo_reject ''voucher_issued_in_future'' ''payload.issued_at''),
        reject_if (checked_now \<ge> expires) (vo_reject ''voucher_expired'' ''payload.expires_at''),
        reject_if (expires > instant (ctx_channel_expires_at c))
          (vo_reject ''voucher_exceeds_channel_expiry'' ''payload.expires_at'')]) (\<lambda>_.
     bind_res (check_signature sv (the (str_of (ctx_sender c))) canonical signature) (\<lambda>_.
     Inr \<lparr>vv_voucher_hash = expected_hash, vv_canonical_payload = canonical, vv_sequence = sequence,
          vv_cumulative_total = amount, vv_expires_at = expires\<rparr>))))))))))))))))))"

section \<open>What verification establishes\<close>

lemma raises_vo_utc [raises_intros]: "P (vo_reject ''invalid_clock'' f) \<Longrightarrow> raises P (vo_utc t f)"
  by (simp add: vo_utc_def raises_def)

lemma vo_utc_Inr [res_simps]: "vo_utc t f = Inr i \<longleftrightarrow> utcoffset t = Some 0 \<and> i = wall t"
  by (auto simp: vo_utc_def instant_def)

lemma int_between_iff: "int_between lo hi v \<longleftrightarrow> (\<exists>i. v = PInt i \<and> lo \<le> i \<and> i \<le> hi)"
  by (cases v) auto

lemma check_signature_Inr [res_simps]: "check_signature sv k m s = Inr u \<longleftrightarrow> sv k m s = VTrue"
  by (simp add: check_signature_def split: verdict.splits)

lemma canonical_voucher_payload_Inr:
  "canonical_voucher_payload jcs v = Inr b \<longleftrightarrow>
     (\<exists>p. v = PDict p \<and> vo_closed_object v ''payload'' payload_fields = Inr p \<and>
        check_payload p = Inr () \<and> signable v \<and> jcs v = Some b)"
  unfolding canonical_voucher_payload_def bind_unit_eq_Inr bind_res_eq_Inr catch_class_Inr
    canonical_json_bytes_Inr vo_closed_object_def closed_with_Inr by auto

lemma check_authorization_Inr:
  "check_authorization c s t n a = Inr () \<longleftrightarrow>
     max_opt (int_value (ctx_latest_sequence c)) s < n \<and>
     max_opt (int_value (ctx_latest_total c)) t \<le> a \<and> a \<noteq> 0 \<and>
     a \<le> int_value (ctx_funded_total c) - int_value (ctx_refunded_total c) \<and>
     a \<le> int_value (ctx_policy_limit c)"
  unfolding check_authorization_def Let_def run_all_Cons_Inr reject_if_eq_Inr by auto

definition context_bound :: "voucher_context \<Rightarrow> pydict \<Rightarrow> bool" where
  "context_bound c payload \<longleftrightarrow>
     (\<forall>(f, code, expected)\<in>set (context_fields c). py_eq (item payload f) expected) \<and>
     py_eq (item payload ''previous_activated_voucher_hash'') (ctx_latest_hash c)"

lemma run_all_context_fields:
  "run_all (map (\<lambda>(f, code, expected). reject_if (\<not> py_eq (item payload f) expected) (e f code)) xs) = Inr u \<longleftrightarrow>
     (\<forall>(f, code, expected)\<in>set xs. py_eq (item payload f) expected)"
  by (induction xs) (auto simp: run_all_Cons_Inr reject_if_eq_Inr simp del: run_all.simps(2))

lemma verify_voucherE:
  assumes "verify_voucher jcs sv voucher c now s t = Inr r"
  obtains envelope payload sig issued where
    "context_validate c = Inr ()" "utcoffset now = Some 0" "voucher = PDict envelope"
    "item envelope ''payload'' = PDict payload"
    "canonical_voucher_payload jcs (PDict payload) = Inr (vv_canonical_payload r)"
    "item envelope ''voucher_hash'' = PStr (vv_voucher_hash r)"
    "vv_voucher_hash r = sha256_raw_bytes (vv_canonical_payload r)"
    "item envelope ''sender_signature'' = PStr sig" "signature_text sig"
    "context_bound c payload"
    "item payload ''sequence'' = PInt (vv_sequence r)" "1 \<le> vv_sequence r" "vv_sequence r \<le> json_safe_max"
    "vo_amount (item payload ''cumulative_authorized_base_units'')
       ''payload.cumulative_authorized_base_units'' = Inr (vv_cumulative_total r)"
    "check_authorization c s t (vv_sequence r) (vv_cumulative_total r) = Inr ()"
    "vo_timestamp (item payload ''issued_at'') ''payload.issued_at'' = Inr issued"
    "vo_timestamp (item payload ''expires_at'') ''payload.expires_at'' = Inr (vv_expires_at r)"
    "issued \<le> wall now" "wall now < vv_expires_at r" "vv_expires_at r \<le> instant (ctx_channel_expires_at c)"
    "sv (the (str_of (ctx_sender c))) (vv_canonical_payload r) sig = VTrue"
proof -
  from assms show thesis
    unfolding verify_voucher_def Let_def bind_unit_eq_Inr bind_res_eq_Inr reject_if_eq_Inr
      run_all_context_fields run_all_Cons_Inr vo_utc_Inr check_signature_Inr sum.inject not_not not_less not_le
    by (elim exE conjE, hypsubst)
       (rule that, (assumption | simp add: context_bound_def vo_checks res_simps)+)
qed
definition voucher_exn :: "exn \<Rightarrow> bool" where
  "voucher_exn e \<longleftrightarrow>
     (case e of Exn c code f \<Rightarrow> c = VoucherValidationError
      | PyRaise n \<Rightarrow> n = ''TypeError'' \<or> n = ''ValueError'')"

lemma voucher_exn_simps [simp]:
  "voucher_exn (Exn c code f) \<longleftrightarrow> c = VoucherValidationError"
  "voucher_exn (PyRaise n) \<longleftrightarrow> n = ''TypeError'' \<or> n = ''ValueError''"
  by (simp_all add: voucher_exn_def)

lemma raises_context_validate: "raises voucher_exn (context_validate c)"
  unfolding context_validate_def Let_def vo_checks
  by (intro raises_intros; (simp split: prod.splits)?; intro raises_intros; simp)

lemma raises_check_payload: "raises voucher_exn (check_payload p)"
  unfolding check_payload_def vo_checks by (intro raises_intros; simp)

lemma raises_catch_canonical:
  "P e \<Longrightarrow> raises P (catch_class CanonicalizationError e (canonical_json_bytes jcs v))"
  using raises_canonical_json_bytes [of "is_exn CanonicalizationError" jcs v]
  by (cases "canonical_json_bytes jcs v") (auto simp: catch_class_def raises_def canon_error_def)

lemma raises_canonical_voucher_payload: "raises voucher_exn (canonical_voucher_payload jcs v)"
  unfolding canonical_voucher_payload_def vo_closed_object_def
  by (intro raises_bind raises_closed_with raises_check_payload raises_catch_canonical) simp_all

lemma raises_check_authorization: "raises voucher_exn (check_authorization c s t n a)"
  unfolding check_authorization_def Let_def by (intro raises_intros; simp)

lemma raises_check_signature: "raises voucher_exn (check_signature sv k m s)"
  by (simp add: check_signature_def raises_def split: verdict.splits)

lemma raises_verify_voucher: "raises voucher_exn (verify_voucher jcs sv voucher c now s t)"
  unfolding verify_voucher_def Let_def vo_checks
  by (intro raises_intros raises_context_validate raises_canonical_voucher_payload
      raises_check_authorization raises_check_signature; (simp split: prod.splits)?; intro raises_intros; simp)

definition example_signature :: "string \<Rightarrow> string" where
  "example_signature k = take 64 (k @ k)"

definition example_verifier :: signature_verifier where
  "example_verifier k m s = (if s = example_signature k then VTrue else VOther)"

definition example_payload :: "int \<Rightarrow> string \<Rightarrow> pydict" where
  "example_payload n amount =
     [(KStr ''channel_account'', PStr (example_key CHR ''3'')), (KStr ''channel_id'', PStr ''channel-1''),
      (KStr ''cumulative_authorized_base_units'', PStr amount),
      (KStr ''domain'', PStr ''foundry.channels.voucher''), (KStr ''environment'', PStr ''devnet''),
      (KStr ''epoch'', PInt 0), (KStr ''expires_at'', PStr ''2026-03-01T00:00:00Z''),
      (KStr ''genesis_hash'', PStr (example_key CHR ''1'')),
      (KStr ''issued_at'', PStr ''2026-02-02T00:00:00Z''), (KStr ''mint'', PStr (example_key CHR ''7'')),
      (KStr ''network'', PStr ''solana:devnet''),
      (KStr ''previous_activated_voucher_hash'', PStr (''sha256:'' @ replicate 64 (CHR ''a''))),
      (KStr ''program_id'', PStr (example_key CHR ''2'')), (KStr ''protocol_version'', PStr ''1.0.0''),
      (KStr ''recipient_claim_pubkey'', PStr (example_key CHR ''5'')),
      (KStr ''sender'', PStr (example_key CHR ''4'')), (KStr ''sequence'', PInt n)]"

definition example_voucher :: "int \<Rightarrow> string \<Rightarrow> pyval" where
  "example_voucher n amount = PDict
     [(KStr ''payload'', PDict (example_payload n amount)), (KStr ''protocol_version'', PStr ''1.0.0''),
      (KStr ''sender_signature'', PStr (example_signature (example_key CHR ''4''))),
      (KStr ''type'', PStr ''channel_voucher''),
      (KStr ''voucher_hash'', PStr (sha256_raw_bytes (example_jcs_text (PDict (example_payload n amount)))))]"

definition example_context :: voucher_context where
  "example_context = \<lparr>ctx_environment = PStr ''devnet'', ctx_network = PStr ''solana:devnet'',
     ctx_genesis_hash = PStr (example_key CHR ''1''), ctx_program_id = PStr (example_key CHR ''2''),
     ctx_channel_id = PStr ''channel-1'', ctx_channel_account = PStr (example_key CHR ''3''),
     ctx_epoch = PInt 0, ctx_sender = PStr (example_key CHR ''4''),
     ctx_recipient_claim_pubkey = PStr (example_key CHR ''5''), ctx_mint = PStr (example_key CHR ''7''),
     ctx_funded_total = PInt 1000, ctx_refunded_total = PInt 0, ctx_policy_limit = PInt 900,
     ctx_channel_expires_at = utc_datetime 63934272000000000,
     ctx_latest_sequence = PInt 3, ctx_latest_total = PInt 400,
     ctx_latest_hash = PStr (''sha256:'' @ replicate 64 (CHR ''a''))\<rparr>"

definition example_now :: py_datetime where
  "example_now = utc_datetime 63905760000000000"

definition example_verified :: verified_voucher where
  "example_verified =
     \<lparr>vv_voucher_hash = sha256_raw_bytes (example_jcs_text (PDict (example_payload 4 ''500''))),
      vv_canonical_payload = example_jcs_text (PDict (example_payload 4 ''500'')),
      vv_sequence = 4, vv_cumulative_total = 500, vv_expires_at = 63908006400000000\<rparr>"

lemma example_context_valid: "context_validate example_context = Inr ()"
  by code_simp

lemma example_payload_closed:
  "vo_closed_object (PDict (example_payload n a)) f payload_fields = Inr (example_payload n a)"
  by (simp add: vo_closed_object_def closed_with_def example_payload_def payload_fields_def
      missing_keys_def unknown_keys_def)

lemma example_payload_checked: "check_payload (example_payload 4 ''500'') = Inr ()"
  by code_simp

lemma example_payload_signable: "signable (PDict (example_payload 4 ''500''))"
  by code_simp

lemma example_canonical:
  "canonical_voucher_payload example_jcs (PDict (example_payload 4 ''500'')) =
     Inr (example_jcs_text (PDict (example_payload 4 ''500'')))"
  using example_payload_signable
  by (simp add: canonical_voucher_payload_Inr example_payload_closed example_payload_checked example_jcs_def
      del: signable.simps)

lemma example_context_match:
  "run_all (map (\<lambda>(f, code, expected). reject_if (\<not> py_eq (item (example_payload n a) f) expected)
     (e f code)) (context_fields example_context)) = Inr ()"
  by (simp add: context_fields_def example_context_def example_payload_def item_def)

lemma example_key_signature: "signature_text (example_signature (example_key CHR ''4''))"
  by code_simp

lemma example_voucher_times [simp]:
  "strptime_utc ''2026-02-02T00:00:00Z'' = Some 63905673600000000"
  "strptime_utc ''2026-03-01T00:00:00Z'' = Some 63908006400000000"
  by code_simp+

lemma example_voucher_verified:
  "verify_voucher example_jcs example_verifier (example_voucher 4 ''500'') example_context example_now
     None None =
   Inr example_verified"
proof -
  let ?p = "example_payload 4 ''500''"
  have closed: "vo_closed_object (example_voucher 4 ''500'') ''voucher'' voucher_fields =
      Inr (dict_of (example_voucher 4 ''500''))"
    by (simp add: vo_closed_object_def closed_with_def example_voucher_def voucher_fields_def
      missing_keys_def unknown_keys_def)
  have items: "item (dict_of (example_voucher 4 ''500'')) ''type'' = PStr ''channel_voucher''"
    "item (dict_of (example_voucher 4 ''500'')) ''protocol_version'' = PStr ''1.0.0''"
    "item (dict_of (example_voucher 4 ''500'')) ''payload'' = PDict ?p"
    "item (dict_of (example_voucher 4 ''500'')) ''voucher_hash'' =
       PStr (sha256_raw_bytes (example_jcs_text (PDict ?p)))"
    "item (dict_of (example_voucher 4 ''500'')) ''sender_signature'' = PStr (example_signature (example_key CHR ''4''))"
    by (simp_all add: example_voucher_def item_def)
  have pitems: "item ?p ''previous_activated_voucher_hash'' = PStr (''sha256:'' @ replicate 64 (CHR ''a''))"
    "item ?p ''sequence'' = PInt 4" "item ?p ''cumulative_authorized_base_units'' = PStr ''500''"
    "item ?p ''issued_at'' = PStr ''2026-02-02T00:00:00Z''" "item ?p ''expires_at'' = PStr ''2026-03-01T00:00:00Z''"
    by (simp_all add: example_payload_def item_def)
  have seq: "vo_integer (PInt 4) ''payload.sequence'' 1 = Inr 4"
    and amt: "vo_amount (PStr ''500'') ''payload.cumulative_authorized_base_units'' = Inr 500"
    and auth: "check_authorization example_context None None 4 500 = Inr ()"
    by code_simp+
  have sig: "check_signature example_verifier (the (str_of (ctx_sender example_context)))
      (example_jcs_text (PDict ?p)) (example_signature (example_key CHR ''4'')) = Inr ()"
    by (simp add: check_signature_def example_verifier_def example_context_def)
  have ctx: "ctx_latest_hash example_context = PStr (''sha256:'' @ replicate 64 (CHR ''a''))"
    "instant (ctx_channel_expires_at example_context) = 63934272000000000"
    by (simp_all add: example_context_def instant_def utc_datetime_def)
  have now: "vo_utc example_now ''now'' = Inr 63905760000000000"
    by (simp add: example_now_def vo_utc_def instant_def utc_datetime_def)
  show ?thesis
    by (simp add: verify_voucher_def example_verified_def example_context_valid now closed items example_payload_closed
        example_canonical example_context_match pitems seq amt auth sig ctx vo_literal_def literal_with_def
        vo_string_def string_with_def example_key_signature vo_timestamp_def timestamp_with_def Let_def
        del: replicate.simps example_jcs_text.simps)
qed

lemma context_validate_Inr:
  assumes "context_validate c = Inr ()"
  shows context_sender: "\<exists>k. ctx_sender c = PStr k \<and> pubkey_text k"
    and context_accounting: "int_value (ctx_refunded_total c) \<le> int_value (ctx_funded_total c)"
      "0 \<le> int_value (ctx_latest_total c)" "0 \<le> int_value (ctx_latest_sequence c)"
      "int_value (ctx_funded_total c) \<le> u64_max" "0 \<le> int_value (ctx_refunded_total c)"
    and context_expiry: "utcoffset (ctx_channel_expires_at c) = Some 0"
proof -
  from assms have a: "vo_string (ctx_sender c) ''context.sender'' pubkey_text \<in> range Inr"
    "int_between 0 u64_max (ctx_funded_total c)" "int_between 0 u64_max (ctx_refunded_total c)"
    "int_between 0 u64_max (ctx_latest_total c)" "int_between 0 json_safe_max (ctx_latest_sequence c)"
    "int_value (ctx_refunded_total c) \<le> int_value (ctx_funded_total c)"
    "utcoffset (ctx_channel_expires_at c) = Some 0"
    unfolding context_validate_def Let_def bind_unit_eq_Inr ignore_Inr vo_utc_Inr list.map prod.case
      run_all_Cons_Inr reject_if_eq_Inr
    by (auto simp: image_iff)
  then show "\<exists>k. ctx_sender c = PStr k \<and> pubkey_text k"
    by (auto simp: vo_string_def res_simps)
  from a show "int_value (ctx_refunded_total c) \<le> int_value (ctx_funded_total c)"
      "0 \<le> int_value (ctx_latest_total c)" "0 \<le> int_value (ctx_latest_sequence c)"
      "int_value (ctx_funded_total c) \<le> u64_max" "0 \<le> int_value (ctx_refunded_total c)"
      "utcoffset (ctx_channel_expires_at c) = Some 0"
    by (auto simp: int_between_iff)
qed

section \<open>Properties\<close>

text \<open>
  Property C35. A verified voucher is bound to exactly one message: its hash is the SHA-256 of
  the canonical bytes of its payload, the sender named by the context signed those very bytes,
  and every identity field of the payload and the previous activated voucher hash are those of
  the context.
\<close>

theorem verified_voucher_binds_payload:
  assumes "verify_voucher jcs sv voucher c now s t = Inr r"
  shows "\<exists>payload sig key.
    item (dict_of voucher) ''payload'' = PDict payload \<and>
    item (dict_of voucher) ''sender_signature'' = PStr sig \<and> ctx_sender c = PStr key \<and>
    context_bound c payload \<and> jcs (PDict payload) = Some (vv_canonical_payload r) \<and>
    item (dict_of voucher) ''voucher_hash'' = PStr (vv_voucher_hash r) \<and>
    vv_voucher_hash r = sha256_raw_bytes (vv_canonical_payload r) \<and>
    sv key (vv_canonical_payload r) sig = VTrue"
  using assms
proof (rule verify_voucherE)
  fix envelope payload sig
  assume "context_validate c = Inr ()" "voucher = PDict envelope" "item envelope ''payload'' = PDict payload"
    "canonical_voucher_payload jcs (PDict payload) = Inr (vv_canonical_payload r)"
    "item envelope ''voucher_hash'' = PStr (vv_voucher_hash r)"
    "vv_voucher_hash r = sha256_raw_bytes (vv_canonical_payload r)"
    "item envelope ''sender_signature'' = PStr sig" "context_bound c payload"
    "sv (the (str_of (ctx_sender c))) (vv_canonical_payload r) sig = VTrue"
  then show ?thesis
    using context_sender [of c] by (auto simp: canonical_voucher_payload_Inr)
qed

theorem verified_voucher_binds_payload_witness:
  "\<exists>payload sig key.
    item (dict_of (example_voucher 4 ''500'')) ''payload'' = PDict payload \<and>
    item (dict_of (example_voucher 4 ''500'')) ''sender_signature'' = PStr sig \<and>
    ctx_sender example_context = PStr key \<and>
    context_bound example_context payload \<and> example_jcs (PDict payload) = Some (vv_canonical_payload example_verified) \<and>
    item (dict_of (example_voucher 4 ''500'')) ''voucher_hash'' = PStr (vv_voucher_hash example_verified) \<and>
    vv_voucher_hash example_verified = sha256_raw_bytes (vv_canonical_payload example_verified) \<and>
    example_verifier key (vv_canonical_payload example_verified) sig = VTrue"
  by (rule verified_voucher_binds_payload [OF example_voucher_verified])

text \<open>
  What a verified voucher authorizes is in bounds: its sequence is above the
  activated one and above the latest issued one, its positive cumulative total does not fall
  below either of their totals and exceeds neither funding minus refunds nor the policy limit,
  and the verifier's clock is inside the validity window, which ends by the channel's expiry.
\<close>

theorem verified_voucher_authorization:
  assumes "verify_voucher jcs sv voucher c now s t = Inr r"
  shows "int_value (ctx_latest_sequence c) < vv_sequence r \<and> (\<forall>n. s = Some n \<longrightarrow> n < vv_sequence r) \<and>
    0 < vv_cumulative_total r \<and> int_value (ctx_latest_total c) \<le> vv_cumulative_total r \<and>
    (\<forall>n. t = Some n \<longrightarrow> n \<le> vv_cumulative_total r) \<and>
    vv_cumulative_total r \<le> int_value (ctx_funded_total c) - int_value (ctx_refunded_total c) \<and>
    vv_cumulative_total r \<le> int_value (ctx_policy_limit c) \<and>
    instant now < vv_expires_at r \<and> vv_expires_at r \<le> instant (ctx_channel_expires_at c)"
  using assms
proof (rule verify_voucherE)
  assume "utcoffset now = Some 0" "wall now < vv_expires_at r"
    "vv_expires_at r \<le> instant (ctx_channel_expires_at c)"
    and auth: "check_authorization c s t (vv_sequence r) (vv_cumulative_total r) = Inr ()"
  note auth' = auth [unfolded check_authorization_Inr max_opt_def]
  moreover have "0 \<le> vv_cumulative_total r"
    using assms by (rule verify_voucherE) (auto simp: vo_amount_def dest: amount_with_nonneg)
  ultimately show ?thesis
    using \<open>utcoffset now = Some 0\<close> \<open>wall now < _\<close> \<open>vv_expires_at r \<le> _\<close>
    by (auto simp: instant_def split: option.splits)
qed

theorem verified_voucher_authorization_witness:
  "int_value (ctx_latest_sequence example_context) < 4 \<and>
   500 \<le> int_value (ctx_funded_total example_context) - int_value (ctx_refunded_total example_context) \<and>
   500 \<le> int_value (ctx_policy_limit example_context) \<and> instant example_now < 63908006400000000"
  using verified_voucher_authorization [OF example_voucher_verified]
  by (simp add: example_verified_def)

text \<open>
  Verification rejects with a VoucherValidationError, or lets the TypeError of
  unsortable unknown keys or the ValueError of an over-long amount text through; an exception
  of the caller's signature verifier never escapes.
\<close>

theorem verify_voucher_exceptions:
  assumes "verify_voucher jcs sv voucher c now s t = Inl e"
  shows "voucher_exn e"
  by (rule raisesD [OF raises_verify_voucher assms])

theorem verify_voucher_exceptions_witness:
  "voucher_exn (vo_reject ''invalid_type'' ''voucher'')"
  by (rule verify_voucher_exceptions [of example_jcs example_verifier PNone example_context example_now
        None None])
     (simp add: verify_voucher_def example_context_valid vo_utc_def example_now_def utc_datetime_def
        vo_closed_object_def closed_with_def)

end
