(* ===== verification/Tables.thy ===== *)
theory Tables
  imports Prelude
begin

text \<open>
  Two interfaces the durable journals share. \<open>keyed_table\<close> is a database table read and written by
  its primary key: what a SELECT returns after an INSERT or an UPDATE of another or the same key.
  \<open>preserved\<close> is a step relation with a predicate every step keeps, and gives the invariant on every
  state reached. The tables of the modelled ledgers are lists of row records in insertion order.
\<close>

section \<open>Tables as lists of rows\<close>

definition select_row :: "('r \<Rightarrow> 'k) \<Rightarrow> 'r list \<Rightarrow> 'k \<Rightarrow> 'r option" where
  "select_row key t k = find (\<lambda>r. key r = k) t"

definition insert_row :: "'r \<Rightarrow> 'r list \<Rightarrow> 'r list" where
  "insert_row r t = t @ [r]"

definition update_row :: "('r \<Rightarrow> 'k) \<Rightarrow> 'k \<Rightarrow> ('r \<Rightarrow> 'r) \<Rightarrow> 'r list \<Rightarrow> 'r list" where
  "update_row key k f t = map (\<lambda>r. if key r = k then f r else r) t"

lemma select_row_key: "select_row key t k = Some r \<Longrightarrow> key r = k \<and> r \<in> set t"
  by (auto simp: select_row_def find_Some_iff)

lemma select_row_None: "select_row key t k = None \<longleftrightarrow> (\<forall>r\<in>set t. key r \<noteq> k)"
  by (auto simp: select_row_def find_None_iff)

lemma select_insert_row:
  "select_row key t (key r) = None \<Longrightarrow>
     select_row key (insert_row r t) k = (if k = key r then Some r else select_row key t k)"
  by (induction t) (auto simp: select_row_def insert_row_def split: if_splits)

lemma select_update_row:
  "(\<And>r. key (f r) = key r) \<Longrightarrow>
     select_row key (update_row key k f t) k' =
       (if k' = k then map_option f (select_row key t k) else select_row key t k')"
  by (induction t) (auto simp: select_row_def update_row_def)

lemma select_row_unique:
  "distinct (map key t) \<Longrightarrow> r \<in> set t \<Longrightarrow> select_row key t (key r) = Some r"
  by (induction t) (auto simp: select_row_def)

lemma map_key_update_row: "(\<And>r. key (f r) = key r) \<Longrightarrow> map key (update_row key k f t) = map key t"
  by (simp add: update_row_def)

lemma set_update_row:
  "set (update_row key k f t) = f ` {r \<in> set t. key r = k} \<union> {r \<in> set t. key r \<noteq> k}"
  by (auto simp: update_row_def)

lemma map_update_row_column:
  "(\<And>r. k (f r) = k r) \<Longrightarrow> map k (update_row key i f rows) = map k rows"
  by (simp add: update_row_def)

lemma moved_rows:
  assumes "distinct (map key rows)" "select_row key rows k = Some row" "key (f row) = key row"
  shows "set (update_row key k f rows) = insert (f row) {r \<in> set rows. key r \<noteq> k}"
proof -
  have "r = row" if "r \<in> set rows" "key r = k" for r
    using select_row_unique [OF assms(1) that(1)] assms(2) that(2) by simp
  then have "{r \<in> set rows. key r = k} = {row}" using select_row_key [OF assms(2)] by blast
  then show ?thesis by (simp add: set_update_row)
qed

section \<open>Transactions\<close>

text \<open>A transaction commits its result or keeps the tables it started from.\<close>

definition transaction :: "'db \<Rightarrow> ('db \<times> 'a) res \<Rightarrow> 'db \<times> 'a res" where
  "transaction db m = (case m of Inl e \<Rightarrow> (db, Inl e) | Inr (db', x) \<Rightarrow> (db', Inr x))"

text \<open>An \<open>except sqlite3.IntegrityError\<close> clause.\<close>

definition on_integrity_error :: "exn \<Rightarrow> 'a res \<Rightarrow> 'a res" where
  "on_integrity_error e m =
     (case m of Inl e' \<Rightarrow> (if e' = PyRaise ''IntegrityError'' then Inl e else Inl e') | Inr x \<Rightarrow> Inr x)"

text \<open>What the driver stores in an INTEGER column, and \<^verbatim>\<open>MAX\<close> over a nullable column.\<close>

definition sqlite_integer :: "int \<Rightarrow> bool" where
  "sqlite_integer i \<longleftrightarrow> - (2 ^ 63) \<le> i \<and> i < 2 ^ 63"

fun max_option :: "int option list \<Rightarrow> int option" where
  "max_option [] = None"
| "max_option (None # xs) = max_option xs"
| "max_option (Some i # xs) = Some (case max_option xs of None \<Rightarrow> i | Some j \<Rightarrow> max i j)"

lemma fst_transaction:
  assumes "P db" "\<And>d x. m = Inr (d, x) \<Longrightarrow> P d"
  shows "P (fst (transaction db m))"
  using assms by (auto simp: transaction_def split: sum.splits)

lemma on_integrity_error_Inr [res_simps]: "on_integrity_error e m = Inr x \<longleftrightarrow> m = Inr x"
  by (auto simp: on_integrity_error_def split: sum.splits)

section \<open>The table interface\<close>

locale keyed_table =
  fixes rowkey :: "'r \<Rightarrow> 'k"
    and sel :: "'t \<Rightarrow> 'k \<Rightarrow> 'r option"
    and ins :: "'r \<Rightarrow> 't \<Rightarrow> 't"
    and upd :: "'k \<Rightarrow> ('r \<Rightarrow> 'r) \<Rightarrow> 't \<Rightarrow> 't"
  assumes sel_key: "sel t k = Some r \<Longrightarrow> rowkey r = k"
    and sel_ins: "sel t (rowkey r) = None \<Longrightarrow>
      sel (ins r t) k = (if k = rowkey r then Some r else sel t k)"
    and sel_upd: "(\<And>r. rowkey (f r) = rowkey r) \<Longrightarrow>
      sel (upd k f t) k' = (if k' = k then map_option f (sel t k) else sel t k')"
begin

lemma ins_read: "sel t (rowkey r) = None \<Longrightarrow> sel (ins r t) (rowkey r) = Some r"
  by (simp add: sel_ins)

lemma ins_keeps: "sel t (rowkey r) = None \<Longrightarrow> sel t k = Some r' \<Longrightarrow> sel (ins r t) k = Some r'"
  using sel_key by (auto simp: sel_ins)

lemma upd_read:
  "(\<And>r. rowkey (f r) = rowkey r) \<Longrightarrow> sel t k = Some r \<Longrightarrow> sel (upd k f t) k = Some (f r)"
  by (simp add: sel_upd)

lemma upd_other: "(\<And>r. rowkey (f r) = rowkey r) \<Longrightarrow> k' \<noteq> k \<Longrightarrow> sel (upd k f t) k' = sel t k'"
  by (simp add: sel_upd)

text \<open>A key once present stays present, whatever is inserted or updated.\<close>

lemma key_persists:
  assumes "sel t k \<noteq> None"
  shows "sel t (rowkey r) = None \<Longrightarrow> sel (ins r t) k \<noteq> None"
    and "(\<And>r. rowkey (f r) = rowkey r) \<Longrightarrow> sel (upd k' f t) k \<noteq> None"
  using assms by (auto simp: sel_ins sel_upd)

text \<open>A projection that an update keeps is the same in every row read afterwards.\<close>

lemma upd_column:
  assumes "\<And>r. rowkey (f r) = rowkey r" "\<And>r. column (f r) = column r"
  shows "map_option column (sel (upd k f t) k') = map_option column (sel t k')"
  using assms by (cases "sel t k") (auto simp: sel_upd)

end

text \<open>The list table satisfies the interface for every key column.\<close>

lemma keyed_rows: "keyed_table key (select_row key) insert_row (update_row key)"
proof
  fix t k r
  show "select_row key t k = Some r \<Longrightarrow> key r = k"
    using select_row_key [of key t k r] by simp
qed (rule select_insert_row select_update_row; assumption)+

section \<open>Steps and invariants\<close>

locale preserved =
  fixes step :: "'s \<Rightarrow> 's \<Rightarrow> bool"
    and inv :: "'s \<Rightarrow> bool"
  assumes step_inv: "inv s \<Longrightarrow> step s s' \<Longrightarrow> inv s'"
begin

lemma steps_inv: "step\<^sup>*\<^sup>* s s' \<Longrightarrow> inv s \<Longrightarrow> inv s'"
  by (induction rule: rtranclp_induct) (auto intro: step_inv)

text \<open>A relation between successive states that the invariant justifies, along a run.\<close>

lemma steps_relation:
  assumes "step\<^sup>*\<^sup>* s s'" "inv s"
    and "\<And>a. R a a" "\<And>a b c. R a b \<Longrightarrow> R b c \<Longrightarrow> R a c" "\<And>a b. inv a \<Longrightarrow> step a b \<Longrightarrow> R a b"
  shows "R s s'"
  using assms(1)
proof (induction rule: rtranclp_induct)
  case base
  show ?case by (rule assms(3))
next
  case (step y z)
  have "inv y" using step.hyps(1) assms(2) by (rule steps_inv)
  with step show ?case using assms(4,5) by blast
qed

end

section \<open>Chained journals\<close>

text \<open>
  A journal whose entries carry consecutive numbers and the digest of their predecessor.
  \<open>chained_log\<close> is the interface of an append that reads the last entry: the law is that the
  entry with the highest number is found.
\<close>

fun chained :: "('e \<Rightarrow> int) \<Rightarrow> ('e \<Rightarrow> 'h) \<Rightarrow> ('e \<Rightarrow> 'h) \<Rightarrow> 'h \<Rightarrow> int \<Rightarrow> 'e list \<Rightarrow> bool" where
  "chained sq pv dg h n [] = True"
| "chained sq pv dg h n (e # es) = (sq e = n \<and> pv e = h \<and> chained sq pv dg (dg e) (n + 1) es)"

locale chained_log =
  fixes sq :: "'e \<Rightarrow> int"
    and pv dg :: "'e \<Rightarrow> 'h"
    and genesis :: 'h
    and newest :: "'e list \<Rightarrow> 'e option"
  assumes newest_Nil: "newest [] = None"
    and newest_snoc: "\<forall>x\<in>set es. sq x < sq e \<Longrightarrow> newest (es @ [e]) = Some e"
begin

lemma chained_append:
  "chained sq pv dg h n (es @ [e]) \<longleftrightarrow>
     chained sq pv dg h n es \<and> sq e = n + int (length es) \<and> pv e = (if es = [] then h else dg (last es))"
  by (induction es arbitrary: h n) auto

lemma chained_bounds: "chained sq pv dg h n es \<Longrightarrow> x \<in> set es \<Longrightarrow> n \<le> sq x \<and> sq x < n + int (length es)"
  by (induction es arbitrary: h n) fastforce+

lemma chained_sorted: "chained sq pv dg h n es \<Longrightarrow> sorted (map sq es)"
proof (induction es arbitrary: h n)
  case (Cons e es)
  then show ?case using chained_bounds [of "dg e" "n + 1" es] by fastforce
qed simp

lemma chained_newest:
  assumes "chained sq pv dg h n es"
  shows "newest es = (if es = [] then None else Some (last es))"
proof (cases es rule: rev_cases)
  case (snoc xs e)
  with assms have "\<forall>x\<in>set xs. sq x < sq e"
    using chained_bounds [of h n xs] by (auto simp: chained_append)
  with snoc show ?thesis by (simp add: newest_snoc)
qed (simp add: newest_Nil)

text \<open>Appending an entry made from the newest one keeps the chain.\<close>

lemma append_chained:
  assumes "chained sq pv dg genesis 1 es"
    and "sq e = (case newest es of None \<Rightarrow> 1 | Some p \<Rightarrow> sq p + 1)"
    and "pv e = (case newest es of None \<Rightarrow> genesis | Some p \<Rightarrow> dg p)"
  shows "chained sq pv dg genesis 1 (es @ [e])"
proof (cases es rule: rev_cases)
  case Nil
  with assms show ?thesis by (simp add: newest_Nil)
next
  case (snoc xs p)
  with assms chained_newest [OF assms(1)] show ?thesis
    using chained_append [of genesis 1 es e] by (simp add: chained_append)
qed

text \<open>Two chains of the same length that end in the same digest agree, if digests determine entries.\<close>

lemma chain_determined:
  assumes inj: "\<And>a b. a \<in> set es \<Longrightarrow> b \<in> set es' \<Longrightarrow> dg a = dg b \<Longrightarrow> a = b"
    and "chained sq pv dg h n es" "chained sq pv dg h n es'" "length es = length es'"
    and "es \<noteq> [] \<Longrightarrow> dg (last es) = dg (last es')"
  shows "es = es'"
  using assms
proof (induction es arbitrary: es' rule: rev_induct)
  case (snoc e es)
  from snoc.prems(4) obtain e' fs where es': "es' = fs @ [e']" by (cases es' rule: rev_cases) auto
  with snoc.prems have e: "e = e'" by simp
  have "es = fs"
    by (rule snoc.IH) (use snoc.prems e es' in \<open>auto simp: chained_append split: if_splits\<close>)
  with e es' show ?case by simp
qed simp

end

text \<open>One table holding the journals of many owners: an entry is appended to its owner's journal.\<close>

locale keyed_log = chained_log sq pv dg genesis newest
  for sq :: "'e \<Rightarrow> int" and pv dg :: "'e \<Rightarrow> 'h" and genesis :: 'h and newest :: "'e list \<Rightarrow> 'e option" +
  fixes owner :: "'e \<Rightarrow> 'k"
begin

lemma keyed_append:
  assumes "\<forall>s. chained sq pv dg genesis 1 (filter (\<lambda>x. owner x = s) old)"
    and "sq e = (case newest (filter (\<lambda>x. owner x = owner e) old) of None \<Rightarrow> 1 | Some p \<Rightarrow> sq p + 1)"
    and "pv e = (case newest (filter (\<lambda>x. owner x = owner e) old) of None \<Rightarrow> genesis | Some p \<Rightarrow> dg p)"
  shows "chained sq pv dg genesis 1 (filter (\<lambda>x. owner x = s) (old @ [e]))"
proof (cases "s = owner e")
  case True
  have "chained sq pv dg genesis 1 (filter (\<lambda>x. owner x = s) old @ [e])"
    by (rule append_chained) (use assms in \<open>simp_all add: True\<close>)
  with True show ?thesis by simp
qed (use assms(1) in simp)

end

text \<open>\<open>ORDER BY sequence DESC LIMIT 1\<close> for any numbering.\<close>

fun newest_by :: "('e \<Rightarrow> int) \<Rightarrow> 'e list \<Rightarrow> 'e option" where
  "newest_by sq [] = None"
| "newest_by sq (e # es) =
     (case newest_by sq es of None \<Rightarrow> Some e | Some e' \<Rightarrow> Some (if sq e < sq e' then e' else e))"

lemma newest_by_log: "keyed_log sq (newest_by sq)"
proof
  show "newest_by sq (es @ [e]) = Some e" if "\<forall>x\<in>set es. sq x < sq e" for es e
    using that by (induction es) auto
qed simp

section \<open>Reservations\<close>

text \<open>
  Rows of a table that hold part of a capacity until they are released. \<open>held\<close> is what the live rows
  of a group hold; \<open>booked\<close> says that every row fitted when it was added after the rows before it.
  \<open>fits m r\<close> is the bound a row was admitted under, for the total \<open>m\<close> it then made with them.
\<close>

definition held :: "('r \<Rightarrow> 'g) \<Rightarrow> ('r \<Rightarrow> int) \<Rightarrow> ('r \<Rightarrow> bool) \<Rightarrow> 'r list \<Rightarrow> 'g \<Rightarrow> int" where
  "held grp amt live rows g = sum_list (map amt (filter (\<lambda>x. grp x = g \<and> live x) rows))"

fun booked ::
  "('r \<Rightarrow> 'g) \<Rightarrow> ('r \<Rightarrow> int) \<Rightarrow> ('r \<Rightarrow> bool) \<Rightarrow> (int \<Rightarrow> 'r \<Rightarrow> bool) \<Rightarrow> 'r list \<Rightarrow> 'r list \<Rightarrow> bool" where
  "booked grp amt live fits old [] = True"
| "booked grp amt live fits old (r # rs) =
     (0 < amt r \<and> fits (held grp amt live old (grp r) + amt r) r \<and> booked grp amt live fits (old @ [r]) rs)"

locale reservation_book =
  fixes grp :: "'r \<Rightarrow> 'g"
    and amt :: "'r \<Rightarrow> int"
    and live :: "'r \<Rightarrow> bool"
    and fits :: "int \<Rightarrow> 'r \<Rightarrow> bool"
  assumes fits_less: "fits m r \<Longrightarrow> m' \<le> m \<Longrightarrow> fits m' r"
begin

lemma held_append: "held grp amt live (xs @ ys) g = held grp amt live xs g + held grp amt live ys g"
  by (simp add: held_def)

lemma booked_append:
  "booked grp amt live fits old (xs @ ys) \<longleftrightarrow>
     booked grp amt live fits old xs \<and> booked grp amt live fits (old @ xs) ys"
  by (induction xs arbitrary: old) auto

lemma booked_positive: "booked grp amt live fits old rs \<Longrightarrow> r \<in> set rs \<Longrightarrow> 0 < amt r"
  by (induction rs arbitrary: old) auto

text \<open>Rows that keep their group, amount and bound, and may only be released, stay booked.\<close>

lemma held_released:
  assumes "list_all2 (\<lambda>a b. grp b = grp a \<and> amt b = amt a \<and> (live b \<longrightarrow> live a)) xs ys" "\<forall>x\<in>set xs. 0 < amt x"
  shows "held grp amt live ys g \<le> held grp amt live xs g"
  using assms by (induction rule: list_all2_induct) (auto simp: held_def)

lemma booked_released:
  assumes "list_all2 (\<lambda>a b. grp b = grp a \<and> amt b = amt a \<and> (live b \<longrightarrow> live a) \<and> (\<forall>m. fits m a \<longrightarrow> fits m b)) xs ys"
    and "booked grp amt live fits old xs"
    and "list_all2 (\<lambda>a b. grp b = grp a \<and> amt b = amt a \<and> (live b \<longrightarrow> live a)) old old'" "\<forall>x\<in>set old. 0 < amt x"
  shows "booked grp amt live fits old' ys"
  using assms
proof (induction arbitrary: old old' rule: list_all2_induct)
  case (Cons x xs y ys)
  have less: "held grp amt live old' (grp x) \<le> held grp amt live old (grp x)"
    by (rule held_released) (use Cons.prems in simp_all)
  have "fits (held grp amt live old (grp x) + amt x) y" using Cons.hyps Cons.prems(1) by simp
  then have "fits (held grp amt live old' (grp y) + amt y) y"
    by (rule fits_less) (use Cons.hyps less in simp)
  moreover have "booked grp amt live fits (old' @ [y]) ys"
    by (rule Cons.IH [of "old @ [x]"]) (use Cons.prems Cons.hyps in \<open>auto intro!: list_all2_appendI\<close>)
  ultimately show ?case using Cons.hyps Cons.prems by simp
qed simp

text \<open>The newest row of a group bounds all that the group holds.\<close>

lemma booked_newest:
  assumes "booked grp amt live fits [] (older @ r # newer)" "\<forall>x\<in>set newer. grp x \<noteq> grp r"
  shows "fits (held grp amt live (older @ r # newer) (grp r)) r"
proof -
  have b: "0 < amt r" "fits (held grp amt live older (grp r) + amt r) r"
    using assms(1) by (simp_all add: booked_append)
  have "filter (\<lambda>x. grp x = grp r \<and> live x) newer = []"
    using assms(2) by (simp add: filter_empty_conv)
  then have "held grp amt live (older @ r # newer) (grp r) \<le> held grp amt live older (grp r) + amt r"
    using b(1) by (simp add: held_def)
  with b(2) show ?thesis by (rule fits_less)
qed

end

end
