(* ===== verification/Voucher_Ledger.thy ===== *)
theory Voucher_Ledger
  imports Voucher Tables
begin

text \<open>
  \<^verbatim>\<open>foundry_channel_protocol/voucher.py\<close>, class \<^verbatim>\<open>ReferenceVoucherLedger\<close>: the durable journal of voucher
  processing. The two SQLite tables are lists of row records in insertion order; each method is a
  function from the ledger to the ledger after its transaction and the value or exception it ends
  with. \<^verbatim>\<open>BEGIN IMMEDIATE\<close> serialises the methods, so a method is one step; a rollback, or an exception
  that leaves the transaction open until the connection is closed, keeps the ledger unchanged.
  The last sections relate every reachable ledger to its invariants.
\<close>

datatype ledger_state = Issued | Verified | ActivationRequested | Rejected

record voucher_row =
  submission_id :: string
  voucher_json :: pyval
  row_state :: ledger_state
  row_voucher_hash :: "string option"
  row_domain_key :: "string option"
  row_channel_id :: "pyval option"
  row_epoch :: "pyval option"
  row_sequence :: "int option"
  row_cumulative_total :: "string option"
  row_expires_at :: "string option"
  row_error_code :: "string option"
  row_created_at :: string
  row_updated_at :: string

record voucher_event =
  ev_submission :: string
  ev_state :: ledger_state
  ev_error_code :: "string option"
  ev_observed_at :: string

record ledger =
  submissions :: "voucher_row list"
  ledger_events :: "voucher_event list"

record voucher_record =
  rec_submission_id :: string
  rec_state :: ledger_state
  rec_voucher_hash :: "string option"
  rec_sequence :: "int option"
  rec_cumulative_total :: "int option"
  rec_error_code :: "string option"

definition initialize :: ledger where
  "initialize = \<lparr>submissions = [], ledger_events = []\<rparr>"

abbreviation select_submission :: "ledger \<Rightarrow> string \<Rightarrow> voucher_row option" where
  "select_submission L sid \<equiv> select_row submission_id (submissions L) sid"

definition ledger_scope :: "voucher_context \<Rightarrow> pyval" where
  "ledger_scope c = PDict
     [(KStr ''domain'', PStr ''foundry.channels.voucher-ledger-scope''),
      (KStr ''protocol_version'', PStr ''1.0.0''), (KStr ''environment'', ctx_environment c),
      (KStr ''network'', ctx_network c), (KStr ''genesis_hash'', ctx_genesis_hash c),
      (KStr ''program_id'', ctx_program_id c), (KStr ''channel_id'', ctx_channel_id c),
      (KStr ''channel_account'', ctx_channel_account c), (KStr ''epoch'', ctx_epoch c),
      (KStr ''sender'', ctx_sender c), (KStr ''recipient_claim_pubkey'', ctx_recipient_claim_pubkey c),
      (KStr ''mint'', ctx_mint c)]"

text \<open>\<open>removeprefix\<close> of the seven characters every hash text starts with.\<close>

definition domain_key :: "serializer \<Rightarrow> voucher_context \<Rightarrow> string res" where
  "domain_key jcs c =
     bind_res (canonical_json_bytes jcs (ledger_scope c)) (\<lambda>b. Inr (drop 7 (sha256_raw_bytes b)))"

definition ledger_time :: "py_datetime \<Rightarrow> string res" where
  "ledger_time t = bind_res (vo_utc t ''observed_at'') (\<lambda>checked. Inr (strftime_utc checked))"

definition ledger_record :: "voucher_row \<Rightarrow> voucher_record" where
  "ledger_record r =
     \<lparr>rec_submission_id = submission_id r, rec_state = row_state r, rec_voucher_hash = row_voucher_hash r,
      rec_sequence = row_sequence r,
      rec_cumulative_total = map_option (\<lambda>s. int (undec_nat s)) (row_cumulative_total r),
      rec_error_code = row_error_code r\<rparr>"

text \<open>One UPDATE of a submission followed by one INSERT into the event table.\<close>

definition write_event :: "string \<Rightarrow> ledger_state \<Rightarrow> string option \<Rightarrow> string \<Rightarrow> ledger \<Rightarrow> ledger" where
  "write_event sid st err ts L =
     L\<lparr>ledger_events := ledger_events L @
         [\<lparr>ev_submission = sid, ev_state = st, ev_error_code = err, ev_observed_at = ts\<rparr>]\<rparr>"

definition update_submission :: "string \<Rightarrow> (voucher_row \<Rightarrow> voucher_row) \<Rightarrow> ledger \<Rightarrow> ledger" where
  "update_submission sid f L = L\<lparr>submissions := update_row submission_id sid f (submissions L)\<rparr>"

definition set_state :: "ledger_state \<Rightarrow> string option \<Rightarrow> string \<Rightarrow> voucher_row \<Rightarrow> voucher_row" where
  "set_state st err ts r = r\<lparr>row_state := st, row_error_code := err, row_updated_at := ts\<rparr>"

definition move :: "string \<Rightarrow> ledger_state \<Rightarrow> string option \<Rightarrow> string \<Rightarrow> ledger \<Rightarrow> ledger" where
  "move sid st err ts L = write_event sid st err ts (update_submission sid (set_state st err ts) L)"

section \<open>record_issued\<close>

definition issued_row :: "string \<Rightarrow> pyval \<Rightarrow> string \<Rightarrow> voucher_row" where
  "issued_row sid v ts =
     \<lparr>submission_id = sid, voucher_json = v, row_state = Issued, row_voucher_hash = None,
      row_domain_key = None, row_channel_id = None, row_epoch = None, row_sequence = None,
      row_cumulative_total = None, row_expires_at = None, row_error_code = None,
      row_created_at = ts, row_updated_at = ts\<rparr>"

definition serialize_voucher :: "pyval \<Rightarrow> pyval res" where
  "serialize_voucher v =
     (case v of
        PDict d \<Rightarrow>
          (case json_dumps False v of
             Inl e \<Rightarrow> Inl (vo_reject ''invalid_json'' ''voucher'')
           | Inr s \<Rightarrow> Inr s)
      | _ \<Rightarrow> Inl (vo_reject ''invalid_type'' ''voucher''))"

definition record_issued ::
  "ledger \<Rightarrow> string \<Rightarrow> pyval \<Rightarrow> py_datetime \<Rightarrow> ledger \<times> voucher_record res" where
  "record_issued L sid v observed_at =
     (case bind_res (vo_string (PStr sid) ''submission_id'' identifier_text) (\<lambda>_.
           bind_res (serialize_voucher v) (\<lambda>serialized.
           bind_res (ledger_time observed_at) (\<lambda>ts. Inr (serialized, ts)))) of
        Inl e \<Rightarrow> (L, Inl e)
      | Inr (serialized, ts) \<Rightarrow>
          (case select_submission L sid of
             Some existing \<Rightarrow>
               (if voucher_json existing \<noteq> serialized
                then (L, Inl (vo_reject ''submission_id_collision'' ''submission_id''))
                else (L, Inr (ledger_record existing)))
           | None \<Rightarrow>
               (if val_surrogate serialized then (L, Inl (PyRaise ''UnicodeEncodeError''))
                else
                  let row = issued_row sid serialized ts
                  in (write_event sid Issued None ts
                        (L\<lparr>submissions := insert_row row (submissions L)\<rparr>),
                      Inr (ledger_record row)))))"

section \<open>verify_issued\<close>

definition live :: "voucher_row \<Rightarrow> bool" where
  "live r \<longleftrightarrow> row_state r = Verified \<or> row_state r = ActivationRequested"

definition sequence_of :: "voucher_row \<Rightarrow> int" where
  "sequence_of r = (case row_sequence r of Some n \<Rightarrow> n | None \<Rightarrow> -1)"

definition total_of :: "voucher_row \<Rightarrow> int" where
  "total_of r = (case row_cumulative_total r of Some s \<Rightarrow> int (undec_nat s) | None \<Rightarrow> 0)"

text \<open>\<open>ORDER BY sequence DESC LIMIT 1\<close>.\<close>

fun highest_sequence :: "voucher_row list \<Rightarrow> voucher_row option" where
  "highest_sequence [] = None"
| "highest_sequence (r # rs) =
     (case highest_sequence rs of
        None \<Rightarrow> Some r
      | Some r' \<Rightarrow> Some (if sequence_of r < sequence_of r' then r' else r))"

definition latest_live :: "ledger \<Rightarrow> string \<Rightarrow> string \<Rightarrow> voucher_row option" where
  "latest_live L dk sid =
     highest_sequence (filter (\<lambda>r. row_domain_key r = Some dk \<and> live r \<and> submission_id r \<noteq> sid)
       (submissions L))"

definition verify_row ::
  "serializer \<Rightarrow> signature_verifier \<Rightarrow> ledger \<Rightarrow> voucher_row \<Rightarrow> voucher_context \<Rightarrow> py_datetime \<Rightarrow>
   (string \<times> verified_voucher) res" where
  "verify_row jcs sv L row c now =
     bind_res (vo_timestamp (PStr (row_updated_at row)) ''persisted.updated_at'') (\<lambda>updated.
     bind_res (vo_utc now ''now'') (\<lambda>checked.
     bind_res (reject_if (updated > checked) (vo_reject ''journal_time_regressed'' ''now'')) (\<lambda>_.
     bind_res (context_validate c) (\<lambda>_.
     bind_res (domain_key jcs c) (\<lambda>dk.
     let latest = latest_live L dk (submission_id row) in
     bind_res (verify_voucher jcs sv (voucher_json row) c now
         (map_option sequence_of latest) (map_option total_of latest)) (\<lambda>verified.
     Inr (dk, verified)))))))"

definition verified_row :: "string \<Rightarrow> verified_voucher \<Rightarrow> string \<Rightarrow> voucher_row \<Rightarrow> voucher_row" where
  "verified_row dk vv ts r =
     (let payload = dict_of (item (dict_of (voucher_json r)) ''payload'')
      in r\<lparr>row_state := Verified, row_voucher_hash := Some (vv_voucher_hash vv), row_domain_key := Some dk,
           row_channel_id := Some (item payload ''channel_id''), row_epoch := Some (item payload ''epoch''),
           row_sequence := Some (vv_sequence vv),
           row_cumulative_total := Some (str_int (vv_cumulative_total vv)),
           row_expires_at := Some (strftime_utc (vv_expires_at vv)),
           row_error_code := None, row_updated_at := ts\<rparr>)"

definition verify_issued ::
  "serializer \<Rightarrow> signature_verifier \<Rightarrow> ledger \<Rightarrow> string \<Rightarrow> voucher_context \<Rightarrow> py_datetime \<Rightarrow>
   ledger \<times> voucher_record res" where
  "verify_issued jcs sv L sid c now =
     (case ledger_time now of
        Inl e \<Rightarrow> (L, Inl e)
      | Inr ts \<Rightarrow>
          (case select_submission L sid of
             None \<Rightarrow> (L, Inl (vo_reject ''submission_not_found'' ''submission_id''))
           | Some row \<Rightarrow>
               (case row_state row of
                  Verified \<Rightarrow> (L, Inr (ledger_record row))
                | ActivationRequested \<Rightarrow> (L, Inr (ledger_record row))
                | Rejected \<Rightarrow> (L, Inl (vo_reject (case row_error_code row of Some code \<Rightarrow> code | None \<Rightarrow> ''None'')
                    ''submission_id''))
                | Issued \<Rightarrow>
                    (case verify_row jcs sv L row c now of
                       Inl (Exn VoucherValidationError code f) \<Rightarrow>
                         (if code = ''journal_time_regressed'' then L
                          else if code = ''signature_verifier_failed'' then move sid Issued (Some code) ts L
                          else move sid Rejected (Some code) ts L,
                          Inl (vo_reject code f))
                     | Inl e \<Rightarrow> (L, Inl e)
                     | Inr (dk, vv) \<Rightarrow>
                         (write_event sid Verified None ts
                            (update_submission sid (verified_row dk vv ts) L),
                          Inr (ledger_record (verified_row dk vv ts row)))))))"

section \<open>request_activation, get, events\<close>

definition reverify_row ::
  "serializer \<Rightarrow> signature_verifier \<Rightarrow> voucher_row \<Rightarrow> voucher_context \<Rightarrow> py_datetime \<Rightarrow> unit res" where
  "reverify_row jcs sv row c observed_at =
     bind_res (context_validate c) (\<lambda>_.
     bind_res (domain_key jcs c) (\<lambda>dk.
     bind_res (reject_if (Some dk \<noteq> row_domain_key row)
         (vo_reject ''activation_context_changed'' ''context'')) (\<lambda>_.
     bind_res (verify_voucher jcs sv (voucher_json row) c observed_at None None) (\<lambda>current.
     reject_if (Some (vv_voucher_hash current) \<noteq> row_voucher_hash row)
       (vo_reject ''persisted_voucher_mismatch'' ''voucher_hash'')))))"

definition request_activation ::
  "serializer \<Rightarrow> signature_verifier \<Rightarrow> ledger \<Rightarrow> string \<Rightarrow> voucher_context \<Rightarrow> py_datetime \<Rightarrow>
   ledger \<times> voucher_record res" where
  "request_activation jcs sv L sid c observed_at =
     (case ledger_time observed_at of
        Inl e \<Rightarrow> (L, Inl e)
      | Inr ts \<Rightarrow>
          (case select_submission L sid of
             None \<Rightarrow> (L, Inl (vo_reject ''submission_not_found'' ''submission_id''))
           | Some row \<Rightarrow>
               (if row_state row = ActivationRequested then (L, Inr (ledger_record row))
                else if row_state row \<noteq> Verified
                  then (L, Inl (vo_reject ''activation_request_forbidden'' ''state''))
                else
                  (case bind_res (vo_timestamp (PStr (row_updated_at row)) ''persisted.updated_at'') (\<lambda>updated.
                        bind_res (vo_utc observed_at ''observed_at'') (\<lambda>checked.
                        reject_if (updated > checked)
                          (vo_reject ''journal_time_regressed'' ''observed_at''))) of
                     Inl e \<Rightarrow> (L, Inl e)
                   | Inr _ \<Rightarrow>
                       (case reverify_row jcs sv row c observed_at of
                          Inl (Exn VoucherValidationError code f) \<Rightarrow>
                            (if code = ''signature_verifier_failed'' then move sid Verified (Some code) ts L
                             else move sid Rejected (Some code) ts L,
                             Inl (vo_reject code f))
                        | Inl e \<Rightarrow> (L, Inl e)
                        | Inr _ \<Rightarrow>
                            (move sid ActivationRequested None ts L,
                             Inr (ledger_record (set_state ActivationRequested None ts row))))))))"

definition ledger_get :: "ledger \<Rightarrow> string \<Rightarrow> voucher_record res" where
  "ledger_get L sid =
     (case select_submission L sid of
        None \<Rightarrow> Inl (vo_reject ''submission_not_found'' ''submission_id'')
      | Some row \<Rightarrow> Inr (ledger_record row))"

definition events_of :: "ledger \<Rightarrow> string \<Rightarrow> voucher_event list" where
  "events_of L sid = filter (\<lambda>e. ev_submission e = sid) (ledger_events L)"

section \<open>Steps\<close>

text \<open>
  One call of a method that writes. The serializer is fixed; arguments, contexts, clocks and the
  behaviour of the signature verifier are arbitrary at every call.
\<close>

inductive ledger_step :: "serializer \<Rightarrow> ledger \<Rightarrow> ledger \<Rightarrow> bool" for jcs where
  step_issue: "ledger_step jcs L (fst (record_issued L sid v t))"
| step_verify: "ledger_step jcs L (fst (verify_issued jcs sv L sid c t))"
| step_request: "ledger_step jcs L (fst (request_activation jcs sv L sid c t))"

inductive_cases ledger_stepE: "ledger_step jcs L L'"

section \<open>What a step may do\<close>

fun move_edge :: "ledger_state \<Rightarrow> ledger_state \<Rightarrow> bool" where
  "move_edge Issued Issued = True"
| "move_edge Issued Rejected = True"
| "move_edge Verified Verified = True"
| "move_edge Verified Rejected = True"
| "move_edge Verified ActivationRequested = True"
| "move_edge _ _ = False"

inductive ledger_effect :: "serializer \<Rightarrow> ledger \<Rightarrow> ledger \<Rightarrow> bool" for jcs where
  effect_none: "ledger_effect jcs L L"
| effect_issue: "select_submission L sid = None \<Longrightarrow>
    ledger_effect jcs L (write_event sid Issued None ts
      (L\<lparr>submissions := insert_row (issued_row sid v ts) (submissions L)\<rparr>))"
| effect_move: "select_submission L sid = Some row \<Longrightarrow> move_edge (row_state row) st \<Longrightarrow>
    ledger_effect jcs L (move sid st err ts L)"
| effect_verify: "select_submission L sid = Some row \<Longrightarrow> row_state row = Issued \<Longrightarrow>
    verify_row jcs sv L row c now = Inr (dk, vv) \<Longrightarrow>
    ledger_effect jcs L (write_event sid Verified None ts (update_submission sid (verified_row dk vv ts) L))"

lemma record_issued_effect: "ledger_effect jcs L (fst (record_issued L sid v t))"
  unfolding record_issued_def
  by (auto simp: Let_def intro: effect_none effect_issue split: sum.splits option.splits prod.splits)

lemma verify_issued_effect: "ledger_effect jcs L (fst (verify_issued jcs sv L sid c t))"
proof (cases "\<exists>ts row. ledger_time t = Inr ts \<and> select_submission L sid = Some row \<and> row_state row = Issued")
  case True
  then obtain ts row where ts: "ledger_time t = Inr ts" and
    row: "select_submission L sid = Some row" "row_state row = Issued" by blast
  show ?thesis
  proof (cases "verify_row jcs sv L row c t")
    case (Inl e)
    then show ?thesis
      using ts row effect_move [OF row(1), of Issued] effect_move [OF row(1), of Rejected]
      by (simp add: verify_issued_def effect_none split: exn.split exn_class.split)
  next
    case (Inr dv)
    then show ?thesis
      using ts row effect_verify [OF row] by (cases dv) (simp add: verify_issued_def)
  qed
next
  case False
  then show ?thesis
    by (auto simp: verify_issued_def effect_none split: sum.split option.split ledger_state.split)
qed

lemma request_activation_effect: "ledger_effect jcs L (fst (request_activation jcs sv L sid c t))"
proof (cases "\<exists>ts row. ledger_time t = Inr ts \<and> select_submission L sid = Some row \<and> row_state row = Verified")
  case True
  then obtain ts row where ts: "ledger_time t = Inr ts" and
    row: "select_submission L sid = Some row" "row_state row = Verified" by blast
  show ?thesis
  proof (cases "reverify_row jcs sv row c t")
    case (Inl e)
    then show ?thesis
      using ts row effect_move [OF row(1), of Verified] effect_move [OF row(1), of Rejected]
      by (simp add: request_activation_def effect_none split: sum.split exn.split exn_class.split)
  next
    case (Inr u)
    then show ?thesis
      using ts row effect_move [OF row(1), of ActivationRequested]
      by (simp add: request_activation_def effect_none split: sum.split)
  qed
next
  case False
  then show ?thesis
    by (auto simp: request_activation_def effect_none split: sum.split option.split)
qed

lemma ledger_step_effect: "ledger_step jcs L L' \<Longrightarrow> ledger_effect jcs L L'"
  by (erule ledger_stepE)
     (simp_all add: record_issued_effect verify_issued_effect request_activation_effect)

section \<open>Monotone vouchers\<close>

definition monotone_rows :: "voucher_row list \<Rightarrow> bool" where
  "monotone_rows rows \<longleftrightarrow>
     (\<forall>r\<in>set rows. \<forall>r'\<in>set rows. live r \<and> live r' \<and> row_domain_key r = row_domain_key r' \<longrightarrow>
        (sequence_of r = sequence_of r' \<longrightarrow> submission_id r = submission_id r') \<and>
        (sequence_of r \<le> sequence_of r' \<longrightarrow> total_of r \<le> total_of r'))"

definition row_bound :: "serializer \<Rightarrow> voucher_row \<Rightarrow> bool" where
  "row_bound jcs r \<longleftrightarrow>
     (\<exists>payload b amount. item (dict_of (voucher_json r)) ''payload'' = PDict payload \<and>
        jcs (PDict payload) = Some b \<and> row_voucher_hash r = Some (sha256_raw_bytes b) \<and>
        row_sequence r = Some (sequence_of r) \<and> item payload ''sequence'' = PInt (sequence_of r) \<and>
        row_cumulative_total r = Some amount \<and>
        item payload ''cumulative_authorized_base_units'' = PStr amount \<and> 0 < total_of r)"

definition ledger_inv :: "serializer \<Rightarrow> ledger \<Rightarrow> bool" where
  "ledger_inv jcs L \<longleftrightarrow> distinct (map submission_id (submissions L)) \<and> monotone_rows (submissions L) \<and>
     (\<forall>r\<in>set (submissions L). live r \<longrightarrow> row_bound jcs r)"

lemma highest_sequence_in: "highest_sequence rows = Some m \<Longrightarrow> m \<in> set rows"
  by (induction rows arbitrary: m) (auto split: option.splits if_splits)

lemma highest_sequence_max:
  "r \<in> set rows \<Longrightarrow> \<exists>m. highest_sequence rows = Some m \<and> m \<in> set rows \<and> sequence_of r \<le> sequence_of m"
proof (induction rows)
  case (Cons a rows)
  show ?case
  proof (cases "highest_sequence rows")
    case None
    with Cons show ?thesis by auto
  next
    case (Some m)
    with highest_sequence_in [OF this] Cons show ?thesis by auto
  qed
qed simp

lemma monotone_rowsD:
  assumes "monotone_rows rows" "r \<in> set rows" "r' \<in> set rows" "live r" "live r'"
    "row_domain_key r = row_domain_key r'"
  shows "sequence_of r = sequence_of r' \<Longrightarrow> submission_id r = submission_id r'"
    "sequence_of r \<le> sequence_of r' \<Longrightarrow> total_of r \<le> total_of r'"
  using assms unfolding monotone_rows_def by blast+

lemma set_state_simps [simp]:
  "submission_id (set_state st err ts r) = submission_id r" "voucher_json (set_state st err ts r) = voucher_json r"
  "row_state (set_state st err ts r) = st" "row_domain_key (set_state st err ts r) = row_domain_key r"
  "sequence_of (set_state st err ts r) = sequence_of r" "total_of (set_state st err ts r) = total_of r"
  "row_bound jcs (set_state st err ts r) = row_bound jcs r"
  by (simp_all add: set_state_def sequence_of_def total_of_def row_bound_def)

lemma verified_row_simps [simp]:
  "submission_id (verified_row dk vv ts r) = submission_id r" "voucher_json (verified_row dk vv ts r) = voucher_json r"
  "row_state (verified_row dk vv ts r) = Verified" "row_domain_key (verified_row dk vv ts r) = Some dk"
  "row_sequence (verified_row dk vv ts r) = Some (vv_sequence vv)"
  "row_cumulative_total (verified_row dk vv ts r) = Some (str_int (vv_cumulative_total vv))"
  "row_voucher_hash (verified_row dk vv ts r) = Some (vv_voucher_hash vv)"
  "sequence_of (verified_row dk vv ts r) = vv_sequence vv"
  by (simp_all add: verified_row_def sequence_of_def Let_def)

lemma write_event_simps [simp]:
  "submissions (write_event sid st err ts L) = submissions L"
  "submissions (update_submission sid f L) = update_row submission_id sid f (submissions L)"
  "submissions (move sid st err ts L) = update_row submission_id sid (set_state st err ts) (submissions L)"
  by (simp_all add: write_event_def update_submission_def move_def)

lemma verify_rowE:
  assumes "verify_row jcs sv L row c now = Inr (dk, vv)"
  obtains "verify_voucher jcs sv (voucher_json row) c now
      (map_option sequence_of (latest_live L dk (submission_id row)))
      (map_option total_of (latest_live L dk (submission_id row))) = Inr vv"
    "domain_key jcs c = Inr dk"
  using assms unfolding verify_row_def Let_def bind_unit_eq_Inr bind_res_eq_Inr by auto

lemma verified_total:
  assumes "verify_voucher jcs sv voucher c now s t = Inr vv"
  shows "total_of (verified_row dk vv ts r) = vv_cumulative_total vv"
    "0 < vv_cumulative_total vv"
proof -
  show pos: "0 < vv_cumulative_total vv"
    using assms by (rule verify_voucherE)
      (auto simp: check_authorization_Inr vo_amount_def dest!: amount_with_nonneg)
  then show "total_of (verified_row dk vv ts r) = vv_cumulative_total vv"
    by (simp add: total_of_def)
qed

lemma verify_voucher_issued_bounds:
  assumes "verify_voucher jcs sv voucher c now s t = Inr vv"
  shows "s = Some n \<Longrightarrow> n < vv_sequence vv" "t = Some a \<Longrightarrow> a \<le> vv_cumulative_total vv"
  using assms by (auto elim!: verify_voucherE simp: check_authorization_Inr max_opt_def)

lemma verified_row_bound:
  assumes "verify_voucher jcs sv (voucher_json r) c now s t = Inr vv"
  shows "row_bound jcs (verified_row dk vv ts r)"
  using assms
proof (rule verify_voucherE)
  fix envelope payload
  assume *: "voucher_json r = PDict envelope" "item envelope ''payload'' = PDict payload"
    "canonical_voucher_payload jcs (PDict payload) = Inr (vv_canonical_payload vv)"
    "vv_voucher_hash vv = sha256_raw_bytes (vv_canonical_payload vv)"
    "item payload ''sequence'' = PInt (vv_sequence vv)"
    "vo_amount (item payload ''cumulative_authorized_base_units'')
       ''payload.cumulative_authorized_base_units'' = Inr (vv_cumulative_total vv)"
  from *(6) have "item payload ''cumulative_authorized_base_units'' = PStr (str_int (vv_cumulative_total vv))"
    by (auto simp: vo_amount_def res_simps amount_text_dec_undec)
  with * show ?thesis
    using verified_total [OF assms] by (auto simp: row_bound_def canonical_voucher_payload_Inr)
qed

text \<open>The new row is above every live row of its domain.\<close>

lemma verify_row_dominates:
  assumes "verify_row jcs sv L row c now = Inr (dk, vv)" "monotone_rows (submissions L)"
    and "r \<in> set (submissions L)" "live r" "row_domain_key r = Some dk" "submission_id r \<noteq> submission_id row"
  shows "sequence_of r < vv_sequence vv \<and> total_of r \<le> vv_cumulative_total vv"
proof -
  from assms(1) have v: "verify_voucher jcs sv (voucher_json row) c now
      (map_option sequence_of (latest_live L dk (submission_id row)))
      (map_option total_of (latest_live L dk (submission_id row))) = Inr vv" by (rule verify_rowE)
  have "r \<in> set (filter (\<lambda>r. row_domain_key r = Some dk \<and> live r \<and> submission_id r \<noteq> submission_id row)
      (submissions L))" using assms by simp
  from highest_sequence_max [OF this] obtain m where
    m: "latest_live L dk (submission_id row) = Some m" "sequence_of r \<le> sequence_of m"
      "m \<in> set (submissions L)" "live m" "row_domain_key m = Some dk"
    by (auto simp: latest_live_def)
  have "sequence_of m < vv_sequence vv" "total_of m \<le> vv_cumulative_total vv"
    using verify_voucher_issued_bounds [OF v] m(1) by simp_all
  moreover have "total_of r \<le> total_of m"
    by (rule monotone_rowsD(2) [OF assms(2,3) m(3) assms(4) m(4)]) (simp_all add: assms(5) m)
  ultimately show ?thesis using m(2) by linarith
qed

lemma ledger_inv_initialize: "ledger_inv jcs initialize"
  by (simp add: ledger_inv_def initialize_def monotone_rows_def)

lemma move_edge_live: "move_edge a st \<Longrightarrow> st = Verified \<or> st = ActivationRequested \<Longrightarrow> a = Verified"
  by (cases a; cases st) auto

lemma monotone_rowsI:
  assumes "\<And>r r'. r \<in> set rows \<Longrightarrow> r' \<in> set rows \<Longrightarrow> live r \<Longrightarrow> live r' \<Longrightarrow>
      row_domain_key r = row_domain_key r' \<Longrightarrow>
      (sequence_of r = sequence_of r' \<longrightarrow> submission_id r = submission_id r') \<and>
      (sequence_of r \<le> sequence_of r' \<longrightarrow> total_of r \<le> total_of r')"
  shows "monotone_rows rows"
  using assms unfolding monotone_rows_def by blast

text \<open>
  An update that keeps the columns and makes no row live that was not.
\<close>

lemma monotone_rows_update:
  assumes "monotone_rows rows"
    and "\<And>r. r \<in> set rows \<Longrightarrow> submission_id (f r) = submission_id r \<and> row_domain_key (f r) = row_domain_key r \<and>
      sequence_of (f r) = sequence_of r \<and> total_of (f r) = total_of r \<and> (live (f r) \<longrightarrow> live r)"
  shows "monotone_rows (map f rows)"
proof (rule monotone_rowsI)
  fix a a'
  assume "a \<in> set (map f rows)" "a' \<in> set (map f rows)" and l: "live a" "live a'"
    and dk: "row_domain_key a = row_domain_key a'"
  then obtain r r' where r: "a = f r" "a' = f r'" "r \<in> set rows" "r' \<in> set rows" by auto
  with l dk assms(2) have "live r" "live r'" "row_domain_key r = row_domain_key r'" by simp_all
  from monotone_rowsD [OF assms(1) r(3,4) this]
  show "(sequence_of a = sequence_of a' \<longrightarrow> submission_id a = submission_id a') \<and>
      (sequence_of a \<le> sequence_of a' \<longrightarrow> total_of a \<le> total_of a')"
    using assms(2) r by simp
qed

lemma inv_move:
  assumes "ledger_inv jcs L" "select_submission L sid = Some row" "move_edge (row_state row) st"
  shows "ledger_inv jcs (move sid st err ts L)"
proof -
  have dist: "distinct (map submission_id (submissions L))" and mono: "monotone_rows (submissions L)"
    and bound: "\<And>r. r \<in> set (submissions L) \<Longrightarrow> live r \<Longrightarrow> row_bound jcs r"
    using assms(1) by (auto simp: ledger_inv_def)
  let ?f = "\<lambda>r. if submission_id r = sid then set_state st err ts r else r"
  have live: "live (?f r) \<longrightarrow> live r" if "r \<in> set (submissions L)" for r
    using that select_row_unique [OF dist that] assms(2,3) move_edge_live
    by (auto simp: live_def)
  have "monotone_rows (map ?f (submissions L))"
    by (rule monotone_rows_update [OF mono]) (use live in simp_all)
  moreover have "\<forall>r\<in>set (map ?f (submissions L)). live r \<longrightarrow> row_bound jcs r"
    using live bound by auto
  ultimately show ?thesis
    using dist unfolding ledger_inv_def write_event_simps update_row_def [symmetric]
    by (simp add: map_key_update_row)
qed

lemma inv_issue:
  assumes "ledger_inv jcs L" "select_submission L sid = None"
  shows "ledger_inv jcs (write_event sid Issued None ts
      (L\<lparr>submissions := insert_row (issued_row sid v ts) (submissions L)\<rparr>))"
proof -
  have "\<not> live (issued_row sid v ts)" "submission_id (issued_row sid v ts) = sid"
    by (simp_all add: live_def issued_row_def)
  moreover from this have "monotone_rows (insert_row (issued_row sid v ts) (submissions L))"
    using assms(1) unfolding ledger_inv_def insert_row_def
    by (intro monotone_rowsI) (auto dest: monotone_rowsD)
  ultimately show ?thesis
    using assms by (auto simp: ledger_inv_def insert_row_def select_row_None)
qed

lemma inv_verify:
  assumes "ledger_inv jcs L" "select_submission L sid = Some row"
    and v: "verify_row jcs sv L row c now = Inr (dk, vv)"
  shows "ledger_inv jcs (write_event sid Verified None ts
      (update_submission sid (verified_row dk vv ts) L))"
proof -
  have dist: "distinct (map submission_id (submissions L))" and mono: "monotone_rows (submissions L)"
    and bound: "\<And>r. r \<in> set (submissions L) \<Longrightarrow> live r \<Longrightarrow> row_bound jcs r"
    using assms(1) by (auto simp: ledger_inv_def)
  have sid: "submission_id row = sid" using assms(2) select_row_key by fastforce
  let ?new = "verified_row dk vv ts row"
  let ?rows = "update_row submission_id sid (verified_row dk vv ts) (submissions L)"
  have rows: "r = ?new \<or> r \<in> set (submissions L) \<and> submission_id r \<noteq> sid" if "r \<in> set ?rows" for r
    using that select_row_unique [OF dist] assms(2) by (auto simp: set_update_row)
  from v have vv: "verify_voucher jcs sv (voucher_json row) c now
      (map_option sequence_of (latest_live L dk (submission_id row)))
      (map_option total_of (latest_live L dk (submission_id row))) = Inr vv" by (rule verify_rowE)
  note dom = verify_row_dominates [OF v mono, unfolded sid]
  have "monotone_rows ?rows"
  proof (rule monotone_rowsI)
    fix r r'
    assume r: "r \<in> set ?rows" "r' \<in> set ?rows" "live r" "live r'" "row_domain_key r = row_domain_key r'"
    from rows [OF r(1)] rows [OF r(2)] show "(sequence_of r = sequence_of r' \<longrightarrow> submission_id r = submission_id r') \<and>
      (sequence_of r \<le> sequence_of r' \<longrightarrow> total_of r \<le> total_of r')"
    proof (elim disjE conjE)
      assume "r \<in> set (submissions L)" "r' \<in> set (submissions L)"
      then show ?thesis using monotone_rowsD [OF mono _ _ r(3-5)] by blast
    qed (use dom r verified_total [OF vv] in fastforce)+
  qed
  moreover have "\<forall>r\<in>set ?rows. live r \<longrightarrow> row_bound jcs r"
    using rows bound verified_row_bound [OF vv] by blast
  ultimately show ?thesis
    using dist by (simp add: ledger_inv_def map_key_update_row)
qed

interpretation voucher_ledger: preserved "ledger_step jcs" "ledger_inv jcs" for jcs
proof
  fix L L'
  assume "ledger_inv jcs L" "ledger_step jcs L L'"
  from ledger_step_effect [OF this(2)] this(1) show "ledger_inv jcs L'"
    by cases (simp_all add: inv_issue inv_move inv_verify)
qed

section \<open>Journal and history\<close>

interpretation submission_table: keyed_table submission_id "select_row submission_id" insert_row
  "update_row submission_id"
  by (rule keyed_rows)

definition ledger_edge :: "ledger_state \<Rightarrow> ledger_state \<Rightarrow> bool" where
  "ledger_edge a b \<longleftrightarrow> move_edge a b \<or> a = Issued \<and> b = Verified"

definition legal_path :: "ledger_state list \<Rightarrow> bool" where
  "legal_path sts \<longleftrightarrow> sts \<noteq> [] \<and> hd sts = Issued \<and> successively ledger_edge sts"

definition row_event :: "voucher_row \<Rightarrow> voucher_event" where
  "row_event r = \<lparr>ev_submission = submission_id r, ev_state = row_state r,
     ev_error_code = row_error_code r, ev_observed_at = row_updated_at r\<rparr>"

definition journal_inv :: "ledger \<Rightarrow> bool" where
  "journal_inv L \<longleftrightarrow>
     (\<forall>sid r. select_submission L sid = Some r \<longrightarrow>
        legal_path (map ev_state (events_of L sid)) \<and> last (events_of L sid) = row_event r) \<and>
     (\<forall>sid. select_submission L sid = None \<longrightarrow> events_of L sid = [])"

lemma legal_path_snoc:
  "legal_path sts \<Longrightarrow> ledger_edge (last sts) st \<Longrightarrow> legal_path (sts @ [st])"
  by (auto simp: legal_path_def successively_append_iff)

lemma events_of_write [simp]:
  "events_of (write_event sid st err ts L) k = events_of L k @
     (if k = sid then [\<lparr>ev_submission = sid, ev_state = st, ev_error_code = err, ev_observed_at = ts\<rparr>] else [])"
  "events_of (update_submission sid f L) k = events_of L k"
  "events_of (L\<lparr>submissions := rows\<rparr>) k = events_of L k"
  by (simp_all add: events_of_def write_event_def update_submission_def)

lemma journal_update:
  assumes "journal_inv L" "select_submission L sid = Some row" "ledger_edge (row_state row) st"
    and key: "\<And>r. submission_id (f r) = submission_id r"
    and ev: "row_event (f row) = \<lparr>ev_submission = sid, ev_state = st, ev_error_code = err, ev_observed_at = ts\<rparr>"
  shows "journal_inv (write_event sid st err ts (update_submission sid f L))"
proof -
  have p: "legal_path (map ev_state (events_of L sid))" "last (events_of L sid) = row_event row"
    using assms(1,2) by (auto simp: journal_inv_def)
  moreover have "events_of L sid \<noteq> []" using p(1) by (auto simp: legal_path_def)
  ultimately have "legal_path (map ev_state (events_of L sid) @ [st])"
    using assms(3) by (intro legal_path_snoc) (simp_all add: last_map row_event_def)
  with assms(1,2) ev show ?thesis
    by (auto simp: journal_inv_def submission_table.sel_upd [OF key])
qed

lemma journal_issue:
  assumes "journal_inv L" "select_submission L sid = None"
  shows "journal_inv (write_event sid Issued None ts
      (L\<lparr>submissions := insert_row (issued_row sid v ts) (submissions L)\<rparr>))"
proof -
  have id: "submission_id (issued_row sid v ts) = sid" by (simp add: issued_row_def)
  with assms(2) have "select_row submission_id (submissions L) (submission_id (issued_row sid v ts)) = None"
    by simp
  note ins = submission_table.sel_ins [OF this, unfolded id]
  have ev: "row_event (issued_row sid v ts) =
      \<lparr>ev_submission = sid, ev_state = Issued, ev_error_code = None, ev_observed_at = ts\<rparr>"
    by (simp add: row_event_def issued_row_def)
  show ?thesis
    using assms by (auto simp: journal_inv_def ins legal_path_def ev)
qed

lemma journal_inv_initialize: "journal_inv initialize"
  by (simp add: journal_inv_def initialize_def events_of_def select_row_def)

interpretation voucher_journal: preserved "ledger_step jcs" journal_inv for jcs
proof
  fix L L'
  assume "journal_inv L" "ledger_step jcs L L'"
  from ledger_step_effect [OF this(2)] this(1) show "journal_inv L'"
  proof cases
    case (effect_move sid row st err ts)
    then show ?thesis
      using journal_update [OF \<open>journal_inv L\<close> effect_move(2), of st "set_state st err ts" err ts]
        select_row_key [OF effect_move(2)]
      by (simp add: move_def ledger_edge_def row_event_def set_state_def)
  next
    case (effect_verify sid row sv c now dk vv ts)
    then show ?thesis
      using journal_update [OF \<open>journal_inv L\<close> effect_verify(2), of Verified "verified_row dk vv ts" None ts]
        select_row_key [OF effect_verify(2)]
      by (simp add: ledger_edge_def row_event_def verified_row_def Let_def)
  qed (simp_all add: journal_issue)
qed

definition evidence :: "voucher_row \<Rightarrow> pyval \<times> string option \<times> string option \<times> int option \<times> string option" where
  "evidence r = (voucher_json r, row_voucher_hash r, row_domain_key r, row_sequence r, row_cumulative_total r)"

definition ledger_extends :: "ledger \<Rightarrow> ledger \<Rightarrow> bool" where
  "ledger_extends L L' \<longleftrightarrow>
     (\<forall>sid r. select_submission L sid = Some r \<longrightarrow>
        (\<exists>r'. select_submission L' sid = Some r' \<and> voucher_json r' = voucher_json r \<and>
           (row_state r \<noteq> Issued \<longrightarrow> row_state r' \<noteq> Issued \<and> evidence r' = evidence r) \<and>
           (row_state r \<in> {ActivationRequested, Rejected} \<longrightarrow> r' = r))) \<and>
     prefix (ledger_events L) (ledger_events L')"

lemma extends_update:
  assumes "select_submission L sid = Some row" "\<And>r. submission_id (f r) = submission_id r"
    and "voucher_json (f row) = voucher_json row" "row_state row = Issued \<or> row_state row = Verified"
    and "row_state row = Verified \<Longrightarrow> row_state (f row) \<noteq> Issued \<and> evidence (f row) = evidence row"
  shows "ledger_extends L (write_event sid st err ts (update_submission sid f L))"
  using assms unfolding ledger_extends_def
  by (auto simp: submission_table.sel_upd [OF assms(2)] write_event_def update_submission_def)

lemma move_edge_source: "move_edge a b \<Longrightarrow> a = Issued \<or> a = Verified \<and> b \<noteq> Issued"
  by (cases a; cases b) auto

lemma step_extends:
  assumes "ledger_step jcs L L'"
  shows "ledger_extends L L'"
  using ledger_step_effect [OF assms]
proof cases
  case (effect_issue sid ts v)
  then have "select_row submission_id (submissions L) (submission_id (issued_row sid v ts)) = None"
    by (simp add: issued_row_def)
  then show ?thesis
    unfolding effect_issue(1) ledger_extends_def
    by (auto simp: submission_table.ins_keeps write_event_def)
next
  case (effect_move sid row st err ts)
  then show ?thesis
    unfolding effect_move(1) move_def
    using move_edge_source [OF effect_move(3)]
    by (intro extends_update [OF effect_move(2)]) (auto simp: set_state_def evidence_def)
next
  case (effect_verify sid row sv c now dk vv ts)
  then show ?thesis
    unfolding effect_verify(1)
    by (intro extends_update [OF effect_verify(2)]) simp_all
qed (simp add: ledger_extends_def)

lemma extends_refl: "ledger_extends L L" by (simp add: ledger_extends_def)

lemma extends_trans: 
  assumes "ledger_extends A B" "ledger_extends B C"
  shows "ledger_extends A C"
  unfolding ledger_extends_def
proof (intro conjI allI impI)
  show "prefix (ledger_events A) (ledger_events C)"
    using assms unfolding ledger_extends_def by (blast intro: prefix_order.trans)
next
  fix sid r
  assume "select_submission A sid = Some r"
  with assms(1) obtain r1 where 1: "select_submission B sid = Some r1" "voucher_json r1 = voucher_json r"
    "row_state r \<noteq> Issued \<longrightarrow> row_state r1 \<noteq> Issued \<and> evidence r1 = evidence r"
    "row_state r \<in> {ActivationRequested, Rejected} \<longrightarrow> r1 = r" unfolding ledger_extends_def by blast
  with assms(2) obtain r2 where "select_submission C sid = Some r2" "voucher_json r2 = voucher_json r1"
    "row_state r1 \<noteq> Issued \<longrightarrow> row_state r2 \<noteq> Issued \<and> evidence r2 = evidence r1"
    "row_state r1 \<in> {ActivationRequested, Rejected} \<longrightarrow> r2 = r1" unfolding ledger_extends_def by blast
  with 1 show "\<exists>r'. select_submission C sid = Some r' \<and> voucher_json r' = voucher_json r \<and>
      (row_state r \<noteq> Issued \<longrightarrow> row_state r' \<noteq> Issued \<and> evidence r' = evidence r) \<and>
      (row_state r \<in> {ActivationRequested, Rejected} \<longrightarrow> r' = r)" by auto
qed

lemma steps_extend: "(ledger_step jcs)\<^sup>*\<^sup>* L L' \<Longrightarrow> ledger_extends L L'"
  by (induction rule: rtranclp_induct) (auto intro: extends_refl extends_trans step_extends)

lemma record_issued_Inr:
  assumes "record_issued L sid v t = (L', Inr r)"
  obtains s row where "identifier_text sid" "serialize_voucher v = Inr s" "select_submission L' sid = Some row"
    "voucher_json row = s" "r = ledger_record row"
proof -
  from assms obtain s ts where c: "string_with VoucherValidationError identifier_text ''invalid_string''
      (PStr sid) ''submission_id'' = Inr sid"
    "serialize_voucher v = Inr s" "ledger_time t = Inr ts"
    by (auto simp: record_issued_def vo_string_def res_simps split: sum.splits)
  show thesis
  proof (cases "select_submission L sid")
    case None
    then have "select_row submission_id (submissions L) (submission_id (issued_row sid s ts)) = None"
      by (simp add: issued_row_def)
    from submission_table.ins_read [OF this]
    have "select_row submission_id (insert_row (issued_row sid s ts) (submissions L)) sid = Some (issued_row sid s ts)"
      by (simp add: issued_row_def)
    with assms c None show thesis
      by (intro that [of s "issued_row sid s ts"])
         (auto simp: record_issued_def Let_def issued_row_def vo_string_def string_with_Inr split: if_splits)
  next
    case (Some row)
    with assms c show thesis
      by (intro that [of s row])
         (auto simp: record_issued_def vo_string_def string_with_Inr split: if_splits)
  qed
qed

lemma record_issued_again:
  assumes "identifier_text sid" "utcoffset t = Some 0" "serialize_voucher v = Inr s"
    "select_submission L sid = Some row"
  shows "record_issued L sid v t =
     (L, if voucher_json row = s then Inr (ledger_record row)
         else Inl (vo_reject ''submission_id_collision'' ''submission_id''))"
  using assms by (simp add: record_issued_def vo_string_def string_with_def ledger_time_def vo_utc_def)

section \<open>Examples\<close>

definition example_scope_key :: string where
  "example_scope_key = drop 7 (sha256_raw_bytes (example_jcs_text (ledger_scope example_context)))"

definition example_row :: voucher_row where
  "example_row = verified_row example_scope_key example_verified (strftime_utc 63905760000000000)
     (issued_row ''sub-1'' (example_voucher 4 ''500'') (strftime_utc 63905760000000000))"

definition example_ledger :: ledger where
  "example_ledger = \<lparr>submissions = [example_row], ledger_events = [row_event example_row]\<rparr>"

lemma example_clock: "strptime_utc (strftime_utc 63905760000000000) = Some 63905760000000000"
  by code_simp

lemma example_time: "ledger_time example_now = Inr (strftime_utc 63905760000000000)"
  "vo_utc example_now f = Inr 63905760000000000"
  by (simp_all add: ledger_time_def example_now_def vo_utc_def instant_def utc_datetime_def)

lemma example_domain_key: "domain_key example_jcs example_context = Inr example_scope_key"
proof -
  have "signable (ledger_scope example_context)" by code_simp
  then have "canonical_json_bytes example_jcs (ledger_scope example_context) =
      Inr (example_jcs_text (ledger_scope example_context))"
    by (simp only: canonical_json_bytes_Inr example_jcs_def)
  then show ?thesis by (simp add: domain_key_def example_scope_key_def)
qed

lemma example_reverified: "reverify_row example_jcs example_verifier example_row example_context example_now = Inr ()"
  by (simp add: reverify_row_def example_context_valid example_domain_key example_row_def issued_row_def
      example_voucher_verified)

lemma example_activation:
  "request_activation example_jcs example_verifier example_ledger ''sub-1'' example_context example_now =
     (move ''sub-1'' ActivationRequested None (strftime_utc 63905760000000000) example_ledger,
      Inr (ledger_record (set_state ActivationRequested None (strftime_utc 63905760000000000) example_row)))"
proof -
  have row: "select_submission example_ledger ''sub-1'' = Some example_row" "row_state example_row = Verified"
    "row_updated_at example_row = strftime_utc 63905760000000000"
    by (simp_all add: example_ledger_def select_row_def example_row_def issued_row_def verified_row_def Let_def)
  then show ?thesis
    by (simp add: request_activation_def example_time vo_timestamp_def timestamp_with_def example_clock
        example_reverified)
qed

definition example_run :: "ledger list" where
  "example_run =
     (let L1 = fst (record_issued initialize ''sub-1'' (example_voucher 4 ''500'') example_now);
          L2 = fst (verify_issued example_jcs example_verifier L1 ''sub-1'' example_context example_now)
      in [L1, L2])"

lemma example_run_steps:
  "(ledger_step example_jcs)\<^sup>*\<^sup>* initialize (last example_run)"
  "ledger_step example_jcs (hd example_run) (last example_run)"
proof -
  show 2: "ledger_step example_jcs (hd example_run) (last example_run)"
    by (simp add: example_run_def Let_def step_verify)
  have "ledger_step example_jcs initialize (hd example_run)"
    by (simp add: example_run_def Let_def step_issue)
  with 2 show "(ledger_step example_jcs)\<^sup>*\<^sup>* initialize (last example_run)" by simp
qed

definition example_issued :: ledger where
  "example_issued = write_event ''sub-1'' Issued None (strftime_utc 63905760000000000)
     (initialize\<lparr>submissions := [issued_row ''sub-1'' (PDict []) (strftime_utc 63905760000000000)]\<rparr>)"

lemma example_record:
  "record_issued initialize ''sub-1'' (PDict []) example_now =
     (example_issued, Inr (ledger_record (issued_row ''sub-1'' (PDict []) (strftime_utc 63905760000000000))))"
proof -
  have "vo_string (PStr ''sub-1'') ''submission_id'' identifier_text = Inr ''sub-1''"
    "serialize_voucher (PDict []) = Inr (PDict [])" by code_simp+
  then show ?thesis
    by (simp add: record_issued_def example_time example_issued_def initialize_def select_row_def
        insert_row_def Let_def)
qed

section \<open>Properties\<close>

text \<open>
  Property C36. In every ledger reached from the empty one, submission identifiers are unique; among
  the verified and activation-requested vouchers of one channel scope no two share a sequence and
  the cumulative totals never decrease with the sequence; and the persisted hash, sequence and
  total of such a row are those of the payload it stores.
\<close>

theorem ledger_monotone:
  assumes "(ledger_step jcs)\<^sup>*\<^sup>* initialize L"
  shows "ledger_inv jcs L"
  using assms ledger_inv_initialize by (rule voucher_ledger.steps_inv)

theorem ledger_monotone_witness: "ledger_inv example_jcs (last example_run)"
  by (rule ledger_monotone [OF example_run_steps(1)])

text \<open>
  The event journal of every reachable ledger tells the truth: each submission has a
  history that starts with issued and follows the documented edges (issued to verified or rejected,
  verified to activation requested or rejected, and a retry in place after a failed verifier), and
  its last entry is the current state, error and time of the row.
\<close>

theorem ledger_journal_legal:
  assumes "(ledger_step jcs)\<^sup>*\<^sup>* initialize L"
  shows "journal_inv L"
  using assms journal_inv_initialize by (rule voucher_journal.steps_inv)

theorem ledger_journal_legal_witness: "journal_inv (last example_run)"
  by (rule ledger_journal_legal [OF example_run_steps(1)])

text \<open>
  No sequence of calls forgets or rewrites history: every submission stays, its stored
  voucher never changes, the verification evidence of a processed row never changes, rows that are
  rejected or activation-requested never change at all, and the event log only grows.
\<close>

theorem ledger_history_kept:
  assumes "(ledger_step jcs)\<^sup>*\<^sup>* L L'"
  shows "ledger_extends L L'"
  using assms by (rule steps_extend)

theorem ledger_history_kept_witness: "ledger_extends (hd example_run) (last example_run)"
  by (rule ledger_history_kept [OF r_into_rtranclp, OF example_run_steps(2)])

text \<open>
  Recording is idempotent at any later time: after a successful record, recording the
  same voucher under the same identifier changes nothing and returns the current record, and
  recording different bytes under it is a collision that changes nothing.
\<close>

theorem record_issued_idempotent:
  assumes "record_issued L sid v t = (L', Inr r)" "(ledger_step jcs)\<^sup>*\<^sup>* L' L''" "utcoffset t' = Some 0"
  shows "\<exists>row. select_submission L'' sid = Some row \<and>
     record_issued L'' sid v t' = (L'', Inr (ledger_record row)) \<and>
     (\<forall>v' s'. serialize_voucher v' = Inr s' \<and> serialize_voucher v \<noteq> Inr s' \<longrightarrow>
        record_issued L'' sid v' t' =
          (L'', Inl (vo_reject ''submission_id_collision'' ''submission_id'')))"
  using assms(1)
proof (rule record_issued_Inr)
  fix s row
  assume r: "identifier_text sid" "serialize_voucher v = Inr s" "select_submission L' sid = Some row"
    "voucher_json row = s"
  with steps_extend [OF assms(2)] obtain row' where
    row': "select_submission L'' sid = Some row'" "voucher_json row' = s"
    unfolding ledger_extends_def by blast
  note again = record_issued_again [OF r(1) assms(3) _ row'(1)]
  have "record_issued L'' sid v t' = (L'', Inr (ledger_record row'))"
    using again [OF r(2)] row'(2) by simp
  moreover have "record_issued L'' sid v' t' =
      (L'', Inl (vo_reject ''submission_id_collision'' ''submission_id''))"
    if "serialize_voucher v' = Inr s'" "serialize_voucher v \<noteq> Inr s'" for v' s'
    using again [OF that(1)] that(2) r(2) row'(2) by simp
  ultimately show ?thesis using row'(1) by blast
qed

theorem record_issued_idempotent_witness:
  "\<exists>row. select_submission example_issued ''sub-1'' = Some row \<and>
     record_issued example_issued ''sub-1'' (PDict []) example_now = (example_issued, Inr (ledger_record row))"
proof -
  have "utcoffset example_now = Some 0" by (simp add: example_now_def utc_datetime_def)
  from record_issued_idempotent [OF example_record rtranclp.rtrancl_refl this] show ?thesis by blast
qed

text \<open>
  An activation request succeeds only on current evidence: the stored voucher verifies
  again, at the time of the request, against the context supplied with it, in the scope it was
  verified for and with the hash recorded then.
\<close>

theorem activation_requires_current_verification:
  assumes "request_activation jcs sv L sid c t = (L', Inr r)"
    and "select_submission L sid = Some row" "row_state row = Verified"
  shows "\<exists>vv dk. verify_voucher jcs sv (voucher_json row) c t None None = Inr vv \<and>
     domain_key jcs c = Inr dk \<and> row_domain_key row = Some dk \<and>
     row_voucher_hash row = Some (vv_voucher_hash vv) \<and>
     map_option row_state (select_submission L' sid) = Some ActivationRequested"
proof -
  from assms obtain ts where L': "L' = move sid ActivationRequested None ts L"
    and rv: "reverify_row jcs sv row c t = Inr ()"
    by (auto simp: request_activation_def split: sum.splits exn.splits exn_class.splits)
  have "map_option row_state (select_submission L' sid) = Some ActivationRequested"
    using submission_table.upd_read [OF _ assms(2), of "set_state ActivationRequested None ts"]
    by (simp add: L')
  moreover obtain dk vv where "domain_key jcs c = Inr dk"
    "verify_voucher jcs sv (voucher_json row) c t None None = Inr vv" "row_domain_key row = Some dk"
    "row_voucher_hash row = Some (vv_voucher_hash vv)"
    using rv unfolding reverify_row_def bind_unit_eq_Inr bind_res_eq_Inr reject_if_eq_Inr not_not by metis
  ultimately show ?thesis by blast
qed

theorem activation_requires_current_verification_witness:
  "\<exists>vv. verify_voucher example_jcs example_verifier (voucher_json example_row) example_context example_now
     None None = Inr vv \<and> row_voucher_hash example_row = Some (vv_voucher_hash vv)"
  using activation_requires_current_verification [OF example_activation, of example_row]
  by (auto simp: example_ledger_def select_row_def example_row_def issued_row_def)

end
