(* ===== verification/Binding.thy ===== *)
theory Binding
  imports Voucher_Ledger
begin

text \<open>
  \<^verbatim>\<open>foundry_channel_protocol/recipient_binding.py\<close>: the claim reference, the binding payload both
  principals sign, verification of an initial recipient binding, and the one-use journal
  \<^verbatim>\<open>RecipientBindingLedger\<close>. The journal's table is a list of rows with primary key
  \<open>vb_journal_domain_hash\<close> and a unique \<open>vb_binding_hash\<close>.
\<close>

definition claim_fields :: "string list" where
  "claim_fields =
     [''type'', ''protocol_version'', ''claim_id'', ''channel_id'', ''channel_account'', ''epoch'',
      ''locator_hash'', ''claim_pubkey'', ''voucher_hash'', ''cumulative_authorized_base_units'', ''state'',
      ''created_at'', ''expires_at'']"

definition binding_fields :: "string list" where
  "binding_fields =
     [''type'', ''protocol_version'', ''payload'', ''binding_hash'', ''claim_key_signature'',
      ''destination_wallet_signature'']"

definition binding_payload_fields :: "string list" where
  "binding_payload_fields =
     [''domain'', ''protocol_version'', ''environment'', ''network'', ''genesis_hash'', ''program_id'',
      ''channel_id'', ''channel_account'', ''epoch'', ''claim_id'', ''claim_pubkey'', ''voucher_hash'',
      ''mint'', ''binding_mode'', ''destination_wallet'', ''binding_nonce'', ''issued_at'', ''expires_at'']"

definition claim_states :: "string list" where
  "claim_states =
     [''created'', ''delivered'', ''opened'', ''identity_verified'', ''destination_bound'',
      ''settlement_ready'', ''settled'', ''expired'', ''revoked'', ''blocked'', ''already_claimed'']"

definition bindable_claim_states :: "string list" where
  "bindable_claim_states = [''created'', ''delivered'', ''opened'', ''identity_verified'']"

record binding_context =
  bc_environment :: pyval
  bc_network :: pyval
  bc_genesis_hash :: pyval
  bc_program_id :: pyval
  bc_channel_id :: pyval
  bc_channel_account :: pyval
  bc_epoch :: pyval
  bc_claim_id :: pyval
  bc_claim_pubkey :: pyval
  bc_voucher_hash :: pyval
  bc_mint :: pyval

text \<open>The eleven context fields of a verified binding are kept as the context itself.\<close>

record verified_binding =
  vb_journal_domain_hash :: string
  vb_context :: binding_context
  vb_destination_wallet :: pyval
  vb_binding_nonce :: pyval
  vb_binding_hash :: string
  vb_verified_at :: string
  vb_state :: string

section \<open>Field checks\<close>

abbreviation rb_reject :: "string \<Rightarrow> string \<Rightarrow> exn" where
  "rb_reject \<equiv> Exn RecipientBindingValidationError"

definition rb_closed :: "pyval \<Rightarrow> string \<Rightarrow> string list \<Rightarrow> pydict res" where
  "rb_closed v f names = closed_with RecipientBindingValidationError False v f names names"

definition rb_literal :: "pyval \<Rightarrow> pyval \<Rightarrow> string \<Rightarrow> unit res" where
  "rb_literal v expected f = literal_with RecipientBindingValidationError ''invalid_literal'' v expected f"

definition rb_string :: "pyval \<Rightarrow> (string \<Rightarrow> bool) \<Rightarrow> string \<Rightarrow> string \<Rightarrow> string res" where
  "rb_string v pattern f code = string_with RecipientBindingValidationError pattern code v f"

definition rb_identifier :: "pyval \<Rightarrow> string \<Rightarrow> string res" where
  "rb_identifier v f = rb_string v identifier_text f ''invalid_identifier''"

definition rb_pubkey :: "pyval \<Rightarrow> string \<Rightarrow> string res" where
  "rb_pubkey v f = rb_string v pubkey_text f ''invalid_pubkey''"

definition rb_hash :: "pyval \<Rightarrow> string \<Rightarrow> string res" where
  "rb_hash v f = rb_string v hash_text f ''invalid_hash''"

definition rb_signature :: "pyval \<Rightarrow> string \<Rightarrow> string res" where
  "rb_signature v f = rb_string v signature_text f ''invalid_signature''"

definition rb_integer :: "pyval \<Rightarrow> string \<Rightarrow> int \<Rightarrow> int res" where
  "rb_integer v f minimum =
     integer_with RecipientBindingValidationError ''invalid_integer'' minimum json_safe_max v f"

definition rb_amount :: "pyval \<Rightarrow> string \<Rightarrow> int res" where
  "rb_amount v f = amount_with RecipientBindingValidationError v f"

definition rb_timestamp :: "pyval \<Rightarrow> string \<Rightarrow> int res" where
  "rb_timestamp v f = timestamp_with RecipientBindingValidationError fromisoformat_utc v f"

definition rb_now :: "py_datetime \<Rightarrow> int res" where
  "rb_now t =
     (case utcoffset t of None \<Rightarrow> Inl (rb_reject ''invalid_now'' ''now'') | Some off \<Rightarrow> Inr (instant t))"

definition rb_matches :: "pyval \<Rightarrow> pyval \<Rightarrow> string \<Rightarrow> unit res" where
  "rb_matches actual expected f = reject_if (actual \<noteq> expected) (rb_reject ''context_mismatch'' f)"

lemmas rb_checks = rb_closed_def rb_literal_def rb_string_def rb_identifier_def rb_pubkey_def rb_hash_def
  rb_signature_def rb_integer_def rb_amount_def rb_timestamp_def rb_matches_def

section \<open>Context\<close>

definition validate_context :: "binding_context \<Rightarrow> unit res" where
  "validate_context c =
     run_all
       [rb_literal (bc_environment c) (PStr ''devnet'') ''context.environment'',
        rb_literal (bc_network c) (PStr ''solana:devnet'') ''context.network'',
        ignore (rb_pubkey (bc_genesis_hash c) ''context.genesis_hash''),
        ignore (rb_pubkey (bc_program_id c) ''context.program_id''),
        ignore (rb_identifier (bc_channel_id c) ''context.channel_id''),
        ignore (rb_pubkey (bc_channel_account c) ''context.channel_account''),
        ignore (rb_integer (bc_epoch c) ''context.epoch'' 0),
        ignore (rb_identifier (bc_claim_id c) ''context.claim_id''),
        ignore (rb_pubkey (bc_claim_pubkey c) ''context.claim_pubkey''),
        ignore (rb_hash (bc_voucher_hash c) ''context.voucher_hash''),
        ignore (rb_pubkey (bc_mint c) ''context.mint'')]"

definition binding_domain :: "binding_context \<Rightarrow> pyval" where
  "binding_domain c = PDict
     [(KStr ''domain'', PStr ''foundry.channels.recipient-binding-journal''),
      (KStr ''protocol_version'', PStr ''1.0.0''), (KStr ''environment'', bc_environment c),
      (KStr ''network'', bc_network c), (KStr ''genesis_hash'', bc_genesis_hash c),
      (KStr ''program_id'', bc_program_id c), (KStr ''channel_id'', bc_channel_id c),
      (KStr ''channel_account'', bc_channel_account c), (KStr ''epoch'', bc_epoch c),
      (KStr ''claim_id'', bc_claim_id c), (KStr ''claim_pubkey'', bc_claim_pubkey c),
      (KStr ''voucher_hash'', bc_voucher_hash c), (KStr ''mint'', bc_mint c)]"

definition recipient_binding_domain_hash :: "serializer \<Rightarrow> binding_context \<Rightarrow> string res" where
  "recipient_binding_domain_hash jcs c =
     bind_res (validate_context c) (\<lambda>_.
     bind_res (catch_class CanonicalizationError (rb_reject ''canonicalization_failed'' ''context'')
       (canonical_json_bytes jcs (binding_domain c))) (\<lambda>canonical.
     Inr (sha256_raw_bytes canonical)))"

section \<open>Claim\<close>

definition claim_context_fields :: "binding_context \<Rightarrow> (string \<times> pyval) list" where
  "claim_context_fields c =
     [(''claim_id'', bc_claim_id c), (''channel_id'', bc_channel_id c),
      (''channel_account'', bc_channel_account c), (''epoch'', bc_epoch c),
      (''claim_pubkey'', bc_claim_pubkey c), (''voucher_hash'', bc_voucher_hash c)]"

definition check_claim_fields :: "pydict \<Rightarrow> unit res" where
  "check_claim_fields claim =
     run_all
       [rb_literal (item claim ''type'') (PStr ''channel_claim'') ''claim.type'',
        rb_literal (item claim ''protocol_version'') (PStr ''1.0.0'') ''claim.protocol_version'',
        ignore (rb_identifier (item claim ''claim_id'') ''claim.claim_id''),
        ignore (rb_identifier (item claim ''channel_id'') ''claim.channel_id''),
        ignore (rb_pubkey (item claim ''channel_account'') ''claim.channel_account''),
        ignore (rb_integer (item claim ''epoch'') ''claim.epoch'' 0),
        ignore (rb_hash (item claim ''locator_hash'') ''claim.locator_hash''),
        ignore (rb_pubkey (item claim ''claim_pubkey'') ''claim.claim_pubkey''),
        ignore (rb_hash (item claim ''voucher_hash'') ''claim.voucher_hash''),
        ignore (rb_amount (item claim ''cumulative_authorized_base_units'')
          ''claim.cumulative_authorized_base_units'')]"

definition validate_channel_claim ::
  "pyval \<Rightarrow> binding_context \<Rightarrow> py_datetime \<Rightarrow> pydict res" where
  "validate_channel_claim claim_value c now =
     bind_res (validate_context c) (\<lambda>_.
     bind_res (rb_closed claim_value ''claim'' claim_fields) (\<lambda>claim.
     bind_res (check_claim_fields claim) (\<lambda>_.
     bind_res (py_in (item claim ''state'') claim_states) (\<lambda>known.
     bind_res (reject_if (\<not> known) (rb_reject ''invalid_claim_state'' ''claim.state'')) (\<lambda>_.
     bind_res (rb_timestamp (item claim ''created_at'') ''claim.created_at'') (\<lambda>created_at.
     bind_res (rb_timestamp (item claim ''expires_at'') ''claim.expires_at'') (\<lambda>expires_at.
     bind_res (reject_if (expires_at \<le> created_at)
         (rb_reject ''invalid_claim_window'' ''claim.expires_at'')) (\<lambda>_.
     bind_res (rb_now now) (\<lambda>current_time.
     bind_res (run_all
       [reject_if (current_time < created_at) (rb_reject ''claim_not_yet_valid'' ''claim.created_at''),
        reject_if (current_time \<ge> expires_at) (rb_reject ''claim_expired'' ''claim.expires_at''),
        reject_if (\<not> List.member bindable_claim_states (the (str_of (item claim ''state''))))
          (rb_reject ''claim_not_bindable'' ''claim.state'')]) (\<lambda>_.
     bind_res (run_all (map (\<lambda>(f, v). rb_matches (item claim f) v (''claim.'' @ f))
       (claim_context_fields c))) (\<lambda>_.
     Inr claim)))))))))))"

section \<open>Binding\<close>

definition check_binding_payload :: "pydict \<Rightarrow> unit res" where
  "check_binding_payload p =
     run_all
       [rb_literal (item p ''domain'') (PStr ''foundry.channels.recipient-binding'') ''binding.payload.domain'',
        rb_literal (item p ''protocol_version'') (PStr ''1.0.0'') ''binding.payload.protocol_version'',
        rb_literal (item p ''environment'') (PStr ''devnet'') ''binding.payload.environment'',
        rb_literal (item p ''network'') (PStr ''solana:devnet'') ''binding.payload.network'',
        ignore (rb_pubkey (item p ''genesis_hash'') ''binding.payload.genesis_hash''),
        ignore (rb_pubkey (item p ''program_id'') ''binding.payload.program_id''),
        ignore (rb_identifier (item p ''channel_id'') ''binding.payload.channel_id''),
        ignore (rb_pubkey (item p ''channel_account'') ''binding.payload.channel_account''),
        ignore (rb_integer (item p ''epoch'') ''binding.payload.epoch'' 0),
        ignore (rb_identifier (item p ''claim_id'') ''binding.payload.claim_id''),
        ignore (rb_pubkey (item p ''claim_pubkey'') ''binding.payload.claim_pubkey''),
        ignore (rb_hash (item p ''voucher_hash'') ''binding.payload.voucher_hash''),
        ignore (rb_pubkey (item p ''mint'') ''binding.payload.mint''),
        rb_literal (item p ''binding_mode'') (PStr ''initial'') ''binding.payload.binding_mode'',
        ignore (rb_pubkey (item p ''destination_wallet'') ''binding.payload.destination_wallet''),
        ignore (rb_integer (item p ''binding_nonce'') ''binding.payload.binding_nonce'' 1)]"

definition check_binding_window :: "pydict \<Rightarrow> pydict \<Rightarrow> py_datetime \<Rightarrow> unit res" where
  "check_binding_window p claim now =
     bind_res (rb_timestamp (item p ''issued_at'') ''binding.payload.issued_at'') (\<lambda>issued_at.
     bind_res (rb_timestamp (item p ''expires_at'') ''binding.payload.expires_at'') (\<lambda>expires_at.
     bind_res (reject_if (expires_at \<le> issued_at)
         (rb_reject ''invalid_binding_window'' ''binding.payload.expires_at'')) (\<lambda>_.
     bind_res (rb_now now) (\<lambda>current_time.
     bind_res (run_all
       [reject_if (current_time < issued_at) (rb_reject ''binding_not_yet_valid'' ''binding.payload.issued_at''),
        reject_if (current_time \<ge> expires_at) (rb_reject ''binding_expired'' ''binding.payload.expires_at'')]) (\<lambda>_.
     bind_res (rb_timestamp (item claim ''created_at'') ''claim.created_at'') (\<lambda>claim_created_at.
     bind_res (rb_timestamp (item claim ''expires_at'') ''claim.expires_at'') (\<lambda>claim_expires_at.
     run_all
       [reject_if (issued_at < claim_created_at)
          (rb_reject ''binding_predates_claim'' ''binding.payload.issued_at''),
        reject_if (expires_at > claim_expires_at)
          (rb_reject ''binding_outlives_claim'' ''binding.payload.expires_at'')])))))))"

definition canonical_recipient_binding_payload ::
  "serializer \<Rightarrow> pyval \<Rightarrow> pydict \<Rightarrow> py_datetime \<Rightarrow> string res" where
  "canonical_recipient_binding_payload jcs binding_value claim now =
     bind_res (rb_closed binding_value ''binding'' binding_fields) (\<lambda>binding.
     bind_res (run_all
       [rb_literal (item binding ''type'') (PStr ''recipient_binding'') ''binding.type'',
        rb_literal (item binding ''protocol_version'') (PStr ''1.0.0'') ''binding.protocol_version'']) (\<lambda>_.
     bind_res (rb_closed (item binding ''payload'') ''binding.payload'' binding_payload_fields) (\<lambda>payload.
     bind_res (check_binding_payload payload) (\<lambda>_.
     bind_res (check_binding_window payload claim now) (\<lambda>_.
     catch_class CanonicalizationError (rb_reject ''canonicalization_failed'' ''binding.payload'')
       (canonical_json_bytes jcs (PDict payload)))))))"

definition binding_context_fields :: "binding_context \<Rightarrow> (string \<times> pyval) list" where
  "binding_context_fields c =
     [(''environment'', bc_environment c), (''network'', bc_network c),
      (''genesis_hash'', bc_genesis_hash c), (''program_id'', bc_program_id c),
      (''channel_id'', bc_channel_id c), (''channel_account'', bc_channel_account c),
      (''epoch'', bc_epoch c), (''claim_id'', bc_claim_id c), (''claim_pubkey'', bc_claim_pubkey c),
      (''voucher_hash'', bc_voucher_hash c), (''mint'', bc_mint c)]"

definition rb_check_signature ::
  "signature_verifier \<Rightarrow> pyval \<Rightarrow> string \<Rightarrow> string \<Rightarrow> string \<Rightarrow> string \<Rightarrow> unit res" where
  "rb_check_signature sv key message signature code f =
     (case sv (the (str_of key)) message signature of
        VRaise \<Rightarrow> Inl (rb_reject ''signature_verifier_failed'' f)
      | VOther \<Rightarrow> Inl (rb_reject code f)
      | VTrue \<Rightarrow> Inr ())"

definition verify_recipient_binding ::
  "serializer \<Rightarrow> signature_verifier \<Rightarrow> pyval \<Rightarrow> pyval \<Rightarrow> binding_context \<Rightarrow> py_datetime \<Rightarrow>
   verified_binding res" where
  "verify_recipient_binding jcs sv claim_value binding_value c now =
     bind_res (validate_channel_claim claim_value c now) (\<lambda>claim.
     bind_res (rb_closed binding_value ''binding'' binding_fields) (\<lambda>binding.
     bind_res (canonical_recipient_binding_payload jcs (PDict binding) claim now) (\<lambda>payload_bytes.
     let expected_hash = sha256_raw_bytes payload_bytes;
         payload = dict_of (item binding ''payload'')
     in
     bind_res (rb_hash (item binding ''binding_hash'') ''binding.binding_hash'') (\<lambda>declared.
     bind_res (reject_if (declared \<noteq> expected_hash)
         (rb_reject ''binding_hash_mismatch'' ''binding.binding_hash'')) (\<lambda>_.
     bind_res (run_all (map (\<lambda>(f, v). rb_matches (item payload f) v (''binding.payload.'' @ f))
       (binding_context_fields c))) (\<lambda>_.
     bind_res (rb_signature (item binding ''claim_key_signature'')
         ''binding.claim_key_signature'') (\<lambda>claim_signature.
     bind_res (rb_signature (item binding ''destination_wallet_signature'')
         ''binding.destination_wallet_signature'') (\<lambda>wallet_signature.
     bind_res (rb_check_signature sv (bc_claim_pubkey c) payload_bytes claim_signature
         ''invalid_claim_signature'' ''binding.claim_key_signature'') (\<lambda>_.
     bind_res (rb_check_signature sv (item payload ''destination_wallet'') payload_bytes wallet_signature
         ''invalid_destination_signature'' ''binding.destination_wallet_signature'') (\<lambda>_.
     bind_res (rb_now now) (\<lambda>verified_time.
     bind_res (recipient_binding_domain_hash jcs c) (\<lambda>domain_hash.
     Inr \<lparr>vb_journal_domain_hash = domain_hash, vb_context = c,
          vb_destination_wallet = item payload ''destination_wallet'',
          vb_binding_nonce = item payload ''binding_nonce'', vb_binding_hash = expected_hash,
          vb_verified_at = strftime_utc verified_time, vb_state = ''verified''\<rparr>))))))))))))"

section \<open>The one-use journal\<close>

type_synonym binding_journal = "verified_binding list"

definition verify_and_record ::
  "serializer \<Rightarrow> signature_verifier \<Rightarrow> binding_journal \<Rightarrow> pyval \<Rightarrow> pyval \<Rightarrow> binding_context \<Rightarrow> py_datetime \<Rightarrow>
   binding_journal \<times> verified_binding res" where
  "verify_and_record jcs sv J claim_value binding_value c now =
     (case verify_recipient_binding jcs sv claim_value binding_value c now of
        Inl e \<Rightarrow> (J, Inl e)
      | Inr result \<Rightarrow>
          (case select_row vb_journal_domain_hash J (vb_journal_domain_hash result) of
             Some existing \<Rightarrow>
               (J, Inl (rb_reject ''binding_already_recorded'' ''binding.payload.binding_nonce''))
           | None \<Rightarrow>
               (if list_ex (\<lambda>r. vb_binding_hash r = vb_binding_hash result) J
                then (J, Inl (rb_reject ''binding_replay'' ''binding.binding_hash''))
                else (insert_row result J, Inr result))))"

definition binding_get :: "serializer \<Rightarrow> binding_journal \<Rightarrow> binding_context \<Rightarrow> verified_binding option res" where
  "binding_get jcs J c =
     bind_res (recipient_binding_domain_hash jcs c) (\<lambda>domain_hash.
     Inr (select_row vb_journal_domain_hash J domain_hash))"

inductive binding_step :: "serializer \<Rightarrow> binding_journal \<Rightarrow> binding_journal \<Rightarrow> bool" for jcs where
  step_record: "binding_step jcs J (fst (verify_and_record jcs sv J claim binding c t))"

section \<open>What verification and recording establish\<close>

interpretation binding_table: keyed_table vb_journal_domain_hash "select_row vb_journal_domain_hash" insert_row
  "update_row vb_journal_domain_hash"
  by (rule keyed_rows)

lemma rb_now_Inr [res_simps]: "rb_now t = Inr i \<longleftrightarrow> utcoffset t \<noteq> None \<and> i = instant t"
  by (auto simp: rb_now_def split: option.splits)

lemma rb_check_signature_Inr [res_simps]:
  "rb_check_signature sv k m s code f = Inr u \<longleftrightarrow> sv (the (str_of k)) m s = VTrue"
  by (simp add: rb_check_signature_def split: verdict.splits)

lemma run_all_matches:
  "run_all (map (\<lambda>(f, v). rb_matches (item p f) v (g f)) xs) = Inr u \<longleftrightarrow> (\<forall>(f, v)\<in>set xs. item p f = v)"
  by (induction xs) (auto simp: run_all_Cons_Inr rb_matches_def reject_if_eq_Inr simp del: run_all.simps(2))

lemma context_claim_key:
  "validate_context c = Inr () \<Longrightarrow> \<exists>k. bc_claim_pubkey c = PStr k \<and> pubkey_text k"
  unfolding validate_context_def run_all_Cons_Inr ignore_Inr rb_pubkey_def rb_string_def string_with_Inr
  by (elim conjE exE) simp

lemma payload_wallet:
  "check_binding_payload p = Inr () \<Longrightarrow> \<exists>w. item p ''destination_wallet'' = PStr w \<and> pubkey_text w"
  unfolding check_binding_payload_def run_all_Cons_Inr ignore_Inr rb_pubkey_def rb_string_def string_with_Inr
  by (elim conjE exE) simp

lemma verify_recipient_bindingE:
  assumes "verify_recipient_binding jcs sv claim_value binding_value c now = Inr r"
  obtains claim binding payload bytes s1 s2 where
    "validate_channel_claim claim_value c now = Inr claim" "binding_value = PDict binding"
    "item binding ''payload'' = PDict payload" "check_binding_payload payload = Inr ()"
    "check_binding_window payload claim now = Inr ()" "signable (PDict payload)" "jcs (PDict payload) = Some bytes"
    "item binding ''binding_hash'' = PStr (sha256_raw_bytes bytes)"
    "\<forall>(f, v)\<in>set (binding_context_fields c). item payload f = v"
    "item binding ''claim_key_signature'' = PStr s1" "item binding ''destination_wallet_signature'' = PStr s2"
    "sv (the (str_of (bc_claim_pubkey c))) bytes s1 = VTrue"
    "sv (the (str_of (item payload ''destination_wallet''))) bytes s2 = VTrue"
    "recipient_binding_domain_hash jcs c = Inr (vb_journal_domain_hash r)"
    "vb_context r = c" "vb_destination_wallet r = item payload ''destination_wallet''"
    "vb_binding_hash r = sha256_raw_bytes bytes" "vb_state r = ''verified''"
    "vb_binding_nonce r = item payload ''binding_nonce''"
proof -
  from assms show thesis
    unfolding verify_recipient_binding_def canonical_recipient_binding_payload_def Let_def
      bind_unit_eq_Inr bind_res_eq_Inr reject_if_eq_Inr run_all_matches rb_check_signature_Inr
      rb_closed_def closed_with_Inr catch_class_Inr canonical_json_bytes_Inr sum.inject not_not
      rb_hash_def rb_signature_def rb_string_def string_with_Inr
    by (elim exE conjE, hypsubst) (rule that, (assumption | simp)+)
qed

lemma check_binding_window_Inr:
  assumes "check_binding_window p claim now = Inr ()"
  obtains issued expires created closes where
    "rb_timestamp (item p ''issued_at'') ''binding.payload.issued_at'' = Inr issued"
    "rb_timestamp (item p ''expires_at'') ''binding.payload.expires_at'' = Inr expires"
    "rb_timestamp (item claim ''created_at'') ''claim.created_at'' = Inr created"
    "rb_timestamp (item claim ''expires_at'') ''claim.expires_at'' = Inr closes"
    "created \<le> issued" "issued \<le> instant now" "instant now < expires" "expires \<le> closes"
proof -
  from assms show thesis
    unfolding check_binding_window_def bind_unit_eq_Inr bind_res_eq_Inr reject_if_eq_Inr run_all_Cons_Inr
      rb_now_Inr not_less not_le
    by (elim exE conjE, hypsubst) (rule that)
qed

lemma validate_channel_claim_Inr:
  assumes "validate_channel_claim v c now = Inr claim"
  shows "v = PDict claim" "\<exists>s. item claim ''state'' = PStr s \<and> s \<in> set bindable_claim_states"
proof -
  from assms obtain known where "v = PDict claim" "py_in (item claim ''state'') claim_states = Inr known" "known"
    "the (str_of (item claim ''state'')) \<in> set bindable_claim_states"
    unfolding validate_channel_claim_def bind_unit_eq_Inr bind_res_eq_Inr reject_if_eq_Inr run_all_Cons_Inr
      rb_closed_def closed_with_Inr by auto
  then show "v = PDict claim" "\<exists>s. item claim ''state'' = PStr s \<and> s \<in> set bindable_claim_states"
    by (auto simp: py_in_Inr_True)
qed

lemma verify_and_record_Inr:
  assumes "verify_and_record jcs sv J claim b c t = (J', Inr r)"
  shows "verify_recipient_binding jcs sv claim b c t = Inr r" "J' = insert_row r J"
    "select_row vb_journal_domain_hash J (vb_journal_domain_hash r) = None"
    "\<forall>x\<in>set J. vb_binding_hash x \<noteq> vb_binding_hash r"
  using assms by (auto simp: verify_and_record_def list_ex_iff split: sum.splits option.splits if_splits)

lemma verify_and_record_Inl: "verify_and_record jcs sv J claim b c t = (J', Inl e) \<Longrightarrow> J' = J"
  by (auto simp: verify_and_record_def split: sum.splits option.splits if_splits)

lemma binding_step_cases:
  assumes "binding_step jcs J J'"
  obtains "J' = J" | sv claim b c t r where "verify_and_record jcs sv J claim b c t = (J', Inr r)"
  using assms
proof cases
  case (step_record sv claim b c t)
  obtain J1 m where v: "verify_and_record jcs sv J claim b c t = (J1, m)" by fastforce
  with step_record show thesis
    by (cases m) (auto intro: that dest: verify_and_record_Inl)
qed

definition binding_journal_inv :: "serializer \<Rightarrow> binding_journal \<Rightarrow> bool" where
  "binding_journal_inv jcs J \<longleftrightarrow>
     distinct (map vb_journal_domain_hash J) \<and> distinct (map vb_binding_hash J) \<and>
     (\<forall>r\<in>set J. recipient_binding_domain_hash jcs (vb_context r) = Inr (vb_journal_domain_hash r) \<and>
        vb_state r = ''verified'')"

lemma verified_binding_domain:
  assumes "verify_recipient_binding jcs sv claim b c t = Inr r"
  shows "recipient_binding_domain_hash jcs c = Inr (vb_journal_domain_hash r)" "vb_context r = c"
    "vb_state r = ''verified''"
  using assms by (auto elim: verify_recipient_bindingE)

interpretation binding_journal: preserved "binding_step jcs" "binding_journal_inv jcs" for jcs
proof
  fix J J'
  assume inv: "binding_journal_inv jcs J" and "binding_step jcs J J'"
  from this(2) show "binding_journal_inv jcs J'"
  proof (cases rule: binding_step_cases)
    case (2 sv claim b c t r)
    from verify_and_record_Inr [OF 2] inv verified_binding_domain [of jcs sv claim b c t r] show ?thesis
      by (auto simp: binding_journal_inv_def insert_row_def select_row_None)
  qed (simp add: inv)
qed

lemma binding_row_kept:
  assumes "(binding_step jcs)\<^sup>*\<^sup>* J J'" "select_row vb_journal_domain_hash J k = Some r"
  shows "select_row vb_journal_domain_hash J' k = Some r"
  using assms
proof (induction rule: rtranclp_induct)
  case (step y z)
  from step.hyps(2) show ?case
  proof (cases rule: binding_step_cases)
    case (2 sv claim b c t r)
    from verify_and_record_Inr [OF 2] step show ?thesis
      by (simp add: binding_table.ins_keeps)
  qed (simp add: step)
qed

section \<open>Examples\<close>

definition example_binding_context :: binding_context where
  "example_binding_context =
     \<lparr>bc_environment = PStr ''devnet'', bc_network = PStr ''solana:devnet'',
      bc_genesis_hash = PStr (example_key CHR ''1''), bc_program_id = PStr (example_key CHR ''2''),
      bc_channel_id = PStr ''channel-1'', bc_channel_account = PStr (example_key CHR ''3''),
      bc_epoch = PInt 0, bc_claim_id = PStr ''claim-1'', bc_claim_pubkey = PStr (example_key CHR ''5''),
      bc_voucher_hash = PStr (''sha256:'' @ replicate 64 (CHR ''b'')), bc_mint = PStr (example_key CHR ''7'')\<rparr>"

definition example_claim :: pyval where
  "example_claim = PDict
     [(KStr ''type'', PStr ''channel_claim''), (KStr ''protocol_version'', PStr ''1.0.0''),
      (KStr ''claim_id'', PStr ''claim-1''), (KStr ''channel_id'', PStr ''channel-1''),
      (KStr ''channel_account'', PStr (example_key CHR ''3'')), (KStr ''epoch'', PInt 0),
      (KStr ''locator_hash'', PStr (''sha256:'' @ replicate 64 (CHR ''c''))),
      (KStr ''claim_pubkey'', PStr (example_key CHR ''5'')),
      (KStr ''voucher_hash'', PStr (''sha256:'' @ replicate 64 (CHR ''b''))),
      (KStr ''cumulative_authorized_base_units'', PStr ''500''), (KStr ''state'', PStr ''opened''),
      (KStr ''created_at'', PStr ''2026-02-01T00:00:00Z''), (KStr ''expires_at'', PStr ''2026-12-31T00:00:00Z'')]"

definition example_binding_payload :: pydict where
  "example_binding_payload =
     [(KStr ''domain'', PStr ''foundry.channels.recipient-binding''), (KStr ''protocol_version'', PStr ''1.0.0''),
      (KStr ''environment'', PStr ''devnet''), (KStr ''network'', PStr ''solana:devnet''),
      (KStr ''genesis_hash'', PStr (example_key CHR ''1'')), (KStr ''program_id'', PStr (example_key CHR ''2'')),
      (KStr ''channel_id'', PStr ''channel-1''), (KStr ''channel_account'', PStr (example_key CHR ''3'')),
      (KStr ''epoch'', PInt 0), (KStr ''claim_id'', PStr ''claim-1''),
      (KStr ''claim_pubkey'', PStr (example_key CHR ''5'')),
      (KStr ''voucher_hash'', PStr (''sha256:'' @ replicate 64 (CHR ''b''))),
      (KStr ''mint'', PStr (example_key CHR ''7'')), (KStr ''binding_mode'', PStr ''initial''),
      (KStr ''destination_wallet'', PStr (example_key CHR ''6'')), (KStr ''binding_nonce'', PInt 1),
      (KStr ''issued_at'', PStr ''2026-02-02T00:00:00Z''), (KStr ''expires_at'', PStr ''2026-03-01T00:00:00Z'')]"

definition example_binding :: pyval where
  "example_binding = PDict
     [(KStr ''type'', PStr ''recipient_binding''), (KStr ''protocol_version'', PStr ''1.0.0''),
      (KStr ''payload'', PDict example_binding_payload),
      (KStr ''binding_hash'', PStr (sha256_raw_bytes (example_jcs_text (PDict example_binding_payload)))),
      (KStr ''claim_key_signature'', PStr (example_signature (example_key CHR ''5''))),
      (KStr ''destination_wallet_signature'', PStr (example_signature (example_key CHR ''6'')))]"

definition example_verified_binding :: verified_binding where
  "example_verified_binding =
     \<lparr>vb_journal_domain_hash = sha256_raw_bytes (example_jcs_text (binding_domain example_binding_context)),
      vb_context = example_binding_context, vb_destination_wallet = PStr (example_key CHR ''6''),
      vb_binding_nonce = PInt 1,
      vb_binding_hash = sha256_raw_bytes (example_jcs_text (PDict example_binding_payload)),
      vb_verified_at = strftime_utc 63905760000000000, vb_state = ''verified''\<rparr>"

lemma example_claim_valid:
  "validate_channel_claim example_claim example_binding_context example_now = Inr (dict_of example_claim)"
  by code_simp

lemma example_binding_payload_valid: "check_binding_payload example_binding_payload = Inr ()"
  "check_binding_window example_binding_payload (dict_of example_claim) example_now = Inr ()"
  "signable (PDict example_binding_payload)" "signable (binding_domain example_binding_context)"
  "validate_context example_binding_context = Inr ()"
  "signature_text (example_signature (example_key CHR ''5''))"
  "signature_text (example_signature (example_key CHR ''6''))"
  by code_simp+

lemma example_binding_matches:
  "run_all (map (\<lambda>(f, v). rb_matches (item example_binding_payload f) v (g f))
     (binding_context_fields example_binding_context)) = Inr ()"
  unfolding run_all_matches by code_simp

lemma example_binding_canonical:
  "canonical_recipient_binding_payload example_jcs example_binding (dict_of example_claim) example_now =
     Inr (example_jcs_text (PDict example_binding_payload))"
proof -
  have "canonical_json_bytes example_jcs (PDict example_binding_payload) =
      Inr (example_jcs_text (PDict example_binding_payload))"
    using example_binding_payload_valid(3) by (simp only: canonical_json_bytes_Inr example_jcs_def)
  moreover have "rb_closed (PDict example_binding_payload) ''binding.payload'' binding_payload_fields =
      Inr example_binding_payload"
    by (simp add: rb_closed_def closed_with_def example_binding_payload_def binding_payload_fields_def
        missing_keys_def unknown_keys_def)
  ultimately show ?thesis
    by (simp add: canonical_recipient_binding_payload_def example_binding_def rb_closed_def [of "PDict _" "''binding''"]
        closed_with_def binding_fields_def missing_keys_def unknown_keys_def item_def rb_literal_def
        literal_with_def example_binding_payload_valid catch_class_def del: example_jcs_text.simps)
qed

lemma example_domain_hash:
  "recipient_binding_domain_hash example_jcs example_binding_context =
     Inr (vb_journal_domain_hash example_verified_binding)"
proof -
  have "canonical_json_bytes example_jcs (binding_domain example_binding_context) =
      Inr (example_jcs_text (binding_domain example_binding_context))"
    using example_binding_payload_valid(4) by (simp only: canonical_json_bytes_Inr example_jcs_def)
  then show ?thesis
    by (simp add: recipient_binding_domain_hash_def example_binding_payload_valid example_verified_binding_def
        catch_class_def)
qed

lemma example_binding_verified:
  "verify_recipient_binding example_jcs example_verifier example_claim example_binding
     example_binding_context example_now = Inr example_verified_binding"
proof -
  have closed: "rb_closed example_binding ''binding'' binding_fields = Inr (dict_of example_binding)"
    by (simp add: example_binding_def rb_closed_def closed_with_def binding_fields_def missing_keys_def
        unknown_keys_def)
  have dict: "PDict (dict_of example_binding) = example_binding" by (simp add: example_binding_def)
  have items: "item (dict_of example_binding) ''payload'' = PDict example_binding_payload"
    "item (dict_of example_binding) ''binding_hash'' =
       PStr (sha256_raw_bytes (example_jcs_text (PDict example_binding_payload)))"
    "item (dict_of example_binding) ''claim_key_signature'' = PStr (example_signature (example_key CHR ''5''))"
    "item (dict_of example_binding) ''destination_wallet_signature'' =
       PStr (example_signature (example_key CHR ''6''))"
    "item example_binding_payload ''destination_wallet'' = PStr (example_key CHR ''6'')"
    "item example_binding_payload ''binding_nonce'' = PInt 1"
    "bc_claim_pubkey example_binding_context = PStr (example_key CHR ''5'')"
    by (simp_all add: example_binding_def item_def example_binding_payload_def example_binding_context_def)
  have now: "rb_now example_now = Inr 63905760000000000"
    by (simp add: rb_now_def example_now_def utc_datetime_def instant_def)
  show ?thesis
    by (simp add: verify_recipient_binding_def example_claim_valid now example_binding_matches closed dict example_binding_canonical
        items rb_hash_def rb_signature_def rb_string_def string_with_def example_binding_payload_valid
        rb_check_signature_def example_verifier_def example_domain_hash Let_def
        example_verified_binding_def del: example_jcs_text.simps)
qed

lemma example_recorded:
  "verify_and_record example_jcs example_verifier [] example_claim example_binding example_binding_context
     example_now = ([example_verified_binding], Inr example_verified_binding)"
  by (simp add: verify_and_record_def example_binding_verified select_row_def insert_row_def)

section \<open>Properties\<close>

text \<open>
  Property C37. A verified recipient binding is co-signed: the claim key of the authoritative context
  and the destination wallet named in the payload both signed the same canonical bytes, every
  authority field of the payload is the context's, the recorded destination is that wallet and the
  recorded hash is the hash of those bytes.
\<close>

theorem verified_binding_cosigned:
  assumes "verify_recipient_binding jcs sv claim_value binding_value c now = Inr r"
  shows "\<exists>payload bytes claim_key wallet claim_signature wallet_signature.
     item (dict_of binding_value) ''payload'' = PDict payload \<and> jcs (PDict payload) = Some bytes \<and>
     bc_claim_pubkey c = PStr claim_key \<and> item payload ''destination_wallet'' = PStr wallet \<and>
     item (dict_of binding_value) ''claim_key_signature'' = PStr claim_signature \<and>
     item (dict_of binding_value) ''destination_wallet_signature'' = PStr wallet_signature \<and>
     sv claim_key bytes claim_signature = VTrue \<and> sv wallet bytes wallet_signature = VTrue \<and>
     (\<forall>(f, v)\<in>set (binding_context_fields c). item payload f = v) \<and>
     vb_destination_wallet r = PStr wallet \<and> vb_binding_hash r = sha256_raw_bytes bytes"
  using assms
proof (rule verify_recipient_bindingE)
  fix claim binding payload bytes s1 s2
  assume *: "binding_value = PDict binding" "item binding ''payload'' = PDict payload"
    "check_binding_payload payload = Inr ()" "jcs (PDict payload) = Some bytes"
    "\<forall>(f, v)\<in>set (binding_context_fields c). item payload f = v"
    "item binding ''claim_key_signature'' = PStr s1" "item binding ''destination_wallet_signature'' = PStr s2"
    "sv (the (str_of (bc_claim_pubkey c))) bytes s1 = VTrue"
    "sv (the (str_of (item payload ''destination_wallet''))) bytes s2 = VTrue"
    "vb_destination_wallet r = item payload ''destination_wallet''"
    "vb_binding_hash r = sha256_raw_bytes bytes"
    and dom: "recipient_binding_domain_hash jcs c = Inr (vb_journal_domain_hash r)"
  from dom obtain k where k: "bc_claim_pubkey c = PStr k"
    using context_claim_key [of c] by (auto simp: recipient_binding_domain_hash_def res_simps)
  obtain w where w: "item payload ''destination_wallet'' = PStr w"
    using payload_wallet [OF *(3)] by blast
  have "sv k bytes s1 = VTrue" "sv w bytes s2 = VTrue" using *(8,9) k w by simp_all
  with * k w show ?thesis by simp
qed

theorem verified_binding_cosigned_witness:
  "\<exists>payload bytes claim_key wallet claim_signature wallet_signature.
     item (dict_of example_binding) ''payload'' = PDict payload \<and> example_jcs (PDict payload) = Some bytes \<and>
     bc_claim_pubkey example_binding_context = PStr claim_key \<and>
     item payload ''destination_wallet'' = PStr wallet \<and>
     item (dict_of example_binding) ''claim_key_signature'' = PStr claim_signature \<and>
     item (dict_of example_binding) ''destination_wallet_signature'' = PStr wallet_signature \<and>
     example_verifier claim_key bytes claim_signature = VTrue \<and>
     example_verifier wallet bytes wallet_signature = VTrue \<and>
     (\<forall>(f, v)\<in>set (binding_context_fields example_binding_context). item payload f = v) \<and>
     vb_destination_wallet example_verified_binding = PStr wallet \<and>
     vb_binding_hash example_verified_binding = sha256_raw_bytes bytes"
  by (rule verified_binding_cosigned [OF example_binding_verified])

text \<open>
  The validity windows nest: the claim was created no later than the binding was
  issued, the binding was issued no later than now, has not expired, and does not outlive the
  claim, and the claim is in one of the four states that accept an initial binding.
\<close>

theorem binding_window:
  assumes "verify_recipient_binding jcs sv (PDict claim) binding_value c now = Inr r"
  shows "\<exists>payload created issued expires closes.
     item (dict_of binding_value) ''payload'' = PDict payload \<and>
     rb_timestamp (item claim ''created_at'') ''claim.created_at'' = Inr created \<and>
     rb_timestamp (item payload ''issued_at'') ''binding.payload.issued_at'' = Inr issued \<and>
     rb_timestamp (item payload ''expires_at'') ''binding.payload.expires_at'' = Inr expires \<and>
     rb_timestamp (item claim ''expires_at'') ''claim.expires_at'' = Inr closes \<and>
     created \<le> issued \<and> issued \<le> instant now \<and> instant now < expires \<and> expires \<le> closes \<and>
     (\<exists>s. item claim ''state'' = PStr s \<and> s \<in> set bindable_claim_states)"
  using assms
proof (rule verify_recipient_bindingE)
  fix claim' binding payload
  assume c: "validate_channel_claim (PDict claim) c now = Inr claim'" and b: "binding_value = PDict binding"
    "item binding ''payload'' = PDict payload" and w: "check_binding_window payload claim' now = Inr ()"
  have "claim' = claim" "\<exists>s. item claim ''state'' = PStr s \<and> s \<in> set bindable_claim_states"
    using validate_channel_claim_Inr [OF c] by auto
  with w b show ?thesis by (auto elim!: check_binding_window_Inr)
qed

theorem binding_window_witness:
  "\<exists>payload created issued expires closes.
     item (dict_of example_binding) ''payload'' = PDict payload \<and>
     rb_timestamp (item (dict_of example_claim) ''created_at'') ''claim.created_at'' = Inr created \<and>
     rb_timestamp (item payload ''issued_at'') ''binding.payload.issued_at'' = Inr issued \<and>
     rb_timestamp (item payload ''expires_at'') ''binding.payload.expires_at'' = Inr expires \<and>
     rb_timestamp (item (dict_of example_claim) ''expires_at'') ''claim.expires_at'' = Inr closes \<and>
     created \<le> issued \<and> issued \<le> instant example_now \<and> instant example_now < expires \<and>
     expires \<le> closes \<and>
     (\<exists>s. item (dict_of example_claim) ''state'' = PStr s \<and> s \<in> set bindable_claim_states)"
proof -
  have "PDict (dict_of example_claim) = example_claim" by (simp add: example_claim_def)
  with example_binding_verified show ?thesis by (intro binding_window) simp
qed

text \<open>
  Property C38. The journal is one-use for ever: once a binding is recorded for a context, whatever
  calls follow, reading that context returns exactly the recorded binding, and every further
  attempt to bind it fails and leaves the journal unchanged.
\<close>

theorem binding_one_use:
  assumes "verify_and_record jcs sv J claim b c t = (J', Inr r)" "(binding_step jcs)\<^sup>*\<^sup>* J' J''"
  shows "binding_get jcs J'' c = Inr (Some r) \<and>
     fst (verify_and_record jcs sv' J'' claim' b' c t') = J'' \<and>
     (\<exists>e. snd (verify_and_record jcs sv' J'' claim' b' c t') = Inl e)"
proof -
  note v = verify_and_record_Inr [OF assms(1)]
  have dom: "recipient_binding_domain_hash jcs c = Inr (vb_journal_domain_hash r)"
    using v(1) by (rule verified_binding_domain)
  have kept: "select_row vb_journal_domain_hash J'' (vb_journal_domain_hash r) = Some r"
    by (rule binding_row_kept [OF assms(2)]) (simp add: v(2) binding_table.ins_read v(3))
  have "verify_and_record jcs sv' J'' claim' b' c t' =
      (J'', Inl (rb_reject ''binding_already_recorded'' ''binding.payload.binding_nonce''))"
    if "verify_recipient_binding jcs sv' claim' b' c t' = Inr r'" for r'
    using verified_binding_domain(1) [OF that] dom kept that by (simp add: verify_and_record_def)
  then have "fst (verify_and_record jcs sv' J'' claim' b' c t') = J'' \<and>
      (\<exists>e. snd (verify_and_record jcs sv' J'' claim' b' c t') = Inl e)"
    by (cases "verify_recipient_binding jcs sv' claim' b' c t'") (auto simp: verify_and_record_def)
  with dom kept show ?thesis by (simp add: binding_get_def)
qed

theorem binding_one_use_witness:
  "binding_get example_jcs [example_verified_binding] example_binding_context =
     Inr (Some example_verified_binding)"
  using binding_one_use [OF example_recorded rtranclp.rtrancl_refl] by blast

text \<open>
  Every journal reached from the empty one has at most one row per authority domain and
  per binding hash, and each row is filed under the domain hash of its own context.
\<close>

theorem binding_journal_sound:
  assumes "(binding_step jcs)\<^sup>*\<^sup>* [] J"
  shows "binding_journal_inv jcs J"
  using assms by (rule binding_journal.steps_inv) (simp add: binding_journal_inv_def)

theorem binding_journal_sound_witness: "binding_journal_inv example_jcs [example_verified_binding]"
proof (rule binding_journal_sound)
  have "binding_step example_jcs [] (fst (verify_and_record example_jcs example_verifier [] example_claim
      example_binding example_binding_context example_now))" by (rule step_record)
  then show "(binding_step example_jcs)\<^sup>*\<^sup>* [] [example_verified_binding]"
    by (simp add: example_recorded r_into_rtranclp)
qed

end
