(* ===== verification/Ext_Canonical.thy ===== *)
theory Ext_Canonical
  imports Canonical
begin

text \<open>
  \<^verbatim>\<open>foundry_external_execution_protocol/canonicalization.py\<close>: the stricter value domain of the external
  execution protocol, economic plans, execution commitments and their hashes, with the base58
  decoding of Solana public keys. A \<^verbatim>\<open>DomainNormalizationError\<close> carries one message; its path is kept.
\<close>

definition dn_error :: "string \<Rightarrow> exn" where
  "dn_error path = Exn DomainNormalizationError [] path"

definition plan_required :: "string list" where
  "plan_required =
     [''protocol_version'', ''normalization_profile'', ''obligation_id'', ''network'', ''capability'',
      ''asset'', ''amount_base_units'', ''source'', ''destination'', ''expires_at'']"

definition plan_optional :: "string list" where
  "plan_optional = [''reason'']"

definition ext_commitment_required :: "string list" where
  "ext_commitment_required =
     [''protocol_version'', ''normalization_profile'', ''execution_request_id'', ''obligation_id'',
      ''executor_id'', ''executor_version'', ''economic_plan_hash'', ''prepared_message_hash'',
      ''simulation_attestation_hash'', ''signer'', ''constraints'', ''expires_at'']"

section \<open>Value domain\<close>

primrec reject_unsupported_json :: "pyval \<Rightarrow> string \<Rightarrow> unit res"
  and reject_unsupported_list :: "pyval list \<Rightarrow> string \<Rightarrow> nat \<Rightarrow> unit res"
  and reject_unsupported_items :: "pydict \<Rightarrow> string \<Rightarrow> unit res"
  and reject_unsupported_item :: "pykey \<times> pyval \<Rightarrow> string \<Rightarrow> unit res"
where
  "reject_unsupported_json PNone path = Inl (dn_error path)"
| "reject_unsupported_json (PFloat t) path = Inl (dn_error path)"
| "reject_unsupported_json (PBool b) path = Inr ()"
| "reject_unsupported_json (PInt i) path =
     reject_if (\<not> (- json_safe_max \<le> i \<and> i \<le> json_safe_max)) (dn_error path)"
| "reject_unsupported_json (PStr s) path = reject_if (has_surrogate s) (dn_error path)"
| "reject_unsupported_json (PDict d) path = reject_unsupported_items d path"
| "reject_unsupported_json (PList xs) path = reject_unsupported_list xs path 0"
| "reject_unsupported_json (POther t) path = Inl (dn_error path)"
| "reject_unsupported_list [] path n = Inr ()"
| "reject_unsupported_list (x # xs) path n =
     bind_res (reject_unsupported_json x (path @ ''['' @ dec_nat n @ '']'')) (\<lambda>_.
     reject_unsupported_list xs path (Suc n))"
| "reject_unsupported_items [] path = Inr ()"
| "reject_unsupported_items (kv # d) path =
     bind_res (reject_unsupported_item kv path) (\<lambda>_. reject_unsupported_items d path)"
| "reject_unsupported_item (k, v) path =
     (case k of
        KStr s \<Rightarrow>
          bind_res (reject_if (has_surrogate s) (dn_error (path @ ''.<key>''))) (\<lambda>_.
          reject_unsupported_json v (path @ ''.'' @ s))
      | _ \<Rightarrow> Inl (dn_error path))"

definition require_closed_keys :: "pydict \<Rightarrow> string list \<Rightarrow> string list \<Rightarrow> string \<Rightarrow> unit res" where
  "require_closed_keys d required optional path =
     run_all
       [reject_if (missing_keys required d \<noteq> []) (dn_error path),
        if unknown_keys (required @ optional) d \<noteq> [] then
          (if mixed_keys (unknown_keys (required @ optional) d) then Inl (PyRaise ''TypeError'')
           else Inl (dn_error path))
        else Inr (),
        reject_if (list_ex (\<lambda>kv. snd kv = PNone) d) (dn_error path)]"

definition require_identifier :: "pyval \<Rightarrow> string \<Rightarrow> string res" where
  "require_identifier v path =
     (case v of PStr s \<Rightarrow> (if identifier_text s then Inr s else Inl (dn_error path))
      | _ \<Rightarrow> Inl (dn_error path))"

text \<open>
  \<^verbatim>\<open>[0-9]{4}-(0[1-9]|1[0-2])-([0-2][0-9]|3[01])T([01][0-9]|2[0-3]):[0-5][0-9]:[0-5][0-9]Z\<close>: a clock
  reading, not necessarily a calendar date.
\<close>

definition two_in :: "nat \<Rightarrow> nat \<Rightarrow> string \<Rightarrow> bool" where
  "two_in lo hi s \<longleftrightarrow> length s = 2 \<and> list_all is_digit s \<and> lo \<le> undec_nat s \<and> undec_nat s \<le> hi"

definition ext_timestamp_text :: "string \<Rightarrow> bool" where
  "ext_timestamp_text s \<longleftrightarrow>
     length s = 20 \<and> list_all is_digit (take 4 s) \<and> s ! 4 = CHR ''-'' \<and> two_in 1 12 (take 2 (drop 5 s)) \<and>
     s ! 7 = CHR ''-'' \<and> two_in 0 31 (take 2 (drop 8 s)) \<and> s ! 10 = CHR ''T'' \<and>
     two_in 0 23 (take 2 (drop 11 s)) \<and> s ! 13 = CHR '':'' \<and> two_in 0 59 (take 2 (drop 14 s)) \<and>
     s ! 16 = CHR '':'' \<and> two_in 0 59 (take 2 (drop 17 s)) \<and> s ! 19 = CHR ''Z''"

definition require_timestamp :: "pyval \<Rightarrow> string \<Rightarrow> string res" where
  "require_timestamp v path =
     (case v of PStr s \<Rightarrow> (if ext_timestamp_text s then Inr s else Inl (dn_error path))
      | _ \<Rightarrow> Inl (dn_error path))"

definition require_hash :: "pyval \<Rightarrow> string \<Rightarrow> string res" where
  "require_hash v path =
     (case v of PStr s \<Rightarrow> (if hash_text s then Inr s else Inl (dn_error path))
      | _ \<Rightarrow> Inl (dn_error path))"

section \<open>Base58\<close>

definition base58_alphabet :: string where
  "base58_alphabet = ''123456789ABCDEFGHJKLMNPQRSTUVWXYZabcdefghijkmnopqrstuvwxyz''"

fun index_of :: "char \<Rightarrow> string \<Rightarrow> nat option" where
  "index_of c [] = None"
| "index_of c (d # ds) = (if c = d then Some 0 else map_option Suc (index_of c ds))"

definition base58_index :: "char \<Rightarrow> nat option" where
  "base58_index c = index_of c base58_alphabet"

definition base58_number :: "string \<Rightarrow> nat option" where
  "base58_number s =
     foldl (\<lambda>a c. case a of None \<Rightarrow> None
              | Some n \<Rightarrow> (case base58_index c of None \<Rightarrow> None | Some i \<Rightarrow> Some (n * 58 + i))) (Some 0) s"

text \<open>\<open>number.to_bytes((number.bit_length() + 7) // 8, "big")\<close>, empty for zero.\<close>

fun to_bytes :: "nat \<Rightarrow> nat list" where
  "to_bytes n = (if n = 0 then [] else to_bytes (n div 256) @ [n mod 256])"

declare to_bytes.simps [simp del]

definition leading_ones :: "string \<Rightarrow> nat" where
  "leading_ones s = length (takeWhile (\<lambda>c. c = CHR ''1'') s)"

definition decode_base58 :: "string \<Rightarrow> nat list res" where
  "decode_base58 s =
     (case base58_number s of
        None \<Rightarrow> Inl (dn_error [])
      | Some n \<Rightarrow> Inr (replicate (leading_ones s) 0 @ to_bytes n))"

definition require_solana_pubkey :: "pyval \<Rightarrow> string \<Rightarrow> string res" where
  "require_solana_pubkey v path =
     (case v of
        PStr s \<Rightarrow>
          (if \<not> (32 \<le> py_len s \<and> py_len s \<le> 44) then Inl (dn_error path)
           else bind_res (decode_base58 s) (\<lambda>decoded.
                bind_res (reject_if (length decoded \<noteq> 32) (dn_error path)) (\<lambda>_. Inr s)))
      | _ \<Rightarrow> Inl (dn_error path))"

section \<open>Plans, commitments and their hashes\<close>

definition dn_literal :: "pyval \<Rightarrow> string \<Rightarrow> string \<Rightarrow> unit res" where
  "dn_literal v expected path = reject_if (\<not> py_eq v (PStr expected)) (dn_error path)"

definition check_plan_amount :: "pyval \<Rightarrow> unit res" where
  "check_plan_amount v =
     (case v of
        PStr s \<Rightarrow>
          (if \<not> amount_text s then Inl (dn_error ''$.amount_base_units'')
           else if 4300 < length s then Inl (PyRaise ''ValueError'')
           else reject_if (undec_nat s = 0) (dn_error ''$.amount_base_units''))
      | _ \<Rightarrow> Inl (dn_error ''$.amount_base_units''))"

definition check_plan_asset :: "pyval \<Rightarrow> unit res" where
  "check_plan_asset v =
     (case v of
        PDict asset \<Rightarrow>
          bind_res (require_closed_keys asset [''kind'', ''mint'', ''decimals''] [] ''$.asset'') (\<lambda>_.
          bind_res (dn_literal (item asset ''kind'') ''spl-token'' ''$.asset.kind'') (\<lambda>_.
          bind_res (require_solana_pubkey (item asset ''mint'') ''$.asset.mint'') (\<lambda>_.
          case item asset ''decimals'' of
            PInt i \<Rightarrow> reject_if (\<not> (0 \<le> i \<and> i \<le> 18)) (dn_error ''$.asset.decimals'')
          | _ \<Rightarrow> Inl (dn_error ''$.asset.decimals''))))
      | _ \<Rightarrow> Inl (dn_error ''$.asset''))"

definition check_plan_reason :: "pydict \<Rightarrow> unit res" where
  "check_plan_reason plan =
     (if has_key plan ''reason'' then
        (case item plan ''reason'' of
           PStr s \<Rightarrow> reject_if (\<not> (1 \<le> py_len s \<and> py_len s \<le> 256)) (dn_error ''$.reason'')
         | _ \<Rightarrow> Inl (dn_error ''$.reason''))
      else Inr ())"

definition normalize_economic_plan :: "pyval \<Rightarrow> pydict res" where
  "normalize_economic_plan v =
     (case v of
        PDict plan \<Rightarrow>
          bind_res (run_all
            [reject_unsupported_json v ''$'',
             require_closed_keys plan plan_required plan_optional ''$'',
             dn_literal (item plan ''protocol_version'') ''1.0.0'' ''$.protocol_version'',
             dn_literal (item plan ''normalization_profile'') ''foundry-pay-domain-v1''
               ''$.normalization_profile'',
             bind_res (require_identifier (item plan ''obligation_id'') ''$.obligation_id'') (\<lambda>_. Inr ()),
             dn_literal (item plan ''network'') ''solana:devnet'' ''$.network'',
             dn_literal (item plan ''capability'') ''solana.spl_transfer.v1'' ''$.capability'',
             check_plan_amount (item plan ''amount_base_units''),
             bind_res (require_solana_pubkey (item plan ''source'') ''$.source'') (\<lambda>_. Inr ()),
             bind_res (require_solana_pubkey (item plan ''destination'') ''$.destination'') (\<lambda>_. Inr ()),
             bind_res (require_timestamp (item plan ''expires_at'') ''$.expires_at'') (\<lambda>_. Inr ()),
             check_plan_asset (item plan ''asset''),
             check_plan_reason plan]) (\<lambda>_. Inr plan)
      | _ \<Rightarrow> Inl (dn_error ''$''))"

definition canonicalize :: "serializer \<Rightarrow> pyval \<Rightarrow> string res" where
  "canonicalize jcs v =
     bind_res (reject_unsupported_json v ''$'') (\<lambda>_.
     case jcs v of None \<Rightarrow> Inl (dn_error []) | Some b \<Rightarrow> Inr b)"

definition sha256_digest :: "string \<Rightarrow> string" where
  "sha256_digest payload = ''sha256:'' @ sha256_hex payload"

definition economic_plan_hash :: "serializer \<Rightarrow> pyval \<Rightarrow> string res" where
  "economic_plan_hash jcs plan =
     bind_res (normalize_economic_plan plan) (\<lambda>normalized.
     bind_res (canonicalize jcs (PDict normalized)) (\<lambda>b. Inr (sha256_digest b)))"

definition prepared_message_hash :: "string \<Rightarrow> string res" where
  "prepared_message_hash message = (if message = [] then Inl (dn_error []) else Inr (sha256_digest message))"

definition simulation_attestation_hash :: "serializer \<Rightarrow> pyval \<Rightarrow> string res" where
  "simulation_attestation_hash jcs attestation =
     (case attestation of
        PDict d \<Rightarrow> bind_res (canonicalize jcs attestation) (\<lambda>b. Inr (sha256_digest b))
      | _ \<Rightarrow> Inl (dn_error []))"

definition check_ext_commitment :: "pydict \<Rightarrow> unit res" where
  "check_ext_commitment c =
     run_all
       [require_closed_keys c ext_commitment_required [] ''$'',
        dn_literal (item c ''protocol_version'') ''1.0.0'' ''$.protocol_version'',
        dn_literal (item c ''normalization_profile'') ''foundry-pay-domain-v1'' ''$.normalization_profile'',
        bind_res (require_identifier (item c ''execution_request_id'') ''$.execution_request_id'') (\<lambda>_. Inr ()),
        bind_res (require_identifier (item c ''obligation_id'') ''$.obligation_id'') (\<lambda>_. Inr ()),
        bind_res (require_identifier (item c ''executor_id'') ''$.executor_id'') (\<lambda>_. Inr ()),
        reject_if (case item c ''executor_version'' of PStr s \<Rightarrow> s = [] | _ \<Rightarrow> True)
          (dn_error ''$.executor_version''),
        bind_res (require_hash (item c ''economic_plan_hash'') ''$.economic_plan_hash'') (\<lambda>_. Inr ()),
        bind_res (require_hash (item c ''prepared_message_hash'') ''$.prepared_message_hash'') (\<lambda>_. Inr ()),
        bind_res (require_hash (item c ''simulation_attestation_hash'')
          ''$.simulation_attestation_hash'') (\<lambda>_. Inr ()),
        bind_res (require_solana_pubkey (item c ''signer'') ''$.signer'') (\<lambda>_. Inr ()),
        reject_if (case item c ''constraints'' of PDict d \<Rightarrow> False | _ \<Rightarrow> True) (dn_error ''$.constraints''),
        bind_res (require_timestamp (item c ''expires_at'') ''$.expires_at'') (\<lambda>_. Inr ())]"

definition execution_commitment_hash :: "serializer \<Rightarrow> pyval \<Rightarrow> string res" where
  "execution_commitment_hash jcs commitment =
     (case commitment of
        PDict c \<Rightarrow>
          bind_res (reject_unsupported_json commitment ''$'') (\<lambda>_.
          bind_res (check_ext_commitment c) (\<lambda>_.
          bind_res (canonicalize jcs commitment) (\<lambda>b. Inr (sha256_digest b))))
      | _ \<Rightarrow> Inl (dn_error ''$''))"

section \<open>Base58 texts are unique\<close>

text \<open>Positional value of a digit list, most significant first.\<close>

definition radix_value :: "nat \<Rightarrow> nat list \<Rightarrow> nat" where
  "radix_value b ds = foldl (\<lambda>a d. a * b + d) 0 ds"

lemma radix_value_snoc [simp]: "radix_value b (ds @ [d]) = radix_value b ds * b + d"
  by (simp add: radix_value_def)

lemma radix_value_Nil [simp]: "radix_value b [] = 0"
  by (simp add: radix_value_def)

lemma radix_value_pos: "ds \<noteq> [] \<Longrightarrow> hd ds \<noteq> 0 \<Longrightarrow> 0 < b \<Longrightarrow> 0 < radix_value b ds"
proof (induction ds rule: rev_induct)
  case (snoc d ds)
  then show ?case by (cases "ds = []") (auto simp: radix_value_def)
qed simp

lemma radix_value_unique:
  assumes "list_all (\<lambda>d. d < b) ds" "list_all (\<lambda>d. d < b) es" "ds = [] \<or> hd ds \<noteq> 0" "es = [] \<or> hd es \<noteq> 0"
    and "radix_value b ds = radix_value b es"
  shows "ds = es"
  using assms
proof (induction ds arbitrary: es rule: rev_induct)
  case Nil
  then show ?case
    using radix_value_pos [of es b] by (cases es) (auto simp: list_all_iff)
next
  case (snoc d ds)
  have b: "0 < b" using snoc.prems(1) by auto
  show ?case
  proof (cases es rule: rev_exhaust)
    case Nil
    have "0 < radix_value b (ds @ [d])" by (rule radix_value_pos) (use snoc.prems b in auto)
    with Nil snoc.prems show ?thesis by simp
  next
    case (snoc es' e)
    note es = snoc
    have "radix_value b ds * b + d = radix_value b es' * b + e" "d < b" "e < b"
      using \<open>radix_value b (ds @ [d]) = radix_value b es\<close> snoc.prems(1,2) es by auto
    then have "d = e" "radix_value b ds = radix_value b es'"
      by (metis mod_mult_self3 mod_less add.commute, metis div_mult_self3 div_less add.right_neutral add.commute less_nat_zero_code not_less_zero)
    moreover have "ds = es'"
      using snoc.prems es calculation by (intro snoc.IH) (auto split: if_splits simp: hd_append)
    ultimately show ?thesis by (simp add: es)
  qed
qed

lemma to_bytes_0 [simp]: "to_bytes 0 = []"
  by (simp add: to_bytes.simps)

lemma to_bytes_value: "radix_value 256 (to_bytes n) = n"
proof (induction n rule: to_bytes.induct)
  case (1 n)
  then show ?case by (cases "n = 0") (auto simp: to_bytes.simps [of n])
qed

lemma to_bytes_hd: "to_bytes n = [] \<or> hd (to_bytes n) \<noteq> 0"
proof (induction n rule: to_bytes.induct)
  case (1 n)
  show ?case
  proof (cases "n = 0")
    case True
    then show ?thesis by (simp add: to_bytes.simps [of n])
  next
    case False
    moreover have "to_bytes (n div 256) = [] \<longleftrightarrow> n < 256" by (subst to_bytes.simps) auto
    ultimately show ?thesis
      using 1 by (auto simp: to_bytes.simps [of n] hd_append)
  qed
qed

lemma padded_unique:
  assumes "replicate m 0 @ xs = replicate n 0 @ ys" "xs = [] \<or> hd xs \<noteq> (0::nat)" "ys = [] \<or> hd ys \<noteq> 0"
  shows "m = n \<and> xs = ys"
proof -
  have tw: "takeWhile ((=) 0) (replicate k 0 @ zs) = replicate k 0" if "zs = [] \<or> hd zs \<noteq> 0" for k zs
    using that by (induction k) (cases zs, simp_all)
  from assms have "replicate m (0::nat) = replicate n 0" using tw by metis
  then have "m = n" by (metis length_replicate)
  with assms(1) show ?thesis by simp
qed

lemma index_of_nth: "index_of c xs = Some i \<Longrightarrow> i < length xs \<and> xs ! i = c"
  by (induction xs arbitrary: i) (auto split: if_splits)

lemma base58_index_facts:
  "base58_index c = Some i \<Longrightarrow> i < 58 \<and> base58_alphabet ! i = c"
  using index_of_nth [of c base58_alphabet i] by (simp add: base58_index_def base58_alphabet_def)

lemma base58_index_0: "base58_index c = Some 0 \<longleftrightarrow> c = CHR ''1''"
  by (auto simp: base58_index_def base58_alphabet_def)

lemma base58_number_snoc:
  "base58_number (s @ [c]) =
     (case base58_number s of None \<Rightarrow> None
      | Some n \<Rightarrow> (case base58_index c of None \<Rightarrow> None | Some i \<Rightarrow> Some (n * 58 + i)))"
  by (simp add: base58_number_def)

lemma base58_number_digits:
  "base58_number s = Some n \<Longrightarrow>
     \<exists>ds. list_all2 (\<lambda>c d. base58_index c = Some d) s ds \<and> n = radix_value 58 ds"
proof (induction s arbitrary: n rule: rev_induct)
  case Nil
  then show ?case by (simp add: base58_number_def)
next
  case (snoc c s)
  from snoc.prems obtain m i where mi: "base58_number s = Some m" "base58_index c = Some i" "n = m * 58 + i"
    by (auto simp: base58_number_snoc split: option.splits)
  from snoc.IH [OF mi(1)] obtain ds where "list_all2 (\<lambda>c d. base58_index c = Some d) s ds" "m = radix_value 58 ds"
    by blast
  with mi show ?case by (intro exI [of _ "ds @ [i]"]) (simp add: list_all2_appendI)
qed

lemma radix_value_zeros: "radix_value b (dropWhile (\<lambda>d. d = 0) ds) = radix_value b ds"
proof (induction ds)
  case (Cons d ds)
  then show ?case by (cases "d = 0") (simp_all add: radix_value_def)
qed simp

lemma leading_ones_digits:
  assumes "list_all2 (\<lambda>c d. base58_index c = Some d) s ds"
  shows "leading_ones s = length (takeWhile (\<lambda>d. d = 0) ds)"
  using assms
proof (induction rule: list_all2_induct)
  case (Cons c cs d ds)
  have "c = CHR ''1'' \<longleftrightarrow> d = 0" using Cons.hyps base58_index_0 [of c] by auto
  with Cons.IH show ?case by (simp add: leading_ones_def)
qed (simp add: leading_ones_def)

lemma base58_digits_text:
  "list_all2 (\<lambda>c d. base58_index c = Some d) s ds \<Longrightarrow>
     s = map ((!) base58_alphabet) ds \<and> list_all (\<lambda>d. d < 58) ds"
  by (induction rule: list_all2_induct) (auto dest: base58_index_facts)

text \<open>
  A public key has one text: two base58 texts that decode to the same bytes are equal,
  so comparing addresses as texts, as the protocols do, compares the keys.
\<close>

theorem base58_text_unique:
  assumes "decode_base58 s = Inr bs" "decode_base58 t = Inr bs"
  shows "s = t"
proof -
  obtain m n where mn: "base58_number s = Some m" "base58_number t = Some n"
    and bs: "replicate (leading_ones s) 0 @ to_bytes m = replicate (leading_ones t) 0 @ to_bytes n"
    using assms by (auto simp: decode_base58_def split: option.splits)
  obtain ds es where ds: "list_all2 (\<lambda>c d. base58_index c = Some d) s ds" "m = radix_value 58 ds"
    and es: "list_all2 (\<lambda>c d. base58_index c = Some d) t es" "n = radix_value 58 es"
    using base58_number_digits [OF mn(1)] base58_number_digits [OF mn(2)] by blast
  let ?z = "\<lambda>d. d = (0::nat)"
  have eq: "leading_ones s = leading_ones t" "m = n"
    using padded_unique [OF bs to_bytes_hd to_bytes_hd] to_bytes_value by metis+
  have "dropWhile ?z ds = dropWhile ?z es"
  proof (rule radix_value_unique)
    show "list_all (\<lambda>d. d < 58) (dropWhile ?z ds)" "list_all (\<lambda>d. d < 58) (dropWhile ?z es)"
      using base58_digits_text [OF ds(1)] base58_digits_text [OF es(1)] set_dropWhileD
      by (auto simp: list_all_iff, fastforce+)
    show "dropWhile ?z ds = [] \<or> hd (dropWhile ?z ds) \<noteq> 0" "dropWhile ?z es = [] \<or> hd (dropWhile ?z es) \<noteq> 0"
      using hd_dropWhile [of ?z] by blast+
    show "radix_value 58 (dropWhile ?z ds) = radix_value 58 (dropWhile ?z es)"
      using eq ds(2) es(2) by (simp add: radix_value_zeros)
  qed
  moreover have "takeWhile ?z ds = takeWhile ?z es"
  proof -
    have "takeWhile ?z xs = replicate (length (takeWhile ?z xs)) 0" for xs
      by (induction xs) auto
    then show ?thesis
      using eq(1) leading_ones_digits [OF ds(1)] leading_ones_digits [OF es(1)] by metis
  qed
  ultimately have "ds = es" by (metis takeWhile_dropWhile_id)
  then show ?thesis using base58_digits_text [OF ds(1)] base58_digits_text [OF es(1)] by simp
qed

theorem base58_text_unique_witness: "{t. decode_base58 t = Inr [0, 9]} = {''1A''}"
proof -
  have "decode_base58 ''1A'' = Inr [0, 9]" by code_simp
  then show ?thesis by (blast intro: base58_text_unique)
qed

section \<open>Plans\<close>

definition solana_key :: "pyval \<Rightarrow> bool" where
  "solana_key v \<longleftrightarrow> (\<exists>s bs. v = PStr s \<and> decode_base58 s = Inr bs \<and> length bs = 32)"

lemma require_solana_pubkey_Inr: "require_solana_pubkey v path = Inr s \<Longrightarrow> solana_key v"
  by (cases v) (auto simp: require_solana_pubkey_def solana_key_def res_simps split: if_splits)

lemma normalize_economic_planE:
  assumes "normalize_economic_plan v = Inr plan"
  obtains amount asset where "v = PDict plan" "item plan ''amount_base_units'' = PStr amount"
    "amount_text amount" "0 < undec_nat amount" "solana_key (item plan ''source'')"
    "solana_key (item plan ''destination'')" "item plan ''asset'' = PDict asset" "solana_key (item asset ''mint'')"
proof -
  from assms obtain s1 s2 where v: "v = PDict plan"
    and a: "check_plan_amount (item plan ''amount_base_units'') = Inr ()"
    and k: "require_solana_pubkey (item plan ''source'') ''$.source'' = Inr s1"
      "require_solana_pubkey (item plan ''destination'') ''$.destination'' = Inr s2"
    and asset: "check_plan_asset (item plan ''asset'') = Inr ()"
    unfolding normalize_economic_plan_def
    by (cases v) (auto simp only: pyval.case sum.distinct sum.inject bind_res_eq_Inr run_all_Cons_Inr)
  from a obtain amount where "item plan ''amount_base_units'' = PStr amount" "amount_text amount" "0 < undec_nat amount"
    by (cases "item plan ''amount_base_units''") (auto simp: check_plan_amount_def res_simps split: if_splits)
  moreover from asset obtain d m where "item plan ''asset'' = PDict d"
    "require_solana_pubkey (item d ''mint'') ''$.asset.mint'' = Inr m"
    by (cases "item plan ''asset''") (auto simp: check_plan_asset_def res_simps)
  ultimately show thesis
    using v k by (intro that) (auto intro: require_solana_pubkey_Inr)
qed

lemma canonicalize_Inr: "canonicalize jcs v = Inr b \<Longrightarrow> jcs v = Some b"
  by (auto simp: canonicalize_def res_simps split: option.splits)

text \<open>
  A plan hash binds a transfer that can be executed: the plan has a positive amount,
  and its source, destination and mint are texts of 32-byte keys; the hash is the digest of the
  serializer's bytes of exactly that plan.
\<close>

theorem economic_plan_hash_binds:
  assumes "economic_plan_hash jcs v = Inr h"
  shows "\<exists>plan bytes amount asset. v = PDict plan \<and> jcs v = Some bytes \<and> h = sha256_digest bytes \<and>
     item plan ''amount_base_units'' = PStr amount \<and> 0 < undec_nat amount \<and>
     solana_key (item plan ''source'') \<and> solana_key (item plan ''destination'') \<and>
     item plan ''asset'' = PDict asset \<and> solana_key (item asset ''mint'')"
proof -
  from assms obtain plan b where n: "normalize_economic_plan v = Inr plan"
    "canonicalize jcs (PDict plan) = Inr b" "h = sha256_digest b"
    by (auto simp: economic_plan_hash_def res_simps)
  from n(1) show ?thesis
    by (rule normalize_economic_planE) (use canonicalize_Inr [OF n(2)] n(3) in auto)
qed

definition example_plan_items :: pydict where
  "example_plan_items =
     [(KStr ''protocol_version'', PStr ''1.0.0''),
      (KStr ''normalization_profile'', PStr ''foundry-pay-domain-v1''), (KStr ''obligation_id'', PStr ''ob-1''),
      (KStr ''network'', PStr ''solana:devnet''), (KStr ''capability'', PStr ''solana.spl_transfer.v1''),
      (KStr ''asset'', PDict [(KStr ''kind'', PStr ''spl-token''), (KStr ''mint'', PStr (replicate 32 (CHR ''1''))),
         (KStr ''decimals'', PInt 6)]),
      (KStr ''amount_base_units'', PStr ''200''), (KStr ''source'', PStr (replicate 32 (CHR ''1''))),
      (KStr ''destination'', PStr (replicate 32 (CHR ''1''))),
      (KStr ''expires_at'', PStr ''2026-02-20T00:00:00Z'')]"

definition example_plan :: pyval where
  "example_plan = PDict example_plan_items"

lemma example_plan_hash:
  "economic_plan_hash example_jcs example_plan = Inr (sha256_digest (example_jcs_text example_plan))"
proof -
  have "normalize_economic_plan example_plan = Inr example_plan_items"
    "reject_unsupported_json example_plan ''$'' = Inr ()"
    by code_simp+
  then show ?thesis
    by (simp add: economic_plan_hash_def canonicalize_def example_jcs_def example_plan_def
        del: reject_unsupported_json.simps example_jcs_text.simps)
qed

theorem economic_plan_hash_binds_witness:
  "\<exists>plan bytes amount asset. example_plan = PDict plan \<and> example_jcs example_plan = Some bytes \<and>
     sha256_digest (example_jcs_text example_plan) = sha256_digest bytes \<and>
     item plan ''amount_base_units'' = PStr amount \<and> 0 < undec_nat amount \<and>
     solana_key (item plan ''source'') \<and> solana_key (item plan ''destination'') \<and>
     item plan ''asset'' = PDict asset \<and> solana_key (item asset ''mint'')"
  by (rule economic_plan_hash_binds [OF example_plan_hash])

end
