(* ===== verification/Settlement_Request.thy ===== *)
theory Settlement_Request
  imports Channel Ext_Canonical
begin

text \<open>
  \<^verbatim>\<open>foundry_channel_protocol/settlement.py\<close>, first half: the settlement lifecycle states, the field checks of
  the module, and validation of a settlement request against a channel snapshot.
\<close>

datatype settlement_state =
    SRequested | SValidated | SExecutionCommitted | SAuthorized | SSubmitted | SConfirming | SReconciling
  | SCompleted | SRejected | SFailedBeforeSubmission | SNeedsRecovery | SNeedsReview | SDisputed

fun state_text :: "settlement_state \<Rightarrow> string" where
  "state_text SRequested = ''requested''"
| "state_text SValidated = ''validated''"
| "state_text SExecutionCommitted = ''execution_committed''"
| "state_text SAuthorized = ''authorized''"
| "state_text SSubmitted = ''submitted''"
| "state_text SConfirming = ''confirming''"
| "state_text SReconciling = ''reconciling''"
| "state_text SCompleted = ''completed''"
| "state_text SRejected = ''rejected''"
| "state_text SFailedBeforeSubmission = ''failed_before_submission''"
| "state_text SNeedsRecovery = ''needs_recovery''"
| "state_text SNeedsReview = ''needs_review''"
| "state_text SDisputed = ''disputed''"

text \<open>The states whose reservation is released.\<close>

fun terminal_reservation :: "settlement_state \<Rightarrow> bool" where
  "terminal_reservation SRejected = True"
| "terminal_reservation SFailedBeforeSubmission = True"
| "terminal_reservation SCompleted = True"
| "terminal_reservation _ = False"

definition request_fields :: "string list" where
  "request_fields =
     [''type'', ''protocol_version'', ''environment'', ''network'', ''genesis_hash'', ''program_id'',
      ''channel_id'', ''channel_account'', ''epoch'', ''mint'', ''recipient_wallet'', ''settlement_id'',
      ''execution_request_id'', ''obligation_id'', ''idempotency_key'', ''requested_base_units'',
      ''activated_total_before'', ''settled_total_before'', ''vault_balance_before'',
      ''channel_snapshot_hash'', ''created_at'', ''expires_at'']"

definition commitment_fields :: "string list" where
  "commitment_fields =
     [''type'', ''protocol_version'', ''settlement_request_hash'', ''execution_request_id'',
      ''execution_commitment_hash'', ''prepared_message_hash'', ''executor_id'', ''expected_signer'',
      ''expires_at'']"

definition authorization_fields :: "string list" where
  "authorization_fields =
     [''type'', ''protocol_version'', ''authorization_id'', ''execution_request_id'',
      ''execution_commitment_hash'', ''prepared_message_hash'', ''signer'', ''single_use'', ''issued_at'',
      ''expires_at'', ''authorization_signature'']"

definition executor_receipt_fields :: "string list" where
  "executor_receipt_fields =
     [''type'', ''protocol_version'', ''execution_request_id'', ''execution_commitment_hash'',
      ''prepared_message_hash'', ''transaction_signature'', ''slot'', ''confirmation_status'',
      ''observed_at'', ''receipt_hash'']"

definition observation_fields :: "string list" where
  "observation_fields =
     [''type'', ''protocol_version'', ''source_id'', ''channel_id'', ''channel_account'', ''epoch'', ''mint'',
      ''destination'', ''transaction_signature'', ''settled_total_before'', ''settled_total_after'',
      ''vault_balance_before'', ''vault_balance_after'', ''recipient_balance_before'',
      ''recipient_balance_after'', ''observed_at'', ''observation_hash'']"

record settlement_request =
  sq_settlement_id :: string
  sq_request_hash :: string
  sq_channel_id :: string
  sq_epoch :: int
  sq_idempotency_key :: string
  sq_obligation_id :: string
  sq_execution_request_id :: string
  sq_requested :: int
  sq_activated :: int
  sq_settled :: int
  sq_vault :: int
  sq_recipient_wallet :: string
  sq_expires_at :: string

section \<open>Field checks\<close>

abbreviation st_reject :: "string \<Rightarrow> string \<Rightarrow> exn" where
  "st_reject \<equiv> Exn SettlementError"

text \<open>
  \<open>sorted(unknown)\<close> is evaluated before the missing keys are reported, and \<open>', '.join(unknown)\<close>
  accepts text keys only.
\<close>

definition st_closed :: "pyval \<Rightarrow> string \<Rightarrow> string list \<Rightarrow> pydict res" where
  "st_closed v f required =
     (case v of
        PDict d \<Rightarrow>
          (let unknown = unknown_keys required d in
           if mixed_keys unknown then Inl (PyRaise ''TypeError'')
           else if missing_keys required d \<noteq> [] then Inl (st_reject ''missing_field'' f)
           else if list_ex (\<lambda>k. key_kind k \<noteq> 0) unknown then Inl (PyRaise ''TypeError'')
           else if unknown \<noteq> [] then Inl (st_reject ''unknown_field'' f)
           else if list_ex (\<lambda>kv. snd kv = PNone) d then Inl (st_reject ''null_forbidden'' f)
           else Inr d)
      | _ \<Rightarrow> Inl (st_reject ''invalid_type'' f))"

definition st_literal :: "pyval \<Rightarrow> pyval \<Rightarrow> string \<Rightarrow> unit res" where
  "st_literal v expected f = literal_with SettlementError ''invalid_literal'' v expected f"

definition st_identifier :: "pyval \<Rightarrow> string \<Rightarrow> string res" where
  "st_identifier v f = string_with SettlementError identifier_text ''invalid_identifier'' v f"

definition st_pubkey :: "pyval \<Rightarrow> string \<Rightarrow> string res" where
  "st_pubkey v f = string_with SettlementError pubkey_text ''invalid_pubkey'' v f"

definition st_hash :: "pyval \<Rightarrow> string \<Rightarrow> string res" where
  "st_hash v f = string_with SettlementError hash_text ''invalid_hash'' v f"

definition st_amount :: "pyval \<Rightarrow> string \<Rightarrow> bool \<Rightarrow> int res" where
  "st_amount v f positive =
     bind_res (amount_with SettlementError v f) (\<lambda>parsed.
     bind_res (reject_if (positive \<and> parsed = 0) (st_reject ''zero_settlement'' f)) (\<lambda>_. Inr parsed))"

definition st_integer :: "pyval \<Rightarrow> string \<Rightarrow> int res" where
  "st_integer v f = integer_with SettlementError ''invalid_integer'' 0 json_safe_max v f"

definition st_time :: "pyval \<Rightarrow> string \<Rightarrow> int res" where
  "st_time v f = timestamp_with SettlementError strptime_utc v f"

definition st_utc :: "py_datetime \<Rightarrow> int res" where
  "st_utc t =
     (case utcoffset t of
        None \<Rightarrow> Inl (st_reject ''invalid_now'' ''now'')
      | Some off \<Rightarrow> Inr (to_seconds (instant t)))"

definition format_time :: "py_datetime \<Rightarrow> string res" where
  "format_time t = bind_res (st_utc t) (\<lambda>u. Inr (strftime_utc u))"

lemmas st_checks = st_literal_def st_identifier_def st_pubkey_def st_hash_def st_integer_def st_time_def

section \<open>Request validation\<close>

definition channel_snapshot_hash :: "serializer \<Rightarrow> pyval \<Rightarrow> string res" where
  "channel_snapshot_hash jcs snapshot =
     bind_res (validate_channel snapshot) (\<lambda>_. sha256_canonical_json jcs snapshot)"

definition check_request_fields :: "pydict \<Rightarrow> unit res" where
  "check_request_fields r =
     bind_res (run_all
       [st_literal (item r ''type'') (PStr ''settlement_request'') ''request.type'',
        st_literal (item r ''protocol_version'') (PStr ''1.0.0'') ''request.protocol_version'',
        st_literal (item r ''environment'') (PStr ''devnet'') ''request.environment'',
        st_literal (item r ''network'') (PStr ''solana:devnet'') ''request.network'']) (\<lambda>_.
     bind_res (run_all (map (\<lambda>f. ignore (st_pubkey (item r f) (''request.'' @ f)))
       [''genesis_hash'', ''program_id'', ''channel_account'', ''mint'', ''recipient_wallet''])) (\<lambda>_.
     bind_res (run_all (map (\<lambda>f. ignore (st_identifier (item r f) (''request.'' @ f)))
       [''channel_id'', ''settlement_id'', ''execution_request_id'', ''obligation_id'', ''idempotency_key''])) (\<lambda>_.
     run_all
       [ignore (st_integer (item r ''epoch'') ''request.epoch''),
        ignore (st_hash (item r ''channel_snapshot_hash'') ''request.channel_snapshot_hash'')])))"

definition check_request_window :: "pydict \<Rightarrow> pydict \<Rightarrow> py_datetime \<Rightarrow> unit res" where
  "check_request_window r snapshot now =
     bind_res (st_time (item r ''created_at'') ''request.created_at'') (\<lambda>created_at.
     bind_res (st_time (item r ''expires_at'') ''request.expires_at'') (\<lambda>expires_at.
     bind_res (st_utc now) (\<lambda>current.
     bind_res (run_all
       [reject_if (expires_at \<le> created_at) (st_reject ''invalid_request_window'' ''request.expires_at''),
        reject_if (current < created_at) (st_reject ''request_not_yet_valid'' ''request.created_at''),
        reject_if (current \<ge> expires_at) (st_reject ''request_expired'' ''request.expires_at'')]) (\<lambda>_.
     bind_res (st_time (item snapshot ''expires_at'') ''channel_snapshot.expires_at'') (\<lambda>channel_expires.
     reject_if (expires_at > channel_expires)
       (st_reject ''request_outlives_channel'' ''request.expires_at''))))))"

definition matched_fields :: "string list" where
  "matched_fields =
     [''environment'', ''network'', ''genesis_hash'', ''program_id'', ''channel_id'', ''channel_account'',
      ''epoch'', ''mint'', ''recipient_wallet'']"

definition check_request_amounts ::
  "int \<Rightarrow> int \<Rightarrow> int \<Rightarrow> int \<Rightarrow> accounting_projection \<Rightarrow> unit res" where
  "check_request_amounts requested activated settled vault projection =
     run_all
       [reject_if (activated \<noteq> activated_authorized_total_base_units projection)
          (st_reject ''snapshot_total_mismatch'' ''request.activated_total_before''),
        reject_if (settled \<noteq> settled_total_base_units projection)
          (st_reject ''snapshot_total_mismatch'' ''request.settled_total_before''),
        reject_if (vault \<noteq> vault_balance_base_units projection)
          (st_reject ''snapshot_total_mismatch'' ''request.vault_balance_before''),
        reject_if (requested > activated - settled)
          (st_reject ''over_settlement'' ''request.requested_base_units''),
        reject_if (requested > vault)
          (st_reject ''settlement_above_vault'' ''request.requested_base_units'')]"

definition validate_settlement_request ::
  "serializer \<Rightarrow> pyval \<Rightarrow> pyval \<Rightarrow> py_datetime \<Rightarrow> settlement_request res" where
  "validate_settlement_request jcs request_value channel_snapshot now =
     bind_res (validate_channel channel_snapshot) (\<lambda>projection.
     let snapshot = dict_of channel_snapshot in
     bind_res (st_closed request_value ''request'' request_fields) (\<lambda>request.
     bind_res (check_request_fields request) (\<lambda>_.
     bind_res (st_amount (item request ''requested_base_units'') ''request.requested_base_units'' True) (\<lambda>requested.
     bind_res (st_amount (item request ''activated_total_before'') ''request.activated_total_before'' False) (\<lambda>activated.
     bind_res (st_amount (item request ''settled_total_before'') ''request.settled_total_before'' False) (\<lambda>settled.
     bind_res (st_amount (item request ''vault_balance_before'') ''request.vault_balance_before'' False) (\<lambda>vault.
     bind_res (check_request_window request snapshot now) (\<lambda>_.
     bind_res (run_all (map (\<lambda>f. reject_if (\<not> py_eq (item request f) (item snapshot f))
         (st_reject ''snapshot_context_mismatch'' (''request.'' @ f))) matched_fields)) (\<lambda>_.
     bind_res (channel_snapshot_hash jcs channel_snapshot) (\<lambda>expected_snapshot_hash.
     bind_res (reject_if (item request ''channel_snapshot_hash'' \<noteq> PStr expected_snapshot_hash)
         (st_reject ''snapshot_tampering'' ''request.channel_snapshot_hash'')) (\<lambda>_.
     bind_res (check_request_amounts requested activated settled vault projection) (\<lambda>_.
     bind_res (py_in (item snapshot ''status'') [''active'', ''settling'']) (\<lambda>settleable.
     bind_res (reject_if (\<not> settleable)
         (st_reject ''settlement_lifecycle_forbidden'' ''channel_snapshot.status'')) (\<lambda>_.
     bind_res (sha256_canonical_json jcs (PDict request)) (\<lambda>request_hash.
     Inr \<lparr>sq_settlement_id = text_value (item request ''settlement_id''), sq_request_hash = request_hash,
          sq_channel_id = text_value (item request ''channel_id''), sq_epoch = int_value (item request ''epoch''),
          sq_idempotency_key = text_value (item request ''idempotency_key''),
          sq_obligation_id = text_value (item request ''obligation_id''),
          sq_execution_request_id = text_value (item request ''execution_request_id''),
          sq_requested = requested, sq_activated = activated, sq_settled = settled, sq_vault = vault,
          sq_recipient_wallet = text_value (item request ''recipient_wallet''),
          sq_expires_at = text_value (item request ''expires_at'')\<rparr>)))))))))))))))"

section \<open>What an accepted request satisfies\<close>

lemma st_closed_Inr:
  "st_closed v f required = Inr d \<Longrightarrow>
     v = PDict d \<and> (\<forall>k\<in>set required. has_key d k) \<and> fst ` set d \<subseteq> KStr ` set required"
  by (cases v) (auto simp: st_closed_def Let_def missing_keys_Nil unknown_keys_Nil split: if_splits)

lemma st_utc_Inr [res_simps]: "st_utc t = Inr i \<longleftrightarrow> utcoffset t \<noteq> None \<and> i = to_seconds (instant t)"
  by (auto simp: st_utc_def split: option.splits)

lemma st_amount_Inr:
  "st_amount v f positive = Inr a \<Longrightarrow> 0 \<le> a \<and> a \<le> u64_max \<and> (positive \<longrightarrow> 0 < a) \<and> v = PStr (str_int a)"
  by (auto simp: st_amount_def res_simps amount_text_dec_undec)

lemma check_request_amounts_Inr:
  "check_request_amounts q A S V p = Inr () \<longleftrightarrow>
     A = activated_authorized_total_base_units p \<and> S = settled_total_base_units p \<and>
     V = vault_balance_base_units p \<and> q \<le> A - S \<and> q \<le> V"
  unfolding check_request_amounts_def run_all_Cons_Inr reject_if_eq_Inr by auto

lemma check_request_window_Inr:
  assumes "check_request_window r snapshot now = Inr ()"
  obtains created expires channel_expires where
    "st_time (item r ''created_at'') ''request.created_at'' = Inr created"
    "st_time (item r ''expires_at'') ''request.expires_at'' = Inr expires"
    "st_time (item snapshot ''expires_at'') ''channel_snapshot.expires_at'' = Inr channel_expires"
    "utcoffset now \<noteq> None" "created \<le> to_seconds (instant now)" "to_seconds (instant now) < expires"
    "expires \<le> channel_expires"
proof -
  from assms show thesis
    unfolding check_request_window_def bind_unit_eq_Inr bind_res_eq_Inr reject_if_eq_Inr run_all_Cons_Inr
      st_utc_Inr not_less not_le
    by (elim exE conjE, hypsubst) (rule that)
qed

lemma validate_settlement_requestE:
  assumes "validate_settlement_request jcs request_value channel_snapshot now = Inr q"
  obtains request p where
    "validate_channel channel_snapshot = Inr p" "st_closed request_value ''request'' request_fields = Inr request"
    "request_value = PDict request" "check_request_fields request = Inr ()"
    "st_amount (item request ''requested_base_units'') ''request.requested_base_units'' True = Inr (sq_requested q)"
    "check_request_window request (dict_of channel_snapshot) now = Inr ()"
    "\<forall>f\<in>set matched_fields. py_eq (item request f) (item (dict_of channel_snapshot) f)"
    "sha256_canonical_json jcs channel_snapshot = Inr (text_value (item request ''channel_snapshot_hash''))"
    "check_request_amounts (sq_requested q) (sq_activated q) (sq_settled q) (sq_vault q) p = Inr ()"
    "py_in (item (dict_of channel_snapshot) ''status'') [''active'', ''settling''] = Inr True"
    "sha256_canonical_json jcs request_value = Inr (sq_request_hash q)"
    "sq_settlement_id q = text_value (item request ''settlement_id'')"
    "sq_channel_id q = text_value (item request ''channel_id'')"
    "sq_epoch q = int_value (item request ''epoch'')"
    "sq_idempotency_key q = text_value (item request ''idempotency_key'')"
    "sq_obligation_id q = text_value (item request ''obligation_id'')"
    "sq_execution_request_id q = text_value (item request ''execution_request_id'')"
proof -
  from assms show thesis
    unfolding validate_settlement_request_def Let_def bind_unit_eq_Inr bind_res_eq_Inr reject_if_eq_Inr
      run_all_map_reject channel_snapshot_hash_def sum.inject not_not
    by (elim exE conjE, hypsubst)
       (rule that, (assumption | simp add: text_value_def | use st_closed_Inr in fastforce)+)
qed

end
