(* ===== verification/Settlement_Store.thy ===== *)
theory Settlement_Store
  imports Settlement_Request Tables
begin

text \<open>
  \<^verbatim>\<open>foundry_channel_protocol/settlement.py\<close>, class \<^verbatim>\<open>SettlementRuntime\<close>: the four tables, the hash-chained event
  journal, reading, and \<^verbatim>\<open>register_request\<close> with its reservation. A transaction is a function that may
  raise; \<open>transaction\<close> commits its result or keeps the tables it started from. A dataclass the code
  returns is represented by the dictionary its \<^verbatim>\<open>to_dict\<close> gives.
\<close>

record settlement_row =
  st_settlement_id :: string
  st_channel_id :: string
  st_epoch :: int
  st_idempotency_key :: string
  st_obligation_id :: string
  st_execution_request_id :: string
  st_request_hash :: string
  st_request_json :: pyval
  st_snapshot_json :: pyval
  st_snapshot_hash :: pyval
  st_requested :: int
  st_activated :: int
  st_settled :: int
  st_vault :: int
  st_state :: settlement_state
  st_commitment :: "pydict option"
  st_commitment_hash :: "string option"
  st_authorization :: "pydict option"
  st_authorization_hash :: "string option"
  st_technical :: "pyval option"
  st_signature :: "string option"
  st_receipt :: "pydict option"
  st_receipt_hash :: "string option"
  st_created_at :: string
  st_updated_at :: string

record settlement_event =
  se_settlement_id :: string
  se_sequence :: int
  se_state :: settlement_state
  se_event_type :: string
  se_event_json :: pyval
  se_previous_hash :: string
  se_event_hash :: string
  se_recorded_at :: string

record recovery_row =
  sr_settlement_id :: string
  sr_attempt :: int
  sr_record :: pydict
  sr_recovery_hash :: string
  sr_observed_at :: string

record runtime =
  settlements :: "settlement_row list"
  submit_intents :: "(string \<times> string) list"
  settlement_events :: "settlement_event list"
  settlement_recoveries :: "recovery_row list"

record settlement_record =
  sc_settlement_id :: string
  sc_request_hash :: string
  sc_state :: settlement_state
  sc_submit_intent_count :: nat
  sc_transaction_signature :: "string option"
  sc_receipt :: "pydict option"

definition runtime_init :: runtime where
  "runtime_init =
     \<lparr>settlements = [], submit_intents = [], settlement_events = [], settlement_recoveries = []\<rparr>"

abbreviation select_settlement :: "runtime \<Rightarrow> string \<Rightarrow> settlement_row option" where
  "select_settlement db sid \<equiv> select_row st_settlement_id (settlements db) sid"

definition update_settlement ::
  "string \<Rightarrow> (settlement_row \<Rightarrow> settlement_row) \<Rightarrow> runtime \<Rightarrow> runtime" where
  "update_settlement sid f db = db\<lparr>settlements := update_row st_settlement_id sid f (settlements db)\<rparr>"

section \<open>Reading\<close>

definition require_row :: "runtime \<Rightarrow> string \<Rightarrow> settlement_row res" where
  "require_row db sid =
     bind_res (st_identifier (PStr sid) ''settlement_id'') (\<lambda>_.
     case select_settlement db sid of
       None \<Rightarrow> Inl (st_reject ''settlement_not_found'' ''settlement_id'')
     | Some row \<Rightarrow> Inr row)"

definition ensure_time_not_regressed :: "settlement_row \<Rightarrow> string \<Rightarrow> unit res" where
  "ensure_time_not_regressed row ts =
     bind_res (st_time (PStr ts) ''timestamp'') (\<lambda>t.
     bind_res (st_time (PStr (st_updated_at row)) ''settlement.updated_at'') (\<lambda>u.
     reject_if (t < u) (st_reject ''journal_time_regressed'' ''now'')))"

definition submit_intent_count :: "runtime \<Rightarrow> string \<Rightarrow> nat" where
  "submit_intent_count db sid = (if sid \<in> fst ` set (submit_intents db) then 1 else 0)"

definition receipt_from_row :: "serializer \<Rightarrow> settlement_row \<Rightarrow> pydict option res" where
  "receipt_from_row jcs row =
     (case st_receipt row of
        None \<Rightarrow> Inr None
      | Some receipt \<Rightarrow>
          bind_res (sha256_canonical_json jcs
            (PDict (filter (\<lambda>kv. fst kv \<noteq> KStr ''receipt_hash'') receipt))) (\<lambda>h.
          bind_res (reject_if (PStr h \<noteq> item receipt ''receipt_hash'')
            (st_reject ''receipt_tampering'' ''reconciled_receipt'')) (\<lambda>_.
          Inr (Some receipt))))"

definition record_from_row :: "serializer \<Rightarrow> runtime \<Rightarrow> settlement_row \<Rightarrow> settlement_record res" where
  "record_from_row jcs db row =
     bind_res (receipt_from_row jcs row) (\<lambda>receipt.
     Inr \<lparr>sc_settlement_id = st_settlement_id row, sc_request_hash = st_request_hash row,
          sc_state = st_state row, sc_submit_intent_count = submit_intent_count db (st_settlement_id row),
          sc_transaction_signature = st_signature row, sc_receipt = receipt\<rparr>)"

definition settlement_get :: "serializer \<Rightarrow> runtime \<Rightarrow> string \<Rightarrow> settlement_record res" where
  "settlement_get jcs db sid = bind_res (require_row db sid) (record_from_row jcs db)"

definition events_for :: "runtime \<Rightarrow> string \<Rightarrow> settlement_event list" where
  "events_for db sid = filter (\<lambda>e. se_settlement_id e = sid) (settlement_events db)"

definition settlement_journal :: "runtime \<Rightarrow> string \<Rightarrow> settlement_event list res" where
  "settlement_journal db sid =
     bind_res (require_row db sid) (\<lambda>_. Inr (sort_key se_sequence (events_for db sid)))"

definition recovery_records :: "runtime \<Rightarrow> string \<Rightarrow> pydict list res" where
  "recovery_records db sid =
     bind_res (require_row db sid) (\<lambda>_.
     Inr (map sr_record (sort_key sr_attempt
       (filter (\<lambda>r. sr_settlement_id r = sid) (settlement_recoveries db)))))"

section \<open>The event journal\<close>

text \<open>\<open>ORDER BY sequence DESC LIMIT 1\<close>.\<close>

fun latest_event :: "settlement_event list \<Rightarrow> settlement_event option" where
  "latest_event [] = None"
| "latest_event (e # es) =
     (case latest_event es of
        None \<Rightarrow> Some e
      | Some e' \<Rightarrow> Some (if se_sequence e < se_sequence e' then e' else e))"

definition journal_entry ::
  "string \<Rightarrow> int \<Rightarrow> settlement_state \<Rightarrow> string \<Rightarrow> pydict \<Rightarrow> string \<Rightarrow> string \<Rightarrow> string \<Rightarrow> pyval" where
  "journal_entry sid sequence st event_type payload payload_hash previous ts = PDict
     [(KStr ''type'', PStr ''settlement_journal_entry''), (KStr ''protocol_version'', PStr ''1.0.0''),
      (KStr ''settlement_id'', PStr sid), (KStr ''sequence'', PInt sequence),
      (KStr ''state'', PStr (state_text st)), (KStr ''event_type'', PStr event_type),
      (KStr ''payload'', PDict payload), (KStr ''payload_hash'', PStr payload_hash),
      (KStr ''previous_event_hash'', PStr previous), (KStr ''recorded_at'', PStr ts)]"

definition append_event ::
  "serializer \<Rightarrow> runtime \<Rightarrow> string \<Rightarrow> settlement_state \<Rightarrow> string \<Rightarrow> pydict \<Rightarrow> string \<Rightarrow> runtime res" where
  "append_event jcs db sid st event_type payload ts =
     (let previous = latest_event (events_for db sid);
          sequence = (case previous of None \<Rightarrow> 1 | Some e \<Rightarrow> se_sequence e + 1);
          previous_hash = (case previous of None \<Rightarrow> zero_hash | Some e \<Rightarrow> se_event_hash e)
      in
      bind_res (sha256_canonical_json jcs (PDict payload)) (\<lambda>payload_hash.
      let event = journal_entry sid sequence st event_type payload payload_hash previous_hash ts in
      bind_res (sha256_canonical_json jcs event) (\<lambda>event_hash.
      bind_res (json_dumps True event) (\<lambda>event_json.
      bind_res (reject_if (list_ex (\<lambda>e. se_event_hash e = event_hash) (settlement_events db))
        (PyRaise ''IntegrityError'')) (\<lambda>_.
      Inr (db\<lparr>settlement_events := settlement_events db @
        [\<lparr>se_settlement_id = sid, se_sequence = sequence, se_state = st, se_event_type = event_type,
          se_event_json = event_json, se_previous_hash = previous_hash, se_event_hash = event_hash,
          se_recorded_at = ts\<rparr>]\<rparr>))))))"

definition set_row_state :: "settlement_state \<Rightarrow> string \<Rightarrow> settlement_row \<Rightarrow> settlement_row" where
  "set_row_state st ts row = row\<lparr>st_state := st, st_updated_at := ts\<rparr>"

definition set_settlement_state ::
  "serializer \<Rightarrow> runtime \<Rightarrow> string \<Rightarrow> settlement_state \<Rightarrow> string \<Rightarrow> pydict \<Rightarrow> string \<Rightarrow> runtime res" where
  "set_settlement_state jcs db sid st event_type payload ts =
     append_event jcs (update_settlement sid (set_row_state st ts) db) sid st event_type payload ts"

section \<open>register_request\<close>

definition same_channel :: "settlement_row \<Rightarrow> string \<Rightarrow> int \<Rightarrow> bool" where
  "same_channel row channel_id epoch \<longleftrightarrow> st_channel_id row = channel_id \<and> st_epoch row = epoch"

definition receipt_settled_after :: "settlement_row \<Rightarrow> int option" where
  "receipt_settled_after row =
     map_option (\<lambda>r. int (undec_nat (text_value (item r ''settled_total_after'')))) (st_receipt row)"

definition latest_completed :: "runtime \<Rightarrow> string \<Rightarrow> int \<Rightarrow> int option" where
  "latest_completed db channel_id epoch =
     max_option (map receipt_settled_after
       (filter (\<lambda>r. same_channel r channel_id epoch \<and> st_state r = SCompleted) (settlements db)))"

definition reserved :: "runtime \<Rightarrow> string \<Rightarrow> int \<Rightarrow> int" where
  "reserved db channel_id epoch =
     sum_list (map st_requested
       (filter (\<lambda>r. same_channel r channel_id epoch \<and> \<not> terminal_reservation (st_state r)) (settlements db)))"

definition new_settlement ::
  "settlement_request \<Rightarrow> pyval \<Rightarrow> pyval \<Rightarrow> pyval \<Rightarrow> string \<Rightarrow> settlement_row" where
  "new_settlement q request_json snapshot_json snapshot_hash ts =
     \<lparr>st_settlement_id = sq_settlement_id q, st_channel_id = sq_channel_id q, st_epoch = sq_epoch q,
      st_idempotency_key = sq_idempotency_key q, st_obligation_id = sq_obligation_id q,
      st_execution_request_id = sq_execution_request_id q, st_request_hash = sq_request_hash q,
      st_request_json = request_json, st_snapshot_json = snapshot_json, st_snapshot_hash = snapshot_hash,
      st_requested = sq_requested q, st_activated = sq_activated q, st_settled = sq_settled q,
      st_vault = sq_vault q, st_state = SRequested, st_commitment = None, st_commitment_hash = None,
      st_authorization = None, st_authorization_hash = None, st_technical = None, st_signature = None,
      st_receipt = None, st_receipt_hash = None, st_created_at = ts, st_updated_at = ts\<rparr>"

text \<open>The guards of the reservation, in the order of the transaction.\<close>

definition check_reservation :: "runtime \<Rightarrow> settlement_request \<Rightarrow> unit res" where
  "check_reservation db q =
     (let obligation = find (\<lambda>r. same_channel r (sq_channel_id q) (sq_epoch q) \<and>
                                 st_obligation_id r = sq_obligation_id q) (settlements db);
          pending = reserved db (sq_channel_id q) (sq_epoch q) + sq_requested q
      in
      run_all
       [case obligation of
          None \<Rightarrow> Inr ()
        | Some r \<Rightarrow>
            Inl (st_reject (if st_state r = SNeedsRecovery then ''obligation_needs_recovery''
                            else ''obligation_conflict'') ''request.obligation_id''),
        (case latest_completed db (sq_channel_id q) (sq_epoch q) of
           None \<Rightarrow> Inr ()
         | Some after \<Rightarrow>
             reject_if (sq_settled q < after) (st_reject ''stale_snapshot'' ''request.settled_total_before'')),
        reject_if (sq_settled q + pending > sq_activated q)
          (st_reject ''concurrent_over_settlement'' ''request.requested_base_units''),
        reject_if (pending > sq_vault q)
          (st_reject ''concurrent_vault_exhaustion'' ''request.requested_base_units''),
        reject_if (\<not> list_all sqlite_integer [sq_requested q, sq_activated q, sq_settled q, sq_vault q])
          (PyRaise ''OverflowError''),
        reject_if (list_ex (\<lambda>r. st_execution_request_id r = sq_execution_request_id q) (settlements db))
          (PyRaise ''IntegrityError'')])"

definition insert_settlement ::
  "serializer \<Rightarrow> runtime \<Rightarrow> settlement_request \<Rightarrow> settlement_row \<Rightarrow> string \<Rightarrow> runtime res" where
  "insert_settlement jcs db q row ts =
     bind_res (append_event jcs (db\<lparr>settlements := insert_row row (settlements db)\<rparr>) (sq_settlement_id q)
       SRequested ''settlement_requested'' [(KStr ''request_hash'', PStr (sq_request_hash q))] ts) (\<lambda>db1.
     append_event jcs (update_settlement (sq_settlement_id q) (\<lambda>r. r\<lparr>st_state := SValidated\<rparr>) db1)
       (sq_settlement_id q) SValidated ''request_validated''
       [(KStr ''requested_base_units'', PStr (str_int (sq_requested q))),
        (KStr ''activated_total_before'', PStr (str_int (sq_activated q))),
        (KStr ''settled_total_before'', PStr (str_int (sq_settled q))),
        (KStr ''vault_balance_before'', PStr (str_int (sq_vault q)))] ts)"

definition register_new ::
  "serializer \<Rightarrow> runtime \<Rightarrow> settlement_request \<Rightarrow> settlement_row \<Rightarrow> string \<Rightarrow> (runtime \<times> settlement_row option) res" where
  "register_new jcs db q row ts =
     (case find (\<lambda>r. st_settlement_id r = sq_settlement_id q \<or>
             same_channel r (sq_channel_id q) (sq_epoch q) \<and> st_idempotency_key r = sq_idempotency_key q)
           (settlements db) of
        Some existing \<Rightarrow>
          bind_res (reject_if (st_request_hash existing \<noteq> sq_request_hash q)
            (st_reject ''idempotency_conflict'' ''request.idempotency_key'')) (\<lambda>_.
          Inr (db, Some existing))
      | None \<Rightarrow>
          bind_res (check_reservation db q) (\<lambda>_.
          bind_res (insert_settlement jcs db q row ts) (\<lambda>db'.
          Inr (db', None))))"

definition prepare_registration ::
  "serializer \<Rightarrow> pyval \<Rightarrow> pyval \<Rightarrow> py_datetime \<Rightarrow> (settlement_request \<times> settlement_row \<times> string) res" where
  "prepare_registration jcs request_value snapshot now =
     bind_res (validate_settlement_request jcs request_value snapshot now) (\<lambda>q.
     bind_res (format_time now) (\<lambda>ts.
     bind_res (json_dumps True request_value) (\<lambda>request_json.
     bind_res (json_dumps True snapshot) (\<lambda>snapshot_json.
     Inr (q, new_settlement q request_json snapshot_json
               (item (dict_of request_value) ''channel_snapshot_hash'') ts, ts)))))"

definition register_request ::
  "serializer \<Rightarrow> runtime \<Rightarrow> pyval \<Rightarrow> pyval \<Rightarrow> py_datetime \<Rightarrow> runtime \<times> settlement_record res" where
  "register_request jcs db request_value snapshot now =
     (case bind_res (st_closed request_value ''request'' request_fields) (\<lambda>supplied.
           bind_res (st_identifier (item supplied ''settlement_id'') ''request.settlement_id'') (\<lambda>sid.
           bind_res (sha256_canonical_json jcs (PDict supplied)) (\<lambda>h. Inr (sid, h)))) of
        Inl e \<Rightarrow> (db, Inl e)
      | Inr (sid, h) \<Rightarrow>
          (case select_settlement db sid of
             Some existing \<Rightarrow>
               (db, bind_res (reject_if (st_request_hash existing \<noteq> h)
                      (st_reject ''idempotency_conflict'' ''request.settlement_id'')) (\<lambda>_.
                    record_from_row jcs db existing))
           | None \<Rightarrow>
               (case prepare_registration jcs request_value snapshot now of
                  Inl e \<Rightarrow> (db, Inl e)
                | Inr (q, row, ts) \<Rightarrow>
                    (case transaction db (on_integrity_error (st_reject ''idempotency_conflict'' ''request'')
                        (register_new jcs db q row ts)) of
                       (db', Inl e) \<Rightarrow> (db', Inl e)
                     | (db', Inr (Some existing)) \<Rightarrow> (db', record_from_row jcs db' existing)
                     | (db', Inr None) \<Rightarrow> (db', settlement_get jcs db' (sq_settlement_id q))))))"

end
