(* ===== verification/Base64.thy ===== *)
theory Base64
  imports Prelude
begin

text \<open>
  The Base64 of the standard library as \<^verbatim>\<open>settlement.py\<close> uses it: \<open>b64encode\<close> on bytes, and a decoder
  of padded groups of four. The module decodes and re-encodes, so only canonical texts pass, and
  for those the decoder is exact (\<open>b64_roundtrip\<close>). \<open>b64decode_strict\<close> is \<^verbatim>\<open>b64decode(..., validate=True)\<close>
  itself, as \<^verbatim>\<open>binascii\<close> of CPython 3.11 does it, for the authorization service, which does not
  re-encode.
\<close>

definition b64_alphabet :: string where
  "b64_alphabet = ''ABCDEFGHIJKLMNOPQRSTUVWXYZabcdefghijklmnopqrstuvwxyz0123456789+/''"

fun b64_index :: "char \<Rightarrow> string \<Rightarrow> nat option" where
  "b64_index c [] = None"
| "b64_index c (d # ds) = (if c = d then Some 0 else map_option Suc (b64_index c ds))"

definition b64_char :: "nat \<Rightarrow> char" where
  "b64_char n = b64_alphabet ! n"

definition b64_value :: "char \<Rightarrow> nat option" where
  "b64_value c = b64_index c b64_alphabet"

fun b64_groups :: "nat list \<Rightarrow> string" where
  "b64_groups [] = []"
| "b64_groups [a] = [b64_char (a div 4), b64_char (a mod 4 * 16), CHR ''='', CHR ''='']"
| "b64_groups [a, b] =
     [b64_char (a div 4), b64_char (a mod 4 * 16 + b div 16), b64_char (b mod 16 * 4), CHR ''='']"
| "b64_groups (a # b # c # r) =
     [b64_char (a div 4), b64_char (a mod 4 * 16 + b div 16), b64_char (b mod 16 * 4 + c div 64),
      b64_char (c mod 64)] @ b64_groups r"

fun b64_ungroup :: "string \<Rightarrow> nat list option" where
  "b64_ungroup [] = Some []"
| "b64_ungroup (w # x # y # z # r) =
     (case (b64_value w, b64_value x) of
        (Some i, Some j) \<Rightarrow>
          (if y = CHR ''='' \<and> z = CHR ''='' \<and> r = [] then Some [i * 4 + j div 16]
           else case b64_value y of
             None \<Rightarrow> None
           | Some k \<Rightarrow>
               (if z = CHR ''='' \<and> r = [] then Some [i * 4 + j div 16, j mod 16 * 16 + k div 4]
                else case (b64_value z, b64_ungroup r) of
                  (Some l, Some bs) \<Rightarrow> Some ([i * 4 + j div 16, j mod 16 * 16 + k div 4, k mod 4 * 64 + l] @ bs)
                | _ \<Rightarrow> None))
      | _ \<Rightarrow> None)"
| "b64_ungroup _ = None"

definition b64encode :: "string \<Rightarrow> string" where
  "b64encode m = b64_groups (map of_char m)"

definition b64decode :: "string \<Rightarrow> string option" where
  "b64decode s = map_option (map char_of) (b64_ungroup s)"

lemma b64_index_nth: "distinct xs \<Longrightarrow> i < length xs \<Longrightarrow> b64_index (xs ! i) xs = Some i"
proof (induction xs arbitrary: i)
  case (Cons d ds)
  then show ?case by (cases i) (auto simp: nth_mem)
qed simp

lemma b64_value_char: "n < 64 \<Longrightarrow> b64_value (b64_char n) = Some n"
proof -
  have "distinct b64_alphabet" "length b64_alphabet = 64" by code_simp+
  then show "n < 64 \<Longrightarrow> b64_value (b64_char n) = Some n"
    by (simp add: b64_value_def b64_char_def b64_index_nth)
qed

lemma b64_char_not_pad: "n < 64 \<Longrightarrow> b64_char n \<noteq> CHR ''=''"
proof
  have "b64_value CHR ''='' = None" by code_simp
  moreover assume "n < 64" "b64_char n = CHR ''=''"
  ultimately show False using b64_value_char [of n] by simp
qed

lemma b64_ungroup_groups: "list_all (\<lambda>b. b < 256) bs \<Longrightarrow> b64_ungroup (b64_groups bs) = Some bs"
proof (induction bs rule: b64_groups.induct)
  case (2 a)
  then have "a div 4 < 64" "a mod 4 * 16 < 64" by auto
  with 2 show ?case by (simp add: b64_value_char)
next
  case (3 a b)
  then have lt: "a div 4 < 64" "a mod 4 * 16 + b div 16 < 64" "b mod 16 * 4 < 64" "b div 16 < 16" by auto
  with 3 show ?case by (simp add: b64_value_char b64_char_not_pad) 
next
  case (4 a b c r)
  then have lt: "a div 4 < 64" "a mod 4 * 16 + b div 16 < 64" "b mod 16 * 4 + c div 64 < 64" "c mod 64 < 64" 
    "b div 16 < 16" "c div 64 < 4" by auto
  with 4 show ?case by (simp add: b64_value_char b64_char_not_pad)
qed simp

lemma b64_roundtrip: "b64decode (b64encode m) = Some m"
proof -
  have "list_all (\<lambda>b. b < 256) (map of_char m :: nat list)" by (simp add: list_all_iff)
  then show ?thesis by (simp add: b64decode_def b64encode_def b64_ungroup_groups comp_def)
qed

section \<open>The strict decoder\<close>

text \<open>
  The sextets of the group being read, the pad characters seen in it and whether padding has begun.
  A pad that completes a group must be the last character; pads that complete no group are
  skipped, so pads after a complete last group are accepted; bits beyond the last byte are dropped.
\<close>

fun b64_flush :: "nat list \<Rightarrow> nat list" where
  "b64_flush [i, j] = [i * 4 + j div 16]"
| "b64_flush [i, j, k] = [i * 4 + j div 16, j mod 16 * 16 + k div 4]"
| "b64_flush [i, j, k, l] = [i * 4 + j div 16, j mod 16 * 16 + k div 4, k mod 4 * 64 + l]"
| "b64_flush _ = []"

fun a2b_strict :: "nat list \<Rightarrow> nat \<Rightarrow> bool \<Rightarrow> string \<Rightarrow> nat list option" where
  "a2b_strict quad pads started [] = (if quad = [] then Some [] else None)"
| "a2b_strict quad pads started (c # r) =
     (if c = CHR ''='' then
        (if 2 \<le> length quad \<and> 4 \<le> length quad + Suc pads
         then (if r = [] then Some (b64_flush quad) else None)
         else a2b_strict quad (if 2 \<le> length quad then Suc pads else pads) True r)
      else case b64_value c of
        None \<Rightarrow> None
      | Some v \<Rightarrow>
          (if started then None
           else if length quad = 3 then map_option (\<lambda>bs. b64_flush (quad @ [v]) @ bs) (a2b_strict [] 0 False r)
           else a2b_strict (quad @ [v]) 0 False r))"

definition b64decode_strict :: "string \<Rightarrow> string option" where
  "b64decode_strict s =
     (if s \<noteq> [] \<and> hd s = CHR ''='' then None else map_option (map char_of) (a2b_strict [] 0 False s))"

lemma a2b_strict_groups: "list_all (\<lambda>b. b < 256) bs \<Longrightarrow> a2b_strict [] 0 False (b64_groups bs) = Some bs"
proof (induction bs rule: b64_groups.induct)
  case (2 a)
  then have "a div 4 < 64" "a mod 4 * 16 < 64" by auto
  with 2 show ?case by (simp add: b64_value_char b64_char_not_pad)
next
  case (3 a b)
  then have "a div 4 < 64" "a mod 4 * 16 + b div 16 < 64" "b mod 16 * 4 < 64" "b div 16 < 16" by auto
  with 3 show ?case by (simp add: b64_value_char b64_char_not_pad)
next
  case (4 a b c r)
  then have "a div 4 < 64" "a mod 4 * 16 + b div 16 < 64" "b mod 16 * 4 + c div 64 < 64" "c mod 64 < 64"
    "b div 16 < 16" "c div 64 < 4" by auto
  with 4 show ?case by (simp add: b64_value_char b64_char_not_pad)
qed simp

lemma b64_groups_hd: "list_all (\<lambda>b. b < 256) bs \<Longrightarrow> b64_groups bs \<noteq> [] \<Longrightarrow> hd (b64_groups bs) \<noteq> CHR ''=''"
  by (cases bs rule: b64_groups.cases) (auto simp: b64_char_not_pad)

lemma b64_strict_roundtrip: "b64decode_strict (b64encode m) = Some m"
proof -
  have "list_all (\<lambda>b. b < 256) (map of_char m :: nat list)" by (simp add: list_all_iff)
  then show ?thesis
    using b64_groups_hd [of "map of_char m"]
    by (auto simp: b64decode_strict_def b64encode_def a2b_strict_groups comp_def)
qed

end
