(* ===== verification/Settlement_Runtime.thy ===== *)
theory Settlement_Runtime
  imports Settlement_Store Voucher Base64
begin

text \<open>
  \<^verbatim>\<open>foundry_channel_protocol/settlement.py\<close>, class \<^verbatim>\<open>SettlementRuntime\<close>: committing an execution, recording its
  authorization, submitting once, recovery, provider divergence and reconciliation. The executor,
  the authorization verifier and the observation verifiers are arguments; what one call of the
  executor does is an \<open>exec_outcome\<close> or a \<open>recovery_outcome\<close>. \<^verbatim>\<open>submit\<close> is the transaction that persists
  the intent, the call of the executor, and the transaction that persists what it returned; these
  are separate steps, because a crash or another caller can come between them.
\<close>

datatype exec_outcome = ExecReceipt pyval | ExecDefinitiveRejection string | ExecRaise

datatype recovery_outcome = RecoveryResult pyval | RecoveryRaise

text \<open>Arguments: the authorization, the clock and the fault to inject; the execution request id and the clock.\<close>

record executor =
  executor_id :: string
  authorize_and_execute :: "pydict \<Rightarrow> py_datetime \<Rightarrow> string option \<Rightarrow> exec_outcome"
  executor_recover :: "string \<Rightarrow> py_datetime \<Rightarrow> recovery_outcome"

record observation_verifier =
  ov_source_id :: string
  ov_verify :: "pydict \<Rightarrow> bool"

section \<open>Execution commitment\<close>

definition settlement_plan :: "settlement_row \<Rightarrow> pyval \<Rightarrow> pyval" where
  "settlement_plan row obligation_id =
     (let request = dict_of (st_request_json row); snapshot = dict_of (st_snapshot_json row)
      in PDict
       [(KStr ''protocol_version'', PStr ''1.0.0''),
        (KStr ''normalization_profile'', PStr ''foundry-pay-domain-v1''),
        (KStr ''obligation_id'', obligation_id), (KStr ''network'', item request ''network''),
        (KStr ''capability'', PStr ''solana.spl_transfer.v1''),
        (KStr ''asset'', PDict [(KStr ''kind'', PStr ''spl-token''), (KStr ''mint'', item request ''mint''),
           (KStr ''decimals'', item snapshot ''decimals'')]),
        (KStr ''amount_base_units'', item request ''requested_base_units''),
        (KStr ''source'', item snapshot ''vault_token_account''),
        (KStr ''destination'', item request ''recipient_wallet''),
        (KStr ''expires_at'', item request ''expires_at'')])"

definition external_execution_request ::
  "serializer \<Rightarrow> runtime \<Rightarrow> string \<Rightarrow> pydict \<Rightarrow> pydict res" where
  "external_execution_request jcs db sid economic_approval =
     bind_res (require_row db sid) (\<lambda>row.
     let request = dict_of (st_request_json row);
         plan = settlement_plan row (item request ''obligation_id'')
     in
     bind_res (economic_plan_hash jcs plan) (\<lambda>plan_hash.
     bind_res (reject_if (item economic_approval ''economic_plan_hash'' \<noteq> PStr plan_hash)
       (st_reject ''economic_approval_mismatch'' ''economic_approval.economic_plan_hash'')) (\<lambda>_.
     Inr [(KStr ''type'', PStr ''external_execution_request''), (KStr ''protocol_version'', PStr ''1.0.0''),
          (KStr ''execution_request_id'', item request ''execution_request_id''),
          (KStr ''idempotency_key'', item request ''idempotency_key''), (KStr ''economic_plan'', plan),
          (KStr ''economic_plan_hash'', PStr plan_hash),
          (KStr ''economic_approval'', PDict economic_approval)])))"

definition prepared_fields :: "string list" where
  "prepared_fields =
     [''type'', ''protocol_version'', ''execution_request_id'', ''executor_id'', ''executor_version'',
      ''economic_plan_hash'', ''prepared_message_base64'', ''prepared_message_hash'', ''simulation'',
      ''simulation_attestation_hash'', ''execution_commitment_hash'', ''signer'', ''constraints'',
      ''expires_at'']"

definition check_prepared_fields :: "settlement_row \<Rightarrow> pydict \<Rightarrow> string \<Rightarrow> py_datetime \<Rightarrow> unit res" where
  "check_prepared_fields row v expected_signer now =
     bind_res (run_all
       [st_literal (item v ''type'') (PStr ''prepared_execution'') ''prepared_execution.type'',
        st_literal (item v ''protocol_version'') (PStr ''1.0.0'') ''prepared_execution.protocol_version'',
        reject_if (item v ''execution_request_id'' \<noteq> PStr (st_execution_request_id row))
          (st_reject ''execution_request_mismatch'' ''prepared_execution.execution_request_id'')]) (\<lambda>_.
     bind_res (run_all (map (\<lambda>f. ignore (st_hash (item v f) (''prepared_execution.'' @ f)))
       [''economic_plan_hash'', ''prepared_message_hash'', ''simulation_attestation_hash'',
        ''execution_commitment_hash''])) (\<lambda>_.
     bind_res (run_all
       [ignore (st_identifier (item v ''executor_id'') ''prepared_execution.executor_id''),
        reject_if (\<not> nonempty_text (item v ''executor_version''))
          (st_reject ''invalid_executor_version'' ''prepared_execution.executor_version''),
        ignore (st_pubkey (item v ''signer'') ''prepared_execution.signer''),
        reject_if (item v ''signer'' \<noteq> PStr expected_signer)
          (st_reject ''signer_mismatch'' ''prepared_execution.signer'')]) (\<lambda>_.
     bind_res (st_time (item v ''expires_at'') ''prepared_execution.expires_at'') (\<lambda>expires.
     bind_res (st_utc now) (\<lambda>current.
     reject_if (expires \<le> current)
       (st_reject ''prepared_execution_expired'' ''prepared_execution.expires_at''))))))"

definition check_prepared_message :: "pydict \<Rightarrow> unit res" where
  "check_prepared_message v =
     (let invalid = Inl (st_reject ''invalid_prepared_message'' ''prepared_execution.prepared_message_base64'');
          encoded = item v ''prepared_message_base64''
      in if \<not> nonempty_text encoded then invalid
         else case b64decode (text_value encoded) of
                None \<Rightarrow> invalid
              | Some message \<Rightarrow>
                  (if b64encode message \<noteq> text_value encoded then invalid
                   else bind_res (prepared_message_hash message) (\<lambda>h.
                     reject_if (PStr h \<noteq> item v ''prepared_message_hash'')
                       (st_reject ''prepared_message_tampering'' ''prepared_execution.prepared_message_hash''))))"

fun is_mapping :: "pyval \<Rightarrow> bool" where
  "is_mapping (PDict d) = True"
| "is_mapping _ = False"

definition external_commitment :: "settlement_row \<Rightarrow> pydict \<Rightarrow> pyval" where
  "external_commitment row v = PDict
     [(KStr ''protocol_version'', item v ''protocol_version''),
      (KStr ''normalization_profile'', PStr ''foundry-pay-domain-v1''),
      (KStr ''execution_request_id'', item v ''execution_request_id''),
      (KStr ''obligation_id'', PStr (st_obligation_id row)), (KStr ''executor_id'', item v ''executor_id''),
      (KStr ''executor_version'', item v ''executor_version''),
      (KStr ''economic_plan_hash'', item v ''economic_plan_hash''),
      (KStr ''prepared_message_hash'', item v ''prepared_message_hash''),
      (KStr ''simulation_attestation_hash'', item v ''simulation_attestation_hash''),
      (KStr ''signer'', item v ''signer''), (KStr ''constraints'', item v ''constraints''),
      (KStr ''expires_at'', item v ''expires_at'')]"

definition execution_commitment ::
  "serializer \<Rightarrow> settlement_row \<Rightarrow> pyval \<Rightarrow> string \<Rightarrow> py_datetime \<Rightarrow> pydict res" where
  "execution_commitment jcs row prepared expected_signer now =
     bind_res (st_closed prepared ''prepared_execution'' prepared_fields) (\<lambda>v.
     bind_res (check_prepared_fields row v expected_signer now) (\<lambda>_.
     bind_res (economic_plan_hash jcs (settlement_plan row (PStr (st_obligation_id row)))) (\<lambda>plan_hash.
     bind_res (reject_if (item v ''economic_plan_hash'' \<noteq> PStr plan_hash)
       (st_reject ''economic_plan_mismatch'' ''prepared_execution.economic_plan_hash'')) (\<lambda>_.
     bind_res (check_prepared_message v) (\<lambda>_.
     bind_res (reject_if (\<not> is_mapping (item v ''simulation''))
       (st_reject ''invalid_simulation'' ''prepared_execution.simulation'')) (\<lambda>_.
     bind_res (simulation_attestation_hash jcs (item v ''simulation'')) (\<lambda>simulation_hash.
     bind_res (run_all
       [reject_if (PStr simulation_hash \<noteq> item v ''simulation_attestation_hash'')
          (st_reject ''simulation_tampering'' ''prepared_execution.simulation_attestation_hash''),
        reject_if (\<not> is_mapping (item v ''constraints''))
          (st_reject ''invalid_constraints'' ''prepared_execution.constraints'')]) (\<lambda>_.
     bind_res (execution_commitment_hash jcs (external_commitment row v)) (\<lambda>commitment_hash.
     bind_res (reject_if (PStr commitment_hash \<noteq> item v ''execution_commitment_hash'')
       (st_reject ''execution_commitment_tampering'' ''prepared_execution.execution_commitment_hash'')) (\<lambda>_.
     st_closed (PDict
       [(KStr ''type'', PStr ''settlement_execution_commitment''), (KStr ''protocol_version'', PStr ''1.0.0''),
        (KStr ''settlement_request_hash'', PStr (st_request_hash row)),
        (KStr ''execution_request_id'', PStr (st_execution_request_id row)),
        (KStr ''execution_commitment_hash'', item v ''execution_commitment_hash''),
        (KStr ''prepared_message_hash'', item v ''prepared_message_hash''),
        (KStr ''executor_id'', item v ''executor_id''), (KStr ''expected_signer'', PStr expected_signer),
        (KStr ''expires_at'', item v ''expires_at'')]) ''commitment'' commitment_fields))))))))))"

text \<open>\<open>json.loads\<close> of a nullable column: a NULL makes it raise TypeError.\<close>

definition loads_column :: "'a option \<Rightarrow> 'a res" where
  "loads_column c = (case c of None \<Rightarrow> Inl (PyRaise ''TypeError'') | Some v \<Rightarrow> Inr v)"

definition commitment_dataclass :: "serializer \<Rightarrow> pydict \<Rightarrow> pydict res" where
  "commitment_dataclass jcs c =
     bind_res (sha256_canonical_json jcs (PDict c)) (\<lambda>h. Inr (c @ [(KStr ''commitment_hash'', PStr h)]))"

fun after_commitment :: "settlement_state \<Rightarrow> bool" where
  "after_commitment SExecutionCommitted = True"
| "after_commitment SAuthorized = True"
| "after_commitment SSubmitted = True"
| "after_commitment SConfirming = True"
| "after_commitment SReconciling = True"
| "after_commitment SCompleted = True"
| "after_commitment SNeedsRecovery = True"
| "after_commitment SNeedsReview = True"
| "after_commitment SDisputed = True"
| "after_commitment _ = False"

definition set_commitment :: "pydict \<Rightarrow> string \<Rightarrow> string \<Rightarrow> settlement_row \<Rightarrow> settlement_row" where
  "set_commitment c h ts row =
     row\<lparr>st_state := SExecutionCommitted, st_commitment := Some c, st_commitment_hash := Some h,
         st_updated_at := ts\<rparr>"

definition commit_tx ::
  "serializer \<Rightarrow> runtime \<Rightarrow> string \<Rightarrow> pyval \<Rightarrow> string \<Rightarrow> py_datetime \<Rightarrow> string \<Rightarrow> (runtime \<times> pydict) res" where
  "commit_tx jcs db sid prepared expected_signer now ts =
     bind_res (require_row db sid) (\<lambda>row.
     bind_res (ensure_time_not_regressed row ts) (\<lambda>_.
     if after_commitment (st_state row) then
       bind_res (loads_column (st_commitment row)) (\<lambda>existing.
       bind_res (execution_commitment jcs row prepared expected_signer now) (\<lambda>candidate.
       bind_res (reject_if (\<not> py_eq (PDict existing) (PDict candidate))
         (st_reject ''commitment_conflict'' ''prepared_execution'')) (\<lambda>_.
       bind_res (commitment_dataclass jcs existing) (\<lambda>r. Inr (db, r)))))
     else if st_state row \<noteq> SValidated then Inl (st_reject ''invalid_state'' ''settlement.state'')
     else
       bind_res (execution_commitment jcs row prepared expected_signer now) (\<lambda>commitment.
       bind_res (sha256_canonical_json jcs (PDict commitment)) (\<lambda>commitment_hash.
       bind_res (json_text commitment) (\<lambda>commitment_json.
       bind_res (append_event jcs
           (update_settlement sid (set_commitment commitment_json commitment_hash ts) db) sid
           SExecutionCommitted ''execution_committed''
           [(KStr ''commitment_hash'', PStr commitment_hash),
            (KStr ''prepared_message_hash'', item commitment ''prepared_message_hash'')] ts) (\<lambda>db'.
       bind_res (commitment_dataclass jcs commitment) (\<lambda>r. Inr (db', r))))))))"

definition commit_execution ::
  "serializer \<Rightarrow> runtime \<Rightarrow> string \<Rightarrow> pyval \<Rightarrow> string \<Rightarrow> py_datetime \<Rightarrow> runtime \<times> pydict res" where
  "commit_execution jcs db sid prepared expected_signer now =
     transaction db
       (bind_res (st_pubkey (PStr expected_signer) ''expected_signer'') (\<lambda>_.
        bind_res (format_time now) (\<lambda>ts.
        commit_tx jcs db sid prepared expected_signer now ts)))"

section \<open>Authorization\<close>

definition check_authorization_value ::
  "(pydict \<Rightarrow> verdict) \<Rightarrow> pyval \<Rightarrow> py_datetime \<Rightarrow> (pydict \<times> int) res" where
  "check_authorization_value verify authorization now =
     bind_res (st_closed authorization ''authorization'' authorization_fields) (\<lambda>v.
     bind_res (run_all
       [st_literal (item v ''type'') (PStr ''execution_authorization'') ''authorization.type'',
        st_literal (item v ''protocol_version'') (PStr ''1.0.0'') ''authorization.protocol_version'',
        st_literal (item v ''single_use'') (PBool True) ''authorization.single_use'',
        ignore (st_identifier (item v ''authorization_id'') ''authorization.authorization_id''),
        ignore (st_identifier (item v ''execution_request_id'') ''authorization.execution_request_id''),
        ignore (st_hash (item v ''execution_commitment_hash'') ''authorization.execution_commitment_hash''),
        ignore (st_hash (item v ''prepared_message_hash'') ''authorization.prepared_message_hash''),
        ignore (st_pubkey (item v ''signer'') ''authorization.signer'')]) (\<lambda>_.
     bind_res (st_time (item v ''issued_at'') ''authorization.issued_at'') (\<lambda>issued.
     bind_res (st_time (item v ''expires_at'') ''authorization.expires_at'') (\<lambda>expires.
     bind_res (st_utc now) (\<lambda>current.
     bind_res (reject_if (issued > current \<or> expires \<le> current \<or> expires \<le> issued)
       (st_reject ''authorization_expired'' ''authorization.expires_at'')) (\<lambda>_.
     bind_res (case verify v of
         VRaise \<Rightarrow> Inl (st_reject ''authorization_verifier_failed'' ''authorization'')
       | VOther \<Rightarrow> Inl (st_reject ''authorization_invalid'' ''authorization'')
       | VTrue \<Rightarrow> Inr ()) (\<lambda>_.
     Inr (v, expires))))))))"

definition bound_pairs :: "(string \<times> string) list" where
  "bound_pairs =
     [(''execution_request_id'', ''execution_request_id''),
      (''execution_commitment_hash'', ''execution_commitment_hash''),
      (''prepared_message_hash'', ''prepared_message_hash''), (''signer'', ''expected_signer'')]"

definition set_authorization :: "pydict \<Rightarrow> string \<Rightarrow> string \<Rightarrow> settlement_row \<Rightarrow> settlement_row" where
  "set_authorization a h ts row =
     row\<lparr>st_state := SAuthorized, st_authorization := Some a, st_authorization_hash := Some h,
         st_updated_at := ts\<rparr>"

definition authorize_tx ::
  "serializer \<Rightarrow> runtime \<Rightarrow> string \<Rightarrow> pydict \<Rightarrow> int \<Rightarrow> string \<Rightarrow> string \<Rightarrow> (runtime \<times> unit) res" where
  "authorize_tx jcs db sid v expires authorization_hash ts =
     bind_res (require_row db sid) (\<lambda>row.
     bind_res (ensure_time_not_regressed row ts) (\<lambda>_.
     if st_state row = SAuthorized then
       bind_res (reject_if (st_authorization_hash row \<noteq> Some authorization_hash)
         (st_reject ''authorization_conflict'' ''authorization'')) (\<lambda>_. Inr (db, ()))
     else if st_state row \<noteq> SExecutionCommitted then Inl (st_reject ''invalid_state'' ''settlement.state'')
     else
       bind_res (loads_column (st_commitment row)) (\<lambda>commitment.
       bind_res (run_all (map (\<lambda>(a, c). reject_if (\<not> py_eq (item v a) (item commitment c))
         (st_reject ''authorization_binding_mismatch'' (''authorization.'' @ a))) bound_pairs)) (\<lambda>_.
       bind_res (st_time (item commitment ''expires_at'') ''commitment.expires_at'') (\<lambda>commitment_expires.
       bind_res (reject_if (expires > commitment_expires)
         (st_reject ''authorization_outlives_commitment'' ''authorization.expires_at'')) (\<lambda>_.
       bind_res (json_text v) (\<lambda>authorization_json.
       bind_res (append_event jcs
           (update_settlement sid (set_authorization authorization_json authorization_hash ts) db) sid
           SAuthorized ''authorization_persisted''
           [(KStr ''authorization_hash'', PStr authorization_hash)] ts) (\<lambda>db'.
       Inr (db', ())))))))))"

definition record_authorization ::
  "serializer \<Rightarrow> runtime \<Rightarrow> string \<Rightarrow> pyval \<Rightarrow> (pydict \<Rightarrow> verdict) \<Rightarrow> py_datetime \<Rightarrow>
   runtime \<times> settlement_record res" where
  "record_authorization jcs db sid authorization verify now =
     (case transaction db
        (bind_res (check_authorization_value verify authorization now) (\<lambda>(v, expires).
         bind_res (format_time now) (\<lambda>ts.
         bind_res (sha256_canonical_json jcs (PDict v)) (\<lambda>h.
         authorize_tx jcs db sid v expires h ts)))) of
        (db', Inl e) \<Rightarrow> (db', Inl e)
      | (db', Inr _) \<Rightarrow> (db', settlement_get jcs db' sid))"

section \<open>Submission\<close>

fun submission_attempted :: "settlement_state \<Rightarrow> bool" where
  "submission_attempted SSubmitted = True"
| "submission_attempted SConfirming = True"
| "submission_attempted SReconciling = True"
| "submission_attempted SCompleted = True"
| "submission_attempted SNeedsRecovery = True"
| "submission_attempted SNeedsReview = True"
| "submission_attempted SDisputed = True"
| "submission_attempted _ = False"

definition intent_tx ::
  "serializer \<Rightarrow> runtime \<Rightarrow> string \<Rightarrow> string \<Rightarrow> py_datetime \<Rightarrow> string \<Rightarrow> (runtime \<times> pydict) res" where
  "intent_tx jcs db sid ex_id now ts =
     bind_res (require_row db sid) (\<lambda>row.
     bind_res (ensure_time_not_regressed row ts) (\<lambda>_.
     bind_res (run_all
       [reject_if (submission_attempted (st_state row))
          (st_reject ''submission_already_attempted'' ''settlement.state''),
        reject_if (st_state row \<noteq> SAuthorized) (st_reject ''invalid_state'' ''settlement.state'')]) (\<lambda>_.
     bind_res (loads_column (st_commitment row)) (\<lambda>commitment.
     bind_res (loads_column (st_authorization row)) (\<lambda>authorization.
     bind_res (st_utc now) (\<lambda>current.
     bind_res (st_time (item authorization ''expires_at'') ''authorization.expires_at'') (\<lambda>auth_expires.
     bind_res (reject_if (current \<ge> auth_expires)
       (st_reject ''authorization_expired'' ''authorization.expires_at'')) (\<lambda>_.
     bind_res (st_time (item commitment ''expires_at'') ''commitment.expires_at'') (\<lambda>commitment_expires.
     bind_res (run_all
       [reject_if (current \<ge> commitment_expires)
          (st_reject ''prepared_execution_expired'' ''commitment.expires_at''),
        reject_if (PStr ex_id \<noteq> item commitment ''executor_id'')
          (st_reject ''executor_mismatch'' ''executor.executor_id''),
        reject_if (sid \<in> fst ` set (submit_intents db)) (PyRaise ''IntegrityError'')]) (\<lambda>_.
     bind_res (set_settlement_state jcs (db\<lparr>submit_intents := submit_intents db @ [(sid, ts)]\<rparr>) sid
       SSubmitted ''submit_intent_persisted'' [(KStr ''submit_intent_count'', PInt 1)] ts) (\<lambda>db'.
     Inr (db', authorization))))))))))))"

definition submit_intent ::
  "serializer \<Rightarrow> runtime \<Rightarrow> string \<Rightarrow> string \<Rightarrow> py_datetime \<Rightarrow> runtime \<times> pydict res" where
  "submit_intent jcs db sid ex_id now =
     transaction db
       (bind_res (format_time now) (\<lambda>ts.
        on_integrity_error (st_reject ''submission_already_attempted'' ''settlement_id'')
          (intent_tx jcs db sid ex_id now ts)))"

text \<open>The technical receipt, absent fields left out as \<^verbatim>\<open>to_dict\<close> does.\<close>

definition technical_receipt ::
  "string \<Rightarrow> pydict \<Rightarrow> string \<Rightarrow> string \<Rightarrow> string option \<Rightarrow> pyval \<Rightarrow> string option \<Rightarrow> pyval \<Rightarrow> pydict" where
  "technical_receipt sid source outcome signature_status signature technical_status receipt_hash observed_at =
     [(KStr ''type'', PStr ''technical_execution_receipt''), (KStr ''protocol_version'', PStr ''1.0.0''),
      (KStr ''settlement_id'', PStr sid),
      (KStr ''execution_request_id'', item source ''execution_request_id''),
      (KStr ''execution_commitment_hash'', item source ''execution_commitment_hash''),
      (KStr ''prepared_message_hash'', item source ''prepared_message_hash''),
      (KStr ''outcome'', PStr outcome), (KStr ''signature_status'', PStr signature_status)] @
     (case signature of None \<Rightarrow> [] | Some s \<Rightarrow> [(KStr ''transaction_signature'', PStr s)]) @
     [(KStr ''technical_status'', technical_status)] @
     (case receipt_hash of None \<Rightarrow> [] | Some h \<Rightarrow> [(KStr ''executor_receipt_hash'', PStr h)]) @
     [(KStr ''observed_at'', observed_at)]"

definition check_receipt_fields :: "serializer \<Rightarrow> pydict \<Rightarrow> unit res" where
  "check_receipt_fields jcs v =
     bind_res (run_all
       [st_literal (item v ''type'') (PStr ''external_execution_receipt'') ''executor_receipt.type'',
        st_literal (item v ''protocol_version'') (PStr ''1.0.0'') ''executor_receipt.protocol_version'']) (\<lambda>_.
     bind_res (st_hash (item v ''receipt_hash'') ''executor_receipt.receipt_hash'') (\<lambda>receipt_hash.
     bind_res (sha256_canonical_json jcs (PDict (filter (\<lambda>kv. fst kv \<noteq> KStr ''receipt_hash'') v))) (\<lambda>h.
     reject_if (h \<noteq> receipt_hash)
       (st_reject ''technical_receipt_tampering'' ''executor_receipt.receipt_hash''))))"

definition validate_executor_receipt ::
  "serializer \<Rightarrow> runtime \<Rightarrow> string \<Rightarrow> pyval \<Rightarrow> pydict res" where
  "validate_executor_receipt jcs db sid raw =
     bind_res (st_closed raw ''executor_receipt'' executor_receipt_fields) (\<lambda>v.
     bind_res (check_receipt_fields jcs v) (\<lambda>_.
     bind_res (require_row db sid) (\<lambda>row.
     bind_res (loads_column (st_commitment row)) (\<lambda>commitment.
     bind_res (run_all (map (\<lambda>(f, expected). reject_if (\<not> py_eq (item v f) expected)
         (st_reject ''technical_receipt_mismatch'' (''executor_receipt.'' @ f)))
       [(''execution_request_id'', PStr (st_execution_request_id row)),
        (''execution_commitment_hash'', item commitment ''execution_commitment_hash''),
        (''prepared_message_hash'', item commitment ''prepared_message_hash'')])) (\<lambda>_.
     bind_res (py_in (item v ''confirmation_status'') [''confirmed'', ''finalized'']) (\<lambda>confirmed.
     bind_res (run_all
       [reject_if (\<not> confirmed)
          (st_reject ''technical_receipt_unconfirmed'' ''executor_receipt.confirmation_status''),
        ignore (st_integer (item v ''slot'') ''executor_receipt.slot''),
        ignore (st_time (item v ''observed_at'') ''executor_receipt.observed_at''),
        reject_if (\<not> nonempty_text (item v ''transaction_signature''))
          (st_reject ''invalid_signature'' ''executor_receipt.transaction_signature'')]) (\<lambda>_.
     Inr (technical_receipt sid v ''accepted'' ''known''
            (Some (text_value (item v ''transaction_signature'')))
            (item v ''confirmation_status'') (Some (text_value (item v ''receipt_hash'')))
            (item v ''observed_at'')))))))))"

definition set_technical ::
  "settlement_state \<Rightarrow> pyval \<Rightarrow> string option \<Rightarrow> string \<Rightarrow> settlement_row \<Rightarrow> settlement_row" where
  "set_technical st technical signature ts row =
     row\<lparr>st_state := st, st_technical := Some technical, st_signature := signature, st_updated_at := ts\<rparr>"

definition persist_payload :: "pydict \<Rightarrow> pydict" where
  "persist_payload technical =
     [(KStr ''outcome'', item technical ''outcome''),
      (KStr ''signature_status'', item technical ''signature_status'')] @
     (if has_key technical ''executor_receipt_hash''
      then [(KStr ''executor_receipt_hash'', item technical ''executor_receipt_hash'')] else [])"

definition persist_tx ::
  "serializer \<Rightarrow> runtime \<Rightarrow> string \<Rightarrow> pydict \<Rightarrow> settlement_state \<Rightarrow> string \<Rightarrow> string \<Rightarrow> (runtime \<times> unit) res" where
  "persist_tx jcs db sid technical st event_type ts =
     (let persisted = (if st = SReconciling then SConfirming else st) in
      bind_res (require_row db sid) (\<lambda>row.
      bind_res (reject_if (st_state row \<noteq> SSubmitted) (st_reject ''invalid_state'' ''settlement.state'')) (\<lambda>_.
      bind_res (json_dumps True (PDict technical)) (\<lambda>technical_json.
      bind_res (append_event jcs
          (update_settlement sid
            (set_technical persisted technical_json (str_of (item technical ''transaction_signature'')) ts) db)
          sid persisted event_type (persist_payload technical) ts) (\<lambda>db1.
      if st = SReconciling then
        bind_res (set_settlement_state jcs db1 sid SReconciling ''independent_reconciliation_required''
          [(KStr ''technical_status'', item technical ''technical_status''),
           (KStr ''economic_completion'', PBool False)] ts) (\<lambda>db2. Inr (db2, ()))
      else Inr (db1, ()))))))"

definition persist_technical ::
  "serializer \<Rightarrow> runtime \<Rightarrow> string \<Rightarrow> pydict \<Rightarrow> settlement_state \<Rightarrow> string \<Rightarrow> py_datetime \<Rightarrow> runtime \<times> unit res" where
  "persist_technical jcs db sid technical st event_type now =
     transaction db (bind_res (format_time now) (\<lambda>ts. persist_tx jcs db sid technical st event_type ts))"

text \<open>Return the technical receipt, or raise, once it is persisted.\<close>

definition then_return :: "runtime \<times> unit res \<Rightarrow> 'a res \<Rightarrow> runtime \<times> 'a res" where
  "then_return p r = (fst p, bind_res (snd p) (\<lambda>_. r))"

definition submit_finish ::
  "serializer \<Rightarrow> runtime \<Rightarrow> string \<Rightarrow> pydict \<Rightarrow> exec_outcome \<Rightarrow> py_datetime \<Rightarrow> runtime \<times> pydict res" where
  "submit_finish jcs db sid authorization outcome now =
     (case format_time now of
        Inl e \<Rightarrow> (db, Inl e)
      | Inr ts \<Rightarrow>
          (case outcome of
             ExecDefinitiveRejection code \<Rightarrow>
               (let technical = technical_receipt sid authorization ''rejected'' ''unknown'' None (PStr code)
                                  None (PStr ts)
                in then_return (persist_technical jcs db sid technical SRejected
                     ''executor_rejected_before_acceptance'' now) (Inr technical))
           | ExecRaise \<Rightarrow>
               (let technical = technical_receipt sid authorization ''unknown'' ''unknown'' None
                                  (PStr ''unknown'') None (PStr ts)
                in then_return (persist_technical jcs db sid technical SNeedsRecovery
                     ''executor_response_unknown'' now) (Inr technical))
           | ExecReceipt raw \<Rightarrow>
               (case validate_executor_receipt jcs db sid raw of
                  Inr technical \<Rightarrow>
                    then_return (persist_technical jcs db sid technical SReconciling
                      ''technical_receipt_persisted'' now) (Inr technical)
                | Inl e \<Rightarrow>
                    (if is_exn SettlementError e then
                       then_return (persist_technical jcs db sid
                         (technical_receipt sid authorization ''unknown'' ''unknown'' None
                            (PStr ''invalid_receipt'') None (PStr ts))
                         SNeedsReview ''technical_receipt_rejected'' now) (Inl e)
                     else (db, Inl e)))))"

definition submit ::
  "serializer \<Rightarrow> runtime \<Rightarrow> string \<Rightarrow> executor \<Rightarrow> py_datetime \<Rightarrow> string option \<Rightarrow> runtime \<times> pydict res" where
  "submit jcs db sid ex now fault =
     (case submit_intent jcs db sid (executor_id ex) now of
        (db', Inl e) \<Rightarrow> (db', Inl e)
      | (db', Inr authorization) \<Rightarrow>
          submit_finish jcs db' sid authorization (authorize_and_execute ex authorization now fault) now)"

end
