(* ===== verification/Settlement_Recovery.thy ===== *)
theory Settlement_Recovery
  imports Settlement_Runtime
begin

text \<open>
  \<^verbatim>\<open>foundry_channel_protocol/settlement.py\<close>, class \<^verbatim>\<open>SettlementRuntime\<close>: \<^verbatim>\<open>recover\<close>, \<^verbatim>\<open>record_provider_divergence\<close> and
  \<^verbatim>\<open>reconcile\<close>, and the step relation over all methods, with the two halves of a recovery as separate
  steps.
\<close>

section \<open>Recovery\<close>

definition recovery_unsigned ::
  "string \<Rightarrow> int \<Rightarrow> string \<Rightarrow> nat \<Rightarrow> string \<Rightarrow> string option \<Rightarrow> string option \<Rightarrow> string option \<Rightarrow> pydict \<Rightarrow> pydict" where
  "recovery_unsigned sid attempt outcome count ts ex_id status_hash signature extra =
     [(KStr ''type'', PStr ''settlement_recovery_record''), (KStr ''protocol_version'', PStr ''1.0.0''),
      (KStr ''settlement_id'', PStr sid), (KStr ''attempt'', PInt attempt), (KStr ''outcome'', PStr outcome),
      (KStr ''submit_intent_count'', PInt (int count)),
      (KStr ''automatic_second_submission_count'', PInt 0), (KStr ''observed_at'', PStr ts)] @
     (case ex_id of None \<Rightarrow> [] | Some i \<Rightarrow> [(KStr ''executor_id'', PStr i)]) @
     (case status_hash of None \<Rightarrow> [] | Some h \<Rightarrow> [(KStr ''status_response_hash'', PStr h)]) @
     (case signature of None \<Rightarrow> [] | Some s \<Rightarrow> [(KStr ''transaction_signature'', PStr s)]) @
     (if extra = [] then [] else [(KStr ''detail'', PDict extra)])"

definition next_attempt :: "runtime \<Rightarrow> string \<Rightarrow> int" where
  "next_attempt db sid =
     (case max_option (map (\<lambda>r. Some (sr_attempt r))
         (filter (\<lambda>r. sr_settlement_id r = sid) (settlement_recoveries db))) of
        None \<Rightarrow> 1 | Some a \<Rightarrow> a + 1)"

definition set_recovered :: "settlement_state \<Rightarrow> string option \<Rightarrow> string \<Rightarrow> settlement_row \<Rightarrow> settlement_row" where
  "set_recovered st signature ts row =
     row\<lparr>st_state := st,
         st_signature := (case signature of None \<Rightarrow> st_signature row | Some s \<Rightarrow> Some s),
         st_updated_at := ts\<rparr>"

text \<open>The arguments of \<^verbatim>\<open>_record_recovery\<close>: all that a caller has decided when it reaches the transaction.\<close>

record recovery_write =
  rw_settlement :: string
  rw_outcome :: string
  rw_executor :: "string option"
  rw_status_hash :: "string option"
  rw_signature :: "string option"
  rw_target :: settlement_state
  rw_now :: py_datetime
  rw_extra :: pydict

definition recovery_tx :: "serializer \<Rightarrow> runtime \<Rightarrow> recovery_write \<Rightarrow> string \<Rightarrow> (runtime \<times> pydict) res" where
  "recovery_tx jcs db w ts =
     (let sid = rw_settlement w in
     bind_res (require_row db sid) (\<lambda>_.
     let count = submit_intent_count db sid;
         attempt = next_attempt db sid;
         unsigned = recovery_unsigned sid attempt (rw_outcome w) count ts (rw_executor w) (rw_status_hash w)
                      (rw_signature w) (rw_extra w)
     in
     bind_res (sha256_canonical_json jcs (PDict unsigned)) (\<lambda>recovery_hash.
     let full = unsigned @ [(KStr ''recovery_hash'', PStr recovery_hash)] in
     bind_res (json_text full) (\<lambda>recovery_json.
     bind_res (reject_if (list_ex (\<lambda>r. sr_recovery_hash r = recovery_hash) (settlement_recoveries db))
       (PyRaise ''IntegrityError'')) (\<lambda>_.
     let db1 = db\<lparr>settlement_recoveries := settlement_recoveries db @
           [\<lparr>sr_settlement_id = sid, sr_attempt = attempt, sr_record = recovery_json,
             sr_recovery_hash = recovery_hash, sr_observed_at = ts\<rparr>]\<rparr>
     in
     bind_res (append_event jcs (update_settlement sid (set_recovered (rw_target w) (rw_signature w) ts) db1) sid
       (rw_target w) ''recovery_observed''
       ([(KStr ''outcome'', PStr (rw_outcome w)), (KStr ''recovery_hash'', PStr recovery_hash),
         (KStr ''submit_intent_count'', PInt (int count))] @
        (case rw_status_hash w of None \<Rightarrow> [] | Some h \<Rightarrow> [(KStr ''status_response_hash'', PStr h)]) @
        rw_extra w) ts) (\<lambda>db2.
     Inr (db2, full)))))))"

definition record_recovery :: "serializer \<Rightarrow> runtime \<Rightarrow> recovery_write \<Rightarrow> runtime \<times> pydict res" where
  "record_recovery jcs db w =
     transaction db (bind_res (format_time (rw_now w)) (\<lambda>ts. recovery_tx jcs db w ts))"

fun recoverable :: "settlement_state \<Rightarrow> bool" where
  "recoverable SNeedsRecovery = True"
| "recoverable SReconciling = True"
| "recoverable SNeedsReview = True"
| "recoverable SDisputed = True"
| "recoverable _ = False"

definition recovery_required :: "pydict \<Rightarrow> string list" where
  "recovery_required v =
     [''type'', ''protocol_version'', ''execution_request_id'', ''outcome'', ''may_rematerialize'', ''observed_at''] @
     (if item v ''outcome'' = PStr ''confirmed'' then [''transaction_signature''] else [])"

definition check_recovery_outcome :: "pydict \<Rightarrow> unit res" where
  "check_recovery_outcome v =
     (let failed = (item v ''outcome'' = PStr ''failed_before_broadcast'');
          may = (item v ''may_rematerialize'' = PBool True)
      in run_all
       [reject_if (\<not> is_bool (item v ''may_rematerialize''))
          (st_reject ''invalid_recovery_result'' ''recovery_result.may_rematerialize''),
        reject_if (failed \<and> \<not> may)
          (st_reject ''invalid_recovery_result'' ''recovery_result.may_rematerialize''),
        reject_if (\<not> failed \<and> may)
          (st_reject ''unsafe_recovery_result'' ''recovery_result.may_rematerialize''),
        reject_if (item v ''outcome'' = PStr ''confirmed'' \<and> \<not> nonempty_text (item v ''transaction_signature''))
          (st_reject ''invalid_signature'' ''recovery_result.transaction_signature''),
        ignore (st_time (item v ''observed_at'') ''recovery_result.observed_at'')])"

definition normalize_recovery_result :: "settlement_row \<Rightarrow> pyval \<Rightarrow> pydict res" where
  "normalize_recovery_result row value =
     (case value of
        PDict d \<Rightarrow>
          bind_res (st_closed value ''recovery_result'' (recovery_required d)) (\<lambda>v.
          bind_res (run_all
            [st_literal (item v ''type'') (PStr ''recovery_result'') ''recovery_result.type'',
             st_literal (item v ''protocol_version'') (PStr ''1.0.0'') ''recovery_result.protocol_version'',
             reject_if (item v ''execution_request_id'' \<noteq> PStr (st_execution_request_id row))
               (st_reject ''recovery_request_mismatch'' ''recovery_result.execution_request_id'')]) (\<lambda>_.
          bind_res (py_in (item v ''outcome'') [''confirmed'', ''failed_before_broadcast'', ''unknown'']) (\<lambda>known.
          bind_res (reject_if (\<not> known)
            (st_reject ''invalid_recovery_outcome'' ''recovery_result.outcome'')) (\<lambda>_.
          bind_res (check_recovery_outcome v) (\<lambda>_. Inr v)))))
      | _ \<Rightarrow> Inl (st_reject ''invalid_recovery_result'' ''recovery_result''))"

text \<open>
  \<^verbatim>\<open>recover\<close> and \<^verbatim>\<open>record_provider_divergence\<close> read the row on one connection, decide, and only then open
  the transaction of \<^verbatim>\<open>_record_recovery\<close>, which requires the row and does not look at its state again.
  \<open>recover_read\<close> and \<open>divergence_read\<close> are what happens before that transaction: the row, the executor's
  answer, and the write decided on, with the exception \<^verbatim>\<open>recover\<close> raises after it, if any.
\<close>

datatype recover_plan = RecoverReturns pydict | RecoverWrites recovery_write "exn option"

definition recovery_plan ::
  "serializer \<Rightarrow> settlement_row \<Rightarrow> string \<Rightarrow> string \<Rightarrow> recovery_outcome \<Rightarrow> py_datetime \<Rightarrow> recover_plan res" where
  "recovery_plan jcs row sid ex_id outcome now =
     (let call = \<lambda>oc h sg target extra.
        \<lparr>rw_settlement = sid, rw_outcome = oc, rw_executor = Some ex_id, rw_status_hash = h, rw_signature = sg,
         rw_target = target, rw_now = now, rw_extra = extra\<rparr>
      in
      case outcome of
        RecoveryRaise \<Rightarrow>
          Inr (RecoverWrites (call ''unknown'' None None SNeedsRecovery
            [(KStr ''reason'', PStr ''executor_status_unavailable'')]) None)
      | RecoveryResult raw \<Rightarrow>
          (case normalize_recovery_result row raw of
             Inl (Exn SettlementError code f) \<Rightarrow>
               Inr (RecoverWrites (call ''invalid_status_response'' None None SNeedsReview
                 [(KStr ''validation_code'', PStr code), (KStr ''validation_field'', PStr f)])
                 (Some (st_reject code f)))
           | Inl e \<Rightarrow> Inl e
           | Inr result \<Rightarrow>
               bind_res (sha256_canonical_json jcs (PDict result)) (\<lambda>h.
               if item result ''outcome'' = PStr ''confirmed'' \<and> nonempty_text (item result ''transaction_signature'')
               then Inr (RecoverWrites (call ''confirmed'' (Some h)
                      (Some (text_value (item result ''transaction_signature''))) SReconciling []) None)
               else if item result ''outcome'' = PStr ''failed_before_broadcast''
               then Inr (RecoverWrites (call ''failed_before_broadcast'' (Some h) None
                      SFailedBeforeSubmission []) None)
               else Inr (RecoverWrites (call ''unknown'' (Some h) None SNeedsRecovery []) None))))"

definition recover_read ::
  "serializer \<Rightarrow> runtime \<Rightarrow> string \<Rightarrow> executor \<Rightarrow> py_datetime \<Rightarrow> recover_plan res" where
  "recover_read jcs db sid ex now =
     bind_res (require_row db sid) (\<lambda>row.
     if st_state row = SCompleted then
       bind_res (recovery_records db sid) (\<lambda>rs.
       if rs \<noteq> [] then Inr (RecoverReturns (last rs))
       else Inl (st_reject ''recovery_not_required'' ''settlement.state''))
     else if \<not> recoverable (st_state row) then Inl (st_reject ''invalid_state'' ''settlement.state'')
     else
       bind_res (loads_column (st_commitment row)) (\<lambda>commitment.
       if PStr (executor_id ex) \<noteq> item commitment ''executor_id''
       then Inl (st_reject ''executor_mismatch'' ''executor.executor_id'')
       else recovery_plan jcs row sid (executor_id ex) (executor_recover ex (st_execution_request_id row) now) now))"

definition recovery_finish ::
  "serializer \<Rightarrow> runtime \<Rightarrow> recovery_write \<Rightarrow> exn option \<Rightarrow> runtime \<times> pydict res" where
  "recovery_finish jcs db w raised =
     (let p = record_recovery jcs db w in
      (fst p, case raised of None \<Rightarrow> snd p | Some e \<Rightarrow> bind_res (snd p) (\<lambda>_. Inl e)))"

definition recover ::
  "serializer \<Rightarrow> runtime \<Rightarrow> string \<Rightarrow> executor \<Rightarrow> py_datetime \<Rightarrow> runtime \<times> pydict res" where
  "recover jcs db sid ex now =
     (case recover_read jcs db sid ex now of
        Inl e \<Rightarrow> (db, Inl e)
      | Inr (RecoverReturns r) \<Rightarrow> (db, Inr r)
      | Inr (RecoverWrites w raised) \<Rightarrow> recovery_finish jcs db w raised)"

definition divergence_read ::
  "serializer \<Rightarrow> runtime \<Rightarrow> string \<Rightarrow> string list \<Rightarrow> py_datetime \<Rightarrow> recovery_write res" where
  "divergence_read jcs db sid provider_ids now =
     bind_res (settlement_get jcs db sid) (\<lambda>r.
     bind_res (reject_if (\<not> recoverable (sc_state r)) (st_reject ''invalid_state'' ''settlement.state'')) (\<lambda>_.
     bind_res (reject_if (length (remdups provider_ids) < 2)
       (st_reject ''provider_divergence_unproven'' ''provider_ids'')) (\<lambda>_.
     bind_res (run_all (map (\<lambda>p. ignore (st_identifier (PStr p) ''provider_ids'')) provider_ids)) (\<lambda>_.
     Inr \<lparr>rw_settlement = sid, rw_outcome = ''provider_divergence'', rw_executor = None, rw_status_hash = None,
          rw_signature = None, rw_target = SDisputed, rw_now = now,
          rw_extra = [(KStr ''provider_ids'', PList (map PStr (sort (remdups provider_ids))))]\<rparr>))))"

definition record_provider_divergence ::
  "serializer \<Rightarrow> runtime \<Rightarrow> string \<Rightarrow> string list \<Rightarrow> py_datetime \<Rightarrow> runtime \<times> pydict res" where
  "record_provider_divergence jcs db sid provider_ids now =
     (case divergence_read jcs db sid provider_ids now of
        Inl e \<Rightarrow> (db, Inl e)
      | Inr w \<Rightarrow> record_recovery jcs db w)"

section \<open>Reconciliation\<close>

definition observation_amounts :: "string list" where
  "observation_amounts =
     [''settled_total_before'', ''settled_total_after'', ''vault_balance_before'', ''vault_balance_after'',
      ''recipient_balance_before'', ''recipient_balance_after'']"

definition normalize_observation :: "serializer \<Rightarrow> pyval \<Rightarrow> pydict res" where
  "normalize_observation jcs value =
     bind_res (st_closed value ''observation'' observation_fields) (\<lambda>v.
     bind_res (run_all
       [st_literal (item v ''type'') (PStr ''settlement_observation'') ''observation.type'',
        st_literal (item v ''protocol_version'') (PStr ''1.0.0'') ''observation.protocol_version'',
        ignore (st_identifier (item v ''source_id'') ''observation.source_id''),
        ignore (st_identifier (item v ''channel_id'') ''observation.channel_id''),
        ignore (st_pubkey (item v ''channel_account'') ''observation.channel_account''),
        ignore (st_integer (item v ''epoch'') ''observation.epoch''),
        ignore (st_pubkey (item v ''mint'') ''observation.mint''),
        ignore (st_pubkey (item v ''destination'') ''observation.destination''),
        reject_if (\<not> nonempty_text (item v ''transaction_signature''))
          (st_reject ''invalid_signature'' ''observation.transaction_signature'')]) (\<lambda>_.
     bind_res (run_all (map (\<lambda>f. ignore (st_amount (item v f) (''observation.'' @ f) False))
       observation_amounts)) (\<lambda>_.
     bind_res (st_time (item v ''observed_at'') ''observation.observed_at'') (\<lambda>_.
     bind_res (st_hash (item v ''observation_hash'') ''observation.observation_hash'') (\<lambda>supplied.
     bind_res (sha256_canonical_json jcs
       (PDict (filter (\<lambda>kv. fst kv \<noteq> KStr ''observation_hash'') v))) (\<lambda>h.
     bind_res (reject_if (h \<noteq> supplied)
       (st_reject ''observation_tampering'' ''observation.observation_hash'')) (\<lambda>_.
     Inr v)))))))"

definition verify_observation ::
  "(string \<Rightarrow> observation_verifier option) \<Rightarrow> pydict \<Rightarrow> unit res" where
  "verify_observation verifiers v =
     (let source = text_value (item v ''source_id'') in
      case verifiers source of
        None \<Rightarrow> Inl (st_reject ''observation_verifier_missing'' ''observation.source_id'')
      | Some ov \<Rightarrow>
          run_all
           [reject_if (ov_source_id ov \<noteq> source)
              (st_reject ''observation_verifier_mismatch'' ''observation.source_id''),
            reject_if (\<not> ov_verify ov v)
              (st_reject ''observation_unverified'' ''observation.observation_hash'')])"

definition fingerprint :: "serializer \<Rightarrow> pydict \<Rightarrow> string res" where
  "fingerprint jcs v =
     sha256_canonical_json jcs (PDict (filter (\<lambda>kv.
       \<not> List.member [KStr ''source_id'', KStr ''observation_hash'', KStr ''observed_at''] (fst kv)) v))"

definition check_observations ::
  "serializer \<Rightarrow> (string \<Rightarrow> observation_verifier option) \<Rightarrow> pyval list \<Rightarrow> (pydict list \<times> string list) res" where
  "check_observations jcs verifiers observations =
     bind_res (map_res (normalize_observation jcs) observations) (\<lambda>normalized.
     bind_res (reject_if (\<not> distinct (map (\<lambda>v. text_value (item v ''source_id'')) normalized))
       (st_reject ''duplicate_observation_source'' ''observations'')) (\<lambda>_.
     bind_res (run_all (map (verify_observation verifiers) normalized)) (\<lambda>_.
     bind_res (map_res (fingerprint jcs) normalized) (\<lambda>fingerprints.
     Inr (normalized, remdups fingerprints)))))"

definition expected_observation :: "settlement_row \<Rightarrow> (string \<times> pyval) list" where
  "expected_observation row =
     (let request = dict_of (st_request_json row) in
      [(''channel_id'', PStr (st_channel_id row)), (''channel_account'', item request ''channel_account''),
       (''epoch'', PInt (st_epoch row)), (''mint'', item request ''mint''),
       (''destination'', item request ''recipient_wallet''),
       (''transaction_signature'', case st_signature row of None \<Rightarrow> PNone | Some s \<Rightarrow> PStr s),
       (''settled_total_before'', PStr (str_int (st_settled row))),
       (''settled_total_after'', PStr (str_int (st_settled row + st_requested row))),
       (''vault_balance_before'', PStr (str_int (st_vault row))),
       (''vault_balance_after'', PStr (str_int (st_vault row - st_requested row)))])"

definition observation_mismatches :: "settlement_row \<Rightarrow> pydict \<Rightarrow> string list res" where
  "observation_mismatches row v =
     bind_res (st_time (item v ''observed_at'') ''observation.observed_at'') (\<lambda>observed.
     bind_res (st_time (PStr (st_updated_at row)) ''settlement.updated_at'') (\<lambda>updated.
     Inr ((if observed < updated then [''observation_time''] else []) @
          map fst (filter (\<lambda>(f, expected). \<not> py_eq (item v f) expected) (expected_observation row)) @
          (if amount_of (item v ''recipient_balance_after'') - amount_of (item v ''recipient_balance_before'') \<noteq>
              st_requested row then [''recipient_delta''] else []))))"

definition unsigned_receipt :: "settlement_row \<Rightarrow> pydict list \<Rightarrow> string \<Rightarrow> pydict" where
  "unsigned_receipt row normalized ts =
     (let request = dict_of (st_request_json row) in
      [(KStr ''type'', PStr ''reconciled_settlement_receipt''), (KStr ''protocol_version'', PStr ''1.0.0''),
       (KStr ''settlement_id'', PStr (st_settlement_id row)),
       (KStr ''settlement_request_hash'', PStr (st_request_hash row)),
       (KStr ''execution_request_id'', PStr (st_execution_request_id row)),
       (KStr ''obligation_id'', PStr (st_obligation_id row)), (KStr ''channel_id'', PStr (st_channel_id row)),
       (KStr ''channel_account'', item request ''channel_account''), (KStr ''epoch'', PInt (st_epoch row)),
       (KStr ''mint'', item request ''mint''), (KStr ''destination'', item request ''recipient_wallet''),
       (KStr ''requested_base_units'', PStr (str_int (st_requested row))),
       (KStr ''settled_total_before'', PStr (str_int (st_settled row))),
       (KStr ''settled_total_after'', PStr (str_int (st_settled row + st_requested row))),
       (KStr ''vault_balance_before'', PStr (str_int (st_vault row))),
       (KStr ''vault_balance_after'', PStr (str_int (st_vault row - st_requested row))),
       (KStr ''transaction_signature'', case st_signature row of None \<Rightarrow> PNone | Some s \<Rightarrow> PStr s),
       (KStr ''observation_hashes'',
          PList (map PStr (sort (map (\<lambda>v. text_value (item v ''observation_hash'')) normalized)))),
       (KStr ''reconciliation_status'', PStr ''reference_observation_matched''),
       (KStr ''completed_at'', PStr ts)])"

definition set_completed :: "pydict \<Rightarrow> string \<Rightarrow> string \<Rightarrow> settlement_row \<Rightarrow> settlement_row" where
  "set_completed receipt h ts row =
     row\<lparr>st_state := SCompleted, st_receipt := Some receipt, st_receipt_hash := Some h, st_updated_at := ts\<rparr>"

definition complete_tx ::
  "serializer \<Rightarrow> runtime \<Rightarrow> string \<Rightarrow> settlement_row \<Rightarrow> pydict list \<Rightarrow> string \<Rightarrow> (runtime \<times> pydict option) res" where
  "complete_tx jcs db sid row normalized ts =
     (let unsigned = unsigned_receipt row normalized ts in
      bind_res (sha256_canonical_json jcs (PDict unsigned)) (\<lambda>h.
      let receipt = unsigned @ [(KStr ''receipt_hash'', PStr h)] in
      bind_res (json_text receipt) (\<lambda>receipt_json.
      bind_res (append_event jcs (update_settlement sid (set_completed receipt_json h ts) db) sid SCompleted
        ''economic_observation_reconciled''
        [(KStr ''receipt_hash'', PStr h), (KStr ''observation_hashes'', item receipt ''observation_hashes'')] ts) (\<lambda>db'.
      Inr (db', Some receipt)))))"

fun reconcilable :: "settlement_state \<Rightarrow> bool" where
  "reconcilable SReconciling = True"
| "reconcilable SNeedsReview = True"
| "reconcilable SDisputed = True"
| "reconcilable _ = False"

definition reconcile_tx ::
  "serializer \<Rightarrow> runtime \<Rightarrow> string \<Rightarrow> pydict list \<Rightarrow> string list \<Rightarrow> string \<Rightarrow> (runtime \<times> pydict option) res" where
  "reconcile_tx jcs db sid normalized fingerprints ts =
     bind_res (require_row db sid) (\<lambda>row.
     bind_res (ensure_time_not_regressed row ts) (\<lambda>_.
     if st_state row = SCompleted then bind_res (receipt_from_row jcs row) (\<lambda>r. Inr (db, r))
     else if \<not> reconcilable (st_state row) then Inl (st_reject ''invalid_state'' ''settlement.state'')
     else if 1 < length fingerprints then
       bind_res (set_settlement_state jcs db sid SDisputed ''provider_observations_diverged''
         [(KStr ''source_ids'',
           PList (map PStr (sort (map (\<lambda>v. text_value (item v ''source_id'')) normalized))))] ts) (\<lambda>db'.
       Inr (db', None))
     else
       bind_res (map_res (observation_mismatches row) normalized) (\<lambda>mismatches.
       if concat mismatches \<noteq> [] then
         bind_res (set_settlement_state jcs db sid SNeedsReview ''reconciliation_mismatch''
           [(KStr ''mismatches'', PList (map PStr (sort (remdups (concat mismatches)))))] ts) (\<lambda>db'.
         Inr (db', None))
       else complete_tx jcs db sid row normalized ts)))"

definition reconcile ::
  "serializer \<Rightarrow> runtime \<Rightarrow> string \<Rightarrow> pyval list \<Rightarrow> (string \<Rightarrow> observation_verifier option) \<Rightarrow> py_datetime \<Rightarrow>
   runtime \<times> pydict option res" where
  "reconcile jcs db sid observations verifiers now =
     transaction db
       (bind_res (reject_if (observations = []) (st_reject ''observation_required'' ''observations'')) (\<lambda>_.
        bind_res (format_time now) (\<lambda>ts.
        bind_res (check_observations jcs verifiers observations) (\<lambda>(normalized, fingerprints).
        reconcile_tx jcs db sid normalized fingerprints ts))))"

section \<open>Steps\<close>

text \<open>
  Several processes share the database, and a step is what one of them does in one transaction. A
  label records whether the step called the executor, and for which settlement. \<open>finish\<close> is what
  follows that call: it may be late, or never come. A recovery and a divergence take two steps: the
  read, whose label is the write decided on, and the write, which other steps may separate from it and
  which may never come. The lookup before the transaction of \<^verbatim>\<open>register_request\<close> needs no step of its own:
  the transaction repeats it, and a row it found is never deleted.
\<close>

datatype step_label = Executes string | Reads recovery_write | Writes recovery_write | Quiet

inductive settlement_step :: "serializer \<Rightarrow> runtime \<Rightarrow> step_label \<Rightarrow> runtime \<Rightarrow> bool" for jcs where
  register: "settlement_step jcs db Quiet (fst (register_request jcs db r s t))"
| commit: "settlement_step jcs db Quiet (fst (commit_execution jcs db sid p k t))"
| authorize: "settlement_step jcs db Quiet (fst (record_authorization jcs db sid a v t))"
| intent: "submit_intent jcs db sid i t = (db', Inr a) \<Longrightarrow> settlement_step jcs db (Executes sid) db'"
| finish: "settlement_step jcs db Quiet (fst (submit_finish jcs db sid a out t))"
| recovery_reads: "recover_read jcs db sid ex t = Inr (RecoverWrites w e) \<Longrightarrow> settlement_step jcs db (Reads w) db"
| divergence_reads: "divergence_read jcs db sid ps t = Inr w \<Longrightarrow> settlement_step jcs db (Reads w) db"
| recovery_written: "settlement_step jcs db (Writes w) (fst (record_recovery jcs db w))"
| reconciliation: "settlement_step jcs db Quiet (fst (reconcile jcs db sid obs vs t))"

text \<open>
  A run after a history: every write follows a read that decided on it and has not been written yet.
  A run proper is one after the empty history, when no recovery is under way.
\<close>

definition may_follow :: "step_label list \<Rightarrow> step_label \<Rightarrow> bool" where
  "may_follow ls l \<longleftrightarrow>
     (case l of Writes w \<Rightarrow> count_list ls (Writes w) < count_list ls (Reads w) | _ \<Rightarrow> True)"

inductive settlement_run_after ::
  "serializer \<Rightarrow> step_label list \<Rightarrow> runtime \<Rightarrow> step_label list \<Rightarrow> runtime \<Rightarrow> bool" for jcs past where
  run_start: "settlement_run_after jcs past db [] db"
| run_step: "settlement_run_after jcs past db ls db' \<Longrightarrow> settlement_step jcs db' l db'' \<Longrightarrow>
    may_follow (past @ ls) l \<Longrightarrow> settlement_run_after jcs past db (ls @ [l]) db''"

abbreviation settlement_run :: "serializer \<Rightarrow> runtime \<Rightarrow> step_label list \<Rightarrow> runtime \<Rightarrow> bool" where
  "settlement_run jcs \<equiv> settlement_run_after jcs []"

end
