(* ===== verification/Settlement_Effects.thy ===== *)
theory Settlement_Effects
  imports Settlement_Recovery
begin

text \<open>
  What one step of the settlement runtime does to its tables, whatever its arguments: nothing, one
  new row in state \<^verbatim>\<open>validated\<close>, or one row moved along an edge of the lifecycle, with the journal
  entries linked to the chain; only the submit transaction adds an intent, and only the write of a
  recovery can move a row that was completed or failed meanwhile. Every invariant of the runtime is
  proved once against this relation.
\<close>

definition immutable :: "settlement_row \<Rightarrow> _" where
  "immutable r = ((st_settlement_id r, st_channel_id r, st_epoch r, st_idempotency_key r, st_obligation_id r,
     st_execution_request_id r), (st_request_hash r, st_request_json r, st_snapshot_json r, st_snapshot_hash r),
     (st_requested r, st_activated r, st_settled r, st_vault r))"

fun settlement_edge :: "settlement_state \<Rightarrow> settlement_state \<Rightarrow> bool" where
  "settlement_edge SValidated b = (b = SExecutionCommitted)"
| "settlement_edge SExecutionCommitted b = (b = SAuthorized)"
| "settlement_edge SAuthorized b = (b = SSubmitted)"
| "settlement_edge SSubmitted b = (b \<in> {SRejected, SNeedsRecovery, SNeedsReview, SReconciling})"
| "settlement_edge SNeedsRecovery b =
     (b \<in> {SNeedsRecovery, SReconciling, SNeedsReview, SDisputed, SFailedBeforeSubmission})"
| "settlement_edge SReconciling b =
     (b \<in> {SNeedsRecovery, SReconciling, SNeedsReview, SDisputed, SFailedBeforeSubmission, SCompleted})"
| "settlement_edge SNeedsReview b =
     (b \<in> {SNeedsRecovery, SReconciling, SNeedsReview, SDisputed, SFailedBeforeSubmission, SCompleted})"
| "settlement_edge SDisputed b =
     (b \<in> {SNeedsRecovery, SReconciling, SNeedsReview, SDisputed, SFailedBeforeSubmission, SCompleted})"
| "settlement_edge _ b = False"

text \<open>
  A recovery decides on one of five states from a row in one of four; whatever happens before its
  write, the row is then in one of those, completed or failed. The edges a late write adds lead out of
  the last two.
\<close>

definition recovery_target :: "settlement_state \<Rightarrow> bool" where
  "recovery_target b \<longleftrightarrow> recoverable b \<or> b = SFailedBeforeSubmission"

definition recovery_stage :: "settlement_state \<Rightarrow> bool" where
  "recovery_stage a \<longleftrightarrow> recoverable a \<or> a = SFailedBeforeSubmission \<or> a = SCompleted"

definition late_edge :: "settlement_state \<Rightarrow> settlement_state \<Rightarrow> bool" where
  "late_edge a b \<longleftrightarrow> (a = SFailedBeforeSubmission \<or> a = SCompleted) \<and> recovery_target b"

lemma stage_edge: "recovery_stage a \<and> recovery_target b \<longleftrightarrow> late_edge a b \<or> (recoverable a \<and> recovery_target b)"
  by (auto simp: recovery_stage_def late_edge_def)

lemma recoverable_edge: "recoverable a \<Longrightarrow> recovery_target b \<Longrightarrow> settlement_edge a b"
  by (cases a; cases b) (simp_all add: recovery_target_def)

lemma stage_kept: "recovery_stage a \<Longrightarrow> settlement_edge a b \<or> late_edge a b \<Longrightarrow> recovery_stage b"
  by (cases a; cases b) (simp_all add: recovery_stage_def late_edge_def recovery_target_def)

text \<open>The persisted authorization names the persisted commitment: request, commitment, message, signer.\<close>

definition authorization_bound :: "settlement_row \<Rightarrow> bool" where
  "authorization_bound r \<longleftrightarrow>
     (\<exists>c a. st_commitment r = Some c \<and> st_authorization r = Some a \<and>
        (\<forall>(x, y)\<in>set bound_pairs. item a x = item c y))"

definition linked :: "serializer \<Rightarrow> settlement_event list \<Rightarrow> settlement_event \<Rightarrow> bool" where
  "linked jcs old e \<longleftrightarrow>
     (let previous = latest_event (filter (\<lambda>x. se_settlement_id x = se_settlement_id e) old) in
      se_sequence e = (case previous of None \<Rightarrow> 1 | Some p \<Rightarrow> se_sequence p + 1) \<and>
      se_previous_hash e = (case previous of None \<Rightarrow> zero_hash | Some p \<Rightarrow> se_event_hash p) \<and>
      se_event_hash e \<notin> se_event_hash ` set old \<and>
      (\<exists>payload payload_hash. sha256_canonical_json jcs (journal_entry (se_settlement_id e) (se_sequence e)
         (se_state e) (se_event_type e) payload payload_hash (se_previous_hash e) (se_recorded_at e)) =
         Inr (se_event_hash e)))"

fun extends_journal :: "serializer \<Rightarrow> string \<Rightarrow> settlement_event list \<Rightarrow> settlement_event list \<Rightarrow> bool" where
  "extends_journal jcs sid old [] = True"
| "extends_journal jcs sid old (e # es) =
     (se_settlement_id e = sid \<and> linked jcs old e \<and> extends_journal jcs sid (old @ [e]) es)"

text \<open>Which moves of a row, and which change of the intents, go with a label.\<close>

fun label_moves :: "step_label \<Rightarrow> string \<Rightarrow> settlement_state \<Rightarrow> settlement_state \<Rightarrow> bool" where
  "label_moves Quiet sid a b = (settlement_edge a b \<and> b \<noteq> SSubmitted)"
| "label_moves (Executes s) sid a b = (s = sid \<and> settlement_edge a b \<and> b = SSubmitted)"
| "label_moves (Writes w) sid a b = (rw_settlement w = sid \<and> recovery_stage a \<and> recovery_target b)"
| "label_moves (Reads w) sid a b = False"

fun label_intents :: "step_label \<Rightarrow> (string \<times> string) list \<Rightarrow> (string \<times> string) list \<Rightarrow> bool" where
  "label_intents (Executes s) old new = (s \<notin> fst ` set old \<and> (\<exists>ts. new = old @ [(s, ts)]))"
| "label_intents _ old new = (new = old)"

inductive runtime_effect :: "serializer \<Rightarrow> runtime \<Rightarrow> step_label \<Rightarrow> runtime \<Rightarrow> bool" for jcs where
  effect_same: "(\<And>sid. l \<noteq> Executes sid) \<Longrightarrow> runtime_effect jcs db l db"
| effect_register: "\<lbrakk>check_reservation db q = Inr (); 0 < sq_requested q;
    \<forall>r\<in>set (settlements db). st_settlement_id r \<noteq> sq_settlement_id q;
    \<forall>r\<in>set (settlements db). \<not> (same_channel r (sq_channel_id q) (sq_epoch q) \<and> st_idempotency_key r = sq_idempotency_key q);
    row = (new_settlement q a b c ts)\<lparr>st_state := SValidated\<rparr>;
    settlements db' = insert_row row (settlements db); submit_intents db' = submit_intents db;
    settlement_events db' = settlement_events db @ es; extends_journal jcs (sq_settlement_id q) (settlement_events db) es;
    es \<noteq> []; se_state (last es) = SValidated; \<forall>e\<in>set es. \<not> terminal_reservation (se_state e)\<rbrakk>
    \<Longrightarrow> runtime_effect jcs db Quiet db'"
| effect_move: "\<lbrakk>select_settlement db sid = Some row; \<And>r. immutable (f r) = immutable r;
    label_moves l sid (st_state row) (st_state (f row)); label_intents l (submit_intents db) (submit_intents db');
    settlements db' = update_row st_settlement_id sid f (settlements db);
    settlement_events db' = settlement_events db @ es; extends_journal jcs sid (settlement_events db) es; es \<noteq> [];
    se_state (last es) = st_state (f row); \<forall>e\<in>set (butlast es). \<not> terminal_reservation (se_state e);
    st_state (f row) = SAuthorized \<longrightarrow> authorization_bound (f row)\<rbrakk>
    \<Longrightarrow> runtime_effect jcs db l db'"

interpretation settlement_table: keyed_table st_settlement_id "select_row st_settlement_id" insert_row
  "update_row st_settlement_id"
  by (rule keyed_rows)


lemma append_event_Inr:
  assumes "append_event jcs db sid st et p ts = Inr db'"
  obtains e where "db' = db\<lparr>settlement_events := settlement_events db @ [e]\<rparr>" "se_settlement_id e = sid"
    "se_state e = st" "linked jcs (settlement_events db) e"
proof -
  have lk: "linked jcs (settlement_events db) e"
    if "se_sequence e = (case latest_event (events_for db (se_settlement_id e)) of None \<Rightarrow> 1 | Some e \<Rightarrow> se_sequence e + 1)"
    "se_previous_hash e = (case latest_event (events_for db (se_settlement_id e)) of None \<Rightarrow> zero_hash | Some e \<Rightarrow> se_event_hash e)"
    "sha256_canonical_json jcs (journal_entry (se_settlement_id e) (se_sequence e) (se_state e) (se_event_type e) p ph
        (se_previous_hash e) (se_recorded_at e)) = Inr (se_event_hash e)"
    "\<not> list_ex (\<lambda>x. se_event_hash x = se_event_hash e) (settlement_events db)" for e ph
    using that by (auto simp: linked_def events_for_def Let_def list_ex_iff)
  from assms show thesis
    unfolding append_event_def Let_def bind_unit_eq_Inr bind_res_eq_Inr reject_if_eq_Inr sum.inject
    by (elim exE conjE) (rule that, erule sym, (simp (no_asm))+, (rule lk, simp_all)+)
qed

lemma immutable_id: "immutable a = immutable b \<Longrightarrow> st_settlement_id a = st_settlement_id b"
  by (simp add: immutable_def)

lemma update_settlement_simps [simp]:
  "settlements (update_settlement sid f db) = update_row st_settlement_id sid f (settlements db)"
  "submit_intents (update_settlement sid f db) = submit_intents db"
  "settlement_events (update_settlement sid f db) = settlement_events db"
  "settlement_recoveries (update_settlement sid f db) = settlement_recoveries db"
  by (simp_all add: update_settlement_def)

lemma require_row_Inr [res_simps]:
  "require_row db sid = Inr row \<longleftrightarrow> identifier_text sid \<and> select_settlement db sid = Some row"
  by (auto simp: require_row_def st_identifier_def res_simps string_with_def split: option.splits)

lemma label_intents_kept: "(\<And>sid. l \<noteq> Executes sid) \<Longrightarrow> label_intents l xs ys = (ys = xs)"
  by (cases l) auto

lemma move_effect:
  assumes "select_settlement db sid = Some row" "\<And>r. immutable (f r) = immutable r"
    "label_moves l sid (st_state row) (st_state (f row))" "\<And>s. l \<noteq> Executes s"
    and "append_event jcs db1 sid st et p ts = Inr db'" "st_state (f row) = st"
    and "settlements db1 = update_row st_settlement_id sid f (settlements db)"
    "submit_intents db1 = submit_intents db" "settlement_events db1 = settlement_events db"
    "st = SAuthorized \<longrightarrow> authorization_bound (f row)"
  shows "runtime_effect jcs db l db'"
  using assms(5)
proof (rule append_event_Inr)
  fix e
  assume "db' = db1\<lparr>settlement_events := settlement_events db1 @ [e]\<rparr>" "se_settlement_id e = sid"
    "se_state e = st" "linked jcs (settlement_events db1) e"
  then show ?thesis
    by (intro effect_move [OF assms(1-3), where es = "[e]"])
       (simp_all add: assms(4,7-10) label_intents_kept assms(6) [symmetric])
qed

lemma commit_tx_effect:
  assumes "commit_tx jcs db sid prepared k now ts = Inr (db', r)"
  shows "runtime_effect jcs db Quiet db'"
proof -
  from assms obtain row where row: "select_settlement db sid = Some row"
    by (auto simp: commit_tx_def res_simps)
  show ?thesis
  proof (cases "after_commitment (st_state row)")
    case True
    with assms row have "db' = db" by (auto simp: commit_tx_def res_simps)
    then show ?thesis by (simp add: effect_same)
  next
    case False
    with assms row obtain c h p where v: "st_state row = SValidated"
      and a: "append_event jcs (update_settlement sid (set_commitment c h ts) db) sid SExecutionCommitted
        ''execution_committed'' p ts = Inr db'"
      by (auto simp: commit_tx_def res_simps split: if_splits)
    show ?thesis
      by (rule move_effect [OF row, where f = "set_commitment c h ts", OF _ _ _ a])
         (simp_all add: v set_commitment_def immutable_def)
  qed
qed

lemma loads_column_Inr [res_simps]: "loads_column x = Inr y \<longleftrightarrow> x = Some y"
  by (auto simp: loads_column_def split: option.splits)

text \<open>What the caller has checked of the authorization before the transaction.\<close>

definition authorization_shape :: "pydict \<Rightarrow> bool" where
  "authorization_shape v \<longleftrightarrow>
     fst ` set v \<subseteq> range KStr \<and> (\<forall>(x, y)\<in>set bound_pairs. \<exists>s. item v x = PStr s)"

lemma check_authorization_shape:
  assumes "check_authorization_value verify a now = Inr (v, expires)"
  shows "authorization_shape v"
proof -
  have closed: "st_closed a ''authorization'' authorization_fields = Inr v"
    and "ignore (st_identifier (item v ''execution_request_id'') ''authorization.execution_request_id'') = Inr ()"
    "ignore (st_hash (item v ''execution_commitment_hash'') ''authorization.execution_commitment_hash'') = Inr ()"
    "ignore (st_hash (item v ''prepared_message_hash'') ''authorization.prepared_message_hash'') = Inr ()"
    "ignore (st_pubkey (item v ''signer'') ''authorization.signer'') = Inr ()"
    using assms
    unfolding check_authorization_value_def bind_unit_eq_Inr bind_res_eq_Inr run_all_Cons_Inr sum.inject
    by (elim exE conjE; simp)+
  then show ?thesis
    using st_closed_Inr [OF closed]
    by (auto simp: authorization_shape_def bound_pairs_def ignore_Inr st_identifier_def st_hash_def st_pubkey_def
        string_with_Inr)
qed

lemma authorize_tx_effect:
  assumes "authorize_tx jcs db sid v expires h ts = Inr (db', u)" "authorization_shape v"
  shows "runtime_effect jcs db Quiet db'"
proof -
  from assms(1) obtain row where row: "select_settlement db sid = Some row"
    by (auto simp: authorize_tx_def res_simps)
  show ?thesis
  proof (cases "st_state row = SAuthorized")
    case True
    with assms(1) row have "db' = db" by (auto simp: authorize_tx_def res_simps)
    then show ?thesis by (simp add: effect_same)
  next
    case False
    with assms(1) row obtain c c' p where v: "st_state row = SExecutionCommitted"
      and c: "st_commitment row = Some c'" "json_text v = Inr c"
      and same: "run_all (map (\<lambda>(a, c). reject_if (\<not> py_eq (item v a) (item c' c))
         (st_reject ''authorization_binding_mismatch'' (''authorization.'' @ a))) bound_pairs) = Inr ()"
      and a: "append_event jcs (update_settlement sid (set_authorization c h ts) db) sid SAuthorized
        ''authorization_persisted'' p ts = Inr db'"
      unfolding authorize_tx_def bind_res_eq_Inr bind_unit_eq_Inr require_row_Inr
      by (auto split: if_splits simp: bind_res_eq_Inr bind_unit_eq_Inr loads_column_Inr
          simp del: run_all.simps list.map)
    have "item c x = item c' y" if xy: "(x, y) \<in> set bound_pairs" for x y
    proof -
      obtain s where s: "item v x = PStr s"
        using assms(2) bspec [OF _ xy, of "\<lambda>(x, y). \<exists>s. item v x = PStr s"]
        unfolding authorization_shape_def by auto
      moreover have "py_eq (item v x) (item c' y)" using same xy by (force simp: run_all_eq_Inr reject_if_eq_Inr)
      moreover have "item c x = PStr s"
        using json_text_item [OF c(2) _ s] assms(2) by (simp add: authorization_shape_def)
      ultimately show ?thesis by simp
    qed
    then have "authorization_bound (set_authorization c h ts row)"
      using c(1) by (auto simp: authorization_bound_def set_authorization_def)
    then show ?thesis
      by (intro move_effect [OF row, where f = "set_authorization c h ts", OF _ _ _ a])
         (simp_all add: v set_authorization_def immutable_def)
  qed
qed

lemma set_row_state_simps [simp]:
  "st_state (set_row_state st ts r) = st" "immutable (set_row_state st ts r) = immutable r"
  by (simp_all add: set_row_state_def immutable_def)

lemma intent_tx_Inr:
  assumes "intent_tx jcs db sid i now ts = Inr (db', a)"
  obtains row c where "select_settlement db sid = Some row" "st_state row = SAuthorized"
    "st_commitment row = Some c" "st_authorization row = Some a" "item c ''executor_id'' = PStr i"
    "sid \<notin> fst ` set (submit_intents db)"
    "set_settlement_state jcs (db\<lparr>submit_intents := submit_intents db @ [(sid, ts)]\<rparr>) sid SSubmitted
       ''submit_intent_persisted'' [(KStr ''submit_intent_count'', PInt 1)] ts = Inr db'"
    "\<exists>t. st_time (item a ''expires_at'') ''authorization.expires_at'' = Inr t \<and> to_seconds (instant now) < t"
    "\<exists>t. st_time (item c ''expires_at'') ''commitment.expires_at'' = Inr t \<and> to_seconds (instant now) < t"
proof -
  from assms show thesis
    unfolding intent_tx_def bind_unit_eq_Inr bind_res_eq_Inr reject_if_eq_Inr run_all_Cons_Inr require_row_Inr
      loads_column_Inr st_utc_Inr not_not not_le not_less
    by (elim exE conjE, hypsubst) (rule that, (assumption | simp | blast)+)
qed

lemma intent_tx_effect:
  assumes "intent_tx jcs db sid i now ts = Inr (db', a)"
  shows "runtime_effect jcs db (Executes sid) db'"
  using assms
proof (rule intent_tx_Inr)
  fix row c
  let ?db = "db\<lparr>submit_intents := submit_intents db @ [(sid, ts)]\<rparr>"
  assume row: "select_settlement db sid = Some row" "st_state row = SAuthorized"
    and fresh: "sid \<notin> fst ` set (submit_intents db)"
    and "set_settlement_state jcs ?db sid SSubmitted ''submit_intent_persisted''
      [(KStr ''submit_intent_count'', PInt 1)] ts = Inr db'"
  then obtain e where "db' = (update_settlement sid (set_row_state SSubmitted ts) ?db)
      \<lparr>settlement_events := settlement_events db @ [e]\<rparr>" "se_settlement_id e = sid" "se_state e = SSubmitted"
    "linked jcs (settlement_events db) e"
    unfolding set_settlement_state_def by (elim append_event_Inr) (simp add: update_settlement_def)
  then show ?thesis
    by (intro effect_move [OF row(1), where f = "set_row_state SSubmitted ts" and es = "[e]"])
       (simp_all add: row(2) fresh update_settlement_def)
qed

lemma persist_tx_effect:
  assumes "persist_tx jcs db sid technical st et ts = Inr (db', u)"
    and st: "st \<in> {SRejected, SNeedsRecovery, SNeedsReview, SReconciling}"
  shows "runtime_effect jcs db Quiet db'"
proof -
  let ?p = "if st = SReconciling then SConfirming else st"
  from assms(1) obtain row tj db1 where row: "select_settlement db sid = Some row" "st_state row = SSubmitted"
    and a: "append_event jcs (update_settlement sid
        (set_technical ?p tj (str_of (item technical ''transaction_signature'')) ts) db) sid ?p et
        (persist_payload technical) ts = Inr db1"
    and post: "(if st = SReconciling then
        bind_res (set_settlement_state jcs db1 sid SReconciling ''independent_reconciliation_required''
          [(KStr ''technical_status'', item technical ''technical_status''),
           (KStr ''economic_completion'', PBool False)] ts) (\<lambda>db2. Inr (db2, ()))
      else Inr (db1, ())) = Inr (db', u)"
    unfolding persist_tx_def Let_def bind_unit_eq_Inr bind_res_eq_Inr reject_if_eq_Inr require_row_Inr not_not
    by blast
  define f where "f = set_technical ?p tj (str_of (item technical ''transaction_signature'')) ts"
  have f: "immutable (f r) = immutable r" "st_state (f r) = ?p" for r
    by (simp_all add: f_def set_technical_def immutable_def)
  note a = a [folded f_def]
  show ?thesis
  proof (cases "st = SReconciling")
    case False
    with post a have "append_event jcs (update_settlement sid f db) sid st et (persist_payload technical) ts = Inr db'"
      by simp
    from move_effect [OF row(1) _ _ _ this, where f = f] False show ?thesis
      using st row by (auto simp: f)
  next
    case True
    with post obtain p where s: "append_event jcs (update_settlement sid (set_row_state SReconciling ts) db1) sid
        SReconciling ''independent_reconciliation_required'' p ts = Inr db'"
      by (auto simp: set_settlement_state_def bind_res_eq_Inr)
    from a obtain e1 where e1: "db1 = update_settlement sid f db\<lparr>settlement_events := settlement_events db @ [e1]\<rparr>"
      "se_settlement_id e1 = sid" "se_state e1 = SConfirming" "linked jcs (settlement_events db) e1"
      using True by (elim append_event_Inr) simp
    from s obtain e2 where e2: "db' = update_settlement sid (set_row_state SReconciling ts) db1
        \<lparr>settlement_events := settlement_events db1 @ [e2]\<rparr>" "se_settlement_id e2 = sid"
      "se_state e2 = SReconciling" "linked jcs (settlement_events db1) e2" by (rule append_event_Inr) simp
    let ?g = "\<lambda>r. set_row_state SReconciling ts (f r)"
    have "settlements db' = update_row st_settlement_id sid ?g (settlements db)"
      using immutable_id [OF f(1)] by (simp add: e1 e2 update_row_def)
    then show ?thesis
      using e1(2-4) e2(2-4) row
      by (intro effect_move [OF row(1), where f = ?g and es = "[e1, e2]"]) (simp_all add: f e1(1) e2(1))
  qed
qed

lemma recovery_tx_effect:
  assumes "recovery_tx jcs db w ts = Inr (db', r)" "select_settlement db (rw_settlement w) = Some row"
    "recovery_stage (st_state row)" "recovery_target (rw_target w)"
  shows "runtime_effect jcs db (Writes w) db'"
proof -
  let ?f = "set_recovered (rw_target w) (rw_signature w) ts"
  from assms(1) obtain recoveries et p where
    a: "append_event jcs (update_settlement (rw_settlement w) ?f (db\<lparr>settlement_recoveries := recoveries\<rparr>))
       (rw_settlement w) (rw_target w) et p ts = Inr db'"
    unfolding recovery_tx_def Let_def bind_unit_eq_Inr bind_res_eq_Inr by blast
  have "rw_target w \<noteq> SAuthorized" using assms(4) by (auto simp: recovery_target_def)
  then show ?thesis
    by (intro move_effect [OF assms(2), where f = ?f, OF _ _ _ a])
       (simp_all add: assms(3,4) set_recovered_def immutable_def)
qed

lemma complete_tx_effect:
  assumes "complete_tx jcs db sid row normalized ts = Inr (db', r)"
    and row: "select_settlement db sid = Some row" "reconcilable (st_state row)"
  shows "runtime_effect jcs db Quiet db'"
proof -
  from assms(1) obtain c h et p where
    a: "append_event jcs (update_settlement sid (set_completed c h ts) db) sid SCompleted et p ts = Inr db'"
    unfolding complete_tx_def Let_def bind_unit_eq_Inr bind_res_eq_Inr by blast
  have "settlement_edge (st_state row) SCompleted" using row(2) by (cases "st_state row") simp_all
  then show ?thesis
    by (intro move_effect [OF row(1), where f = "set_completed c h ts", OF _ _ _ a])
       (simp_all add: set_completed_def immutable_def)
qed

lemma set_state_effect:
  assumes "set_settlement_state jcs db sid st et p ts = Inr db'" "select_settlement db sid = Some row"
    "settlement_edge (st_state row) st" "st \<noteq> SSubmitted" "st \<noteq> SAuthorized"
  shows "runtime_effect jcs db Quiet db'"
  by (rule move_effect [OF assms(2), where f = "set_row_state st ts",
        OF _ _ _ assms(1) [unfolded set_settlement_state_def]]) (simp_all add: assms(3-5))

lemma reconcile_tx_effect:
  assumes "reconcile_tx jcs db sid normalized fps ts = Inr (db', r)"
  shows "runtime_effect jcs db Quiet db'"
proof -
  from assms obtain row where row: "select_settlement db sid = Some row"
    by (auto simp: reconcile_tx_def bind_res_eq_Inr require_row_Inr)
  consider "db' = db" | st et p where "reconcilable (st_state row)" "st \<in> {SDisputed, SNeedsReview}"
      "set_settlement_state jcs db sid st et p ts = Inr db'"
    | "reconcilable (st_state row)" "complete_tx jcs db sid row normalized ts = Inr (db', r)"
    using assms unfolding reconcile_tx_def bind_res_eq_Inr bind_unit_eq_Inr require_row_Inr row
    by (auto split: if_splits simp: bind_res_eq_Inr)
  then show ?thesis
  proof cases
    case 1
    then show ?thesis by (simp add: effect_same)
  next
    case 2
    then have "settlement_edge (st_state row) st" by (cases "st_state row") auto
    with 2 show ?thesis by (intro set_state_effect [OF 2(3) row]) auto
  next
    case 3
    then show ?thesis using complete_tx_effect row by blast
  qed
qed

lemma validated_request_positive:
  "validate_settlement_request jcs r s now = Inr q \<Longrightarrow> 0 < sq_requested q"
  by (elim validate_settlement_requestE) (drule st_amount_Inr, simp)

lemma prepare_registrationE:
  assumes "prepare_registration jcs r s now = Inr (q, row, ts)"
  obtains a b c where "validate_settlement_request jcs r s now = Inr q" "row = new_settlement q a b c ts"
    "format_time now = Inr ts" "0 < sq_requested q"
  using assms by (auto simp: prepare_registration_def bind_res_eq_Inr dest: validated_request_positive)

lemma insert_settlement_effect:
  assumes ins: "insert_settlement jcs db q row ts = Inr db'" and row: "row = new_settlement q a b c ts"
    and checks: "check_reservation db q = Inr ()" "0 < sq_requested q"
     "\<forall>r\<in>set (settlements db). st_settlement_id r \<noteq> sq_settlement_id q"
    "\<forall>r\<in>set (settlements db). \<not> (same_channel r (sq_channel_id q) (sq_epoch q) \<and> st_idempotency_key r = sq_idempotency_key q)"
  shows "runtime_effect jcs db Quiet db'"
proof -
  let ?sid = "sq_settlement_id q" and ?f = "\<lambda>r. r\<lparr>st_state := SValidated\<rparr>"
  have id: "st_settlement_id row = ?sid" by (simp add: row new_settlement_def)
  from ins obtain db1 et1 et2 p1 p2 where
    a: "append_event jcs (db\<lparr>settlements := insert_row row (settlements db)\<rparr>) ?sid SRequested et1 p1 ts = Inr db1"
       "append_event jcs (update_settlement ?sid ?f db1) ?sid SValidated et2 p2 ts = Inr db'"
    unfolding insert_settlement_def bind_res_eq_Inr by blast
  from a(1) obtain e1 where e1: "db1 = db\<lparr>settlements := insert_row row (settlements db),
      settlement_events := settlement_events db @ [e1]\<rparr>" "se_settlement_id e1 = ?sid" "se_state e1 = SRequested"
      "linked jcs (settlement_events db) e1" by (rule append_event_Inr) simp
  from a(2) obtain e2 where e2: "db' = update_settlement ?sid ?f db1
      \<lparr>settlement_events := settlement_events db1 @ [e2]\<rparr>" "se_settlement_id e2 = ?sid"
      "se_state e2 = SValidated" "linked jcs (settlement_events db1) e2" by (rule append_event_Inr) simp
  have "update_row st_settlement_id ?sid ?f (settlements db) = settlements db"
    using checks(3) by (simp add: update_row_def map_idI)
  then have "settlements db' = insert_row (?f row) (settlements db)"
    using id by (simp add: e1(1) e2(1) update_row_def insert_row_def)
  then show ?thesis
    using e1(2-4) e2(2-4)
    by (intro effect_register [OF checks, where row = "?f row" and a = a and b = b and c = c and ts = ts and es = "[e1, e2]"])
       (simp_all add: row e1(1) e2(1))
qed

lemma register_new_effect:
  assumes "register_new jcs db q row ts = Inr (db', x)" "row = new_settlement q a b c ts" "0 < sq_requested q"
  shows "runtime_effect jcs db Quiet db'"
proof (cases "find (\<lambda>r. st_settlement_id r = sq_settlement_id q \<or>
             same_channel r (sq_channel_id q) (sq_epoch q) \<and> st_idempotency_key r = sq_idempotency_key q)
           (settlements db)")
  case None
  with assms have "check_reservation db q = Inr ()" "insert_settlement jcs db q row ts = Inr db'"
    by (auto simp: register_new_def bind_res_eq_Inr bind_unit_eq_Inr)
  with insert_settlement_effect [OF _ assms(2)] assms(3) None show ?thesis
    unfolding find_None_iff by blast
next
  case (Some r)
  with assms have "db' = db" by (auto simp: register_new_def bind_unit_eq_Inr)
  then show ?thesis by (simp add: effect_same)
qed

lemma register_request_db:
  "fst (register_request jcs db r s t) =
     (case bind_res (st_closed r ''request'' request_fields) (\<lambda>supplied.
           bind_res (st_identifier (item supplied ''settlement_id'') ''request.settlement_id'') (\<lambda>sid.
           bind_res (sha256_canonical_json jcs (PDict supplied)) (\<lambda>h. Inr (sid, h)))) of
        Inl e \<Rightarrow> db
      | Inr (sid, h) \<Rightarrow>
          (case select_settlement db sid of
             Some existing \<Rightarrow> db
           | None \<Rightarrow>
               (case prepare_registration jcs r s t of
                  Inl e \<Rightarrow> db
                | Inr (q, row, ts) \<Rightarrow>
                    fst (transaction db (on_integrity_error (st_reject ''idempotency_conflict'' ''request'')
                        (register_new jcs db q row ts))))))"
  unfolding register_request_def by (simp split: sum.split prod.split option.split)

lemma register_request_effect: "runtime_effect jcs db Quiet (fst (register_request jcs db r s t))"
proof -
  have "runtime_effect jcs db Quiet (fst (transaction db (on_integrity_error e (register_new jcs db q row ts))))"
    if "prepare_registration jcs r s t = Inr (q, row, ts)" for q row ts e
    using that
    by (elim prepare_registrationE)
       (rule fst_transaction, rule effect_same, auto simp: on_integrity_error_Inr intro: register_new_effect)
  then show ?thesis
    unfolding register_request_db by (simp split: sum.split option.split prod.split add: effect_same)
qed

lemma record_recovery_effect:
  assumes "select_settlement db (rw_settlement w) = Some row" "recovery_stage (st_state row)"
    "recovery_target (rw_target w)"
  shows "runtime_effect jcs db (Writes w) (fst (record_recovery jcs db w))"
  unfolding record_recovery_def
  by (rule fst_transaction, rule effect_same)
     (auto simp: bind_res_eq_Inr intro: recovery_tx_effect [OF _ assms])

text \<open>What a read has established when it decides on a write.\<close>

definition read_ready :: "runtime \<Rightarrow> recovery_write \<Rightarrow> bool" where
  "read_ready db w \<longleftrightarrow> recovery_target (rw_target w) \<and>
     (\<exists>row. select_settlement db (rw_settlement w) = Some row \<and> recovery_stage (st_state row))"

lemma recovery_plan_call:
  assumes "recovery_plan jcs row sid i out now = Inr (RecoverWrites w e)"
  shows "rw_settlement w = sid \<and> recovery_target (rw_target w)"
  using assms
  by (auto simp: recovery_plan_def Let_def bind_res_eq_Inr recovery_target_def
      split: recovery_outcome.splits sum.splits exn.splits exn_class.splits if_splits)

lemma recover_read_row:
  assumes "recover_read jcs db sid ex now = Inr (RecoverWrites w e)"
  shows "rw_settlement w = sid \<and> recovery_target (rw_target w) \<and>
    (\<exists>row. select_settlement db sid = Some row \<and> recoverable (st_state row))"
  using assms
  by (auto simp: recover_read_def bind_res_eq_Inr require_row_Inr dest: recovery_plan_call split: if_splits)

lemma divergence_read_row:
  assumes "divergence_read jcs db sid ps now = Inr w"
  shows "rw_settlement w = sid \<and> recovery_target (rw_target w) \<and>
    (\<exists>row. select_settlement db sid = Some row \<and> recoverable (st_state row))"
  using assms
  by (auto simp: divergence_read_def settlement_get_def record_from_row_def bind_res_eq_Inr bind_unit_eq_Inr
      reject_if_eq_Inr require_row_Inr recovery_target_def)

lemma reads_ready: "settlement_step jcs db (Reads w) db' \<Longrightarrow> read_ready db' w"
  by (erule settlement_step.cases)
     (auto dest!: recover_read_row divergence_read_row simp: read_ready_def recovery_stage_def)

lemma persist_technical_effect:
  assumes "st \<in> {SRejected, SNeedsRecovery, SNeedsReview, SReconciling}"
  shows "runtime_effect jcs db Quiet (fst (persist_technical jcs db sid technical st et now))"
  unfolding persist_technical_def
  by (rule fst_transaction, rule effect_same) (auto simp: bind_res_eq_Inr intro: persist_tx_effect [OF _ assms])

lemma submit_finish_effect: "runtime_effect jcs db Quiet (fst (submit_finish jcs db sid a out now))"
  unfolding submit_finish_def Let_def then_return_def
  by (auto split: sum.split exec_outcome.split intro!: effect_same persist_technical_effect)

lemma step_effect:
  assumes "settlement_step jcs db l db'" "\<And>w. l = Writes w \<Longrightarrow> read_ready db w"
  shows "runtime_effect jcs db l db'"
  using assms
proof (induction rule: settlement_step.induct)
  case (register db r s t)
  show ?case by (rule register_request_effect)
next
  case (commit db sid p k t)
  show ?case unfolding commit_execution_def
    by (rule fst_transaction, rule effect_same) (auto simp: bind_res_eq_Inr intro: commit_tx_effect)
next
  case (authorize db sid a v t)
  have "runtime_effect jcs db Quiet (fst (transaction db
        (bind_res (check_authorization_value v a t) (\<lambda>(v, expires).
         bind_res (format_time t) (\<lambda>ts.
         bind_res (sha256_canonical_json jcs (PDict v)) (\<lambda>h.
         authorize_tx jcs db sid v expires h ts))))))"
    by (rule fst_transaction, rule effect_same) (auto simp: bind_res_eq_Inr intro: authorize_tx_effect dest: check_authorization_shape)
  then show ?case unfolding record_authorization_def by (auto split: prod.split sum.split) 
next
  case (intent db sid i t db' a)
  then show ?case
    by (auto simp: submit_intent_def transaction_def bind_res_eq_Inr on_integrity_error_Inr
      split: sum.splits intro: intent_tx_effect)
next
  case (reconciliation db sid obs vs t)
  show ?case unfolding reconcile_def
    by (rule fst_transaction, rule effect_same)
       (auto simp: bind_res_eq_Inr bind_unit_eq_Inr intro: reconcile_tx_effect)
next
  case (finish db sid a out t)
  show ?case by (rule submit_finish_effect)
next
  case (recovery_written db w)
  then show ?case by (auto simp: read_ready_def intro: record_recovery_effect)
qed (rule effect_same; simp)+

end
