(* ===== verification/Settlement_Invariants.thy ===== *)
theory Settlement_Invariants
  imports Settlement_Effects
begin

text \<open>
  What holds in every state the settlement runtime can reach, and along every interleaving of its
  steps: unique keys, one durable intent per executor call, the lifecycle graph with the edges a late
  recovery adds, the hash-chained journal, and reservations within the right and the vault as far as
  no recovery reopened a settlement that was over.
\<close>

section \<open>The invariant\<close>

definition obligation_key :: "settlement_row \<Rightarrow> string \<times> int \<times> string" where
  "obligation_key r = (st_channel_id r, st_epoch r, st_obligation_id r)"

definition idempotency_scope :: "settlement_row \<Rightarrow> string \<times> int \<times> string" where
  "idempotency_scope r = (st_channel_id r, st_epoch r, st_idempotency_key r)"

definition keys_unique :: "runtime \<Rightarrow> bool" where
  "keys_unique db \<longleftrightarrow>
     distinct (map st_settlement_id (settlements db)) \<and> distinct (map obligation_key (settlements db)) \<and>
     distinct (map idempotency_scope (settlements db)) \<and>
     distinct (map st_execution_request_id (settlements db))"

definition channel_epoch :: "settlement_row \<Rightarrow> string \<times> int" where
  "channel_epoch r = (st_channel_id r, st_epoch r)"

definition settlement_live :: "settlement_row \<Rightarrow> bool" where
  "settlement_live r \<longleftrightarrow> \<not> terminal_reservation (st_state r)"

definition within_right :: "int \<Rightarrow> settlement_row \<Rightarrow> bool" where
  "within_right m r \<longleftrightarrow> st_settled r + m \<le> st_activated r \<and> m \<le> st_vault r"

text \<open>
  A settlement is reopened when its journal goes on after an entry that ended it. A reservation stands
  while its row is live and was never reopened; \<open>flagged\<close> marks the rows whose reservation stands.
\<close>

definition reopened :: "runtime \<Rightarrow> string \<Rightarrow> bool" where
  "reopened db sid \<longleftrightarrow> list_ex (\<lambda>e. terminal_reservation (se_state e)) (butlast (events_for db sid))"

definition standing :: "runtime \<Rightarrow> settlement_row \<Rightarrow> bool" where
  "standing db r \<longleftrightarrow> settlement_live r \<and> \<not> reopened db (st_settlement_id r)"

definition flagged :: "runtime \<Rightarrow> settlement_row list \<Rightarrow> (settlement_row \<times> bool) list" where
  "flagged db rows = map (\<lambda>r. (r, standing db r)) rows"

definition standing_reserved :: "runtime \<Rightarrow> settlement_row list \<Rightarrow> settlement_row \<Rightarrow> int" where
  "standing_reserved db rows r =
     sum_list (map st_requested (filter (\<lambda>x. channel_epoch x = channel_epoch r \<and> standing db x) rows))"

definition reservations_ok :: "runtime \<Rightarrow> bool" where
  "reservations_ok db \<longleftrightarrow>
     booked (channel_epoch \<circ> fst) (st_requested \<circ> fst) snd (\<lambda>m p. within_right m (fst p)) []
       (flagged db (settlements db)) \<and>
     se_settlement_id ` set (settlement_events db) \<subseteq> st_settlement_id ` set (settlements db)"

fun past_submission :: "settlement_state \<Rightarrow> bool" where
  "past_submission SRequested = False"
| "past_submission SValidated = False"
| "past_submission SExecutionCommitted = False"
| "past_submission SAuthorized = False"
| "past_submission _ = True"

definition past_ids :: "settlement_row list \<Rightarrow> string set" where
  "past_ids rows = st_settlement_id ` {r \<in> set rows. past_submission (st_state r)}"

definition intents_ok :: "runtime \<Rightarrow> bool" where
  "intents_ok db \<longleftrightarrow>
     distinct (map fst (submit_intents db)) \<and>
     fst ` set (submit_intents db) = past_ids (settlements db)"

definition journal_ok :: "runtime \<Rightarrow> bool" where
  "journal_ok db \<longleftrightarrow>
     (\<forall>sid. chained se_sequence se_previous_hash se_event_hash zero_hash 1 (events_for db sid)) \<and>
     distinct (map se_event_hash (settlement_events db)) \<and>
     (\<forall>r\<in>set (settlements db). events_for db (st_settlement_id r) \<noteq> [] \<and>
        se_state (last (events_for db (st_settlement_id r))) = st_state r)"

definition authorizations_ok :: "runtime \<Rightarrow> bool" where
  "authorizations_ok db \<longleftrightarrow>
     (\<forall>r\<in>set (settlements db). st_state r = SAuthorized \<longrightarrow> authorization_bound r)"

definition runtime_inv :: "runtime \<Rightarrow> bool" where
  "runtime_inv db \<longleftrightarrow>
     keys_unique db \<and> intents_ok db \<and> authorizations_ok db \<and> journal_ok db"

lemma edge_releases: "settlement_edge a b \<Longrightarrow> \<not> terminal_reservation a"
  by (cases a) auto

section \<open>Journal\<close>

lemma latest_event_None: "latest_event es = None \<longleftrightarrow> es = []"
  by (cases es) (auto split: option.splits)

interpretation settlement_log: keyed_log se_sequence se_previous_hash se_event_hash zero_hash latest_event se_settlement_id
proof
  show "latest_event (es @ [e]) = Some e" if "\<forall>x\<in>set es. se_sequence x < se_sequence e" for es e
    using that by (induction es) auto
qed simp

abbreviation log_chained :: "settlement_event list \<Rightarrow> bool" where
  "log_chained \<equiv> chained se_sequence se_previous_hash se_event_hash zero_hash 1"

lemma linked_chained:
  assumes "linked jcs old e" "\<forall>s. log_chained (filter (\<lambda>x. se_settlement_id x = s) old)"
  shows "log_chained (filter (\<lambda>x. se_settlement_id x = s) (old @ [e]))"
  by (rule settlement_log.keyed_append) (use assms in \<open>simp_all add: linked_def Let_def\<close>)

lemma extends_journal_step:
  assumes "extends_journal jcs sid old new"
    and "\<forall>s. log_chained (filter (\<lambda>e. se_settlement_id e = s) old)"
    and "distinct (map se_event_hash old)"
  shows "(\<forall>s. log_chained (filter (\<lambda>e. se_settlement_id e = s) (old @ new))) \<and>
    distinct (map se_event_hash (old @ new)) \<and> (\<forall>e\<in>set new. se_settlement_id e = sid)"
  using assms
proof (induction new arbitrary: old)
  case (Cons e es)
  then have e: "linked jcs old e" "se_settlement_id e = sid" "extends_journal jcs sid (old @ [e]) es" by simp_all
  have "distinct (map se_event_hash (old @ [e]))"
    using e(1) Cons.prems(3) by (simp add: linked_def Let_def)
  moreover have "\<forall>s. log_chained (filter (\<lambda>x. se_settlement_id x = s) (old @ [e]))"
    using linked_chained [OF e(1) Cons.prems(2)] by blast
  ultimately have "(\<forall>s. log_chained (filter (\<lambda>e. se_settlement_id e = s) ((old @ [e]) @ es))) \<and>
    distinct (map se_event_hash ((old @ [e]) @ es)) \<and> (\<forall>e\<in>set es. se_settlement_id e = sid)"
    by (intro Cons.IH e(3))
  with e(2) show ?case by (simp only: append_assoc append_Cons append_Nil list.set ball_simps) simp
qed simp

section \<open>Every step keeps the invariant\<close>

lemma filter_all_none: "\<forall>e\<in>set es. f e = k \<Longrightarrow> filter (\<lambda>e. f e = s) es = (if s = k then es else [])"
  by (induction es) auto

lemma events_for_extend:
  assumes "settlement_events db' = settlement_events db @ es" "\<forall>e\<in>set es. se_settlement_id e = k"
  shows "events_for db' s = events_for db s @ (if s = k then es else [])"
  using filter_all_none [OF assms(2), of s] by (simp add: events_for_def assms(1))

lemma check_reservation_Inr:
  assumes "check_reservation db q = Inr ()"
  shows "\<forall>r\<in>set (settlements db). \<not> (same_channel r (sq_channel_id q) (sq_epoch q) \<and>
      st_obligation_id r = sq_obligation_id q)"
    and "sq_settled q + (reserved db (sq_channel_id q) (sq_epoch q) + sq_requested q) \<le> sq_activated q"
    and "reserved db (sq_channel_id q) (sq_epoch q) + sq_requested q \<le> sq_vault q"
    and "\<forall>r\<in>set (settlements db). st_execution_request_id r \<noteq> sq_execution_request_id q"
    and "\<forall>a. latest_completed db (sq_channel_id q) (sq_epoch q) = Some a \<longrightarrow> a \<le> sq_settled q"
  using assms unfolding check_reservation_def Let_def run_all_Cons_Inr reject_if_eq_Inr
  by (auto simp: list_ex_iff find_None_iff reject_if_eq_Inr split: option.splits)

lemma keys_step:
  assumes "runtime_effect jcs db l db'" "keys_unique db"
  shows "keys_unique db'"
  using assms
proof (induction rule: runtime_effect.induct)
  case (effect_register db q row a b c ts db' es)
  have row: "st_settlement_id row = sq_settlement_id q" "st_channel_id row = sq_channel_id q"
    "st_epoch row = sq_epoch q" "st_obligation_id row = sq_obligation_id q"
    "st_idempotency_key row = sq_idempotency_key q" "st_execution_request_id row = sq_execution_request_id q"
    using effect_register by (simp_all add: new_settlement_def)
  have "st_settlement_id row \<notin> st_settlement_id ` set (settlements db)"
    "st_execution_request_id row \<notin> st_execution_request_id ` set (settlements db)"
    "obligation_key row \<notin> obligation_key ` set (settlements db)"
    "idempotency_scope row \<notin> idempotency_scope ` set (settlements db)"
    using effect_register(3,4) check_reservation_Inr(1,4) [OF effect_register(1)]
    by (auto simp: row obligation_key_def idempotency_scope_def same_channel_def image_iff)
  then show ?case
    using effect_register(6) effect_register.prems by (simp add: keys_unique_def insert_row_def)
next
  case (effect_move db sid row f l db' es)
  have same: "obligation_key (f r) = obligation_key r" "idempotency_scope (f r) = idempotency_scope r"
    "st_execution_request_id (f r) = st_execution_request_id r" "st_settlement_id (f r) = st_settlement_id r" for r
    using effect_move(2) [of r] by (simp_all add: immutable_def obligation_key_def idempotency_scope_def)
  show ?case
    using effect_move.prems by (simp add: keys_unique_def effect_move(5) map_update_row_column same)
qed simp

lemma edge_past: "settlement_edge a b \<Longrightarrow> b \<noteq> SSubmitted \<Longrightarrow> past_submission a = past_submission b"
  by (cases a) auto

lemma edge_submitted: "settlement_edge a SSubmitted \<Longrightarrow> \<not> past_submission a"
  by (cases a) auto

lemma move_submitted:
  "label_moves l sid a b \<Longrightarrow> b = SSubmitted \<Longrightarrow> l = Executes sid \<and> settlement_edge a SSubmitted"
  by (cases l) (auto simp: recovery_target_def)

lemma move_past: "label_moves l sid a b \<Longrightarrow> b \<noteq> SSubmitted \<Longrightarrow> past_submission a = past_submission b"
  by (cases l) (auto simp: edge_past recovery_stage_def recovery_target_def elim!: recoverable.elims(2))

lemma past_update:
  assumes "distinct (map st_settlement_id rows)" "select_row st_settlement_id rows sid = Some row"
    "\<And>r. st_settlement_id (f r) = st_settlement_id r"
  shows "past_ids (update_row st_settlement_id sid f rows) =
    (past_ids rows - {sid}) \<union> (if past_submission (st_state (f row)) then {sid} else {})"
    and "sid \<in> past_ids rows \<longleftrightarrow> past_submission (st_state row)"
proof -
  have only: "r = row" if "r \<in> set rows" "st_settlement_id r = sid" for r
    using select_row_unique [OF assms(1) that(1)] assms(2) that(2) by simp
  have row: "row \<in> set rows" "st_settlement_id row = sid" using select_row_key [OF assms(2)] by simp_all
  have "{r \<in> set rows. st_settlement_id r = sid} = {row}" using only row by blast
  then have upd: "set (update_row st_settlement_id sid f rows) = {f row} \<union> {r \<in> set rows. st_settlement_id r \<noteq> sid}"
    by (simp add: set_update_row)
  have "{r \<in> set (update_row st_settlement_id sid f rows). past_submission (st_state r)} =
      (if past_submission (st_state (f row)) then {f row} else {}) \<union>
      {r \<in> set rows. st_settlement_id r \<noteq> sid \<and> past_submission (st_state r)}"
    by (auto simp: upd)
  moreover have "st_settlement_id ` {r \<in> set rows. st_settlement_id r \<noteq> sid \<and> past_submission (st_state r)} =
      past_ids rows - {sid}"
    by (auto simp: past_ids_def)
  ultimately show "past_ids (update_row st_settlement_id sid f rows) =
    (past_ids rows - {sid}) \<union> (if past_submission (st_state (f row)) then {sid} else {})"
    using row(2) assms(3) [of row] by (simp add: past_ids_def [of "update_row _ _ _ _"] image_Un)
  show "sid \<in> past_ids rows \<longleftrightarrow> past_submission (st_state row)"
  proof
    assume "sid \<in> past_ids rows"
    then obtain r where "r \<in> set rows" "st_settlement_id r = sid" "past_submission (st_state r)"
      unfolding past_ids_def by blast
    with only show "past_submission (st_state row)" by blast
  next
    assume "past_submission (st_state row)"
    with row show "sid \<in> past_ids rows" unfolding past_ids_def by blast
  qed
qed

lemma intents_step:
  assumes "runtime_effect jcs db l db'" "keys_unique db" "intents_ok db"
  shows "intents_ok db'"
  using assms
proof (induction rule: runtime_effect.induct)
  case (effect_register db q row a b c ts db' es)
  have "\<not> past_submission (st_state row)" by (simp add: effect_register(5))
  then have "past_ids (settlements db') = past_ids (settlements db)"
    by (auto simp: past_ids_def effect_register(6) insert_row_def)
  then show ?case using effect_register.prems by (simp add: intents_ok_def effect_register(7))
next
  case (effect_move db sid row f l db' es)
  have "distinct (map st_settlement_id (settlements db))"
    using effect_move.prems(1) by (simp add: keys_unique_def)
  note past = past_update [OF this effect_move(1) immutable_id [OF effect_move(2)], folded effect_move(5)]
  show ?case
  proof (cases "st_state (f row) = SSubmitted")
    case True
    from move_submitted [OF effect_move(3) True] have l: "l = Executes sid" "settlement_edge (st_state row) SSubmitted"
      by simp_all
    with True have "past_ids (settlements db') = insert sid (past_ids (settlements db))"
      using past edge_submitted [OF l(2)] by simp
    moreover obtain ts where "submit_intents db' = submit_intents db @ [(sid, ts)]"
      "sid \<notin> fst ` set (submit_intents db)"
      using l(1) effect_move(4) by auto
    ultimately show ?thesis using effect_move.prems(2) by (simp add: intents_ok_def)
  next
    case False
    then have "past_ids (settlements db') = past_ids (settlements db)"
      using past move_past [OF effect_move(3)] by auto
    moreover from False effect_move(3,4) have "submit_intents db' = submit_intents db" by (cases l) simp_all
    ultimately show ?thesis using effect_move.prems(2) by (simp add: intents_ok_def)
  qed
qed simp

lemma authorizations_step:
  assumes "runtime_effect jcs db l db'" "keys_unique db" "authorizations_ok db"
  shows "authorizations_ok db'"
  using assms
proof (induction rule: runtime_effect.induct)
  case (effect_move db sid row f l db' es)
  have "authorization_bound r" if r: "r \<in> set (settlements db')" "st_state r = SAuthorized" for r
  proof (cases "r \<in> set (settlements db)")
    case True
    with r effect_move.prems(2) show ?thesis by (simp add: authorizations_ok_def)
  next
    case False
    with r obtain x where x: "r = f x" "x \<in> set (settlements db)" "st_settlement_id x = sid"
      by (auto simp: effect_move(5) set_update_row)
    with effect_move.prems(1) effect_move(1) have "x = row"
      using select_row_unique [of st_settlement_id "settlements db" x] by (simp add: keys_unique_def)
    with x r effect_move(11) show ?thesis by simp
  qed
  then show ?case by (simp add: authorizations_ok_def)
qed (auto simp: authorizations_ok_def insert_row_def)

lemma journal_step:
  assumes "runtime_effect jcs db l db'" "keys_unique db" "journal_ok db"
  shows "journal_ok db'"
  using assms
proof (induction rule: runtime_effect.induct)
  case (effect_register db q row a b c ts db' es)
  have j: "(\<forall>s. log_chained (events_for db' s)) \<and> distinct (map se_event_hash (settlement_events db')) \<and>
      (\<forall>e\<in>set es. se_settlement_id e = sq_settlement_id q)"
    using extends_journal_step [OF effect_register(9)] effect_register.prems(2)
    unfolding journal_ok_def events_for_def effect_register(8) by blast
  note ev = events_for_extend [OF effect_register(8), of "sq_settlement_id q"]
  have "events_for db' (st_settlement_id r) \<noteq> [] \<and> se_state (last (events_for db' (st_settlement_id r))) = st_state r"
    if "r \<in> set (settlements db')" for r
  proof (cases "r \<in> set (settlements db)")
    case True
    with effect_register(3) effect_register.prems(2) j show ?thesis by (simp add: ev journal_ok_def)
  next
    case False
    with that have "r = row" by (simp add: effect_register(6) insert_row_def)
    with j effect_register(5,10,11) show ?thesis by (simp add: ev new_settlement_def)
  qed
  with j show ?case by (simp add: journal_ok_def)
next
  case (effect_move db sid row f l db' es)
  have j: "(\<forall>s. log_chained (events_for db' s)) \<and> distinct (map se_event_hash (settlement_events db')) \<and>
      (\<forall>e\<in>set es. se_settlement_id e = sid)"
    using extends_journal_step [OF effect_move(7)] effect_move.prems(2)
    unfolding journal_ok_def events_for_def effect_move(6) by blast
  note ev = events_for_extend [OF effect_move(6), of sid]
  have "events_for db' (st_settlement_id r) \<noteq> [] \<and> se_state (last (events_for db' (st_settlement_id r))) = st_state r"
    if "r \<in> set (settlements db')" for r
  proof (cases "st_settlement_id r = sid")
    case True
    have "distinct (map st_settlement_id (settlements db'))"
      using keys_step [OF runtime_effect.effect_move [OF effect_move.hyps]] effect_move.prems
      by (simp add: keys_unique_def)
    from select_row_unique [OF this that] True have "select_settlement db' sid = Some r" by simp
    then have "r = f row"
      using immutable_id [OF effect_move(2)] effect_move(1)
      by (simp add: effect_move(5) settlement_table.sel_upd)
    with j effect_move(8,9) True show ?thesis by (simp add: ev)
  next
    case False
    with that have "r \<in> set (settlements db)"
      using immutable_id [OF effect_move(2)] select_row_key [OF effect_move(1)]
      by (auto simp: effect_move(5) set_update_row)
    with False effect_move.prems(2) j show ?thesis by (simp add: ev journal_ok_def)
  qed
  with j show ?case by (simp add: journal_ok_def)
qed simp

lemma runtime_inv_init: "runtime_inv runtime_init"
  by (auto simp: runtime_inv_def keys_unique_def intents_ok_def authorizations_ok_def journal_ok_def runtime_init_def
      events_for_def past_ids_def)

lemma runtime_inv_step: "runtime_inv db \<Longrightarrow> runtime_effect jcs db l db' \<Longrightarrow> runtime_inv db'"
  unfolding runtime_inv_def
  by (blast intro: keys_step intents_step authorizations_step journal_step)

interpretation settlement_runtime: preserved "\<lambda>db db'. \<exists>l. runtime_effect jcs db l db'" runtime_inv for jcs
  by unfold_locales (blast intro: runtime_inv_step)

section \<open>Rows along a run\<close>

text \<open>One row read before and after some steps, with their labels.\<close>

definition written :: "step_label list \<Rightarrow> string \<Rightarrow> bool" where
  "written ls sid \<longleftrightarrow> (\<exists>w. Writes w \<in> set ls \<and> rw_settlement w = sid)"

abbreviation lifecycle :: "settlement_state \<Rightarrow> settlement_state \<Rightarrow> bool" where
  "lifecycle a b \<equiv> settlement_edge a b \<or> late_edge a b"

definition row_moved :: "step_label list \<Rightarrow> settlement_row \<Rightarrow> settlement_row \<Rightarrow> bool" where
  "row_moved ls a b \<longleftrightarrow>
     immutable a = immutable b \<and> lifecycle\<^sup>*\<^sup>* (st_state a) (st_state b) \<and> (st_state a = SRejected \<longrightarrow> a = b) \<and>
     (\<not> written ls (st_settlement_id a) \<longrightarrow>
        settlement_edge\<^sup>*\<^sup>* (st_state a) (st_state b) \<and> (terminal_reservation (st_state a) \<longrightarrow> a = b))"

lemma row_moved_refl [simp]: "row_moved ls a a"
  by (simp add: row_moved_def)

lemma row_moved_trans:
  assumes "row_moved ls a b" "row_moved ls' b c"
  shows "row_moved (ls @ ls') a c"
proof -
  have "st_settlement_id b = st_settlement_id a"
    using assms(1) by (auto simp: row_moved_def intro: immutable_id)
  with assms show ?thesis
    unfolding row_moved_def written_def by (auto intro: rtranclp_trans)
qed

lemma moved_row:
  assumes "label_moves l sid (st_state a) (st_state b)" "immutable b = immutable a" "st_settlement_id a = sid"
  shows "row_moved [l] a b"
proof (cases l)
  case (Writes w)
  with assms have "recovery_stage (st_state a)" "recovery_target (st_state b)" and w: "rw_settlement w = sid" by simp_all
  then have "lifecycle (st_state a) (st_state b)" "st_state a \<noteq> SRejected"
    using stage_edge recoverable_edge by (blast, auto simp: recovery_stage_def)
  with assms(2,3) Writes w show ?thesis by (auto simp: row_moved_def written_def)
qed (use assms edge_releases in \<open>auto simp: row_moved_def written_def\<close>)

lemma effect_row:
  assumes "runtime_effect jcs db l db'" "select_settlement db sid = Some row"
  shows "\<exists>row'. select_settlement db' sid = Some row' \<and> row_moved [l] row row'"
  using assms
proof (induction rule: runtime_effect.induct)
  case (effect_same l db)
  then show ?case by simp
next
  case (effect_register db q row' a b c ts db' es)
  have "st_settlement_id row' = sq_settlement_id q" using effect_register(5) by (simp add: new_settlement_def)
  with effect_register(3) have "select_settlement db (st_settlement_id row') = None"
    by (simp add: select_row_None)
  from settlement_table.ins_keeps [OF this effect_register.prems] show ?case
    by (simp add: effect_register(6))
next
  case (effect_move db sid' row' f l db' es)
  show ?case
  proof (cases "sid = sid'")
    case True
    with effect_move have "row' = row" by simp
    with True effect_move(1-3) select_row_key [OF effect_move(1)] show ?thesis
      using settlement_table.upd_read [OF immutable_id [OF effect_move(2)] effect_move(1)]
      by (auto simp: effect_move(5) intro: moved_row)
  next
    case False
    then show ?thesis
      using effect_move.prems settlement_table.upd_other [OF immutable_id [OF effect_move(2)]]
      by (simp add: effect_move(5))
  qed
qed

section \<open>Interleaved runs\<close>

text \<open>A write that may follow was decided by a read, and what the read saw of the row is still true enough.\<close>

definition reads_ready :: "step_label list \<Rightarrow> runtime \<Rightarrow> bool" where
  "reads_ready ls db \<longleftrightarrow> (\<forall>w. Reads w \<in> set ls \<longrightarrow> read_ready db w)"

lemma stage_kept_along: "lifecycle\<^sup>*\<^sup>* a b \<Longrightarrow> recovery_stage a \<Longrightarrow> recovery_stage b"
  by (induction rule: rtranclp_induct) (auto intro: stage_kept)

lemma ready_kept:
  assumes "runtime_effect jcs db l db'" "read_ready db w"
  shows "read_ready db' w"
proof -
  from assms(2) obtain row where row: "select_settlement db (rw_settlement w) = Some row"
    "recovery_stage (st_state row)" "recovery_target (rw_target w)" by (auto simp: read_ready_def)
  from effect_row [OF assms(1) row(1)] obtain row' where "select_settlement db' (rw_settlement w) = Some row'"
    "lifecycle\<^sup>*\<^sup>* (st_state row) (st_state row')" by (auto simp: row_moved_def)
  with row(2,3) stage_kept_along show ?thesis by (auto simp: read_ready_def)
qed

inductive effect_run :: "serializer \<Rightarrow> runtime \<Rightarrow> step_label list \<Rightarrow> runtime \<Rightarrow> bool" for jcs where
  effects_start: "effect_run jcs db [] db"
| effects_step: "effect_run jcs db ls db' \<Longrightarrow> runtime_effect jcs db' l db'' \<Longrightarrow> effect_run jcs db (ls @ [l]) db''"

lemma may_follow_read: "may_follow ls (Writes w) \<Longrightarrow> Reads w \<in> set ls"
  using count_list_0_iff [of ls "Reads w"] by (auto simp: may_follow_def)

lemma run_after_effects:
  assumes "settlement_run_after jcs past db ls db'" "reads_ready past db"
  shows "effect_run jcs db ls db' \<and> reads_ready (past @ ls) db'"
  using assms
proof (induction rule: settlement_run_after.induct)
  case (run_start db)
  then show ?case by (simp add: effects_start)
next
  case (run_step db ls db' l db'')
  then have ih: "effect_run jcs db ls db'" "reads_ready (past @ ls) db'" by simp_all
  have e: "runtime_effect jcs db' l db''"
  proof (rule step_effect [OF run_step.hyps(2)])
    show "read_ready db' w" if "l = Writes w" for w
      using may_follow_read [of "past @ ls" w] run_step.hyps(3) ih(2) that unfolding reads_ready_def by blast
  qed
  have "read_ready db'' w" if "Reads w \<in> set (past @ ls @ [l])" for w
    using that ih(2) e run_step.hyps(2) by (auto simp: reads_ready_def intro: ready_kept reads_ready)
  with ih(1) e show ?case by (simp add: effects_step reads_ready_def)
qed

lemma run_effects: "settlement_run jcs db ls db' \<Longrightarrow> effect_run jcs db ls db'"
  using run_after_effects [of jcs "[]"] by (simp add: reads_ready_def)

lemma effect_run_steps: "effect_run jcs db ls db' \<Longrightarrow> (\<lambda>db db'. \<exists>l. runtime_effect jcs db l db')\<^sup>*\<^sup>* db db'"
  by (induction rule: effect_run.induct) (auto intro: rtranclp.rtrancl_into_rtrancl)

lemma run_keeps_inv: "settlement_run jcs db ls db' \<Longrightarrow> runtime_inv db \<Longrightarrow> runtime_inv db'"
  using settlement_runtime.steps_inv [OF effect_run_steps [OF run_effects]] .

lemma effect_run_row:
  assumes "effect_run jcs db ls db'" "select_settlement db sid = Some row"
  shows "\<exists>row'. select_settlement db' sid = Some row' \<and> row_moved ls row row'"
  using assms
proof (induction rule: effect_run.induct)
  case (effects_step db ls db' l db'')
  then show ?case using effect_row row_moved_trans by blast
qed simp

end
