(* ===== verification/Settlement_Reservations.thy ===== *)
theory Settlement_Reservations
  imports Settlement_Invariants
begin

text \<open>
  Reservations along an interleaved run. The bound a request was admitted under is kept for the
  reservations that stand; a settlement is reopened only by the late write of a recovery, and the
  reservation that then comes back was not counted by the requests admitted meanwhile.
\<close>

interpretation settlement_book: reservation_book "channel_epoch \<circ> fst" "st_requested \<circ> fst" snd
  "\<lambda>m p. within_right m (fst p)"
  by unfold_locales (simp add: within_right_def)

abbreviation rows_booked :: "(settlement_row \<times> bool) list \<Rightarrow> (settlement_row \<times> bool) list \<Rightarrow> bool" where
  "rows_booked \<equiv> booked (channel_epoch \<circ> fst) (st_requested \<circ> fst) snd (\<lambda>m p. within_right m (fst p))"

lemma held_flagged:
  "held (channel_epoch \<circ> fst) (st_requested \<circ> fst) snd (flagged db rows) (channel_epoch r) = standing_reserved db rows r"
  by (simp add: held_def flagged_def standing_reserved_def filter_map comp_def)

lemma extends_journal_ids: "extends_journal jcs sid old es \<Longrightarrow> \<forall>e\<in>set es. se_settlement_id e = sid"
  by (induction es arbitrary: old) auto

lemma reopened_other:
  assumes "settlement_events db' = settlement_events db @ es" "\<forall>e\<in>set es. se_settlement_id e = k" "s \<noteq> k"
  shows "reopened db' s = reopened db s"
  using events_for_extend [OF assms(1,2), of s] assms(3) by (simp add: reopened_def)

text \<open>When a row moves on, its journal goes on after the entry that has its state.\<close>

lemma reopened_moved:
  assumes "settlement_events db' = settlement_events db @ es" "\<forall>e\<in>set es. se_settlement_id e = sid" "es \<noteq> []"
    and "journal_ok db" "row \<in> set (settlements db)" "st_settlement_id row = sid"
  shows "reopened db' sid \<longleftrightarrow> reopened db sid \<or> terminal_reservation (st_state row) \<or>
    (\<exists>e\<in>set (butlast es). terminal_reservation (se_state e))"
proof -
  have last: "events_for db sid \<noteq> []" "se_state (last (events_for db sid)) = st_state row"
    using assms(4-6) by (auto simp: journal_ok_def)
  have "butlast (events_for db' sid) = butlast (events_for db sid) @ [last (events_for db sid)] @ butlast es"
    using events_for_extend [OF assms(1,2), of sid] assms(3) last(1) by (simp add: butlast_append)
  then show ?thesis by (auto simp: reopened_def list_ex_iff last(2))
qed

lemma standing_reserved_le:
  assumes "\<forall>x\<in>set rows. 0 < st_requested x"
  shows "standing_reserved db rows r \<le> held channel_epoch st_requested settlement_live rows (channel_epoch r)"
  using assms by (induction rows) (auto simp: standing_reserved_def standing_def held_def)

lemma reserved_held:
  "reserved db (st_channel_id r) (st_epoch r) = held channel_epoch st_requested settlement_live (settlements db) (channel_epoch r)"
  by (simp add: reserved_def held_def channel_epoch_def settlement_live_def same_channel_def)

lemma booked_requested:
  assumes "rows_booked [] (flagged db rows)"
  shows "\<forall>x\<in>set rows. 0 < st_requested x"
proof
  fix x assume "x \<in> set rows"
  then have "(x, standing db x) \<in> set (flagged db rows)" by (simp add: flagged_def)
  from settlement_book.booked_positive [OF assms this] show "0 < st_requested x" by simp
qed

lemma reservations_step:
  assumes "runtime_effect jcs db l db'" "keys_unique db" "journal_ok db" "reservations_ok db"
  shows "reservations_ok db'"
  using assms
proof (induction rule: runtime_effect.induct)
  case (effect_register db q row a b c ts db' es)
  note ids = extends_journal_ids [OF effect_register(9)]
  have booked: "rows_booked [] (flagged db (settlements db))"
    using effect_register.prems(3) by (simp add: reservations_ok_def)
  have id: "st_settlement_id row = sq_settlement_id q" using effect_register(5) by (simp add: new_settlement_def)
  have same: "flagged db' (settlements db) = flagged db (settlements db)"
    using reopened_other [OF effect_register(8) ids] effect_register(3) by (auto simp: flagged_def standing_def)
  have "standing_reserved db (settlements db) row \<le> reserved db (sq_channel_id q) (sq_epoch q)"
    using standing_reserved_le [OF booked_requested [OF booked], of db row] reserved_held [of db row] effect_register(5)
    by (simp add: new_settlement_def)
  then have "within_right (standing_reserved db (settlements db) row + st_requested row) row"
    using check_reservation_Inr(2,3) [OF effect_register(1)] effect_register(5)
    by (simp add: within_right_def new_settlement_def)
  moreover have "flagged db' (insert_row row (settlements db)) = flagged db (settlements db) @ [(row, standing db' row)]"
    using same by (simp add: insert_row_def flagged_def)
  moreover have "0 < st_requested row" using effect_register(2,5) by (simp add: new_settlement_def)
  ultimately have "rows_booked [] (flagged db' (settlements db'))"
    using booked by (simp add: effect_register(6) settlement_book.booked_append held_flagged)
  moreover have "se_settlement_id ` set (settlement_events db') \<subseteq> st_settlement_id ` set (settlements db')"
    using effect_register.prems(3) ids id by (auto simp: reservations_ok_def effect_register(6,8) insert_row_def)
  ultimately show ?case by (simp add: reservations_ok_def)
next
  case (effect_move db sid row f l db' es)
  note ids = extends_journal_ids [OF effect_move(7)]
  note row = select_row_key [OF effect_move(1)]
  note fid = immutable_id [OF effect_move(2)]
  let ?g = "\<lambda>r. if st_settlement_id r = sid then f r else r"
  let ?released = "\<lambda>a b. channel_epoch (fst b) = channel_epoch (fst a) \<and> st_requested (fst b) = st_requested (fst a) \<and>
    (snd b \<longrightarrow> snd a) \<and> (\<forall>m. within_right m (fst a) \<longrightarrow> within_right m (fst b))"
  have "?released (r, standing db r) (?g r, standing db' (?g r))" if r: "r \<in> set (settlements db)" for r
  proof (cases "st_settlement_id r = sid")
    case True
    then have "r = row"
      using select_row_unique [of st_settlement_id "settlements db" r] r effect_move(1) effect_move.prems(1)
      by (simp add: keys_unique_def)
    moreover have "standing db' (f row) \<Longrightarrow> standing db row"
      using reopened_moved [OF effect_move(6) ids effect_move(8) effect_move.prems(2)] row fid
      by (auto simp: standing_def settlement_live_def)
    ultimately show ?thesis
      using True effect_move(2) [of row] by (simp add: channel_epoch_def within_right_def immutable_def)
  next
    case False
    then show ?thesis using reopened_other [OF effect_move(6) ids False] by (simp add: standing_def)
  qed
  then have "list_all2 ?released (flagged db (settlements db)) (flagged db' (settlements db'))"
    by (simp add: effect_move(5) flagged_def update_row_def list_all2_map1 list_all2_map2 list_all2_same)
  then have "rows_booked [] (flagged db' (settlements db'))"
    using settlement_book.booked_released [of _ _ "[]" "[]"] effect_move.prems(3) by (simp add: reservations_ok_def)
  moreover have "se_settlement_id ` set (settlement_events db') \<subseteq> st_settlement_id ` set (settlements db')"
  proof -
    have "st_settlement_id ` set (settlements db') = st_settlement_id ` set (settlements db)"
      using map_key_update_row [where key = st_settlement_id and f = f, OF fid]
      by (metis effect_move(5) list.set_map)
    with effect_move.prems(3) ids row show ?thesis by (auto simp: reservations_ok_def effect_move(6))
  qed
  ultimately show ?case by (simp add: reservations_ok_def)
qed simp

text \<open>Only the write of a recovery reopens a settlement.\<close>

lemma effect_reopened:
  assumes "runtime_effect jcs db l db'" "journal_ok db" "reservations_ok db" "reopened db' sid"
  shows "reopened db sid \<or> written [l] sid"
  using assms
proof (induction rule: runtime_effect.induct)
  case (effect_register db q row a b c ts db' es)
  note ids = extends_journal_ids [OF effect_register(9)]
  show ?case
  proof (cases "sid = sq_settlement_id q")
    case True
    have "events_for db sid = []"
      using effect_register(3) effect_register.prems(2) True
      by (auto simp: events_for_def reservations_ok_def filter_empty_conv image_subset_iff)
    then have "events_for db' sid = es"
      using events_for_extend [OF effect_register(8) ids, of sid] True by simp
    then show ?thesis
      using effect_register(12) effect_register.prems(3) by (auto simp: reopened_def list_ex_iff dest: in_set_butlastD)
  qed (use effect_register.prems(3) reopened_other [OF effect_register(8) ids] in blast)
next
  case (effect_move db sid' row f l db' es)
  note ids = extends_journal_ids [OF effect_move(7)]
  note row = select_row_key [OF effect_move(1)]
  show ?case
  proof (cases "sid = sid'")
    case True
    with effect_move.prems(3) have "reopened db sid \<or> terminal_reservation (st_state row)"
      using reopened_moved [OF effect_move(6) ids effect_move(8) effect_move.prems(1)] row effect_move(10) by blast
    moreover have "written [l] sid" if "terminal_reservation (st_state row)"
      using that effect_move(3) edge_releases True by (cases l) (auto simp: written_def)
    ultimately show ?thesis by blast
  qed (use effect_move.prems(3) reopened_other [OF effect_move(6) ids] in blast)
qed simp

lemma reservations_init: "reservations_ok runtime_init"
  by (simp add: reservations_ok_def runtime_init_def flagged_def)

lemma run_reservations:
  assumes "effect_run jcs db ls db'" "runtime_inv db" "reservations_ok db"
  shows "runtime_inv db' \<and> reservations_ok db' \<and> (\<forall>sid. reopened db' sid \<longrightarrow> reopened db sid \<or> written ls sid)"
  using assms
proof (induction rule: effect_run.induct)
  case (effects_step db ls db' l db'')
  then have ih: "runtime_inv db'" "reservations_ok db'"
    "\<forall>sid. reopened db' sid \<longrightarrow> reopened db sid \<or> written ls sid" by simp_all
  then have inv: "keys_unique db'" "journal_ok db'" by (simp_all add: runtime_inv_def)
  have "reservations_ok db''" using effects_step.hyps(2) inv ih(2) by (rule reservations_step)
  moreover have "runtime_inv db''" using ih(1) effects_step.hyps(2) by (rule runtime_inv_step)
  moreover have "reopened db sid \<or> written (ls @ [l]) sid" if "reopened db'' sid" for sid
    using effect_reopened [OF effects_step.hyps(2) inv(2) ih(2) that] ih(3) by (auto simp: written_def)
  ultimately show ?case by blast
qed simp

end
