(* ===== verification/Settlement_Examples.thy ===== *)
theory Settlement_Examples
  imports Settlement_Reservations Voucher
begin

text \<open>
  A concrete settlement of 200 base units on the example channel (activated 400, settled 150, vault
  850), used by the witnesses: the request, the tables with its row in a given state, and the checks
  that the runtime's operations accept them. Digests stay symbolic.
\<close>

definition example_request_items :: "string \<Rightarrow> pydict" where
  "example_request_items snapshot_hash =
     [(KStr ''type'', PStr ''settlement_request''), (KStr ''protocol_version'', PStr ''1.0.0''),
      (KStr ''environment'', PStr ''devnet''), (KStr ''network'', PStr ''solana:devnet''),
      (KStr ''genesis_hash'', PStr (example_key CHR ''1'')), (KStr ''program_id'', PStr (example_key CHR ''2'')),
      (KStr ''channel_id'', PStr ''channel-1''), (KStr ''channel_account'', PStr (example_key CHR ''3'')),
      (KStr ''epoch'', PInt 0), (KStr ''mint'', PStr (example_key CHR ''7'')),
      (KStr ''recipient_wallet'', PStr (example_key CHR ''6'')), (KStr ''settlement_id'', PStr ''settlement-1''),
      (KStr ''execution_request_id'', PStr ''execution-1''), (KStr ''obligation_id'', PStr ''obligation-1''),
      (KStr ''idempotency_key'', PStr ''idem-1''), (KStr ''requested_base_units'', PStr ''200''),
      (KStr ''activated_total_before'', PStr ''400''), (KStr ''settled_total_before'', PStr ''150''),
      (KStr ''vault_balance_before'', PStr ''850''), (KStr ''channel_snapshot_hash'', PStr snapshot_hash),
      (KStr ''created_at'', PStr ''2026-02-02T00:00:00Z''), (KStr ''expires_at'', PStr ''2026-03-01T00:00:00Z'')]"

definition example_snapshot_hash :: string where
  "example_snapshot_hash = sha256_raw_bytes (example_jcs_text example_before)"

definition example_request :: pyval where
  "example_request = PDict (example_request_items example_snapshot_hash)"

definition example_settlement :: settlement_request where
  "example_settlement =
     \<lparr>sq_settlement_id = ''settlement-1'', sq_request_hash = sha256_raw_bytes (example_jcs_text example_request),
      sq_channel_id = ''channel-1'', sq_epoch = 0, sq_idempotency_key = ''idem-1'',
      sq_obligation_id = ''obligation-1'', sq_execution_request_id = ''execution-1'', sq_requested = 200,
      sq_activated = 400, sq_settled = 150, sq_vault = 850, sq_recipient_wallet = example_key CHR ''6'',
      sq_expires_at = ''2026-03-01T00:00:00Z''\<rparr>"

lemma example_st_times:
  "strptime_utc ''2026-02-02T00:00:00Z'' = Some 63905673600000000"
  "strptime_utc ''2026-02-03T00:00:00Z'' = Some 63905760000000000"
  "strptime_utc ''2026-03-01T00:00:00Z'' = Some 63908006400000000"
  "strptime_utc ''2026-12-31T00:00:00Z'' = Some 63934358400000000"
  by code_simp+

lemma example_now_times:
  "st_utc example_now = Inr 63905760000000000" "format_time example_now = Inr ''2026-02-03T00:00:00Z''"
proof -
  show *: "st_utc example_now = Inr 63905760000000000"
    by (simp add: st_utc_def example_now_def utc_datetime_def instant_def to_seconds_def)
  have "strftime_utc 63905760000000000 = ''2026-02-03T00:00:00Z''" by code_simp
  with * show "format_time example_now = Inr ''2026-02-03T00:00:00Z''" by (simp add: format_time_def)
qed

lemma example_keys [simp]: "pubkey_text (example_key CHR ''1'')" "pubkey_text (example_key CHR ''2'')"
 "pubkey_text (example_key CHR ''3'')" "pubkey_text (example_key CHR ''6'')" "pubkey_text (example_key CHR ''7'')"
  by code_simp+

lemma example_ids [simp]: "identifier_text ''channel-1''" "identifier_text ''settlement-1''" "identifier_text ''execution-1''"
  "identifier_text ''obligation-1''" "identifier_text ''idem-1''"
  by code_simp+

lemma example_request_fields_ok: "hash_text h \<Longrightarrow> check_request_fields (example_request_items h) = Inr ()"
  by (simp add: check_request_fields_def example_request_items_def item_def st_literal_def literal_with_def
    st_pubkey_def st_identifier_def st_hash_def string_with_def ignore_def st_integer_def integer_with_def json_safe_max_def)

lemma example_request_closed: "st_closed (PDict (example_request_items h)) ''request'' request_fields = Inr (example_request_items h)"
  by (simp add: st_closed_def Let_def missing_keys_def unknown_keys_def request_fields_def example_request_items_def mixed_keys_def)

lemma example_amounts:
  "st_amount (PStr ''200'') f True = Inr 200" "st_amount (PStr ''400'') f False = Inr 400"
  "st_amount (PStr ''150'') f False = Inr 150" "st_amount (PStr ''850'') f False = Inr 850"
proof -
  have "amount_text ''200''" "amount_text ''400''" "amount_text ''150''" "amount_text ''850''" by code_simp+
  moreover have "undec_nat ''200'' = 200" "undec_nat ''400'' = 400" "undec_nat ''150'' = 150" "undec_nat ''850'' = 850"
    by code_simp+
  ultimately show "st_amount (PStr ''200'') f True = Inr 200" "st_amount (PStr ''400'') f False = Inr 400"
    "st_amount (PStr ''150'') f False = Inr 150" "st_amount (PStr ''850'') f False = Inr 850"
    by (simp_all add: st_amount_def amount_with_def u64_max_def)
qed

lemma example_request_items_lookup:
  "item (example_request_items h) ''requested_base_units'' = PStr ''200''"
  "item (example_request_items h) ''activated_total_before'' = PStr ''400''"
  "item (example_request_items h) ''settled_total_before'' = PStr ''150''"
  "item (example_request_items h) ''vault_balance_before'' = PStr ''850''"
  "item (example_request_items h) ''channel_snapshot_hash'' = PStr h"
  "item (example_request_items h) ''settlement_id'' = PStr ''settlement-1''"
  "item (example_request_items h) ''channel_id'' = PStr ''channel-1''"
  "item (example_request_items h) ''epoch'' = PInt 0"
  "item (example_request_items h) ''idempotency_key'' = PStr ''idem-1''"
  "item (example_request_items h) ''obligation_id'' = PStr ''obligation-1''"
  "item (example_request_items h) ''execution_request_id'' = PStr ''execution-1''"
  "item (example_request_items h) ''recipient_wallet'' = PStr (example_key CHR ''6'')"
  "item (example_request_items h) ''created_at'' = PStr ''2026-02-02T00:00:00Z''"
  "item (example_request_items h) ''expires_at'' = PStr ''2026-03-01T00:00:00Z''"
  by (simp_all add: example_request_items_def item_def)

lemma example_snapshot_lookup:
  "item (dict_of example_before) ''expires_at'' = PStr ''2026-12-31T00:00:00Z''"
  "item (dict_of example_before) ''status'' = PStr ''active''"
  by (simp_all add: example_before_def example_channel_def item_def)

lemma example_request_matches:
  "run_all (map (\<lambda>f. reject_if (\<not> py_eq (item (example_request_items h) f) (item (dict_of example_before) f)) (e f))
     matched_fields) = Inr ()"
  unfolding run_all_map_reject
  by (simp add: matched_fields_def example_before_def example_channel_def item_def example_request_items_def)

lemma example_signable: "signable example_before"
  by code_simp

lemma example_request_hash:
  "sha256_canonical_json example_jcs (PDict (example_request_items example_snapshot_hash)) =
     Inr (sha256_raw_bytes (example_jcs_text example_request))"
proof -
  have "hash_text example_snapshot_hash" by (simp add: example_snapshot_hash_def)
  then have "signable (PDict (example_request_items example_snapshot_hash))"
    by (simp add: example_request_items_def json_safe_max_def)
  then show ?thesis by (simp add: sha256_canonical_json_Inr example_jcs_def example_request_def)
qed

lemma example_validated:
  "validate_settlement_request example_jcs example_request example_before example_now = Inr example_settlement"
proof -
  have h: "sha256_canonical_json example_jcs example_before = Inr example_snapshot_hash"
    by (simp add: sha256_canonical_json_Inr example_signable example_jcs_def example_snapshot_hash_def)
  have ht: "hash_text example_snapshot_hash" by (simp add: example_snapshot_hash_def)
  have w: "check_request_window (example_request_items x) (dict_of example_before) example_now = Inr ()" for x
    by (simp add: check_request_window_def example_request_items_lookup example_snapshot_lookup st_time_def
        timestamp_with_def example_st_times example_now_times)
  have am: "check_request_amounts 200 400 150 850 (make_projection 1000 400 150 0) = Inr ()"
    by (simp add: check_request_amounts_def make_projection_def)
  show ?thesis
    by (simp add: validate_settlement_request_def example_request_def example_before_valid example_request_closed
        example_request_fields_ok [OF ht] example_request_items_lookup example_amounts w example_request_matches
        channel_snapshot_hash_def h am example_snapshot_lookup example_request_hash text_value_def example_settlement_def
        del: run_all.simps list.map)
qed


definition example_commitment :: pydict where
  "example_commitment =
     [(KStr ''execution_commitment_hash'', PStr ''commitment''), (KStr ''execution_request_id'', PStr ''execution-1''),
      (KStr ''executor_id'', PStr ''executor-1''), (KStr ''expected_signer'', PStr (example_key CHR ''4'')),
      (KStr ''expires_at'', PStr ''2026-03-01T00:00:00Z''), (KStr ''prepared_message_hash'', PStr ''message'')]"

definition example_authorization :: pydict where
  "example_authorization =
     [(KStr ''execution_commitment_hash'', PStr ''commitment''), (KStr ''execution_request_id'', PStr ''execution-1''),
      (KStr ''expires_at'', PStr ''2026-03-01T00:00:00Z''), (KStr ''prepared_message_hash'', PStr ''message''),
      (KStr ''signer'', PStr (example_key CHR ''4''))]"

definition example_row :: "settlement_state \<Rightarrow> settlement_row" where
  "example_row st =
     (new_settlement example_settlement example_request example_before (PStr example_snapshot_hash)
       ''2026-02-02T00:00:00Z'')
     \<lparr>st_state := st, st_commitment := Some example_commitment, st_authorization := Some example_authorization,
      st_signature := Some ''signature-1''\<rparr>"

definition example_event :: "settlement_state \<Rightarrow> settlement_event" where
  "example_event st =
     \<lparr>se_settlement_id = ''settlement-1'', se_sequence = 1, se_state = st, se_event_type = ''imported'',
      se_event_json = PNone, se_previous_hash = zero_hash, se_event_hash = ''first'',
      se_recorded_at = ''2026-02-02T00:00:00Z''\<rparr>"

definition example_runtime :: "settlement_state \<Rightarrow> runtime" where
  "example_runtime st =
     \<lparr>settlements = [example_row st],
      submit_intents = (if past_submission st then [(''settlement-1'', ''2026-02-02T00:00:00Z'')] else []),
      settlement_events = [example_event st], settlement_recoveries = []\<rparr>"

definition example_observation_items :: pydict where
  "example_observation_items =
     [(KStr ''type'', PStr ''settlement_observation''), (KStr ''protocol_version'', PStr ''1.0.0''),
      (KStr ''source_id'', PStr ''source-1''), (KStr ''channel_id'', PStr ''channel-1''),
      (KStr ''channel_account'', PStr (example_key CHR ''3'')), (KStr ''epoch'', PInt 0),
      (KStr ''mint'', PStr (example_key CHR ''7'')), (KStr ''destination'', PStr (example_key CHR ''6'')),
      (KStr ''transaction_signature'', PStr ''signature-1''), (KStr ''settled_total_before'', PStr ''150''),
      (KStr ''settled_total_after'', PStr ''350''), (KStr ''vault_balance_before'', PStr ''850''),
      (KStr ''vault_balance_after'', PStr ''650''), (KStr ''recipient_balance_before'', PStr ''0''),
      (KStr ''recipient_balance_after'', PStr ''200''), (KStr ''observed_at'', PStr ''2026-02-03T00:00:00Z'')]"

definition example_observation_hash :: string where
  "example_observation_hash = sha256_raw_bytes (example_jcs_text (PDict example_observation_items))"

definition example_observation :: pydict where
  "example_observation = example_observation_items @ [(KStr ''observation_hash'', PStr example_observation_hash)]"

definition example_verifiers :: "string \<Rightarrow> observation_verifier option" where
  "example_verifiers s =
     (if s = ''source-1''
      then Some \<lparr>ov_source_id = ''source-1'', ov_verify = (\<lambda>v. item v ''channel_id'' = PStr ''channel-1'')\<rparr>
      else None)"

lemma example_row_simps [simp]:
  "st_settlement_id (example_row st) = ''settlement-1''" "st_state (example_row st) = st"
  "st_requested (example_row st) = 200" "st_settled (example_row st) = 150" "st_activated (example_row st) = 400"
  "st_vault (example_row st) = 850" "st_commitment (example_row st) = Some example_commitment"
  "st_authorization (example_row st) = Some example_authorization" "st_signature (example_row st) = Some ''signature-1''"
  "st_channel_id (example_row st) = ''channel-1''" "st_epoch (example_row st) = 0"
  "st_updated_at (example_row st) = ''2026-02-02T00:00:00Z''" "st_request_json (example_row st) = example_request"
  "st_execution_request_id (example_row st) = ''execution-1''" "st_receipt (example_row st) = None"
  "st_request_hash (example_row st) = sha256_raw_bytes (example_jcs_text example_request)"
  "st_obligation_id (example_row st) = ''obligation-1''"
  by (simp_all add: example_row_def new_settlement_def example_settlement_def)

lemma example_select: "select_settlement (example_runtime st) ''settlement-1'' = Some (example_row st)"
  by (simp add: example_runtime_def select_row_def)

lemma example_require: "require_row (example_runtime st) ''settlement-1'' = Inr (example_row st)"
  by (simp add: require_row_Inr example_select)

lemma example_runtime_inv: "runtime_inv (example_runtime st)"
  unfolding runtime_inv_def keys_unique_def intents_ok_def authorizations_ok_def journal_ok_def
  by (auto simp: example_runtime_def past_ids_def events_for_def example_event_def authorization_bound_def bound_pairs_def example_authorization_def example_commitment_def item_def)

lemma example_reservations: "reservations_ok (example_runtime st)" "\<not> reopened (example_runtime st) sid"
  by (simp_all add: reservations_ok_def reopened_def events_for_def flagged_def example_runtime_def example_event_def
      held_def within_right_def)

lemma example_not_regressed:
  "ensure_time_not_regressed (example_row st) ''2026-02-03T00:00:00Z'' = Inr ()"
  by (simp add: ensure_time_not_regressed_def st_time_def timestamp_with_def example_st_times)

lemma state_text_ascii [simp]: "\<not> has_surrogate (state_text st)"
  by (cases st) simp_all

text \<open>An event can be appended: the digest of a new entry differs from the imported one.\<close>

lemma example_append:
  assumes "settlement_events db = settlement_events (example_runtime st0)" "signable (PDict payload)" "\<not> has_surrogate et"
  shows "\<exists>db'. append_event example_jcs db ''settlement-1'' st et payload ''2026-02-03T00:00:00Z'' = Inr db'"
proof -
  have latest: "latest_event (events_for db ''settlement-1'') = Some (example_event st0)"
    by (simp add: events_for_def assms(1) example_runtime_def example_event_def)
  have h: "sha256_canonical_json example_jcs v = Inr (sha256_raw_bytes (example_jcs_text v))" if "signable v" for v
    using that by (simp add: sha256_canonical_json_Inr example_jcs_def)
  let ?e = "journal_entry ''settlement-1'' 2 st et payload (sha256_raw_bytes (example_jcs_text (PDict payload))) ''first''
    ''2026-02-03T00:00:00Z''"
  have e: "signable ?e" using assms(2,3) by (simp add: journal_entry_def json_safe_max_def)
  obtain j where j: "json_dumps True ?e = Inr j" using signable_json_dumps [OF e] by blast
  have "\<not> list_ex (\<lambda>e. se_event_hash e = sha256_raw_bytes (example_jcs_text ?e)) (settlement_events db)"
    by (simp add: assms(1) example_runtime_def example_event_def sha256_raw_bytes_def)
  then show ?thesis
    by (simp add: append_event_def latest Let_def h [OF assms(2)] example_event_def h [OF e] j del: example_jcs_text.simps)
qed

lemma example_intent:
  "\<exists>db'. submit_intent example_jcs (example_runtime SAuthorized) ''settlement-1'' ''executor-1'' example_now =
     (db', Inr example_authorization)"
proof -
  let ?db = "example_runtime SAuthorized"
  let ?db1 = "update_settlement ''settlement-1'' (set_row_state SSubmitted ''2026-02-03T00:00:00Z'')
     (?db\<lparr>submit_intents := submit_intents ?db @ [(''settlement-1'', ''2026-02-03T00:00:00Z'')]\<rparr>)"
  have "signable (PDict [(KStr ''submit_intent_count'', PInt 1)])" by (simp add: json_safe_max_def)
  then obtain db' where db': "append_event example_jcs ?db1 ''settlement-1'' SSubmitted ''submit_intent_persisted''
      [(KStr ''submit_intent_count'', PInt 1)] ''2026-02-03T00:00:00Z'' = Inr db'"
    using example_append [of ?db1 SAuthorized] by fastforce
  have i: "item example_commitment ''executor_id'' = PStr ''executor-1''"
    "item example_commitment ''expires_at'' = PStr ''2026-03-01T00:00:00Z''"
    "item example_authorization ''expires_at'' = PStr ''2026-03-01T00:00:00Z''"
    by (simp_all add: example_commitment_def example_authorization_def item_def)
  have "intent_tx example_jcs ?db ''settlement-1'' ''executor-1'' example_now ''2026-02-03T00:00:00Z'' =
      Inr (db', example_authorization)"
    using db'
    by (simp add: intent_tx_def example_require example_not_regressed loads_column_def example_now_times i st_time_def
        timestamp_with_def example_st_times set_settlement_state_def)
       (simp add: example_runtime_def)
  then show ?thesis
    by (simp add: submit_intent_def example_now_times on_integrity_error_def transaction_def)
qed


lemma example_observation_lookup:
  "item example_observation ''type'' = PStr ''settlement_observation''"
  "item example_observation ''protocol_version'' = PStr ''1.0.0''"
  "item example_observation ''source_id'' = PStr ''source-1''"
  "item example_observation ''channel_id'' = PStr ''channel-1''"
  "item example_observation ''channel_account'' = PStr (example_key CHR ''3'')"
  "item example_observation ''epoch'' = PInt 0"
  "item example_observation ''mint'' = PStr (example_key CHR ''7'')"
  "item example_observation ''destination'' = PStr (example_key CHR ''6'')"
  "item example_observation ''transaction_signature'' = PStr ''signature-1''"
  "item example_observation ''settled_total_before'' = PStr ''150''"
  "item example_observation ''settled_total_after'' = PStr ''350''"
  "item example_observation ''vault_balance_before'' = PStr ''850''"
  "item example_observation ''vault_balance_after'' = PStr ''650''"
  "item example_observation ''recipient_balance_before'' = PStr ''0''"
  "item example_observation ''recipient_balance_after'' = PStr ''200''"
  "item example_observation ''observed_at'' = PStr ''2026-02-03T00:00:00Z''"
  "item example_observation ''observation_hash'' = PStr example_observation_hash"
  by (simp_all add: example_observation_def example_observation_items_def item_def)

lemma example_decimals:
  "str_int 150 = ''150''" "str_int 350 = ''350''" "str_int 850 = ''850''" "str_int 650 = ''650''"
  "undec_nat ''0'' = 0" "undec_nat ''200'' = 200"
  by code_simp+

lemma example_more_amounts:
  "\<exists>a. st_amount (PStr ''0'') f False = Inr a" "\<exists>a. st_amount (PStr ''200'') f False = Inr a"
  "\<exists>a. st_amount (PStr ''350'') f False = Inr a" "\<exists>a. st_amount (PStr ''650'') f False = Inr a"
  "\<exists>a. st_amount (PStr ''150'') f False = Inr a" "\<exists>a. st_amount (PStr ''850'') f False = Inr a"
proof -
  have "amount_text ''0''" "amount_text ''200''" "amount_text ''350''" "amount_text ''650''" "amount_text ''150''"
    "amount_text ''850''" by code_simp+
  moreover have "undec_nat ''0'' = 0" "undec_nat ''200'' = 200" "undec_nat ''350'' = 350" "undec_nat ''650'' = 650"
    "undec_nat ''150'' = 150" "undec_nat ''850'' = 850"
    by code_simp+
  ultimately show "\<exists>a. st_amount (PStr ''0'') f False = Inr a" "\<exists>a. st_amount (PStr ''200'') f False = Inr a"
  "\<exists>a. st_amount (PStr ''350'') f False = Inr a" "\<exists>a. st_amount (PStr ''650'') f False = Inr a"
  "\<exists>a. st_amount (PStr ''150'') f False = Inr a" "\<exists>a. st_amount (PStr ''850'') f False = Inr a"
    by (simp_all add: st_amount_def amount_with_def u64_max_def)
qed

lemma example_observation_normal: "normalize_observation example_jcs (PDict example_observation) = Inr example_observation"
proof -
  have closed: "st_closed (PDict example_observation) ''observation'' observation_fields = Inr example_observation"
    by (simp add: st_closed_def Let_def missing_keys_def unknown_keys_def observation_fields_def
        example_observation_def example_observation_items_def mixed_keys_def)
  have am: "run_all (map (\<lambda>f. ignore (st_amount (item example_observation f) (''observation.'' @ f) False))
       observation_amounts) = Inr ()"
    unfolding run_all_eq_Inr
    by (simp add: observation_amounts_def example_observation_lookup ignore_Inr example_more_amounts)
  have un: "filter (\<lambda>kv. fst kv \<noteq> KStr ''observation_hash'') example_observation = example_observation_items"
    by (simp add: example_observation_def example_observation_items_def)
  have h: "sha256_canonical_json example_jcs (PDict example_observation_items) = Inr example_observation_hash"
    by (simp add: sha256_canonical_json_Inr example_jcs_def example_observation_hash_def del: example_jcs_text.simps)
       (simp add: example_observation_items_def json_safe_max_def)
  have ids: "identifier_text ''source-1''" by code_simp
  have ht: "hash_text example_observation_hash" by (simp add: example_observation_hash_def)
  show ?thesis
    unfolding normalize_observation_def closed bind_res_simps am
    by (simp add: un h ids ht example_observation_lookup st_literal_def literal_with_def
      st_pubkey_def st_identifier_def st_hash_def string_with_def ignore_def st_integer_def integer_with_def json_safe_max_def
      nonempty_text_def st_time_def timestamp_with_def example_st_times del: list.map)
qed

lemma example_signables: "signable (PDict (unsigned_receipt (example_row st) [example_observation] ''2026-02-03T00:00:00Z''))"
proof -
  have ht: "hash_text example_observation_hash" by (simp add: example_observation_hash_def)
  have i: "item (example_request_items h) ''channel_account'' = PStr (example_key CHR ''3'')"
    "item (example_request_items h) ''mint'' = PStr (example_key CHR ''7'')" for h
    by (simp_all add: example_request_items_def item_def)
  have d: "str_int 200 = ''200''" by code_simp
  show ?thesis
    by (simp add: unsigned_receipt_def Let_def example_observation_lookup text_value_def ht example_request_def i
     example_request_items_lookup example_decimals d json_safe_max_def del: str_int_nonneg)
qed

lemma example_reconcile:
  "\<exists>db' receipt. reconcile example_jcs (example_runtime SReconciling) ''settlement-1'' [PDict example_observation]
     example_verifiers example_now = (db', Inr (Some receipt))"
proof -
  let ?db = "example_runtime SReconciling" and ?ts = "''2026-02-03T00:00:00Z''"
  let ?u = "unsigned_receipt (example_row SReconciling) [example_observation] ?ts"
  let ?h = "sha256_raw_bytes (example_jcs_text (PDict ?u))"
  have u: "sha256_canonical_json example_jcs (PDict ?u) = Inr ?h"
    using example_signables by (simp add: sha256_canonical_json_Inr example_jcs_def del: example_jcs_text.simps)
  have "signable (PDict (?u @ [(KStr ''receipt_hash'', PStr ?h)]))"
    using example_signables [of SReconciling] by (simp add: signable_items_append del: example_jcs_text.simps)
  then obtain j where j: "json_text (?u @ [(KStr ''receipt_hash'', PStr ?h)]) = Inr j"
    using signable_json_text by blast
  have hashes: "item (?u @ [(KStr ''receipt_hash'', PStr ?h)]) ''observation_hashes'' = PList [PStr example_observation_hash]"
    by (simp add: unsigned_receipt_def Let_def item_def) (simp add: example_observation_lookup [unfolded item_def] text_value_def)
  have "signable (PDict [(KStr ''receipt_hash'', PStr ?h), (KStr ''observation_hashes'', PList [PStr example_observation_hash])])"
    by (simp add: example_observation_hash_def del: example_jcs_text.simps)
  then obtain db' where ev: "append_event example_jcs (update_settlement ''settlement-1'' (set_completed j ?h ?ts) ?db)
      ''settlement-1'' SCompleted ''economic_observation_reconciled''
      [(KStr ''receipt_hash'', PStr ?h), (KStr ''observation_hashes'', PList [PStr example_observation_hash])] ?ts = Inr db'"
    using example_append [of "update_settlement ''settlement-1'' (set_completed j ?h ?ts) ?db" SReconciling] by fastforce
  have tx: "complete_tx example_jcs ?db ''settlement-1'' (example_row SReconciling) [example_observation] ?ts =
      Inr (db', Some (?u @ [(KStr ''receipt_hash'', PStr ?h)]))"
    by (simp add: complete_tx_def Let_def u j hashes ev del: example_jcs_text.simps)
  have "signable (PDict (filter (\<lambda>kv. \<not> List.member [KStr ''source_id'', KStr ''observation_hash'', KStr ''observed_at''] (fst kv))
      example_observation))"
    by (simp add: example_observation_def example_observation_items_def json_safe_max_def)
  then obtain fp where fp: "fingerprint example_jcs example_observation = Inr fp"
    by (simp add: fingerprint_def sha256_canonical_json_Inr example_jcs_def del: example_jcs_text.simps)
  have checked: "check_observations example_jcs example_verifiers [PDict example_observation] = Inr ([example_observation], [fp])"
    by (simp add: check_observations_def example_observation_normal verify_observation_def Let_def example_verifiers_def
        example_observation_lookup text_value_def fp)
  have i: "item (example_request_items h) ''channel_account'' = PStr (example_key CHR ''3'')"
    "item (example_request_items h) ''mint'' = PStr (example_key CHR ''7'')" for h
    by (simp_all add: example_request_items_def item_def)
  have exact: "observation_mismatches (example_row SReconciling) example_observation = Inr []"
    by (simp add: observation_mismatches_def expected_observation_def Let_def example_observation_lookup st_time_def
      timestamp_with_def example_st_times example_request_def i example_request_items_lookup example_decimals amount_of_def
      text_value_def del: str_int_nonneg)
  have "reconcile_tx example_jcs ?db ''settlement-1'' [example_observation] [fp] ?ts =
      Inr (db', Some (?u @ [(KStr ''receipt_hash'', PStr ?h)]))"
    by (simp add: reconcile_tx_def example_require example_not_regressed exact tx del: example_jcs_text.simps)
  then show ?thesis
    by (simp add: reconcile_def transaction_def example_now_times checked del: example_jcs_text.simps)
qed

section \<open>A recovery that writes late\<close>

definition example_recoverer :: executor where
  "example_recoverer =
     \<lparr>executor_id = ''executor-1'', authorize_and_execute = (\<lambda>_ _ _. ExecRaise), executor_recover = (\<lambda>_ _. RecoveryRaise)\<rparr>"

definition example_write :: recovery_write where
  "example_write =
     \<lparr>rw_settlement = ''settlement-1'', rw_outcome = ''unknown'', rw_executor = Some ''executor-1'',
      rw_status_hash = None, rw_signature = None, rw_target = SNeedsRecovery, rw_now = example_now,
      rw_extra = [(KStr ''reason'', PStr ''executor_status_unavailable'')]\<rparr>"

lemma example_recover_read:
  "recover_read example_jcs (example_runtime SReconciling) ''settlement-1'' example_recoverer example_now =
     Inr (RecoverWrites example_write None)"
  by (simp add: recover_read_def example_require loads_column_def example_recoverer_def example_commitment_def item_def
      recovery_plan_def Let_def example_write_def)

text \<open>The write of that recovery goes through on the row as it is after it was completed.\<close>

lemma example_late_write:
  "\<exists>db' r. record_recovery example_jcs (example_runtime SCompleted) example_write = (db', Inr r)"
proof -
  let ?db = "example_runtime SCompleted" and ?ts = "''2026-02-03T00:00:00Z''"
  let ?u = "recovery_unsigned ''settlement-1'' 1 ''unknown'' 1 ?ts (Some ''executor-1'') None None
    [(KStr ''reason'', PStr ''executor_status_unavailable'')]"
  let ?h = "sha256_raw_bytes (example_jcs_text (PDict ?u))"
  have now: "rw_now example_write = example_now" by (simp add: example_write_def)
  let ?p = "[(KStr ''outcome'', PStr ''unknown''), (KStr ''recovery_hash'', PStr ?h),
    (KStr ''submit_intent_count'', PInt 1), (KStr ''reason'', PStr ''executor_status_unavailable'')]"
  have count: "submit_intent_count ?db ''settlement-1'' = 1" "next_attempt ?db ''settlement-1'' = 1"
    "settlement_recoveries ?db = []"
    by (simp_all add: submit_intent_count_def next_attempt_def example_runtime_def)
  have u: "signable (PDict ?u)" by (simp add: recovery_unsigned_def json_safe_max_def)
  then have h: "sha256_canonical_json example_jcs (PDict ?u) = Inr ?h"
    by (simp add: sha256_canonical_json_Inr example_jcs_def del: example_jcs_text.simps)
  have "signable (PDict (?u @ [(KStr ''recovery_hash'', PStr ?h)]))"
    using u by (simp add: signable_items_append del: example_jcs_text.simps)
  then obtain j where j: "json_text (?u @ [(KStr ''recovery_hash'', PStr ?h)]) = Inr j"
    using signable_json_text by blast
  define db1 where "db1 = update_settlement ''settlement-1'' (set_recovered SNeedsRecovery None ?ts)
    (?db\<lparr>settlement_recoveries := settlement_recoveries ?db @
      [\<lparr>sr_settlement_id = ''settlement-1'', sr_attempt = 1, sr_record = j, sr_recovery_hash = ?h, sr_observed_at = ?ts\<rparr>]\<rparr>)"
  have "settlement_events db1 = settlement_events ?db" by (simp add: db1_def)
  moreover have "signable (PDict ?p)" by (simp add: json_safe_max_def del: example_jcs_text.simps)
  ultimately obtain db2 where "append_event example_jcs db1 ''settlement-1'' SNeedsRecovery ''recovery_observed'' ?p ?ts = Inr db2"
    using example_append [of db1 SCompleted] by fastforce
  then have "recovery_tx example_jcs ?db example_write ?ts = Inr (db2, ?u @ [(KStr ''recovery_hash'', PStr ?h)])"
    by (simp add: recovery_tx_def example_write_def example_require count h j db1_def Let_def
        del: example_jcs_text.simps One_nat_def)
  then show ?thesis
    by (simp add: record_recovery_def now example_now_times transaction_def del: example_jcs_text.simps)
qed

end
