(* ===== verification/Settlement_Props.thy ===== *)
theory Settlement_Props
  imports Settlement_Examples
begin

text \<open>
  The properties of settlement requests and of the settlement runtime, with the concrete requests
  and tables that witness them.
\<close>

section \<open>Settling, abstractly\<close>

definition settle :: "int \<Rightarrow> accounting_projection \<Rightarrow> accounting_projection" where
  "settle a p = p\<lparr>settled_total_base_units := settled_total_base_units p + a,
     vault_balance_base_units := vault_balance_base_units p - a,
     outstanding_right_base_units := outstanding_right_base_units p - a\<rparr>"

lemma settle_accounting:
  assumes "accounting_ok p" "0 < a" "a \<le> outstanding_right_base_units p"
  shows "accounting_ok (settle a p)"
proof -
  have "0 \<le> settled_total_base_units p + a"
    "settled_total_base_units p + a \<le> activated_authorized_total_base_units p"
    using assms unfolding accounting_ok_def by linarith+
  with assms(1) show ?thesis
    unfolding accounting_ok_def settle_def by (simp (no_asm)) (elim conjE, intro conjI; linarith)
qed

section \<open>Facts along a run\<close>

lemma effect_intents:
  "runtime_effect jcs db l db' \<Longrightarrow>
     submit_intent_count db' sid = submit_intent_count db sid + (if l = Executes sid then 1 else 0)"
proof (induction rule: runtime_effect.induct)
  case (effect_move db sid' row f l db' es)
  then show ?case by (cases l) (auto simp: submit_intent_count_def)
qed (auto simp: submit_intent_count_def)

lemma run_intents:
  assumes "settlement_run jcs db ls db'"
  shows "submit_intent_count db' sid = submit_intent_count db sid + count_list ls (Executes sid)"
  using run_effects [OF assms] by (induction rule: effect_run.induct) (auto dest!: effect_intents [where sid = sid])

lemma example_executes:
  "\<exists>db'. settlement_run example_jcs (example_runtime SAuthorized) [Executes ''settlement-1''] db'"
proof -
  obtain db' where "submit_intent example_jcs (example_runtime SAuthorized) ''settlement-1'' ''executor-1'' example_now =
     (db', Inr example_authorization)" using example_intent by blast
  then have "settlement_step example_jcs (example_runtime SAuthorized) (Executes ''settlement-1'') db'" by (rule intent)
  from run_step [OF run_start this] show ?thesis by (auto simp: may_follow_def)
qed

lemma sequence_sorted_events: "log_chained es \<Longrightarrow> sort_key se_sequence es = es"
  by (intro sort_key_id_if_sorted settlement_log.chained_sorted)

section \<open>Reconciliation and registration\<close>

lemma check_observations_Inr:
  assumes "check_observations jcs verifiers observations = Inr (normalized, fps)"
  shows "list_all2 (\<lambda>obs v. normalize_observation jcs obs = Inr v) observations normalized"
    and "distinct (map (\<lambda>v. text_value (item v ''source_id'')) normalized)"
    and "\<forall>v\<in>set normalized. verify_observation verifiers v = Inr ()"
  using assms unfolding check_observations_def bind_unit_eq_Inr bind_res_eq_Inr reject_if_eq_Inr
  by (auto simp: map_res_eq_Inr run_all_eq_Inr)

lemma nonempty_text_PStr: "nonempty_text x \<Longrightarrow> \<exists>s. x = PStr s"
  by (simp add: nonempty_text_def split: pyval.splits)

lemma normalize_observation_signature:
  assumes "normalize_observation jcs obs = Inr v"
  shows "\<exists>s. item v ''transaction_signature'' = PStr s"
proof -
  have "nonempty_text (item v ''transaction_signature'')"
    using assms
    unfolding normalize_observation_def bind_unit_eq_Inr bind_res_eq_Inr run_all_Cons_Inr reject_if_eq_Inr not_not
      sum.inject
    by (elim exE conjE) simp
  then show ?thesis by (rule nonempty_text_PStr)
qed

lemma verify_observation_Inr:
  "verify_observation verifiers v = Inr () \<longleftrightarrow>
     (\<exists>ov. verifiers (text_value (item v ''source_id'')) = Some ov \<and>
        ov_source_id ov = text_value (item v ''source_id'') \<and> ov_verify ov v)"
  by (auto simp: verify_observation_def Let_def reject_if_eq_Inr bind_unit_eq_Inr split: option.splits)

lemma complete_tx_Inr:
  assumes "complete_tx jcs db sid row normalized ts = Inr (db', r)"
  obtains h c db1 where "sha256_canonical_json jcs (PDict (unsigned_receipt row normalized ts)) = Inr h"
    "r = Some (unsigned_receipt row normalized ts @ [(KStr ''receipt_hash'', PStr h)])"
    "append_event jcs (update_settlement sid (set_completed c h ts) db) sid SCompleted
       ''economic_observation_reconciled'' db1 ts = Inr db'"
  using assms unfolding complete_tx_def Let_def bind_res_eq_Inr by blast

lemma no_mismatch:
  assumes "list_all2 (\<lambda>v ms. observation_mismatches row v = Inr ms) normalized mss" "concat mss = []"
    and "v \<in> set normalized"
  shows "observation_mismatches row v = Inr []"
proof -
  from assms(1,3) obtain ms where "ms \<in> set mss" "observation_mismatches row v = Inr ms"
    by (induction rule: list_all2_induct) auto
  with assms(2) show ?thesis by simp
qed

lemma reconcile_Inr_Some:
  assumes "reconcile jcs db sid observations verifiers now = (db', Inr (Some receipt))"
    and row: "select_settlement db sid = Some row" "st_state row \<noteq> SCompleted"
  obtains normalized fps ts where "observations \<noteq> []" "format_time now = Inr ts"
    "check_observations jcs verifiers observations = Inr (normalized, fps)" "reconcilable (st_state row)"
    "length fps \<le> 1" "\<forall>v\<in>set normalized. observation_mismatches row v = Inr []"
    "complete_tx jcs db sid row normalized ts = Inr (db', Some receipt)"
proof -
  from assms(1) obtain ts normalized fps where f: "format_time now = Inr ts" "observations \<noteq> []"
      "check_observations jcs verifiers observations = Inr (normalized, fps)"
      "reconcile_tx jcs db sid normalized fps ts = Inr (db', Some receipt)"
    by (auto simp: reconcile_def transaction_def bind_res_eq_Inr bind_unit_eq_Inr reject_if_eq_Inr
        split: sum.splits prod.splits)
  from f(4) row have r: "reconcilable (st_state row)" "length fps \<le> 1"
    by (auto simp: reconcile_tx_def bind_res_eq_Inr bind_unit_eq_Inr require_row_Inr split: if_splits)
  with f(4) row obtain mss where
    "list_all2 (\<lambda>v ms. observation_mismatches row v = Inr ms) normalized mss" "concat mss = []"
    "complete_tx jcs db sid row normalized ts = Inr (db', Some receipt)"
    by (auto simp: reconcile_tx_def bind_res_eq_Inr bind_unit_eq_Inr require_row_Inr map_res_eq_Inr split: if_splits)
  with no_mismatch that f r show thesis by blast
qed

lemma observation_matches:
  assumes "observation_mismatches row v = Inr []"
  shows "\<forall>(f, expected)\<in>set (expected_observation row). py_eq (item v f) expected"
    and "amount_of (item v ''recipient_balance_after'') - amount_of (item v ''recipient_balance_before'') =
      st_requested row"
  using assms by (auto simp: observation_mismatches_def bind_res_eq_Inr filter_empty_conv split: if_splits)

lemma register_new_stored:
  assumes "register_new jcs db q row ts = Inr (db', x)" "row = new_settlement q a b c ts"
  shows "case x of
      Some existing \<Rightarrow> db' = db \<and> existing \<in> set (settlements db) \<and> st_request_hash existing = sq_request_hash q
    | None \<Rightarrow> select_settlement db' (sq_settlement_id q) = Some (row\<lparr>st_state := SValidated\<rparr>)"
proof (cases "find (\<lambda>r. st_settlement_id r = sq_settlement_id q \<or>
             same_channel r (sq_channel_id q) (sq_epoch q) \<and> st_idempotency_key r = sq_idempotency_key q)
           (settlements db)")
  case None
  with assms(1) have ins: "insert_settlement jcs db q row ts = Inr db'" and x: "x = None"
    by (auto simp: register_new_def bind_res_eq_Inr bind_unit_eq_Inr)
  have id: "st_settlement_id row = sq_settlement_id q" by (simp add: assms(2) new_settlement_def)
  have fresh: "select_settlement db (st_settlement_id row) = None"
    using None by (simp add: find_None_iff select_row_None id)
  from ins have "settlements db' = update_row st_settlement_id (sq_settlement_id q) (\<lambda>r. r\<lparr>st_state := SValidated\<rparr>)
      (insert_row row (settlements db))"
    unfolding insert_settlement_def bind_res_eq_Inr by (elim exE conjE append_event_Inr) simp
  then show ?thesis
    using settlement_table.ins_read [OF fresh] by (simp add: x settlement_table.sel_upd id)
next
  case (Some r)
  then have "r \<in> set (settlements db)" by (auto simp: find_Some_iff)
  moreover from Some assms(1) have "x = Some r \<and> db' = db \<and> st_request_hash r = sq_request_hash q"
    unfolding register_new_def by (auto simp only: option.case bind_unit_eq_Inr reject_if_eq_Inr sum.inject prod.inject)
  ultimately show ?thesis by simp
qed

lemma register_request_stored:
  assumes "register_request jcs db r s t = (db', Inr rec)" "sc_settlement_id rec = sid"
    and closed: "st_closed r ''request'' request_fields = Inr d" and sid: "item d ''settlement_id'' = PStr sid"
  shows "\<exists>row. identifier_text sid \<and> select_settlement db' sid = Some row \<and>
    sha256_canonical_json jcs (PDict d) = Inr (st_request_hash row) \<and> record_from_row jcs db' row = Inr rec"
proof -
  have rid: "sc_settlement_id rec = st_settlement_id row" "st_request_hash row = sc_request_hash rec"
    if "record_from_row jcs db' row = Inr rec" for row
    using that by (auto simp: record_from_row_def bind_res_eq_Inr)
  from assms(1) closed sid obtain h where ok: "identifier_text sid" and h: "sha256_canonical_json jcs (PDict d) = Inr h"
    by (auto simp: register_request_def bind_res_def st_identifier_def string_with_def split: sum.splits if_splits)
  have pre: "bind_res (st_closed r ''request'' request_fields) (\<lambda>supplied.
           bind_res (st_identifier (item supplied ''settlement_id'') ''request.settlement_id'') (\<lambda>sid.
           bind_res (sha256_canonical_json jcs (PDict supplied)) (\<lambda>h. Inr (sid, h)))) = Inr (sid, h)"
    using closed sid ok h by (simp add: st_identifier_def string_with_def)
  show ?thesis
  proof (cases "select_settlement db sid")
    case (Some existing)
    with assms(1) ok h show ?thesis
      by (auto simp: register_request_def pre bind_unit_eq_Inr reject_if_eq_Inr)
  next
    case None
    with assms(1) obtain q row ts x where prep: "prepare_registration jcs r s t = Inr (q, row, ts)"
      and new: "register_new jcs db q row ts = Inr (db', x)"
      and res: "(case x of Some existing \<Rightarrow> record_from_row jcs db' existing
          | None \<Rightarrow> settlement_get jcs db' (sq_settlement_id q)) = Inr rec"
      by (auto simp: register_request_def pre transaction_def on_integrity_error_def
          split: sum.splits prod.splits option.splits if_splits)
    from prep obtain a b c where row: "row = new_settlement q a b c ts"
      and v: "validate_settlement_request jcs r s t = Inr q" by (rule prepare_registrationE)
    from v closed have q: "sq_request_hash q = h" "sq_settlement_id q = sid"
      using h sid by (auto elim!: validate_settlement_requestE simp: text_value_def)
    note stored = register_new_stored [OF new row]
    show ?thesis
    proof (cases x)
      case None
      with stored res ok h show ?thesis
        by (auto simp: settlement_get_def bind_res_eq_Inr require_row_Inr q row new_settlement_def)
    next
      case (Some existing)
      with stored res \<open>select_settlement db sid = None\<close> rid [of existing] assms(2) show ?thesis
        by (auto simp: select_row_None)
    qed
  qed
qed








section \<open>Properties\<close>

text \<open>
  Property C1. The executor is called for a settlement only after its submit intent is durable, and
  at most once: along any run the number of executor calls for a settlement is the number of intents
  stored meanwhile, at most one is ever stored, it exists exactly for the settlements whose state is
  past submission, and no two settlements share an obligation or an execution request.
\<close>

theorem executor_called_at_most_once:
  assumes "settlement_run jcs db ls db'" "runtime_inv db"
  shows "submit_intent_count db sid + count_list ls (Executes sid) = submit_intent_count db' sid \<and>
    submit_intent_count db' sid \<le> 1 \<and>
    (submit_intent_count db' sid = 1 \<longleftrightarrow>
       (\<exists>r\<in>set (settlements db'). st_settlement_id r = sid \<and> past_submission (st_state r))) \<and>
    distinct (map obligation_key (settlements db')) \<and> distinct (map st_execution_request_id (settlements db'))"
proof -
  have "intents_ok db'" "keys_unique db'" using run_keeps_inv [OF assms] by (simp_all add: runtime_inv_def)
  then have "submit_intent_count db' sid =
      (if \<exists>r\<in>set (settlements db'). st_settlement_id r = sid \<and> past_submission (st_state r) then 1 else 0)"
    "distinct (map obligation_key (settlements db'))" "distinct (map st_execution_request_id (settlements db'))"
    by (auto simp: submit_intent_count_def intents_ok_def keys_unique_def past_ids_def image_iff)
  then show ?thesis using run_intents [OF assms(1), of sid] by simp
qed

theorem executor_called_at_most_once_witness:
  "\<exists>db'. settlement_run example_jcs (example_runtime SAuthorized) [Executes ''settlement-1''] db' \<and>
     submit_intent_count db' ''settlement-1'' = 1 \<and> distinct (map obligation_key (settlements db'))"
proof -
  obtain db' where run: "settlement_run example_jcs (example_runtime SAuthorized) [Executes ''settlement-1''] db'"
    using example_executes by blast
  have "submit_intent_count (example_runtime SAuthorized) ''settlement-1'' = 0"
    by (simp add: submit_intent_count_def example_runtime_def)
  moreover note executor_called_at_most_once [OF run example_runtime_inv, of "''settlement-1''"]
  ultimately have "submit_intent_count db' ''settlement-1'' = 1 \<and> distinct (map obligation_key (settlements db'))"
    by simp
  with run show ?thesis by blast
qed

text \<open>
  Property C2. Reservations and the recipient's right, over every interleaving of the runtime's steps.
  For every registered settlement, the settled total plus the standing reservations registered before
  it in the same channel epoch plus its own amount is at most the activated total, and those
  reservations fit in the vault; so do all live reservations of the channel epoch when it is the
  newest there and none of them was reopened. A reservation stands while its row is live and was not
  reopened: only the unguarded write of a recovery that had read the row earlier reopens a settlement
  that was over, and then its reservation comes back uncounted.
\<close>

theorem reservations_within_right:
  assumes "settlement_run jcs db0 ls db" "runtime_inv db0" "reservations_ok db0"
    and "settlements db = older @ row # newer"
  shows "0 < st_requested row \<and>
    st_settled row + standing_reserved db older row + st_requested row \<le> st_activated row \<and>
    standing_reserved db older row + st_requested row \<le> st_vault row \<and>
    ((\<forall>x\<in>set newer. \<not> same_channel x (st_channel_id row) (st_epoch row)) \<and>
     (\<forall>x\<in>set (settlements db). same_channel x (st_channel_id row) (st_epoch row) \<longrightarrow>
        \<not> reopened db (st_settlement_id x)) \<longrightarrow>
       st_settled row + reserved db (st_channel_id row) (st_epoch row) \<le> st_activated row \<and>
       reserved db (st_channel_id row) (st_epoch row) \<le> st_vault row) \<and>
    (\<forall>sid. reopened db sid \<and> \<not> reopened db0 sid \<longrightarrow> (\<exists>w. Writes w \<in> set ls \<and> rw_settlement w = sid))"
proof -
  have inv: "reservations_ok db" "\<forall>sid. reopened db sid \<longrightarrow> reopened db0 sid \<or> written ls sid"
    using run_reservations [OF run_effects [OF assms(1)] assms(2,3)] by blast+
  have flags: "flagged db (settlements db) = flagged db older @ (row, standing db row) # flagged db newer"
    by (simp add: assms(4) flagged_def)
  then have ok: "rows_booked [] (flagged db older @ (row, standing db row) # flagged db newer)"
    using inv(1) by (simp add: reservations_ok_def)
  then have "0 < st_requested row \<and> within_right (standing_reserved db older row + st_requested row) row"
    by (simp add: settlement_book.booked_append held_flagged)
  moreover have "within_right (reserved db (st_channel_id row) (st_epoch row)) row"
    if "\<forall>x\<in>set newer. \<not> same_channel x (st_channel_id row) (st_epoch row)"
      "\<forall>x\<in>set (settlements db). same_channel x (st_channel_id row) (st_epoch row) \<longrightarrow> \<not> reopened db (st_settlement_id x)"
  proof -
    have "within_right (standing_reserved db (settlements db) row) row"
      using settlement_book.booked_newest [OF ok] that(1)
      by (simp add: flags [symmetric] held_flagged) (auto simp: flagged_def channel_epoch_def same_channel_def)
    moreover have "standing_reserved db (settlements db) row = reserved db (st_channel_id row) (st_epoch row)"
      unfolding standing_reserved_def reserved_def standing_def settlement_live_def
      using that(2) by (intro arg_cong [where f = sum_list] arg_cong [where f = "map st_requested"] filter_cong)
        (auto simp: channel_epoch_def same_channel_def)
    ultimately show ?thesis by simp
  qed
  ultimately show ?thesis using inv(2) by (auto simp: within_right_def written_def)
qed

theorem reservations_within_right_witness:
  "0 < st_requested (example_row SAuthorized) \<and>
    reserved (example_runtime SAuthorized) ''channel-1'' 0 = 200 \<and>
    st_settled (example_row SAuthorized) + reserved (example_runtime SAuthorized) ''channel-1'' 0
      \<le> st_activated (example_row SAuthorized)"
proof -
  have "settlements (example_runtime SAuthorized) = [] @ example_row SAuthorized # []"
    by (simp add: example_runtime_def)
  from reservations_within_right [OF run_start example_runtime_inv example_reservations(1) this] show ?thesis
    by (simp add: reserved_def example_runtime_def same_channel_def example_reservations(2) [unfolded example_runtime_def])
qed

text \<open>
  Property C13. The lifecycle, over every interleaving: from any state of a run, and whatever recoveries
  are under way there, a registered settlement is never deleted, its identity, request, snapshot and
  amounts never change, and its state moves along the edges of the graph and the edges of a late
  recovery, which lead from completed and failed_before_submission back to the recovery's target. A
  rejected row is never touched again; as long as no recovery writes to the settlement, its state moves
  along the graph alone and a completed or failed row is not touched either.
\<close>

theorem settlement_lifecycle:
  assumes "settlement_run jcs db0 past db" "settlement_run_after jcs past db ls db'"
    and "select_settlement db sid = Some row"
  shows "\<exists>row'. select_settlement db' sid = Some row' \<and> immutable row' = immutable row \<and>
    (\<lambda>a b. settlement_edge a b \<or> late_edge a b)\<^sup>*\<^sup>* (st_state row) (st_state row') \<and>
    (st_state row = SRejected \<longrightarrow> row' = row) \<and>
    ((\<forall>w. Writes w \<in> set ls \<longrightarrow> rw_settlement w \<noteq> sid) \<longrightarrow>
       settlement_edge\<^sup>*\<^sup>* (st_state row) (st_state row') \<and> (terminal_reservation (st_state row) \<longrightarrow> row' = row))"
proof -
  have "reads_ready past db" using run_after_effects [OF assms(1)] by (simp add: reads_ready_def)
  then have "effect_run jcs db ls db'" using run_after_effects [OF assms(2)] by simp
  from effect_run_row [OF this assms(3)] select_row_key [OF assms(3)] show ?thesis
    by (auto simp: row_moved_def written_def)
qed

theorem settlement_lifecycle_witness:
  "\<exists>db' row'. settlement_run example_jcs (example_runtime SAuthorized) [Executes ''settlement-1''] db' \<and>
     select_settlement db' ''settlement-1'' = Some row' \<and> immutable row' = immutable (example_row SAuthorized) \<and>
     settlement_edge\<^sup>*\<^sup>* SAuthorized (st_state row')"
proof -
  obtain db' where run: "settlement_run example_jcs (example_runtime SAuthorized) [Executes ''settlement-1''] db'"
    using example_executes by blast
  from settlement_lifecycle [OF run_start run example_select] run show ?thesis by auto
qed



text \<open>
  Property C14. The journal of a settlement is an unbroken hash chain: in every reachable state the
  journal a reader gets is numbered 1, 2, ..., starts from the zero hash, each entry carries the hash
  of the one before it, the last entry has the state of the row, and no event hash occurs twice.
\<close>

theorem settlement_journal_chained:
  assumes "settlement_run jcs db0 ls db" "runtime_inv db0" "settlement_journal db sid = Inr es"
  shows "chained se_sequence se_previous_hash se_event_hash zero_hash 1 es \<and> es \<noteq> [] \<and>
    (\<exists>row. select_settlement db sid = Some row \<and> se_state (last es) = st_state row) \<and>
    distinct (map se_event_hash es)"
proof -
  from assms(3) obtain row where row: "select_settlement db sid = Some row"
    and es: "es = sort_key se_sequence (events_for db sid)"
    by (auto simp: settlement_journal_def bind_res_eq_Inr require_row_Inr)
  have inv: "journal_ok db" using run_keeps_inv [OF assms(1,2)] by (simp add: runtime_inv_def)
  then have ch: "log_chained (events_for db sid)" by (simp add: journal_ok_def)
  have "distinct (map se_event_hash (events_for db sid))"
    using inv by (simp add: journal_ok_def events_for_def distinct_map_filter)
  moreover have "events_for db sid \<noteq> [] \<and> se_state (last (events_for db sid)) = st_state row"
    using inv select_row_key [OF row] by (auto simp: journal_ok_def)
  ultimately show ?thesis using ch row by (simp add: es sequence_sorted_events)
qed

theorem settlement_journal_chained_witness:
  "\<exists>db' es. settlement_run example_jcs (example_runtime SAuthorized) [Executes ''settlement-1''] db' \<and>
     settlement_journal db' ''settlement-1'' = Inr es \<and>
     chained se_sequence se_previous_hash se_event_hash zero_hash 1 es \<and> es \<noteq> []"
proof -
  obtain db' where run: "settlement_run example_jcs (example_runtime SAuthorized) [Executes ''settlement-1''] db'"
    using example_executes by blast
  obtain row where "select_settlement db' ''settlement-1'' = Some row" using effect_run_row [OF run_effects [OF run] example_select] by blast
  then have "require_row db' ''settlement-1'' = Inr row" by (simp add: require_row_Inr)
  then obtain es where "settlement_journal db' ''settlement-1'' = Inr es" by (simp add: settlement_journal_def)
  with run settlement_journal_chained [OF run example_runtime_inv] show ?thesis by blast
qed

text \<open>
  Property C30. A validated request is a part of the recipient's open right in the snapshot it names:
  the snapshot is a valid channel in a settleable status with exactly the claimed totals and the
  claimed hash, the request's identity fields are the snapshot's, the amount is positive and within
  both the open right and the vault, the clock is inside the request's window and the window inside
  the channel's; settling that amount keeps the accounting law.
\<close>

theorem validated_request_within_right:
  assumes "validate_settlement_request jcs request_value snapshot now = Inr q"
  shows "\<exists>p request. validate_channel snapshot = Inr p \<and> request_value = PDict request \<and>
    0 < sq_requested q \<and> sq_requested q \<le> outstanding_right_base_units p \<and>
    sq_requested q \<le> vault_balance_base_units p \<and> sq_activated q = activated_authorized_total_base_units p \<and>
    sq_settled q = settled_total_base_units p \<and> sq_vault q = vault_balance_base_units p \<and>
    sha256_canonical_json jcs snapshot = Inr (text_value (item request ''channel_snapshot_hash'')) \<and>
    (\<forall>f\<in>set matched_fields. py_eq (item request f) (item (dict_of snapshot) f)) \<and>
    accounting_ok (settle (sq_requested q) p) \<and>
    (\<exists>created expires channel_expires.
       st_time (item request ''created_at'') ''request.created_at'' = Inr created \<and>
       st_time (item request ''expires_at'') ''request.expires_at'' = Inr expires \<and>
       st_time (item (dict_of snapshot) ''expires_at'') ''channel_snapshot.expires_at'' = Inr channel_expires \<and>
       created \<le> to_seconds (instant now) \<and> to_seconds (instant now) < expires \<and> expires \<le> channel_expires)"
  using assms
proof (rule validate_settlement_requestE)
  fix request p
  assume p: "validate_channel snapshot = Inr p" and r: "request_value = PDict request"
    and pos: "st_amount (item request ''requested_base_units'') ''request.requested_base_units'' True = Inr (sq_requested q)"
    and window: "check_request_window request (dict_of snapshot) now = Inr ()"
    and same: "\<forall>f\<in>set matched_fields. py_eq (item request f) (item (dict_of snapshot) f)"
    and hash: "sha256_canonical_json jcs snapshot = Inr (text_value (item request ''channel_snapshot_hash''))"
    and amounts: "check_request_amounts (sq_requested q) (sq_activated q) (sq_settled q) (sq_vault q) p = Inr ()"
  have ok: "accounting_ok p" using p by (rule validate_channel_accounting)
  have "0 < sq_requested q" using st_amount_Inr [OF pos] by simp
  moreover have "sq_requested q \<le> outstanding_right_base_units p"
    using amounts ok unfolding check_request_amounts_Inr accounting_ok_def by linarith
  ultimately have le: "0 < sq_requested q" "sq_requested q \<le> outstanding_right_base_units p" .
  have "accounting_ok (settle (sq_requested q) p)" using ok le by (rule settle_accounting)
  moreover have "sq_requested q \<le> vault_balance_base_units p \<and> sq_activated q = activated_authorized_total_base_units p \<and>
    sq_settled q = settled_total_base_units p \<and> sq_vault q = vault_balance_base_units p"
    using amounts unfolding check_request_amounts_Inr by simp
  moreover have "\<exists>created expires channel_expires.
       st_time (item request ''created_at'') ''request.created_at'' = Inr created \<and>
       st_time (item request ''expires_at'') ''request.expires_at'' = Inr expires \<and>
       st_time (item (dict_of snapshot) ''expires_at'') ''channel_snapshot.expires_at'' = Inr channel_expires \<and>
       created \<le> to_seconds (instant now) \<and> to_seconds (instant now) < expires \<and> expires \<le> channel_expires"
    using window by (rule check_request_window_Inr) blast
  ultimately show ?thesis using p r le same hash by blast
qed


theorem validated_request_within_right_witness:
  "\<exists>p. validate_channel example_before = Inr p \<and> 200 \<le> outstanding_right_base_units p \<and>
     accounting_ok (settle 200 p)"
  using validated_request_within_right [OF example_validated] by (auto simp: example_settlement_def)

text \<open>
  Property C9. A settlement completes only on independent evidence of its exact effect: when reconcile
  returns a receipt for a settlement that was not completed, there is at least one observation, the
  sources are pairwise distinct, each is accepted by the verifier registered for it, and each reports
  the persisted transaction signature, the settled total raised and the vault lowered by exactly the
  requested amount and the recipient credited with it. The row becomes completed, and the receipt
  carries those totals and the hash of its own content.
\<close>

theorem reconcile_completes_on_evidence:
  assumes "reconcile jcs db sid observations verifiers now = (db', Inr (Some receipt))"
    and "select_settlement db sid = Some row" "st_state row \<noteq> SCompleted"
  shows "observations \<noteq> [] \<and> reconcilable (st_state row) \<and>
    (\<exists>normalized.
       list_all2 (\<lambda>obs v. normalize_observation jcs obs = Inr v) observations normalized \<and>
       distinct (map (\<lambda>v. text_value (item v ''source_id'')) normalized) \<and>
       (\<forall>v\<in>set normalized.
          (\<exists>ov. verifiers (text_value (item v ''source_id'')) = Some ov \<and>
             ov_source_id ov = text_value (item v ''source_id'') \<and> ov_verify ov v) \<and>
          (\<exists>s. st_signature row = Some s \<and> item v ''transaction_signature'' = PStr s) \<and>
          item v ''settled_total_after'' = PStr (str_int (st_settled row + st_requested row)) \<and>
          item v ''vault_balance_after'' = PStr (str_int (st_vault row - st_requested row)) \<and>
          amount_of (item v ''recipient_balance_after'') - amount_of (item v ''recipient_balance_before'') =
            st_requested row)) \<and>
    item receipt ''settled_total_after'' = PStr (str_int (st_settled row + st_requested row)) \<and>
    (\<exists>h row'. sha256_canonical_json jcs (PDict (butlast receipt)) = Inr h \<and>
       last receipt = (KStr ''receipt_hash'', PStr h) \<and> select_settlement db' sid = Some row' \<and>
       st_state row' = SCompleted \<and> st_receipt_hash row' = Some h)"
  using assms
proof (rule reconcile_Inr_Some)
  fix normalized fps ts
  assume given: "observations \<noteq> []" "reconcilable (st_state row)"
    and checked: "check_observations jcs verifiers observations = Inr (normalized, fps)"
    and match: "\<forall>v\<in>set normalized. observation_mismatches row v = Inr []"
    and tx: "complete_tx jcs db sid row normalized ts = Inr (db', Some receipt)"
  note normal = check_observations_Inr [OF checked]
  have "(\<exists>ov. verifiers (text_value (item v ''source_id'')) = Some ov \<and>
             ov_source_id ov = text_value (item v ''source_id'') \<and> ov_verify ov v) \<and>
      (\<exists>s. st_signature row = Some s \<and> item v ''transaction_signature'' = PStr s) \<and>
      item v ''settled_total_after'' = PStr (str_int (st_settled row + st_requested row)) \<and>
      item v ''vault_balance_after'' = PStr (str_int (st_vault row - st_requested row)) \<and>
      amount_of (item v ''recipient_balance_after'') - amount_of (item v ''recipient_balance_before'') =
            st_requested row" if "v \<in> set normalized" for v
  proof -
    from normal(1) that obtain s where "item v ''transaction_signature'' = PStr s"
      by (induction rule: list_all2_induct) (auto dest: normalize_observation_signature)
    with that normal(3) observation_matches [of row v] match show ?thesis
      by (auto simp: verify_observation_Inr expected_observation_def Let_def split: option.splits)
  qed
  moreover from tx obtain h c p where
    h: "sha256_canonical_json jcs (PDict (unsigned_receipt row normalized ts)) = Inr h"
    and receipt: "receipt = unsigned_receipt row normalized ts @ [(KStr ''receipt_hash'', PStr h)]"
    and ev: "append_event jcs (update_settlement sid (set_completed c h ts) db) sid SCompleted
       ''economic_observation_reconciled'' p ts = Inr db'"
    by (rule complete_tx_Inr) simp
  moreover have "item receipt ''settled_total_after'' = PStr (str_int (st_settled row + st_requested row))"
    by (simp add: receipt unsigned_receipt_def Let_def item_def)
  moreover have "select_settlement db' sid = Some (set_completed c h ts row)"
    using ev assms(2) by (rule_tac append_event_Inr) (auto simp: settlement_table.sel_upd set_completed_def)
  ultimately show ?thesis
    using given normal(1,2) by (intro conjI) (auto simp: set_completed_def)
qed


theorem reconcile_completes_on_evidence_witness:
  "\<exists>db' receipt row'. reconcile example_jcs (example_runtime SReconciling) ''settlement-1'' [PDict example_observation]
       example_verifiers example_now = (db', Inr (Some receipt)) \<and>
     item receipt ''settled_total_after'' = PStr (str_int 350) \<and>
     select_settlement db' ''settlement-1'' = Some row' \<and> st_state row' = SCompleted"
proof -
  obtain db' receipt where ok: "reconcile example_jcs (example_runtime SReconciling) ''settlement-1''
      [PDict example_observation] example_verifiers example_now = (db', Inr (Some receipt))"
    using example_reconcile by blast
  from reconcile_completes_on_evidence [OF ok example_select] have
    "item receipt ''settled_total_after'' = PStr (str_int 350) \<and>
     (\<exists>row'. select_settlement db' ''settlement-1'' = Some row' \<and> st_state row' = SCompleted)"
    by (auto simp del: str_int_nonneg)
  with ok show ?thesis by blast
qed



text \<open>
  Registration is idempotent: once a request is registered, presenting the same request
  again, with any snapshot and at any time, returns the same record and changes nothing, and a request
  with other canonical bytes under the same settlement id is refused as a conflict.
\<close>

theorem register_request_idempotent:
  assumes "register_request jcs db r s t = (db', Inr rec)" "sc_settlement_id rec = sid"
    and "st_closed r ''request'' request_fields = Inr d" "item d ''settlement_id'' = PStr sid"
  shows "register_request jcs db' r s' t' = (db', Inr rec) \<and>
    (\<forall>r2 d2 h2. st_closed r2 ''request'' request_fields = Inr d2 \<and> item d2 ''settlement_id'' = PStr sid \<and>
       sha256_canonical_json jcs (PDict d2) = Inr h2 \<and> h2 \<noteq> sc_request_hash rec \<longrightarrow>
       register_request jcs db' r2 s' t' =
         (db', Inl (st_reject ''idempotency_conflict'' ''request.settlement_id'')))"
proof -
  from register_request_stored [OF assms] obtain row where row: "identifier_text sid"
    "select_settlement db' sid = Some row" "sha256_canonical_json jcs (PDict d) = Inr (st_request_hash row)"
    "record_from_row jcs db' row = Inr rec" by blast
  have "sc_request_hash rec = st_request_hash row"
    using row(4) by (auto simp: record_from_row_def bind_res_eq_Inr)
  with row assms(3,4) show ?thesis
    by (auto simp: register_request_def st_identifier_def string_with_def)
qed

theorem register_request_idempotent_witness:
  "\<exists>rec. register_request example_jcs (example_runtime SAuthorized) example_request example_before example_now =
     (example_runtime SAuthorized, Inr rec) \<and>
   register_request example_jcs (example_runtime SAuthorized) example_request PNone example_now =
     (example_runtime SAuthorized, Inr rec)"
proof -
  let ?db = "example_runtime SAuthorized"
  obtain rec where rec: "record_from_row example_jcs ?db (example_row SAuthorized) = Inr rec" "sc_settlement_id rec = ''settlement-1''"
    by (simp add: record_from_row_def receipt_from_row_def)
  have closed: "st_closed example_request ''request'' request_fields = Inr (example_request_items example_snapshot_hash)"
    by (simp add: example_request_def example_request_closed)
  have reg: "register_request example_jcs ?db example_request example_before example_now = (?db, Inr rec)"
    using rec(1)
    by (simp add: register_request_def closed example_request_items_lookup st_identifier_def string_with_def
        example_request_hash example_select)
  from register_request_idempotent [OF reg rec(2) closed example_request_items_lookup(6), of PNone example_now] reg
  show ?thesis by blast
qed

text \<open>
  Property C11. The executor is called only under a persisted authorization that names exactly the
  persisted commitment (request, commitment hash, prepared message hash, signer), neither of them
  expired, and only for the executor the commitment names.
\<close>

theorem executor_call_authorized:
  assumes "settlement_run jcs db0 ls db" "runtime_inv db0" "submit_intent jcs db sid i now = (db', Inr a)"
  shows "\<exists>row c. select_settlement db sid = Some row \<and> st_state row = SAuthorized \<and>
    st_commitment row = Some c \<and> st_authorization row = Some a \<and> item c ''executor_id'' = PStr i \<and>
    (\<forall>(x, y)\<in>set bound_pairs. item a x = item c y) \<and>
    (\<exists>t. st_time (item a ''expires_at'') ''authorization.expires_at'' = Inr t \<and> to_seconds (instant now) < t) \<and>
    (\<exists>t. st_time (item c ''expires_at'') ''commitment.expires_at'' = Inr t \<and> to_seconds (instant now) < t)"
proof -
  from assms(3) obtain ts where "intent_tx jcs db sid i now ts = Inr (db', a)"
    by (auto simp: submit_intent_def transaction_def bind_res_eq_Inr on_integrity_error_Inr split: sum.splits)
  then show ?thesis
  proof (rule intent_tx_Inr)
    fix row c
    assume row: "select_settlement db sid = Some row" "st_state row = SAuthorized"
      and c: "st_commitment row = Some c" "st_authorization row = Some a"
      and rest: "item c ''executor_id'' = PStr i"
      "\<exists>t. st_time (item a ''expires_at'') ''authorization.expires_at'' = Inr t \<and> to_seconds (instant now) < t"
      "\<exists>t. st_time (item c ''expires_at'') ''commitment.expires_at'' = Inr t \<and> to_seconds (instant now) < t"
    have "authorization_bound row"
      using run_keeps_inv [OF assms(1,2)] row select_row_key [OF row(1)]
      by (simp add: runtime_inv_def authorizations_ok_def)
    then have "\<forall>(x, y)\<in>set bound_pairs. item a x = item c y"
      using c by (auto simp: authorization_bound_def)
    with row c rest show ?thesis by blast
  qed
qed

theorem executor_call_authorized_witness:
  "\<exists>db'. submit_intent example_jcs (example_runtime SAuthorized) ''settlement-1'' ''executor-1'' example_now =
       (db', Inr example_authorization) \<and>
     (\<exists>row c. select_settlement (example_runtime SAuthorized) ''settlement-1'' = Some row \<and>
        st_commitment row = Some c \<and> item c ''executor_id'' = PStr ''executor-1'')"
proof -
  obtain db' where ok: "submit_intent example_jcs (example_runtime SAuthorized) ''settlement-1'' ''executor-1'' example_now =
     (db', Inr example_authorization)" using example_intent by blast
  from executor_call_authorized [OF run_start example_runtime_inv ok] ok show ?thesis by blast
qed

end
