(* ===== verification/Closure.thy ===== *)
theory Closure
  imports Channel Py_Time
begin

text \<open>
  \<^verbatim>\<open>foundry_channel_protocol/closure.py\<close>, first half: the artifacts of a channel close. A close request with
  its snapshot, the freeze at the deadline, the refund request and its projection, the finalization
  gate and the epoch decision. Arguments the code annotates as mappings are dictionaries here.
\<close>

abbreviation cl_reject :: "string \<Rightarrow> string \<Rightarrow> exn" where
  "cl_reject \<equiv> Exn ClosureError"

definition ambiguous_states :: "string list" where
  "ambiguous_states =
     [''submitted'', ''confirming'', ''reconciling'', ''needs_recovery'', ''needs_review'', ''disputed'']"

definition releasing_states :: "string list" where
  "releasing_states =
     [''rejected_before_submission'', ''failed_before_submission'',
      ''explicitly_cancelled_before_authorization'', ''completed'']"

definition refund_reasons :: "string list" where
  "refund_reasons = [''post_claim_window_unallocated'', ''final_close'']"

definition closure_request_fields :: "string list" where
  "closure_request_fields =
     [''type'', ''protocol_version'', ''domain'', ''channel'', ''closure_id'', ''idempotency_key'',
      ''channel_snapshot_hash'', ''requested_at'', ''claim_deadline'', ''status'', ''request_hash'']"

definition request_snapshot_fields :: "string list" where
  "request_snapshot_fields =
     [''type'', ''protocol_version'', ''domain'', ''channel'', ''closure_id'', ''closure_request_hash'',
      ''channel_snapshot_hash'', ''funded_total_base_units'', ''activated_total_base_units'',
      ''settled_total_base_units'', ''refunded_total_base_units'', ''vault_balance_base_units'',
      ''outstanding_right_base_units'', ''unallocated_capacity_base_units'', ''latest_activated_sequence'',
      ''latest_activated_voucher_hash'', ''requested_at'', ''claim_deadline'',
      ''pre_deadline_refundable_base_units'', ''channel_status'', ''closure_phase'', ''request_snapshot_hash'']"

definition freeze_snapshot_fields :: "string list" where
  "freeze_snapshot_fields =
     [''type'', ''protocol_version'', ''domain'', ''channel'', ''closure_id'', ''request_snapshot_hash'',
      ''channel_snapshot_hash'', ''funded_total_base_units'', ''activated_total_base_units'',
      ''settled_total_base_units'', ''refunded_total_base_units'', ''vault_balance_base_units'',
      ''outstanding_right_base_units'', ''excess_refundable_base_units'', ''latest_activated_sequence'',
      ''latest_activated_voucher_hash'', ''claim_deadline'', ''frozen_at'', ''unresolved_operation_count'',
      ''channel_status'', ''closure_phase'', ''freeze_snapshot_hash'']"

definition refund_request_fields :: "string list" where
  "refund_request_fields =
     [''type'', ''protocol_version'', ''domain'', ''channel'', ''closure_id'', ''refund_id'', ''idempotency_key'',
      ''reason'', ''destination'', ''requested_base_units'', ''freeze_snapshot_hash'', ''created_at'',
      ''expires_at'', ''request_hash'']"

section \<open>Field checks\<close>

text \<open>
  Both differences are sorted first: unknown keys of mixed kinds raise TypeError even when keys are
  missing, and \<open>', '.join(unknown)\<close> raises it for keys that are not text.
\<close>

definition cl_closed :: "pydict \<Rightarrow> string \<Rightarrow> string list \<Rightarrow> string list \<Rightarrow> unit res" where
  "cl_closed d f required allowed =
     (let unknown = unknown_keys allowed d in
      if mixed_keys unknown then Inl (PyRaise ''TypeError'')
      else if missing_keys required d \<noteq> [] then Inl (cl_reject ''missing_field'' f)
      else if list_ex (\<lambda>k. key_kind k \<noteq> 0) unknown then Inl (PyRaise ''TypeError'')
      else reject_if (unknown \<noteq> []) (cl_reject ''unknown_field'' f))"

definition with_hash :: "serializer \<Rightarrow> pydict \<Rightarrow> string \<Rightarrow> pydict res" where
  "with_hash jcs d f = bind_res (sha256_canonical_json jcs (PDict d)) (\<lambda>h. Inr (d @ [(KStr f, PStr h)]))"

definition cl_hash :: "pyval \<Rightarrow> string \<Rightarrow> string res" where
  "cl_hash v f = string_with ClosureError hash_text ''invalid_hash'' v f"

definition cl_identifier :: "pyval \<Rightarrow> string \<Rightarrow> string res" where
  "cl_identifier v f = string_with ClosureError identifier_text ''invalid_identifier'' v f"

definition cl_pubkey :: "pyval \<Rightarrow> string \<Rightarrow> string res" where
  "cl_pubkey v f = string_with ClosureError pubkey_text ''invalid_pubkey'' v f"

definition same_keys :: "pydict \<Rightarrow> string list \<Rightarrow> bool" where
  "same_keys d ks \<longleftrightarrow> unknown_keys ks d = [] \<and> missing_keys ks d = []"

definition domain_fields :: "string list" where
  "domain_fields = [''environment'', ''network'', ''genesis_hash'', ''program_id'']"

definition validate_domain :: "pyval \<Rightarrow> string \<Rightarrow> unit res" where
  "validate_domain v f =
     (case v of
        PDict d \<Rightarrow>
          run_all
           [reject_if (\<not> same_keys d domain_fields) (cl_reject ''invalid_domain_shape'' f),
            reject_if (item d ''environment'' \<noteq> PStr ''devnet'' \<or> item d ''network'' \<noteq> PStr ''solana:devnet'')
              (cl_reject ''unsupported_domain'' f),
            ignore (cl_pubkey (item d ''genesis_hash'') (f @ ''.genesis_hash'')),
            ignore (cl_pubkey (item d ''program_id'') (f @ ''.program_id''))]
      | _ \<Rightarrow> Inl (cl_reject ''invalid_type'' f))"

definition reference_fields :: "string list" where
  "reference_fields = [''channel_id'', ''channel_account'', ''epoch'', ''sender'', ''mint'']"

definition cl_epoch :: "pyval \<Rightarrow> string \<Rightarrow> unit res" where
  "cl_epoch v f =
     (case v of PInt i \<Rightarrow> reject_if (i < 0) (cl_reject ''invalid_epoch'' f)
      | _ \<Rightarrow> Inl (cl_reject ''invalid_epoch'' f))"

definition validate_channel_reference :: "pyval \<Rightarrow> string \<Rightarrow> unit res" where
  "validate_channel_reference v f =
     (case v of
        PDict d \<Rightarrow>
          run_all
           [reject_if (\<not> same_keys d reference_fields) (cl_reject ''invalid_channel_reference_shape'' f),
            ignore (cl_identifier (item d ''channel_id'') (f @ ''.channel_id'')),
            ignore (cl_pubkey (item d ''channel_account'') (f @ ''.channel_account'')),
            cl_epoch (item d ''epoch'') (f @ ''.epoch''),
            ignore (cl_pubkey (item d ''sender'') (f @ ''.sender'')),
            ignore (cl_pubkey (item d ''mint'') (f @ ''.mint''))]
      | _ \<Rightarrow> Inl (cl_reject ''invalid_type'' f))"

definition cl_time :: "pyval \<Rightarrow> string \<Rightarrow> int res" where
  "cl_time v f = timestamp_with ClosureError fromisoformat_utc v f"

text \<open>Unlike the settlement clock this one keeps the microseconds.\<close>

definition cl_utc :: "py_datetime \<Rightarrow> int res" where
  "cl_utc t = (case utcoffset t of None \<Rightarrow> Inl (cl_reject ''naive_datetime'' ''now'') | Some off \<Rightarrow> Inr (instant t))"

definition cl_format_time :: "py_datetime \<Rightarrow> string res" where
  "cl_format_time t = bind_res (cl_utc t) (\<lambda>u. Inr (strftime_utc u))"

text \<open>
  \<^verbatim>\<open>str.isdigit\<close> accepts every decimal digit of Unicode and, beyond those, digits such as superscripts
  and circled digits, on which \<^verbatim>\<open>int\<close> raises ValueError. UTF-8 leading bytes and the range of the last.
\<close>

definition nondecimal_digits :: "(nat list \<times> nat \<times> nat) list" where
  "nondecimal_digits =
     [([194], 178, 179), ([194], 185, 185), ([225, 141], 169, 177), ([225, 167], 154, 154), ([226, 129], 176, 176),
      ([226, 129], 180, 185), ([226, 130], 128, 137), ([226, 145], 160, 168), ([226, 145], 180, 188),
      ([226, 146], 136, 144), ([226, 147], 170, 170), ([226, 147], 181, 189), ([226, 147], 191, 191),
      ([226, 157], 182, 190), ([226, 158], 128, 136), ([226, 158], 138, 146), ([240, 144, 169], 128, 131),
      ([240, 144, 185], 160, 168), ([240, 145, 129], 146, 154), ([240, 159, 132], 128, 138)]"

fun take_nondecimal :: "(nat list \<times> nat \<times> nat) list \<Rightarrow> string \<Rightarrow> string option" where
  "take_nondecimal [] s = None"
| "take_nondecimal ((pre, lo, hi) # bs) s =
     (case drop (length pre) s of
        c # r \<Rightarrow> (if map of_char (take (length pre) s) = pre \<and> in_range lo hi c then Some r
                  else take_nondecimal bs s)
      | [] \<Rightarrow> take_nondecimal bs s)"

text \<open>The digits of a text, None for one that is not decimal; each takes at least one byte.\<close>

fun digits_of :: "nat \<Rightarrow> string \<Rightarrow> nat option list option" where
  "digits_of n [] = Some []"
| "digits_of 0 (c # s) = None"
| "digits_of (Suc n) (c # s) =
     (case take_digit (c # s) of
        Some (v, a, r) \<Rightarrow> map_option ((#) (Some v)) (digits_of n r)
      | None \<Rightarrow>
          (case take_nondecimal nondecimal_digits (c # s) of
             None \<Rightarrow> None
           | Some r \<Rightarrow> map_option ((#) None) (digits_of n r)))"

definition digits_value :: "nat option list \<Rightarrow> nat" where
  "digits_value ds = foldl (\<lambda>a d. 10 * a + the d) 0 ds"

definition cl_amount :: "pyval \<Rightarrow> string \<Rightarrow> bool \<Rightarrow> int res" where
  "cl_amount v f positive =
     (case v of
        PStr s \<Rightarrow>
          (case digits_of (length s) s of
             None \<Rightarrow> Inl (cl_reject ''invalid_amount'' f)
           | Some ds \<Rightarrow>
               (if ds = [] \<or> 1 < length ds \<and> hd s = CHR ''0'' then Inl (cl_reject ''invalid_amount'' f)
                else if List.member ds None \<or> 4300 < length ds then Inl (PyRaise ''ValueError'')
                else
                  let parsed = int (digits_value ds) in
                  bind_res (reject_if (positive \<and> parsed \<le> 0) (cl_reject ''amount_must_be_positive'' f)) (\<lambda>_.
                  bind_res (reject_if (parsed > u64_max) (cl_reject ''amount_out_of_range'' f)) (\<lambda>_.
                  Inr parsed))))
      | _ \<Rightarrow> Inl (cl_reject ''invalid_amount'' f))"

definition operation_states_ok :: "string list \<Rightarrow> unit res" where
  "operation_states_ok states =
     reject_if (list_ex (\<lambda>s. \<not> List.member (ambiguous_states @ releasing_states) s) states)
       (cl_reject ''unsupported_operation_state'' ''operation_states'')"

definition ambiguous_count :: "string list \<Rightarrow> int" where
  "ambiguous_count states = int (length (filter (List.member ambiguous_states) states))"

definition channel_domain :: "pydict \<Rightarrow> pydict" where
  "channel_domain channel = map (\<lambda>f. (KStr f, item channel f)) domain_fields"

definition channel_reference :: "pydict \<Rightarrow> pydict" where
  "channel_reference channel = map (\<lambda>f. (KStr f, item channel f)) reference_fields"

definition validate_hash :: "serializer \<Rightarrow> pydict \<Rightarrow> string \<Rightarrow> unit res" where
  "validate_hash jcs d f =
     bind_res (cl_hash (item d f) f) (\<lambda>supplied.
     bind_res (sha256_canonical_json jcs (PDict (filter (\<lambda>kv. fst kv \<noteq> KStr f) d))) (\<lambda>h.
     reject_if (h \<noteq> supplied) (cl_reject ''artifact_tampering'' f)))"

definition expect :: "pydict \<Rightarrow> string \<Rightarrow> string \<Rightarrow> exn \<Rightarrow> unit res" where
  "expect d f s e = reject_if (item d f \<noteq> PStr s) e"

text \<open>The conservation checks of both snapshots: funded, activated, settled, refunded, vault, A - S, F - R - A.\<close>

definition check_totals ::
  "string \<Rightarrow> string \<Rightarrow> int \<Rightarrow> int \<Rightarrow> int \<Rightarrow> int \<Rightarrow> int \<Rightarrow> int \<Rightarrow> int \<Rightarrow> unit res" where
  "check_totals f code F A S R V outstanding unallocated =
     run_all
      [reject_if (F \<noteq> V + S + R) (cl_reject ''conservation_violation'' f),
       reject_if (\<not> (0 \<le> S \<and> S \<le> A \<and> A \<le> F - R)) (cl_reject ''rights_bounds_violation'' f),
       reject_if (outstanding \<noteq> A - S) (cl_reject ''outstanding_right_mismatch'' f),
       reject_if (unallocated \<noteq> F - R - A) (cl_reject code f)]"

definition check_freeze_totals :: "pydict \<Rightarrow> unit res" where
  "check_freeze_totals d =
     bind_res (cl_amount (item d ''funded_total_base_units'') ''freeze.funded'' False) (\<lambda>F.
     bind_res (cl_amount (item d ''activated_total_base_units'') ''freeze.activated'' False) (\<lambda>A.
     bind_res (cl_amount (item d ''settled_total_base_units'') ''freeze.settled'' False) (\<lambda>S.
     bind_res (cl_amount (item d ''refunded_total_base_units'') ''freeze.refunded'' False) (\<lambda>R.
     bind_res (cl_amount (item d ''vault_balance_base_units'') ''freeze.vault'' False) (\<lambda>V.
     bind_res (cl_amount (item d ''outstanding_right_base_units'') ''freeze.outstanding'' False) (\<lambda>outstanding.
     bind_res (cl_amount (item d ''excess_refundable_base_units'') ''freeze.excess_refundable'' False) (\<lambda>excess.
     check_totals ''freeze_snapshot'' ''excess_refundable_mismatch'' F A S R V outstanding excess)))))))"

definition nonneg_int :: "pyval \<Rightarrow> bool" where
  "nonneg_int v = (case v of PInt i \<Rightarrow> 0 \<le> i | _ \<Rightarrow> False)"

definition validate_freeze_snapshot :: "serializer \<Rightarrow> pydict \<Rightarrow> unit res" where
  "validate_freeze_snapshot jcs d =
     bind_res (run_all
       [cl_closed d ''freeze_snapshot'' freeze_snapshot_fields freeze_snapshot_fields,
        validate_hash jcs d ''freeze_snapshot_hash'',
        expect d ''type'' ''closure_snapshot_at_freeze'' (cl_reject ''invalid_freeze_snapshot'' ''freeze_snapshot.type''),
        expect d ''protocol_version'' ''1.0.0''
          (cl_reject ''invalid_protocol_version'' ''freeze_snapshot.protocol_version''),
        validate_domain (item d ''domain'') ''freeze_snapshot.domain'',
        validate_channel_reference (item d ''channel'') ''freeze_snapshot.channel'',
        check_freeze_totals d,
        expect d ''channel_status'' ''closing''
          (cl_reject ''freeze_lifecycle_forbidden'' ''freeze_snapshot.channel_status''),
        expect d ''closure_phase'' ''ready_to_finalize''
          (cl_reject ''freeze_phase_invalid'' ''freeze_snapshot.closure_phase'')]) (\<lambda>_.
     bind_res (cl_time (item d ''frozen_at'') ''freeze_snapshot.frozen_at'') (\<lambda>frozen.
     bind_res (cl_time (item d ''claim_deadline'') ''freeze_snapshot.claim_deadline'') (\<lambda>deadline.
     run_all
      [reject_if (frozen < deadline) (cl_reject ''claim_window_open'' ''freeze_snapshot.frozen_at''),
       reject_if (\<not> nonneg_int (item d ''unresolved_operation_count''))
         (cl_reject ''invalid_unresolved_operation_count'' ''freeze_snapshot.unresolved_operation_count'')])))"

definition linked_fields :: "(string \<times> string) list" where
  "linked_fields =
     [(''closure_request_hash'', ''request_hash''), (''domain'', ''domain''), (''channel'', ''channel''),
      (''closure_id'', ''closure_id''), (''channel_snapshot_hash'', ''channel_snapshot_hash''),
      (''requested_at'', ''requested_at''), (''claim_deadline'', ''claim_deadline'')]"

definition check_request_totals :: "pydict \<Rightarrow> (int \<times> int \<times> int \<times> int) res" where
  "check_request_totals d =
     bind_res (cl_amount (item d ''funded_total_base_units'') ''request_snapshot.funded'' False) (\<lambda>F.
     bind_res (cl_amount (item d ''activated_total_base_units'') ''request_snapshot.activated'' False) (\<lambda>A.
     bind_res (cl_amount (item d ''settled_total_base_units'') ''request_snapshot.settled'' False) (\<lambda>S.
     bind_res (cl_amount (item d ''refunded_total_base_units'') ''request_snapshot.refunded'' False) (\<lambda>R.
     bind_res (cl_amount (item d ''vault_balance_base_units'') ''request_snapshot.vault'' False) (\<lambda>V.
     bind_res (cl_amount (item d ''outstanding_right_base_units'') ''request_snapshot.outstanding'' False) (\<lambda>outstanding.
     bind_res (cl_amount (item d ''unallocated_capacity_base_units'') ''request_snapshot.unallocated'' False) (\<lambda>unallocated.
     bind_res (check_totals ''snapshot_at_request'' ''unallocated_capacity_mismatch'' F A S R V outstanding unallocated) (\<lambda>_.
     Inr (F, A, S, R)))))))))"

definition validate_request_snapshot ::
  "serializer \<Rightarrow> pydict \<Rightarrow> pydict \<Rightarrow> (int \<times> int \<times> int \<times> int) res" where
  "validate_request_snapshot jcs req d =
     bind_res (run_all
       [cl_closed req ''closure_request'' closure_request_fields closure_request_fields,
        cl_closed d ''snapshot_at_request'' request_snapshot_fields request_snapshot_fields,
        validate_hash jcs req ''request_hash'',
        validate_hash jcs d ''request_snapshot_hash'',
        expect req ''type'' ''channel_closure_request'' (cl_reject ''invalid_closure_request'' ''closure_request.type''),
        expect req ''protocol_version'' ''1.0.0''
          (cl_reject ''invalid_protocol_version'' ''closure_request.protocol_version''),
        validate_domain (item req ''domain'') ''closure_request.domain'',
        validate_channel_reference (item req ''channel'') ''closure_request.channel'',
        expect d ''type'' ''closure_snapshot_at_request''
          (cl_reject ''invalid_request_snapshot'' ''snapshot_at_request.type''),
        expect d ''protocol_version'' ''1.0.0''
          (cl_reject ''invalid_protocol_version'' ''snapshot_at_request.protocol_version''),
        reject_if (list_ex (\<lambda>(f, g). \<not> py_eq (item d f) (item req g)) linked_fields)
          (cl_reject ''request_snapshot_link_mismatch'' ''snapshot_at_request''),
        expect req ''status'' ''requested'' (cl_reject ''invalid_closure_request'' ''closure_request.status''),
        expect d ''channel_status'' ''closing'' (cl_reject ''request_snapshot_lifecycle_invalid'' ''channel_status''),
        expect d ''closure_phase'' ''claim_window'' (cl_reject ''request_snapshot_phase_invalid'' ''closure_phase''),
        expect d ''pre_deadline_refundable_base_units'' ''0''
          (cl_reject ''pre_deadline_refund_forbidden'' ''pre_deadline_refundable_base_units'')]) (\<lambda>_.
     bind_res (cl_time (item d ''claim_deadline'') ''snapshot_at_request.claim_deadline'') (\<lambda>deadline.
     bind_res (cl_time (item d ''requested_at'') ''snapshot_at_request.requested_at'') (\<lambda>requested.
     bind_res (reject_if (deadline \<le> requested) (cl_reject ''close_window_invalid'' ''snapshot_at_request'')) (\<lambda>_.
     bind_res (check_request_totals d) (\<lambda>totals.
     bind_res (run_all
       [reject_if (\<not> nonneg_int (item d ''latest_activated_sequence''))
          (cl_reject ''invalid_activated_sequence'' ''snapshot_at_request.latest_activated_sequence''),
        ignore (cl_hash (item d ''latest_activated_voucher_hash'')
          ''snapshot_at_request.latest_activated_voucher_hash''),
        reject_if ((item d ''latest_activated_sequence'' = PInt 0) \<noteq> (fst (snd totals) = 0))
          (cl_reject ''activation_state_inconsistent'' ''snapshot_at_request'')]) (\<lambda>_.
     Inr totals))))))"

section \<open>Requesting a close\<close>

definition activation_is_eligible :: "py_datetime \<Rightarrow> string \<Rightarrow> bool res" where
  "activation_is_eligible now claim_deadline =
     bind_res (cl_utc now) (\<lambda>current.
     bind_res (cl_time (PStr claim_deadline) ''claim_deadline'') (\<lambda>deadline.
     Inr (current < deadline)))"

definition total_items :: "accounting_projection \<Rightarrow> pydict" where
  "total_items p =
     [(KStr ''funded_total_base_units'', PStr (str_int (funded_total_base_units p))),
      (KStr ''activated_total_base_units'', PStr (str_int (activated_authorized_total_base_units p))),
      (KStr ''settled_total_base_units'', PStr (str_int (settled_total_base_units p))),
      (KStr ''refunded_total_base_units'', PStr (str_int (refunded_total_base_units p))),
      (KStr ''vault_balance_base_units'', PStr (str_int (vault_balance_base_units p))),
      (KStr ''outstanding_right_base_units'', PStr (str_int (outstanding_right_base_units p)))]"

definition closure_snapshot ::
  "string \<Rightarrow> string \<Rightarrow> pydict \<Rightarrow> accounting_projection \<Rightarrow> string \<Rightarrow> string \<Rightarrow> string \<Rightarrow> pydict" where
  "closure_snapshot closure_id request_hash channel p snapshot_hash requested_at claim_deadline =
     [(KStr ''type'', PStr ''closure_snapshot_at_request''), (KStr ''protocol_version'', PStr ''1.0.0''),
      (KStr ''domain'', PDict (channel_domain channel)), (KStr ''channel'', PDict (channel_reference channel)),
      (KStr ''closure_id'', PStr closure_id), (KStr ''closure_request_hash'', PStr request_hash),
      (KStr ''channel_snapshot_hash'', PStr snapshot_hash)] @
     total_items p @
     [(KStr ''unallocated_capacity_base_units'', PStr (str_int (unallocated_capacity_base_units p))),
      (KStr ''latest_activated_sequence'', item channel ''latest_activated_sequence''),
      (KStr ''latest_activated_voucher_hash'', item channel ''latest_activated_voucher_hash''),
      (KStr ''requested_at'', PStr requested_at), (KStr ''claim_deadline'', PStr claim_deadline),
      (KStr ''pre_deadline_refundable_base_units'', PStr ''0''), (KStr ''channel_status'', PStr ''closing''),
      (KStr ''closure_phase'', PStr ''claim_window'')]"

definition closure_request_unsigned ::
  "pydict \<Rightarrow> string \<Rightarrow> string \<Rightarrow> string \<Rightarrow> int \<Rightarrow> int \<Rightarrow> pydict" where
  "closure_request_unsigned channel closure_id idempotency_key snapshot_hash requested_at deadline =
     [(KStr ''type'', PStr ''channel_closure_request''), (KStr ''protocol_version'', PStr ''1.0.0''),
      (KStr ''domain'', PDict (channel_domain channel)), (KStr ''channel'', PDict (channel_reference channel)),
      (KStr ''closure_id'', PStr closure_id), (KStr ''idempotency_key'', PStr idempotency_key),
      (KStr ''channel_snapshot_hash'', PStr snapshot_hash), (KStr ''requested_at'', PStr (strftime_utc requested_at)),
      (KStr ''claim_deadline'', PStr (strftime_utc deadline)), (KStr ''status'', PStr ''requested'')]"

definition request_close ::
  "serializer \<Rightarrow> pydict \<Rightarrow> string \<Rightarrow> string \<Rightarrow> py_datetime \<Rightarrow> py_datetime \<Rightarrow> (pydict \<times> pydict) res" where
  "request_close jcs channel closure_id idempotency_key now claim_deadline =
     bind_res (validate_channel (PDict channel)) (\<lambda>projection.
     bind_res (expect channel ''status'' ''active'' (cl_reject ''close_lifecycle_forbidden'' ''channel.status'')) (\<lambda>_.
     bind_res (cl_utc now) (\<lambda>requested_at.
     bind_res (cl_utc claim_deadline) (\<lambda>deadline.
     let minimum_grace = int_value (item (dict_of (item channel ''policy'')) ''minimum_close_grace_seconds'') in
     bind_res (run_all
       [reject_if (deadline \<le> requested_at) (cl_reject ''claim_deadline_not_future'' ''claim_deadline''),
        reject_if (deadline - requested_at < minimum_grace * 1000000)
          (cl_reject ''close_grace_too_short'' ''claim_deadline''),
        ignore (cl_identifier (PStr closure_id) ''closure_id''),
        ignore (cl_identifier (PStr idempotency_key) ''idempotency_key'')]) (\<lambda>_.
     bind_res (sha256_canonical_json jcs (PDict channel)) (\<lambda>snapshot_hash.
     bind_res (with_hash jcs
       (closure_request_unsigned channel closure_id idempotency_key snapshot_hash requested_at deadline)
       ''request_hash'') (\<lambda>request.
     bind_res (with_hash jcs
       (closure_snapshot closure_id (text_value (item request ''request_hash'')) channel projection snapshot_hash
         (strftime_utc requested_at) (strftime_utc deadline)) ''request_snapshot_hash'') (\<lambda>snapshot.
     Inr (request, snapshot)))))))))"

section \<open>Freezing\<close>

definition check_freeze_channel ::
  "pydict \<Rightarrow> pydict \<Rightarrow> accounting_projection \<Rightarrow> int \<times> int \<times> int \<times> int \<Rightarrow> unit res" where
  "check_freeze_channel req channel p totals =
     (case totals of (F, A, S, R) \<Rightarrow>
      run_all
       [expect channel ''status'' ''closing'' (cl_reject ''freeze_lifecycle_forbidden'' ''channel.status''),
        reject_if (\<not> py_eq (item channel ''claim_deadline'') (item req ''claim_deadline''))
          (cl_reject ''deadline_mismatch'' ''channel.claim_deadline''),
        reject_if (\<not> py_eq (PDict (channel_domain channel)) (item req ''domain''))
          (cl_reject ''domain_mismatch'' ''channel''),
        reject_if (\<not> py_eq (PDict (channel_reference channel)) (item req ''channel''))
          (cl_reject ''channel_reference_mismatch'' ''channel''),
        reject_if (funded_total_base_units p \<noteq> F) (cl_reject ''funding_changed_during_close'' ''channel''),
        reject_if (refunded_total_base_units p \<noteq> R) (cl_reject ''refund_changed_during_claim_window'' ''channel''),
        reject_if (settled_total_base_units p < S) (cl_reject ''settled_total_decreased'' ''channel''),
        reject_if (activated_authorized_total_base_units p < A)
          (cl_reject ''activated_total_decreased'' ''channel'')])"

definition check_freeze_activation ::
  "pydict \<Rightarrow> pydict \<Rightarrow> accounting_projection \<Rightarrow> int \<Rightarrow> unit res" where
  "check_freeze_activation snapshot channel p requested_activated =
     (let requested_sequence = int_value (item snapshot ''latest_activated_sequence'');
          frozen_sequence = int_value (item channel ''latest_activated_sequence'');
          hash_changed =
            (item channel ''latest_activated_voucher_hash'' \<noteq> item snapshot ''latest_activated_voucher_hash'')
      in run_all
       [reject_if (frozen_sequence < requested_sequence) (cl_reject ''activated_sequence_decreased'' ''channel''),
        reject_if (activated_authorized_total_base_units p > requested_activated \<and>
            \<not> frozen_sequence > requested_sequence)
          (cl_reject ''activation_transition_inconsistent'' ''channel.latest_activated_sequence''),
        reject_if ((frozen_sequence > requested_sequence) \<noteq> hash_changed)
          (cl_reject ''activation_transition_inconsistent'' ''channel.latest_activated_voucher_hash'')])"

definition freeze_unsigned ::
  "pydict \<Rightarrow> pydict \<Rightarrow> pydict \<Rightarrow> accounting_projection \<Rightarrow> string \<Rightarrow> int \<Rightarrow> string list \<Rightarrow> pydict" where
  "freeze_unsigned req snapshot channel p snapshot_hash frozen_at states =
     [(KStr ''type'', PStr ''closure_snapshot_at_freeze''), (KStr ''protocol_version'', PStr ''1.0.0''),
      (KStr ''domain'', PDict (channel_domain channel)), (KStr ''channel'', PDict (channel_reference channel)),
      (KStr ''closure_id'', item req ''closure_id''),
      (KStr ''request_snapshot_hash'', item snapshot ''request_snapshot_hash''),
      (KStr ''channel_snapshot_hash'', PStr snapshot_hash)] @
     total_items p @
     [(KStr ''excess_refundable_base_units'', PStr (str_int (unallocated_capacity_base_units p))),
      (KStr ''latest_activated_sequence'', item channel ''latest_activated_sequence''),
      (KStr ''latest_activated_voucher_hash'', item channel ''latest_activated_voucher_hash''),
      (KStr ''claim_deadline'', item req ''claim_deadline''), (KStr ''frozen_at'', PStr (strftime_utc frozen_at)),
      (KStr ''unresolved_operation_count'', PInt (ambiguous_count states)),
      (KStr ''channel_status'', PStr ''closing''), (KStr ''closure_phase'', PStr ''ready_to_finalize'')]"

definition freeze_closure ::
  "serializer \<Rightarrow> pydict \<Rightarrow> pydict \<Rightarrow> pydict \<Rightarrow> py_datetime \<Rightarrow> string list \<Rightarrow> pydict res" where
  "freeze_closure jcs req snapshot channel now states =
     bind_res (validate_request_snapshot jcs req snapshot) (\<lambda>totals.
     bind_res (cl_utc now) (\<lambda>frozen_at.
     bind_res (cl_time (item req ''claim_deadline'') ''claim_deadline'') (\<lambda>deadline.
     bind_res (reject_if (frozen_at < deadline) (cl_reject ''claim_window_open'' ''now'')) (\<lambda>_.
     bind_res (validate_channel (PDict channel)) (\<lambda>projection.
     bind_res (run_all
       [check_freeze_channel req channel projection totals,
        check_freeze_activation snapshot channel projection (fst (snd totals)),
        operation_states_ok states]) (\<lambda>_.
     bind_res (sha256_canonical_json jcs (PDict channel)) (\<lambda>snapshot_hash.
     with_hash jcs (freeze_unsigned req snapshot channel projection snapshot_hash frozen_at states)
       ''freeze_snapshot_hash'')))))))"

section \<open>Refunds\<close>

definition refund_request_unsigned ::
  "pydict \<Rightarrow> pydict \<Rightarrow> string \<Rightarrow> string \<Rightarrow> string \<Rightarrow> int \<Rightarrow> int \<Rightarrow> int \<Rightarrow> pydict" where
  "refund_request_unsigned req freeze refund_id idempotency_key reason requested created expiry =
     [(KStr ''type'', PStr ''refund_request''), (KStr ''protocol_version'', PStr ''1.0.0''),
      (KStr ''domain'', item req ''domain''), (KStr ''channel'', item req ''channel''),
      (KStr ''closure_id'', item req ''closure_id''), (KStr ''refund_id'', PStr refund_id),
      (KStr ''idempotency_key'', PStr idempotency_key), (KStr ''reason'', PStr reason),
      (KStr ''destination'', item (dict_of (item req ''channel'')) ''sender''),
      (KStr ''requested_base_units'', PStr (str_int requested)),
      (KStr ''freeze_snapshot_hash'', item freeze ''freeze_snapshot_hash''),
      (KStr ''created_at'', PStr (strftime_utc created)), (KStr ''expires_at'', PStr (strftime_utc expiry))]"

definition make_refund_request ::
  "serializer \<Rightarrow> pydict \<Rightarrow> pydict \<Rightarrow> string \<Rightarrow> string \<Rightarrow> string \<Rightarrow> int \<Rightarrow> py_datetime \<Rightarrow> py_datetime \<Rightarrow> pydict res" where
  "make_refund_request jcs req freeze refund_id idempotency_key reason requested now expires_at =
     bind_res (run_all
       [cl_closed req ''closure_request'' closure_request_fields closure_request_fields,
        validate_hash jcs req ''request_hash'',
        validate_freeze_snapshot jcs freeze,
        reject_if (item freeze ''request_snapshot_hash'' = PNone)
          (cl_reject ''freeze_snapshot_invalid'' ''freeze_snapshot''),
        reject_if (\<not> py_eq (item freeze ''closure_id'') (item req ''closure_id''))
          (cl_reject ''closure_link_mismatch'' ''freeze_snapshot.closure_id''),
        reject_if (\<not> py_eq (item freeze ''domain'') (item req ''domain''))
          (cl_reject ''domain_mismatch'' ''freeze_snapshot.domain''),
        reject_if (\<not> py_eq (item freeze ''channel'') (item req ''channel''))
          (cl_reject ''channel_reference_mismatch'' ''freeze_snapshot.channel''),
        reject_if (\<not> List.member refund_reasons reason) (cl_reject ''invalid_refund_reason'' ''reason''),
        reject_if (requested \<le> 0) (cl_reject ''amount_must_be_positive'' ''requested_base_units'')]) (\<lambda>_.
     bind_res (cl_utc now) (\<lambda>created.
     bind_res (cl_utc expires_at) (\<lambda>expiry.
     bind_res (run_all
       [reject_if (expiry \<le> created) (cl_reject ''refund_request_expired'' ''expires_at''),
        ignore (cl_identifier (PStr refund_id) ''refund_id''),
        ignore (cl_identifier (PStr idempotency_key) ''idempotency_key''),
        reject_if (4300 < length (str_int requested)) (PyRaise ''ValueError'')]) (\<lambda>_.
     with_hash jcs (refund_request_unsigned req freeze refund_id idempotency_key reason requested created expiry)
       ''request_hash''))))"

definition check_refund_links :: "pydict \<Rightarrow> pydict \<Rightarrow> unit res" where
  "check_refund_links r freeze =
     run_all
      [reject_if (\<not> py_eq (item r ''freeze_snapshot_hash'') (item freeze ''freeze_snapshot_hash''))
         (cl_reject ''freeze_snapshot_mismatch'' ''refund_request''),
       reject_if (\<not> py_eq (item r ''domain'') (item freeze ''domain''))
         (cl_reject ''domain_mismatch'' ''refund_request.domain''),
       reject_if (\<not> py_eq (item r ''channel'') (item freeze ''channel''))
         (cl_reject ''channel_reference_mismatch'' ''refund_request.channel''),
       reject_if (\<not> py_eq (item r ''closure_id'') (item freeze ''closure_id''))
         (cl_reject ''closure_link_mismatch'' ''refund_request.closure_id''),
       reject_if (\<not> py_eq (item r ''destination'') (item (dict_of (item freeze ''channel'')) ''sender''))
         (cl_reject ''refund_destination_substitution'' ''refund_request.destination''),
       validate_domain (item r ''domain'') ''refund_request.domain'',
       validate_channel_reference (item r ''channel'') ''refund_request.channel'',
       ignore (cl_pubkey (item r ''destination'') ''refund_request.destination'')]"

definition check_refund_window :: "pydict \<Rightarrow> pydict \<Rightarrow> int \<Rightarrow> unit res" where
  "check_refund_window r freeze current =
     bind_res (cl_time (item freeze ''claim_deadline'') ''claim_deadline'') (\<lambda>deadline.
     bind_res (reject_if (current < deadline) (cl_reject ''claim_window_open'' ''now'')) (\<lambda>_.
     bind_res (cl_time (item r ''expires_at'') ''refund_request.expires_at'') (\<lambda>expires.
     bind_res (reject_if (current \<ge> expires) (cl_reject ''refund_request_expired'' ''now'')) (\<lambda>_.
     bind_res (cl_time (item r ''created_at'') ''refund_request.created_at'') (\<lambda>created.
     reject_if (current < created) (cl_reject ''refund_request_not_started'' ''now''))))))"

definition check_refund_amount :: "pydict \<Rightarrow> int \<Rightarrow> int \<Rightarrow> int \<Rightarrow> (string \<times> int) res" where
  "check_refund_amount r outstanding maximum vault =
     bind_res (py_in (item r ''reason'') refund_reasons) (\<lambda>known.
     bind_res (reject_if (\<not> known) (cl_reject ''invalid_refund_reason'' ''refund_request.reason'')) (\<lambda>_.
     let reason = text_value (item r ''reason'') in
     bind_res (reject_if (reason = ''final_close'' \<and> outstanding \<noteq> 0)
       (cl_reject ''outstanding_right_reserved'' ''refund_request.reason'')) (\<lambda>_.
     bind_res (cl_amount (item r ''requested_base_units'') ''refund_request.requested_base_units'' True) (\<lambda>requested.
     bind_res (run_all
       [reject_if (requested > maximum) (cl_reject ''refund_exceeds_unallocated'' ''requested_base_units''),
        reject_if (requested > vault) (cl_reject ''refund_exceeds_vault'' ''requested_base_units''),
        reject_if (reason = ''final_close'' \<and> requested \<noteq> vault)
          (cl_reject ''final_close_requires_full_vault'' ''requested_base_units'')]) (\<lambda>_.
     Inr (reason, requested))))))"

definition refund_projection ::
  "pydict \<Rightarrow> pydict \<Rightarrow> string \<Rightarrow> int \<Rightarrow> int \<Rightarrow> int \<Rightarrow> int \<Rightarrow> int \<Rightarrow> int \<Rightarrow> int \<Rightarrow> pydict" where
  "refund_projection r freeze reason F A S R V requested current =
     [(KStr ''type'', PStr ''refund_projection''), (KStr ''protocol_version'', PStr ''1.0.0''),
      (KStr ''refund_request_hash'', item r ''request_hash''),
      (KStr ''freeze_snapshot_hash'', item freeze ''freeze_snapshot_hash''), (KStr ''reason'', PStr reason),
      (KStr ''funded_total_base_units'', PStr (str_int F)), (KStr ''activated_total_base_units'', PStr (str_int A)),
      (KStr ''settled_total_base_units'', PStr (str_int S)),
      (KStr ''refunded_total_before_base_units'', PStr (str_int R)),
      (KStr ''refunded_total_after_base_units'', PStr (str_int (R + requested))),
      (KStr ''vault_balance_before_base_units'', PStr (str_int V)),
      (KStr ''vault_balance_after_base_units'', PStr (str_int (V - requested))),
      (KStr ''outstanding_right_base_units'', PStr (str_int (A - S))),
      (KStr ''maximum_refundable_base_units'', PStr (str_int (F - R - A))),
      (KStr ''requested_base_units'', PStr (str_int requested)), (KStr ''unresolved_operation_count'', PInt 0),
      (KStr ''eligible'', PBool True), (KStr ''projected_at'', PStr (strftime_utc current))]"

definition project_refund ::
  "serializer \<Rightarrow> pydict \<Rightarrow> pydict \<Rightarrow> py_datetime \<Rightarrow> string list \<Rightarrow> pydict res" where
  "project_refund jcs r freeze now states =
     bind_res (run_all
       [cl_closed r ''refund_request'' refund_request_fields refund_request_fields,
        validate_hash jcs r ''request_hash'', validate_freeze_snapshot jcs freeze, check_refund_links r freeze]) (\<lambda>_.
     bind_res (cl_utc now) (\<lambda>current.
     bind_res (run_all
       [check_refund_window r freeze current, operation_states_ok states,
        reject_if (int_value (item freeze ''unresolved_operation_count'') \<noteq> 0 \<or> ambiguous_count states \<noteq> 0)
          (cl_reject ''unresolved_economic_operation'' ''operation_states'')]) (\<lambda>_.
     bind_res (cl_amount (item freeze ''funded_total_base_units'') ''freeze.funded'' False) (\<lambda>F.
     bind_res (cl_amount (item freeze ''activated_total_base_units'') ''freeze.activated'' False) (\<lambda>A.
     bind_res (cl_amount (item freeze ''settled_total_base_units'') ''freeze.settled'' False) (\<lambda>S.
     bind_res (cl_amount (item freeze ''refunded_total_base_units'') ''freeze.refunded'' False) (\<lambda>R.
     bind_res (cl_amount (item freeze ''vault_balance_base_units'') ''freeze.vault'' False) (\<lambda>V.
     bind_res (check_refund_amount r (A - S) (F - R - A) V) (\<lambda>(reason, requested).
     with_hash jcs (refund_projection r freeze reason F A S R V requested current) ''projection_hash'')))))))))"

section \<open>Finalization and the next epoch\<close>

definition validate_finalization ::
  "serializer \<Rightarrow> pydict \<Rightarrow> pydict \<Rightarrow> py_datetime \<Rightarrow> string list \<Rightarrow> unit res" where
  "validate_finalization jcs channel freeze now states =
     bind_res (validate_freeze_snapshot jcs freeze) (\<lambda>_.
     bind_res (validate_channel (PDict channel)) (\<lambda>p.
     bind_res (expect channel ''status'' ''closing'' (cl_reject ''finalization_lifecycle_forbidden'' ''channel.status'')) (\<lambda>_.
     bind_res (cl_utc now) (\<lambda>current.
     bind_res (cl_time (item channel ''claim_deadline'') ''channel.claim_deadline'') (\<lambda>deadline.
     run_all
      [reject_if (current < deadline) (cl_reject ''claim_window_open'' ''now''),
       reject_if (outstanding_right_base_units p \<noteq> 0) (cl_reject ''outstanding_right_reserved'' ''channel''),
       reject_if (vault_balance_base_units p \<noteq> 0) (cl_reject ''vault_not_empty'' ''channel''),
       reject_if (\<not> py_eq (item freeze ''channel'') (PDict (channel_reference channel)))
         (cl_reject ''channel_reference_mismatch'' ''freeze_snapshot.channel''),
       reject_if (int_value (item freeze ''unresolved_operation_count'') \<noteq> 0)
         (cl_reject ''unresolved_economic_operation'' ''freeze_snapshot.unresolved_operation_count''),
       operation_states_ok states,
       reject_if (ambiguous_count states \<noteq> 0)
         (cl_reject ''unresolved_economic_operation'' ''operation_states'')])))))"

definition epoch_decision :: "pydict \<Rightarrow> string \<Rightarrow> string \<Rightarrow> pydict" where
  "epoch_decision channel closure_hash evaluated_at =
     [(KStr ''type'', PStr ''epoch_transition_eligibility''), (KStr ''protocol_version'', PStr ''1.0.0''),
      (KStr ''domain'', PDict (channel_domain channel)), (KStr ''channel_id'', item channel ''channel_id''),
      (KStr ''channel_account'', item channel ''channel_account''), (KStr ''previous_epoch'', item channel ''epoch''),
      (KStr ''next_epoch'', PInt (int_value (item channel ''epoch'') + 1)),
      (KStr ''previous_final_closure_hash'', PStr closure_hash), (KStr ''previous_status'', PStr ''closed''),
      (KStr ''previous_vault_balance_base_units'', PStr ''0''),
      (KStr ''previous_outstanding_right_base_units'', PStr ''0''), (KStr ''unresolved_operation_count'', PInt 0),
      (KStr ''next_funded_total_base_units'', PStr ''0''), (KStr ''next_activated_total_base_units'', PStr ''0''),
      (KStr ''next_settled_total_base_units'', PStr ''0''), (KStr ''next_refunded_total_base_units'', PStr ''0''),
      (KStr ''next_latest_sequence'', PInt 0), (KStr ''next_latest_voucher_hash'', PStr zero_hash),
      (KStr ''decision'', PStr ''epoch_transition_eligible''), (KStr ''evaluated_at'', PStr evaluated_at)]"

definition epoch_transition_eligibility ::
  "serializer \<Rightarrow> pydict \<Rightarrow> string \<Rightarrow> int \<Rightarrow> py_datetime \<Rightarrow> pydict res" where
  "epoch_transition_eligibility jcs channel closure_hash unresolved now =
     bind_res (validate_channel (PDict channel)) (\<lambda>p.
     bind_res (run_all
       [expect channel ''status'' ''closed'' (cl_reject ''previous_channel_not_closed'' ''previous_channel.status''),
        reject_if (vault_balance_base_units p \<noteq> 0) (cl_reject ''previous_vault_nonzero'' ''previous_channel''),
        reject_if (outstanding_right_base_units p \<noteq> 0) (cl_reject ''previous_outstanding_nonzero'' ''previous_channel''),
        reject_if (unresolved \<noteq> 0) (cl_reject ''unresolved_economic_operation'' ''unresolved_operation_count''),
        ignore (cl_hash (PStr closure_hash) ''previous_final_closure_hash'')]) (\<lambda>_.
     bind_res (cl_format_time now) (\<lambda>evaluated_at.
     with_hash jcs (epoch_decision channel closure_hash evaluated_at) ''eligibility_hash'')))"

end
