(* ===== verification/Closure_Facts.thy ===== *)
theory Closure_Facts
  imports Closure
begin

text \<open>
  Facts about the closure artifacts: inversion of the accepted ones, and that the requests and
  snapshots the module makes are accepted by its own validators.
\<close>

section \<open>Success of the checks\<close>

lemma cl_amount_Inr: "cl_amount v f b = Inr a \<Longrightarrow> 0 \<le> a \<and> a \<le> u64_max \<and> (b \<longrightarrow> 0 < a)"
  by (auto simp: cl_amount_def Let_def res_simps split: pyval.splits option.splits if_splits)

lemma with_hash_Inr [res_simps]:
  "with_hash jcs d f = Inr d' \<longleftrightarrow> (\<exists>h. sha256_canonical_json jcs (PDict d) = Inr h \<and> d' = d @ [(KStr f, PStr h)])"
  by (auto simp: with_hash_def bind_res_eq_Inr)

lemma cl_utc_Inr [res_simps]: "cl_utc t = Inr u \<longleftrightarrow> utcoffset t \<noteq> None \<and> u = instant t"
  by (auto simp: cl_utc_def split: option.splits)

lemma expect_Inr [res_simps]: "expect d f s e = Inr u \<longleftrightarrow> item d f = PStr s"
  by (simp add: expect_def reject_if_eq_Inr)

lemma amount_of_str_int: "0 \<le> i \<Longrightarrow> amount_of (PStr (str_int i)) = i"
  by (simp add: amount_of_def text_value_def)

definition refund_totals :: "pydict \<Rightarrow> int \<Rightarrow> int \<Rightarrow> int \<Rightarrow> int \<Rightarrow> int \<Rightarrow> bool" where
  "refund_totals freeze F A S R V \<longleftrightarrow>
     cl_amount (item freeze ''funded_total_base_units'') ''freeze.funded'' False = Inr F \<and>
     cl_amount (item freeze ''activated_total_base_units'') ''freeze.activated'' False = Inr A \<and>
     cl_amount (item freeze ''settled_total_base_units'') ''freeze.settled'' False = Inr S \<and>
     cl_amount (item freeze ''refunded_total_base_units'') ''freeze.refunded'' False = Inr R \<and>
     cl_amount (item freeze ''vault_balance_base_units'') ''freeze.vault'' False = Inr V"

lemma check_totals_Inr:
  "check_totals f code F A S R V outstanding unallocated = Inr u \<longleftrightarrow>
     F = V + S + R \<and> 0 \<le> S \<and> S \<le> A \<and> A \<le> F - R \<and> outstanding = A - S \<and> unallocated = F - R - A"
  by (auto simp: check_totals_def bind_unit_eq_Inr reject_if_eq_Inr)

lemma check_refund_amount_Inr:
  assumes "check_refund_amount r outstanding maximum vault = Inr (reason, n)"
  shows "item r ''reason'' = PStr reason" "reason \<in> set refund_reasons"
    "cl_amount (item r ''requested_base_units'') ''refund_request.requested_base_units'' True = Inr n"
    "n \<le> maximum" "n \<le> vault" "reason = ''final_close'' \<longrightarrow> outstanding = 0 \<and> n = vault"
  using assms
  unfolding check_refund_amount_def Let_def bind_unit_eq_Inr bind_res_eq_Inr run_all_Cons_Inr reject_if_eq_Inr
  by (auto simp: py_in_Inr_True text_value_def)

lemma validate_freeze_totals:
  assumes "validate_freeze_snapshot jcs freeze = Inr ()"
  obtains F A S R V where "refund_totals freeze F A S R V" "F = V + S + R" "0 \<le> S" "S \<le> A" "A \<le> F - R"
proof -
  from assms have "check_freeze_totals freeze = Inr ()"
    unfolding validate_freeze_snapshot_def bind_unit_eq_Inr run_all_Cons_Inr by blast
  then show thesis
    unfolding check_freeze_totals_def bind_res_eq_Inr check_totals_Inr
    by (elim exE conjE) (rule that, unfold refund_totals_def, (intro conjI; assumption), assumption+)
qed

lemma project_refundE:
  assumes "project_refund jcs r freeze now states = Inr p"
  obtains F A S R V reason n h where "refund_totals freeze F A S R V"
    "F = V + S + R" "0 \<le> S" "S \<le> A" "A \<le> F - R"
    "check_refund_amount r (A - S) (F - R - A) V = Inr (reason, n)"
    "p = refund_projection r freeze reason F A S R V n (instant now) @ [(KStr ''projection_hash'', PStr h)]"
    "validate_freeze_snapshot jcs freeze = Inr ()" "check_refund_links r freeze = Inr ()"
    "check_refund_window r freeze (instant now) = Inr ()" "ambiguous_count states = 0"
    "int_value (item freeze ''unresolved_operation_count'') = 0"
    "cl_closed r ''refund_request'' refund_request_fields refund_request_fields = Inr ()"
    "validate_hash jcs r ''request_hash'' = Inr ()"
proof -
  from assms have v: "validate_freeze_snapshot jcs freeze = Inr ()"
    unfolding project_refund_def bind_unit_eq_Inr run_all_Cons_Inr by blast
  then obtain F A S R V where t: "refund_totals freeze F A S R V" "F = V + S + R" "0 \<le> S" "S \<le> A" "A \<le> F - R"
    by (rule validate_freeze_totals)
  from assms t(1) show thesis
    unfolding project_refund_def bind_unit_eq_Inr bind_res_eq_Inr run_all_Cons_Inr reject_if_eq_Inr with_hash_Inr
      cl_utc_Inr refund_totals_def prod.case_eq_if
    by (elim exE conjE) (rule that [OF t], auto)
qed

section \<open>Made artifacts are accepted\<close>

lemma digits_of_decimal: "list_all is_digit s \<Longrightarrow> digits_of (length s) s = Some (map (\<lambda>c. Some (digit_val c)) s)"
  by (induction s) simp_all

lemma digits_value_decimal: "digits_value (map (\<lambda>c. Some (digit_val c)) s) = undec_nat s"
  by (simp add: digits_value_def undec_nat_def foldl_map)

lemma cl_amount_str_int:
  assumes "0 \<le> i" "i \<le> u64_max" "b \<longrightarrow> 0 < i"
  shows "cl_amount (PStr (str_int i)) f b = Inr i"
proof -
  let ?s = "dec_nat (nat i)"
  have "nat i < 10 ^ 20" using assms by (simp add: u64_max_def)
  then have "length ?s \<le> 20" by (rule length_dec_nat) simp
  moreover have "\<not> (1 < length ?s \<and> hd ?s = CHR ''0'')"
    using dec_nat_no_leading_zero [of "nat i"] by (cases "nat i = 0") auto
  moreover have "None \<notin> set (map (\<lambda>c. Some (digit_val c)) ?s)" by auto
  ultimately show ?thesis
    using assms dec_nat_digits [of "nat i"]
    by (auto simp: cl_amount_def digits_of_decimal digits_value_decimal Let_def reject_if_def)
qed

lemma validate_hash_with_hash:
  assumes "with_hash jcs d f = Inr d'" "\<not> has_key d f"
  shows "validate_hash jcs d' f = Inr ()"
proof -
  from assms(1) obtain h where h: "sha256_canonical_json jcs (PDict d) = Inr h" "d' = d @ [(KStr f, PStr h)]"
    by (auto simp: with_hash_Inr)
  then have "hash_text h" by (auto simp: sha256_canonical_json_Inr)
  with h assms(2) show ?thesis
    by (simp add: validate_hash_def item_snoc_fresh filter_fresh cl_hash_def string_with_def)
qed

lemma cl_closed_exact: "map fst d = map KStr fs \<Longrightarrow> cl_closed d f fs fs = Inr ()"
  by (simp add: cl_closed_def unknown_keys_def missing_keys_def mixed_keys_def filter_empty_conv image_iff)

lemma fromisoformat_strftime:
  assumes "four_digit_year us"
  shows "fromisoformat_utc (strftime_utc us) = Some (to_seconds us)"
proof -
  obtain y m d where e: "ord2ymd (us div 1000000 div 86400) = (y, m, d)" "1000 \<le> y" "valid_date y m d"
    using strftime_components [OF assms] by metis
  let ?s = "us div 1000000"
  have b: "0 \<le> ?s div 3600 mod 24" "?s div 3600 mod 24 \<le> 99" "0 \<le> ?s div 60 mod 60" "?s div 60 mod 60 \<le> 99"
    "0 \<le> ?s mod 60" "?s mod 60 \<le> 99"
    using pos_mod_bound [of 24 "?s div 3600"] pos_mod_bound [of 60 "?s div 60"] pos_mod_bound [of 60 ?s] by simp_all
  have "\<exists>ds. scan timestamp_pattern (strftime_utc us) = Some (map (\<lambda>n. (n, True)) ds)"
    unfolding strftime_utc_def Let_def e(1) prod.case by (intro exI) (rule scan_strftime [OF e(2,3) b])
  then show ?thesis
    using strptime_strftime [OF assms]
    by (auto simp: fromisoformat_utc_def strptime_utc_def isoformat_fields_def list_all_iff)
qed

lemma strptime_fields_seconds: "strptime_fields ds = Some t \<Longrightarrow> to_seconds t = t"
  by (erule strptime_fields.elims)
     (auto simp: clock_of_def micros_def to_seconds_def split: if_splits)

lemma cl_time_seconds: "cl_time v f = Inr t \<Longrightarrow> to_seconds t = t"
  by (auto simp: cl_time_def timestamp_with_Inr dest!: fromisoformat_imp_strptime)
     (auto simp: strptime_utc_def split: bind_splits dest: strptime_fields_seconds)

lemma item_projection: "f \<in> set fs \<Longrightarrow> item (map (\<lambda>f. (KStr f, g f)) fs) f = g f"
  by (induction fs) (auto simp: item_def)

lemma same_keys_projection: "same_keys (map (\<lambda>f. (KStr f, g f)) fs) fs"
  by (force simp: same_keys_def unknown_keys_Nil missing_keys_Nil has_key_def)

lemma item_channel_domain:
  "item (channel_domain c) ''environment'' = item c ''environment''"
  "item (channel_domain c) ''network'' = item c ''network''"
  "item (channel_domain c) ''genesis_hash'' = item c ''genesis_hash''"
  "item (channel_domain c) ''program_id'' = item c ''program_id''"
  unfolding channel_domain_def by (rule item_projection, simp add: domain_fields_def)+

lemma item_channel_reference:
  "item (channel_reference c) ''channel_id'' = item c ''channel_id''"
  "item (channel_reference c) ''channel_account'' = item c ''channel_account''"
  "item (channel_reference c) ''epoch'' = item c ''epoch''"
  "item (channel_reference c) ''sender'' = item c ''sender''"
  "item (channel_reference c) ''mint'' = item c ''mint''"
  unfolding channel_reference_def by (rule item_projection, simp add: reference_fields_def)+

lemma same_keys_domain: "same_keys (channel_domain c) domain_fields"
  by (simp add: channel_domain_def same_keys_projection)

lemma same_keys_reference: "same_keys (channel_reference c) reference_fields"
  by (simp add: channel_reference_def same_keys_projection)

lemma channel_identity:
  assumes "validate_channel (PDict c) = Inr p"
  shows "validate_domain (PDict (channel_domain c)) f = Inr ()"
    and "validate_channel_reference (PDict (channel_reference c)) f' = Inr ()"
    and "\<exists>n. item c ''latest_activated_sequence'' = PInt n \<and> 0 \<le> n \<and>
      ((n = 0) = (activated_authorized_total_base_units p = 0))"
    and "\<exists>h. item c ''latest_activated_voucher_hash'' = PStr h \<and> hash_text h"
    and "1 \<le> int_value (item (dict_of (item c ''policy'')) ''minimum_close_grace_seconds'')"
proof -
  obtain F A S R L n channel_id where p: "p = make_projection F A S R"
    and id: "check_identity c = Inr (channel_id, n)" and acc: "check_accounting F A S R L n = Inr ()"
    and pol: "validate_policy (item c ''policy'') channel_id = Inr L"
    by (rule validate_channelE [OF assms]) auto
  from id have lit: "item c ''environment'' = PStr ''devnet''" "item c ''network'' = PStr ''solana:devnet''"
    and key: "\<forall>f\<in>{''genesis_hash'', ''program_id'', ''channel_account'', ''sender'', ''mint''}.
      \<exists>s. item c f = PStr s \<and> pubkey_text s"
    and cid: "\<exists>s. item c ''channel_id'' = PStr s \<and> identifier_text s"
    and ep: "\<exists>i. item c ''epoch'' = PInt i \<and> 0 \<le> i"
    and seq: "item c ''latest_activated_sequence'' = PInt n" "0 \<le> n"
    and vh: "\<exists>h. item c ''latest_activated_voucher_hash'' = PStr h \<and> hash_text h"
    unfolding check_identity_def bind_unit_eq_Inr bind_res_eq_Inr run_all_Cons_Inr list.map reject_if_eq_Inr
    by (auto simp: ch_checks res_simps hash_pattern_def split: pyval.splits)
  show "validate_domain (PDict (channel_domain c)) f = Inr ()"
    using lit key by (auto simp: validate_domain_def same_keys_domain item_channel_domain cl_pubkey_def string_with_def ignore_def)
  show "validate_channel_reference (PDict (channel_reference c)) f' = Inr ()"
    using key cid ep
    by (auto simp: validate_channel_reference_def same_keys_reference item_channel_reference cl_pubkey_def
        cl_identifier_def cl_epoch_def string_with_def ignore_def)
  show "\<exists>n. item c ''latest_activated_sequence'' = PInt n \<and> 0 \<le> n \<and>
      ((n = 0) = (activated_authorized_total_base_units p = 0))"
    using seq acc by (auto simp: p make_projection_def check_accounting_Inr)
  show "\<exists>h. item c ''latest_activated_voucher_hash'' = PStr h \<and> hash_text h" by (rule vh)
  show "1 \<le> int_value (item (dict_of (item c ''policy'')) ''minimum_close_grace_seconds'')"
    using pol unfolding validate_policy_def bind_unit_eq_Inr bind_res_eq_Inr run_all_Cons_Inr
    by (auto simp: ch_checks res_simps)
qed

lemma item_Cons: "item ((KStr a, v) # d) f = (if a = f then v else item d f)"
  by (simp add: item_def)

lemma has_key_Cons: "has_key ((KStr a, v) # d) f \<longleftrightarrow> a = f \<or> has_key d f" "\<not> has_key [] f"
  by (auto simp: has_key_def)

lemma cl_time_format: "four_digit_year us \<Longrightarrow> cl_time (PStr (strftime_utc us)) f = Inr (to_seconds us)"
  by (simp add: cl_time_def timestamp_with_def fromisoformat_strftime)

text \<open>The totals a projection prints are read back as the projection.\<close>

lemma total_items_read:
  assumes "accounting_ok p"
  shows "cl_amount (PStr (str_int (funded_total_base_units p))) f False = Inr (funded_total_base_units p)"
    "cl_amount (PStr (str_int (activated_authorized_total_base_units p))) f False =
       Inr (activated_authorized_total_base_units p)"
    "cl_amount (PStr (str_int (settled_total_base_units p))) f False = Inr (settled_total_base_units p)"
    "cl_amount (PStr (str_int (refunded_total_base_units p))) f False = Inr (refunded_total_base_units p)"
    "cl_amount (PStr (str_int (vault_balance_base_units p))) f False = Inr (vault_balance_base_units p)"
    "cl_amount (PStr (str_int (outstanding_right_base_units p))) f False = Inr (outstanding_right_base_units p)"
    "cl_amount (PStr (str_int (unallocated_capacity_base_units p))) f False =
       Inr (unallocated_capacity_base_units p)"
  using assms unfolding accounting_ok_def by (elim conjE, intro cl_amount_str_int, linarith, linarith, simp (no_asm))+

lemma projection_totals:
  assumes "accounting_ok p"
  shows "check_totals f code (funded_total_base_units p) (activated_authorized_total_base_units p)
    (settled_total_base_units p) (refunded_total_base_units p) (vault_balance_base_units p)
    (outstanding_right_base_units p) (unallocated_capacity_base_units p) = Inr ()"
  using assms unfolding accounting_ok_def check_totals_Inr by linarith

lemma freeze_closureE:
  assumes "freeze_closure jcs req snapshot channel now states = Inr z"
  obtains p h deadline totals where "validate_channel (PDict channel) = Inr p"
    "with_hash jcs (freeze_unsigned req snapshot channel p h (instant now) states) ''freeze_snapshot_hash'' = Inr z"
    "cl_time (item req ''claim_deadline'') ''claim_deadline'' = Inr deadline" "deadline \<le> instant now"
    "validate_request_snapshot jcs req snapshot = Inr totals" "check_freeze_channel req channel p totals = Inr ()"
    "check_freeze_activation snapshot channel p (fst (snd totals)) = Inr ()" "operation_states_ok states = Inr ()"
  using assms
  unfolding freeze_closure_def bind_unit_eq_Inr bind_res_eq_Inr run_all_Cons_Inr reject_if_eq_Inr cl_utc_Inr not_less
  by (elim exE conjE, hypsubst) (rule that; assumption)

lemma ambiguous_count_nonneg: "0 \<le> ambiguous_count states"
  by (simp add: ambiguous_count_def)

lemma freeze_closure_validates:
  assumes "freeze_closure jcs req snapshot channel now states = Inr z" "four_digit_year (instant now)"
  shows "validate_freeze_snapshot jcs z = Inr () \<and>
    (\<exists>p. validate_channel (PDict channel) = Inr p \<and>
       refund_totals z (funded_total_base_units p) (activated_authorized_total_base_units p)
         (settled_total_base_units p) (refunded_total_base_units p) (vault_balance_base_units p)) \<and>
    item z ''unresolved_operation_count'' = PInt (ambiguous_count states)"
proof -
  from assms(1) obtain p h deadline where p: "validate_channel (PDict channel) = Inr p"
    and z: "with_hash jcs (freeze_unsigned req snapshot channel p h (instant now) states) ''freeze_snapshot_hash'' = Inr z"
    and d: "cl_time (item req ''claim_deadline'') ''claim_deadline'' = Inr deadline" "deadline \<le> instant now"
    by (rule freeze_closureE)
  obtain g where zd: "z = freeze_unsigned req snapshot channel p h (instant now) states @ [(KStr ''freeze_snapshot_hash'', PStr g)]"
    using z by (auto simp: with_hash_Inr)
  have ok: "accounting_ok p" using validate_channel_accounting [OF p] by simp
  have d': "cl_time (item req ''claim_deadline'') f = Inr deadline" for f
    using d(1) by (auto simp: cl_time_def timestamp_with_Inr)
  have le: "deadline \<le> to_seconds (instant now)"
    using to_seconds_mono [OF d(2)] cl_time_seconds [OF d(1)] by simp
  note look = zd freeze_unsigned_def total_items_def item_Cons
  have closed: "cl_closed z ''freeze_snapshot'' freeze_snapshot_fields freeze_snapshot_fields = Inr ()"
    by (rule cl_closed_exact) (simp add: zd freeze_unsigned_def total_items_def freeze_snapshot_fields_def)
  have hash: "validate_hash jcs z ''freeze_snapshot_hash'' = Inr ()"
    by (rule validate_hash_with_hash [OF z]) (simp add: freeze_unsigned_def total_items_def has_key_Cons)
  have totals: "check_freeze_totals z = Inr ()"
    by (simp add: check_freeze_totals_def look total_items_read [OF ok] projection_totals [OF ok])
  have "validate_freeze_snapshot jcs z = Inr ()"
    unfolding validate_freeze_snapshot_def run_all.simps closed hash totals bind_res_simps
    by (simp add: look expect_def channel_identity(1,2) [OF p] cl_time_format [OF assms(2)] d' leD [OF le] nonneg_int_def
        ambiguous_count_nonneg)
  moreover have "refund_totals z (funded_total_base_units p) (activated_authorized_total_base_units p)
      (settled_total_base_units p) (refunded_total_base_units p) (vault_balance_base_units p)"
    by (simp add: refund_totals_def look total_items_read [OF ok])
  moreover have "item z ''unresolved_operation_count'' = PInt (ambiguous_count states)" by (simp add: look)
  ultimately show ?thesis using p by blast
qed

lemma request_closeE:
  assumes "request_close jcs channel closure_id key now claim_deadline = Inr (req, snap)"
  obtains p h where "validate_channel (PDict channel) = Inr p" "item channel ''status'' = PStr ''active''"
    "with_hash jcs (closure_request_unsigned channel closure_id key h (instant now) (instant claim_deadline))
       ''request_hash'' = Inr req"
    "with_hash jcs (closure_snapshot closure_id (text_value (item req ''request_hash'')) channel p h
       (strftime_utc (instant now)) (strftime_utc (instant claim_deadline))) ''request_snapshot_hash'' = Inr snap"
    "int_value (item (dict_of (item channel ''policy'')) ''minimum_close_grace_seconds'') * 1000000
       \<le> instant claim_deadline - instant now"
  using assms
  unfolding request_close_def Let_def bind_unit_eq_Inr bind_res_eq_Inr run_all_Cons_Inr reject_if_eq_Inr cl_utc_Inr
    expect_Inr not_less sum.inject prod.inject
  by (elim exE conjE, hypsubst) (rule that; assumption)

lemma requested_window:
  assumes "1 \<le> g" "g * 1000000 \<le> deadline - requested"
  shows "to_seconds requested < to_seconds deadline"
proof -
  have "(requested + 1000000) div 1000000 \<le> deadline div 1000000" using assms by (intro zdiv_mono1) simp_all
  then show ?thesis by (simp add: to_seconds_def)
qed

lemma py_eq_projection:
  assumes "\<forall>f\<in>set fs. map_of e (KStr f) = Some (g f) \<and> py_eq (g f) (g f)"
  shows "py_eq_items (map (\<lambda>f. (KStr f, g f)) fs) e"
  using assms by (induction fs) auto

lemma channel_reflexive:
  assumes "validate_channel (PDict c) = Inr p"
  shows "py_eq_items (channel_domain c) (channel_domain c)" "py_eq_items (channel_reference c) (channel_reference c)"
proof -
  have d: "\<forall>f\<in>set domain_fields. py_eq (item c f) (item c f)"
    using channel_identity(1) [OF assms, of "[]"]
    by (auto simp: validate_domain_def item_channel_domain cl_pubkey_def res_simps domain_fields_def)
  have r: "\<forall>f\<in>set reference_fields. py_eq (item c f) (item c f)"
    using channel_identity(2) [OF assms, of "[]"]
    by (auto simp: validate_channel_reference_def item_channel_reference cl_pubkey_def cl_identifier_def cl_epoch_def
        res_simps reference_fields_def split: pyval.splits)
  have look: "f \<in> set fs \<Longrightarrow> map_of (map (\<lambda>f. (KStr f, g f)) fs) (KStr f) = Some (g f)" for f fs and g :: "string \<Rightarrow> pyval"
    by (induction fs) auto
  show "py_eq_items (channel_domain c) (channel_domain c)"
    unfolding channel_domain_def by (rule py_eq_projection) (use d look [of _ domain_fields] in blast)
  show "py_eq_items (channel_reference c) (channel_reference c)"
    unfolding channel_reference_def by (rule py_eq_projection) (use r look [of _ reference_fields] in blast)
qed

lemma request_close_validates:
  assumes "request_close jcs channel closure_id key now claim_deadline = Inr (req, snap)"
    and "four_digit_year (instant now)" "four_digit_year (instant claim_deadline)"
  shows "\<exists>p. validate_channel (PDict channel) = Inr p \<and>
    validate_request_snapshot jcs req snap =
      Inr (funded_total_base_units p, activated_authorized_total_base_units p, settled_total_base_units p,
           refunded_total_base_units p)"
proof -
  from assms(1) obtain p h where p: "validate_channel (PDict channel) = Inr p"
    and req: "with_hash jcs (closure_request_unsigned channel closure_id key h (instant now) (instant claim_deadline))
       ''request_hash'' = Inr req"
    and snap: "with_hash jcs (closure_snapshot closure_id (text_value (item req ''request_hash'')) channel p h
       (strftime_utc (instant now)) (strftime_utc (instant claim_deadline))) ''request_snapshot_hash'' = Inr snap"
    and grace: "int_value (item (dict_of (item channel ''policy'')) ''minimum_close_grace_seconds'') * 1000000
       \<le> instant claim_deadline - instant now"
    by (rule request_closeE)
  obtain a where rd: "req = closure_request_unsigned channel closure_id key h (instant now) (instant claim_deadline) @
      [(KStr ''request_hash'', PStr a)]"
    using req by (auto simp: with_hash_Inr)
  obtain b where sd: "snap = closure_snapshot closure_id (text_value (item req ''request_hash'')) channel p h
      (strftime_utc (instant now)) (strftime_utc (instant claim_deadline)) @ [(KStr ''request_snapshot_hash'', PStr b)]"
    using snap by (auto simp: with_hash_Inr)
  have ok: "accounting_ok p" using validate_channel_accounting [OF p] by simp
  obtain n v where n: "item channel ''latest_activated_sequence'' = PInt n" "0 \<le> n"
      "(n = 0) = (activated_authorized_total_base_units p = 0)"
    and v: "item channel ''latest_activated_voucher_hash'' = PStr v" "hash_text v"
    using channel_identity(3,4) [OF p] by blast
  have window: "to_seconds (instant now) < to_seconds (instant claim_deadline)"
    by (rule requested_window [OF channel_identity(5) [OF p] grace])
  note look = rd sd closure_request_unsigned_def closure_snapshot_def total_items_def item_Cons
  have closed: "cl_closed req ''closure_request'' closure_request_fields closure_request_fields = Inr ()"
    "cl_closed snap ''snapshot_at_request'' request_snapshot_fields request_snapshot_fields = Inr ()"
    by (rule cl_closed_exact, simp add: look closure_request_fields_def request_snapshot_fields_def)+
  have hash: "validate_hash jcs req ''request_hash'' = Inr ()" "validate_hash jcs snap ''request_snapshot_hash'' = Inr ()"
    by (rule validate_hash_with_hash [OF req], simp add: closure_request_unsigned_def has_key_Cons)
       (rule validate_hash_with_hash [OF snap], simp add: closure_snapshot_def total_items_def has_key_Cons)
  have links: "\<not> list_ex (\<lambda>(f, g). \<not> py_eq (item snap f) (item req g)) linked_fields"
    by (simp add: linked_fields_def look channel_reflexive [OF p] text_value_def)
  have totals: "check_request_totals snap = Inr (funded_total_base_units p, activated_authorized_total_base_units p,
      settled_total_base_units p, refunded_total_base_units p)"
    by (simp add: check_request_totals_def look total_items_read [OF ok] projection_totals [OF ok])
  have "validate_request_snapshot jcs req snap =
      Inr (funded_total_base_units p, activated_authorized_total_base_units p, settled_total_base_units p,
           refunded_total_base_units p)"
    unfolding validate_request_snapshot_def run_all.simps closed hash totals bind_res_simps
    by (simp add: links) (simp add: look expect_def channel_identity(1,2) [OF p] cl_time_format [OF assms(2)]
        cl_time_format [OF assms(3)] window [THEN linorder_not_le [THEN iffD2]] nonneg_int_def n v cl_hash_def string_with_def ignore_def)
  with p show ?thesis by blast
qed

section \<open>Refunds and finality\<close>

text \<open>A refund of the accounting: it moves vault to refunded and touches neither right.\<close>

definition refund :: "int \<Rightarrow> accounting_projection \<Rightarrow> accounting_projection" where
  "refund n p =
     p\<lparr>refunded_total_base_units := refunded_total_base_units p + n,
       vault_balance_base_units := vault_balance_base_units p - n,
       unallocated_capacity_base_units := unallocated_capacity_base_units p - n\<rparr>"

lemma refund_accounting:
  assumes "accounting_ok p" "0 \<le> n" "n \<le> unallocated_capacity_base_units p"
  shows "accounting_ok (refund n p)" "outstanding_right_base_units (refund n p) = outstanding_right_base_units p"
    "outstanding_right_base_units (refund n p) \<le> vault_balance_base_units (refund n p)"
proof -
  show "accounting_ok (refund n p)"
    using assms unfolding accounting_ok_def refund_def
    by - (simp (no_asm), elim conjE, intro conjI; linarith)
  show "outstanding_right_base_units (refund n p) = outstanding_right_base_units p" by (simp add: refund_def)
  show "outstanding_right_base_units (refund n p) \<le> vault_balance_base_units (refund n p)"
    using assms unfolding accounting_ok_def refund_def by - (simp (no_asm), elim conjE, linarith)
qed

lemma projected_amounts:
  assumes "p = refund_projection r freeze reason F A S R V n t @ [(KStr ''projection_hash'', PStr h)]"
    and "0 \<le> R" "0 \<le> n" "n \<le> V" "n \<le> F - R - A"
  shows "amount_of (item p ''requested_base_units'') = n"
    "amount_of (item p ''maximum_refundable_base_units'') = F - R - A"
    "amount_of (item p ''refunded_total_before_base_units'') = R"
    "amount_of (item p ''refunded_total_after_base_units'') = R + n"
    "amount_of (item p ''vault_balance_before_base_units'') = V"
    "amount_of (item p ''vault_balance_after_base_units'') = V - n"
  using assms by (simp_all add: refund_projection_def item_Cons amount_of_str_int del: str_int_nonneg)

end
