(* ===== verification/Closure_Examples.thy ===== *)
theory Closure_Examples
  imports Closure_Facts
begin

text \<open>
  A concrete close of the example channel, used by the witnesses: requested at 2026-02-03 with the
  deadline a day later, all 400 activated units settled in the claim window, frozen at 2026-02-05,
  and a final refund of the 600 units left in the vault. Digests stay symbolic.
\<close>

definition close_now :: py_datetime where "close_now = utc_datetime 63905760000000000"
definition close_deadline :: py_datetime where "close_deadline = utc_datetime 63905846400000000"
definition freeze_now :: py_datetime where "freeze_now = utc_datetime 63905932800000000"
definition refund_expiry :: py_datetime where "refund_expiry = utc_datetime 63906019200000000"

definition example_active :: pydict where
  "example_active = dict_of example_before"

definition example_closing :: pydict where
  "example_closing =
     [(KStr ''type'', PStr ''channel''), (KStr ''protocol_version'', PStr ''1.0.0''),
      (KStr ''account_version'', PInt 1), (KStr ''environment'', PStr ''devnet''),
      (KStr ''network'', PStr ''solana:devnet''), (KStr ''genesis_hash'', PStr (example_key CHR ''1'')),
      (KStr ''program_id'', PStr (example_key CHR ''2'')), (KStr ''channel_id'', PStr ''channel-1''),
      (KStr ''channel_account'', PStr (example_key CHR ''3'')), (KStr ''epoch'', PInt 0),
      (KStr ''sender'', PStr (example_key CHR ''4'')),
      (KStr ''recipient_claim_pubkey'', PStr (example_key CHR ''5'')),
      (KStr ''recipient_wallet'', PStr (example_key CHR ''6'')),
      (KStr ''mint'', PStr (example_key CHR ''7'')), (KStr ''decimals'', PInt 6),
      (KStr ''vault_token_account'', PStr (example_key CHR ''8'')),
      (KStr ''funded_total_base_units'', PStr ''1000''),
      (KStr ''activated_authorized_total_base_units'', PStr ''400''),
      (KStr ''settled_total_base_units'', PStr ''400''), (KStr ''refunded_total_base_units'', PStr ''0''),
      (KStr ''latest_activated_sequence'', PInt 3),
      (KStr ''latest_activated_voucher_hash'', PStr (''sha256:'' @ replicate 64 (CHR ''a''))),
      (KStr ''status'', PStr ''closing''), (KStr ''expires_at'', PStr ''2026-12-31T00:00:00Z''),
      (KStr ''policy'', example_policy), (KStr ''close_requested_at'', PStr ''2026-02-03T00:00:00Z''),
      (KStr ''claim_deadline'', PStr ''2026-02-04T00:00:00Z''), (KStr ''created_at'', PStr ''2026-01-01T00:00:00Z''),
      (KStr ''updated_at'', PStr ''2026-02-05T00:00:00Z'')]"

definition example_domain :: pydict where
  "example_domain =
     [(KStr ''environment'', PStr ''devnet''), (KStr ''network'', PStr ''solana:devnet''),
      (KStr ''genesis_hash'', PStr (example_key CHR ''1'')), (KStr ''program_id'', PStr (example_key CHR ''2''))]"

definition example_reference :: pydict where
  "example_reference =
     [(KStr ''channel_id'', PStr ''channel-1''), (KStr ''channel_account'', PStr (example_key CHR ''3'')),
      (KStr ''epoch'', PInt 0), (KStr ''sender'', PStr (example_key CHR ''4'')),
      (KStr ''mint'', PStr (example_key CHR ''7''))]"

definition example_voucher_hash :: string where
  "example_voucher_hash = ''sha256:'' @ replicate 64 (CHR ''a'')"

definition digest :: "pydict \<Rightarrow> string" where
  "digest d = sha256_raw_bytes (example_jcs_text (PDict d))"

lemma hash_text_digest [simp]: "hash_text (digest d)"
  by (simp add: digest_def)

lemma digest_hash: "signable_items d \<Longrightarrow> sha256_canonical_json example_jcs (PDict d) = Inr (digest d)"
  by (simp add: sha256_canonical_json_Inr example_jcs_def digest_def)

lemma digest_with_hash: "signable_items d \<Longrightarrow> with_hash example_jcs d f = Inr (d @ [(KStr f, PStr (digest d))])"
  by (simp add: with_hash_def digest_hash)

section \<open>The channel\<close>

lemma closure_times:
  "strftime_utc 63905760000000000 = ''2026-02-03T00:00:00Z''" "strftime_utc 63905846400000000 = ''2026-02-04T00:00:00Z''"
  "strftime_utc 63905932800000000 = ''2026-02-05T00:00:00Z''" "strftime_utc 63906019200000000 = ''2026-02-06T00:00:00Z''"
  "fromisoformat_utc ''2026-02-04T00:00:00Z'' = Some 63905846400000000"
  "fromisoformat_utc ''2026-02-05T00:00:00Z'' = Some 63905932800000000"
  "fromisoformat_utc ''2026-02-06T00:00:00Z'' = Some 63906019200000000"
  by code_simp+

lemma closure_clocks [simp]:
  "instant close_now = 63905760000000000" "instant close_deadline = 63905846400000000"
  "instant freeze_now = 63905932800000000" "instant refund_expiry = 63906019200000000"
  "utcoffset close_now = Some 0" "utcoffset close_deadline = Some 0" "utcoffset freeze_now = Some 0"
  "utcoffset refund_expiry = Some 0"
  by (simp_all add: close_now_def close_deadline_def freeze_now_def refund_expiry_def utc_datetime_def instant_def)

lemma closure_years: "four_digit_year 63905760000000000" "four_digit_year 63905846400000000" "four_digit_year 63905932800000000"
  by code_simp+

lemma example_active_valid: "validate_channel (PDict example_active) = Inr (make_projection 1000 400 150 0)"
  using example_before_valid by (simp add: example_active_def example_before_def example_channel_def)

lemma example_closing_valid: "validate_channel (PDict example_closing) = Inr (make_projection 1000 400 400 0)"
  by code_simp

lemma example_closing_signable: "signable_items example_closing"
  by code_simp

lemma example_active_signable: "signable_items example_active"
  by code_simp

lemma example_domains:
  "channel_domain example_active = example_domain" "channel_domain example_closing = example_domain"
  "channel_reference example_active = example_reference" "channel_reference example_closing = example_reference"
  by code_simp+

lemma example_parts_signable: "signable_items example_domain" "signable_items example_reference"
  by code_simp+

lemma example_parts_eq [simp]: "py_eq_items example_domain example_domain" "py_eq_items example_reference example_reference"
  by code_simp+

lemma closure_ids [simp]: "identifier_text ''closure-1''" "identifier_text ''idem-1''" "identifier_text ''refund-1''"
  by code_simp+

section \<open>The close request\<close>

definition example_close_unsigned :: pydict where
  "example_close_unsigned =
     closure_request_unsigned example_active ''closure-1'' ''idem-1'' (digest example_active)
       63905760000000000 63905846400000000"

definition example_close :: pydict where
  "example_close = example_close_unsigned @ [(KStr ''request_hash'', PStr (digest example_close_unsigned))]"

definition example_requested_unsigned :: pydict where
  "example_requested_unsigned =
     closure_snapshot ''closure-1'' (digest example_close_unsigned) example_active (make_projection 1000 400 150 0)
       (digest example_active) ''2026-02-03T00:00:00Z'' ''2026-02-04T00:00:00Z''"

definition example_requested :: pydict where
  "example_requested =
     example_requested_unsigned @ [(KStr ''request_snapshot_hash'', PStr (digest example_requested_unsigned))]"

lemma example_active_items:
  "item example_active ''status'' = PStr ''active''"
  "item example_active ''latest_activated_sequence'' = PInt 3"
  "item example_active ''latest_activated_voucher_hash'' = PStr example_voucher_hash"
  "int_value (item (dict_of (item example_active ''policy'')) ''minimum_close_grace_seconds'') = 3600"
  by code_simp+

lemma example_hash_ascii: "\<not> has_surrogate example_voucher_hash"
  by code_simp

lemma dec_nat_ascii [simp]: "\<not> has_surrogate (dec_nat n)"
proof
  assume "has_surrogate (dec_nat n)"
  then obtain c where "c \<in> set (dec_nat n)" "of_char c = (237::nat)" using has_surrogate_char by blast
  with dec_nat_digits [of n] show False by (auto simp: list_all_iff is_digit_def)
qed

lemma example_close_signable: "signable_items example_close_unsigned"
  using example_parts_signable
  by (simp add: example_close_unsigned_def closure_request_unsigned_def example_domains closure_times)

lemma example_requested_signable: "signable_items example_requested_unsigned"
  using example_parts_signable
  by (simp add: example_requested_unsigned_def closure_snapshot_def total_items_def example_domains make_projection_def
      example_active_items example_hash_ascii json_safe_max_def)

lemma example_request_close:
  "request_close example_jcs example_active ''closure-1'' ''idem-1'' close_now close_deadline =
     Inr (example_close, example_requested)"
proof -
  have t: "text_value (item example_close ''request_hash'') = digest example_close_unsigned"
    by (simp add: example_close_def example_close_unsigned_def closure_request_unsigned_def item_Cons text_value_def)
  have r: "with_hash example_jcs example_close_unsigned ''request_hash'' = Inr example_close"
    using digest_with_hash [OF example_close_signable] by (simp add: example_close_def)
  have s: "with_hash example_jcs example_requested_unsigned ''request_snapshot_hash'' = Inr example_requested"
    using digest_with_hash [OF example_requested_signable] by (simp add: example_requested_def)
  show ?thesis
    unfolding request_close_def
    by (simp add: example_active_valid expect_def example_active_items cl_utc_def cl_identifier_def string_with_def
        ignore_def digest_hash [OF example_active_signable] r [unfolded example_close_unsigned_def]
        closure_times t s [unfolded example_requested_unsigned_def])
qed

section \<open>The freeze\<close>

definition example_frozen_unsigned :: pydict where
  "example_frozen_unsigned =
     freeze_unsigned example_close example_requested example_closing (make_projection 1000 400 400 0)
       (digest example_closing) 63905932800000000 []"

definition example_frozen :: pydict where
  "example_frozen = example_frozen_unsigned @ [(KStr ''freeze_snapshot_hash'', PStr (digest example_frozen_unsigned))]"

lemma example_closing_items:
  "item example_closing ''status'' = PStr ''closing''"
  "item example_closing ''claim_deadline'' = PStr ''2026-02-04T00:00:00Z''"
  "item example_closing ''latest_activated_sequence'' = PInt 3"
  "item example_closing ''latest_activated_voucher_hash'' = PStr example_voucher_hash"
  by code_simp+

lemma example_close_items:
  "item example_close ''domain'' = PDict example_domain" "item example_close ''channel'' = PDict example_reference"
  "item example_close ''closure_id'' = PStr ''closure-1''"
  "item example_close ''claim_deadline'' = PStr ''2026-02-04T00:00:00Z''"
  by (simp_all add: example_close_def example_close_unsigned_def closure_request_unsigned_def item_Cons example_domains
      closure_times)

lemma example_requested_items:
  "item example_requested ''latest_activated_sequence'' = PInt 3"
  "item example_requested ''latest_activated_voucher_hash'' = PStr example_voucher_hash"
  "item example_requested ''request_snapshot_hash'' = PStr (digest example_requested_unsigned)"
  by (simp_all add: example_requested_def example_requested_unsigned_def closure_snapshot_def total_items_def item_Cons
      example_active_items)

lemma example_frozen_signable: "signable_items example_frozen_unsigned"
  using example_parts_signable
  by (simp add: example_frozen_unsigned_def freeze_unsigned_def total_items_def example_domains make_projection_def
      example_close_items example_requested_items example_closing_items example_hash_ascii json_safe_max_def
      ambiguous_count_def closure_times)

lemma example_freeze:
  "freeze_closure example_jcs example_close example_requested example_closing freeze_now [] = Inr example_frozen"
proof -
  have v: "validate_request_snapshot example_jcs example_close example_requested = Inr (1000, 400, 150, 0)"
    using request_close_validates [OF example_request_close] closure_years
    by (simp add: example_active_valid make_projection_def)
  have z: "with_hash example_jcs example_frozen_unsigned ''freeze_snapshot_hash'' = Inr example_frozen"
    using digest_with_hash [OF example_frozen_signable] by (simp add: example_frozen_def)
  have c: "check_freeze_channel example_close example_closing (make_projection 1000 400 400 0) (1000, 400, 150, 0) = Inr ()"
    by (simp add: check_freeze_channel_def expect_def example_closing_items example_close_items example_domains
        make_projection_def)
  have a: "check_freeze_activation example_requested example_closing (make_projection 1000 400 400 0) 400 = Inr ()"
    by (simp add: check_freeze_activation_def example_closing_items example_requested_items make_projection_def)
  show ?thesis
    unfolding freeze_closure_def
    by (simp add: v cl_utc_def cl_time_def timestamp_with_def example_close_items closure_times example_closing_valid c a
        operation_states_ok_def digest_hash [OF example_closing_signable] z [unfolded example_frozen_unsigned_def])
qed

lemma example_frozen_valid: "validate_freeze_snapshot example_jcs example_frozen = Inr ()"
  and example_frozen_totals: "refund_totals example_frozen 1000 400 400 0 600"
  and example_frozen_count: "item example_frozen ''unresolved_operation_count'' = PInt 0"
  using freeze_closure_validates [OF example_freeze] closure_years
  by (simp_all add: example_closing_valid make_projection_def ambiguous_count_def)

lemma example_frozen_items:
  "item example_frozen ''domain'' = PDict example_domain" "item example_frozen ''channel'' = PDict example_reference"
  "item example_frozen ''closure_id'' = PStr ''closure-1''"
  "item example_frozen ''claim_deadline'' = PStr ''2026-02-04T00:00:00Z''"
  "item example_frozen ''request_snapshot_hash'' = PStr (digest example_requested_unsigned)"
  "item example_frozen ''freeze_snapshot_hash'' = PStr (digest example_frozen_unsigned)"
  by (simp_all add: example_frozen_def example_frozen_unsigned_def freeze_unsigned_def total_items_def item_Cons
      example_domains example_close_items example_requested_items)

section \<open>The refund\<close>

definition example_refund_unsigned :: pydict where
  "example_refund_unsigned =
     refund_request_unsigned example_close example_frozen ''refund-1'' ''idem-1'' ''final_close'' 600
       63905932800000000 63906019200000000"

definition example_refund :: pydict where
  "example_refund = example_refund_unsigned @ [(KStr ''request_hash'', PStr (digest example_refund_unsigned))]"

lemma example_refund_items:
  "item example_refund ''domain'' = PDict example_domain" "item example_refund ''channel'' = PDict example_reference"
  "item example_refund ''closure_id'' = PStr ''closure-1''" "item example_refund ''refund_id'' = PStr ''refund-1''"
  "item example_refund ''idempotency_key'' = PStr ''idem-1''" "item example_refund ''reason'' = PStr ''final_close''"
  "item example_refund ''destination'' = PStr (example_key CHR ''4'')"
  "item example_refund ''requested_base_units'' = PStr (str_int 600)"
  "item example_refund ''freeze_snapshot_hash'' = PStr (digest example_frozen_unsigned)"
  "item example_refund ''created_at'' = PStr ''2026-02-05T00:00:00Z''"
  "item example_refund ''expires_at'' = PStr ''2026-02-06T00:00:00Z''"
  "item example_refund ''request_hash'' = PStr (digest example_refund_unsigned)"
  by (simp_all add: example_refund_def example_refund_unsigned_def refund_request_unsigned_def item_Cons example_close_items
      example_frozen_items closure_times del: str_int_nonneg)
     (simp add: example_reference_def item_Cons)

lemma example_refund_signable: "signable_items example_refund_unsigned"
  using example_parts_signable
  by (simp add: example_refund_unsigned_def refund_request_unsigned_def example_close_items example_frozen_items
      closure_times example_reference_def item_Cons)

lemma example_sender [simp]: "pubkey_text (example_key CHR ''4'')"
  by code_simp

lemma example_reference_valid:
  "validate_domain (PDict example_domain) f = Inr ()" "validate_channel_reference (PDict example_reference) f' = Inr ()"
  using channel_identity(1,2) [OF example_closing_valid] by (simp_all add: example_domains)

lemma example_refund_hash: "validate_hash example_jcs example_refund ''request_hash'' = Inr ()"
  by (rule validate_hash_with_hash [of _ example_refund_unsigned])
     (simp add: digest_with_hash [OF example_refund_signable] example_refund_def,
      simp add: example_refund_unsigned_def refund_request_unsigned_def has_key_Cons)

definition example_projection_unsigned :: pydict where
  "example_projection_unsigned =
     refund_projection example_refund example_frozen ''final_close'' 1000 400 400 0 600 600 63905932800000000"

definition example_projection :: pydict where
  "example_projection =
     example_projection_unsigned @ [(KStr ''projection_hash'', PStr (digest example_projection_unsigned))]"

lemma example_projection_signable: "signable_items example_projection_unsigned"
  by (simp add: example_projection_unsigned_def refund_projection_def example_refund_items example_frozen_items
      closure_times json_safe_max_def)

lemma example_project_refund:
  "project_refund example_jcs example_refund example_frozen freeze_now [] = Inr example_projection"
proof -
  have closed: "cl_closed example_refund ''refund_request'' refund_request_fields refund_request_fields = Inr ()"
    by (rule cl_closed_exact)
       (simp add: example_refund_def example_refund_unsigned_def refund_request_unsigned_def refund_request_fields_def)
  have links: "check_refund_links example_refund example_frozen = Inr ()"
    by (simp add: check_refund_links_def example_refund_items example_frozen_items example_reference_valid cl_pubkey_def
        string_with_def ignore_def) (simp add: example_reference_def item_Cons)
  have window: "check_refund_window example_refund example_frozen 63905932800000000 = Inr ()"
    by (simp add: check_refund_window_def example_refund_items example_frozen_items cl_time_def timestamp_with_def
        closure_times)
  have amount: "check_refund_amount example_refund 0 600 600 = Inr (''final_close'', 600)"
    by (simp add: check_refund_amount_def example_refund_items refund_reasons_def text_value_def
        cl_amount_str_int u64_max_def del: str_int_nonneg)
  have p: "with_hash example_jcs example_projection_unsigned ''projection_hash'' = Inr example_projection"
    using digest_with_hash [OF example_projection_signable] by (simp add: example_projection_def)
  show ?thesis
    unfolding project_refund_def
    using example_frozen_totals
    by (simp add: closed links window amount example_refund_hash example_frozen_valid cl_utc_def operation_states_ok_def
        example_frozen_count ambiguous_count_def refund_totals_def p [unfolded example_projection_unsigned_def])
qed

end
