(* ===== verification/Refund_Runtime.thy ===== *)
theory Refund_Runtime
  imports Closure Tables
begin

text \<open>
  \<^verbatim>\<open>foundry_channel_protocol/closure.py\<close>, class \<^verbatim>\<open>ClosureRuntime\<close>: the refund table with its reservations, the
  hash-chained event journal, every method, and the step relation over them. A method is a
  transaction: an exception before its commit leaves the tables as they were. \<^verbatim>\<open>reconcile\<close> also commits
  a state change and raises after it.
\<close>

datatype refund_state =
    RValidated | RExecutionCommitted | RSubmitted | RNeedsRecovery | RReconciling | RNeedsReview
  | RDisputed | RCompleted | RRejected | RFailed | RCancelled

fun refund_state_text :: "refund_state \<Rightarrow> string" where
  "refund_state_text RValidated = ''validated''"
| "refund_state_text RExecutionCommitted = ''execution_committed''"
| "refund_state_text RSubmitted = ''submitted''"
| "refund_state_text RNeedsRecovery = ''needs_recovery''"
| "refund_state_text RReconciling = ''reconciling''"
| "refund_state_text RNeedsReview = ''needs_review''"
| "refund_state_text RDisputed = ''disputed''"
| "refund_state_text RCompleted = ''completed''"
| "refund_state_text RRejected = ''rejected_before_submission''"
| "refund_state_text RFailed = ''failed_before_submission''"
| "refund_state_text RCancelled = ''explicitly_cancelled_before_authorization''"

record refund_row =
  rf_refund_id :: string
  rf_channel_id :: string
  rf_epoch :: int
  rf_closure_id :: string
  rf_idempotency_key :: string
  rf_request_hash :: string
  rf_request :: pydict
  rf_projection_hash :: string
  rf_projection :: pydict
  rf_freeze_hash :: string
  rf_requested :: int
  rf_maximum :: int
  rf_before :: int
  rf_after :: int
  rf_state :: refund_state
  rf_commitment :: "pydict option"
  rf_execution_request_id :: "string option"
  rf_commitment_hash :: "string option"
  rf_message_hash :: "string option"
  rf_executor_id :: "string option"
  rf_signer :: "string option"
  rf_intents :: int
  rf_technical :: "pydict option"
  rf_signature :: "string option"
  rf_receipt :: "pydict option"
  rf_created_at :: string
  rf_updated_at :: string

record refund_event =
  re_refund_id :: string
  re_sequence :: int
  re_state :: refund_state
  re_event_json :: pyval
  re_previous_hash :: string
  re_event_hash :: string
  re_recorded_at :: string

record refund_db =
  refunds :: "refund_row list"
  refund_events :: "refund_event list"

record refund_record =
  rc_refund_id :: string
  rc_request_hash :: string
  rc_projection_hash :: string
  rc_state :: refund_state
  rc_submit_intent_count :: int
  rc_transaction_signature :: "string option"
  rc_reconciled_receipt :: "pydict option"

text \<open>The injected verifier of one source; an exception it raises counts as not verified.\<close>

record refund_verifier =
  rv_source_id :: string
  rv_verify :: "pydict \<Rightarrow> bool"

definition refund_db_init :: refund_db where
  "refund_db_init = \<lparr>refunds = [], refund_events = []\<rparr>"

abbreviation select_refund :: "refund_db \<Rightarrow> string \<Rightarrow> refund_row option" where
  "select_refund db rid \<equiv> select_row rf_refund_id (refunds db) rid"

definition update_refund :: "string \<Rightarrow> (refund_row \<Rightarrow> refund_row) \<Rightarrow> refund_db \<Rightarrow> refund_db" where
  "update_refund rid f db = db\<lparr>refunds := update_row rf_refund_id rid f (refunds db)\<rparr>"

text \<open>The body of a method: what it raises before its commit, or the committed tables and its reply.\<close>

definition commit_refund :: "refund_db \<Rightarrow> (refund_db \<times> 'a res) res \<Rightarrow> refund_db \<times> 'a res" where
  "commit_refund db m = (case m of Inl e \<Rightarrow> (db, Inl e) | Inr (db', reply) \<Rightarrow> (db', reply))"

section \<open>Reading and the journal\<close>

definition refund_row_of :: "refund_db \<Rightarrow> string \<Rightarrow> refund_row res" where
  "refund_row_of db rid =
     bind_res (cl_identifier (PStr rid) ''refund_id'') (\<lambda>_.
     case select_refund db rid of
       None \<Rightarrow> Inl (cl_reject ''refund_not_found'' ''refund_id'')
     | Some row \<Rightarrow> Inr row)"

definition refund_record_of :: "refund_row \<Rightarrow> refund_record" where
  "refund_record_of row =
     \<lparr>rc_refund_id = rf_refund_id row, rc_request_hash = rf_request_hash row,
      rc_projection_hash = rf_projection_hash row, rc_state = rf_state row,
      rc_submit_intent_count = rf_intents row, rc_transaction_signature = rf_signature row,
      rc_reconciled_receipt = rf_receipt row\<rparr>"

definition refund_get :: "refund_db \<Rightarrow> string \<Rightarrow> refund_record res" where
  "refund_get db rid = bind_res (refund_row_of db rid) (\<lambda>row. Inr (refund_record_of row))"

definition refund_events_for :: "refund_db \<Rightarrow> string \<Rightarrow> refund_event list" where
  "refund_events_for db rid = filter (\<lambda>e. re_refund_id e = rid) (refund_events db)"

definition refund_entry ::
  "string \<Rightarrow> int \<Rightarrow> refund_state \<Rightarrow> pydict \<Rightarrow> string \<Rightarrow> string \<Rightarrow> string \<Rightarrow> pyval" where
  "refund_entry rid sequence st payload payload_hash previous ts = PDict
     [(KStr ''type'', PStr ''refund_journal_entry''), (KStr ''protocol_version'', PStr ''1.0.0''),
      (KStr ''refund_id'', PStr rid), (KStr ''sequence'', PInt sequence),
      (KStr ''state'', PStr (refund_state_text st)), (KStr ''event_type'', PStr (refund_state_text st)),
      (KStr ''payload'', PDict payload), (KStr ''payload_hash'', PStr payload_hash),
      (KStr ''previous_event_hash'', PStr previous), (KStr ''recorded_at'', PStr ts)]"

definition append_refund_event ::
  "serializer \<Rightarrow> refund_db \<Rightarrow> string \<Rightarrow> refund_state \<Rightarrow> pydict \<Rightarrow> string \<Rightarrow> refund_db res" where
  "append_refund_event jcs db rid st payload ts =
     (let previous = newest_by re_sequence (refund_events_for db rid);
          sequence = (case previous of None \<Rightarrow> 1 | Some e \<Rightarrow> re_sequence e + 1);
          previous_hash = (case previous of None \<Rightarrow> zero_hash | Some e \<Rightarrow> re_event_hash e)
      in
      bind_res (sha256_canonical_json jcs (PDict payload)) (\<lambda>payload_hash.
      let event = refund_entry rid sequence st payload payload_hash previous_hash ts in
      bind_res (sha256_canonical_json jcs event) (\<lambda>event_hash.
      bind_res (json_dumps True event) (\<lambda>event_json.
      bind_res (reject_if (list_ex (\<lambda>e. re_event_hash e = event_hash) (refund_events db))
        (PyRaise ''IntegrityError'')) (\<lambda>_.
      Inr (db\<lparr>refund_events := refund_events db @
        [\<lparr>re_refund_id = rid, re_sequence = sequence, re_state = st, re_event_json = event_json,
          re_previous_hash = previous_hash, re_event_hash = event_hash, re_recorded_at = ts\<rparr>]\<rparr>))))))"

text \<open>An UPDATE of the row, its event, the commit and the reply \<^verbatim>\<open>self.get\<close> makes.\<close>

definition move_refund ::
  "serializer \<Rightarrow> refund_db \<Rightarrow> string \<Rightarrow> (refund_row \<Rightarrow> refund_row) \<Rightarrow> refund_state \<Rightarrow> pydict \<Rightarrow> string \<Rightarrow>
   (refund_db \<times> refund_record res) res" where
  "move_refund jcs db rid f st payload ts =
     bind_res (append_refund_event jcs (update_refund rid f db) rid st payload ts) (\<lambda>db'.
     Inr (db', refund_get db' rid))"

definition keep_refund :: "refund_db \<Rightarrow> refund_row \<Rightarrow> (refund_db \<times> refund_record res) res" where
  "keep_refund db row = Inr (db, Inr (refund_record_of row))"

section \<open>register_refund\<close>

text \<open>
  A bound parameter of a TEXT column: NULL is None, an integer is stored as its text (a boolean as 1
  or 0), and the driver refuses lists and dictionaries.
\<close>

fun text_column :: "pyval \<Rightarrow> string option res" where
  "text_column (PStr s) = Inr (Some s)"
| "text_column (PInt i) = (if sqlite_integer i then Inr (Some (str_int i)) else Inl (PyRaise ''OverflowError''))"
| "text_column (PBool b) = Inr (Some (if b then ''1'' else ''0''))"
| "text_column PNone = Inr None"
| "text_column _ = Inl (PyRaise ''InterfaceError'')"

definition refund_scope :: "refund_row \<Rightarrow> string \<times> int \<times> string" where
  "refund_scope row = (rf_channel_id row, rf_epoch row, rf_idempotency_key row)"

definition same_closure :: "refund_row \<Rightarrow> string \<Rightarrow> int \<Rightarrow> string option \<Rightarrow> bool" where
  "same_closure row channel_id epoch closure \<longleftrightarrow>
     rf_channel_id row = channel_id \<and> rf_epoch row = epoch \<and> Some (rf_closure_id row) = closure"

text \<open>The primary key is searched before the idempotency index.\<close>

definition existing_refund :: "refund_db \<Rightarrow> string \<Rightarrow> string \<Rightarrow> int \<Rightarrow> string option \<Rightarrow> refund_row option" where
  "existing_refund db rid channel_id epoch key =
     (case select_refund db rid of
        Some row \<Rightarrow> Some row
      | None \<Rightarrow>
          (case key of
             None \<Rightarrow> None
           | Some k \<Rightarrow> find (\<lambda>r. refund_scope r = (channel_id, epoch, k)) (refunds db)))"

fun refund_live :: "refund_state \<Rightarrow> bool" where
  "refund_live RRejected = False"
| "refund_live RFailed = False"
| "refund_live RCancelled = False"
| "refund_live RCompleted = False"
| "refund_live _ = True"

definition refund_reserved :: "refund_db \<Rightarrow> string \<Rightarrow> int \<Rightarrow> string option \<Rightarrow> int" where
  "refund_reserved db channel_id epoch closure =
     sum_list (map rf_requested
       (filter (\<lambda>r. same_closure r channel_id epoch closure \<and> refund_live (rf_state r)) (refunds db)))"

definition completed_high_water :: "refund_row list \<Rightarrow> string \<Rightarrow> int \<Rightarrow> string option \<Rightarrow> int option" where
  "completed_high_water rows channel_id epoch closure =
     max_option (map (\<lambda>r. Some (rf_after r))
       (filter (\<lambda>r. same_closure r channel_id epoch closure \<and> rf_state r = RCompleted) rows))"

definition check_refund_reservation ::
  "refund_db \<Rightarrow> string \<Rightarrow> int \<Rightarrow> string option \<Rightarrow> pydict \<Rightarrow> unit res" where
  "check_refund_reservation db channel_id epoch closure p =
     run_all
      [reject_if (amount_of (item p ''refunded_total_before_base_units'') <
           (case completed_high_water (refunds db) channel_id epoch closure of None \<Rightarrow> 0 | Some h \<Rightarrow> h))
         (cl_reject ''stale_freeze_snapshot'' ''freeze_snapshot.refunded_total_base_units''),
       reject_if (refund_reserved db channel_id epoch closure + amount_of (item p ''requested_base_units'') >
           amount_of (item p ''maximum_refundable_base_units''))
         (cl_reject ''aggregate_refund_exceeds_unallocated'' ''requested_base_units'')]"

definition new_refund ::
  "string \<Rightarrow> string \<Rightarrow> int \<Rightarrow> string \<Rightarrow> string \<Rightarrow> pydict \<Rightarrow> pydict \<Rightarrow> pydict \<Rightarrow> pydict \<Rightarrow> pydict \<Rightarrow> string \<Rightarrow> refund_row" where
  "new_refund rid channel_id epoch closure key r request_json freeze p projection_json ts =
     \<lparr>rf_refund_id = rid, rf_channel_id = channel_id, rf_epoch = epoch, rf_closure_id = closure,
      rf_idempotency_key = key, rf_request_hash = text_value (item r ''request_hash''), rf_request = request_json,
      rf_projection_hash = text_value (item p ''projection_hash''), rf_projection = projection_json,
      rf_freeze_hash = text_value (item freeze ''freeze_snapshot_hash''),
      rf_requested = amount_of (item p ''requested_base_units''),
      rf_maximum = amount_of (item p ''maximum_refundable_base_units''),
      rf_before = amount_of (item p ''refunded_total_before_base_units''),
      rf_after = amount_of (item p ''refunded_total_after_base_units''), rf_state = RValidated,
      rf_commitment = None, rf_execution_request_id = None, rf_commitment_hash = None, rf_message_hash = None,
      rf_executor_id = None, rf_signer = None, rf_intents = 0, rf_technical = None, rf_signature = None,
      rf_receipt = None, rf_created_at = ts, rf_updated_at = ts\<rparr>"

definition not_null :: "'a option \<Rightarrow> 'a res" where
  "not_null c = (case c of None \<Rightarrow> Inl (PyRaise ''IntegrityError'') | Some v \<Rightarrow> Inr v)"

definition insert_refund ::
  "serializer \<Rightarrow> refund_db \<Rightarrow> string \<Rightarrow> string \<Rightarrow> int \<Rightarrow> string option \<Rightarrow> string option \<Rightarrow> pydict \<Rightarrow> pydict \<Rightarrow> pydict \<Rightarrow>
   string \<Rightarrow> (refund_db \<times> refund_record res) res" where
  "insert_refund jcs db rid channel_id epoch closure key r freeze p ts =
     bind_res (json_text r) (\<lambda>request_json.
     bind_res (json_text p) (\<lambda>projection_json.
     bind_res (reject_if (\<not> list_all (\<lambda>f. sqlite_integer (amount_of (item p f)))
         [''requested_base_units'', ''maximum_refundable_base_units'', ''refunded_total_before_base_units'',
          ''refunded_total_after_base_units'']) (PyRaise ''OverflowError'')) (\<lambda>_.
     bind_res (not_null closure) (\<lambda>c.
     bind_res (not_null key) (\<lambda>k.
     bind_res (append_refund_event jcs
       (db\<lparr>refunds := insert_row (new_refund rid channel_id epoch c k r request_json freeze p projection_json ts)
          (refunds db)\<rparr>) rid RValidated p ts) (\<lambda>db'.
     Inr (db', refund_get db' rid)))))))"

definition register_refund_tx ::
  "serializer \<Rightarrow> refund_db \<Rightarrow> pydict \<Rightarrow> pydict \<Rightarrow> pydict \<Rightarrow> string \<Rightarrow> string \<Rightarrow> (refund_db \<times> refund_record res) res" where
  "register_refund_tx jcs db r freeze p rid ts =
     (let channel = dict_of (item r ''channel'');
          channel_id = text_value (item channel ''channel_id'');
          epoch = int_value (item channel ''epoch'')
      in
      bind_res (reject_if (\<not> sqlite_integer epoch) (PyRaise ''OverflowError'')) (\<lambda>_.
      bind_res (text_column (item r ''idempotency_key'')) (\<lambda>key.
      case existing_refund db rid channel_id epoch key of
        Some row \<Rightarrow>
          bind_res (reject_if (PStr (rf_request_hash row) \<noteq> item r ''request_hash'')
            (cl_reject ''idempotency_conflict'' ''idempotency_key'')) (\<lambda>_.
          keep_refund db row)
      | None \<Rightarrow>
          bind_res (text_column (item r ''closure_id'')) (\<lambda>closure.
          bind_res (check_refund_reservation db channel_id epoch closure p) (\<lambda>_.
          insert_refund jcs db rid channel_id epoch closure key r freeze p ts)))))"

definition register_refund ::
  "serializer \<Rightarrow> refund_db \<Rightarrow> pydict \<Rightarrow> pydict \<Rightarrow> py_datetime \<Rightarrow> string list \<Rightarrow> refund_db \<times> refund_record res" where
  "register_refund jcs db r freeze now states =
     commit_refund db
       (bind_res (project_refund jcs r freeze now states) (\<lambda>p.
        bind_res (cl_identifier (item r ''refund_id'') ''refund_id'') (\<lambda>rid.
        bind_res (cl_format_time now) (\<lambda>ts.
        register_refund_tx jcs db r freeze p rid ts))))"

section \<open>Execution\<close>

definition refund_commitment_fields :: "string list" where
  "refund_commitment_fields =
     [''type'', ''protocol_version'', ''refund_request_hash'', ''refund_projection_hash'', ''execution_request_id'',
      ''execution_commitment_hash'', ''prepared_message_hash'', ''executor_id'', ''expected_signer'', ''expires_at'']"

definition check_refund_commitment :: "pydict \<Rightarrow> py_datetime \<Rightarrow> unit res" where
  "check_refund_commitment c now =
     bind_res (run_all
       [cl_closed c ''execution_commitment'' refund_commitment_fields refund_commitment_fields,
        expect c ''type'' ''refund_execution_commitment''
          (cl_reject ''invalid_execution_commitment'' ''commitment.type''),
        expect c ''protocol_version'' ''1.0.0''
          (cl_reject ''invalid_protocol_version'' ''commitment.protocol_version''),
        run_all (map (\<lambda>f. ignore (cl_hash (item c f) (''commitment.'' @ f)))
          [''refund_request_hash'', ''refund_projection_hash'', ''execution_commitment_hash'', ''prepared_message_hash'']),
        run_all (map (\<lambda>f. ignore (cl_identifier (item c f) (''commitment.'' @ f)))
          [''execution_request_id'', ''executor_id'']),
        ignore (cl_pubkey (item c ''expected_signer'') ''commitment.expected_signer'')]) (\<lambda>_.
     bind_res (cl_time (item c ''expires_at'') ''commitment.expires_at'') (\<lambda>expires_at.
     bind_res (cl_utc now) (\<lambda>current.
     reject_if (current \<ge> expires_at) (cl_reject ''execution_commitment_expired'' ''commitment.expires_at''))))"

definition set_refund_commitment :: "pydict \<Rightarrow> pydict \<Rightarrow> string \<Rightarrow> refund_row \<Rightarrow> refund_row" where
  "set_refund_commitment c serialized ts row =
     row\<lparr>rf_state := RExecutionCommitted, rf_commitment := Some serialized,
         rf_execution_request_id := Some (text_value (item c ''execution_request_id'')),
         rf_commitment_hash := Some (text_value (item c ''execution_commitment_hash'')),
         rf_message_hash := Some (text_value (item c ''prepared_message_hash'')),
         rf_executor_id := Some (text_value (item c ''executor_id'')),
         rf_signer := Some (text_value (item c ''expected_signer'')), rf_updated_at := ts\<rparr>"

definition commit_refund_tx ::
  "serializer \<Rightarrow> refund_db \<Rightarrow> string \<Rightarrow> pydict \<Rightarrow> pydict \<Rightarrow> string \<Rightarrow> (refund_db \<times> refund_record res) res" where
  "commit_refund_tx jcs db rid c serialized ts =
     bind_res (refund_row_of db rid) (\<lambda>row.
     if rf_state row = RExecutionCommitted then
       bind_res (reject_if (rf_commitment row \<noteq> Some serialized)
         (cl_reject ''execution_commitment_conflict'' ''commitment'')) (\<lambda>_.
       keep_refund db row)
     else
       bind_res (run_all
         [reject_if (rf_state row \<noteq> RValidated) (cl_reject ''commitment_state_invalid'' ''refund.state''),
          reject_if (item c ''refund_request_hash'' \<noteq> PStr (rf_request_hash row))
            (cl_reject ''execution_commitment_mismatch'' ''commitment''),
          reject_if (item c ''refund_projection_hash'' \<noteq> PStr (rf_projection_hash row))
            (cl_reject ''execution_commitment_mismatch'' ''commitment'')]) (\<lambda>_.
       move_refund jcs db rid (set_refund_commitment c serialized ts) RExecutionCommitted c ts))"

definition refund_commit_execution ::
  "serializer \<Rightarrow> refund_db \<Rightarrow> string \<Rightarrow> pydict \<Rightarrow> py_datetime \<Rightarrow> refund_db \<times> refund_record res" where
  "refund_commit_execution jcs db rid c now =
     commit_refund db
       (bind_res (check_refund_commitment c now) (\<lambda>_.
        bind_res (cl_format_time now) (\<lambda>ts.
        bind_res (json_text c) (\<lambda>serialized.
        commit_refund_tx jcs db rid c serialized ts))))"

fun intent_recorded :: "refund_state \<Rightarrow> bool" where
  "intent_recorded RSubmitted = True"
| "intent_recorded RNeedsRecovery = True"
| "intent_recorded RReconciling = True"
| "intent_recorded RCompleted = True"
| "intent_recorded _ = False"

definition set_refund_state :: "refund_state \<Rightarrow> string \<Rightarrow> refund_row \<Rightarrow> refund_row" where
  "set_refund_state st ts row = row\<lparr>rf_state := st, rf_updated_at := ts\<rparr>"

definition set_refund_submitted :: "string \<Rightarrow> refund_row \<Rightarrow> refund_row" where
  "set_refund_submitted ts row = row\<lparr>rf_state := RSubmitted, rf_intents := 1, rf_updated_at := ts\<rparr>"

definition record_submit_intent ::
  "serializer \<Rightarrow> refund_db \<Rightarrow> string \<Rightarrow> py_datetime \<Rightarrow> refund_db \<times> refund_record res" where
  "record_submit_intent jcs db rid now =
     commit_refund db
       (bind_res (cl_format_time now) (\<lambda>ts.
        bind_res (refund_row_of db rid) (\<lambda>row.
        if intent_recorded (rf_state row) then keep_refund db row
        else
          bind_res (reject_if (rf_state row \<noteq> RExecutionCommitted)
            (cl_reject ''submit_state_invalid'' ''refund.state'')) (\<lambda>_.
          move_refund jcs db rid (set_refund_submitted ts) RSubmitted
            [(KStr ''submit_intent_persisted'', PBool True)] ts))))"

section \<open>The technical result\<close>

definition technical_required :: "string list" where
  "technical_required =
     [''type'', ''protocol_version'', ''refund_id'', ''refund_request_hash'', ''execution_request_id'',
      ''execution_commitment_hash'', ''outcome'', ''signature_status'', ''technical_status'', ''observed_at'',
      ''receipt_hash'']"

definition check_technical_receipt :: "serializer \<Rightarrow> pydict \<Rightarrow> unit res" where
  "check_technical_receipt jcs v =
     run_all
      [cl_closed v ''technical_receipt'' technical_required (technical_required @ [''transaction_signature'']),
       validate_hash jcs v ''receipt_hash'',
       expect v ''type'' ''technical_refund_receipt'' (cl_reject ''invalid_technical_receipt'' ''receipt.type''),
       expect v ''protocol_version'' ''1.0.0'' (cl_reject ''invalid_protocol_version'' ''receipt.protocol_version''),
       ignore (cl_identifier (item v ''refund_id'') ''receipt.refund_id''),
       ignore (cl_identifier (item v ''execution_request_id'') ''receipt.execution_request_id''),
       ignore (cl_hash (item v ''refund_request_hash'') ''receipt.refund_request_hash''),
       ignore (cl_hash (item v ''execution_commitment_hash'') ''receipt.execution_commitment_hash''),
       ignore (cl_time (item v ''observed_at'') ''receipt.observed_at''),
       reject_if (\<not> nonempty_text (item v ''technical_status''))
         (cl_reject ''invalid_technical_status'' ''receipt.technical_status'')]"

text \<open>Truth of a value the canonical form admits (no floats, no other objects).\<close>

fun py_truth :: "pyval \<Rightarrow> bool" where
  "py_truth PNone = False"
| "py_truth (PBool b) = b"
| "py_truth (PInt i) = (i \<noteq> 0)"
| "py_truth (PStr s) = (s \<noteq> [])"
| "py_truth (PList xs) = (xs \<noteq> [])"
| "py_truth (PDict d) = (d \<noteq> [])"
| "py_truth _ = True"

definition check_receipt_links :: "refund_row \<Rightarrow> string \<Rightarrow> pydict \<Rightarrow> unit res" where
  "check_receipt_links row rid v =
     run_all
      [reject_if (rf_state row \<noteq> RSubmitted) (cl_reject ''technical_receipt_state_invalid'' ''refund.state''),
       reject_if (rf_intents row \<noteq> 1) (cl_reject ''submit_intent_missing'' ''refund''),
       reject_if (item v ''refund_id'' \<noteq> PStr rid) (cl_reject ''technical_receipt_mismatch'' ''receipt.refund_id''),
       reject_if (item v ''refund_request_hash'' \<noteq> PStr (rf_request_hash row))
         (cl_reject ''technical_receipt_mismatch'' ''receipt''),
       reject_if (str_of (item v ''execution_request_id'') \<noteq> rf_execution_request_id row)
         (cl_reject ''technical_receipt_mismatch'' ''receipt''),
       reject_if (str_of (item v ''execution_commitment_hash'') \<noteq> rf_commitment_hash row)
         (cl_reject ''technical_receipt_mismatch'' ''receipt'')]"

definition technical_outcome :: "pydict \<Rightarrow> refund_state res" where
  "technical_outcome v =
     (let outcome = item v ''outcome''; signature = item v ''transaction_signature'';
          status = item v ''signature_status''
      in
      bind_res (py_in outcome [''accepted'', ''rejected'', ''unknown'']) (\<lambda>known_outcome.
      bind_res (reject_if (\<not> known_outcome) (cl_reject ''invalid_technical_outcome'' ''receipt.outcome'')) (\<lambda>_.
      bind_res (py_in status [''known'', ''unknown'']) (\<lambda>known_status.
      bind_res (run_all
        [reject_if (\<not> known_status) (cl_reject ''invalid_signature_status'' ''receipt.signature_status''),
         reject_if (status = PStr ''known'' \<and> \<not> py_truth signature)
           (cl_reject ''technical_signature_missing'' ''receipt''),
         reject_if (signature \<noteq> PNone \<and> \<not> nonempty_text signature)
           (cl_reject ''invalid_transaction_signature'' ''receipt''),
         reject_if (outcome = PStr ''accepted'' \<and> status \<noteq> PStr ''known'')
           (cl_reject ''accepted_signature_unknown'' ''receipt.signature_status'')]) (\<lambda>_.
      Inr (if outcome = PStr ''unknown'' then RNeedsRecovery
           else if outcome = PStr ''accepted'' then RReconciling else RNeedsReview))))))"

definition set_refund_technical :: "refund_state \<Rightarrow> pydict \<Rightarrow> string option \<Rightarrow> string \<Rightarrow> refund_row \<Rightarrow> refund_row" where
  "set_refund_technical st serialized signature ts row =
     row\<lparr>rf_state := st, rf_technical := Some serialized, rf_signature := signature, rf_updated_at := ts\<rparr>"

definition technical_tx ::
  "serializer \<Rightarrow> refund_db \<Rightarrow> string \<Rightarrow> pydict \<Rightarrow> pydict \<Rightarrow> string \<Rightarrow> (refund_db \<times> refund_record res) res" where
  "technical_tx jcs db rid v serialized ts =
     bind_res (refund_row_of db rid) (\<lambda>row.
     case rf_technical row of
       Some stored \<Rightarrow>
         bind_res (reject_if (stored \<noteq> serialized) (cl_reject ''technical_receipt_conflict'' ''receipt'')) (\<lambda>_.
         keep_refund db row)
     | None \<Rightarrow>
         bind_res (check_receipt_links row rid v) (\<lambda>_.
         bind_res (technical_outcome v) (\<lambda>st.
         move_refund jcs db rid
           (set_refund_technical st serialized (str_of (item v ''transaction_signature'')) ts) st v ts)))"

definition record_technical_receipt ::
  "serializer \<Rightarrow> refund_db \<Rightarrow> string \<Rightarrow> pydict \<Rightarrow> py_datetime \<Rightarrow> refund_db \<times> refund_record res" where
  "record_technical_receipt jcs db rid v now =
     commit_refund db
       (bind_res (check_technical_receipt jcs v) (\<lambda>_.
        bind_res (cl_format_time now) (\<lambda>ts.
        bind_res (json_text v) (\<lambda>serialized.
        technical_tx jcs db rid v serialized ts))))"

section \<open>Reconciliation\<close>

definition refund_observation_fields :: "string list" where
  "refund_observation_fields =
     [''type'', ''protocol_version'', ''domain'', ''source_id'', ''channel_id'', ''channel_account'', ''epoch'', ''mint'',
      ''destination'', ''refund_id'', ''refund_request_hash'', ''refund_projection_hash'', ''transaction_signature'',
      ''funded_total_base_units'', ''activated_total_base_units'', ''settled_total_base_units'',
      ''refunded_total_before_base_units'', ''refunded_total_after_base_units'', ''vault_balance_before_base_units'',
      ''vault_balance_after_base_units'', ''observed_at'', ''observation_hash'']"

definition refund_observation_amounts :: "string list" where
  "refund_observation_amounts =
     [''funded_total_base_units'', ''activated_total_base_units'', ''settled_total_base_units'',
      ''refunded_total_before_base_units'', ''refunded_total_after_base_units'', ''vault_balance_before_base_units'',
      ''vault_balance_after_base_units'']"

definition check_refund_observation :: "serializer \<Rightarrow> refund_verifier \<Rightarrow> pydict \<Rightarrow> unit res" where
  "check_refund_observation jcs verifier v =
     run_all
      [cl_closed v ''observation'' refund_observation_fields refund_observation_fields,
       validate_hash jcs v ''observation_hash'',
       expect v ''type'' ''channel_refund_observation'' (cl_reject ''invalid_observation'' ''observation.type''),
       expect v ''protocol_version'' ''1.0.0'' (cl_reject ''invalid_protocol_version'' ''observation.protocol_version''),
       ignore (cl_identifier (item v ''source_id'') ''observation.source_id''),
       ignore (cl_identifier (item v ''refund_id'') ''observation.refund_id''),
       validate_domain (item v ''domain'') ''observation.domain'',
       ignore (cl_identifier (item v ''channel_id'') ''observation.channel_id''),
       ignore (cl_pubkey (item v ''channel_account'') ''observation.channel_account''),
       cl_epoch (item v ''epoch'') ''observation.epoch'',
       ignore (cl_pubkey (item v ''mint'') ''observation.mint''),
       ignore (cl_pubkey (item v ''destination'') ''observation.destination''),
       ignore (cl_hash (item v ''refund_request_hash'') ''observation.refund_request_hash''),
       ignore (cl_hash (item v ''refund_projection_hash'') ''observation.refund_projection_hash''),
       ignore (cl_time (item v ''observed_at'') ''observation.observed_at''),
       reject_if (\<not> nonempty_text (item v ''transaction_signature''))
         (cl_reject ''invalid_transaction_signature'' ''observation.transaction_signature''),
       run_all (map (\<lambda>f. ignore (cl_amount (item v f) (''observation.'' @ f) False)) refund_observation_amounts),
       reject_if (PStr (rv_source_id verifier) \<noteq> item v ''source_id'')
         (cl_reject ''observation_verifier_mismatch'' ''observation.source_id''),
       reject_if (\<not> rv_verify verifier v) (cl_reject ''observation_unverified'' ''observation.observation_hash'')]"

definition expected_refund :: "refund_row \<Rightarrow> string \<Rightarrow> (string \<times> pyval) list" where
  "expected_refund row rid =
     (let request = rf_request row; projection = rf_projection row; channel = dict_of (item request ''channel'') in
      [(''domain'', item request ''domain''), (''channel_id'', item channel ''channel_id''),
       (''channel_account'', item channel ''channel_account''), (''epoch'', item channel ''epoch''),
       (''mint'', item channel ''mint''), (''destination'', item request ''destination''), (''refund_id'', PStr rid),
       (''refund_request_hash'', PStr (rf_request_hash row)),
       (''refund_projection_hash'', PStr (rf_projection_hash row))] @
      map (\<lambda>f. (f, item projection f))
       [''funded_total_base_units'', ''refunded_total_before_base_units'', ''refunded_total_after_base_units'',
        ''vault_balance_before_base_units'', ''vault_balance_after_base_units'', ''activated_total_base_units'',
        ''settled_total_base_units''])"

definition refund_mismatches :: "refund_row \<Rightarrow> string \<Rightarrow> pydict \<Rightarrow> string list" where
  "refund_mismatches row rid v =
     map fst (filter (\<lambda>(f, expected). \<not> py_eq (item v f) expected) (expected_refund row rid))"

definition refund_receipt_unsigned :: "refund_row \<Rightarrow> string \<Rightarrow> pydict \<Rightarrow> string \<Rightarrow> pydict" where
  "refund_receipt_unsigned row rid v ts =
     (let request = rf_request row; projection = rf_projection row; channel = dict_of (item request ''channel'') in
      [(KStr ''type'', PStr ''reconciled_channel_refund''), (KStr ''protocol_version'', PStr ''1.0.0''),
       (KStr ''refund_id'', PStr rid), (KStr ''refund_request_hash'', PStr (rf_request_hash row)),
       (KStr ''refund_projection_hash'', PStr (rf_projection_hash row)),
       (KStr ''channel_id'', item channel ''channel_id''), (KStr ''channel_account'', item channel ''channel_account''),
       (KStr ''epoch'', item channel ''epoch''), (KStr ''mint'', item channel ''mint''),
       (KStr ''destination'', item request ''destination''), (KStr ''reason'', item request ''reason''),
       (KStr ''amount_base_units'', item request ''requested_base_units'')] @
      map (\<lambda>f. (KStr f, item projection f))
       [''activated_total_base_units'', ''settled_total_base_units'', ''refunded_total_before_base_units'',
        ''refunded_total_after_base_units'', ''vault_balance_before_base_units'', ''vault_balance_after_base_units''] @
      [(KStr ''transaction_signature'', item v ''transaction_signature''),
       (KStr ''observation_hashes'', PList [item v ''observation_hash'']),
       (KStr ''reconciliation_status'', PStr ''reference_observation_matched''), (KStr ''completed_at'', PStr ts)])"

definition set_refund_completed :: "pydict \<Rightarrow> string \<Rightarrow> refund_row \<Rightarrow> refund_row" where
  "set_refund_completed receipt ts row =
     row\<lparr>rf_state := RCompleted, rf_receipt := Some receipt, rf_updated_at := ts\<rparr>"

text \<open>The two refusals that first commit the row as needing review.\<close>

definition review_refund ::
  "serializer \<Rightarrow> refund_db \<Rightarrow> string \<Rightarrow> pydict \<Rightarrow> string \<Rightarrow> exn \<Rightarrow> (refund_db \<times> refund_record res) res" where
  "review_refund jcs db rid payload ts e =
     bind_res (append_refund_event jcs (update_refund rid (set_refund_state RNeedsReview ts) db) rid RNeedsReview
       payload ts) (\<lambda>db'.
     Inr (db', Inl e))"

definition complete_refund ::
  "serializer \<Rightarrow> refund_db \<Rightarrow> string \<Rightarrow> refund_row \<Rightarrow> pydict \<Rightarrow> string \<Rightarrow> (refund_db \<times> refund_record res) res" where
  "complete_refund jcs db rid row v ts =
     bind_res (reject_if (rf_signature row \<noteq> str_of (item v ''transaction_signature''))
       (cl_reject ''reconciliation_signature_mismatch'' ''observation'')) (\<lambda>_.
     bind_res (with_hash jcs (refund_receipt_unsigned row rid v ts) ''receipt_hash'') (\<lambda>receipt.
     bind_res (json_text receipt) (\<lambda>receipt_json.
     move_refund jcs db rid (set_refund_completed receipt_json ts) RCompleted receipt ts)))"

definition reconcile_refund_tx ::
  "serializer \<Rightarrow> refund_db \<Rightarrow> string \<Rightarrow> pydict \<Rightarrow> string \<Rightarrow> (refund_db \<times> refund_record res) res" where
  "reconcile_refund_tx jcs db rid v ts =
     bind_res (refund_row_of db rid) (\<lambda>row.
     if rf_state row = RCompleted then keep_refund db row
     else if rf_state row \<notin> {RReconciling, RNeedsRecovery}
     then Inl (cl_reject ''reconciliation_state_invalid'' ''refund.state'')
     else
       let before = amount_of (item (rf_projection row) ''refunded_total_before_base_units'');
           high_water = completed_high_water (filter (\<lambda>r. rf_refund_id r \<noteq> rid) (refunds db))
             (rf_channel_id row) (rf_epoch row) (Some (rf_closure_id row));
           mismatches = refund_mismatches row rid v
       in
       if high_water \<noteq> None \<and> before < the high_water then
         review_refund jcs db rid
           [(KStr ''reason'', PStr ''overlapping_refund_interval''), (KStr ''projected_refunded_before'', PInt before),
            (KStr ''reconciled_refunded_high_water'', PInt (the high_water))] ts
           (cl_reject ''overlapping_refund_interval'' ''projection.refunded_total_before_base_units'')
       else if mismatches \<noteq> [] then
         review_refund jcs db rid [(KStr ''mismatches'', PList (map PStr (sort mismatches)))] ts
           (cl_reject ''reconciliation_mismatch'' ''observation'')
       else complete_refund jcs db rid row v ts)"

definition reconcile_refund ::
  "serializer \<Rightarrow> refund_db \<Rightarrow> string \<Rightarrow> pydict \<Rightarrow> refund_verifier \<Rightarrow> py_datetime \<Rightarrow> refund_db \<times> refund_record res" where
  "reconcile_refund jcs db rid v verifier now =
     commit_refund db
       (bind_res (check_refund_observation jcs verifier v) (\<lambda>_.
        bind_res (cl_format_time now) (\<lambda>ts.
        reconcile_refund_tx jcs db rid v ts)))"

section \<open>Recovery, divergence and release\<close>

definition set_refund_recovered :: "string \<Rightarrow> string \<Rightarrow> refund_row \<Rightarrow> refund_row" where
  "set_refund_recovered signature ts row =
     row\<lparr>rf_state := RReconciling, rf_signature := Some signature, rf_updated_at := ts\<rparr>"

definition recovered_tx ::
  "serializer \<Rightarrow> refund_db \<Rightarrow> string \<Rightarrow> string \<Rightarrow> string \<Rightarrow> string \<Rightarrow> (refund_db \<times> refund_record res) res" where
  "recovered_tx jcs db rid signature response_hash ts =
     bind_res (refund_row_of db rid) (\<lambda>row.
     if rf_state row = RReconciling then
       bind_res (reject_if (rf_signature row \<noteq> Some signature)
         (cl_reject ''recovery_signature_conflict'' ''transaction_signature'')) (\<lambda>_.
       keep_refund db row)
     else
       bind_res (run_all
         [reject_if (rf_state row \<noteq> RNeedsRecovery) (cl_reject ''recovery_state_invalid'' ''refund.state''),
          reject_if (rf_intents row \<noteq> 1) (cl_reject ''submit_intent_missing'' ''refund'')]) (\<lambda>_.
       move_refund jcs db rid (set_refund_recovered signature ts) RReconciling
         [(KStr ''recovery'', PStr ''signature_located''), (KStr ''status_response_hash'', PStr response_hash),
          (KStr ''submit_intent_count'', PInt 1), (KStr ''automatic_second_submission_count'', PInt 0)] ts))"

definition record_recovered_signature ::
  "serializer \<Rightarrow> refund_db \<Rightarrow> string \<Rightarrow> string \<Rightarrow> string \<Rightarrow> py_datetime \<Rightarrow> refund_db \<times> refund_record res" where
  "record_recovered_signature jcs db rid signature response_hash now =
     commit_refund db
       (bind_res (reject_if (signature = [])
          (cl_reject ''recovered_signature_missing'' ''transaction_signature'')) (\<lambda>_.
        bind_res (cl_hash (PStr response_hash) ''status_response_hash'') (\<lambda>_.
        bind_res (cl_format_time now) (\<lambda>ts.
        recovered_tx jcs db rid signature response_hash ts))))"

definition refund_provider_divergence ::
  "serializer \<Rightarrow> refund_db \<Rightarrow> string \<Rightarrow> string list \<Rightarrow> py_datetime \<Rightarrow> refund_db \<times> refund_record res" where
  "refund_provider_divergence jcs db rid provider_ids now =
     commit_refund db
       (bind_res (run_all (map (\<lambda>p. ignore (cl_identifier (PStr p) ''provider_id'')) provider_ids)) (\<lambda>_.
        let normalized = sort (remdups provider_ids) in
        bind_res (reject_if (length normalized < 2)
          (cl_reject ''provider_divergence_unproven'' ''provider_ids'')) (\<lambda>_.
        bind_res (cl_format_time now) (\<lambda>ts.
        bind_res (refund_row_of db rid) (\<lambda>row.
        bind_res (reject_if (rf_state row \<notin> {RNeedsRecovery, RReconciling, RNeedsReview})
          (cl_reject ''divergence_state_invalid'' ''refund.state'')) (\<lambda>_.
        move_refund jcs db rid (set_refund_state RDisputed ts) RDisputed
          [(KStr ''provider_ids'', PList (map PStr normalized))] ts))))))"

definition release_state :: "string \<Rightarrow> refund_state res" where
  "release_state s =
     (if s = ''rejected_before_submission'' then Inr RRejected
      else if s = ''failed_before_submission'' then Inr RFailed
      else if s = ''explicitly_cancelled_before_authorization'' then Inr RCancelled
      else Inl (cl_reject ''invalid_release_state'' ''state''))"

definition release_before_submission ::
  "serializer \<Rightarrow> refund_db \<Rightarrow> string \<Rightarrow> string \<Rightarrow> py_datetime \<Rightarrow> refund_db \<times> refund_record res" where
  "release_before_submission jcs db rid s now =
     commit_refund db
       (bind_res (release_state s) (\<lambda>st.
        bind_res (cl_format_time now) (\<lambda>ts.
        bind_res (refund_row_of db rid) (\<lambda>row.
        bind_res (reject_if (rf_intents row \<noteq> 0 \<or> rf_state row \<noteq> RValidated)
          (cl_reject ''release_after_submission_forbidden'' ''refund'')) (\<lambda>_.
        move_refund jcs db rid (set_refund_state st ts) st [(KStr ''released'', PBool True)] ts)))))"

section \<open>Steps\<close>

inductive refund_step :: "serializer \<Rightarrow> refund_db \<Rightarrow> refund_db \<Rightarrow> bool" for jcs where
  refund_register: "refund_step jcs db (fst (register_refund jcs db r freeze t states))"
| refund_commit: "refund_step jcs db (fst (refund_commit_execution jcs db rid c t))"
| refund_intent: "refund_step jcs db (fst (record_submit_intent jcs db rid t))"
| refund_technical: "refund_step jcs db (fst (record_technical_receipt jcs db rid v t))"
| refund_reconcile: "refund_step jcs db (fst (reconcile_refund jcs db rid v verifier t))"
| refund_recovered: "refund_step jcs db (fst (record_recovered_signature jcs db rid s h t))"
| refund_divergence: "refund_step jcs db (fst (refund_provider_divergence jcs db rid ps t))"
| refund_release: "refund_step jcs db (fst (release_before_submission jcs db rid s t))"

end
