(* ===== verification/Refund_Invariants.thy ===== *)
theory Refund_Invariants
  imports Refund_Runtime Closure_Facts
begin

text \<open>
  What one call of a \<^verbatim>\<open>ClosureRuntime\<close> method does to the tables, and what therefore holds of every state
  reached: unique keys, reservations within the unallocated capacity, at most one submit intent,
  disjoint intervals of reconciled refunds, the lifecycle graph and the chained journal.
\<close>

section \<open>The effect of a call\<close>

definition refund_fixed :: "refund_row \<Rightarrow> _" where
  "refund_fixed r = ((rf_refund_id r, rf_channel_id r, rf_epoch r, rf_closure_id r, rf_idempotency_key r),
     (rf_request_hash r, rf_request r, rf_projection_hash r, rf_projection r, rf_freeze_hash r),
     (rf_requested r, rf_maximum r, rf_before r, rf_after r))"

fun refund_edge :: "refund_state \<Rightarrow> refund_state \<Rightarrow> bool" where
  "refund_edge RValidated b = (b \<in> {RExecutionCommitted, RRejected, RFailed, RCancelled})"
| "refund_edge RExecutionCommitted b = (b = RSubmitted)"
| "refund_edge RSubmitted b = (b \<in> {RNeedsRecovery, RReconciling, RNeedsReview})"
| "refund_edge RNeedsRecovery b = (b \<in> {RReconciling, RNeedsReview, RDisputed, RCompleted})"
| "refund_edge RReconciling b = (b \<in> {RNeedsReview, RDisputed, RCompleted})"
| "refund_edge RNeedsReview b = (b = RDisputed)"
| "refund_edge _ b = False"

fun refund_past :: "refund_state \<Rightarrow> bool" where
  "refund_past RSubmitted = True"
| "refund_past RNeedsRecovery = True"
| "refund_past RReconciling = True"
| "refund_past RNeedsReview = True"
| "refund_past RDisputed = True"
| "refund_past RCompleted = True"
| "refund_past _ = False"

definition closure_key :: "refund_row \<Rightarrow> string \<times> int \<times> string" where
  "closure_key r = (rf_channel_id r, rf_epoch r, rf_closure_id r)"

definition refund_holds :: "refund_row \<Rightarrow> bool" where
  "refund_holds r \<longleftrightarrow> refund_live (rf_state r)"

definition refund_fits :: "int \<Rightarrow> refund_row \<Rightarrow> bool" where
  "refund_fits m r \<longleftrightarrow> m \<le> rf_maximum r"

text \<open>The numbers of a row are those of its stored projection.\<close>

definition refund_numbers :: "refund_row \<Rightarrow> bool" where
  "refund_numbers r \<longleftrightarrow>
     0 < rf_requested r \<and> 0 \<le> rf_before r \<and> rf_after r = rf_before r + rf_requested r \<and>
     amount_of (item (rf_projection r) ''refunded_total_before_base_units'') = rf_before r"

definition refund_linked :: "refund_event list \<Rightarrow> refund_event \<Rightarrow> bool" where
  "refund_linked old e \<longleftrightarrow>
     (let previous = newest_by re_sequence (filter (\<lambda>x. re_refund_id x = re_refund_id e) old) in
      re_sequence e = (case previous of None \<Rightarrow> 1 | Some p \<Rightarrow> re_sequence p + 1) \<and>
      re_previous_hash e = (case previous of None \<Rightarrow> zero_hash | Some p \<Rightarrow> re_event_hash p) \<and>
      re_event_hash e \<notin> re_event_hash ` set old)"

text \<open>Every other reconciled refund of the same closure ended before this one starts.\<close>

definition after_completed :: "refund_row list \<Rightarrow> refund_row \<Rightarrow> bool" where
  "after_completed rows r \<longleftrightarrow>
     (\<forall>x\<in>set rows. rf_refund_id x \<noteq> rf_refund_id r \<and> closure_key x = closure_key r \<and> rf_state x = RCompleted \<longrightarrow>
        rf_after x \<le> amount_of (item (rf_projection r) ''refunded_total_before_base_units''))"

inductive refund_effect :: "refund_db \<Rightarrow> refund_db \<Rightarrow> bool" where
  refund_same: "refund_effect db db"
| refund_added: "\<lbrakk>\<forall>r\<in>set (refunds db). rf_refund_id r \<noteq> rf_refund_id row \<and> refund_scope r \<noteq> refund_scope row;
    rf_state row = RValidated; rf_intents row = 0; refund_numbers row;
    refund_fits (held closure_key rf_requested refund_holds (refunds db) (closure_key row) + rf_requested row) row;
    after_completed (refunds db) row; refunds db' = insert_row row (refunds db);
    refund_events db' = refund_events db @ [e]; refund_linked (refund_events db) e;
    re_refund_id e = rf_refund_id row; re_state e = RValidated\<rbrakk> \<Longrightarrow> refund_effect db db'"
| refund_moved: "\<lbrakk>select_refund db rid = Some row; \<And>r. refund_fixed (f r) = refund_fixed r;
    refund_edge (rf_state row) (rf_state (f row));
    rf_intents (f row) = (if rf_state (f row) = RSubmitted then 1 else rf_intents row);
    rf_state (f row) = RCompleted \<longrightarrow> after_completed (refunds db) row;
    refunds db' = update_row rf_refund_id rid f (refunds db);
    refund_events db' = refund_events db @ [e]; refund_linked (refund_events db) e;
    re_refund_id e = rid; re_state e = rf_state (f row)\<rbrakk> \<Longrightarrow> refund_effect db db'"

interpretation refund_table: keyed_table rf_refund_id "select_row rf_refund_id" insert_row "update_row rf_refund_id"
  by (rule keyed_rows)

interpretation refund_log: keyed_log re_sequence re_previous_hash re_event_hash zero_hash
  "newest_by re_sequence" re_refund_id
  by (rule newest_by_log)

interpretation refund_book: reservation_book closure_key rf_requested refund_holds refund_fits
  by unfold_locales (simp add: refund_fits_def)

lemma refund_fixed_id: "refund_fixed a = refund_fixed b \<Longrightarrow> rf_refund_id a = rf_refund_id b"
  by (simp add: refund_fixed_def)

lemma update_refund_simps [simp]:
  "refunds (update_refund rid f db) = update_row rf_refund_id rid f (refunds db)"
  "refund_events (update_refund rid f db) = refund_events db"
  by (simp_all add: update_refund_def)

lemma append_refund_event_Inr:
  assumes "append_refund_event jcs db rid st payload ts = Inr db'"
  obtains e where "db' = db\<lparr>refund_events := refund_events db @ [e]\<rparr>" "re_refund_id e = rid" "re_state e = st"
    "refund_linked (refund_events db) e"
  using assms
  unfolding append_refund_event_def Let_def bind_unit_eq_Inr bind_res_eq_Inr reject_if_eq_Inr sum.inject
  by (elim exE conjE) (rule that, erule sym, simp_all add: refund_linked_def refund_events_for_def list_ex_iff, blast)

lemma refund_row_of_Inr [res_simps]:
  "refund_row_of db rid = Inr row \<longleftrightarrow> identifier_text rid \<and> select_refund db rid = Some row"
  by (auto simp: refund_row_of_def cl_identifier_def res_simps string_with_def split: option.splits)

text \<open>A method body, run for its effect on the tables.\<close>

lemma commit_refund_effect:
  assumes "\<And>db' reply. m = Inr (db', reply) \<Longrightarrow> refund_effect db db'"
  shows "refund_effect db (fst (commit_refund db m))"
  using assms by (auto simp: commit_refund_def refund_same split: sum.splits)

lemma keep_refund_effect: "keep_refund db row = Inr (db', reply) \<Longrightarrow> refund_effect db db'"
  by (simp add: keep_refund_def refund_same)

lemma append_move_effect:
  assumes "append_refund_event jcs (update_refund rid f db) rid st payload ts = Inr db'"
    and "select_refund db rid = Some row" "\<And>r. refund_fixed (f r) = refund_fixed r" "rf_state (f row) = st"
    "refund_edge (rf_state row) st" "rf_intents (f row) = (if st = RSubmitted then 1 else rf_intents row)"
    "st = RCompleted \<longrightarrow> after_completed (refunds db) row"
  shows "refund_effect db db'"
  using assms(1)
proof (rule append_refund_event_Inr)
  fix e
  assume "db' = update_refund rid f db\<lparr>refund_events := refund_events (update_refund rid f db) @ [e]\<rparr>"
    "re_refund_id e = rid" "re_state e = st" "refund_linked (refund_events (update_refund rid f db)) e"
  then show ?thesis
    by (intro refund_moved [OF assms(2,3), where e = e]) (use assms(4-7) in simp_all)
qed

lemma move_refund_effect:
  assumes "move_refund jcs db rid f st payload ts = Inr (db', reply)"
    and "select_refund db rid = Some row" "\<And>r. refund_fixed (f r) = refund_fixed r" "rf_state (f row) = st"
    "refund_edge (rf_state row) st" "rf_intents (f row) = (if st = RSubmitted then 1 else rf_intents row)"
    "st = RCompleted \<longrightarrow> after_completed (refunds db) row"
  shows "refund_effect db db'"
  using assms(1) append_move_effect [OF _ assms(2-7)] by (auto simp: move_refund_def bind_res_eq_Inr)

lemmas refund_setters = set_refund_state_def set_refund_commitment_def set_refund_submitted_def
  set_refund_technical_def set_refund_completed_def set_refund_recovered_def refund_fixed_def

lemma append_refund_event_select:
  assumes "append_refund_event jcs (update_refund rid f db) rid st payload ts = Inr db'"
    "select_refund db rid = Some row" "\<And>r. refund_fixed (f r) = refund_fixed r"
  shows "select_refund db' rid = Some (f row)"
  using assms(1)
proof (rule append_refund_event_Inr)
  fix e
  assume "db' = update_refund rid f db\<lparr>refund_events := refund_events (update_refund rid f db) @ [e]\<rparr>"
  then show ?thesis using assms(2) by (simp add: refund_table.sel_upd refund_fixed_id [OF assms(3)])
qed

section \<open>Each method\<close>

lemma commit_refund_tx_effect:
  assumes "commit_refund_tx jcs db rid c serialized ts = Inr (db', reply)"
  shows "refund_effect db db'"
proof -
  from assms obtain row where row: "select_refund db rid = Some row"
    by (auto simp: commit_refund_tx_def res_simps)
  show ?thesis
  proof (cases "rf_state row = RExecutionCommitted")
    case True
    with assms row show ?thesis
      by (auto simp: commit_refund_tx_def bind_res_eq_Inr bind_unit_eq_Inr refund_row_of_Inr intro: keep_refund_effect)
  next
    case False
    with assms row have v: "rf_state row = RValidated"
      and mv: "move_refund jcs db rid (set_refund_commitment c serialized ts) RExecutionCommitted c ts = Inr (db', reply)"
      by (auto simp: commit_refund_tx_def res_simps)
    show ?thesis by (rule move_refund_effect [OF mv row]) (simp_all add: v refund_setters)
  qed
qed

lemma submit_intent_effect: "refund_effect db (fst (record_submit_intent jcs db rid now))"
  unfolding record_submit_intent_def
proof (rule commit_refund_effect)
  fix db' reply
  assume m: "bind_res (cl_format_time now) (\<lambda>ts. bind_res (refund_row_of db rid) (\<lambda>row.
      if intent_recorded (rf_state row) then keep_refund db row
      else bind_res (reject_if (rf_state row \<noteq> RExecutionCommitted) (cl_reject ''submit_state_invalid'' ''refund.state''))
        (\<lambda>_. move_refund jcs db rid (set_refund_submitted ts) RSubmitted
          [(KStr ''submit_intent_persisted'', PBool True)] ts))) = Inr (db', reply)"
  then obtain ts row where row: "select_refund db rid = Some row"
    and b: "(if intent_recorded (rf_state row) then keep_refund db row
      else bind_res (reject_if (rf_state row \<noteq> RExecutionCommitted) (cl_reject ''submit_state_invalid'' ''refund.state''))
        (\<lambda>_. move_refund jcs db rid (set_refund_submitted ts) RSubmitted
          [(KStr ''submit_intent_persisted'', PBool True)] ts)) = Inr (db', reply)"
    by (auto simp: bind_res_eq_Inr refund_row_of_Inr)
  show "refund_effect db db'"
  proof (cases "intent_recorded (rf_state row)")
    case False
    with b have v: "rf_state row = RExecutionCommitted"
      and mv: "move_refund jcs db rid (set_refund_submitted ts) RSubmitted
        [(KStr ''submit_intent_persisted'', PBool True)] ts = Inr (db', reply)"
      by (simp_all add: res_simps)
    show ?thesis by (rule move_refund_effect [OF mv row]) (simp_all add: v refund_setters)
  qed (use b in \<open>auto intro: keep_refund_effect\<close>)
qed

lemma technical_outcome_Inr: "technical_outcome v = Inr st \<Longrightarrow> st \<in> {RNeedsRecovery, RReconciling, RNeedsReview}"
  by (auto simp: technical_outcome_def Let_def bind_res_eq_Inr bind_unit_eq_Inr split: if_splits)

lemma technical_tx_effect:
  assumes "technical_tx jcs db rid v serialized ts = Inr (db', reply)"
  shows "refund_effect db db'"
proof -
  from assms obtain row where row: "select_refund db rid = Some row"
    by (auto simp: technical_tx_def bind_res_eq_Inr refund_row_of_Inr)
  show ?thesis
  proof (cases "rf_technical row")
    case None
    with assms row obtain st where links: "check_receipt_links row rid v = Inr ()" and st: "technical_outcome v = Inr st"
      and mv: "move_refund jcs db rid (set_refund_technical st serialized (str_of (item v ''transaction_signature'')) ts)
        st v ts = Inr (db', reply)"
      by (auto simp: technical_tx_def bind_res_eq_Inr bind_unit_eq_Inr refund_row_of_Inr)
    have v: "rf_state row = RSubmitted" using links by (simp add: check_receipt_links_def bind_unit_eq_Inr reject_if_eq_Inr)
    show ?thesis
      by (rule move_refund_effect [OF mv row]) (use technical_outcome_Inr [OF st] in \<open>auto simp: v refund_setters\<close>)
  next
    case (Some stored)
    with assms row show ?thesis
      by (auto simp: technical_tx_def bind_res_eq_Inr bind_unit_eq_Inr refund_row_of_Inr intro: keep_refund_effect)
  qed
qed

lemma recovered_tx_effect:
  assumes "recovered_tx jcs db rid signature response_hash ts = Inr (db', reply)"
  shows "refund_effect db db'"
proof -
  from assms obtain row where row: "select_refund db rid = Some row"
    by (auto simp: recovered_tx_def bind_res_eq_Inr refund_row_of_Inr)
  show ?thesis
  proof (cases "rf_state row = RReconciling")
    case True
    with assms row show ?thesis
      by (auto simp: recovered_tx_def bind_res_eq_Inr bind_unit_eq_Inr refund_row_of_Inr intro: keep_refund_effect)
  next
    case False
    with assms row obtain p where v: "rf_state row = RNeedsRecovery"
      and mv: "move_refund jcs db rid (set_refund_recovered signature ts) RReconciling p ts = Inr (db', reply)"
      by (auto simp: recovered_tx_def res_simps)
    show ?thesis by (rule move_refund_effect [OF mv row]) (simp_all add: v refund_setters)
  qed
qed

lemma max_option_bound:
  "Some i \<in> set xs \<Longrightarrow> \<exists>m. max_option xs = Some m \<and> i \<le> m"
  by (induction xs rule: max_option.induct) (auto split: option.splits)

lemma high_water_after:
  assumes "\<not> (completed_high_water rows c e (Some k) \<noteq> None \<and> b < the (completed_high_water rows c e (Some k)))"
    and "x \<in> set rows" "closure_key x = (c, e, k)" "rf_state x = RCompleted"
  shows "rf_after x \<le> b"
proof -
  have "Some (rf_after x) \<in> set (map (\<lambda>r. Some (rf_after r))
      (filter (\<lambda>r. same_closure r c e (Some k) \<and> rf_state r = RCompleted) rows))"
    using assms(2-4) by (auto simp: same_closure_def closure_key_def)
  from max_option_bound [OF this] assms(1) show ?thesis by (auto simp: completed_high_water_def)
qed

lemma review_refund_effect:
  assumes "review_refund jcs db rid payload ts e = Inr (db', reply)" "select_refund db rid = Some row"
    "rf_state row \<in> {RReconciling, RNeedsRecovery}"
  shows "refund_effect db db'"
proof -
  from assms(1) have "append_refund_event jcs (update_refund rid (set_refund_state RNeedsReview ts) db) rid RNeedsReview
      payload ts = Inr db'"
    by (auto simp: review_refund_def bind_res_eq_Inr)
  from append_move_effect [OF this assms(2)] assms(3) show ?thesis by (auto simp: refund_setters)
qed

lemma complete_refund_Inr:
  assumes "complete_refund jcs db rid row v ts = Inr (db', reply)"
  obtains receipt receipt_json where "rf_signature row = str_of (item v ''transaction_signature'')"
    "with_hash jcs (refund_receipt_unsigned row rid v ts) ''receipt_hash'' = Inr receipt"
    "json_text receipt = Inr receipt_json"
    "move_refund jcs db rid (set_refund_completed receipt_json ts) RCompleted receipt ts = Inr (db', reply)"
  using assms
  unfolding complete_refund_def bind_unit_eq_Inr bind_res_eq_Inr reject_if_eq_Inr not_not
  by (elim exE conjE) (rule that; assumption)

lemma reconcile_refund_tx_cases:
  assumes "reconcile_refund_tx jcs db rid v ts = Inr (db', reply)"
  obtains (kept) row where "select_refund db rid = Some row" "rf_state row = RCompleted" "keep_refund db row = Inr (db', reply)"
  | (review) row payload e where "select_refund db rid = Some row" "rf_state row \<in> {RReconciling, RNeedsRecovery}"
      "review_refund jcs db rid payload ts e = Inr (db', reply)"
      "e \<in> {cl_reject ''overlapping_refund_interval'' ''projection.refunded_total_before_base_units'',
         cl_reject ''reconciliation_mismatch'' ''observation''}"
  | (completed) row where "select_refund db rid = Some row" "rf_state row \<in> {RReconciling, RNeedsRecovery}"
      "after_completed (refunds db) row" "refund_mismatches row rid v = []"
      "complete_refund jcs db rid row v ts = Inr (db', reply)"
proof -
  from assms obtain row where row: "select_refund db rid = Some row"
    and b: "(if rf_state row = RCompleted then keep_refund db row
      else if rf_state row \<notin> {RReconciling, RNeedsRecovery}
      then Inl (cl_reject ''reconciliation_state_invalid'' ''refund.state'')
      else let before = amount_of (item (rf_projection row) ''refunded_total_before_base_units'');
          high_water = completed_high_water (filter (\<lambda>r. rf_refund_id r \<noteq> rid) (refunds db))
            (rf_channel_id row) (rf_epoch row) (Some (rf_closure_id row));
          mismatches = refund_mismatches row rid v
        in if high_water \<noteq> None \<and> before < the high_water then
          review_refund jcs db rid
           [(KStr ''reason'', PStr ''overlapping_refund_interval''), (KStr ''projected_refunded_before'', PInt before),
            (KStr ''reconciled_refunded_high_water'', PInt (the high_water))] ts
           (cl_reject ''overlapping_refund_interval'' ''projection.refunded_total_before_base_units'')
        else if mismatches \<noteq> [] then
          review_refund jcs db rid [(KStr ''mismatches'', PList (map PStr (sort mismatches)))] ts
           (cl_reject ''reconciliation_mismatch'' ''observation'')
        else complete_refund jcs db rid row v ts) = Inr (db', reply)"
    by (auto simp: reconcile_refund_tx_def bind_res_eq_Inr refund_row_of_Inr)
  consider "rf_state row = RCompleted" | "rf_state row \<in> {RReconciling, RNeedsRecovery}" "rf_state row \<noteq> RCompleted"
    using b by (cases "rf_state row = RCompleted") (auto split: if_splits)
  then show thesis
  proof cases
    case 1
    with b row show ?thesis by (intro kept) simp_all
  next
    case 2
    let ?high = "completed_high_water (filter (\<lambda>r. rf_refund_id r \<noteq> rid) (refunds db))
        (rf_channel_id row) (rf_epoch row) (Some (rf_closure_id row))"
    let ?before = "amount_of (item (rf_projection row) ''refunded_total_before_base_units'')"
    note b = b [unfolded Let_def if_not_P [OF 2(2)] if_not_P [OF 2(1) [THEN iffD2 [OF not_not]]]]
    show ?thesis
    proof (cases "?high \<noteq> None \<and> ?before < the ?high")
      case True
      from row 2(1) b [unfolded if_P [OF True]] show ?thesis by (rule review) simp
    next
      case high: False
      then have after: "after_completed (refunds db) row"
        using high_water_after [OF high] select_row_key [OF row] by (auto simp: after_completed_def closure_key_def)
      note b = b [unfolded if_not_P [OF high]]
      show ?thesis
      proof (cases "refund_mismatches row rid v = []")
        case True
        with b row 2(1) after show ?thesis by (intro completed) simp_all
      next
        case False
        from row 2(1) b [unfolded if_P [OF False]] show ?thesis by (rule review) simp
      qed
    qed
  qed
qed

lemma reconcile_refund_tx_effect:
  assumes "reconcile_refund_tx jcs db rid v ts = Inr (db', reply)"
  shows "refund_effect db db'"
  using assms
proof (cases rule: reconcile_refund_tx_cases)
  case (completed row)
  from completed(5) obtain receipt receipt_json where
    mv: "move_refund jcs db rid (set_refund_completed receipt_json ts) RCompleted receipt ts = Inr (db', reply)"
    by (rule complete_refund_Inr)
  show ?thesis by (rule move_refund_effect [OF mv completed(1)]) (use completed(2,3) in \<open>auto simp: refund_setters\<close>)
next
  case (review row payload e)
  then show ?thesis by (intro review_refund_effect [OF review(3,1)]) simp
qed (auto intro: keep_refund_effect)

lemma refund_reserved_held:
  "refund_reserved db c e (Some k) = held closure_key rf_requested refund_holds (refunds db) (c, e, k)"
  by (simp add: refund_reserved_def held_def same_closure_def closure_key_def refund_holds_def)

lemma existing_refund_None:
  assumes "existing_refund db rid c e (Some k) = None"
  shows "\<forall>r\<in>set (refunds db). rf_refund_id r \<noteq> rid \<and> refund_scope r \<noteq> (c, e, k)"
  using assms by (auto simp: existing_refund_def select_row_None find_None_iff split: option.splits)

lemma not_null_Inr [res_simps]: "not_null c = Inr v \<longleftrightarrow> c = Some v"
  by (auto simp: not_null_def split: option.splits)

lemma insert_refund_effect:
  assumes "insert_refund jcs db rid channel_id epoch closure key r freeze p ts = Inr (db', reply)"
    and "check_refund_reservation db channel_id epoch closure p = Inr ()"
    and "existing_refund db rid channel_id epoch key = None"
    and p: "fst ` set p \<subseteq> range KStr" "item p ''refunded_total_before_base_units'' = PStr before"
      "amount_of (item p ''requested_base_units'') = n" "0 < n"
      "amount_of (item p ''refunded_total_before_base_units'') = R" "0 \<le> R"
      "amount_of (item p ''refunded_total_after_base_units'') = R + n"
  shows "refund_effect db db'"
proof -
  from assms(1) obtain rj pj c k where pj: "json_text p = Inr pj" and ck: "closure = Some c" "key = Some k"
    and a: "append_refund_event jcs
       (db\<lparr>refunds := insert_row (new_refund rid channel_id epoch c k r rj freeze p pj ts) (refunds db)\<rparr>) rid RValidated p ts
       = Inr db'"
    unfolding insert_refund_def bind_unit_eq_Inr bind_res_eq_Inr not_null_Inr by auto
  define row where "row = new_refund rid channel_id epoch c k r rj freeze p pj ts"
  have row: "rf_refund_id row = rid" "refund_scope row = (channel_id, epoch, k)" "closure_key row = (channel_id, epoch, c)"
    "rf_state row = RValidated" "rf_intents row = 0" "rf_requested row = n" "rf_before row = R" "rf_after row = R + n"
    "rf_maximum row = amount_of (item p ''maximum_refundable_base_units'')" "rf_projection row = pj"
    by (simp_all add: row_def new_refund_def refund_scope_def closure_key_def p(3,5,7))
  have pb: "amount_of (item pj ''refunded_total_before_base_units'') = R"
    using json_text_item [OF pj p(1,2)] p(2,5) by simp
  from assms(2) have res: "held closure_key rf_requested refund_holds (refunds db) (channel_id, epoch, c) + n \<le> rf_maximum row"
    and hw: "\<not> R < (case completed_high_water (refunds db) channel_id epoch (Some c) of None \<Rightarrow> 0 | Some h \<Rightarrow> h)"
    by (simp_all add: check_refund_reservation_def bind_unit_eq_Inr reject_if_eq_Inr ck refund_reserved_held p(3,5) row)
  have "after_completed (refunds db) row"
    using hw high_water_after [of "refunds db" channel_id epoch c R]
    by (auto simp: after_completed_def row pb split: option.splits)
  moreover from a obtain e where "db' = db\<lparr>refunds := insert_row row (refunds db), refund_events := refund_events db @ [e]\<rparr>"
    "re_refund_id e = rid" "re_state e = RValidated" "refund_linked (refund_events db) e"
    unfolding row_def by (rule append_refund_event_Inr) simp
  ultimately show ?thesis
    using existing_refund_None [OF assms(3) [unfolded ck]] res
    by (intro refund_added [where row = row and e = e])
       (simp_all add: row refund_numbers_def p(4,6) pb refund_fits_def)
qed

lemma register_refund_tx_effect:
  assumes "register_refund_tx jcs db r freeze p rid ts = Inr (db', reply)"
    and "project_refund jcs r freeze now states = Inr p"
  shows "refund_effect db db'"
proof -
  from assms(2) obtain F A S R V reason n h where t: "refund_totals freeze F A S R V"
    and c: "check_refund_amount r (A - S) (F - R - A) V = Inr (reason, n)"
    and p: "p = refund_projection r freeze reason F A S R V n (instant now) @ [(KStr ''projection_hash'', PStr h)]"
    by (rule project_refundE)
  have n: "0 < n" "n \<le> V" "n \<le> F - R - A"
    using cl_amount_Inr [OF check_refund_amount_Inr(3) [OF c]] check_refund_amount_Inr(4,5) [OF c] by simp_all
  have R: "0 \<le> R" using t cl_amount_Inr unfolding refund_totals_def by blast
  note am = projected_amounts [OF p R less_imp_le [OF n(1)] n(2,3)]
  have keys: "fst ` set p \<subseteq> range KStr" by (simp add: p refund_projection_def)
  have printed: "item p ''refunded_total_before_base_units'' = PStr (str_int R)"
    by (simp add: p refund_projection_def item_Cons del: str_int_nonneg)
  from assms(1) obtain channel_id epoch key where
    b: "(case existing_refund db rid channel_id epoch key of
        Some row \<Rightarrow> bind_res (reject_if (PStr (rf_request_hash row) \<noteq> item r ''request_hash'')
            (cl_reject ''idempotency_conflict'' ''idempotency_key'')) (\<lambda>_. keep_refund db row)
      | None \<Rightarrow> bind_res (text_column (item r ''closure_id'')) (\<lambda>closure.
          bind_res (check_refund_reservation db channel_id epoch closure p) (\<lambda>_.
          insert_refund jcs db rid channel_id epoch closure key r freeze p ts))) = Inr (db', reply)"
    unfolding register_refund_tx_def Let_def bind_unit_eq_Inr bind_res_eq_Inr by blast
  show ?thesis
  proof (cases "existing_refund db rid channel_id epoch key")
    case None
    with b obtain closure where "check_refund_reservation db channel_id epoch closure p = Inr ()"
      "insert_refund jcs db rid channel_id epoch closure key r freeze p ts = Inr (db', reply)"
      by (auto simp: bind_res_eq_Inr bind_unit_eq_Inr)
    from insert_refund_effect [OF this(2,1) None keys printed am(1) n(1) am(3) R am(4)] show ?thesis .
  next
    case (Some row)
    with b show ?thesis by (auto simp: bind_unit_eq_Inr intro: keep_refund_effect)
  qed
qed

lemma refund_step_effect: "refund_step jcs db db' \<Longrightarrow> refund_effect db db'"
proof (induction rule: refund_step.induct)
  case (refund_register db r freeze t states)
  show ?case unfolding register_refund_def
    by (rule commit_refund_effect) (auto simp: bind_res_eq_Inr intro: register_refund_tx_effect)
next
  case (refund_commit db rid c t)
  show ?case unfolding refund_commit_execution_def
    by (rule commit_refund_effect) (auto simp: bind_res_eq_Inr bind_unit_eq_Inr intro: commit_refund_tx_effect)
next
  case (refund_intent db rid t)
  show ?case by (rule submit_intent_effect)
next
  case (refund_technical db rid v t)
  show ?case unfolding record_technical_receipt_def
    by (rule commit_refund_effect) (auto simp: bind_res_eq_Inr bind_unit_eq_Inr intro: technical_tx_effect)
next
  case (refund_reconcile db rid v verifier t)
  show ?case unfolding reconcile_refund_def
    by (rule commit_refund_effect) (auto simp: bind_res_eq_Inr bind_unit_eq_Inr intro: reconcile_refund_tx_effect)
next
  case (refund_recovered db rid s h t)
  show ?case unfolding record_recovered_signature_def
    by (rule commit_refund_effect) (auto simp: bind_res_eq_Inr bind_unit_eq_Inr intro: recovered_tx_effect)
next
  case (refund_divergence db rid ps t)
  show ?case unfolding refund_provider_divergence_def Let_def
    by (rule commit_refund_effect)
       (auto simp: bind_res_eq_Inr bind_unit_eq_Inr reject_if_eq_Inr refund_row_of_Inr refund_setters
         elim!: move_refund_effect)
next
  case (refund_release db rid s t)
  show ?case unfolding release_before_submission_def
    by (rule commit_refund_effect)
       (auto simp: bind_res_eq_Inr bind_unit_eq_Inr reject_if_eq_Inr refund_row_of_Inr refund_setters release_state_def
         split: if_splits elim!: move_refund_effect)
qed

section \<open>The invariant\<close>

definition refund_keys :: "refund_db \<Rightarrow> bool" where
  "refund_keys db \<longleftrightarrow>
     distinct (map rf_refund_id (refunds db)) \<and> distinct (map refund_scope (refunds db))"

definition refund_rows_ok :: "refund_db \<Rightarrow> bool" where
  "refund_rows_ok db \<longleftrightarrow>
     (\<forall>r\<in>set (refunds db). refund_numbers r \<and> rf_intents r = (if refund_past (rf_state r) then 1 else 0))"

definition refund_booked :: "refund_db \<Rightarrow> bool" where
  "refund_booked db \<longleftrightarrow> booked closure_key rf_requested refund_holds refund_fits [] (refunds db)"

definition refunds_disjoint :: "refund_db \<Rightarrow> bool" where
  "refunds_disjoint db \<longleftrightarrow>
     (\<forall>a\<in>set (refunds db). \<forall>b\<in>set (refunds db).
        rf_refund_id a \<noteq> rf_refund_id b \<and> closure_key a = closure_key b \<and> rf_state a = RCompleted \<and> rf_state b = RCompleted \<longrightarrow>
        rf_after a \<le> rf_before b \<or> rf_after b \<le> rf_before a)"

abbreviation refund_chained :: "refund_event list \<Rightarrow> bool" where
  "refund_chained \<equiv> chained re_sequence re_previous_hash re_event_hash zero_hash 1"

definition refund_journal_ok :: "refund_db \<Rightarrow> bool" where
  "refund_journal_ok db \<longleftrightarrow>
     (\<forall>rid. refund_chained (refund_events_for db rid)) \<and> distinct (map re_event_hash (refund_events db)) \<and>
     (\<forall>r\<in>set (refunds db). refund_events_for db (rf_refund_id r) \<noteq> [] \<and>
        re_state (last (refund_events_for db (rf_refund_id r))) = rf_state r)"

definition refund_inv :: "refund_db \<Rightarrow> bool" where
  "refund_inv db \<longleftrightarrow>
     refund_keys db \<and> refund_rows_ok db \<and> refund_booked db \<and> refunds_disjoint db \<and> refund_journal_ok db"

lemma refund_keys_step: "refund_effect db db' \<Longrightarrow> refund_keys db \<Longrightarrow> refund_keys db'"
proof (induction rule: refund_effect.induct)
  case (refund_moved db rid row f db' e)
  have "rf_refund_id (f r) = rf_refund_id r" "refund_scope (f r) = refund_scope r" for r
    using refund_moved(2) [of r] by (simp_all add: refund_fixed_def refund_scope_def)
  then show ?case using refund_moved.prems by (simp add: refund_keys_def refund_moved(6) map_update_row_column)
qed (auto simp: refund_keys_def insert_row_def)

lemma refund_edge_past:
  "refund_edge a b \<Longrightarrow> b \<noteq> RSubmitted \<Longrightarrow> refund_past b = refund_past a"
  "refund_edge a b \<Longrightarrow> refund_live b \<longrightarrow> refund_live a"
  "refund_edge a b \<Longrightarrow> a \<noteq> RCompleted"
  by (cases a; auto)+

lemma refund_rows_step:
  assumes "refund_effect db db'" "refund_keys db" "refund_rows_ok db"
  shows "refund_rows_ok db'"
  using assms
proof (induction rule: refund_effect.induct)
  case (refund_moved db rid row f db' e)
  have fx: "rf_refund_id (f row) = rf_refund_id row" "refund_numbers (f row) = refund_numbers row"
    using refund_moved(2) [of row] by (simp_all add: refund_fixed_def refund_numbers_def)
  have set: "set (refunds db') = insert (f row) {r \<in> set (refunds db). rf_refund_id r \<noteq> rid}"
    unfolding refund_moved(6) using refund_moved fx by (intro moved_rows) (simp_all add: refund_keys_def)
  have "refund_numbers row \<and> rf_intents row = (if refund_past (rf_state row) then 1 else 0)"
    using refund_moved select_row_key [OF refund_moved(1)] by (simp add: refund_rows_ok_def)
  then have "refund_numbers (f row) \<and> rf_intents (f row) = (if refund_past (rf_state (f row)) then 1 else 0)"
    using refund_edge_past(1) [OF refund_moved(3)] refund_moved(4) fx by auto
  then show ?case using refund_moved.prems(2) unfolding refund_rows_ok_def set by blast
qed (auto simp: refund_rows_ok_def insert_row_def)

lemma refund_booked_step:
  assumes "refund_effect db db'" "refund_keys db" "refund_booked db"
  shows "refund_booked db'"
  using assms
proof (induction rule: refund_effect.induct)
  case (refund_added db row db' e)
  then show ?case by (simp add: refund_booked_def insert_row_def refund_book.booked_append refund_numbers_def)
next
  case (refund_moved db rid row f db' e)
  let ?released = "\<lambda>a b. closure_key b = closure_key a \<and> rf_requested b = rf_requested a \<and>
    (refund_holds b \<longrightarrow> refund_holds a) \<and> (\<forall>m. refund_fits m a \<longrightarrow> refund_fits m b)"
  have "?released r (if rf_refund_id r = rid then f r else r)" if "r \<in> set (refunds db)" for r
  proof (cases "rf_refund_id r = rid")
    case True
    then have "r = row"
      using select_row_unique [of rf_refund_id "refunds db", OF _ that] refund_moved by (simp add: refund_keys_def)
    with refund_moved(2) [of row] refund_edge_past(2) [OF refund_moved(3)] True show ?thesis
      by (simp add: refund_fixed_def closure_key_def refund_holds_def refund_fits_def)
  qed simp
  then have "list_all2 ?released (refunds db) (refunds db')"
    unfolding refund_moved(6) by (simp add: update_row_def list_all2_map2 list_all2_same)
  then show ?case
    using refund_book.booked_released [of "refunds db" _ "[]" "[]"] refund_moved.prems(2)
    by (simp add: refund_booked_def)
qed

lemma refunds_disjoint_step:
  assumes "refund_effect db db'" "refund_keys db" "refund_rows_ok db" "refunds_disjoint db"
  shows "refunds_disjoint db'"
  using assms
proof (induction rule: refund_effect.induct)
  case (refund_added db row db' e)
  then show ?case by (auto simp: refunds_disjoint_def insert_row_def)
next
  case (refund_moved db rid row f db' e)
  have fx: "rf_refund_id (f row) = rid" "closure_key (f row) = closure_key row" "rf_before (f row) = rf_before row"
    using refund_moved(2) [of row] select_row_key [OF refund_moved(1)] by (simp_all add: refund_fixed_def closure_key_def)
  have set: "set (refunds db') = insert (f row) {r \<in> set (refunds db). rf_refund_id r \<noteq> rid}"
    unfolding refund_moved(6) using refund_moved fx select_row_key [OF refund_moved(1)]
    by (intro moved_rows) (simp_all add: refund_keys_def)
  have row: "row \<in> set (refunds db)" "rf_refund_id row = rid" using select_row_key [OF refund_moved(1)] by simp_all
  then have "refund_numbers row" using refund_moved.prems(2) by (simp add: refund_rows_ok_def)
  then have "rf_after x \<le> rf_before (f row)" if "rf_state (f row) = RCompleted" "x \<in> set (refunds db)" "rf_refund_id x \<noteq> rid"
      "closure_key x = closure_key (f row)" "rf_state x = RCompleted" for x
    using refund_moved(5) that row(2) by (simp add: after_completed_def refund_numbers_def fx)
  then show ?case using refund_moved.prems(3) unfolding refunds_disjoint_def set by (auto simp: fx)
qed

lemma refund_events_extend:
  assumes "refund_events db' = refund_events db @ [e]" "refund_linked (refund_events db) e" "refund_journal_ok db"
  shows "(\<forall>s. refund_chained (refund_events_for db' s)) \<and> distinct (map re_event_hash (refund_events db'))"
    and "refund_events_for db' s = refund_events_for db s @ (if s = re_refund_id e then [e] else [])"
proof -
  show "refund_events_for db' s = refund_events_for db s @ (if s = re_refund_id e then [e] else [])"
    by (auto simp: refund_events_for_def assms(1))
  have "refund_chained (filter (\<lambda>x. re_refund_id x = s) (refund_events db @ [e]))" for s
    by (rule refund_log.keyed_append)
       (use assms(2,3) in \<open>simp_all add: refund_linked_def refund_journal_ok_def refund_events_for_def Let_def\<close>)
  then show "(\<forall>s. refund_chained (refund_events_for db' s)) \<and> distinct (map re_event_hash (refund_events db'))"
    using assms(2,3)
    by (simp add: refund_events_for_def [of db'] assms(1) refund_linked_def refund_journal_ok_def Let_def)
qed

lemma refund_journal_step:
  assumes "refund_effect db db'" "refund_keys db" "refund_journal_ok db"
  shows "refund_journal_ok db'"
  using assms
proof (induction rule: refund_effect.induct)
  case (refund_added db row db' e)
  note ev = refund_events_extend [OF refund_added(8,9) refund_added.prems(2)]
  show ?case
    using ev(1) refund_added refund_added.prems(2)
    by (auto simp: refund_journal_ok_def [of db'] ev(2) insert_row_def) (auto simp: refund_journal_ok_def)
next
  case (refund_moved db rid row f db' e)
  note ev = refund_events_extend [OF refund_moved(7,8) refund_moved.prems(2)]
  have fx: "rf_refund_id (f row) = rid"
    using refund_moved(2) [of row] select_row_key [OF refund_moved(1)] by (simp add: refund_fixed_def)
  have set: "set (refunds db') = insert (f row) {r \<in> set (refunds db). rf_refund_id r \<noteq> rid}"
    unfolding refund_moved(6) using refund_moved fx select_row_key [OF refund_moved(1)]
    by (intro moved_rows) (simp_all add: refund_keys_def)
  show ?case
    using ev(1) refund_moved(9,10) refund_moved.prems(2)
    by (auto simp: refund_journal_ok_def [of db'] ev(2) set fx) (auto simp: refund_journal_ok_def)
qed simp

lemma refund_inv_init: "refund_inv refund_db_init"
  by (simp add: refund_inv_def refund_keys_def refund_rows_ok_def refund_booked_def refunds_disjoint_def
      refund_journal_ok_def refund_db_init_def refund_events_for_def)

lemma refund_inv_step: "refund_inv db \<Longrightarrow> refund_step jcs db db' \<Longrightarrow> refund_inv db'"
  unfolding refund_inv_def
  by (blast dest: refund_step_effect
      intro: refund_keys_step refund_rows_step refund_booked_step refunds_disjoint_step refund_journal_step)

interpretation refund_runtime: preserved "refund_step jcs" refund_inv for jcs
  by unfold_locales (rule refund_inv_step)

text \<open>What a run does to one row.\<close>

definition refund_row_moved :: "refund_row \<Rightarrow> refund_row \<Rightarrow> bool" where
  "refund_row_moved a b \<longleftrightarrow> refund_fixed b = refund_fixed a \<and> refund_edge\<^sup>*\<^sup>* (rf_state a) (rf_state b) \<and>
     ((\<forall>s. \<not> refund_edge (rf_state a) s) \<longrightarrow> b = a)"

lemma refund_effect_row:
  assumes "refund_effect db db'" "select_refund db rid = Some row"
  shows "\<exists>row'. select_refund db' rid = Some row' \<and> refund_row_moved row row'"
  using assms
proof (induction rule: refund_effect.induct)
  case (refund_same db)
  then show ?case by (simp add: refund_row_moved_def)
next
  case (refund_added db row' db' e)
  then have "select_refund db' rid = Some row"
    by (simp add: refund_table.ins_keeps select_row_None)
  then show ?case by (simp add: refund_row_moved_def)
next
  case (refund_moved db k x f db' e)
  have id: "rf_refund_id (f r) = rf_refund_id r" for r by (rule refund_fixed_id [OF refund_moved(2)])
  show ?case
  proof (cases "k = rid")
    case True
    with refund_moved(1) refund_moved.prems have "x = row" by simp
    moreover have "select_refund db' rid = Some (f row)"
      using refund_moved.prems by (simp add: refund_moved(6) refund_table.sel_upd id True)
    ultimately show ?thesis using refund_moved(2,3) by (auto simp: refund_row_moved_def)
  next
    case False
    then have "select_refund db' rid = Some row"
      using refund_moved.prems by (simp add: refund_moved(6) refund_table.sel_upd id)
    then show ?thesis by (simp add: refund_row_moved_def)
  qed
qed

lemma refund_row_moved_trans:
  assumes "refund_row_moved a b" "refund_row_moved b c"
  shows "refund_row_moved a c"
  using assms unfolding refund_row_moved_def by (metis rtranclp_trans)

lemma refund_run_row:
  assumes "(refund_step jcs)\<^sup>*\<^sup>* db db'" "select_refund db rid = Some row"
  shows "\<exists>row'. select_refund db' rid = Some row' \<and> refund_row_moved row row'"
  using assms(1)
proof (induction rule: rtranclp_induct)
  case base
  with assms(2) show ?case by (simp add: refund_row_moved_def)
next
  case (step y z)
  then show ?case
    using refund_effect_row [OF refund_step_effect] refund_row_moved_trans by blast
qed

end
