(* ===== verification/Closure_Props.thy ===== *)
theory Closure_Props
  imports Closure_Examples Refund_Invariants
begin

text \<open>
  The properties of channel closing and refunds: the artifacts the module makes are accepted by its
  own validators, a refund leaves the recipient's right untouched, only an empty channel is final,
  and the refund runtime reserves, completes and journals safely.
\<close>

section \<open>A refund in the tables\<close>

definition example_refund_row :: "refund_state \<Rightarrow> refund_row" where
  "example_refund_row st =
     (new_refund ''refund-1'' ''channel-1'' 0 ''closure-1'' ''idem-1'' example_refund example_refund example_frozen
        example_projection example_projection ''2026-02-05T00:00:00Z'')
     \<lparr>rf_state := st, rf_intents := (if refund_past st then 1 else 0), rf_signature := Some ''signature-1''\<rparr>"

definition example_refund_event :: "refund_state \<Rightarrow> refund_event" where
  "example_refund_event st =
     \<lparr>re_refund_id = ''refund-1'', re_sequence = 1, re_state = st, re_event_json = PNone,
      re_previous_hash = zero_hash, re_event_hash = ''first'', re_recorded_at = ''2026-02-05T00:00:00Z''\<rparr>"

definition example_refund_db :: "refund_state \<Rightarrow> refund_db" where
  "example_refund_db st = \<lparr>refunds = [example_refund_row st], refund_events = [example_refund_event st]\<rparr>"

lemma example_refund_amounts:
  "amount_of (item example_projection ''requested_base_units'') = 600"
  "amount_of (item example_projection ''maximum_refundable_base_units'') = 600"
  "amount_of (item example_projection ''refunded_total_before_base_units'') = 0"
  "amount_of (item example_projection ''refunded_total_after_base_units'') = 600"
  using projected_amounts [of example_projection example_refund example_frozen "''final_close''" 1000 400 400 0 600 600
      63905932800000000 "digest example_projection_unsigned"]
  by (simp_all add: example_projection_def example_projection_unsigned_def)

lemma example_refund_columns:
  "rf_refund_id (example_refund_row st) = ''refund-1''" "rf_state (example_refund_row st) = st"
  "rf_intents (example_refund_row st) = (if refund_past st then 1 else 0)" "rf_requested (example_refund_row st) = 600"
  "rf_maximum (example_refund_row st) = 600" "rf_before (example_refund_row st) = 0" "rf_after (example_refund_row st) = 600"
  "rf_signature (example_refund_row st) = Some ''signature-1''" "rf_request (example_refund_row st) = example_refund"
  "rf_projection (example_refund_row st) = example_projection"
  "rf_request_hash (example_refund_row st) = digest example_refund_unsigned"
  "rf_projection_hash (example_refund_row st) = text_value (item example_projection ''projection_hash'')"
  "closure_key (example_refund_row st) = (''channel-1'', 0, ''closure-1'')"
  by (simp_all add: example_refund_row_def new_refund_def example_refund_amounts closure_key_def example_refund_items
      text_value_def)

lemma example_refund_select: "select_refund (example_refund_db st) ''refund-1'' = Some (example_refund_row st)"
  by (simp add: example_refund_db_def select_row_def example_refund_columns)

lemma example_refund_inv: "refund_inv (example_refund_db st)"
  by (simp add: refund_inv_def refund_keys_def refund_rows_ok_def refund_booked_def refunds_disjoint_def
      refund_journal_ok_def refund_events_for_def example_refund_db_def example_refund_event_def example_refund_columns
      refund_numbers_def example_refund_amounts refund_fits_def held_def)

section \<open>Properties\<close>

text \<open>
  A close request and its snapshot, as made by request_close, are accepted by the
  validation that freezing performs, which reads back exactly the totals of the channel.
\<close>

theorem requested_snapshot_accepted:
  assumes "request_close jcs channel closure_id key now claim_deadline = Inr (req, snap)"
    and "four_digit_year (instant now)" "four_digit_year (instant claim_deadline)"
  shows "\<exists>p. validate_channel (PDict channel) = Inr p \<and>
    validate_request_snapshot jcs req snap =
      Inr (funded_total_base_units p, activated_authorized_total_base_units p, settled_total_base_units p,
           refunded_total_base_units p)"
  using assms by (rule request_close_validates)

theorem requested_snapshot_accepted_witness:
  "validate_request_snapshot example_jcs example_close example_requested = Inr (1000, 400, 150, 0)"
  using requested_snapshot_accepted [OF example_request_close] closure_years
  by (simp add: example_active_valid make_projection_def)

text \<open>
  A freeze snapshot, as made by freeze_closure, is accepted by the validation every
  later step performs on it; it states the totals of the frozen channel and the number of operations
  still ambiguous.
\<close>

theorem frozen_snapshot_accepted:
  assumes "freeze_closure jcs req snapshot channel now states = Inr z" "four_digit_year (instant now)"
  shows "validate_freeze_snapshot jcs z = Inr () \<and>
    (\<exists>p. validate_channel (PDict channel) = Inr p \<and>
       refund_totals z (funded_total_base_units p) (activated_authorized_total_base_units p)
         (settled_total_base_units p) (refunded_total_base_units p) (vault_balance_base_units p)) \<and>
    item z ''unresolved_operation_count'' = PInt (ambiguous_count states)"
  using assms by (rule freeze_closure_validates)

theorem frozen_snapshot_accepted_witness:
  "validate_freeze_snapshot example_jcs example_frozen = Inr () \<and> refund_totals example_frozen 1000 400 400 0 600"
  using frozen_snapshot_accepted [OF example_freeze] closure_years
  by (simp add: example_closing_valid make_projection_def)

text \<open>
  Property C15. A refund projection is one refund of the frozen accounting: the amount is positive and
  within the unallocated capacity, funds are conserved, the recipient's outstanding right is unchanged
  and still covered by the vault that remains, a final close empties the vault, and no operation is
  ambiguous.
\<close>

theorem refund_keeps_right:
  assumes "project_refund jcs r freeze now states = Inr p"
  shows "\<exists>before n. accounting_ok before \<and>
    refund_totals freeze (funded_total_base_units before) (activated_authorized_total_base_units before)
      (settled_total_base_units before) (refunded_total_base_units before) (vault_balance_base_units before) \<and>
    amount_of (item p ''requested_base_units'') = n \<and> 0 < n \<and> n \<le> unallocated_capacity_base_units before \<and>
    accounting_ok (refund n before) \<and>
    outstanding_right_base_units (refund n before) = outstanding_right_base_units before \<and>
    amount_of (item p ''refunded_total_after_base_units'') = refunded_total_base_units (refund n before) \<and>
    amount_of (item p ''vault_balance_after_base_units'') = vault_balance_base_units (refund n before) \<and>
    outstanding_right_base_units before \<le> vault_balance_base_units (refund n before) \<and>
    (item r ''reason'' = PStr ''final_close'' \<longrightarrow> vault_balance_base_units (refund n before) = 0) \<and>
    ambiguous_count states = 0"
proof -
  from assms obtain F A S R V reason n h where t: "refund_totals freeze F A S R V" "F = V + S + R" "0 \<le> S" "S \<le> A" "A \<le> F - R"
    and c: "check_refund_amount r (A - S) (F - R - A) V = Inr (reason, n)"
    and p: "p = refund_projection r freeze reason F A S R V n (instant now) @ [(KStr ''projection_hash'', PStr h)]"
    and s: "ambiguous_count states = 0"
    by (rule project_refundE)
  let ?b = "make_projection F A S R"
  note c = check_refund_amount_Inr [OF c]
  have n: "0 < n" using cl_amount_Inr [OF c(3)] by simp
  have R: "0 \<le> R" "F \<le> u64_max" using t(1) cl_amount_Inr unfolding refund_totals_def by blast+
  have ok: "accounting_ok ?b" using t R by (simp add: accounting_ok_def make_projection_def)
  have V: "V = F - S - R" using t(2) by simp
  have cap: "n \<le> unallocated_capacity_base_units ?b" using c(4) by (simp add: make_projection_def)
  note a = projected_amounts [OF p R(1) less_imp_le [OF n] c(5,4)]
  have "refund_totals freeze (funded_total_base_units ?b) (activated_authorized_total_base_units ?b)
      (settled_total_base_units ?b) (refunded_total_base_units ?b) (vault_balance_base_units ?b)"
    using t(1) V by (simp add: make_projection_def)
  moreover have "vault_balance_base_units (refund n ?b) = V - n" "refunded_total_base_units (refund n ?b) = R + n"
    by (simp_all add: refund_def make_projection_def V)
  moreover have "item r ''reason'' = PStr ''final_close'' \<longrightarrow> V - n = 0" using c(1,6) by simp
  moreover note refund_accounting [OF ok less_imp_le [OF n] cap]
  ultimately show ?thesis using ok n cap a s by (intro exI [of _ ?b] exI [of _ n]) simp
qed

theorem refund_keeps_right_witness:
  "\<exists>before. accounting_ok before \<and> accounting_ok (refund 600 before) \<and> vault_balance_base_units (refund 600 before) = 0"
  using refund_keeps_right [OF example_project_refund] by (auto simp: example_refund_amounts example_refund_items)

text \<open>
  Finalization passes only for a channel at or after its claim deadline with nothing
  outstanding, an empty vault (all funds settled or refunded) and no ambiguous operation.
\<close>

theorem finalization_requires_empty_channel:
  assumes "validate_finalization jcs channel freeze now states = Inr ()"
  shows "\<exists>p. validate_channel (PDict channel) = Inr p \<and> outstanding_right_base_units p = 0 \<and>
    vault_balance_base_units p = 0 \<and> funded_total_base_units p = settled_total_base_units p + refunded_total_base_units p \<and>
    activated_authorized_total_base_units p = settled_total_base_units p \<and> ambiguous_count states = 0 \<and>
    (\<exists>deadline. cl_time (item channel ''claim_deadline'') ''channel.claim_deadline'' = Inr deadline \<and> deadline \<le> instant now)"
proof -
  from assms obtain p deadline where p: "validate_channel (PDict channel) = Inr p"
    and d: "cl_time (item channel ''claim_deadline'') ''channel.claim_deadline'' = Inr deadline" "deadline \<le> instant now"
    and e: "outstanding_right_base_units p = 0" "vault_balance_base_units p = 0" "ambiguous_count states = 0"
    unfolding validate_finalization_def bind_unit_eq_Inr bind_res_eq_Inr run_all_Cons_Inr reject_if_eq_Inr cl_utc_Inr
      not_less not_not
    by blast
  have "accounting_ok p" using validate_channel_accounting [OF p] by simp
  then have "funded_total_base_units p = settled_total_base_units p + refunded_total_base_units p"
    "activated_authorized_total_base_units p = settled_total_base_units p"
    using e(1,2) unfolding accounting_ok_def by linarith+
  with p d e show ?thesis by blast
qed

definition example_drained :: pydict where
  "example_drained = map (\<lambda>(k, v). if k = KStr ''refunded_total_base_units'' then (k, PStr ''600'') else (k, v)) example_closing"

lemma example_drained_valid: "validate_channel (PDict example_drained) = Inr (make_projection 1000 400 400 600)"
  by code_simp

lemma example_drained_items:
  "channel_reference example_drained = example_reference" "item example_drained ''status'' = PStr ''closing''"
  "item example_drained ''claim_deadline'' = PStr ''2026-02-04T00:00:00Z''"
  by code_simp+

theorem finalization_requires_empty_channel_witness:
  "validate_finalization example_jcs example_drained example_frozen freeze_now [''completed''] = Inr () \<and>
   (\<exists>p. validate_channel (PDict example_drained) = Inr p \<and> vault_balance_base_units p = 0)"
proof -
  have v: "validate_finalization example_jcs example_drained example_frozen freeze_now [''completed''] = Inr ()"
    by (simp add: validate_finalization_def example_frozen_valid example_drained_valid example_drained_items expect_def
        cl_utc_def cl_time_def timestamp_with_def closure_times make_projection_def example_frozen_items
        example_frozen_count operation_states_ok_def releasing_states_def ambiguous_states_def ambiguous_count_def)
  with finalization_requires_empty_channel [OF v] show ?thesis by blast
qed

section \<open>The refund runtime\<close>

lemma reconcile_refund_cases:
  assumes "reconcile_refund jcs db rid v verifier now = (db', reply)"
  obtains (refused) e where "db' = db" "reply = Inl e"
  | (committed) ts where "check_refund_observation jcs verifier v = Inr ()"
      "reconcile_refund_tx jcs db rid v ts = Inr (db', reply)"
proof -
  let ?m = "bind_res (check_refund_observation jcs verifier v) (\<lambda>_. bind_res (cl_format_time now) (\<lambda>ts.
    reconcile_refund_tx jcs db rid v ts))"
  show thesis
  proof (cases ?m)
    case (Inl e)
    with assms show ?thesis by (intro refused [of e]) (simp_all add: reconcile_refund_def commit_refund_def)
  next
    case (Inr x)
    with assms have "?m = Inr (db', reply)" by (cases x) (simp add: reconcile_refund_def commit_refund_def)
    then show ?thesis by (auto simp: bind_res_eq_Inr bind_unit_eq_Inr intro: committed)
  qed
qed

lemma check_refund_observation_Inr:
  assumes "check_refund_observation jcs verifier v = Inr ()"
  shows "rv_verify verifier v" "item v ''source_id'' = PStr (rv_source_id verifier)"
    "\<exists>s. item v ''transaction_signature'' = PStr s \<and> s \<noteq> []"
  using assms
  unfolding check_refund_observation_def run_all_Cons_Inr reject_if_eq_Inr nonempty_text_def
  by (auto split: pyval.splits)

lemma completed_reply:
  assumes "complete_refund jcs db rid row v ts = Inr (db', reply)" "select_refund db rid = Some row" "identifier_text rid"
  shows "rf_signature row = str_of (item v ''transaction_signature'')"
    and "\<exists>receipt. select_refund db' rid = Some (set_refund_completed receipt ts row) \<and>
      reply = Inr (refund_record_of (set_refund_completed receipt ts row))"
proof -
  from assms(1) obtain receipt json where sig: "rf_signature row = str_of (item v ''transaction_signature'')"
    and mv: "move_refund jcs db rid (set_refund_completed json ts) RCompleted receipt ts = Inr (db', reply)"
    by (rule complete_refund_Inr)
  from mv have a: "append_refund_event jcs (update_refund rid (set_refund_completed json ts) db) rid RCompleted receipt ts = Inr db'"
    and r: "reply = refund_get db' rid"
    by (auto simp: move_refund_def bind_res_eq_Inr)
  have "select_refund db' rid = Some (set_refund_completed json ts row)"
    by (rule append_refund_event_select [OF a assms(2)]) (simp add: refund_setters)
  with r assms(3) show "\<exists>receipt. select_refund db' rid = Some (set_refund_completed receipt ts row) \<and>
      reply = Inr (refund_record_of (set_refund_completed receipt ts row))"
    by (auto simp: refund_get_def refund_row_of_def cl_identifier_def string_with_def)
  show "rf_signature row = str_of (item v ''transaction_signature'')" by (rule sig)
qed

lemma review_reply:
  assumes "review_refund jcs db rid payload ts e = Inr (db', reply)" "select_refund db rid = Some row"
  shows "reply = Inl e" "select_refund db' rid = Some (set_refund_state RNeedsReview ts row)"
proof -
  from assms(1) have a: "append_refund_event jcs (update_refund rid (set_refund_state RNeedsReview ts) db) rid RNeedsReview
      payload ts = Inr db'" and r: "reply = Inl e"
    by (auto simp: review_refund_def bind_res_eq_Inr)
  show "select_refund db' rid = Some (set_refund_state RNeedsReview ts row)"
    by (rule append_refund_event_select [OF a assms(2)]) (simp add: refund_setters)
  show "reply = Inl e" by (rule r)
qed

lemma refund_mismatches_Nil: "refund_mismatches row rid v = [] \<longleftrightarrow> (\<forall>(f, x)\<in>set (expected_refund row rid). py_eq (item v f) x)"
  by (auto simp: refund_mismatches_def filter_empty_conv)

text \<open>
  Property C12. reconcile completes a refund only on evidence: the observation was verified by the
  verifier of its source, agrees with the stored request and projection on every expected field,
  carries the persisted signature, and starts after every refund of the closure reconciled before;
  otherwise it raises, and either changes nothing or has put the refund under review because of an
  overlap or a mismatch.
\<close>

theorem refund_completes_on_evidence:
  assumes "reconcile_refund jcs db rid v verifier now = (db', reply)" "select_refund db rid = Some row"
    "rf_state row \<noteq> RCompleted"
  shows "(case reply of
      Inr rec \<Rightarrow>
        rf_state row \<in> {RReconciling, RNeedsRecovery} \<and> rv_verify verifier v \<and>
        item v ''source_id'' = PStr (rv_source_id verifier) \<and>
        (\<forall>(f, x)\<in>set (expected_refund row rid). py_eq (item v f) x) \<and>
        rf_signature row \<noteq> None \<and> rf_signature row = str_of (item v ''transaction_signature'') \<and>
        after_completed (refunds db) row \<and> rc_state rec = RCompleted \<and>
        (\<exists>receipt ts. select_refund db' rid = Some (set_refund_completed receipt ts row))
    | Inl e \<Rightarrow>
        db' = db \<or>
        e \<in> {cl_reject ''overlapping_refund_interval'' ''projection.refunded_total_before_base_units'',
             cl_reject ''reconciliation_mismatch'' ''observation''} \<and>
        (\<exists>ts. select_refund db' rid = Some (set_refund_state RNeedsReview ts row)))"
  using assms(1)
proof (cases rule: reconcile_refund_cases)
  case (committed ts)
  have id: "identifier_text rid"
    using committed(2) by (auto simp: reconcile_refund_tx_def bind_res_eq_Inr refund_row_of_Inr)
  from committed(2) show ?thesis
  proof (cases rule: reconcile_refund_tx_cases)
    case (kept r)
    with assms(2,3) show ?thesis by simp
  next
    case (review r payload e)
    then have "r = row" using assms(2) by simp
    with review review_reply [OF review(3) assms(2)] show ?thesis by auto
  next
    case (completed r)
    then have r: "r = row" using assms(2) by simp
    note c = completed_reply [OF completed(5) completed(1) id, unfolded r]
    from c(2) obtain receipt where "select_refund db' rid = Some (set_refund_completed receipt ts row)"
      "reply = Inr (refund_record_of (set_refund_completed receipt ts row))" by blast
    then show ?thesis
      using completed(2-4) check_refund_observation_Inr [OF committed(1)] c(1)
      by (auto simp: r refund_mismatches_Nil refund_record_of_def set_refund_completed_def)
  qed
qed simp

text \<open>An observation of the example refund, and its reconciliation.\<close>

definition example_observed_unsigned :: pydict where
  "example_observed_unsigned =
     [(KStr ''type'', PStr ''channel_refund_observation''), (KStr ''protocol_version'', PStr ''1.0.0''),
      (KStr ''domain'', PDict example_domain), (KStr ''source_id'', PStr ''provider-1''),
      (KStr ''channel_id'', PStr ''channel-1''), (KStr ''channel_account'', PStr (example_key CHR ''3'')),
      (KStr ''epoch'', PInt 0), (KStr ''mint'', PStr (example_key CHR ''7'')),
      (KStr ''destination'', PStr (example_key CHR ''4'')), (KStr ''refund_id'', PStr ''refund-1''),
      (KStr ''refund_request_hash'', PStr (digest example_refund_unsigned)),
      (KStr ''refund_projection_hash'', PStr (digest example_projection_unsigned)),
      (KStr ''transaction_signature'', PStr ''signature-1''),
      (KStr ''funded_total_base_units'', PStr (str_int 1000)), (KStr ''activated_total_base_units'', PStr (str_int 400)),
      (KStr ''settled_total_base_units'', PStr (str_int 400)),
      (KStr ''refunded_total_before_base_units'', PStr (str_int 0)),
      (KStr ''refunded_total_after_base_units'', PStr (str_int 600)),
      (KStr ''vault_balance_before_base_units'', PStr (str_int 600)),
      (KStr ''vault_balance_after_base_units'', PStr (str_int 0)), (KStr ''observed_at'', PStr ''2026-02-05T00:00:00Z'')]"

definition example_observed :: pydict where
  "example_observed = example_observed_unsigned @ [(KStr ''observation_hash'', PStr (digest example_observed_unsigned))]"

definition example_refund_verifier :: refund_verifier where
  "example_refund_verifier = \<lparr>rv_source_id = ''provider-1'', rv_verify = (\<lambda>v. item v ''source_id'' = PStr ''provider-1'')\<rparr>"

lemma example_refund_texts [simp]:
  "identifier_text ''provider-1''" "identifier_text ''channel-1''" "pubkey_text (example_key CHR ''3'')"
  "pubkey_text (example_key CHR ''7'')"
  by code_simp+

lemma example_observed_signable: "signable_items example_observed_unsigned"
  using example_parts_signable by (simp add: example_observed_unsigned_def json_safe_max_def)

lemma example_observed_items:
  "item example_observed ''type'' = PStr ''channel_refund_observation''"
  "item example_observed ''protocol_version'' = PStr ''1.0.0''" "item example_observed ''domain'' = PDict example_domain"
  "item example_observed ''source_id'' = PStr ''provider-1''" "item example_observed ''channel_id'' = PStr ''channel-1''"
  "item example_observed ''channel_account'' = PStr (example_key CHR ''3'')" "item example_observed ''epoch'' = PInt 0"
  "item example_observed ''mint'' = PStr (example_key CHR ''7'')"
  "item example_observed ''destination'' = PStr (example_key CHR ''4'')"
  "item example_observed ''refund_id'' = PStr ''refund-1''"
  "item example_observed ''refund_request_hash'' = PStr (digest example_refund_unsigned)"
  "item example_observed ''refund_projection_hash'' = PStr (digest example_projection_unsigned)"
  "item example_observed ''transaction_signature'' = PStr ''signature-1''"
  "item example_observed ''observed_at'' = PStr ''2026-02-05T00:00:00Z''"
  "item example_observed ''funded_total_base_units'' = PStr (str_int 1000)"
  "item example_observed ''activated_total_base_units'' = PStr (str_int 400)"
  "item example_observed ''settled_total_base_units'' = PStr (str_int 400)"
  "item example_observed ''refunded_total_before_base_units'' = PStr (str_int 0)"
  "item example_observed ''refunded_total_after_base_units'' = PStr (str_int 600)"
  "item example_observed ''vault_balance_before_base_units'' = PStr (str_int 600)"
  "item example_observed ''vault_balance_after_base_units'' = PStr (str_int 0)"
  "item example_observed ''observation_hash'' = PStr (digest example_observed_unsigned)"
  by (simp_all add: example_observed_def) (simp_all add: example_observed_unsigned_def item_Cons)

lemma example_projection_items:
  "item example_projection ''projection_hash'' = PStr (digest example_projection_unsigned)"
  "item example_projection ''funded_total_base_units'' = PStr (str_int 1000)"
  "item example_projection ''activated_total_base_units'' = PStr (str_int 400)"
  "item example_projection ''settled_total_base_units'' = PStr (str_int 400)"
  "item example_projection ''refunded_total_before_base_units'' = PStr (str_int 0)"
  "item example_projection ''refunded_total_after_base_units'' = PStr (str_int 600)"
  "item example_projection ''vault_balance_before_base_units'' = PStr (str_int 600)"
  "item example_projection ''vault_balance_after_base_units'' = PStr (str_int 0)"
  by (simp_all add: example_projection_def) (simp_all add: example_projection_unsigned_def refund_projection_def item_Cons)

lemma example_observation_checked:
  "check_refund_observation example_jcs example_refund_verifier example_observed = Inr ()"
proof -
  have closed: "cl_closed example_observed ''observation'' refund_observation_fields refund_observation_fields = Inr ()"
    by (rule cl_closed_exact) (simp add: example_observed_def example_observed_unsigned_def refund_observation_fields_def)
  have hash: "validate_hash example_jcs example_observed ''observation_hash'' = Inr ()"
    by (rule validate_hash_with_hash [of _ example_observed_unsigned])
       (simp add: digest_with_hash [OF example_observed_signable] example_observed_def,
        simp add: example_observed_unsigned_def has_key_Cons)
  have amounts: "run_all (map (\<lambda>f. ignore (cl_amount (item example_observed f) (''observation.'' @ f) False))
      refund_observation_amounts) = Inr ()"
    by (simp add: refund_observation_amounts_def example_observed_items cl_amount_str_int u64_max_def ignore_def
        del: str_int_nonneg)
  show ?thesis
    unfolding check_refund_observation_def run_all.simps closed hash amounts bind_res_simps
    by (simp add: example_observed_items expect_def cl_identifier_def cl_pubkey_def
        cl_hash_def string_with_def ignore_def cl_epoch_def example_reference_valid cl_time_def timestamp_with_def
        closure_times nonempty_text_def example_refund_verifier_def)
qed

lemma example_refund_matches: "refund_mismatches (example_refund_row st) ''refund-1'' example_observed = []"
  by (simp add: refund_mismatches_def expected_refund_def Let_def example_refund_columns example_refund_items
      example_projection_items example_observed_items text_value_def del: str_int_nonneg)
     (simp add: example_reference_def item_Cons)

lemma refund_state_ascii [simp]: "\<not> has_surrogate (refund_state_text st)"
  by (cases st) simp_all

text \<open>A second event can be appended: its digest differs from the imported one.\<close>

lemma example_refund_append:
  assumes "refund_events db = [example_refund_event st0]" "signable_items payload"
  shows "\<exists>db'. append_refund_event example_jcs db ''refund-1'' st payload ''2026-02-05T00:00:00Z'' = Inr db'"
proof -
  define e where "e = [(KStr ''type'', PStr ''refund_journal_entry''), (KStr ''protocol_version'', PStr ''1.0.0''),
      (KStr ''refund_id'', PStr ''refund-1''), (KStr ''sequence'', PInt 2),
      (KStr ''state'', PStr (refund_state_text st)), (KStr ''event_type'', PStr (refund_state_text st)),
      (KStr ''payload'', PDict payload), (KStr ''payload_hash'', PStr (digest payload)),
      (KStr ''previous_event_hash'', PStr ''first''), (KStr ''recorded_at'', PStr ''2026-02-05T00:00:00Z'')]"
  have entry: "refund_entry ''refund-1'' 2 st payload (digest payload) ''first'' ''2026-02-05T00:00:00Z'' = PDict e"
    by (simp add: refund_entry_def e_def)
  have e: "signable_items e" using assms(2) by (simp add: e_def json_safe_max_def)
  then obtain j where "json_dumps True (PDict e) = Inr j" using signable_json_dumps [of "PDict e" True] by auto
  moreover have "digest e \<noteq> ''first''"
  proof
    assume "digest e = ''first''"
    with hash_text_digest [of e] have "hash_text ''first''" by simp
    then show False by (simp add: hash_text_def)
  qed
  ultimately show ?thesis
    using digest_hash [OF e] digest_hash [OF assms(2)]
    by (simp add: append_refund_event_def refund_events_for_def assms(1) example_refund_event_def entry Let_def
        del: json_dumps.simps)
qed

lemma example_refund_receipt_signable:
  "signable_items (refund_receipt_unsigned (example_refund_row st) ''refund-1'' example_observed ''2026-02-05T00:00:00Z'')"
  using example_parts_signable
  by (simp add: refund_receipt_unsigned_def Let_def example_refund_columns example_refund_items example_projection_items
      example_observed_items text_value_def json_safe_max_def)
     (simp add: example_reference_def item_Cons json_safe_max_def)

lemma example_refund_reconciles:
  "\<exists>db' rec. reconcile_refund example_jcs (example_refund_db RReconciling) ''refund-1'' example_observed
     example_refund_verifier freeze_now = (db', Inr rec) \<and> select_refund db' ''refund-1'' \<noteq> Some (example_refund_row RReconciling)"
proof -
  let ?row = "example_refund_row RReconciling" and ?ts = "''2026-02-05T00:00:00Z''"
  define receipt where "receipt = refund_receipt_unsigned ?row ''refund-1'' example_observed ?ts"
  have sg: "signable_items receipt" using example_refund_receipt_signable by (simp add: receipt_def)
  define full where "full = receipt @ [(KStr ''receipt_hash'', PStr (digest receipt))]"
  have fs: "signable_items full" using sg by (simp add: full_def signable_items_append)
  have h: "with_hash example_jcs receipt ''receipt_hash'' = Inr full" using digest_with_hash [OF sg] by (simp add: full_def)
  obtain j where j: "json_text full = Inr j" using signable_json_text [of full] fs by auto
  have "refund_events (update_refund ''refund-1'' (set_refund_completed j ?ts) (example_refund_db RReconciling)) =
      [example_refund_event RReconciling]"
    by (simp add: example_refund_db_def)
  from example_refund_append [OF this fs] obtain db' where a: "append_refund_event example_jcs
      (update_refund ''refund-1'' (set_refund_completed j ?ts) (example_refund_db RReconciling)) ''refund-1'' RCompleted
      full ?ts = Inr db'"
    by blast
  have sel: "select_refund db' ''refund-1'' = Some (set_refund_completed j ?ts ?row)"
    by (rule append_refund_event_select [OF a example_refund_select]) (simp add: refund_setters)
  have high: "completed_high_water (filter (\<lambda>r. rf_refund_id r \<noteq> ''refund-1'') (refunds (example_refund_db RReconciling)))
      c e k = None" for c e k
    by (simp add: example_refund_db_def example_refund_columns completed_high_water_def)
  have "complete_refund example_jcs (example_refund_db RReconciling) ''refund-1'' ?row example_observed ?ts =
      Inr (db', refund_get db' ''refund-1'')"
    by (simp add: complete_refund_def example_refund_columns example_observed_items h [unfolded receipt_def] j
        move_refund_def a)
  then have "reconcile_refund_tx example_jcs (example_refund_db RReconciling) ''refund-1'' example_observed ?ts =
      Inr (db', refund_get db' ''refund-1'')"
    by (simp add: reconcile_refund_tx_def refund_row_of_def cl_identifier_def string_with_def example_refund_select
        example_refund_columns example_refund_matches high Let_def)
  moreover have "\<exists>rec. refund_get db' ''refund-1'' = Inr rec"
    by (simp add: refund_get_def refund_row_of_def sel cl_identifier_def string_with_def)
  moreover have "set_refund_completed j ?ts ?row \<noteq> ?row"
    by (rule notI, drule arg_cong [of _ _ rf_state]) (simp add: set_refund_completed_def example_refund_columns)
  ultimately show ?thesis
    using sel by (auto simp: reconcile_refund_def example_observation_checked cl_format_time_def cl_utc_def closure_times
        commit_refund_def)
qed

theorem refund_completes_on_evidence_witness:
  "\<exists>db' rec receipt ts. reconcile_refund example_jcs (example_refund_db RReconciling) ''refund-1'' example_observed
       example_refund_verifier freeze_now = (db', Inr rec) \<and> rc_state rec = RCompleted \<and>
     select_refund db' ''refund-1'' = Some (set_refund_completed receipt ts (example_refund_row RReconciling))"
proof -
  obtain db' rec where r: "reconcile_refund example_jcs (example_refund_db RReconciling) ''refund-1'' example_observed
      example_refund_verifier freeze_now = (db', Inr rec)"
    using example_refund_reconciles by blast
  from refund_completes_on_evidence [OF r example_refund_select] show ?thesis
    using r by (auto simp: example_refund_columns)
qed

lemma example_refund_run: "\<exists>db'. (refund_step example_jcs)\<^sup>*\<^sup>* (example_refund_db RReconciling) db' \<and> db' \<noteq> example_refund_db RReconciling"
proof -
  obtain db' rec where r: "reconcile_refund example_jcs (example_refund_db RReconciling) ''refund-1'' example_observed
      example_refund_verifier freeze_now = (db', Inr rec)"
    "select_refund db' ''refund-1'' \<noteq> Some (example_refund_row RReconciling)"
    using example_refund_reconciles by blast
  then have "refund_step example_jcs (example_refund_db RReconciling) db'"
    using refund_step.refund_reconcile [of example_jcs "example_refund_db RReconciling" "''refund-1''" example_observed
      example_refund_verifier freeze_now] by simp
  moreover have "db' \<noteq> example_refund_db RReconciling" using r(2) example_refund_select by blast
  ultimately show ?thesis by blast
qed

text \<open>
  Property C10. The refund runtime is safe in every state it reaches: refund ids and idempotency keys
  are unique, the live refunds of a closure fit in the unallocated capacity of its newest refund, a
  refund has one submit intent from submission on and none before, the intervals of R that reconciled
  refunds of a closure cover are disjoint, and every journal is a hash chain that ends in the state
  of its row.
\<close>

theorem refund_runtime_safe:
  assumes "(refund_step jcs)\<^sup>*\<^sup>* db0 db" "refund_inv db0"
  shows "refund_inv db \<and>
    (\<forall>older row newer. refunds db = older @ row # newer \<and> (\<forall>x\<in>set newer. closure_key x \<noteq> closure_key row) \<longrightarrow>
       refund_reserved db (rf_channel_id row) (rf_epoch row) (Some (rf_closure_id row)) \<le> rf_maximum row) \<and>
    (\<forall>r\<in>set (refunds db). rf_intents r = (if refund_past (rf_state r) then 1 else 0) \<and> rf_after r = rf_before r + rf_requested r) \<and>
    (\<forall>a\<in>set (refunds db). \<forall>b\<in>set (refunds db).
       rf_refund_id a \<noteq> rf_refund_id b \<and> closure_key a = closure_key b \<and> rf_state a = RCompleted \<and> rf_state b = RCompleted \<longrightarrow>
       rf_after a \<le> rf_before b \<or> rf_after b \<le> rf_before a)"
proof -
  have inv: "refund_inv db" by (rule refund_runtime.steps_inv [OF assms])
  moreover have "refund_reserved db (rf_channel_id row) (rf_epoch row) (Some (rf_closure_id row)) \<le> rf_maximum row"
    if "refunds db = older @ row # newer" "\<forall>x\<in>set newer. closure_key x \<noteq> closure_key row" for older row newer
    using refund_book.booked_newest [of older row newer] that inv
    by (simp add: refund_inv_def refund_booked_def refund_fits_def refund_reserved_held closure_key_def)
  moreover have "\<forall>r\<in>set (refunds db). rf_intents r = (if refund_past (rf_state r) then 1 else 0) \<and>
      rf_after r = rf_before r + rf_requested r"
    using inv by (simp add: refund_inv_def refund_rows_ok_def refund_numbers_def)
  ultimately show ?thesis unfolding refund_inv_def refunds_disjoint_def by blast
qed

theorem refund_runtime_safe_witness:
  "\<exists>db'. (refund_step example_jcs)\<^sup>*\<^sup>* (example_refund_db RReconciling) db' \<and> db' \<noteq> example_refund_db RReconciling \<and>
     refund_inv db' \<and> refund_inv refund_db_init"
  using example_refund_run refund_runtime_safe [OF _ example_refund_inv] refund_inv_init by blast

text \<open>
  Property C16. The refund lifecycle: along any run of the runtime's methods a registered refund is
  never deleted, its identity, request, projection and amounts never change, its state moves along the
  edges of the graph, and a completed, released or disputed refund is never touched again.
\<close>

theorem refund_lifecycle:
  assumes "(refund_step jcs)\<^sup>*\<^sup>* db db'" "select_refund db rid = Some row"
  shows "\<exists>row'. select_refund db' rid = Some row' \<and> refund_fixed row' = refund_fixed row \<and>
    refund_edge\<^sup>*\<^sup>* (rf_state row) (rf_state row') \<and>
    (rf_state row \<in> {RCompleted, RRejected, RFailed, RCancelled, RDisputed} \<longrightarrow> row' = row)"
proof -
  have "\<not> refund_edge st s" if "st \<in> {RCompleted, RRejected, RFailed, RCancelled, RDisputed}" for st s
    using that by auto
  then show ?thesis using refund_run_row [OF assms] unfolding refund_row_moved_def by blast
qed

theorem refund_lifecycle_witness:
  "\<exists>db' row'. (refund_step example_jcs)\<^sup>*\<^sup>* (example_refund_db RReconciling) db' \<and>
     select_refund db' ''refund-1'' = Some row' \<and> refund_fixed row' = refund_fixed (example_refund_row RReconciling)"
  using example_refund_run refund_lifecycle [OF _ example_refund_select] by blast

end
