(* ===== verification/Exec_Checks.thy ===== *)
theory Exec_Checks
  imports Ext_Canonical Base64 Py_Time Tables
begin

text \<open>
  Checks that \<^verbatim>\<open>services/authorization/authority.py\<close>, \<^verbatim>\<open>services/signer/boundary.py\<close> and
  \<^verbatim>\<open>services/reconciliation/protocol.py\<close> repeat with exception classes of their own: every helper here
  takes the exception it raises.
\<close>

definition text_or :: "exn \<Rightarrow> (string \<Rightarrow> bool) \<Rightarrow> pyval \<Rightarrow> string res" where
  "text_or e pattern v =
     (case v of PStr s \<Rightarrow> (if pattern s then Inr s else Inl e) | _ \<Rightarrow> Inl e)"

text \<open>\<^verbatim>\<open>_TIMESTAMP.fullmatch\<close>, then \<^verbatim>\<open>strptime\<close>; both failures raise the same exception.\<close>

definition timestamp_or :: "exn \<Rightarrow> pyval \<Rightarrow> int res" where
  "timestamp_or e v =
     (case v of
        PStr s \<Rightarrow>
          (if ext_timestamp_text s then (case strptime_utc s of Some t \<Rightarrow> Inr t | None \<Rightarrow> Inl e) else Inl e)
      | _ \<Rightarrow> Inl e)"

definition pubkey_or :: "exn \<Rightarrow> pyval \<Rightarrow> string res" where
  "pubkey_or e v =
     (case v of
        PStr s \<Rightarrow>
          (if \<not> (32 \<le> py_len s \<and> py_len s \<le> 44) then Inl e
           else case decode_base58 s of
             Inl _ \<Rightarrow> Inl e
           | Inr decoded \<Rightarrow> (if length decoded \<noteq> 32 then Inl e else Inr s))
      | _ \<Rightarrow> Inl e)"

text \<open>
  A closed object: required keys, optional ones, and with \<open>additional\<close> any others. The message of
  the rejection sorts the unknown keys.
\<close>

definition closed_or :: "exn \<Rightarrow> bool \<Rightarrow> pyval \<Rightarrow> string list \<Rightarrow> string list \<Rightarrow> pydict res" where
  "closed_or e additional v required optional =
     (case v of
        PDict d \<Rightarrow>
          (if missing_keys required d \<noteq> [] then Inl e
           else if unknown_keys (required @ optional) d \<noteq> [] \<and> \<not> additional then
             (if mixed_keys (unknown_keys (required @ optional) d) then Inl (PyRaise ''TypeError'') else Inl e)
           else Inr d)
      | _ \<Rightarrow> Inl e)"

definition safe_uint_or :: "exn \<Rightarrow> pyval \<Rightarrow> int res" where
  "safe_uint_or e v =
     (case v of PInt i \<Rightarrow> (if 0 \<le> i \<and> i \<le> json_safe_max then Inr i else Inl e) | _ \<Rightarrow> Inl e)"

text \<open>\<^verbatim>\<open>_utc\<close> and \<^verbatim>\<open>_format_timestamp\<close>: a naive clock is a ValueError.\<close>

definition aware_instant :: "py_datetime \<Rightarrow> int res" where
  "aware_instant t =
     (case utcoffset t of None \<Rightarrow> Inl (PyRaise ''ValueError'') | Some off \<Rightarrow> Inr (instant t))"

text \<open>The last instant a \<^verbatim>\<open>datetime\<close> can hold; adding past it is an OverflowError.\<close>

definition datetime_max :: int where
  "datetime_max = micros 9999 12 31 23 59 59 + 999999"

lemma utc_datetime_clock [simp]: "instant (utc_datetime us) = us" "utcoffset (utc_datetime us) = Some 0"
  by (simp_all add: utc_datetime_def instant_def)

lemma text_or_Inr [res_simps]: "text_or e p v = Inr s \<longleftrightarrow> v = PStr s \<and> p s"
  by (cases v) (auto simp: text_or_def)

lemma timestamp_or_Inr [res_simps]:
  "timestamp_or e v = Inr t \<longleftrightarrow> (\<exists>s. v = PStr s \<and> ext_timestamp_text s \<and> strptime_utc s = Some t)"
  by (cases v) (auto simp: timestamp_or_def split: option.splits)

lemma pubkey_or_Inr [res_simps]:
  "pubkey_or e v = Inr s \<longleftrightarrow>
     v = PStr s \<and> 32 \<le> py_len s \<and> py_len s \<le> 44 \<and> (\<exists>bs. decode_base58 s = Inr bs \<and> length bs = 32)"
  by (cases v) (auto simp: pubkey_or_def split: sum.splits)

lemma closed_or_Inr [res_simps]:
  "closed_or e additional v required optional = Inr d \<longleftrightarrow>
     v = PDict d \<and> (\<forall>k\<in>set required. has_key d k) \<and>
     (additional \<or> fst ` set d \<subseteq> KStr ` (set required \<union> set optional))"
  by (cases v) (auto simp: closed_or_def missing_keys_Nil unknown_keys_Nil)

lemma safe_uint_or_Inr [res_simps]:
  "safe_uint_or e v = Inr i \<longleftrightarrow> v = PInt i \<and> 0 \<le> i \<and> i \<le> json_safe_max"
  by (cases v) (auto simp: safe_uint_or_def)

lemma aware_instant_Inr [res_simps]: "aware_instant t = Inr i \<longleftrightarrow> utcoffset t \<noteq> None \<and> i = instant t"
  by (auto simp: aware_instant_def split: option.splits)

end
