(* ===== verification/Authority.thy ===== *)
theory Authority
  imports Exec_Checks
begin

text \<open>
  \<^verbatim>\<open>services/authorization/authority.py\<close>: the journal of execution authorizations
  (\<^verbatim>\<open>AuthorizationJournal\<close>, one table keyed by \<open>au_id\<close>) and the authority that checks a prepared
  execution against its economic plan before it grants one (\<^verbatim>\<open>ExecutionAuthorizationAuthority\<close>). An
  \<^verbatim>\<open>AuthorizationError\<close> carries the name of its subclass as its code. The signature provider is an
  argument of the operations that call it.
\<close>

definition auth_error :: "string \<Rightarrow> string \<Rightarrow> exn" where
  "auth_error subclass path = Exn AuthorizationError subclass path"

abbreviation auth_invalid :: "string \<Rightarrow> exn" where
  "auth_invalid \<equiv> auth_error ''AuthorizationInvalid''"

abbreviation auth_expired :: exn where
  "auth_expired \<equiv> auth_error ''AuthorizationExpired'' []"

abbreviation auth_conflict :: exn where
  "auth_conflict \<equiv> auth_error ''AuthorizationConflict'' []"

abbreviation auth_replay :: exn where
  "auth_replay \<equiv> auth_error ''AuthorizationReplay'' []"

definition au_prepared_fields :: "string list" where
  "au_prepared_fields =
     [''type'', ''protocol_version'', ''execution_request_id'', ''executor_id'', ''executor_version'',
      ''economic_plan_hash'', ''prepared_message_base64'', ''prepared_message_hash'', ''simulation'',
      ''simulation_attestation_hash'', ''execution_commitment_hash'', ''signer'', ''constraints'',
      ''expires_at'']"

definition simulation_required :: "string list" where
  "simulation_required =
     [''rpc_provider_id'', ''genesis_hash'', ''slot'', ''commitment_level'', ''recent_blockhash'',
      ''last_valid_block_height'', ''simulated_at'', ''valid_until'', ''logs_hash'', ''pre_balances_hash'',
      ''post_balances_hash'', ''units_consumed'', ''fee_lamports'', ''success'']"

definition simulation_optional :: "string list" where
  "simulation_optional = [''accounts_observed_hash'', ''programs_observed_hash'']"

definition unsigned_authorization_fields :: "string list" where
  "unsigned_authorization_fields =
     [''type'', ''protocol_version'', ''authorization_id'', ''execution_request_id'',
      ''execution_commitment_hash'', ''prepared_message_hash'', ''signer'', ''single_use'', ''issued_at'',
      ''expires_at'']"

definition au_identifier :: "pyval \<Rightarrow> string \<Rightarrow> string res" where
  "au_identifier v path = text_or (auth_invalid path) identifier_text v"

definition au_timestamp :: "pyval \<Rightarrow> string \<Rightarrow> int res" where
  "au_timestamp v path = timestamp_or (auth_invalid path) v"

definition au_pubkey :: "pyval \<Rightarrow> string \<Rightarrow> string res" where
  "au_pubkey v path = pubkey_or (auth_invalid path) v"

definition au_closed :: "pyval \<Rightarrow> string list \<Rightarrow> string list \<Rightarrow> string \<Rightarrow> pydict res" where
  "au_closed v required optional path = closed_or (auth_invalid path) False v required optional"

definition au_safe_uint :: "pyval \<Rightarrow> string \<Rightarrow> int res" where
  "au_safe_uint v path = safe_uint_or (auth_invalid path) v"

lemmas au_checks = au_identifier_def au_timestamp_def au_pubkey_def au_closed_def au_safe_uint_def

text \<open>Constraints: the maximum fee and the allowed programs.\<close>

record constraints =
  max_fee_lamports :: int
  allowed_programs :: "string list"

definition constraints_dict :: "constraints \<Rightarrow> pydict" where
  "constraints_dict c =
     [(KStr ''max_fee_lamports'', PInt (max_fee_lamports c)),
      (KStr ''allowed_programs'', PList (map PStr (allowed_programs c)))]"

definition validate_constraints :: "pyval \<Rightarrow> string \<Rightarrow> constraints res" where
  "validate_constraints v path =
     bind_res (au_closed v [''max_fee_lamports'', ''allowed_programs''] [] path) (\<lambda>c.
     bind_res (au_safe_uint (item c ''max_fee_lamports'') (path @ ''.max_fee_lamports'')) (\<lambda>fee.
     case item c ''allowed_programs'' of
       PList programs \<Rightarrow>
         (if programs = [] then Inl (auth_invalid (path @ ''.allowed_programs''))
          else
            bind_res (map_res (\<lambda>(i, p). au_pubkey p (path @ ''.allowed_programs['' @ dec_nat i @ '']''))
              (enumerate 0 programs)) (\<lambda>normalized.
            bind_res (reject_if (\<not> distinct normalized) (auth_invalid (path @ ''.allowed_programs''))) (\<lambda>_.
            Inr \<lparr>max_fee_lamports = fee, allowed_programs = normalized\<rparr>)))
     | _ \<Rightarrow> Inl (auth_invalid (path @ ''.allowed_programs''))))"

definition authorization_signing_payload :: "serializer \<Rightarrow> pydict \<Rightarrow> string res" where
  "authorization_signing_payload jcs authorization =
     (let body = filter (\<lambda>(k, v). k \<noteq> KStr ''authorization_signature'') authorization in
      bind_res (au_closed (PDict body) unsigned_authorization_fields [] ''$authorization'') (\<lambda>_.
      canonicalize jcs (PDict body)))"

section \<open>The journal\<close>

datatype grant_state = GIssued | GConsumed | GExpired

record authorization_row =
  au_id :: string
  au_request_id :: string
  au_obligation_id :: string
  au_fingerprint :: string
  au_json :: pyval
  au_state :: grant_state
  au_issued_at :: string
  au_expires_at :: string
  au_consumed_at :: "string option"

type_synonym grant_journal = "authorization_row list"

text \<open>\<^verbatim>\<open>UPDATE ... SET state = 'expired' WHERE state = 'issued' AND expires_at <= ?\<close>, texts compared.\<close>

definition expire_issued :: "string \<Rightarrow> grant_journal \<Rightarrow> grant_journal" where
  "expire_issued timestamp rows =
     map (\<lambda>r. if au_state r = GIssued \<and> au_expires_at r \<le> timestamp then r\<lparr>au_state := GExpired\<rparr> else r) rows"

definition active_for :: "string \<Rightarrow> string \<Rightarrow> string \<Rightarrow> authorization_row \<Rightarrow> bool" where
  "active_for timestamp request obligation r \<longleftrightarrow>
     au_state r = GIssued \<and> timestamp < au_expires_at r \<and>
     (au_request_id r = request \<or> au_obligation_id r = obligation)"

definition text_item :: "pydict \<Rightarrow> string \<Rightarrow> string" where
  "text_item d k = (case str_of (item d k) of Some s \<Rightarrow> s | None \<Rightarrow> [])"

text \<open>
  \<^verbatim>\<open>AuthorizationJournal.issue\<close> on an authorization whose identifiers and times are texts, as the
  authority makes them. A rejection also undoes the expiry sweep.
\<close>

definition grant_row :: "pydict \<Rightarrow> string \<Rightarrow> string \<Rightarrow> pyval \<Rightarrow> authorization_row" where
  "grant_row authorization obligation fingerprint stored =
     \<lparr>au_id = text_item authorization ''authorization_id'',
      au_request_id = text_item authorization ''execution_request_id'', au_obligation_id = obligation,
      au_fingerprint = fingerprint, au_json = stored, au_state = GIssued,
      au_issued_at = text_item authorization ''issued_at'',
      au_expires_at = text_item authorization ''expires_at'', au_consumed_at = None\<rparr>"

definition issue_tx ::
  "pydict \<Rightarrow> string \<Rightarrow> string \<Rightarrow> string \<Rightarrow> grant_journal \<Rightarrow> (grant_journal \<times> pyval) res" where
  "issue_tx authorization obligation fingerprint timestamp rows =
     (let swept = expire_issued timestamp rows in
      case select_row au_id swept (text_item authorization ''authorization_id'') of
        Some existing \<Rightarrow>
          (if au_fingerprint existing \<noteq> fingerprint then Inl auth_conflict
           else case au_state existing of
             GConsumed \<Rightarrow> Inl auth_replay
           | GExpired \<Rightarrow> Inl auth_expired
           | GIssued \<Rightarrow> Inr (swept, au_json existing))
      | None \<Rightarrow>
          (if list_ex (active_for timestamp (text_item authorization ''execution_request_id'') obligation) swept
           then Inl auth_conflict
           else bind_res (json_dumps True (PDict authorization)) (\<lambda>stored.
             bind_res (reject_if (val_surrogate stored) (PyRaise ''UnicodeEncodeError'')) (\<lambda>_.
             Inr (insert_row (grant_row authorization obligation fingerprint stored) swept, PDict authorization)))))"

definition grant_journal_issue ::
  "pydict \<Rightarrow> string \<Rightarrow> string \<Rightarrow> py_datetime \<Rightarrow> grant_journal \<Rightarrow> grant_journal \<times> pyval res" where
  "grant_journal_issue authorization obligation fingerprint now rows =
     (case aware_instant now of
        Inl e \<Rightarrow> (rows, Inl e)
      | Inr t \<Rightarrow> transaction rows (issue_tx authorization obligation fingerprint (strftime_utc t) rows))"

text \<open>
  \<^verbatim>\<open>AuthorizationJournal.consume\<close>. The UPDATE to 'expired' stands in the block that then raises, so the
  connection rolls it back: the stored state stays as it was.
\<close>

definition mark_consumed :: "string \<Rightarrow> authorization_row \<Rightarrow> authorization_row" where
  "mark_consumed timestamp r =
     (if au_state r = GIssued then r\<lparr>au_state := GConsumed, au_consumed_at := Some timestamp\<rparr> else r)"

definition consume_tx :: "string \<Rightarrow> string \<Rightarrow> grant_journal \<Rightarrow> (grant_journal \<times> pyval) res" where
  "consume_tx aid timestamp rows =
     (case select_row au_id rows aid of
        None \<Rightarrow> Inl (auth_invalid [])
      | Some row \<Rightarrow>
          (if au_state row = GConsumed then Inl auth_replay
           else if au_state row = GExpired \<or> au_expires_at row \<le> timestamp then Inl auth_expired
           else Inr (update_row au_id aid (mark_consumed timestamp) rows, au_json row)))"

definition consume :: "pyval \<Rightarrow> py_datetime \<Rightarrow> grant_journal \<Rightarrow> grant_journal \<times> pyval res" where
  "consume aid now rows =
     (case bind_res (au_identifier aid ''$authorization_id'') (\<lambda>a.
           bind_res (aware_instant now) (\<lambda>t. Inr (a, strftime_utc t))) of
        Inl e \<Rightarrow> (rows, Inl e)
      | Inr (a, timestamp) \<Rightarrow> transaction rows (consume_tx a timestamp rows))"

text \<open>
  \<^verbatim>\<open>AuthorizationJournal.state\<close> opens no transaction before its SELECT, and its UPDATE names the row
  alone: \<open>state_read\<close> is the one, with the decision whether the other follows, \<open>state_expire\<close> the other.
\<close>

definition state_read :: "pyval \<Rightarrow> py_datetime \<Rightarrow> grant_journal \<Rightarrow> (string \<times> grant_state \<times> bool) res" where
  "state_read aid now rows =
     bind_res (au_identifier aid ''$authorization_id'') (\<lambda>a.
     bind_res (aware_instant now) (\<lambda>t.
     case select_row au_id rows a of
       None \<Rightarrow> Inl (auth_invalid [])
     | Some row \<Rightarrow>
         Inr (a, au_state row, au_state row = GIssued \<and> au_expires_at row \<le> strftime_utc t)))"

definition state_expire :: "string \<Rightarrow> grant_journal \<Rightarrow> grant_journal" where
  "state_expire aid rows = update_row au_id aid (\<lambda>r. r\<lparr>au_state := GExpired\<rparr>) rows"

definition journal_state :: "pyval \<Rightarrow> py_datetime \<Rightarrow> grant_journal \<Rightarrow> grant_journal \<times> grant_state res" where
  "journal_state aid now rows =
     (case state_read aid now rows of
        Inl e \<Rightarrow> (rows, Inl e)
      | Inr (a, state, expires) \<Rightarrow>
          (if expires then (state_expire a rows, Inr GExpired) else (rows, Inr state)))"

section \<open>The authority\<close>

type_synonym signature_provider = "string \<Rightarrow> pyval res"

text \<open>The constructor of \<^verbatim>\<open>ExecutionAuthorizationAuthority\<close>: the longest grant it may issue.\<close>

definition authority_init :: "int \<Rightarrow> int res" where
  "authority_init max_ttl_seconds =
     bind_res (reject_if (\<not> (1 \<le> max_ttl_seconds \<and> max_ttl_seconds \<le> 60)) (PyRaise ''ValueError'')) (\<lambda>_.
     Inr max_ttl_seconds)"

record grant_request =
  gr_economic_plan :: pyval
  gr_prepared_execution :: pyval
  gr_authorization_id :: pyval
  gr_execution_request_id :: pyval
  gr_executor_id :: pyval
  gr_signer :: pyval
  gr_constraints :: pyval
  gr_ttl_seconds :: int

definition check_grant_arguments :: "int \<Rightarrow> grant_request \<Rightarrow> unit res" where
  "check_grant_arguments max_ttl g =
     bind_res (au_identifier (gr_authorization_id g) ''$authorization_id'') (\<lambda>_.
     bind_res (au_identifier (gr_execution_request_id g) ''$expected_execution_request_id'') (\<lambda>_.
     bind_res (au_identifier (gr_executor_id g) ''$expected_executor_id'') (\<lambda>_.
     bind_res (au_pubkey (gr_signer g) ''$expected_signer'') (\<lambda>_.
     reject_if (\<not> (1 \<le> gr_ttl_seconds g \<and> gr_ttl_seconds g \<le> max_ttl)) (auth_invalid [])))))"

definition grant_plan :: "grant_request \<Rightarrow> int \<Rightarrow> (pydict \<times> int) res" where
  "grant_plan g current =
     bind_res (normalize_economic_plan (gr_economic_plan g)) (\<lambda>plan.
     bind_res (au_timestamp (item plan ''expires_at'') ''$economic_plan.expires_at'') (\<lambda>plan_expiry.
     bind_res (reject_if (plan_expiry \<le> current) auth_expired) (\<lambda>_.
     Inr (plan, plan_expiry))))"

definition check_prepared_identity :: "grant_request \<Rightarrow> pydict res" where
  "check_prepared_identity g =
     bind_res (au_closed (gr_prepared_execution g) au_prepared_fields [] ''$prepared_execution'') (\<lambda>prepared.
     bind_res (run_all
       [reject_if (item prepared ''type'' \<noteq> PStr ''prepared_execution'') (auth_invalid []),
        reject_if (item prepared ''protocol_version'' \<noteq> PStr ''1.0.0'') (auth_invalid []),
        reject_if (item prepared ''execution_request_id'' \<noteq> gr_execution_request_id g) (auth_invalid []),
        reject_if (item prepared ''executor_id'' \<noteq> gr_executor_id g) (auth_invalid []),
        reject_if (item prepared ''signer'' \<noteq> gr_signer g) (auth_invalid [])]) (\<lambda>_.
     Inr prepared))"

definition grant_constraints :: "grant_request \<Rightarrow> pydict \<Rightarrow> constraints res" where
  "grant_constraints g prepared =
     bind_res (validate_constraints (item prepared ''constraints'') ''$prepared_execution.constraints'') (\<lambda>c.
     bind_res (validate_constraints (gr_constraints g) ''$expected_constraints'') (\<lambda>expected.
     bind_res (reject_if (c \<noteq> expected) (auth_invalid [])) (\<lambda>_. Inr c)))"

definition grant_message :: "pydict \<Rightarrow> string res" where
  "grant_message prepared =
     (case item prepared ''prepared_message_base64'' of
        PStr s \<Rightarrow> (case b64decode_strict s of None \<Rightarrow> Inl (auth_invalid []) | Some m \<Rightarrow> Inr m)
      | _ \<Rightarrow> Inl (auth_invalid []))"

definition check_grant_hashes :: "serializer \<Rightarrow> pydict \<Rightarrow> pydict \<Rightarrow> unit res" where
  "check_grant_hashes jcs plan prepared =
     bind_res (economic_plan_hash jcs (PDict plan)) (\<lambda>expected_plan_hash.
     bind_res (reject_if (item prepared ''economic_plan_hash'' \<noteq> PStr expected_plan_hash) (auth_invalid [])) (\<lambda>_.
     bind_res (grant_message prepared) (\<lambda>message.
     bind_res (prepared_message_hash message) (\<lambda>message_hash.
     reject_if (item prepared ''prepared_message_hash'' \<noteq> PStr message_hash) (auth_invalid [])))))"

definition simulation_path :: "string \<Rightarrow> string" where
  "simulation_path f = ''$prepared_execution.simulation.'' @ f"

definition check_simulation ::
  "serializer \<Rightarrow> pydict \<Rightarrow> constraints \<Rightarrow> int \<Rightarrow> int res" where
  "check_simulation jcs prepared c current =
     bind_res (au_closed (item prepared ''simulation'') simulation_required simulation_optional
       ''$prepared_execution.simulation'') (\<lambda>simulation.
     bind_res (reject_if (item simulation ''success'' \<noteq> PBool True) (auth_invalid [])) (\<lambda>_.
     bind_res (au_safe_uint (item simulation ''slot'') (simulation_path ''slot'')) (\<lambda>_.
     bind_res (au_safe_uint (item simulation ''last_valid_block_height'')
       (simulation_path ''last_valid_block_height'')) (\<lambda>_.
     bind_res (au_safe_uint (item simulation ''units_consumed'') (simulation_path ''units_consumed'')) (\<lambda>_.
     bind_res (au_safe_uint (item simulation ''fee_lamports'') (simulation_path ''fee_lamports'')) (\<lambda>fee.
     bind_res (py_in (item simulation ''commitment_level'') [''confirmed'', ''finalized'']) (\<lambda>known.
     bind_res (reject_if (\<not> known) (auth_invalid [])) (\<lambda>_.
     bind_res (au_timestamp (item simulation ''simulated_at'') (simulation_path ''simulated_at'')) (\<lambda>simulation_time.
     bind_res (au_timestamp (item simulation ''valid_until'') (simulation_path ''valid_until'')) (\<lambda>simulation_expiry.
     bind_res (reject_if (current < simulation_time) (auth_invalid [])) (\<lambda>_.
     bind_res (reject_if (simulation_expiry \<le> current) auth_expired) (\<lambda>_.
     bind_res (reject_if (max_fee_lamports c < fee) (auth_invalid [])) (\<lambda>_.
     bind_res (simulation_attestation_hash jcs (PDict simulation)) (\<lambda>attestation.
     bind_res (reject_if (item prepared ''simulation_attestation_hash'' \<noteq> PStr attestation)
       (auth_invalid [])) (\<lambda>_.
     Inr simulation_expiry)))))))))))))))"

definition prepared_window :: "pydict \<Rightarrow> int \<Rightarrow> int \<Rightarrow> int \<Rightarrow> int res" where
  "prepared_window prepared plan_expiry simulation_expiry current =
     bind_res (au_timestamp (item prepared ''expires_at'') ''$prepared_execution.expires_at'') (\<lambda>prepared_expiry.
     bind_res (reject_if (prepared_expiry \<le> current) auth_expired) (\<lambda>_.
     bind_res (reject_if (plan_expiry < prepared_expiry \<or> simulation_expiry < prepared_expiry)
       (auth_invalid [])) (\<lambda>_.
     Inr prepared_expiry)))"

definition grant_commitment :: "pydict \<Rightarrow> pydict \<Rightarrow> constraints \<Rightarrow> pyval" where
  "grant_commitment plan prepared c = PDict
     [(KStr ''protocol_version'', item prepared ''protocol_version''),
      (KStr ''normalization_profile'', PStr ''foundry-pay-domain-v1''),
      (KStr ''execution_request_id'', item prepared ''execution_request_id''),
      (KStr ''obligation_id'', item plan ''obligation_id''),
      (KStr ''executor_id'', item prepared ''executor_id''),
      (KStr ''executor_version'', item prepared ''executor_version''),
      (KStr ''economic_plan_hash'', item prepared ''economic_plan_hash''),
      (KStr ''prepared_message_hash'', item prepared ''prepared_message_hash''),
      (KStr ''simulation_attestation_hash'', item prepared ''simulation_attestation_hash''),
      (KStr ''signer'', item prepared ''signer''), (KStr ''constraints'', PDict (constraints_dict c)),
      (KStr ''expires_at'', item prepared ''expires_at'')]"

definition check_commitment :: "serializer \<Rightarrow> pydict \<Rightarrow> pydict \<Rightarrow> constraints \<Rightarrow> unit res" where
  "check_commitment jcs plan prepared c =
     bind_res (execution_commitment_hash jcs (grant_commitment plan prepared c)) (\<lambda>h.
     reject_if (item prepared ''execution_commitment_hash'' \<noteq> PStr h) (auth_invalid []))"

text \<open>The expiry of the grant: the ttl, cut by the three expiries.\<close>

definition grant_expiry :: "int \<Rightarrow> int \<Rightarrow> int \<Rightarrow> int \<Rightarrow> int \<Rightarrow> int res" where
  "grant_expiry current ttl_seconds plan_expiry simulation_expiry prepared_expiry =
     bind_res (reject_if (datetime_max < current + ttl_seconds * 1000000) (PyRaise ''OverflowError'')) (\<lambda>_.
     let expires_at = min (min (min (current + ttl_seconds * 1000000) plan_expiry) simulation_expiry) prepared_expiry
     in bind_res (reject_if (expires_at \<le> current) auth_expired) (\<lambda>_. Inr expires_at))"

definition unsigned_authorization :: "grant_request \<Rightarrow> pydict \<Rightarrow> int \<Rightarrow> int \<Rightarrow> pydict" where
  "unsigned_authorization g prepared current expires_at =
     [(KStr ''type'', PStr ''execution_authorization''), (KStr ''protocol_version'', PStr ''1.0.0''),
      (KStr ''authorization_id'', gr_authorization_id g),
      (KStr ''execution_request_id'', item prepared ''execution_request_id''),
      (KStr ''execution_commitment_hash'', item prepared ''execution_commitment_hash''),
      (KStr ''prepared_message_hash'', item prepared ''prepared_message_hash''),
      (KStr ''signer'', item prepared ''signer''), (KStr ''single_use'', PBool True),
      (KStr ''issued_at'', PStr (strftime_utc current)), (KStr ''expires_at'', PStr (strftime_utc expires_at))]"

definition sign_grant :: "serializer \<Rightarrow> signature_provider \<Rightarrow> pydict \<Rightarrow> pydict res" where
  "sign_grant jcs sp body =
     bind_res (authorization_signing_payload jcs body) (\<lambda>payload.
     bind_res (sp payload) (\<lambda>signature.
     bind_res (reject_if (case signature of PStr s \<Rightarrow> \<not> (1 \<le> py_len s \<and> py_len s \<le> 4096) | _ \<Rightarrow> True)
       (auth_invalid [])) (\<lambda>_.
     Inr (body @ [(KStr ''authorization_signature'', signature)]))))"

definition grant_fingerprint :: "serializer \<Rightarrow> pydict \<Rightarrow> pydict \<Rightarrow> pydict \<Rightarrow> string res" where
  "grant_fingerprint jcs plan prepared body =
     bind_res (canonicalize jcs (PDict
       [(KStr ''economic_plan'', PDict plan), (KStr ''prepared_execution'', PDict prepared),
        (KStr ''authorization'', PDict body)])) (\<lambda>b. Inr (sha256_digest b))"

text \<open>
  Everything \<^verbatim>\<open>ExecutionAuthorizationAuthority.issue\<close> does before it calls the journal: the signed
  authorization, the obligation and the fingerprint.
\<close>

definition check_grant ::
  "serializer \<Rightarrow> int \<Rightarrow> grant_request \<Rightarrow> int \<Rightarrow> (pydict \<times> pydict \<times> int) res" where
  "check_grant jcs max_ttl g current =
     bind_res (check_grant_arguments max_ttl g) (\<lambda>_.
     bind_res (grant_plan g current) (\<lambda>(plan, plan_expiry).
     bind_res (check_prepared_identity g) (\<lambda>prepared.
     bind_res (grant_constraints g prepared) (\<lambda>c.
     bind_res (check_grant_hashes jcs plan prepared) (\<lambda>_.
     bind_res (check_simulation jcs prepared c current) (\<lambda>simulation_expiry.
     bind_res (prepared_window prepared plan_expiry simulation_expiry current) (\<lambda>prepared_expiry.
     bind_res (check_commitment jcs plan prepared c) (\<lambda>_.
     bind_res (grant_expiry current (gr_ttl_seconds g) plan_expiry simulation_expiry prepared_expiry) (\<lambda>expires_at.
     Inr (plan, prepared, expires_at))))))))))"

definition make_grant ::
  "serializer \<Rightarrow> signature_provider \<Rightarrow> int \<Rightarrow> grant_request \<Rightarrow> int \<Rightarrow> (pydict \<times> string \<times> string) res" where
  "make_grant jcs sp max_ttl g current =
     bind_res (check_grant jcs max_ttl g current) (\<lambda>(plan, prepared, expires_at).
     let body = unsigned_authorization g prepared current expires_at in
     bind_res (sign_grant jcs sp body) (\<lambda>authorization.
     bind_res (grant_fingerprint jcs plan prepared body) (\<lambda>fingerprint.
     Inr (authorization, text_item plan ''obligation_id'', fingerprint))))"

definition authority_issue ::
  "serializer \<Rightarrow> signature_provider \<Rightarrow> int \<Rightarrow> grant_request \<Rightarrow> py_datetime \<Rightarrow> grant_journal \<Rightarrow>
   grant_journal \<times> pyval res" where
  "authority_issue jcs sp max_ttl g now rows =
     (case bind_res (aware_instant now) (\<lambda>t. make_grant jcs sp max_ttl g (to_seconds t)) of
        Inl e \<Rightarrow> (rows, Inl e)
      | Inr (authorization, obligation, fingerprint) \<Rightarrow>
          grant_journal_issue authorization obligation fingerprint (utc_datetime (to_seconds (instant now))) rows)"

text \<open>
  Several processes share the journal. \<^verbatim>\<open>issue\<close> and \<^verbatim>\<open>consume\<close> are one immediate transaction each. The
  UPDATE of \<^verbatim>\<open>state\<close> is a step of its own, decided by a read of the journal as it was any number of
  steps earlier.
\<close>

inductive grant_step :: "serializer \<Rightarrow> grant_journal \<Rightarrow> grant_journal \<Rightarrow> bool" for jcs where
  issue: "grant_step jcs rows (fst (authority_issue jcs sp max_ttl g now rows))"
| consume: "grant_step jcs rows (fst (consume aid now rows))"
| expire: "(grant_step jcs)\<^sup>*\<^sup>* earlier rows \<Longrightarrow> state_read aid now earlier = Inr (a, state, True) \<Longrightarrow>
    grant_step jcs rows (state_expire a rows)"

end
