(* ===== verification/Signer.thy ===== *)
theory Signer
  imports Authority Voucher
begin

text \<open>
  \<^verbatim>\<open>services/signer/boundary.py\<close>: the signer's own single-use journal (\<^verbatim>\<open>SignerJournal\<close>, one table keyed
  by \<open>so_id\<close>) and \<^verbatim>\<open>ExactMessageSigner.sign\<close>, which verifies a grant and passes only its exact message
  bytes to the signing provider. A \<^verbatim>\<open>SignerError\<close> carries the name of its subclass as its code. The
  verifier of authorization signatures and the signing provider are arguments.
\<close>

definition signer_error :: "string \<Rightarrow> string \<Rightarrow> exn" where
  "signer_error subclass path = Exn SignerError subclass path"

abbreviation signer_invalid :: "string \<Rightarrow> exn" where
  "signer_invalid \<equiv> signer_error ''SignerInvalid''"

abbreviation signer_expired :: exn where
  "signer_expired \<equiv> signer_error ''SignerExpired'' []"

abbreviation signer_replay :: exn where
  "signer_replay \<equiv> signer_error ''SignerReplay'' []"

abbreviation signer_needs_recovery :: exn where
  "signer_needs_recovery \<equiv> signer_error ''SignerNeedsRecovery'' []"

definition sg_authorization_fields :: "string list" where
  "sg_authorization_fields =
     [''type'', ''protocol_version'', ''authorization_id'', ''execution_request_id'',
      ''execution_commitment_hash'', ''prepared_message_hash'', ''signer'', ''single_use'', ''issued_at'',
      ''expires_at'', ''authorization_signature'']"

definition prepared_binding_fields :: "string list" where
  "prepared_binding_fields =
     [''type'', ''protocol_version'', ''execution_request_id'', ''economic_plan_hash'',
      ''prepared_message_base64'', ''prepared_message_hash'', ''execution_commitment_hash'', ''signer'']"

definition sg_timestamp :: "pyval \<Rightarrow> string \<Rightarrow> int res" where
  "sg_timestamp v path = timestamp_or (signer_invalid path) v"

definition sg_identifier :: "pyval \<Rightarrow> string \<Rightarrow> string res" where
  "sg_identifier v path = text_or (signer_invalid path) identifier_text v"

definition sg_hash :: "pyval \<Rightarrow> string \<Rightarrow> string res" where
  "sg_hash v path = text_or (signer_invalid path) hash_text v"

definition sg_pubkey :: "pyval \<Rightarrow> string \<Rightarrow> string res" where
  "sg_pubkey v path = pubkey_or (signer_invalid path) v"

definition sg_closed :: "pyval \<Rightarrow> string list \<Rightarrow> string \<Rightarrow> bool \<Rightarrow> pydict res" where
  "sg_closed v names path allow_additional = closed_or (signer_invalid path) allow_additional v names []"

definition decode_canonical_base64 :: "pyval \<Rightarrow> string res" where
  "decode_canonical_base64 v =
     (case v of
        PStr s \<Rightarrow>
          (if s = [] then Inl (signer_invalid ''$prepared_execution.prepared_message_base64'')
           else case b64decode_strict s of
             None \<Rightarrow> Inl (signer_invalid [])
           | Some message \<Rightarrow>
               (if message = [] \<or> b64encode message \<noteq> s then Inl (signer_invalid []) else Inr message))
      | _ \<Rightarrow> Inl (signer_invalid ''$prepared_execution.prepared_message_base64''))"

section \<open>The journal\<close>

datatype signing_state = OpSigning | OpSigned | OpNeedsRecovery

record signer_row =
  so_id :: string
  so_request_id :: string
  so_message_hash :: string
  so_signer :: string
  so_state :: signing_state
  so_claimed_at :: string
  so_completed_at :: "string option"
  so_envelope :: "string option"
  so_receipt :: "pyval option"

type_synonym signer_journal = "signer_row list"

definition claim_tx ::
  "string \<Rightarrow> string \<Rightarrow> string \<Rightarrow> string \<Rightarrow> string \<Rightarrow> signer_journal \<Rightarrow> (signer_journal \<times> unit) res" where
  "claim_tx aid request message_hash signer timestamp rows =
     (case select_row so_id rows aid of
        Some existing \<Rightarrow>
          (if so_request_id existing \<noteq> request \<or> so_message_hash existing \<noteq> message_hash \<or> so_signer existing \<noteq> signer
           then Inl (signer_invalid [])
           else if so_state existing = OpSigning \<or> so_state existing = OpNeedsRecovery then Inl signer_needs_recovery
           else Inl signer_replay)
      | None \<Rightarrow>
          Inr (insert_row \<lparr>so_id = aid, so_request_id = request, so_message_hash = message_hash,
             so_signer = signer, so_state = OpSigning, so_claimed_at = timestamp, so_completed_at = None,
             so_envelope = None, so_receipt = None\<rparr> rows, ()))"

definition claim ::
  "string \<Rightarrow> string \<Rightarrow> string \<Rightarrow> string \<Rightarrow> int \<Rightarrow> signer_journal \<Rightarrow> signer_journal \<times> unit res" where
  "claim aid request message_hash signer now rows =
     transaction rows (claim_tx aid request message_hash signer (strftime_utc now) rows)"

text \<open>
  \<^verbatim>\<open>complete\<close> and \<^verbatim>\<open>mark_needs_recovery\<close> touch a row only while it is in state 'signing'; \<^verbatim>\<open>rowcount\<close> tells
  whether there was one. The envelope is the one text of a receipt that validation leaves free, so it
  alone can fail to encode.
\<close>

definition signing_rows :: "string \<Rightarrow> signer_journal \<Rightarrow> signer_row list" where
  "signing_rows aid rows = filter (\<lambda>r. so_id r = aid \<and> so_state r = OpSigning) rows"

definition mark_signed :: "string \<Rightarrow> string \<Rightarrow> pyval \<Rightarrow> signer_row \<Rightarrow> signer_row" where
  "mark_signed timestamp envelope receipt r =
     (if so_state r = OpSigning
      then r\<lparr>so_state := OpSigned, so_completed_at := Some timestamp, so_envelope := Some envelope,
             so_receipt := Some receipt\<rparr>
      else r)"

definition sign_complete_tx ::
  "string \<Rightarrow> string \<Rightarrow> pydict \<Rightarrow> string \<Rightarrow> signer_journal \<Rightarrow> (signer_journal \<times> unit) res" where
  "sign_complete_tx aid envelope receipt timestamp rows =
     bind_res (json_dumps True (PDict receipt)) (\<lambda>stored.
     bind_res (reject_if (has_surrogate envelope) (PyRaise ''UnicodeEncodeError'')) (\<lambda>_.
     bind_res (reject_if (length (signing_rows aid rows) \<noteq> 1) signer_needs_recovery) (\<lambda>_.
     Inr (update_row so_id aid (mark_signed timestamp envelope stored) rows, ()))))"

definition complete ::
  "string \<Rightarrow> string \<Rightarrow> pydict \<Rightarrow> int \<Rightarrow> signer_journal \<Rightarrow> signer_journal \<times> unit res" where
  "complete aid envelope receipt now rows =
     transaction rows (sign_complete_tx aid envelope receipt (strftime_utc now) rows)"

definition mark_needs_recovery :: "string \<Rightarrow> signer_journal \<Rightarrow> signer_journal" where
  "mark_needs_recovery aid rows =
     update_row so_id aid (\<lambda>r. if so_state r = OpSigning then r\<lparr>so_state := OpNeedsRecovery\<rparr> else r) rows"

definition signer_status :: "pyval \<Rightarrow> signer_journal \<Rightarrow> signer_row res" where
  "signer_status aid rows =
     bind_res (sg_identifier aid ''$authorization_id'') (\<lambda>a.
     case select_row so_id rows a of None \<Rightarrow> Inl (signer_invalid []) | Some row \<Rightarrow> Inr row)"

section \<open>Signing\<close>

type_synonym grant_verifier = "string \<Rightarrow> string \<Rightarrow> verdict"

text \<open>
  The provider has a state of its own, of any type, which every call changes. A call gets that state,
  the journal as the database holds it at the time, the message and the signer; it returns a value or
  raises, and leaves its next state.
\<close>

type_synonym 'w signing_provider = "'w \<Rightarrow> signer_journal \<Rightarrow> string \<Rightarrow> string \<Rightarrow> pyval option \<times> 'w"

text \<open>The values \<^verbatim>\<open>sign\<close> has checked when it reaches the journal.\<close>

record signing_order =
  od_authorization_id :: string
  od_request_id :: string
  od_commitment_hash :: string
  od_message_hash :: string
  od_signer :: string
  od_message :: string

definition signer_init :: "pyval \<Rightarrow> string res" where
  "signer_init signer_id = sg_pubkey signer_id ''$signer_id''"

definition check_authentic :: "serializer \<Rightarrow> grant_verifier \<Rightarrow> pydict \<Rightarrow> unit res" where
  "check_authentic jcs gv authorized =
     (case item authorized ''authorization_signature'' of
        PStr s \<Rightarrow>
          (if s = [] then Inl (signer_invalid [])
           else case authorization_signing_payload jcs authorized of
             Inl e \<Rightarrow> Inl (signer_invalid [])
           | Inr payload \<Rightarrow> (case gv payload s of VTrue \<Rightarrow> Inr () | _ \<Rightarrow> Inl (signer_invalid [])))
      | _ \<Rightarrow> Inl (signer_invalid []))"

definition check_presented_grant ::
  "serializer \<Rightarrow> grant_verifier \<Rightarrow> string \<Rightarrow> pyval \<Rightarrow> int \<Rightarrow> (string \<times> string \<times> string \<times> string) res" where
  "check_presented_grant jcs gv signer_id authorization current =
     bind_res (sg_closed authorization sg_authorization_fields ''$authorization'' False) (\<lambda>authorized.
     bind_res (reject_if (item authorized ''type'' \<noteq> PStr ''execution_authorization'') (signer_invalid [])) (\<lambda>_.
     bind_res (reject_if (item authorized ''protocol_version'' \<noteq> PStr ''1.0.0'') (signer_invalid [])) (\<lambda>_.
     bind_res (sg_identifier (item authorized ''authorization_id'') ''$authorization.authorization_id'') (\<lambda>aid.
     bind_res (sg_identifier (item authorized ''execution_request_id'') ''$authorization.execution_request_id'') (\<lambda>request.
     bind_res (sg_hash (item authorized ''execution_commitment_hash'')
       ''$authorization.execution_commitment_hash'') (\<lambda>commitment.
     bind_res (sg_hash (item authorized ''prepared_message_hash'') ''$authorization.prepared_message_hash'') (\<lambda>message_hash.
     bind_res (sg_pubkey (item authorized ''signer'') ''$authorization.signer'') (\<lambda>signer.
     bind_res (reject_if (signer \<noteq> signer_id) (signer_invalid [])) (\<lambda>_.
     bind_res (reject_if (item authorized ''single_use'' \<noteq> PBool True) (signer_invalid [])) (\<lambda>_.
     bind_res (sg_timestamp (item authorized ''issued_at'') ''$authorization.issued_at'') (\<lambda>issued_at.
     bind_res (sg_timestamp (item authorized ''expires_at'') ''$authorization.expires_at'') (\<lambda>expires_at.
     bind_res (reject_if (current < issued_at) (signer_invalid [])) (\<lambda>_.
     bind_res (reject_if (expires_at \<le> current) signer_expired) (\<lambda>_.
     bind_res (check_authentic jcs gv authorized) (\<lambda>_.
     Inr (aid, request, commitment, message_hash))))))))))))))))"

definition check_prepared_binding ::
  "pyval \<Rightarrow> string \<Rightarrow> string \<Rightarrow> string \<Rightarrow> string \<Rightarrow> string res" where
  "check_prepared_binding prepared_execution request commitment message_hash signer =
     bind_res (sg_closed prepared_execution prepared_binding_fields ''$prepared_execution'' True) (\<lambda>prepared.
     bind_res (run_all
       [reject_if (item prepared ''type'' \<noteq> PStr ''prepared_execution'') (signer_invalid []),
        reject_if (item prepared ''protocol_version'' \<noteq> PStr ''1.0.0'') (signer_invalid []),
        reject_if (item prepared ''execution_request_id'' \<noteq> PStr request) (signer_invalid []),
        reject_if (item prepared ''execution_commitment_hash'' \<noteq> PStr commitment) (signer_invalid []),
        reject_if (item prepared ''prepared_message_hash'' \<noteq> PStr message_hash) (signer_invalid []),
        reject_if (item prepared ''signer'' \<noteq> PStr signer) (signer_invalid [])]) (\<lambda>_.
     bind_res (decode_canonical_base64 (item prepared ''prepared_message_base64'')) (\<lambda>message.
     bind_res (prepared_message_hash message) (\<lambda>h.
     bind_res (reject_if (h \<noteq> message_hash) (signer_invalid [])) (\<lambda>_.
     Inr message)))))"

definition check_order ::
  "serializer \<Rightarrow> grant_verifier \<Rightarrow> string \<Rightarrow> pyval \<Rightarrow> pyval \<Rightarrow> py_datetime \<Rightarrow> (signing_order \<times> int) res" where
  "check_order jcs gv signer_id prepared_execution authorization now =
     bind_res (aware_instant now) (\<lambda>t.
     let current = to_seconds t in
     bind_res (check_presented_grant jcs gv signer_id authorization current) (\<lambda>(aid, request, commitment, message_hash).
     bind_res (check_prepared_binding prepared_execution request commitment message_hash signer_id) (\<lambda>message.
     Inr (\<lparr>od_authorization_id = aid, od_request_id = request, od_commitment_hash = commitment,
           od_message_hash = message_hash, od_signer = signer_id, od_message = message\<rparr>, current))))"

definition signature_receipt :: "signing_order \<Rightarrow> string \<Rightarrow> int \<Rightarrow> pydict" where
  "signature_receipt od envelope current =
     [(KStr ''type'', PStr ''message_signature_receipt''), (KStr ''protocol_version'', PStr ''1.0.0''),
      (KStr ''authorization_id'', PStr (od_authorization_id od)),
      (KStr ''execution_request_id'', PStr (od_request_id od)),
      (KStr ''execution_commitment_hash'', PStr (od_commitment_hash od)),
      (KStr ''prepared_message_hash'', PStr (od_message_hash od)), (KStr ''signer'', PStr (od_signer od)),
      (KStr ''signature_envelope'', PStr envelope), (KStr ''signed_at'', PStr (strftime_utc current))]"

definition claim_order :: "signing_order \<Rightarrow> int \<Rightarrow> signer_journal \<Rightarrow> signer_journal \<times> unit res" where
  "claim_order od current rows =
     claim (od_authorization_id od) (od_request_id od) (od_message_hash od) (od_signer od) current rows"

text \<open>What follows the provider's answer: the receipt is stored, or the row is set aside.\<close>

definition sign_finish ::
  "signing_order \<Rightarrow> int \<Rightarrow> pyval option \<Rightarrow> signer_journal \<Rightarrow> signer_journal \<times> pyval res" where
  "sign_finish od current answer rows =
     (let failed = \<lambda>db. (mark_needs_recovery (od_authorization_id od) db, Inl signer_needs_recovery) in
      case answer of
        Some (PStr envelope) \<Rightarrow>
          (if envelope = [] then failed rows
           else
             (let receipt = signature_receipt od envelope current in
              case complete (od_authorization_id od) envelope receipt current rows of
                (db, Inl e) \<Rightarrow> failed db
              | (db, Inr _) \<Rightarrow> (db, Inr (PDict receipt))))
      | _ \<Rightarrow> failed rows)"

definition sign ::
  "serializer \<Rightarrow> grant_verifier \<Rightarrow> 'w signing_provider \<Rightarrow> string \<Rightarrow> pyval \<Rightarrow> pyval \<Rightarrow> py_datetime \<Rightarrow> 'w \<Rightarrow>
   signer_journal \<Rightarrow> 'w \<times> signer_journal \<times> pyval res" where
  "sign jcs gv provider signer_id prepared_execution authorization now w rows =
     (case check_order jcs gv signer_id prepared_execution authorization now of
        Inl e \<Rightarrow> (w, rows, Inl e)
      | Inr (od, current) \<Rightarrow>
          (case claim_order od current rows of
             (rows', Inl e) \<Rightarrow> (w, rows', Inl e)
           | (rows', Inr _) \<Rightarrow>
               (case provider w rows' (od_message od) (od_signer od) of
                  (answer, w') \<Rightarrow> (w', sign_finish od current answer rows'))))"

section \<open>Concurrent signers\<close>

text \<open>
  Several signer processes share one journal, and each transaction of \<^verbatim>\<open>sign\<close> is a step of its own.
  \<open>in_flight\<close> holds the orders that processes have claimed and not finished; the label of a claim is
  the order whose message the process then passes to the provider, once, and the time it was checked at. A process may die at any
  point after its claim, and an operator may set a row aside.
\<close>

record signer_system =
  sy_journal :: signer_journal
  sy_in_flight :: "(signing_order \<times> int) list"

datatype signer_label = Signs signing_order int | Internal

inductive signer_step ::
  "serializer \<Rightarrow> grant_verifier \<Rightarrow> string \<Rightarrow> signer_system \<Rightarrow> signer_label \<Rightarrow> signer_system \<Rightarrow> bool"
  for jcs gv signer_id where
  claimed: "check_order jcs gv signer_id p a t = Inr (od, current) \<Longrightarrow>
    claim_order od current (sy_journal s) = (rows, Inr ()) \<Longrightarrow>
    signer_step jcs gv signer_id s (Signs od current)
      (s\<lparr>sy_journal := rows, sy_in_flight := (od, current) # sy_in_flight s\<rparr>)"
| finished: "(od, current) \<in> set (sy_in_flight s) \<Longrightarrow>
    signer_step jcs gv signer_id s Internal
      (s\<lparr>sy_journal := fst (sign_finish od current answer (sy_journal s)),
         sy_in_flight := remove1 (od, current) (sy_in_flight s)\<rparr>)"
| died: "signer_step jcs gv signer_id s Internal (s\<lparr>sy_in_flight := remove1 oc (sy_in_flight s)\<rparr>)"
| set_aside: "signer_step jcs gv signer_id s Internal (s\<lparr>sy_journal := mark_needs_recovery aid (sy_journal s)\<rparr>)"

inductive signer_run ::
  "serializer \<Rightarrow> grant_verifier \<Rightarrow> string \<Rightarrow> signer_system \<Rightarrow> signer_label list \<Rightarrow> signer_system \<Rightarrow> bool"
  for jcs gv signer_id where
  run_nil: "signer_run jcs gv signer_id s [] s"
| run_snoc: "signer_run jcs gv signer_id s ls s' \<Longrightarrow> signer_step jcs gv signer_id s' l s'' \<Longrightarrow>
    signer_run jcs gv signer_id s (ls @ [l]) s''"

definition empty_signer :: signer_system where
  "empty_signer = \<lparr>sy_journal = [], sy_in_flight = []\<rparr>"

end
