(* ===== verification/Lifecycle.thy ===== *)
theory Lifecycle
  imports Tables
begin

text \<open>
  The interface of a table whose rows are never deleted and only move along a state graph: every
  step keeps each row, with the columns that never change, in a state that the graph reaches. From it,
  rows persist along every run, and a row in a final state stays in it.
\<close>

locale row_lifecycle =
  fixes step :: "'t \<Rightarrow> 't \<Rightarrow> bool"
    and rows :: "'t \<Rightarrow> 'r list"
    and fixed :: "'r \<Rightarrow> 'f"
    and stage :: "'r \<Rightarrow> 's"
    and edge :: "'s \<Rightarrow> 's \<Rightarrow> bool"
  assumes step_row: "step t t' \<Longrightarrow> r \<in> set (rows t) \<Longrightarrow>
    \<exists>r'\<in>set (rows t'). fixed r' = fixed r \<and> edge\<^sup>*\<^sup>* (stage r) (stage r')"
begin

lemma run_keeps:
  "step\<^sup>*\<^sup>* t t' \<Longrightarrow> r \<in> set (rows t) \<Longrightarrow>
     \<exists>r'\<in>set (rows t'). fixed r' = fixed r \<and> edge\<^sup>*\<^sup>* (stage r) (stage r')"
proof (induction rule: rtranclp_induct)
  case base
  then show ?case by blast
next
  case (step y z)
  then obtain r' where r': "r' \<in> set (rows y)" "fixed r' = fixed r" "edge\<^sup>*\<^sup>* (stage r) (stage r')" by blast
  from step_row [OF step.hyps(2) r'(1)] show ?case
    using r'(2,3) by (metis rtranclp_trans)
qed

lemma final_stage: "\<forall>s. \<not> edge a s \<Longrightarrow> edge\<^sup>*\<^sup>* a b \<Longrightarrow> b = a"
  by (erule converse_rtranclpE) auto

lemma run_final:
  assumes "step\<^sup>*\<^sup>* t t'" "r \<in> set (rows t)" "\<forall>s. \<not> edge (stage r) s"
  shows "\<exists>r'\<in>set (rows t'). fixed r' = fixed r \<and> stage r' = stage r"
  using run_keeps [OF assms(1,2)] final_stage [OF assms(3)] by blast

end

text \<open>A table changed row by row, or by a row at its end, keeps its rows.\<close>

lemma mapped_row:
  assumes "r \<in> set t" "fixed (f r) = fixed r" "edge\<^sup>*\<^sup>* (stage r) (stage (f r))"
  shows "\<exists>r'\<in>set (map f t). fixed r' = fixed r \<and> edge\<^sup>*\<^sup>* (stage r) (stage r')"
  using assms by auto

end
