(* ===== verification/Authority_Facts.thy ===== *)
theory Authority_Facts
  imports Authority Lifecycle
begin

text \<open>
  The invariant of the authorization journal, which every step of the service keeps, and inversions
  of the checks the authority makes.
\<close>

section \<open>The journal\<close>

text \<open>
  The stage of a row is its state and the time it was consumed at. A late expiry overwrites the state
  of a consumed row, never that time.
\<close>

definition grant_stage :: "authorization_row \<Rightarrow> grant_state \<times> string option" where
  "grant_stage r = (au_state r, au_consumed_at r)"

inductive grant_edge :: "grant_state \<times> string option \<Rightarrow> grant_state \<times> string option \<Rightarrow> bool" where
  "grant_edge (GIssued, None) (GConsumed, Some t)"
| "grant_edge (GIssued, c) (GExpired, c)"
| "grant_edge (GConsumed, c) (GExpired, c)"

inductive_simps grant_edge_simps [simp]: "grant_edge (a, c) (b, d)"

definition grant_columns :: "authorization_row \<Rightarrow> string \<times> string \<times> string \<times> string \<times> pyval \<times> string \<times> string" where
  "grant_columns r =
     (au_id r, au_request_id r, au_obligation_id r, au_fingerprint r, au_json r, au_issued_at r, au_expires_at r)"

definition live_grants :: "grant_journal \<Rightarrow> authorization_row list" where
  "live_grants rows = filter (\<lambda>r. au_state r = GIssued) rows"

definition consumption_ok :: "authorization_row \<Rightarrow> bool" where
  "consumption_ok r \<longleftrightarrow>
     (case au_consumed_at r of None \<Rightarrow> au_state r \<noteq> GConsumed
      | Some t \<Rightarrow> au_state r \<noteq> GIssued \<and> t < au_expires_at r)"

definition grants_ok :: "grant_journal \<Rightarrow> bool" where
  "grants_ok rows \<longleftrightarrow>
     distinct (map au_id rows) \<and> distinct (map au_request_id (live_grants rows)) \<and>
     distinct (map au_obligation_id (live_grants rows)) \<and> (\<forall>r\<in>set rows. consumption_ok r)"

interpretation grant_table: keyed_table au_id "select_row au_id" insert_row "update_row au_id"
  by (rule keyed_rows)

text \<open>A change of rows that only retires grants: it keeps the columns and follows the graph.\<close>

definition retires :: "(authorization_row \<Rightarrow> authorization_row) \<Rightarrow> bool" where
  "retires f \<longleftrightarrow> (\<forall>r. grant_columns (f r) = grant_columns r \<and> (au_state (f r) = GIssued \<longrightarrow> f r = r) \<and>
     (consumption_ok r \<longrightarrow> grant_edge\<^sup>*\<^sup>* (grant_stage r) (grant_stage (f r)) \<and> consumption_ok (f r)))"

lemma live_map_retires:
  assumes "retires f"
  shows "live_grants (map f rows) = filter (\<lambda>r. au_state (f r) = GIssued) (live_grants rows)"
proof -
  have "f r = r \<and> au_state r = GIssued" if "au_state (f r) = GIssued" for r
    using assms that unfolding retires_def by metis
  then show ?thesis unfolding live_grants_def by (induction rows) auto
qed

lemma grants_ok_map:
  assumes "grants_ok rows" "retires f"
  shows "grants_ok (map f rows)"
proof -
  have "map au_id (map f rows) = map au_id rows"
    using assms(2) by (auto simp: retires_def grant_columns_def)
  moreover have "\<forall>r\<in>set (map f rows). consumption_ok r"
    using assms by (auto simp: retires_def grants_ok_def)
  ultimately show ?thesis
    using assms(1)
    by (simp add: grants_ok_def live_map_retires [OF assms(2)] distinct_map_filter del: map_map)
qed

lemma expire_retires: "retires (\<lambda>r. if au_state r = GIssued \<and> au_expires_at r \<le> ts then r\<lparr>au_state := GExpired\<rparr> else r)"
  by (auto simp: retires_def grant_columns_def consumption_ok_def grant_stage_def split: option.splits)

lemma state_expire_retires: "retires (\<lambda>r. if au_id r = k then r\<lparr>au_state := GExpired\<rparr> else r)"
proof -
  have "grant_edge\<^sup>*\<^sup>* (st, c) (GExpired, c)" for st c
    by (cases st) auto
  then show ?thesis
    by (auto simp: retires_def grant_columns_def consumption_ok_def grant_stage_def split: option.splits)
qed

lemma consume_retires:
  "retires (\<lambda>r. if au_id r = k \<and> ts < au_expires_at r then mark_consumed ts r else r)"
  by (auto simp: retires_def grant_columns_def consumption_ok_def mark_consumed_def grant_stage_def
      split: option.splits)

text \<open>What a step of the service does to the journal.\<close>

inductive grant_effect :: "grant_journal \<Rightarrow> grant_journal \<Rightarrow> bool" where
  unchanged: "grant_effect rows rows"
| retired: "retires f \<Longrightarrow> grant_effect rows (map f rows)"
| granted: "swept = expire_issued ts rows \<Longrightarrow> select_row au_id swept (au_id row) = None \<Longrightarrow>
    \<not> list_ex (active_for ts (au_request_id row) (au_obligation_id row)) swept \<Longrightarrow>
    au_state row = GIssued \<Longrightarrow> au_consumed_at row = None \<Longrightarrow> grant_effect rows (insert_row row swept)"

lemma issue_tx_effect:
  assumes "issue_tx authorization ob fp ts rows = Inr (rows', v)"
  shows "grant_effect rows rows'"
proof (cases "select_row au_id (expire_issued ts rows) (text_item authorization ''authorization_id'')")
  case None
  with assms obtain stored where
    na: "\<not> list_ex (active_for ts (text_item authorization ''execution_request_id'') ob) (expire_issued ts rows)"
    and rows': "rows' = insert_row (grant_row authorization ob fp stored) (expire_issued ts rows)"
    by (auto simp: issue_tx_def Let_def res_simps split: if_splits)
  show ?thesis unfolding rows'
    by (rule grant_effect.granted [OF refl]) (use None na in \<open>simp_all add: grant_row_def\<close>)
next
  case (Some row)
  with assms have "rows' = expire_issued ts rows"
    by (auto simp: issue_tx_def Let_def split: if_splits grant_state.splits)
  then show ?thesis using grant_effect.retired [OF expire_retires] by (simp add: expire_issued_def)
qed

lemma update_on_row:
  assumes "distinct (map au_id rows)" "select_row au_id rows k = Some row" "P row"
  shows "update_row au_id k f rows = map (\<lambda>r. if au_id r = k \<and> P r then f r else r) rows"
proof -
  have "r = row" if "r \<in> set rows" "au_id r = k" for r
    using select_row_unique [OF assms(1) that(1)] assms(2) that(2) by simp
  with assms(3) show ?thesis by (auto simp: update_row_def)
qed

lemma consume_tx_effect:
  assumes "consume_tx k ts rows = Inr (rows', v)" "distinct (map au_id rows)"
  shows "grant_effect rows rows'"
proof -
  obtain row where row: "select_row au_id rows k = Some row" "ts < au_expires_at row"
    and rows': "rows' = update_row au_id k (mark_consumed ts) rows"
    using assms(1) by (auto simp: consume_tx_def not_le split: option.splits if_splits)
  show ?thesis unfolding rows' update_on_row [OF assms(2) row(1), of "\<lambda>r. ts < au_expires_at r", OF row(2)]
    by (rule grant_effect.retired [OF consume_retires])
qed

lemma state_expire_effect: "grant_effect rows (state_expire k rows)"
  unfolding state_expire_def update_row_def by (rule grant_effect.retired [OF state_expire_retires])

lemma transaction_effect:
  "(\<And>d x. m = Inr (d, x) \<Longrightarrow> grant_effect rows d) \<Longrightarrow> grant_effect rows (fst (transaction rows m))"
  by (rule fst_transaction) (auto intro: grant_effect.unchanged)

lemma grant_step_effect:
  assumes "grant_step jcs rows rows'" "distinct (map au_id rows)"
  shows "grant_effect rows rows'"
  using assms(1)
proof cases
  case (issue sp max_ttl g now)
  then show ?thesis
    by (auto simp: authority_issue_def grant_journal_issue_def intro!: transaction_effect
        intro: grant_effect.unchanged issue_tx_effect split: sum.splits prod.splits)
next
  case (consume aid now)
  with assms(2) show ?thesis
    by (auto simp: consume_def intro!: transaction_effect intro: grant_effect.unchanged consume_tx_effect
        split: sum.splits prod.splits)
next
  case (expire earlier aid now a state)
  then show ?thesis by (simp add: state_expire_effect)
qed

text \<open>The sequential \<^verbatim>\<open>state\<close> is a run of steps.\<close>

lemma journal_state_steps: "(grant_step jcs)\<^sup>*\<^sup>* rows (fst (journal_state aid now rows))"
  using grant_step.expire [OF rtranclp.rtrancl_refl]
  by (auto simp: journal_state_def split: sum.splits prod.splits)

lemma not_active_live:
  assumes "\<not> list_ex (active_for ts q ob) (expire_issued ts rows)" "r \<in> set (live_grants (expire_issued ts rows))"
  shows "au_request_id r \<noteq> q \<and> au_obligation_id r \<noteq> ob"
proof -
  have r: "r \<in> set (expire_issued ts rows)" "au_state r = GIssued"
    using assms(2) by (auto simp: live_grants_def)
  then have "ts < au_expires_at r" by (auto simp: expire_issued_def not_le split: if_splits)
  with r assms(1) show ?thesis by (auto simp: active_for_def list_ex_iff)
qed

lemma effect_keeps_grants:
  assumes "grant_effect rows rows'" "grants_ok rows"
  shows "grants_ok rows'"
  using assms
proof cases
  case (retired f)
  with assms(2) show ?thesis by (simp add: grants_ok_map)
next
  case (granted swept ts row)
  have ok: "grants_ok swept"
    using grants_ok_map [OF assms(2) expire_retires] granted(2) by (simp add: expire_issued_def)
  have "live_grants (insert_row row swept) = live_grants swept @ [row]"
    using granted by (simp add: live_grants_def insert_row_def)
  moreover have "au_id row \<notin> set (map au_id swept)"
    using granted(3) by (auto simp: select_row_None)
  moreover have "au_request_id row \<notin> au_request_id ` set (live_grants swept)"
    "au_obligation_id row \<notin> au_obligation_id ` set (live_grants swept)"
    using not_active_live [of ts "au_request_id row" "au_obligation_id row" rows] granted(2,4)
    by (metis imageE)+
  moreover have "consumption_ok row" using granted by (simp add: consumption_ok_def)
  ultimately show ?thesis using ok granted(1) by (simp add: grants_ok_def insert_row_def)
qed simp

lemma grant_step_inv: "grants_ok rows \<Longrightarrow> grant_step jcs rows rows' \<Longrightarrow> grants_ok rows'"
  using grant_step_effect [of jcs rows rows'] effect_keeps_grants by (simp add: grants_ok_def)

interpretation grants: preserved "grant_step jcs" grants_ok for jcs
  by unfold_locales (rule grant_step_inv)

text \<open>Rows persist and move along the graph.\<close>

definition valid_grant_step :: "serializer \<Rightarrow> grant_journal \<Rightarrow> grant_journal \<Rightarrow> bool" where
  "valid_grant_step jcs rows rows' \<longleftrightarrow> grants_ok rows \<and> grant_step jcs rows rows'"

interpretation grant_rows: row_lifecycle "valid_grant_step jcs" "\<lambda>rows. rows" grant_columns grant_stage grant_edge for jcs
proof
  fix rows rows' r
  assume "valid_grant_step jcs rows rows'" and r: "r \<in> set rows"
  then have "grant_effect rows rows'" and ok: "consumption_ok r"
    by (auto simp: valid_grant_step_def grants_ok_def intro: grant_step_effect)
  then show "\<exists>r'\<in>set rows'. grant_columns r' = grant_columns r \<and> grant_edge\<^sup>*\<^sup>* (grant_stage r) (grant_stage r')"
  proof cases
    case (retired f)
    with r ok show ?thesis by (auto simp: retires_def)
  next
    case (granted swept ts row)
    have "\<exists>r'\<in>set swept. grant_columns r' = grant_columns r \<and> grant_edge\<^sup>*\<^sup>* (grant_stage r) (grant_stage r')"
      unfolding granted(2) expire_issued_def
      by (rule mapped_row [OF r]) (use expire_retires [of ts] ok in \<open>auto simp: retires_def\<close>)
    with granted(1) show ?thesis by (auto simp: insert_row_def)
  qed (use r in blast)
qed

lemma grant_run_valid:
  assumes "(grant_step jcs)\<^sup>*\<^sup>* rows rows'" "grants_ok rows"
  shows "(valid_grant_step jcs)\<^sup>*\<^sup>* rows rows'"
  using assms(1)
proof (induction rule: rtranclp_induct)
  case (step y z)
  have "grants_ok y" using step.hyps(1) assms(2) by (rule grants.steps_inv)
  with step show ?case by (auto simp: valid_grant_step_def intro: rtranclp.rtrancl_into_rtrancl)
qed simp

text \<open>Once consumed, a row keeps the time and is consumed or, after a late expiry, expired.\<close>

lemma consumed_stages: "grant_edge\<^sup>*\<^sup>* (GConsumed, c) s \<Longrightarrow> s = (GConsumed, c) \<or> s = (GExpired, c)"
proof (induction rule: rtranclp_induct)
  case (step y z)
  then show ?case by (cases z) auto
qed simp

lemma grants_ok_Nil [simp]: "grants_ok []"
  by (simp add: grants_ok_def live_grants_def)

section \<open>What the authority checks\<close>

lemma grant_plan_Inr:
  "grant_plan g current = Inr (plan, expiry) \<longleftrightarrow>
     normalize_economic_plan (gr_economic_plan g) = Inr plan \<and>
     au_timestamp (item plan ''expires_at'') ''$economic_plan.expires_at'' = Inr expiry \<and> current < expiry"
  by (auto simp: grant_plan_def bind_res_eq_Inr reject_if_eq_Inr)

lemma check_prepared_identityE:
  assumes "check_prepared_identity g = Inr prepared"
  obtains "gr_prepared_execution g = PDict prepared" "item prepared ''type'' = PStr ''prepared_execution''"
    "item prepared ''protocol_version'' = PStr ''1.0.0''"
    "item prepared ''execution_request_id'' = gr_execution_request_id g"
    "item prepared ''executor_id'' = gr_executor_id g" "item prepared ''signer'' = gr_signer g"
    "\<forall>k\<in>set au_prepared_fields. has_key prepared k"
  using assms unfolding check_prepared_identity_def au_closed_def
  by (auto simp: bind_res_eq_Inr run_all_Cons_Inr reject_if_eq_Inr closed_or_Inr simp del: run_all.simps(2))

lemma check_grant_hashesE:
  assumes "check_grant_hashes jcs plan prepared = Inr u"
  obtains encoded message where "economic_plan_hash jcs (PDict plan) = Inr (text_item prepared ''economic_plan_hash'')"
    "item prepared ''prepared_message_base64'' = PStr encoded" "b64decode_strict encoded = Some message"
    "message \<noteq> []" "item prepared ''prepared_message_hash'' = PStr (sha256_digest message)"
  using assms unfolding check_grant_hashes_def grant_message_def prepared_message_hash_def
  by (auto simp: res_simps text_item_def split: pyval.splits option.splits if_splits)

lemma check_simulationE:
  assumes "check_simulation jcs prepared c current = Inr expiry"
  obtains simulation fee simulated where "item prepared ''simulation'' = PDict simulation"
    "item simulation ''success'' = PBool True" "item simulation ''fee_lamports'' = PInt fee" "fee \<le> max_fee_lamports c"
    "au_timestamp (item simulation ''simulated_at'') (simulation_path ''simulated_at'') = Inr simulated"
    "simulated \<le> current"
    "au_timestamp (item simulation ''valid_until'') (simulation_path ''valid_until'') = Inr expiry" "current < expiry"
    "simulation_attestation_hash jcs (PDict simulation) = Inr (text_item prepared ''simulation_attestation_hash'')"
  using assms unfolding check_simulation_def au_closed_def au_safe_uint_def
  by (auto simp: bind_res_eq_Inr reject_if_eq_Inr closed_or_Inr safe_uint_or_Inr text_item_def not_less not_le)

lemma grant_expiry_Inr:
  assumes "grant_expiry current ttl p s q = Inr e"
  shows "current < e \<and> e \<le> current + ttl * 1000000 \<and> e \<le> p \<and> e \<le> s \<and> e \<le> q"
  using assms by (auto simp: grant_expiry_def Let_def res_simps not_le)

lemma prepared_window_Inr:
  assumes "prepared_window prepared p s current = Inr e"
  shows "au_timestamp (item prepared ''expires_at'') ''$prepared_execution.expires_at'' = Inr e \<and>
    current < e \<and> e \<le> p \<and> e \<le> s"
  using assms by (auto simp: prepared_window_def bind_res_eq_Inr reject_if_eq_Inr)

lemma check_grantE:
  assumes "check_grant jcs max_ttl g current = Inr (plan, prepared, e)"
  obtains c plan_expiry simulation_expiry prepared_expiry where
    "check_grant_arguments max_ttl g = Inr ()" "grant_plan g current = Inr (plan, plan_expiry)"
    "check_prepared_identity g = Inr prepared" "grant_constraints g prepared = Inr c"
    "check_grant_hashes jcs plan prepared = Inr ()" "check_simulation jcs prepared c current = Inr simulation_expiry"
    "prepared_window prepared plan_expiry simulation_expiry current = Inr prepared_expiry"
    "check_commitment jcs plan prepared c = Inr ()"
    "grant_expiry current (gr_ttl_seconds g) plan_expiry simulation_expiry prepared_expiry = Inr e"
  using assms unfolding check_grant_def
  by (auto simp: bind_unit_eq_Inr bind_res_eq_Inr split: prod.splits)

lemma make_grantE:
  assumes "make_grant jcs sp max_ttl g current = Inr (auth, ob, fp)"
  obtains plan prepared e payload signature where "check_grant jcs max_ttl g current = Inr (plan, prepared, e)"
    "authorization_signing_payload jcs (unsigned_authorization g prepared current e) = Inr payload"
    "sp payload = Inr (PStr signature)" "signature \<noteq> []"
    "auth = unsigned_authorization g prepared current e @ [(KStr ''authorization_signature'', PStr signature)]"
    "ob = text_item plan ''obligation_id''"
    "grant_fingerprint jcs plan prepared (unsigned_authorization g prepared current e) = Inr fp"
proof -
  from assms obtain plan prepared e where c: "check_grant jcs max_ttl g current = Inr (plan, prepared, e)"
    "sign_grant jcs sp (unsigned_authorization g prepared current e) = Inr auth"
    "ob = text_item plan ''obligation_id''"
    "grant_fingerprint jcs plan prepared (unsigned_authorization g prepared current e) = Inr fp"
    by (auto simp: make_grant_def Let_def bind_res_eq_Inr split: prod.splits)
  from c(2) obtain payload signature where
    "authorization_signing_payload jcs (unsigned_authorization g prepared current e) = Inr payload"
    "sp payload = Inr signature"
    "\<not> (case signature of PStr s \<Rightarrow> \<not> (1 \<le> py_len s \<and> py_len s \<le> 4096) | _ \<Rightarrow> True)"
    "auth = unsigned_authorization g prepared current e @ [(KStr ''authorization_signature'', signature)]"
    by (auto simp: sign_grant_def bind_res_eq_Inr reject_if_eq_Inr)
  with c show thesis by (cases signature) (auto simp: py_len_def intro: that)
qed

lemma authority_issueE:
  assumes "authority_issue jcs sp max_ttl g now rows = (rows', Inr a)"
  obtains auth ob fp where "utcoffset now \<noteq> None"
    "make_grant jcs sp max_ttl g (to_seconds (instant now)) = Inr (auth, ob, fp)"
    "issue_tx auth ob fp (strftime_utc (to_seconds (instant now))) rows = Inr (rows', a)"
  using assms unfolding authority_issue_def grant_journal_issue_def transaction_def
  by (auto simp: aware_instant_def
      split: sum.splits prod.splits option.splits)

lemma fresh_grant:
  assumes "issue_tx auth ob fp ts rows = Inr (rows', a)" "r \<in> set rows'" "\<forall>s\<in>set rows. au_id s \<noteq> au_id r"
  obtains stored where "r = grant_row auth ob fp stored" "a = PDict auth"
    "rows' = insert_row r (expire_issued ts rows)"
proof -
  have "au_id x \<in> au_id ` set rows" if "x \<in> set (expire_issued ts rows)" for x
    using that by (auto simp: expire_issued_def split: if_splits)
  then have "r \<notin> set (expire_issued ts rows)" using assms(3) by force
  with assms(1,2) show thesis
    by (auto simp: issue_tx_def Let_def res_simps insert_row_def intro: that split: option.splits if_splits grant_state.splits)
qed

lemma item_unsigned [simp]:
  fixes g prepared current e
  defines "u \<equiv> unsigned_authorization g prepared current e"
  shows "item (u @ x) ''authorization_id'' = gr_authorization_id g"
    and "item (u @ x) ''execution_request_id'' = item prepared ''execution_request_id''"
    and "item (u @ x) ''execution_commitment_hash'' = item prepared ''execution_commitment_hash''"
    and "item (u @ x) ''prepared_message_hash'' = item prepared ''prepared_message_hash''"
    and "item (u @ x) ''signer'' = item prepared ''signer''"
    and "item (u @ x) ''type'' = PStr ''execution_authorization''"
    and "item (u @ x) ''protocol_version'' = PStr ''1.0.0''"
    and "item (u @ x) ''single_use'' = PBool True"
    and "item (u @ x) ''issued_at'' = PStr (strftime_utc current)"
    and "item (u @ x) ''expires_at'' = PStr (strftime_utc e)"
    and "item (u @ [(KStr ''authorization_signature'', y)]) ''authorization_signature'' = y"
  by (simp_all add: u_def unsigned_authorization_def item_def)

text \<open>A row that an issue adds, with everything it was made from.\<close>

lemma fresh_issueE:
  assumes "authority_issue jcs sp max_ttl g now rows = (rows', Inr a)"
    and "r \<in> set rows'" "\<forall>s\<in>set rows. au_id s \<noteq> au_id r"
  obtains plan prepared e payload signature ob fp stored where
    "check_grant jcs max_ttl g (to_seconds (instant now)) = Inr (plan, prepared, e)"
    "authorization_signing_payload jcs (unsigned_authorization g prepared (to_seconds (instant now)) e) = Inr payload"
    "sp payload = Inr (PStr signature)" "signature \<noteq> []"
    "a = PDict (unsigned_authorization g prepared (to_seconds (instant now)) e @
       [(KStr ''authorization_signature'', PStr signature)])"
    "r = grant_row (unsigned_authorization g prepared (to_seconds (instant now)) e @
       [(KStr ''authorization_signature'', PStr signature)]) ob fp stored"
proof -
  obtain auth ob fp where m: "make_grant jcs sp max_ttl g (to_seconds (instant now)) = Inr (auth, ob, fp)"
    and tx: "issue_tx auth ob fp (strftime_utc (to_seconds (instant now))) rows = Inr (rows', a)"
    using assms(1) by (rule authority_issueE)
  obtain stored where "r = grant_row auth ob fp stored" "a = PDict auth"
    using tx assms(2,3) by (rule fresh_grant)
  with m show thesis by (auto elim!: make_grantE intro: that)
qed

end
