(* ===== verification/Signer_Facts.thy ===== *)
theory Signer_Facts
  imports Signer Authority_Facts
begin

text \<open>
  The invariant of the signer's journal over every interleaving of signer processes, what a checked
  order says, and that the signer accepts what the authority grants.
\<close>

section \<open>What a checked order says\<close>

definition licensed :: "serializer \<Rightarrow> grant_verifier \<Rightarrow> string \<Rightarrow> signing_order \<Rightarrow> int \<Rightarrow> bool" where
  "licensed jcs gv signer_id od current \<longleftrightarrow>
     (\<exists>authorized payload signature issued expires.
        item authorized ''authorization_id'' = PStr (od_authorization_id od) \<and>
        item authorized ''execution_request_id'' = PStr (od_request_id od) \<and>
        item authorized ''execution_commitment_hash'' = PStr (od_commitment_hash od) \<and>
        item authorized ''prepared_message_hash'' = PStr (sha256_digest (od_message od)) \<and>
        item authorized ''signer'' = PStr signer_id \<and> od_signer od = signer_id \<and>
        item authorized ''single_use'' = PBool True \<and>
        authorization_signing_payload jcs authorized = Inr payload \<and>
        item authorized ''authorization_signature'' = PStr signature \<and> gv payload signature = VTrue \<and>
        sg_timestamp (item authorized ''issued_at'') ''$authorization.issued_at'' = Inr issued \<and>
        sg_timestamp (item authorized ''expires_at'') ''$authorization.expires_at'' = Inr expires \<and>
        issued \<le> current \<and> current < expires)"

lemma check_authentic_Inr:
  "check_authentic jcs gv d = Inr u \<longleftrightarrow>
     (\<exists>s payload. item d ''authorization_signature'' = PStr s \<and> s \<noteq> [] \<and>
        authorization_signing_payload jcs d = Inr payload \<and> gv payload s = VTrue)"
  by (auto simp: check_authentic_def split: pyval.splits sum.splits verdict.splits)

lemma check_presented_grantE:
  assumes "check_presented_grant jcs gv signer_id a current = Inr (aid, request, commitment, message_hash)"
  obtains authorized issued expires where "a = PDict authorized"
    "item authorized ''authorization_id'' = PStr aid" "item authorized ''execution_request_id'' = PStr request"
    "item authorized ''execution_commitment_hash'' = PStr commitment"
    "item authorized ''prepared_message_hash'' = PStr message_hash" "item authorized ''signer'' = PStr signer_id"
    "item authorized ''single_use'' = PBool True" "check_authentic jcs gv authorized = Inr ()"
    "sg_timestamp (item authorized ''issued_at'') ''$authorization.issued_at'' = Inr issued"
    "sg_timestamp (item authorized ''expires_at'') ''$authorization.expires_at'' = Inr expires"
    "issued \<le> current" "current < expires"
  using assms unfolding check_presented_grant_def sg_closed_def sg_identifier_def sg_hash_def sg_pubkey_def
  by (auto simp: bind_res_eq_Inr bind_unit_eq_Inr reject_if_eq_Inr closed_or_Inr text_or_Inr pubkey_or_Inr
      not_le not_less)

lemma decode_canonical_base64_Inr:
  "decode_canonical_base64 v = Inr m \<longleftrightarrow> v = PStr (b64encode m) \<and> m \<noteq> []"
proof
  assume "v = PStr (b64encode m) \<and> m \<noteq> []"
  moreover have "m \<noteq> [] \<Longrightarrow> b64encode m \<noteq> []" using b64_strict_roundtrip [of m] by (auto simp: b64decode_strict_def)
  ultimately show "decode_canonical_base64 v = Inr m"
    by (simp add: decode_canonical_base64_def b64_strict_roundtrip)
qed (cases v, auto simp: decode_canonical_base64_def split: option.splits if_splits)

lemma check_prepared_bindingE:
  assumes "check_prepared_binding p request commitment message_hash signer = Inr m"
  obtains prepared where "p = PDict prepared" "item prepared ''prepared_message_base64'' = PStr (b64encode m)"
    "m \<noteq> []" "message_hash = sha256_digest m"
  using assms unfolding check_prepared_binding_def sg_closed_def
  by (auto simp: bind_res_eq_Inr reject_if_eq_Inr closed_or_Inr decode_canonical_base64_Inr prepared_message_hash_def
      simp del: run_all.simps(2))

lemma check_order_licensed:
  assumes "check_order jcs gv signer_id p a t = Inr (od, current)"
  shows "licensed jcs gv signer_id od current"
proof -
  from assms obtain aid request commitment message_hash m where
    c: "check_presented_grant jcs gv signer_id a current = Inr (aid, request, commitment, message_hash)"
    and b: "check_prepared_binding p request commitment message_hash signer_id = Inr m"
    and od: "od = \<lparr>od_authorization_id = aid, od_request_id = request, od_commitment_hash = commitment,
      od_message_hash = message_hash, od_signer = signer_id, od_message = m\<rparr>"
    unfolding check_order_def by (auto simp: bind_res_eq_Inr Let_def)
  from b have h: "message_hash = sha256_digest m" by (rule check_prepared_bindingE)
  from c show ?thesis
  proof (rule check_presented_grantE)
    fix d issued expires
    assume d: "item d ''authorization_id'' = PStr aid" "item d ''execution_request_id'' = PStr request"
      "item d ''execution_commitment_hash'' = PStr commitment" "item d ''prepared_message_hash'' = PStr message_hash"
      "item d ''signer'' = PStr signer_id" "item d ''single_use'' = PBool True"
      and v: "check_authentic jcs gv d = Inr ()"
      and t: "sg_timestamp (item d ''issued_at'') ''$authorization.issued_at'' = Inr issued"
      "sg_timestamp (item d ''expires_at'') ''$authorization.expires_at'' = Inr expires" "issued \<le> current" "current < expires"
    from v obtain s payload where "item d ''authorization_signature'' = PStr s"
      "authorization_signing_payload jcs d = Inr payload" "gv payload s = VTrue" by (auto simp: check_authentic_Inr)
    with d t h od show ?thesis
      unfolding licensed_def by (intro exI [of _ d] exI [of _ payload] exI [of _ s] exI [of _ issued] exI [of _ expires]) simp
  qed
qed

section \<open>The shared journal\<close>

interpretation signer_table: keyed_table so_id "select_row so_id" insert_row "update_row so_id"
  by (rule keyed_rows)

inductive signing_edge :: "signing_state \<Rightarrow> signing_state \<Rightarrow> bool" where
  "signing_edge OpSigning OpSigned"
| "signing_edge OpSigning OpNeedsRecovery"

inductive_simps signing_edge_simps [simp]: "signing_edge a b"

definition signer_columns :: "signer_row \<Rightarrow> string \<times> string \<times> string \<times> string \<times> string" where
  "signer_columns r = (so_id r, so_request_id r, so_message_hash r, so_signer r, so_claimed_at r)"

text \<open>The row of an order, and a row that holds the receipt of such an order.\<close>

definition row_of :: "signing_order \<Rightarrow> signer_row \<Rightarrow> bool" where
  "row_of od r \<longleftrightarrow> so_id r = od_authorization_id od \<and> so_request_id r = od_request_id od \<and>
     so_message_hash r = od_message_hash od \<and> so_signer r = od_signer od"

definition receipt_ok :: "signer_row \<Rightarrow> bool" where
  "receipt_ok r \<longleftrightarrow>
     (if so_state r = OpSigned
      then \<exists>od envelope current stored. row_of od r \<and> envelope \<noteq> [] \<and> so_envelope r = Some envelope \<and>
        json_dumps True (PDict (signature_receipt od envelope current)) = Inr stored \<and> so_receipt r = Some stored
      else so_envelope r = None \<and> so_receipt r = None)"

definition signer_ok :: "signer_system \<Rightarrow> bool" where
  "signer_ok s \<longleftrightarrow>
     distinct (map so_id (sy_journal s)) \<and> (\<forall>r\<in>set (sy_journal s). receipt_ok r) \<and>
     (\<forall>(od, c)\<in>set (sy_in_flight s). \<exists>r\<in>set (sy_journal s). row_of od r)"

fun orders :: "signer_label list \<Rightarrow> (signing_order \<times> int) list" where
  "orders [] = []"
| "orders (Signs od current # ls) = (od, current) # orders ls"
| "orders (Internal # ls) = orders ls"

lemma orders_append [simp]: "orders (xs @ ys) = orders xs @ orders ys"
  by (induction xs rule: orders.induct) auto

text \<open>A change of the rows that keeps the columns and moves along the graph.\<close>

definition signer_move :: "signer_journal \<Rightarrow> signer_journal \<Rightarrow> bool" where
  "signer_move rows rows' \<longleftrightarrow> (\<exists>f. rows' = map f rows \<and> (\<forall>r\<in>set rows. signer_columns (f r) = signer_columns r \<and>
     signing_edge\<^sup>*\<^sup>* (so_state r) (so_state (f r)) \<and> (receipt_ok r \<longrightarrow> receipt_ok (f r))))"

lemma signer_move_refl [simp]: "signer_move rows rows"
  unfolding signer_move_def by (intro exI [of _ id]) simp

lemma signer_move_trans:
  assumes "signer_move a b" "signer_move b c"
  shows "signer_move a c"
proof -
  from assms obtain f g where f: "b = map f a" "\<forall>r\<in>set a. signer_columns (f r) = signer_columns r \<and>
      signing_edge\<^sup>*\<^sup>* (so_state r) (so_state (f r)) \<and> (receipt_ok r \<longrightarrow> receipt_ok (f r))"
    and g: "c = map g b" "\<forall>r\<in>set b. signer_columns (g r) = signer_columns r \<and>
      signing_edge\<^sup>*\<^sup>* (so_state r) (so_state (g r)) \<and> (receipt_ok r \<longrightarrow> receipt_ok (g r))"
    unfolding signer_move_def by blast
  then show ?thesis
    unfolding signer_move_def by (intro exI [of _ "g \<circ> f"]) (auto intro: rtranclp_trans)
qed

lemma signer_move_ids: "signer_move rows rows' \<Longrightarrow> map so_id rows' = map so_id rows"
  by (auto simp: signer_move_def signer_columns_def)

lemma signer_move_row: "signer_move rows rows' \<Longrightarrow> r \<in> set rows \<Longrightarrow> \<exists>r'\<in>set rows'. signer_columns r' = signer_columns r"
  by (auto simp: signer_move_def)

lemma row_of_columns: "signer_columns r' = signer_columns r \<Longrightarrow> row_of od r' = row_of od r"
  by (simp add: row_of_def signer_columns_def)

lemma mark_moves: "signer_move rows (mark_needs_recovery aid rows)"
  unfolding signer_move_def mark_needs_recovery_def update_row_def
  by (intro exI conjI, rule refl) (auto simp: signer_columns_def receipt_ok_def row_of_def)

lemma complete_moves:
  assumes "r \<in> set rows" "row_of od r" "distinct (map so_id rows)" "envelope \<noteq> []"
  shows "signer_move rows (fst (complete (od_authorization_id od) envelope (signature_receipt od envelope current) now rows))"
proof -
  have eq: "x = r" if "x \<in> set rows" "so_id x = od_authorization_id od" for x
    using that assms(1-3) by (auto simp: row_of_def distinct_map inj_on_def)
  show ?thesis unfolding complete_def
  proof (rule fst_transaction)
    fix d x assume "sign_complete_tx (od_authorization_id od) envelope (signature_receipt od envelope current) (strftime_utc now) rows = Inr (d, x)"
    then obtain stored where st: "json_dumps True (PDict (signature_receipt od envelope current)) = Inr stored"
      and d: "d = update_row so_id (od_authorization_id od) (mark_signed (strftime_utc now) envelope stored) rows"
      unfolding sign_complete_tx_def by (auto simp: bind_res_eq_Inr bind_unit_eq_Inr simp del: json_dumps.simps)
    have ok: "receipt_ok (mark_signed (strftime_utc now) envelope stored r)" if "receipt_ok r"
      using that st assms(2,4) by (auto simp: receipt_ok_def mark_signed_def row_of_def simp del: json_dumps.simps)
    show "signer_move rows d"
      unfolding signer_move_def d update_row_def
      by (intro exI conjI, rule refl)
        (use ok in \<open>auto simp: signer_columns_def mark_signed_def dest: eq\<close>)
  qed simp
qed

lemma finish_moves:
  assumes "r \<in> set rows" "row_of od r" "distinct (map so_id rows)"
  shows "signer_move rows (fst (sign_finish od current answer rows))"
proof -
  let ?id = "od_authorization_id od"
  show ?thesis
  proof (cases "\<exists>envelope. answer = Some (PStr envelope) \<and> envelope \<noteq> []")
    case True
    then obtain envelope where 1: "answer = Some (PStr envelope)" "envelope \<noteq> []" by blast
    let ?c = "complete ?id envelope (signature_receipt od envelope current) current rows"
    have m: "signer_move rows (fst ?c)" by (rule complete_moves [OF assms 1(2)])
    then show ?thesis
      using signer_move_trans [OF m mark_moves] 1
      by (auto simp: sign_finish_def Let_def split: prod.splits sum.splits)
  next
    case False
    then have "fst (sign_finish od current answer rows) = mark_needs_recovery ?id rows"
      by (auto simp: sign_finish_def split: option.splits pyval.splits)
    then show ?thesis by (simp add: mark_moves)
  qed
qed

text \<open>Every step either moves rows or adds the row of the order it licenses.\<close>

lemma claim_orderE:
  assumes "claim_order od current rows = (rows', Inr ())"
  obtains row where "rows' = insert_row row rows" "row_of od row" "so_id row \<notin> so_id ` set rows" "receipt_ok row"
proof -
  have "select_row so_id rows (od_authorization_id od) = None"
    using assms by (auto simp: claim_order_def claim_def claim_tx_def transaction_def split: option.splits if_splits)
  with assms show thesis
    by (intro that) (auto simp: claim_order_def claim_def claim_tx_def transaction_def row_of_def receipt_ok_def select_row_None)
qed

lemma signer_ok_move:
  assumes "signer_ok s" "signer_move (sy_journal s) rows" "set fl \<subseteq> set (sy_in_flight s)"
  shows "signer_ok (s\<lparr>sy_journal := rows, sy_in_flight := fl\<rparr>)"
proof -
  have "\<forall>r\<in>set rows. receipt_ok r" using assms(1,2) by (auto simp: signer_move_def signer_ok_def)
  moreover have "\<exists>r\<in>set rows. row_of od r" if "(od, c) \<in> set fl" for od c
    using that assms signer_move_row [OF assms(2)] row_of_columns unfolding signer_ok_def by blast
  ultimately show ?thesis
    using assms(1) signer_move_ids [OF assms(2)] by (auto simp: signer_ok_def)
qed

lemma signer_ok_step:
  assumes "signer_step jcs gv signer_id s l s'" "signer_ok s"
  shows "signer_ok s'"
  using assms(1)
proof cases
  case (claimed p a t od current rows)
  from claimed(4) show ?thesis
  proof (rule claim_orderE)
    fix row assume "rows = insert_row row (sy_journal s)" "row_of od row" "so_id row \<notin> so_id ` set (sy_journal s)"
      "receipt_ok row"
    with claimed(2) assms(2) show ?thesis by (fastforce simp: signer_ok_def insert_row_def)
  qed
next
  case (finished od current answer)
  then obtain r where r: "r \<in> set (sy_journal s)" "row_of od r" using assms(2) by (fastforce simp: signer_ok_def)
  have "signer_move (sy_journal s) (fst (sign_finish od current answer (sy_journal s)))"
    by (rule finish_moves [OF r]) (use assms(2) in \<open>simp add: signer_ok_def\<close>)
  with assms(2) finished(2) show ?thesis by (simp add: signer_ok_move set_remove1_subset)
next
  case (died oc)
  then show ?thesis
    using signer_ok_move [OF assms(2) signer_move_refl set_remove1_subset] by simp
next
  case (set_aside aid)
  then show ?thesis
    using signer_ok_move [OF assms(2) mark_moves subset_refl] by simp
qed

text \<open>Rows of the shared journal persist and move along the graph.\<close>

definition signer_progress :: "signer_system \<Rightarrow> signer_system \<Rightarrow> bool" where
  "signer_progress s s' \<longleftrightarrow> signer_ok s \<and> (\<exists>jcs gv signer_id l. signer_step jcs gv signer_id s l s')"

interpretation signer_rows: row_lifecycle signer_progress sy_journal signer_columns so_state signing_edge
proof
  fix s s' r
  assume "signer_progress s s'" and r: "r \<in> set (sy_journal s)"
  then obtain jcs gv signer_id l where ok: "signer_ok s" and "signer_step jcs gv signer_id s l s'"
    by (auto simp: signer_progress_def)
  from this(2) have "signer_move (sy_journal s) (sy_journal s') \<or> set (sy_journal s) \<subseteq> set (sy_journal s')"
  proof cases
    case (claimed p a t od current rows)
    then show ?thesis by (auto elim!: claim_orderE simp: insert_row_def)
  next
    case (finished od current answer)
    then obtain r where "r \<in> set (sy_journal s)" "row_of od r" using ok by (fastforce simp: signer_ok_def)
    then show ?thesis using finished ok finish_moves by (simp add: signer_ok_def)
  qed (simp_all add: mark_moves)
  then show "\<exists>r'\<in>set (sy_journal s'). signer_columns r' = signer_columns r \<and> signing_edge\<^sup>*\<^sup>* (so_state r) (so_state r')"
    using r by (auto simp: signer_move_def)
qed

lemma signer_ok_empty [simp]: "signer_ok empty_signer"
  by (simp add: signer_ok_def empty_signer_def)

lemma signer_run_ok: "signer_run jcs gv signer_id s ls s' \<Longrightarrow> signer_ok s \<Longrightarrow> signer_ok s' \<and> signer_progress\<^sup>*\<^sup>* s s'"
proof (induction rule: signer_run.induct)
  case (run_snoc s ls s' l s'')
  then have "signer_progress s' s''" by (auto simp: signer_progress_def)
  with run_snoc show ?case using signer_ok_step by (blast intro: rtranclp.rtrancl_into_rtrancl)
qed simp

lemma run_orders:
  assumes "signer_run jcs gv signer_id s ls s'" "signer_ok s"
  shows "distinct (map (od_authorization_id \<circ> fst) (orders ls)) \<and>
    (\<forall>(od, current)\<in>set (orders ls). licensed jcs gv signer_id od current \<and>
       od_authorization_id od \<in> so_id ` set (sy_journal s'))"
  using assms
proof (induction rule: signer_run.induct)
  case (run_snoc s ls s' l s'')
  have ok: "signer_ok s'" using run_snoc.hyps(1) run_snoc.prems signer_run_ok by blast
  have kept: "so_id ` set (sy_journal s') \<subseteq> so_id ` set (sy_journal s'')"
  proof
    fix k assume "k \<in> so_id ` set (sy_journal s')"
    then obtain r where r: "r \<in> set (sy_journal s')" "k = so_id r" by blast
    have "signer_progress s' s''" using ok run_snoc.hyps(2) by (auto simp: signer_progress_def)
    from signer_rows.step_row [OF this r(1)] obtain r' where "r' \<in> set (sy_journal s'')" "so_id r' = so_id r"
      by (auto simp: signer_columns_def)
    with r(2) show "k \<in> so_id ` set (sy_journal s'')" by (metis image_eqI)
  qed
  from run_snoc.hyps(2) show ?case
  proof cases
    case (claimed p a t od current rows)
    obtain row where row: "sy_journal s'' = insert_row row (sy_journal s')" "row_of od row"
      "so_id row \<notin> so_id ` set (sy_journal s')"
      using claimed by (auto elim: claim_orderE)
    have "licensed jcs gv signer_id od current" using claimed(3) by (rule check_order_licensed)
    with run_snoc row kept claimed(1) show ?thesis by (auto simp: row_of_def insert_row_def)
  qed (use run_snoc kept in auto)
qed simp

text \<open>A call of \<^verbatim>\<open>sign\<close> that gets past its claim is a claim and what follows it, with one call in between.\<close>

lemma sign_claimed:
  assumes "check_order jcs gv signer_id prepared authorization now = Inr (od, current)"
    and "claim_order od current rows = (rows', Inr ())"
  shows "sign jcs gv provider signer_id prepared authorization now w rows =
    (snd (provider w rows' (od_message od) (od_signer od)),
     sign_finish od current (fst (provider w rows' (od_message od) (od_signer od))) rows')"
  using assms by (simp add: sign_def split: prod.split)

lemma sign_run:
  assumes "check_order jcs gv signer_id prepared authorization now = Inr (od, current)"
    and "claim_order od current (sy_journal s) = (rows, Inr ())"
  shows "signer_run jcs gv signer_id s [Signs od current] (s\<lparr>sy_journal := rows, sy_in_flight := (od, current) # sy_in_flight s\<rparr>)"
    and "signer_run jcs gv signer_id s [Signs od current, Internal] (s\<lparr>sy_journal := fst (sign_finish od current answer rows)\<rparr>)"
proof -
  let ?s1 = "s\<lparr>sy_journal := rows, sy_in_flight := (od, current) # sy_in_flight s\<rparr>"
  show *: "signer_run jcs gv signer_id s [Signs od current] ?s1"
    using signer_run.run_snoc [OF signer_run.run_nil signer_step.claimed [OF assms]] by simp
  have "signer_step jcs gv signer_id ?s1 Internal (s\<lparr>sy_journal := fst (sign_finish od current answer rows)\<rparr>)"
    using signer_step.finished [of od current ?s1 jcs gv signer_id answer] by simp
  from signer_run.run_snoc [OF * this]
  show "signer_run jcs gv signer_id s [Signs od current, Internal] (s\<lparr>sy_journal := fst (sign_finish od current answer rows)\<rparr>)"
    by simp
qed

lemma claim_order_row:
  assumes "claim_order od current rows = (rows', Inr ())"
  obtains row where "rows' = rows @ [row]" "row_of od row" "so_state row = OpSigning" "so_id row \<notin> so_id ` set rows"
  using assms
proof (rule claim_orderE)
  fix row assume "rows' = insert_row row rows" "row_of od row" "so_id row \<notin> so_id ` set rows"
  moreover from this assms have "so_state row = OpSigning"
    by (auto simp: claim_order_def claim_def claim_tx_def transaction_def insert_row_def split: option.splits if_splits)
  ultimately show thesis by (intro that) (simp_all add: insert_row_def)
qed

lemma claim_order_fails: "claim_order od current rows = (rows', Inl e) \<Longrightarrow> rows' = rows"
  by (auto simp: claim_order_def claim_def transaction_def split: sum.splits)

section \<open>A grant of the authority at the signer\<close>

lemma sha256_digest_hash [simp]: "hash_text (sha256_digest b)"
  unfolding sha256_digest_def by (rule sha.prefixed_hash_text)

lemma signing_payload_signed:
  "authorization_signing_payload jcs (unsigned_authorization g prepared c e @ [(KStr ''authorization_signature'', s)]) =
     authorization_signing_payload jcs (unsigned_authorization g prepared c e)"
  by (simp add: authorization_signing_payload_def unsigned_authorization_def Let_def)

text \<open>What the checks of a grant say about the fields the signer will look at.\<close>

lemma check_grant_signable:
  assumes "check_grant jcs max_ttl g current = Inr (plan, prepared, e)"
  obtains aid request signer commitment encoded message where
    "gr_authorization_id g = PStr aid" "identifier_text aid"
    "item prepared ''execution_request_id'' = PStr request" "identifier_text request"
    "gr_signer g = PStr signer" "item prepared ''signer'' = PStr signer" "sg_pubkey (PStr signer) path = Inr signer"
    "item prepared ''execution_commitment_hash'' = PStr commitment" "hash_text commitment"
    "gr_prepared_execution g = PDict prepared" "\<forall>k\<in>set au_prepared_fields. has_key prepared k"
    "item prepared ''type'' = PStr ''prepared_execution''" "item prepared ''protocol_version'' = PStr ''1.0.0''"
    "item prepared ''prepared_message_base64'' = PStr encoded" "b64decode_strict encoded = Some message"
    "message \<noteq> []" "item prepared ''prepared_message_hash'' = PStr (sha256_digest message)"
proof -
  obtain c pe se qe where f: "check_grant_arguments max_ttl g = Inr ()"
    "check_prepared_identity g = Inr prepared" "check_grant_hashes jcs plan prepared = Inr ()"
    "check_commitment jcs plan prepared c = Inr ()"
    using assms by (rule check_grantE)
  from f(1) obtain aid request signer where a: "gr_authorization_id g = PStr aid" "identifier_text aid"
    "gr_execution_request_id g = PStr request" "identifier_text request" "gr_signer g = PStr signer"
    "sg_pubkey (PStr signer) path = Inr signer"
    unfolding check_grant_arguments_def au_identifier_def au_pubkey_def sg_pubkey_def
    by (auto simp: bind_res_eq_Inr text_or_Inr pubkey_or_Inr)
  from f(4) obtain commitment where h: "item prepared ''execution_commitment_hash'' = PStr commitment" "hash_text commitment"
    unfolding check_commitment_def execution_commitment_hash_def grant_commitment_def
    by (auto simp: bind_res_eq_Inr reject_if_eq_Inr)
  obtain encoded message where m: "item prepared ''prepared_message_base64'' = PStr encoded"
    "b64decode_strict encoded = Some message" "message \<noteq> []"
    "item prepared ''prepared_message_hash'' = PStr (sha256_digest message)"
    using f(3) by (rule check_grant_hashesE)
  from f(2) show thesis
    by (rule check_prepared_identityE) (rule that; use a h m in simp)
qed

lemma signer_accepts:
  assumes "check_grant jcs max_ttl g current = Inr (plan, prepared, e)"
    and "gr_signer g = PStr signer_id" "item prepared ''prepared_message_base64'' = PStr (b64encode m)"
    and "authorization_signing_payload jcs (unsigned_authorization g prepared current e) = Inr payload"
    and "gv payload signature = VTrue" "signature \<noteq> []"
    and "ext_timestamp_text (strftime_utc current)" "strptime_utc (strftime_utc current) = Some issued"
    and "ext_timestamp_text (strftime_utc e)" "strptime_utc (strftime_utc e) = Some expires"
    and "utcoffset later \<noteq> None" "issued \<le> to_seconds (instant later)" "to_seconds (instant later) < expires"
  obtains od where "check_order jcs gv signer_id (gr_prepared_execution g)
      (PDict (unsigned_authorization g prepared current e @ [(KStr ''authorization_signature'', PStr signature)])) later =
      Inr (od, to_seconds (instant later))" "od_message od = m" "od_signer od = signer_id"
    "PStr (od_authorization_id od) = gr_authorization_id g" "od_message_hash od = sha256_digest m"
proof -
  let ?a = "unsigned_authorization g prepared current e @ [(KStr ''authorization_signature'', PStr signature)]"
  obtain aid request signer commitment encoded message where p:
    "gr_authorization_id g = PStr aid" "identifier_text aid"
    "item prepared ''execution_request_id'' = PStr request" "identifier_text request"
    "gr_signer g = PStr signer" "item prepared ''signer'' = PStr signer" "sg_pubkey (PStr signer) ''$authorization.signer'' = Inr signer"
    "item prepared ''execution_commitment_hash'' = PStr commitment" "hash_text commitment"
    "gr_prepared_execution g = PDict prepared" "\<forall>k\<in>set au_prepared_fields. has_key prepared k"
    "item prepared ''type'' = PStr ''prepared_execution''" "item prepared ''protocol_version'' = PStr ''1.0.0''"
    "item prepared ''prepared_message_base64'' = PStr encoded" "b64decode_strict encoded = Some message"
    "message \<noteq> []" "item prepared ''prepared_message_hash'' = PStr (sha256_digest message)"
    using assms(1) by (rule check_grant_signable [where path = "''$authorization.signer''"])
  have m: "message = m" "signer = signer_id"
    using p(5,14,15) assms(2,3) b64_strict_roundtrip [of m] by simp_all
  have closed: "sg_closed (PDict ?a) sg_authorization_fields ''$authorization'' False = Inr ?a"
    by (simp add: sg_closed_def closed_or_Inr sg_authorization_fields_def unsigned_authorization_def has_key_def)
  have "check_authentic jcs gv ?a = Inr ()"
    using assms(4-6) by (simp add: check_authentic_Inr signing_payload_signed)
  then have ca: "check_presented_grant jcs gv signer_id (PDict ?a) (to_seconds (instant later)) =
      Inr (aid, request, commitment, sha256_digest m)"
    using closed p m assms(7-13)
    by (simp add: check_presented_grant_def sg_identifier_def sg_hash_def text_or_def sg_timestamp_def timestamp_or_def)
  have pb: "check_prepared_binding (PDict prepared) request commitment (sha256_digest m) signer_id = Inr m"
    unfolding check_prepared_binding_def
    using p m assms(3) decode_canonical_base64_Inr [of "PStr (b64encode m)" m]
    by (simp add: sg_closed_def closed_or_def missing_keys_Nil prepared_binding_fields_def au_prepared_fields_def prepared_message_hash_def)
  show thesis
    by (rule that) (use ca pb p(1,10) assms(11) in \<open>auto simp: check_order_def aware_instant_def\<close>)
qed


lemma sign_accepted:
  assumes "check_order jcs gv signer_id p a later = Inr (od, current)"
    and "select_row so_id rows (od_authorization_id od) = None"
    and "\<forall>j. fst (provider w j (od_message od) (od_signer od)) = Some (PStr envelope)" "envelope \<noteq> []"
    "\<not> has_surrogate envelope"
  obtains rows' row claim where
    "sign jcs gv provider signer_id p a later w rows =
       (snd (provider w (rows @ [claim]) (od_message od) (od_signer od)), rows',
        Inr (PDict (signature_receipt od envelope current)))"
    "so_id claim = od_authorization_id od" "so_state claim = OpSigning"
    "row \<in> set rows'" "so_id row = od_authorization_id od" "so_state row = OpSigned" "so_envelope row = Some envelope"
proof -
  let ?receipt = "signature_receipt od envelope current"
  obtain stored where st: "json_dumps True (PDict ?receipt) = Inr stored"
    by (simp add: signature_receipt_def mixed_keys_def)
  obtain row0 where c: "claim_order od current rows = (rows @ [row0], Inr ())"
    and row0: "so_id row0 = od_authorization_id od" "so_state row0 = OpSigning"
    using assms(2) by (simp add: claim_order_def claim_def claim_tx_def transaction_def insert_row_def)
  have "signing_rows (od_authorization_id od) (rows @ [row0]) = [row0]"
    using assms(2) row0 by (simp add: signing_rows_def select_row_None filter_empty_conv)
  then have k: "complete (od_authorization_id od) envelope ?receipt current (rows @ [row0]) =
      (update_row so_id (od_authorization_id od) (mark_signed (strftime_utc current) envelope stored) (rows @ [row0]), Inr ())"
    using st assms(5) by (simp add: complete_def sign_complete_tx_def transaction_def del: json_dumps.simps)
  show thesis
  proof (rule that)
    show "sign jcs gv provider signer_id p a later w rows =
        (snd (provider w (rows @ [row0]) (od_message od) (od_signer od)),
         update_row so_id (od_authorization_id od) (mark_signed (strftime_utc current) envelope stored) (rows @ [row0]),
         Inr (PDict ?receipt))"
      unfolding sign_claimed [OF assms(1) c] using assms(3,4) k by (simp add: sign_finish_def)
    show "mark_signed (strftime_utc current) envelope stored row0 \<in>
        set (update_row so_id (od_authorization_id od) (mark_signed (strftime_utc current) envelope stored) (rows @ [row0]))"
      using row0 by (auto simp: update_row_def)
  qed (use row0 in \<open>simp_all add: mark_signed_def\<close>)
qed

end
