(* ===== verification/Grant_Examples.thy ===== *)
theory Grant_Examples
  imports Signer_Facts
begin

text \<open>
  A concrete plan, prepared execution, grant and signing order for the witnesses: issued at
  2026-02-03T00:00:00Z for thirty seconds. Digests stay symbolic.
\<close>

definition grant_now :: py_datetime where "grant_now = utc_datetime 63905760000000000"
definition grant_end :: int where "grant_end = 63905760030000000"
definition example_solana_key :: string where "example_solana_key = replicate 32 (CHR ''1'')"
definition example_message :: string where "example_message = ''pay''"

definition ext_digest :: "pydict \<Rightarrow> string" where
  "ext_digest d = sha256_digest (example_jcs_text (PDict d))"

definition example_simulation :: pydict where
  "example_simulation =
     [(KStr ''rpc_provider_id'', PStr ''rpc-1''), (KStr ''genesis_hash'', PStr example_solana_key),
      (KStr ''slot'', PInt 10), (KStr ''commitment_level'', PStr ''confirmed''),
      (KStr ''recent_blockhash'', PStr example_solana_key), (KStr ''last_valid_block_height'', PInt 99),
      (KStr ''simulated_at'', PStr ''2026-02-02T00:00:00Z''), (KStr ''valid_until'', PStr ''2026-02-04T00:00:00Z''),
      (KStr ''logs_hash'', PStr zero_hash), (KStr ''pre_balances_hash'', PStr zero_hash),
      (KStr ''post_balances_hash'', PStr zero_hash), (KStr ''units_consumed'', PInt 3),
      (KStr ''fee_lamports'', PInt 5000), (KStr ''success'', PBool True)]"

definition example_constraints :: constraints where
  "example_constraints = \<lparr>max_fee_lamports = 5000, allowed_programs = [example_solana_key]\<rparr>"

definition example_grant_commit :: pydict where
  "example_grant_commit =
     [(KStr ''protocol_version'', PStr ''1.0.0''), (KStr ''normalization_profile'', PStr ''foundry-pay-domain-v1''),
      (KStr ''execution_request_id'', PStr ''req-1''), (KStr ''obligation_id'', PStr ''ob-1''),
      (KStr ''executor_id'', PStr ''exec-1''), (KStr ''executor_version'', PStr ''1''),
      (KStr ''economic_plan_hash'', PStr (ext_digest example_plan_items)),
      (KStr ''prepared_message_hash'', PStr (sha256_digest example_message)),
      (KStr ''simulation_attestation_hash'', PStr (ext_digest example_simulation)),
      (KStr ''signer'', PStr example_solana_key), (KStr ''constraints'', PDict (constraints_dict example_constraints)),
      (KStr ''expires_at'', PStr ''2026-02-03T12:00:00Z'')]"

definition example_prepared :: pydict where
  "example_prepared =
     [(KStr ''type'', PStr ''prepared_execution''), (KStr ''protocol_version'', PStr ''1.0.0''),
      (KStr ''execution_request_id'', PStr ''req-1''), (KStr ''executor_id'', PStr ''exec-1''),
      (KStr ''executor_version'', PStr ''1''), (KStr ''economic_plan_hash'', PStr (ext_digest example_plan_items)),
      (KStr ''prepared_message_base64'', PStr (b64encode example_message)),
      (KStr ''prepared_message_hash'', PStr (sha256_digest example_message)),
      (KStr ''simulation'', PDict example_simulation),
      (KStr ''simulation_attestation_hash'', PStr (ext_digest example_simulation)),
      (KStr ''execution_commitment_hash'', PStr (ext_digest example_grant_commit)),
      (KStr ''signer'', PStr example_solana_key), (KStr ''constraints'', PDict (constraints_dict example_constraints)),
      (KStr ''expires_at'', PStr ''2026-02-03T12:00:00Z'')]"

definition example_grant_request :: grant_request where
  "example_grant_request = \<lparr>gr_economic_plan = example_plan, gr_prepared_execution = PDict example_prepared,
     gr_authorization_id = PStr ''auth-1'', gr_execution_request_id = PStr ''req-1'', gr_executor_id = PStr ''exec-1'',
     gr_signer = PStr example_solana_key, gr_constraints = PDict (constraints_dict example_constraints),
     gr_ttl_seconds = 30\<rparr>"

definition example_grant_provider :: signature_provider where
  "example_grant_provider payload = Inr (PStr ''grant-signature'')"

definition example_grant_verifier :: grant_verifier where
  "example_grant_verifier payload signature = (if signature = ''grant-signature'' then VTrue else VOther)"

definition example_unsigned :: pydict where
  "example_unsigned =
     [(KStr ''type'', PStr ''execution_authorization''), (KStr ''protocol_version'', PStr ''1.0.0''),
      (KStr ''authorization_id'', PStr ''auth-1''), (KStr ''execution_request_id'', PStr ''req-1''),
      (KStr ''execution_commitment_hash'', PStr (ext_digest example_grant_commit)),
      (KStr ''prepared_message_hash'', PStr (sha256_digest example_message)),
      (KStr ''signer'', PStr example_solana_key), (KStr ''single_use'', PBool True),
      (KStr ''issued_at'', PStr ''2026-02-03T00:00:00Z''), (KStr ''expires_at'', PStr ''2026-02-03T00:00:30Z'')]"

section \<open>The authority accepts it\<close>

lemma ext_digest_hash [simp]: "hash_text (ext_digest d)"
  by (simp add: ext_digest_def)

lemma canonicalize_example:
  "reject_unsupported_json v ''$'' = Inr () \<Longrightarrow> canonicalize example_jcs v = Inr (example_jcs_text v)"
  by (simp add: canonicalize_def example_jcs_def del: reject_unsupported_json.simps example_jcs_text.simps)

lemma grant_clock [simp]:
  "instant grant_now = 63905760000000000" "utcoffset grant_now = Some 0" "to_seconds 63905760000000000 = 63905760000000000"
  by (simp_all add: grant_now_def to_seconds_def)

lemma grant_texts:
  "strftime_utc 63905760000000000 = ''2026-02-03T00:00:00Z''" "strftime_utc 63905760030000000 = ''2026-02-03T00:00:30Z''"
  "strptime_utc ''2026-02-03T00:00:00Z'' = Some 63905760000000000"
  "strptime_utc ''2026-02-03T00:00:30Z'' = Some 63905760030000000"
  "ext_timestamp_text ''2026-02-03T00:00:00Z''" "ext_timestamp_text ''2026-02-03T00:00:30Z''"
  by code_simp+

lemma example_arguments: "check_grant_arguments 60 example_grant_request = Inr ()"
proof -
  have "au_identifier (PStr ''auth-1'') ''$authorization_id'' = Inr ''auth-1''"
    "au_identifier (PStr ''req-1'') ''$expected_execution_request_id'' = Inr ''req-1''"
    "au_identifier (PStr ''exec-1'') ''$expected_executor_id'' = Inr ''exec-1''"
    "au_pubkey (PStr example_solana_key) ''$expected_signer'' = Inr example_solana_key"
    by code_simp+
  then show ?thesis by (simp add: check_grant_arguments_def example_grant_request_def)
qed

lemma example_grant_plan:
  "grant_plan example_grant_request 63905760000000000 = Inr (example_plan_items, 63907228800000000)"
proof -
  have "normalize_economic_plan example_plan = Inr example_plan_items"
    "au_timestamp (item example_plan_items ''expires_at'') ''$economic_plan.expires_at'' = Inr 63907228800000000"
    by code_simp+
  then show ?thesis by (simp add: grant_plan_def example_grant_request_def)
qed

lemma example_prepared_items [simp]:
  "item example_prepared ''type'' = PStr ''prepared_execution''"
  "item example_prepared ''protocol_version'' = PStr ''1.0.0''"
  "item example_prepared ''execution_request_id'' = PStr ''req-1''" "item example_prepared ''executor_id'' = PStr ''exec-1''"
  "item example_prepared ''executor_version'' = PStr ''1''"
  "item example_prepared ''economic_plan_hash'' = PStr (ext_digest example_plan_items)"
  "item example_prepared ''prepared_message_base64'' = PStr (b64encode example_message)"
  "item example_prepared ''prepared_message_hash'' = PStr (sha256_digest example_message)"
  "item example_prepared ''simulation'' = PDict example_simulation"
  "item example_prepared ''simulation_attestation_hash'' = PStr (ext_digest example_simulation)"
  "item example_prepared ''execution_commitment_hash'' = PStr (ext_digest example_grant_commit)"
  "item example_prepared ''signer'' = PStr example_solana_key"
  "item example_prepared ''constraints'' = PDict (constraints_dict example_constraints)"
  "item example_prepared ''expires_at'' = PStr ''2026-02-03T12:00:00Z''"
  by (simp_all add: example_prepared_def item_def)

lemma example_identity: "check_prepared_identity example_grant_request = Inr example_prepared"
proof -
  have "au_closed (PDict example_prepared) au_prepared_fields [] ''$prepared_execution'' = Inr example_prepared"
    by (simp add: au_closed_def closed_or_Inr au_prepared_fields_def example_prepared_def has_key_def)
  then show ?thesis by (simp add: check_prepared_identity_def example_grant_request_def)
qed

lemma example_grant_constraints: "grant_constraints example_grant_request example_prepared = Inr example_constraints"
proof -
  have "validate_constraints (PDict (constraints_dict example_constraints)) ''$prepared_execution.constraints'' = Inr example_constraints"
    "validate_constraints (PDict (constraints_dict example_constraints)) ''$expected_constraints'' = Inr example_constraints"
    by code_simp+
  then show ?thesis by (simp add: grant_constraints_def example_grant_request_def)
qed

lemma example_hashes: "check_grant_hashes example_jcs example_plan_items example_prepared = Inr ()"
proof -
  have "economic_plan_hash example_jcs (PDict example_plan_items) = Inr (ext_digest example_plan_items)"
    using example_plan_hash by (simp only: example_plan_def ext_digest_def)
  then show ?thesis
    by (simp add: check_grant_hashes_def grant_message_def b64_strict_roundtrip prepared_message_hash_def example_message_def
        del: example_jcs_text.simps)
qed

lemma example_check_simulation:
  "check_simulation example_jcs example_prepared example_constraints 63905760000000000 = Inr 63905846400000000"
proof -
  have v: "reject_unsupported_json (PDict example_simulation) ''$'' = Inr ()"
    "au_closed (PDict example_simulation) simulation_required simulation_optional ''$prepared_execution.simulation'' = Inr example_simulation"
    "item example_simulation ''success'' = PBool True"
    "au_safe_uint (item example_simulation ''slot'') (simulation_path ''slot'') = Inr 10"
    "au_safe_uint (item example_simulation ''last_valid_block_height'') (simulation_path ''last_valid_block_height'') = Inr 99"
    "au_safe_uint (item example_simulation ''units_consumed'') (simulation_path ''units_consumed'') = Inr 3"
    "au_safe_uint (item example_simulation ''fee_lamports'') (simulation_path ''fee_lamports'') = Inr 5000"
    "py_in (item example_simulation ''commitment_level'') [''confirmed'', ''finalized''] = Inr True"
    "au_timestamp (item example_simulation ''simulated_at'') (simulation_path ''simulated_at'') = Inr 63905673600000000"
    "au_timestamp (item example_simulation ''valid_until'') (simulation_path ''valid_until'') = Inr 63905846400000000"
    by code_simp+
  have "simulation_attestation_hash example_jcs (PDict example_simulation) = Inr (ext_digest example_simulation)"
    using canonicalize_example [OF v(1)]
    by (simp add: simulation_attestation_hash_def ext_digest_def del: example_jcs_text.simps)
  with v(2-) show ?thesis by (simp add: check_simulation_def example_constraints_def)
qed

lemma example_window:
  "prepared_window example_prepared 63907228800000000 63905846400000000 63905760000000000 = Inr 63905803200000000"
proof -
  have "au_timestamp (PStr ''2026-02-03T12:00:00Z'') ''$prepared_execution.expires_at'' = Inr 63905803200000000" by code_simp
  then show ?thesis by (simp add: prepared_window_def)
qed

lemma example_grant_commitment: "grant_commitment example_plan_items example_prepared example_constraints = PDict example_grant_commit"
proof -
  have "item example_plan_items ''obligation_id'' = PStr ''ob-1''" by code_simp
  then show ?thesis by (simp add: grant_commitment_def example_grant_commit_def)
qed

lemma example_check_commitment: "check_commitment example_jcs example_plan_items example_prepared example_constraints = Inr ()"
proof -
  have k: "require_solana_pubkey (PStr example_solana_key) ''$.signer'' = Inr example_solana_key"
    "require_timestamp (PStr ''2026-02-03T12:00:00Z'') ''$.expires_at'' = Inr ''2026-02-03T12:00:00Z''"
    "reject_unsupported_json (PDict (constraints_dict example_constraints)) ''$.constraints'' = Inr ()"
    "\<not> has_surrogate example_solana_key" "identifier_text ''req-1''" "identifier_text ''ob-1''" "identifier_text ''exec-1''"
    by code_simp+
  have r: "reject_unsupported_json (PDict example_grant_commit) ''$'' = Inr ()"
    using k(3,4) by (simp add: example_grant_commit_def)
  have "check_ext_commitment example_grant_commit = Inr ()"
    using k by (simp add: check_ext_commitment_def require_closed_keys_def example_grant_commit_def ext_commitment_required_def
        missing_keys_def unknown_keys_def dn_literal_def require_identifier_def require_hash_def item_def)
  then have "execution_commitment_hash example_jcs (PDict example_grant_commit) = Inr (ext_digest example_grant_commit)"
    using r canonicalize_example [OF r]
    by (simp add: execution_commitment_hash_def ext_digest_def del: reject_unsupported_json.simps example_jcs_text.simps)
  then show ?thesis by (simp add: check_commitment_def example_grant_commitment del: example_jcs_text.simps)
qed

lemma example_expiry:
  "grant_expiry 63905760000000000 30 63907228800000000 63905846400000000 63905803200000000 = Inr 63905760030000000"
  by code_simp

lemma example_check_grant:
  "check_grant example_jcs 60 example_grant_request 63905760000000000 = Inr (example_plan_items, example_prepared, 63905760030000000)"
proof -
  have "gr_ttl_seconds example_grant_request = 30" by (simp add: example_grant_request_def)
  then show ?thesis
    using example_arguments example_grant_plan example_identity example_grant_constraints example_hashes
      example_check_simulation example_window example_check_commitment example_expiry
    by (simp add: check_grant_def)
qed

lemma example_unsigned_eq:
  "unsigned_authorization example_grant_request example_prepared 63905760000000000 63905760030000000 = example_unsigned"
  by (simp add: unsigned_authorization_def example_unsigned_def grant_texts) (simp add: example_grant_request_def)


section \<open>The journal and the signer\<close>

definition example_signed :: pydict where
  "example_signed = example_unsigned @ [(KStr ''authorization_signature'', PStr ''grant-signature'')]"

lemma example_grant_payload:
  "authorization_signing_payload example_jcs example_unsigned = Inr (example_jcs_text (PDict example_unsigned))"
proof -
  have k: "\<not> has_surrogate example_solana_key" by code_simp
  have r: "reject_unsupported_json (PDict example_unsigned) ''$'' = Inr ()"
    using k by (simp add: example_unsigned_def)
  have "filter (\<lambda>(k, v). k \<noteq> KStr ''authorization_signature'') example_unsigned = example_unsigned"
    by (simp add: example_unsigned_def)
  moreover have "au_closed (PDict example_unsigned) unsigned_authorization_fields [] ''$authorization'' = Inr example_unsigned"
    by (simp add: au_closed_def closed_or_Inr unsigned_authorization_fields_def example_unsigned_def has_key_def)
  ultimately show ?thesis
    using canonicalize_example [OF r]
    by (simp add: authorization_signing_payload_def Let_def del: example_jcs_text.simps reject_unsupported_json.simps)
qed

lemma example_sign_grant: "sign_grant example_jcs example_grant_provider example_unsigned = Inr example_signed"
  using example_grant_payload
  by (simp add: sign_grant_def example_grant_provider_def example_signed_def py_len_def in_range_def del: example_jcs_text.simps)

definition example_bundle :: pydict where
  "example_bundle =
     [(KStr ''economic_plan'', PDict example_plan_items), (KStr ''prepared_execution'', PDict example_prepared),
      (KStr ''authorization'', PDict example_unsigned)]"

lemma example_fingerprint:
  "grant_fingerprint example_jcs example_plan_items example_prepared example_unsigned = Inr (ext_digest example_bundle)"
proof -
  have k: "\<not> has_surrogate example_solana_key" "\<not> has_surrogate (b64encode example_message)"
    "reject_unsupported_json (PDict example_plan_items) ''$.economic_plan'' = Inr ()"
    "reject_unsupported_json (PDict example_simulation) ''$.prepared_execution.simulation'' = Inr ()"
    "reject_unsupported_json (PDict (constraints_dict example_constraints)) ''$.prepared_execution.constraints'' = Inr ()"
    by code_simp+
  have "reject_unsupported_json (PDict example_prepared) ''$.prepared_execution'' = Inr ()"
    using k(1,2,4,5) by (simp add: example_prepared_def)
  moreover have "reject_unsupported_json (PDict example_unsigned) ''$.authorization'' = Inr ()"
    using k(1) by (simp add: example_unsigned_def)
  ultimately have "reject_unsupported_json (PDict example_bundle) ''$'' = Inr ()"
    using k(3) by (simp add: example_bundle_def)
  from canonicalize_example [OF this] show ?thesis
    by (simp add: grant_fingerprint_def ext_digest_def flip: example_bundle_def del: example_jcs_text.simps)
qed

lemma example_make_grant:
  "make_grant example_jcs example_grant_provider 60 example_grant_request 63905760000000000 =
     Inr (example_signed, ''ob-1'', ext_digest example_bundle)"
proof -
  have "text_item example_plan_items ''obligation_id'' = ''ob-1''" by code_simp
  then show ?thesis
    using example_check_grant example_sign_grant example_fingerprint
    by (simp add: make_grant_def example_unsigned_eq)
qed

lemma json_dumps_texts:
  assumes "\<forall>kv\<in>set d. \<exists>s. fst kv = KStr s" "\<forall>kv\<in>set d. json_dumps b (snd kv) = Inr (snd kv)"
  shows "json_dumps b (PDict d) = Inr (PDict (sort_key fst d))"
proof -
  have "json_dumps_items b d = Inr d"
    using assms(2) by (induction d) (auto simp del: json_dumps.simps)
  moreover have "\<not> mixed_keys (map fst d)"
    using assms(1) by (cases d) (auto simp: mixed_keys_def list_ex_iff)
  moreover have "map (\<lambda>(k, v). (KStr (key_text k), v)) (sort_key fst d) = sort_key fst d"
    by (rule map_idI) (use assms(1) in fastforce)
  ultimately show ?thesis by simp
qed

lemma items_surrogate_iff: "items_surrogate d \<longleftrightarrow> (\<exists>kv\<in>set d. item_surrogate kv)"
  by (induction d) auto

lemma example_stored: "json_dumps True (PDict example_signed) = Inr (PDict (sort_key fst example_signed))"
  "\<not> val_surrogate (PDict (sort_key fst example_signed))"
proof -
  have k: "\<not> has_surrogate example_solana_key" by code_simp
  show "json_dumps True (PDict example_signed) = Inr (PDict (sort_key fst example_signed))"
    by (rule json_dumps_texts) (simp_all add: example_signed_def example_unsigned_def)
  show "\<not> val_surrogate (PDict (sort_key fst example_signed))"
    using k by (simp add: items_surrogate_iff example_signed_def example_unsigned_def)
qed

definition example_grant_row :: authorization_row where
  "example_grant_row = grant_row example_signed ''ob-1'' (ext_digest example_bundle) (PDict (sort_key fst example_signed))"

lemma example_issue:
  "authority_issue example_jcs example_grant_provider 60 example_grant_request grant_now [] = ([example_grant_row], Inr (PDict example_signed))"
  using example_make_grant example_stored
  by (simp add: authority_issue_def grant_journal_issue_def aware_instant_def transaction_def
      issue_tx_def expire_issued_def select_row_def insert_row_def example_grant_row_def
      del: json_dumps.simps val_surrogate.simps)

lemma example_grant_columns:
  "au_id example_grant_row = ''auth-1''" "au_state example_grant_row = GIssued"
  "au_issued_at example_grant_row = ''2026-02-03T00:00:00Z''" "au_expires_at example_grant_row = ''2026-02-03T00:00:30Z''"
  "au_request_id example_grant_row = ''req-1''" "au_obligation_id example_grant_row = ''ob-1''"
  by (simp_all add: example_grant_row_def grant_row_def text_item_def example_signed_def example_unsigned_def item_def)

lemma example_issue_step: "grant_step example_jcs [] [example_grant_row]"
  using grant_step.issue [of example_jcs "[]" example_grant_provider 60 example_grant_request grant_now] by (simp add: example_issue)

lemma example_consume:
  obtains rows' where "consume (PStr ''auth-1'') grant_now [example_grant_row] = (rows', Inr (au_json example_grant_row))"
proof -
  have "au_identifier (PStr ''auth-1'') ''$authorization_id'' = Inr ''auth-1''"
    "\<not> ''2026-02-03T00:00:30Z'' \<le> ''2026-02-03T00:00:00Z''"
    by code_simp+
  then show thesis
    by (intro that) (simp add: consume_def consume_tx_def aware_instant_def transaction_def select_row_def
        example_grant_columns grant_texts)
qed

lemma example_consumed:
  assumes "consume (PStr ''auth-1'') grant_now [example_grant_row] = (rows', Inr a)"
  shows "rows' = [mark_consumed (strftime_utc (instant grant_now)) example_grant_row]"
  using assms
  by (auto simp: consume_def consume_tx_def transaction_def res_simps au_identifier_def update_row_def select_row_def
      example_grant_columns split: sum.splits if_splits)

text \<open>A later reader of the issued row finds it expired.\<close>

definition grant_late :: py_datetime where
  "grant_late = utc_datetime 63905760030000000"

lemma example_state_read:
  "state_read (PStr ''auth-1'') grant_late [example_grant_row] = Inr (''auth-1'', GIssued, True)"
proof -
  have "au_identifier (PStr ''auth-1'') ''$authorization_id'' = Inr ''auth-1''"
    "strftime_utc (instant grant_late) = ''2026-02-03T00:00:30Z''" "utcoffset grant_late = Some 0"
    by code_simp+
  then show ?thesis
    by (simp add: state_read_def aware_instant_def select_row_def example_grant_columns)
qed

lemma example_order:
  obtains od where "check_order example_jcs example_grant_verifier example_solana_key (PDict example_prepared) (PDict example_signed) grant_now =
      Inr (od, 63905760000000000)" "od_message od = example_message" "od_signer od = example_solana_key"
proof -
  have e: "gr_signer example_grant_request = PStr example_solana_key" "gr_prepared_execution example_grant_request = PDict example_prepared"
    by (simp_all add: example_grant_request_def)
  have b: "item example_prepared ''prepared_message_base64'' = PStr (b64encode example_message)" by simp
  have v: "example_grant_verifier payload ''grant-signature'' = VTrue" for payload by (simp add: example_grant_verifier_def)
  have signed: "PDict (unsigned_authorization example_grant_request example_prepared 63905760000000000 63905760030000000 @
      [(KStr ''authorization_signature'', PStr ''grant-signature'')]) = PDict example_signed"
    by (simp only: example_unsigned_eq example_signed_def)
  obtain od where "check_order example_jcs example_grant_verifier example_solana_key (gr_prepared_execution example_grant_request)
      (PDict (unsigned_authorization example_grant_request example_prepared 63905760000000000 63905760030000000 @
        [(KStr ''authorization_signature'', PStr ''grant-signature'')])) grant_now = Inr (od, to_seconds (instant grant_now))"
    "od_message od = example_message" "od_signer od = example_solana_key"
    by (rule signer_accepts [where gv = example_grant_verifier and later = grant_now and
        issued = 63905760000000000 and expires = 63905760030000000,
        OF example_check_grant e(1) b example_grant_payload [folded example_unsigned_eq] v])
      (simp_all add: grant_texts)
  then show thesis unfolding signed e(2) by (intro that) simp_all
qed

text \<open>A provider whose state is the log of the calls it got: the journal, the message and the signer of each.\<close>

definition logging_provider :: "(signer_journal \<times> string \<times> string) list signing_provider" where
  "logging_provider calls rows m k = (Some (PStr ''envelope''), calls @ [(rows, m, k)])"

lemma example_signer_run:
  obtains od ls s r where "signer_run example_jcs example_grant_verifier example_solana_key empty_signer ls s"
    "orders ls = [(od, 63905760000000000)]" "od_message od = example_message"
    "r \<in> set (sy_journal s)" "so_state r = OpSigned"
proof -
  obtain od where od: "check_order example_jcs example_grant_verifier example_solana_key (PDict example_prepared) (PDict example_signed) grant_now =
      Inr (od, 63905760000000000)" "od_message od = example_message"
    by (rule example_order)
  let ?finish = "sign_finish od 63905760000000000 (Some (PStr ''envelope'')) (fst (claim_order od 63905760000000000 []))"
  have c: "claim_order od 63905760000000000 (sy_journal empty_signer) = (fst (claim_order od 63905760000000000 []), Inr ())"
    by (simp add: claim_order_def claim_def claim_tx_def transaction_def select_row_def empty_signer_def)
  obtain rows r claim where s: "sign example_jcs example_grant_verifier logging_provider example_solana_key
      (PDict example_prepared) (PDict example_signed) grant_now [] [] =
      (snd (logging_provider [] ([] @ [claim]) (od_message od) (od_signer od)), rows,
       Inr (PDict (signature_receipt od ''envelope'' 63905760000000000)))"
    "r \<in> set rows" "so_state r = OpSigned"
    by (rule sign_accepted [OF od(1), of "[]" logging_provider "[]" "''envelope''"])
      (simp_all add: select_row_def in_range_def logging_provider_def)
  from s(1) have "rows = fst ?finish"
    using sign_claimed [OF od(1) c, of logging_provider "[]"] by (auto simp: empty_signer_def logging_provider_def prod_eq_iff)
  with s(2,3) od(2) sign_run(2) [OF od(1) c, of "Some (PStr ''envelope'')"] show thesis
    by (intro that) auto
qed

end
