(* ===== verification/Grant_Props.thy ===== *)
theory Grant_Props
  imports Grant_Examples
begin

text \<open>
  What the authorization service and the signer boundary guarantee: a grant is bound to exactly one
  checked execution and to a short window, a request and an obligation have at most one live grant, a
  grant is consumed once, and the signing provider is asked at most once per grant, for the bytes it
  names.
\<close>

text \<open>
  Property C5. What the authority grants: the returned authorization names the commitment hash of
  exactly the plan, prepared execution and constraints it checked, and the digest of the decoded
  message; the simulation in it succeeded within the fee limit; and the grant ends within the ttl, at
  most a minute, and no later than the plan, the simulation and the prepared execution.
\<close>

theorem issued_authorization_binds:
  assumes "authority_init limit = Inr max_ttl" "authority_issue jcs sp max_ttl g now rows = (rows', Inr a)"
    and "r \<in> set rows'" "\<forall>s\<in>set rows. au_id s \<noteq> au_id r"
  shows "\<exists>auth plan prepared c h encoded message simulation fee e plan_expiry simulation_expiry prepared_expiry.
     a = PDict auth \<and> PStr (au_id r) = gr_authorization_id g \<and>
     normalize_economic_plan (gr_economic_plan g) = Inr plan \<and> gr_prepared_execution g = PDict prepared \<and>
     validate_constraints (gr_constraints g) ''$expected_constraints'' = Inr c \<and>
     execution_commitment_hash jcs (grant_commitment plan prepared c) = Inr h \<and>
     item auth ''execution_commitment_hash'' = PStr h \<and>
     item prepared ''prepared_message_base64'' = PStr encoded \<and> b64decode_strict encoded = Some message \<and>
     item auth ''prepared_message_hash'' = PStr (sha256_digest message) \<and> item auth ''signer'' = gr_signer g \<and>
     item prepared ''simulation'' = PDict simulation \<and> item simulation ''success'' = PBool True \<and>
     item simulation ''fee_lamports'' = PInt fee \<and> fee \<le> max_fee_lamports c \<and>
     au_timestamp (item plan ''expires_at'') ''$economic_plan.expires_at'' = Inr plan_expiry \<and>
     au_timestamp (item simulation ''valid_until'') (simulation_path ''valid_until'') = Inr simulation_expiry \<and>
     au_timestamp (item prepared ''expires_at'') ''$prepared_execution.expires_at'' = Inr prepared_expiry \<and>
     au_expires_at r = strftime_utc e \<and> to_seconds (instant now) < e \<and>
     e \<le> to_seconds (instant now) + 60 * 1000000 \<and> e \<le> plan_expiry \<and> e \<le> simulation_expiry \<and> e \<le> prepared_expiry"
proof -
  let ?now = "to_seconds (instant now)"
  obtain plan prepared e payload signature ob fp stored where cg: "check_grant jcs max_ttl g ?now = Inr (plan, prepared, e)"
    and a: "a = PDict (unsigned_authorization g prepared ?now e @ [(KStr ''authorization_signature'', PStr signature)])"
    and r: "r = grant_row (unsigned_authorization g prepared ?now e @
      [(KStr ''authorization_signature'', PStr signature)]) ob fp stored"
    using assms(2-4) by (rule fresh_issueE)
  obtain c pe se qe where f: "check_grant_arguments max_ttl g = Inr ()" "grant_plan g ?now = Inr (plan, pe)"
    "check_prepared_identity g = Inr prepared" "grant_constraints g prepared = Inr c"
    "check_grant_hashes jcs plan prepared = Inr ()" "check_simulation jcs prepared c ?now = Inr se"
    "prepared_window prepared pe se ?now = Inr qe" "check_commitment jcs plan prepared c = Inr ()"
    "grant_expiry ?now (gr_ttl_seconds g) pe se qe = Inr e"
    using cg by (rule check_grantE)
  obtain encoded message where msg: "item prepared ''prepared_message_base64'' = PStr encoded"
    "b64decode_strict encoded = Some message" "item prepared ''prepared_message_hash'' = PStr (sha256_digest message)"
    using f(5) by (rule check_grant_hashesE)
  obtain simulation fee where sim: "item prepared ''simulation'' = PDict simulation"
    "item simulation ''success'' = PBool True" "item simulation ''fee_lamports'' = PInt fee" "fee \<le> max_fee_lamports c"
    "au_timestamp (item simulation ''valid_until'') (simulation_path ''valid_until'') = Inr se"
    using f(6) by (rule check_simulationE)
  have ident: "gr_prepared_execution g = PDict prepared" "item prepared ''signer'' = gr_signer g"
    using f(3) by (auto elim: check_prepared_identityE)
  have c: "validate_constraints (gr_constraints g) ''$expected_constraints'' = Inr c"
    using f(4) by (auto simp: grant_constraints_def bind_res_eq_Inr reject_if_eq_Inr)
  obtain h where h: "execution_commitment_hash jcs (grant_commitment plan prepared c) = Inr h"
    "item prepared ''execution_commitment_hash'' = PStr h"
    using f(8) by (auto simp: check_commitment_def bind_res_eq_Inr reject_if_eq_Inr)
  have "gr_ttl_seconds g \<le> 60" and aid: "\<exists>i. gr_authorization_id g = PStr i"
    using f(1) assms(1)
    by (auto simp: check_grant_arguments_def authority_init_def au_identifier_def bind_res_eq_Inr reject_if_eq_Inr text_or_Inr)
  then have e: "?now < e" "e \<le> ?now + 60 * 1000000" "e \<le> pe" "e \<le> se" "e \<le> qe"
    using grant_expiry_Inr [OF f(9)] by linarith+
  have row: "au_expires_at r = strftime_utc e" "PStr (au_id r) = gr_authorization_id g"
    using aid by (auto simp: r grant_row_def text_item_def)
  have expiries: "normalize_economic_plan (gr_economic_plan g) = Inr plan"
    "au_timestamp (item plan ''expires_at'') ''$economic_plan.expires_at'' = Inr pe"
    "au_timestamp (item prepared ''expires_at'') ''$prepared_execution.expires_at'' = Inr qe"
    using f(2) prepared_window_Inr [OF f(7)] by (simp_all add: grant_plan_Inr)
  show ?thesis by (intro exI conjI) (rule a row expiries ident(1) c h(1) msg(1,2) sim e | simp add: h msg ident)+
qed

theorem issued_authorization_binds_witness:
  "\<exists>e. au_expires_at example_grant_row = strftime_utc e \<and> 63905760000000000 < e \<and> e \<le> 63905820000000000"
proof -
  have "authority_init 60 = Inr 60" by (simp add: authority_init_def)
  from issued_authorization_binds [OF this example_issue, of example_grant_row] show ?thesis by auto
qed

text \<open>
  Property C8. At most one live authorization: in every journal the service reaches, two issued
  rows for the same request or the same obligation are the same row.
\<close>

theorem one_live_authorization:
  assumes "(grant_step jcs)\<^sup>*\<^sup>* [] rows" "r \<in> set rows" "s \<in> set rows" "au_state r = GIssued" "au_state s = GIssued"
    and "au_request_id r = au_request_id s \<or> au_obligation_id r = au_obligation_id s"
  shows "r = s"
proof -
  have "grants_ok rows" using assms(1) grants_ok_Nil by (rule grants.steps_inv)
  then have "inj_on au_request_id (set (live_grants rows))" "inj_on au_obligation_id (set (live_grants rows))"
    by (simp_all add: grants_ok_def distinct_map)
  moreover have "r \<in> set (live_grants rows)" "s \<in> set (live_grants rows)"
    using assms by (simp_all add: live_grants_def)
  ultimately show ?thesis using assms(6) by (meson inj_onD)
qed

theorem one_live_authorization_witness:
  "{s \<in> set [example_grant_row]. au_state s = GIssued \<and> au_request_id s = ''req-1''} = {example_grant_row}"
proof -
  have "(grant_step example_jcs)\<^sup>*\<^sup>* [] [example_grant_row]" using example_issue_step by blast
  from one_live_authorization [OF this, of example_grant_row] show ?thesis by (auto simp: example_grant_columns)
qed

text \<open>
  Property C7. A grant is used once, in time: what \<^verbatim>\<open>consume\<close> returns was issued and not yet
  expired, and from then on, whatever the service's processes do, the row keeps the time it was consumed
  at and consuming it again changes nothing and raises: a replay, or, once the unguarded UPDATE of a
  \<^verbatim>\<open>state\<close> call that had read the row before has overwritten the state, an expiry.
\<close>

theorem authorization_single_use:
  assumes "(grant_step jcs)\<^sup>*\<^sup>* [] rows" "consume (PStr aid) now rows = (rows', Inr a)"
    and "(grant_step jcs)\<^sup>*\<^sup>* rows' rows''" "utcoffset later \<noteq> None"
  shows "(\<exists>r\<in>set rows. au_id r = aid \<and> au_state r = GIssued \<and> strftime_utc (instant now) < au_expires_at r \<and> a = au_json r) \<and>
    (\<exists>r\<in>set rows''. au_id r = aid \<and> au_json r = a \<and> au_consumed_at r = Some (strftime_utc (instant now)) \<and>
       (au_state r = GConsumed \<or> au_state r = GExpired) \<and>
       consume (PStr aid) later rows'' = (rows'', Inl (if au_state r = GConsumed then auth_replay else auth_expired)))"
proof -
  have ok: "grants_ok rows" using assms(1) grants_ok_Nil by (rule grants.steps_inv)
  obtain row where row: "select_row au_id rows aid = Some row" "au_state row = GIssued"
    "strftime_utc (instant now) < au_expires_at row" "a = au_json row" "identifier_text aid"
    "rows' = update_row au_id aid (mark_consumed (strftime_utc (instant now))) rows"
    using assms(2)
    by (auto simp: consume_def consume_tx_def transaction_def bind_res_eq_Inr au_identifier_def res_simps not_le
        split: sum.splits option.splits if_splits grant_state.splits intro: grant_state.exhaust)
  let ?ts = "strftime_utc (instant now)"
  let ?f = "mark_consumed ?ts"
  have row': "?f row \<in> set rows'" "grant_stage (?f row) = (GConsumed, Some ?ts)" "au_id (?f row) = aid" "au_json (?f row) = a"
    using select_row_key [OF row(1)] row(2,4) by (auto simp: row(6) update_row_def mark_consumed_def grant_stage_def)
  have "grant_step jcs rows rows'"
    using grant_step.consume [of jcs rows "PStr aid" now] assms(2) by simp
  then have ok': "grants_ok rows'" using ok by (rule grant_step_inv [rotated])
  have ok'': "grants_ok rows''" using assms(3) ok' by (rule grants.steps_inv)
  obtain r where r: "r \<in> set rows''" "grant_columns r = grant_columns (?f row)" "grant_edge\<^sup>*\<^sup>* (GConsumed, Some ?ts) (grant_stage r)"
    using grant_rows.run_keeps [OF grant_run_valid [OF assms(3) ok'] row'(1)] row'(2) by auto
  have stage: "au_consumed_at r = Some ?ts" "au_state r = GConsumed \<or> au_state r = GExpired"
    using consumed_stages [OF r(3)] by (auto simp: grant_stage_def)
  have cols: "au_id r = aid" "au_json r = a" using r(2) row'(3,4) by (simp_all add: grant_columns_def)
  then have "select_row au_id rows'' aid = Some r"
    using select_row_unique [of au_id rows'' r] r(1) ok'' by (simp add: grants_ok_def)
  then have "consume (PStr aid) later rows'' = (rows'', Inl (if au_state r = GConsumed then auth_replay else auth_expired))"
    using row(5) stage(2) assms(4)
    by (auto simp: consume_def consume_tx_def transaction_def au_identifier_def text_or_def aware_instant_def)
  with r(1) cols stage have "\<exists>r\<in>set rows''. au_id r = aid \<and> au_json r = a \<and> au_consumed_at r = Some ?ts \<and>
      (au_state r = GConsumed \<or> au_state r = GExpired) \<and>
      consume (PStr aid) later rows'' = (rows'', Inl (if au_state r = GConsumed then auth_replay else auth_expired))"
    by blast
  moreover have "\<exists>r\<in>set rows. au_id r = aid \<and> au_state r = GIssued \<and> ?ts < au_expires_at r \<and> a = au_json r"
    using row select_row_key [OF row(1)] by blast
  ultimately show ?thesis by blast
qed

theorem authorization_single_use_witness:
  "\<exists>rows' rows''. consume (PStr ''auth-1'') grant_now [example_grant_row] = (rows', Inr (au_json example_grant_row)) \<and>
     consume (PStr ''auth-1'') grant_now rows' = (rows', Inl auth_replay) \<and>
     grant_step example_jcs rows' rows'' \<and>
     consume (PStr ''auth-1'') grant_now rows'' = (rows'', Inl auth_expired)"
proof -
  have run: "(grant_step example_jcs)\<^sup>*\<^sup>* [] [example_grant_row]" using example_issue_step by blast
  obtain rows' where c: "consume (PStr ''auth-1'') grant_now [example_grant_row] = (rows', Inr (au_json example_grant_row))"
    by (rule example_consume)
  then have rows': "rows' = [mark_consumed (strftime_utc (instant grant_now)) example_grant_row]"
    by (rule example_consumed)
  let ?rows'' = "state_expire ''auth-1'' rows'"
  have "(grant_step example_jcs)\<^sup>*\<^sup>* [example_grant_row] rows'"
    using grant_step.consume [of example_jcs "[example_grant_row]" "PStr ''auth-1''" grant_now] c by simp
  then have late: "grant_step example_jcs rows' ?rows''" using example_state_read by (rule grant_step.expire)
  have later: "(grant_step example_jcs)\<^sup>*\<^sup>* rows' ?rows''" using late by blast
  have "utcoffset grant_now \<noteq> None" by simp
  note used = authorization_single_use [OF run c _ this]
  have "consume (PStr ''auth-1'') grant_now rows' = (rows', Inl auth_replay)"
    using used [OF rtranclp.rtrancl_refl] by (auto simp: rows' mark_consumed_def example_grant_columns)
  moreover have "consume (PStr ''auth-1'') grant_now ?rows'' = (?rows'', Inl auth_expired)"
    using used [OF later]
    by (auto simp: rows' mark_consumed_def example_grant_columns state_expire_def update_row_def)
  ultimately show ?thesis using c late by blast
qed

text \<open>
  Property C3. The signing provider is asked at most once per authorization, whatever signer
  processes do concurrently and wherever they die, and only for the message whose digest an authentic
  single-use authorization for this signer names, within its time window.
\<close>

theorem provider_asked_once:
  assumes "signer_run jcs gv signer_id empty_signer ls s"
  shows "distinct (map (od_authorization_id \<circ> fst) (orders ls)) \<and>
    (\<forall>(od, current)\<in>set (orders ls). licensed jcs gv signer_id od current)"
  using run_orders [OF assms signer_ok_empty] by auto

theorem provider_asked_once_witness:
  "\<exists>od ls s. signer_run example_jcs example_grant_verifier example_solana_key empty_signer ls s \<and>
     orders ls = [(od, 63905760000000000)] \<and> od_message od = example_message \<and>
     licensed example_jcs example_grant_verifier example_solana_key od 63905760000000000"
proof -
  obtain od ls s where "signer_run example_jcs example_grant_verifier example_solana_key empty_signer ls s"
    "orders ls = [(od, 63905760000000000)]" "od_message od = example_message"
    by (rule example_signer_run)
  with provider_asked_once [OF this(1)] show ?thesis by auto
qed

text \<open>
  A row that is signed holds a non-empty envelope and the receipt of an order for exactly
  its authorization, request, message hash and signer; any other row holds neither. A row, once
  signed or set aside, stays so.
\<close>

theorem signer_journal_sound:
  assumes "signer_run jcs gv signer_id empty_signer ls s" "r \<in> set (sy_journal s)"
    and "signer_run jcs gv signer_id s ls' s'"
  shows "receipt_ok r \<and>
    (\<exists>r'\<in>set (sy_journal s'). signer_columns r' = signer_columns r \<and> (so_state r \<noteq> OpSigning \<longrightarrow> so_state r' = so_state r))"
proof -
  have ok: "signer_ok s" using signer_run_ok [OF assms(1) signer_ok_empty] by simp
  have run: "signer_progress\<^sup>*\<^sup>* s s'" using signer_run_ok [OF assms(3) ok] by simp
  have "\<exists>r'\<in>set (sy_journal s'). signer_columns r' = signer_columns r \<and> (so_state r \<noteq> OpSigning \<longrightarrow> so_state r' = so_state r)"
  proof (cases "so_state r = OpSigning")
    case True
    then show ?thesis using signer_rows.run_keeps [OF run assms(2)] by blast
  next
    case False
    then have "\<forall>x. \<not> signing_edge (so_state r) x" by simp
    from signer_rows.run_final [OF run assms(2) this] show ?thesis by blast
  qed
  with ok assms(2) show ?thesis by (simp add: signer_ok_def)
qed

theorem signer_journal_sound_witness:
  "\<exists>ls s r. signer_run example_jcs example_grant_verifier example_solana_key empty_signer ls s \<and>
     r \<in> set (sy_journal s) \<and> so_state r = OpSigned \<and> receipt_ok r"
proof -
  obtain ls s r where run: "signer_run example_jcs example_grant_verifier example_solana_key empty_signer ls s"
    and r: "r \<in> set (sy_journal s)" "so_state r = OpSigned"
    by (rule example_signer_run)
  from signer_journal_sound [OF run r(1) signer_run.run_nil] run r show ?thesis by blast
qed

text \<open>
  Property C39. The sequential \<^verbatim>\<open>sign\<close> asks the provider at most once, and only after its claim is durable,
  whatever the provider does with its state: either it raises with the provider's state and the journal
  as they were, or the provider's new state is that after one call, for the ordered message and signer,
  made when the journal held the order's new row in state signing. The claim and the whole call are then
  runs of the concurrent system in which the provider is asked for that order.
\<close>

theorem sign_refines_steps:
  fixes provider :: "'w signing_provider"
  assumes "sign jcs gv provider signer_id prepared authorization now w (sy_journal s) = (w', rows, result)"
  shows "(w' = w \<and> rows = sy_journal s \<and> (\<exists>e. result = Inl e)) \<or>
    (\<exists>od current row.
       check_order jcs gv signer_id prepared authorization now = Inr (od, current) \<and>
       w' = snd (provider w (sy_journal s @ [row]) (od_message od) (od_signer od)) \<and>
       so_id row = od_authorization_id od \<and> so_state row = OpSigning \<and> so_id row \<notin> so_id ` set (sy_journal s) \<and>
       signer_run jcs gv signer_id s [Signs od current]
         (s\<lparr>sy_journal := sy_journal s @ [row], sy_in_flight := (od, current) # sy_in_flight s\<rparr>) \<and>
       signer_run jcs gv signer_id s [Signs od current, Internal] (s\<lparr>sy_journal := rows\<rparr>))"
proof (cases "\<exists>od current claimed. check_order jcs gv signer_id prepared authorization now = Inr (od, current) \<and>
    claim_order od current (sy_journal s) = (claimed, Inr ())")
  case False
  with assms show ?thesis
    by (auto simp: sign_def split: sum.splits prod.splits dest: claim_order_fails)
next
  case True
  then obtain od current claimed where o: "check_order jcs gv signer_id prepared authorization now = Inr (od, current)"
    and c: "claim_order od current (sy_journal s) = (claimed, Inr ())" by blast
  obtain row where row: "claimed = sy_journal s @ [row]" "row_of od row" "so_state row = OpSigning"
    "so_id row \<notin> so_id ` set (sy_journal s)" using c by (rule claim_order_row)
  from assms have "w' = snd (provider w claimed (od_message od) (od_signer od))"
    "rows = fst (sign_finish od current (fst (provider w claimed (od_message od) (od_signer od))) claimed)"
    by (simp_all add: sign_claimed [OF o c] prod_eq_iff)
  with o row sign_run [OF o c] show ?thesis by (auto simp: row_of_def)
qed

theorem sign_refines_steps_witness:
  "\<exists>od row rows receipt. sign example_jcs example_grant_verifier logging_provider example_solana_key
      (PDict example_prepared) (PDict example_signed) grant_now [] (sy_journal empty_signer) =
      ([([row], example_message, example_solana_key)], rows, Inr receipt) \<and>
    so_state row = OpSigning \<and> od_message od = example_message \<and>
    signer_run example_jcs example_grant_verifier example_solana_key empty_signer
      [Signs od 63905760000000000, Internal] (empty_signer\<lparr>sy_journal := rows\<rparr>)"
proof -
  obtain od where od: "check_order example_jcs example_grant_verifier example_solana_key (PDict example_prepared) (PDict example_signed) grant_now =
      Inr (od, 63905760000000000)" "od_message od = example_message" "od_signer od = example_solana_key"
    by (rule example_order)
  obtain rows claim where s: "sign example_jcs example_grant_verifier logging_provider example_solana_key
      (PDict example_prepared) (PDict example_signed) grant_now [] (sy_journal empty_signer) =
      (snd (logging_provider [] (sy_journal empty_signer @ [claim]) (od_message od) (od_signer od)), rows,
       Inr (PDict (signature_receipt od ''envelope'' 63905760000000000)))" "so_state claim = OpSigning"
    by (rule sign_accepted [OF od(1), of "sy_journal empty_signer" logging_provider "[]" "''envelope''"])
      (simp_all add: select_row_def in_range_def logging_provider_def empty_signer_def)
  from sign_refines_steps [OF s(1)] s od show ?thesis by (auto simp: logging_provider_def empty_signer_def)
qed

end
