(* ===== verification/Reconciliation.thy ===== *)
theory Reconciliation
  imports Exec_Checks "HOL-Library.Multiset"
begin

text \<open>
  \<^verbatim>\<open>services/reconciliation/protocol.py\<close>: observations of a transfer by registered sources, and the
  deterministic consensus over them. A source descriptor has passed its \<^verbatim>\<open>__post_init__\<close>; the registry
  is the list of descriptors with distinct identifiers.
\<close>

abbreviation rc_invalid :: "string \<Rightarrow> exn" where
  "rc_invalid \<equiv> Exn ReconciliationInvalid []"

definition rc_observation_fields :: "string list" where
  "rc_observation_fields =
     [''type'', ''protocol_version'', ''normalization_profile'', ''source_id'', ''source_class'',
      ''source_kind'', ''provider_id'', ''trust_domain_id'', ''endpoint_identity_hash'', ''parser_id'',
      ''queried_at'', ''signature'', ''network'', ''slot'', ''confirmation_status'', ''transaction_error'',
      ''source_account'', ''destination_account'', ''source_account_before'', ''source_account_after'',
      ''destination_account_before'', ''destination_account_after'', ''observed_amount_base_units'',
      ''raw_response_hash'']"

definition rc_expected_fields :: "string list" where
  "rc_expected_fields =
     [''execution_request_id'', ''obligation_id'', ''network'', ''signature'', ''source_account'',
      ''destination_account'', ''amount_base_units'']"

section \<open>Field checks\<close>

definition rc_closed :: "pyval \<Rightarrow> string list \<Rightarrow> string \<Rightarrow> pydict res" where
  "rc_closed v names path =
     (case v of
        PDict d \<Rightarrow>
          (if missing_keys names d \<noteq> [] \<or> unknown_keys names d \<noteq> [] then
             (if mixed_keys (unknown_keys names d) then Inl (PyRaise ''TypeError'') else Inl (rc_invalid path))
           else if list_ex (\<lambda>kv. snd kv = PNone) d then Inl (rc_invalid path)
           else Inr d)
      | _ \<Rightarrow> Inl (rc_invalid path))"

definition rc_identifier :: "pyval \<Rightarrow> string \<Rightarrow> string res" where
  "rc_identifier v path = text_or (rc_invalid path) identifier_text v"

definition rc_digest :: "pyval \<Rightarrow> string \<Rightarrow> string res" where
  "rc_digest v path = text_or (rc_invalid path) hash_text v"

definition rc_timestamp :: "pyval \<Rightarrow> string \<Rightarrow> string res" where
  "rc_timestamp v path = text_or (rc_invalid path) (\<lambda>s. ext_timestamp_text s \<and> strptime_utc s \<noteq> None) v"

text \<open>\<^verbatim>\<open>int(value)\<close> raises a plain ValueError beyond CPython's digit limit.\<close>

definition rc_amount :: "pyval \<Rightarrow> string \<Rightarrow> int res" where
  "rc_amount v path =
     bind_res (text_or (rc_invalid path) amount_text v) (\<lambda>s.
     bind_res (reject_if (4300 < length s) (PyRaise ''ValueError'')) (\<lambda>_. Inr (int (undec_nat s))))"

definition rc_solana_address :: "pyval \<Rightarrow> string \<Rightarrow> string res" where
  "rc_solana_address v path = pubkey_or (rc_invalid path) v"

text \<open>\<^verbatim>\<open>v in {...}\<close> and a rejection when it is not.\<close>

definition rc_member :: "pyval \<Rightarrow> string list \<Rightarrow> string \<Rightarrow> unit res" where
  "rc_member v names path = bind_res (py_in v names) (\<lambda>known. reject_if (\<not> known) (rc_invalid path))"

definition rc_source_classes :: "string list" where
  "rc_source_classes = [''L1'', ''L2'', ''L3'']"

definition rc_source_kinds :: "string list" where
  "rc_source_kinds = [''rpc'', ''archival_rpc'', ''indexer'', ''explorer'', ''validator'']"

section \<open>Sources\<close>

record source_descriptor =
  sd_source_id :: string
  sd_source_class :: string
  sd_source_kind :: string
  sd_provider_id :: string
  sd_trust_domain_id :: string
  sd_endpoint_identity_hash :: string
  sd_parser_id :: string

definition ignore_text :: "string res \<Rightarrow> unit res" where
  "ignore_text m = bind_res m (\<lambda>_. Inr ())"

definition check_descriptor :: "source_descriptor \<Rightarrow> unit res" where
  "check_descriptor d =
     run_all
       [ignore_text (rc_identifier (PStr (sd_source_id d)) ''$source.source_id''),
        ignore_text (rc_identifier (PStr (sd_provider_id d)) ''$source.provider_id''),
        ignore_text (rc_identifier (PStr (sd_trust_domain_id d)) ''$source.trust_domain_id''),
        ignore_text (rc_identifier (PStr (sd_parser_id d)) ''$source.parser_id''),
        reject_if (\<not> List.member rc_source_classes (sd_source_class d)) (rc_invalid ''$source.source_class''),
        reject_if (\<not> List.member rc_source_kinds (sd_source_kind d)) (rc_invalid ''$source.source_kind''),
        ignore_text (rc_digest (PStr (sd_endpoint_identity_hash d)) ''$source.endpoint_identity_hash''),
        reject_if (sd_source_class d = ''L3'' \<and>
          \<not> List.member [''archival_rpc'', ''indexer'', ''explorer'', ''validator''] (sd_source_kind d)) (rc_invalid [])]"

type_synonym source_registry = "source_descriptor list"

fun register_sources :: "source_descriptor list \<Rightarrow> source_registry \<Rightarrow> source_registry res" where
  "register_sources [] known = Inr known"
| "register_sources (d # ds) known =
     bind_res (reject_if (select_row sd_source_id known (sd_source_id d) \<noteq> None) (rc_invalid [])) (\<lambda>_.
     register_sources ds (insert_row d known))"

definition source_registry_of :: "source_descriptor list \<Rightarrow> source_registry res" where
  "source_registry_of ds = register_sources ds []"

definition descriptor_items :: "source_descriptor \<Rightarrow> (string \<times> string) list" where
  "descriptor_items d =
     [(''source_id'', sd_source_id d), (''source_class'', sd_source_class d), (''source_kind'', sd_source_kind d),
      (''provider_id'', sd_provider_id d), (''trust_domain_id'', sd_trust_domain_id d),
      (''endpoint_identity_hash'', sd_endpoint_identity_hash d), (''parser_id'', sd_parser_id d)]"

definition require_source :: "source_registry \<Rightarrow> pydict \<Rightarrow> source_descriptor res" where
  "require_source registry observation =
     (case item observation ''source_id'' of
        PStr s \<Rightarrow>
          (case select_row sd_source_id registry s of
             None \<Rightarrow> Inl (rc_invalid [])
           | Some d \<Rightarrow>
               bind_res (run_all (map (\<lambda>(f, expected). reject_if (item observation f \<noteq> PStr expected) (rc_invalid f))
                 (descriptor_items d))) (\<lambda>_. Inr d))
      | _ \<Rightarrow> Inl (rc_invalid []))"

definition raw_response_hash :: "string \<Rightarrow> string res" where
  "raw_response_hash payload = (if payload = [] then Inl (rc_invalid []) else Inr (''sha256:'' @ sha256_hex payload))"

section \<open>Observations\<close>

definition observation_path :: "string \<Rightarrow> string" where
  "observation_path f = ''$observation.'' @ f"

definition check_observation_texts :: "pydict \<Rightarrow> unit res" where
  "check_observation_texts d =
     run_all
       [reject_if (item d ''type'' \<noteq> PStr ''source_observation'') (rc_invalid ''$observation.type''),
        reject_if (item d ''protocol_version'' \<noteq> PStr ''1.0.0'') (rc_invalid ''$observation.protocol_version''),
        reject_if (item d ''normalization_profile'' \<noteq> PStr ''foundry-pay-domain-v1'')
          (rc_invalid ''$observation.normalization_profile''),
        ignore_text (rc_identifier (item d ''source_id'') (observation_path ''source_id'')),
        ignore_text (rc_identifier (item d ''provider_id'') (observation_path ''provider_id'')),
        ignore_text (rc_identifier (item d ''trust_domain_id'') (observation_path ''trust_domain_id'')),
        ignore_text (rc_identifier (item d ''parser_id'') (observation_path ''parser_id'')),
        rc_member (item d ''source_class'') rc_source_classes (observation_path ''source_class''),
        rc_member (item d ''source_kind'') rc_source_kinds (observation_path ''source_kind''),
        ignore_text (rc_digest (item d ''endpoint_identity_hash'') (observation_path ''endpoint_identity_hash'')),
        ignore_text (rc_digest (item d ''raw_response_hash'') (observation_path ''raw_response_hash'')),
        ignore_text (rc_timestamp (item d ''queried_at'') (observation_path ''queried_at'')),
        reject_if (case item d ''signature'' of PStr s \<Rightarrow> \<not> (64 \<le> py_len s \<and> py_len s \<le> 128) | _ \<Rightarrow> True)
          (rc_invalid ''$observation.signature''),
        reject_if (item d ''network'' \<noteq> PStr ''solana:devnet'') (rc_invalid ''$observation.network''),
        bind_res (safe_uint_or (rc_invalid ''$observation.slot'') (item d ''slot'')) (\<lambda>_. Inr ()),
        rc_member (item d ''confirmation_status'') [''confirmed'', ''finalized'']
          (observation_path ''confirmation_status''),
        (if item d ''transaction_error'' = PStr ''none'' then Inr ()
         else ignore_text (rc_digest (item d ''transaction_error'') ''$observation.transaction_error'')),
        ignore_text (rc_solana_address (item d ''source_account'') (observation_path ''source_account'')),
        ignore_text (rc_solana_address (item d ''destination_account'') (observation_path ''destination_account''))]"

definition check_observation_balances :: "pydict \<Rightarrow> unit res" where
  "check_observation_balances d =
     bind_res (rc_amount (item d ''source_account_before'') (observation_path ''source_account_before'')) (\<lambda>sb.
     bind_res (rc_amount (item d ''source_account_after'') (observation_path ''source_account_after'')) (\<lambda>sa.
     bind_res (rc_amount (item d ''destination_account_before'') (observation_path ''destination_account_before'')) (\<lambda>db.
     bind_res (rc_amount (item d ''destination_account_after'') (observation_path ''destination_account_after'')) (\<lambda>da.
     bind_res (rc_amount (item d ''observed_amount_base_units'') (observation_path ''observed_amount_base_units'')) (\<lambda>observed.
     bind_res (reject_if (sb - sa < 0 \<or> da - db < 0) (rc_invalid [])) (\<lambda>_.
     reject_if (sb - sa \<noteq> da - db \<or> sb - sa \<noteq> observed) (rc_invalid [])))))))"

definition rc_normalize_observation :: "pyval \<Rightarrow> pydict res" where
  "rc_normalize_observation v =
     bind_res (rc_closed v rc_observation_fields ''$observation'') (\<lambda>d.
     bind_res (check_observation_texts d) (\<lambda>_.
     bind_res (check_observation_balances d) (\<lambda>_.
     Inr d)))"

definition observation_hash :: "serializer \<Rightarrow> pyval \<Rightarrow> string res" where
  "observation_hash jcs v =
     bind_res (rc_normalize_observation v) (\<lambda>d.
     bind_res (canonicalize jcs (PDict d)) (\<lambda>b. Inr (sha256_digest b)))"

definition normalize_expected :: "pyval \<Rightarrow> pydict res" where
  "normalize_expected v =
     bind_res (rc_closed v rc_expected_fields ''$expected'') (\<lambda>d.
     bind_res (run_all
       [ignore_text (rc_identifier (item d ''execution_request_id'') ''$expected.execution_request_id''),
        ignore_text (rc_identifier (item d ''obligation_id'') ''$expected.obligation_id''),
        reject_if (item d ''network'' \<noteq> PStr ''solana:devnet'') (rc_invalid ''$expected.network''),
        reject_if (case item d ''signature'' of PStr s \<Rightarrow> s = [] | _ \<Rightarrow> True) (rc_invalid ''$expected.signature''),
        ignore_text (rc_solana_address (item d ''source_account'') ''$expected.source_account''),
        ignore_text (rc_solana_address (item d ''destination_account'') ''$expected.destination_account''),
        bind_res (rc_amount (item d ''amount_base_units'') ''$expected.amount_base_units'') (\<lambda>_. Inr ())]) (\<lambda>_.
     Inr d))"

section \<open>Consensus\<close>

definition compared_fields :: "(string \<times> string) list" where
  "compared_fields =
     [(''network'', ''network''), (''signature'', ''signature''), (''source_account'', ''source_account''),
      (''destination_account'', ''destination_account''), (''amount_base_units'', ''observed_amount_base_units'')]"

definition disagreements :: "pydict \<Rightarrow> pydict \<Rightarrow> string list" where
  "disagreements expected observation =
     map fst (filter (\<lambda>(e, f). item expected e \<noteq> item observation f) compared_fields) @
     (if item observation ''transaction_error'' \<noteq> PStr ''none'' then [''transaction_error''] else [])"

text \<open>One evaluated observation: the source, its digest, the differences and the status it reports.\<close>

record evaluated =
  ev_descriptor :: source_descriptor
  ev_hash :: string
  ev_disagreements :: "string list"
  ev_confirmation :: pyval

definition evaluate_one :: "serializer \<Rightarrow> pydict \<Rightarrow> source_registry \<Rightarrow> pyval \<Rightarrow> evaluated res" where
  "evaluate_one jcs settlement registry supplied =
     bind_res (rc_normalize_observation supplied) (\<lambda>observation.
     bind_res (require_source registry observation) (\<lambda>descriptor.
     bind_res (observation_hash jcs (PDict observation)) (\<lambda>h.
     Inr \<lparr>ev_descriptor = descriptor, ev_hash = h, ev_disagreements = disagreements settlement observation,
          ev_confirmation = item observation ''confirmation_status''\<rparr>)))"

fun evaluate_all ::
  "serializer \<Rightarrow> pydict \<Rightarrow> source_registry \<Rightarrow> string list \<Rightarrow> string list \<Rightarrow> pyval list \<Rightarrow> evaluated list res" where
  "evaluate_all jcs settlement registry seen_sources seen_hashes [] = Inr []"
| "evaluate_all jcs settlement registry seen_sources seen_hashes (v # vs) =
     bind_res (evaluate_one jcs settlement registry v) (\<lambda>ev.
     bind_res (reject_if (List.member seen_sources (sd_source_id (ev_descriptor ev)) \<or>
         List.member seen_hashes (ev_hash ev)) (rc_invalid [])) (\<lambda>_.
     bind_res (evaluate_all jcs settlement registry (sd_source_id (ev_descriptor ev) # seen_sources)
         (ev_hash ev # seen_hashes) vs) (\<lambda>evs.
     Inr (ev # evs))))"

definition ev_matched :: "evaluated \<Rightarrow> bool" where
  "ev_matched ev \<longleftrightarrow> ev_disagreements ev = []"

definition ev_class :: "evaluated \<Rightarrow> string" where
  "ev_class ev = sd_source_class (ev_descriptor ev)"

definition diverse_from_l1 :: "source_descriptor \<Rightarrow> source_descriptor list \<Rightarrow> bool" where
  "diverse_from_l1 candidate baselines =
     list_all (\<lambda>b. sd_provider_id candidate \<noteq> sd_provider_id b \<and>
       sd_trust_domain_id candidate \<noteq> sd_trust_domain_id b \<and>
       sd_endpoint_identity_hash candidate \<noteq> sd_endpoint_identity_hash b) baselines"

record reconciliation_result =
  rr_execution_request_id :: pyval
  rr_obligation_id :: pyval
  rr_expected_amount :: pyval
  rr_execution_status :: string
  rr_reconciliation_status :: string
  rr_independent_verification :: string
  rr_consensus :: string
  rr_observations :: "evaluated list"
  rr_unavailable :: "string list"

definition execution_status_of :: "evaluated list \<Rightarrow> string" where
  "execution_status_of evs =
     (let observed = map ev_confirmation (filter ev_matched evs) in
      if List.member observed (PStr ''finalized'') then ''finalized''
      else if observed \<noteq> [] then ''confirmed'' else ''unknown'')"

definition qualifying :: "string \<Rightarrow> evaluated list \<Rightarrow> source_descriptor list \<Rightarrow> evaluated list" where
  "qualifying level evs l1 =
     filter (\<lambda>ev. ev_matched ev \<and> ev_class ev = level \<and> diverse_from_l1 (ev_descriptor ev) l1) evs"

text \<open>Reconciliation status, independent verification, consensus.\<close>

definition verdict_of :: "evaluated list \<Rightarrow> string \<times> string \<times> string" where
  "verdict_of evs =
     (let l1 = map ev_descriptor (filter (\<lambda>ev. ev_matched ev \<and> ev_class ev = ''L1'') evs) in
      if list_ex (\<lambda>ev. \<not> ev_matched ev) evs then (''reconciliation_disputed'', ''disputed'', ''disputed'')
      else if l1 = [] then (''pending'', ''pending'', ''pending'')
      else
        (''l1_verified'',
         (if qualifying ''L3'' evs l1 \<noteq> [] then ''l3_verified''
          else if qualifying ''L2'' evs l1 \<noteq> [] then ''l2_verified''
          else ''pending''),
         ''approved''))"

definition aggregate_result ::
  "pydict \<Rightarrow> evaluated list \<Rightarrow> string \<Rightarrow> string \<times> string \<times> string \<Rightarrow> string list \<Rightarrow> reconciliation_result" where
  "aggregate_result expected evs execution_status v unavailable =
     \<lparr>rr_execution_request_id = item expected ''execution_request_id'', rr_obligation_id = item expected ''obligation_id'',
      rr_expected_amount = item expected ''amount_base_units'', rr_execution_status = execution_status,
      rr_reconciliation_status = fst v, rr_independent_verification = fst (snd v), rr_consensus = snd (snd v),
      rr_observations = evs, rr_unavailable = unavailable\<rparr>"

definition aggregate_reconciliation ::
  "serializer \<Rightarrow> pyval \<Rightarrow> pyval list \<Rightarrow> source_registry \<Rightarrow> string list \<Rightarrow> reconciliation_result res" where
  "aggregate_reconciliation jcs expected observations registry unavailable =
     bind_res (normalize_expected expected) (\<lambda>settlement.
     if observations = [] then
       Inr (aggregate_result settlement [] ''unknown'' (''pending'', ''pending'', ''pending'') unavailable)
     else
       bind_res (evaluate_all jcs settlement registry [] [] observations) (\<lambda>evs.
       Inr (aggregate_result settlement evs (execution_status_of evs) (verdict_of evs) unavailable)))"

section \<open>What an evaluation says\<close>

lemma evaluate_all_Inr:
  "evaluate_all jcs settlement registry ss hs vs = Inr evs \<longleftrightarrow>
     list_all2 (\<lambda>v ev. evaluate_one jcs settlement registry v = Inr ev) vs evs \<and>
     distinct (map (sd_source_id \<circ> ev_descriptor) evs) \<and> (sd_source_id \<circ> ev_descriptor) ` set evs \<inter> set ss = {} \<and>
     distinct (map ev_hash evs) \<and> ev_hash ` set evs \<inter> set hs = {}"
proof (induction vs arbitrary: ss hs evs)
  case (Cons v vs)
  show ?case
  proof (cases evs)
    case (Cons ev evs')
    show ?thesis
      unfolding Cons evaluate_all.simps
      by (auto simp: bind_res_eq_Inr bind_unit_eq_Inr reject_if_eq_Inr Cons.IH)
  qed (auto simp: bind_res_eq_Inr)
qed auto

end
