(* ===== verification/Sha256_Eval.thy ===== *)
theory Sha256_Eval
  imports Sha256
begin

text \<open>
  SHA-256 on integers below 2^32, equal to the algorithm on 32-bit words: a version the simplifier can
  evaluate, so that concrete digests can be computed where an example needs two that differ.
\<close>

unbundle bit_operations_syntax

section \<open>The operations\<close>

definition i_add :: "int \<Rightarrow> int \<Rightarrow> int" where
  "i_add a b = (a + b) mod 4294967296"

definition i_rotr :: "int \<Rightarrow> int \<Rightarrow> int \<Rightarrow> int" where
  "i_rotr lo hi x = (x div lo) OR ((x * hi) mod 4294967296)"

definition i_big0 :: "int \<Rightarrow> int" where
  "i_big0 x = i_rotr 4 1073741824 x XOR i_rotr 8192 524288 x XOR i_rotr 4194304 1024 x"

definition i_big1 :: "int \<Rightarrow> int" where
  "i_big1 x = i_rotr 64 67108864 x XOR i_rotr 2048 2097152 x XOR i_rotr 33554432 128 x"

definition i_small0 :: "int \<Rightarrow> int" where
  "i_small0 x = i_rotr 128 33554432 x XOR i_rotr 262144 16384 x XOR (x div 8)"

definition i_small1 :: "int \<Rightarrow> int" where
  "i_small1 x = i_rotr 131072 32768 x XOR i_rotr 524288 8192 x XOR (x div 1024)"

definition i_ch :: "int \<Rightarrow> int \<Rightarrow> int \<Rightarrow> int" where
  "i_ch x y z = (x AND y) XOR (z XOR (x AND z))"

definition i_maj :: "int \<Rightarrow> int \<Rightarrow> int \<Rightarrow> int" where
  "i_maj x y z = (x AND y) XOR (x AND z) XOR (y AND z)"

lemma uint_add32: "uint ((a :: w32) + b) = i_add (uint a) (uint b)"
  by (simp add: i_add_def uint_word_ariths)

lemma word_rotr_split: "n < 32 \<Longrightarrow> word_rotr n (w :: w32) = drop_bit n w OR push_bit (32 - n) w"
proof (rule bit_eqI)
  fix i
  assume n: "n < 32" and "possible_bit TYPE(w32) i"
  then have i: "i < 32" by simp
  show "bit (word_rotr n w) i \<longleftrightarrow> bit (drop_bit n w OR push_bit (32 - n) w) i"
  proof (cases "i + n < 32")
    case True
    then have "\<not> 32 - n \<le> i" by simp
    with True i show ?thesis by (simp add: bit_word_rotr_iff bit_or_iff bit_drop_bit_eq bit_push_bit_iff add.commute)
  next
    case False
    then have "(i + n) mod 32 = i - (32 - n)" using n i by (simp add: mod_if)
    moreover have "\<not> bit w (n + i)" using False by (auto dest: bit_imp_le_length)
    moreover have "32 - n \<le> i" using False by simp
    ultimately show ?thesis
      using False n i by (simp add: bit_word_rotr_iff bit_or_iff bit_drop_bit_eq bit_push_bit_iff)
  qed
qed

lemma take_uint32: "take_bit 32 (uint (w :: w32)) = uint w"
  by (simp add: take_bit_int_eq_self uint_lt2p [where 'a = 32, simplified])

lemma uint_drop: "lo = 2 ^ n \<Longrightarrow> uint (drop_bit n (w :: w32)) = uint w div lo"
  by (simp add: unsigned_drop_bit_eq take_uint32 flip: drop_bit_eq_div)

lemma uint_rotr:
  assumes "n < 32" "lo = 2 ^ n" "hi = 2 ^ (32 - n)"
  shows "uint (word_rotr n (w :: w32)) = i_rotr lo hi (uint w)"
proof -
  have "uint (push_bit (32 - n) w) = uint w * hi mod 4294967296"
    unfolding assms(3) unsigned_push_bit_eq by (simp add: push_bit_eq_mult take_bit_eq_mod)
  then show ?thesis using assms(1) by (simp add: word_rotr_split unsigned_or_eq i_rotr_def uint_drop [OF assms(2)])
qed

lemma not_and_word: "NOT x AND z = z XOR (x AND (z :: w32))"
  by (rule bit_eqI) (auto simp: bit_simps)

lemma uint_sigmas:
  "uint (big_sigma0 x) = i_big0 (uint x)" "uint (big_sigma1 x) = i_big1 (uint x)"
  "uint (small_sigma0 x) = i_small0 (uint x)" "uint (small_sigma1 x) = i_small1 (uint x)"
  unfolding big_sigma0_def big_sigma1_def small_sigma0_def small_sigma1_def
    i_big0_def i_big1_def i_small0_def i_small1_def unsigned_xor_eq
  by (simp_all add: uint_rotr uint_drop)

lemma uint_choices: "uint (ch_word x y z) = i_ch (uint x) (uint y) (uint z)" "uint (maj_word x y z) = i_maj (uint x) (uint y) (uint z)"
  by (simp_all add: ch_word_def maj_word_def i_ch_def i_maj_def not_and_word unsigned_xor_eq unsigned_and_eq)

section \<open>The algorithm\<close>

fun i_schedule :: "nat \<Rightarrow> int list \<Rightarrow> int list" where
  "i_schedule 0 ws = ws"
| "i_schedule (Suc n) ws =
     i_schedule n (i_add (i_add (i_add (i_small1 (ws ! 1)) (ws ! 6)) (i_small0 (ws ! 14))) (ws ! 15) # ws)"

fun i_round :: "int list \<Rightarrow> int \<times> int \<Rightarrow> int list" where
  "i_round [a, b, c, d, e, f, g, h] (k, w) =
     (let t1 = i_add (i_add (i_add (i_add h (i_big1 e)) (i_ch e f g)) k) w;
          t2 = i_add (i_big0 a) (i_maj a b c)
      in [i_add t1 t2, a, b, c, i_add d t1, e, f, g])"
| "i_round st _ = st"

lemma uint_schedule: "16 \<le> length ws \<Longrightarrow> map uint (extend_schedule n ws) = i_schedule n (map uint ws)"
proof (induction n arbitrary: ws)
  case (Suc n)
  then show ?case by (simp add: uint_add32 uint_sigmas)
qed simp

lemma uint_round: "map uint (sha_round st kw) = i_round (map uint st) (map_prod uint uint kw)"
  by (induction st kw rule: sha_round.induct) (simp_all add: Let_def uint_add32 uint_sigmas uint_choices)

lemma uint_rounds: "map uint (foldl sha_round st kws) = foldl i_round (map uint st) (map (map_prod uint uint) kws)"
  by (induction kws arbitrary: st) (simp_all add: uint_round)

definition i_k :: "int list" where
  "i_k = map uint sha_k"

definition i_word :: "nat list \<Rightarrow> int" where
  "i_word bs = foldl (\<lambda>a b. (a * 256 + int b) mod 4294967296) 0 bs"

definition i_compress :: "int list \<Rightarrow> nat list \<Rightarrow> int list" where
  "i_compress st block =
     map2 i_add st (foldl i_round st (zip i_k (rev (i_schedule 48 (rev (map i_word (chunks 4 block)))))))"

definition i_sha256 :: "nat list \<Rightarrow> int list" where
  "i_sha256 bs = foldl i_compress (map uint sha_init) (chunks 64 (sha_pad bs))"

definition i_hex :: "int \<Rightarrow> string" where
  "i_hex w = map (\<lambda>i. hex_char (nat (w div 16 ^ i mod 16))) (rev [0..<8])"

definition i_sha256_hex :: "string \<Rightarrow> string" where
  "i_sha256_hex b = concat (map i_hex (i_sha256 (map of_char b)))"

lemma uint_be_word: "uint (be_word bs) = i_word bs"
proof -
  have step: "uint (a * 256 + of_nat b :: w32) = (uint a * 256 + int b) mod 4294967296" for a b
    by (simp add: uint_word_ariths unsigned_of_nat take_bit_eq_mod mod_simps zmod_int)
  have "uint (foldl (\<lambda>a b. a * 256 + of_nat b) a bs :: w32) = foldl (\<lambda>a b. (a * 256 + int b) mod 4294967296) (uint a) bs" for a
    by (induction bs arbitrary: a) (simp_all add: step)
  from this [of 0] show ?thesis by (simp add: be_word_def i_word_def)
qed

lemma length_chunks: "n \<noteq> 0 \<Longrightarrow> length xs = n * k \<Longrightarrow> length (chunks n xs) = k \<and> (\<forall>c\<in>set (chunks n xs). length c = n)"
proof (induction k arbitrary: xs)
  case (Suc k)
  then have "xs \<noteq> []" by auto
  moreover have "length (drop n xs) = n * k" using Suc.prems by simp
  ultimately show ?case using Suc.IH [of "drop n xs"] Suc.prems by (simp add: chunks.simps [of n xs])
qed (simp add: chunks.simps)

lemma length_sha_pad: "\<exists>k. length (sha_pad bs) = 64 * k"
proof -
  have "(int (length bs) + 9 + (55 - int (length bs)) mod 64) mod 64 = 0" by (simp add: mod_simps)
  moreover have "int (length (sha_pad bs)) = int (length bs) + 9 + (55 - int (length bs)) mod 64"
    by (simp add: sha_pad_def Let_def be_bytes_def)
  ultimately have "int (length (sha_pad bs)) mod 64 = 0" by simp
  then have "length (sha_pad bs) mod 64 = 0" by presburger
  then show ?thesis by (metis mod_0_imp_dvd dvdE)
qed

lemma zip_uint: "map (map_prod uint uint) (zip xs ys) = zip (map uint xs) (map uint ys)"
  by (induction xs ys rule: list_induct2') simp_all

lemma uint_compress: "length block = 64 \<Longrightarrow> map uint (compress st block) = i_compress (map uint st) block"
proof -
  assume "length block = 64"
  then have l: "length (chunks 4 block) = 16" using length_chunks [of 4 block 16] by simp
  have "map uint (rev (extend_schedule 48 (rev (map be_word (chunks 4 block))))) =
      rev (i_schedule 48 (rev (map i_word (chunks 4 block))))"
    by (simp add: rev_map uint_schedule l uint_be_word comp_def flip: rev_map)
  then have z: "map (map_prod uint uint) (zip sha_k (schedule block)) =
      zip i_k (rev (i_schedule 48 (rev (map i_word (chunks 4 block)))))"
    by (simp only: schedule_def i_k_def zip_uint)
  have a: "map uint (map2 (+) xs ys) = map2 i_add (map uint xs) (map uint (ys :: w32 list))" for xs ys
    by (induction xs ys rule: list_induct2') (simp_all add: uint_add32)
  show ?thesis unfolding compress_def i_compress_def by (simp only: a uint_rounds z)
qed

text \<open>The integer version computes the digest.\<close>

lemma sha256_hex_eval: "sha256_hex b = i_sha256_hex b"
proof -
  have "map uint (foldl compress st bs) = foldl i_compress (map uint st) bs" if "\<forall>c\<in>set bs. length c = 64" for st bs
    using that by (induction bs arbitrary: st) (simp_all add: uint_compress)
  moreover obtain k where "length (sha_pad (map of_char b)) = 64 * k" using length_sha_pad by blast
  ultimately have "map uint (sha256_words (map of_char b)) = i_sha256 (map of_char b)"
    using length_chunks [of 64 "sha_pad (map of_char b)" k] by (simp add: sha256_words_def i_sha256_def)
  moreover have "hex_word = i_hex \<circ> uint"
  proof
    fix w :: w32
    have "nat (uint w div 16 ^ i mod 16) = unat w div 16 ^ i mod 16" for i
    proof -
      have "int (unat w div 16 ^ i mod 16) = int (unat w) div 16 ^ i mod 16" by (simp only: of_nat_div of_nat_mod of_nat_power of_nat_numeral)
      then show ?thesis by (metis nat_int uint_nat)
    qed
    then show "hex_word w = (i_hex \<circ> uint) w" by (simp only: hex_word_def i_hex_def comp_def)
  qed
  ultimately show ?thesis unfolding sha256_hex_def i_sha256_hex_def by (metis map_map)
qed

text \<open>The example of the standard.\<close>

lemma i_k_eval: "i_k =
    [1116352408, 1899447441, 3049323471, 3921009573, 961987163, 1508970993, 2453635748,
      2870763221, 3624381080, 310598401, 607225278, 1426881987, 1925078388, 2162078206,
      2614888103, 3248222580, 3835390401, 4022224774, 264347078, 604807628, 770255983,
      1249150122, 1555081692, 1996064986, 2554220882, 2821834349, 2952996808, 3210313671,
      3336571891, 3584528711, 113926993, 338241895, 666307205, 773529912, 1294757372,
      1396182291, 1695183700, 1986661051, 2177026350, 2456956037, 2730485921, 2820302411,
      3259730800, 3345764771, 3516065817, 3600352804, 4094571909, 275423344, 430227734,
      506948616, 659060556, 883997877, 958139571, 1322822218, 1537002063, 1747873779,
      1955562222, 2024104815, 2227730452, 2361852424, 2428436474, 2756734187, 3204031479,
      3329325298]"
  by (simp add: i_k_def sha_k_def)

lemma i_init_eval: "map uint sha_init =
    [1779033703, 3144134277, 1013904242, 2773480762, 1359893119, 2600822924, 528734635, 1541459225]"
  by (simp add: sha_init_def)

lemma be_bytes_8: "n < 256 \<Longrightarrow> be_bytes 8 n = [0, 0, 0, 0, 0, 0, 0, n]"
  by (simp add: be_bytes_def upt_rec)

text \<open>A message of at most 31 bytes is one block.\<close>

lemma sha_pad_short:
  assumes "length bs < 32"
  shows "chunks 64 (sha_pad bs) = [bs @ [128] @ replicate (55 - length bs) 0 @ [0, 0, 0, 0, 0, 0, 0, 8 * length bs]]"
proof -
  have "nat ((55 - int (length bs)) mod 64) = 55 - length bs" using assms by (simp add: nat_diff_distrib)
  then have "sha_pad bs = bs @ [128] @ replicate (55 - length bs) 0 @ [0, 0, 0, 0, 0, 0, 0, 8 * length bs]"
    using assms by (simp add: sha_pad_def Let_def be_bytes_8)
  then show ?thesis using assms by (simp add: chunks.simps)
qed

lemma sha256_short:
  assumes "length b < 32"
  shows "sha256_hex b = concat (map i_hex (i_compress (map uint sha_init)
    (map of_char b @ [128] @ replicate (55 - length b) 0 @ [0, 0, 0, 0, 0, 0, 0, 8 * length b])))"
  using assms by (simp add: sha256_hex_eval i_sha256_hex_def i_sha256_def sha_pad_short)

lemma sha256_abc: "sha256_hex ''abc'' = ''ba7816bf8f01cfea414140de5dae2223b00361a396177a9cb410ff61f20015ad''"
proof -
  have "length ''abc'' < 32" by simp
  note d = sha256_short [OF this, unfolded i_init_eval i_compress_def i_k_eval]
  show ?thesis unfolding d by code_simp
qed

end
