(* ===== verification/Reconciliation_Props.thy ===== *)
theory Reconciliation_Props
  imports Reconciliation Sha256_Eval
begin

text \<open>
  What the consensus of \<^verbatim>\<open>services/reconciliation/protocol.py\<close> means: approval needs every source to
  agree on the transfer and one of them to be a primary source, independent verification needs a
  source that shares nothing with a primary one, and the order of the observations does not matter.
\<close>

interpretation sources: keyed_table sd_source_id "select_row sd_source_id" insert_row "update_row sd_source_id"
  by (rule keyed_rows)

section \<open>Observations and sources\<close>

text \<open>The balances of an observation: the source lost and the destination gained the same amount.\<close>

definition moved_between :: "pydict \<Rightarrow> nat \<Rightarrow> bool" where
  "moved_between d a \<longleftrightarrow>
     (\<exists>sb sa db da. item d ''source_account_before'' = PStr sb \<and> item d ''source_account_after'' = PStr sa \<and>
        item d ''destination_account_before'' = PStr db \<and> item d ''destination_account_after'' = PStr da \<and>
        undec_nat sb = undec_nat sa + a \<and> undec_nat da = undec_nat db + a)"

lemma rc_amount_Inr [res_simps]:
  "rc_amount v path = Inr i \<longleftrightarrow> (\<exists>s. v = PStr s \<and> amount_text s \<and> length s \<le> 4300 \<and> i = int (undec_nat s))"
  by (auto simp: rc_amount_def res_simps)

lemma rc_closed_Inr: "rc_closed v names path = Inr d \<Longrightarrow> v = PDict d"
  by (cases v) (auto simp: rc_closed_def split: if_splits)

lemma rc_normalize_observationE:
  assumes "rc_normalize_observation v = Inr d"
  obtains observed where "v = PDict d" "item d ''observed_amount_base_units'' = PStr observed" "amount_text observed"
    "moved_between d (undec_nat observed)"
proof -
  from assms have v: "v = PDict d" and b: "check_observation_balances d = Inr ()"
    by (auto simp: rc_normalize_observation_def bind_res_eq_Inr dest: rc_closed_Inr)
  from b obtain sb sa db da observed where i: "item d ''source_account_before'' = PStr sb" "item d ''source_account_after'' = PStr sa"
      "item d ''destination_account_before'' = PStr db" "item d ''destination_account_after'' = PStr da"
      "item d ''observed_amount_base_units'' = PStr observed" "amount_text observed"
    and n: "int (undec_nat sb) - int (undec_nat sa) = int (undec_nat da) - int (undec_nat db)"
      "int (undec_nat sb) - int (undec_nat sa) = int (undec_nat observed)"
    unfolding check_observation_balances_def by (auto simp: bind_res_eq_Inr bind_unit_eq_Inr reject_if_eq_Inr rc_amount_Inr)
  have "undec_nat sb = undec_nat sa + undec_nat observed" "undec_nat da = undec_nat db + undec_nat observed"
    using n by linarith+
  with i v show thesis by (intro that) (auto simp: moved_between_def)
qed

lemma require_source_Inr:
  assumes "require_source registry d = Inr sd"
  shows "sd \<in> set registry \<and> (\<forall>(f, x)\<in>set (descriptor_items sd). item d f = PStr x)"
proof -
  from assms obtain s where "select_row sd_source_id registry s = Some sd"
    and r: "run_all (map (\<lambda>(f, x). reject_if (item d f \<noteq> PStr x) (rc_invalid f)) (descriptor_items sd)) = Inr ()"
    by (auto simp: require_source_def bind_unit_eq_Inr split: pyval.splits option.splits)
  then show ?thesis
    using select_row_key [of sd_source_id registry s sd]
    by (auto simp: run_all_eq_Inr reject_if_eq_Inr simp del: run_all.simps)
qed

lemma disagreements_Nil:
  "disagreements expected d = [] \<longleftrightarrow>
     item d ''network'' = item expected ''network'' \<and> item d ''signature'' = item expected ''signature'' \<and>
     item d ''source_account'' = item expected ''source_account'' \<and>
     item d ''destination_account'' = item expected ''destination_account'' \<and>
     item d ''observed_amount_base_units'' = item expected ''amount_base_units'' \<and>
     item d ''transaction_error'' = PStr ''none''"
  by (auto simp: disagreements_def compared_fields_def)

text \<open>An observation by a registered source of exactly the expected transfer.\<close>

definition agrees :: "source_registry \<Rightarrow> pydict \<Rightarrow> pydict \<Rightarrow> bool" where
  "agrees registry expected d \<longleftrightarrow>
     (\<exists>sd\<in>set registry. item d ''source_id'' = PStr (sd_source_id sd) \<and> item d ''source_class'' = PStr (sd_source_class sd)) \<and>
     item d ''network'' = item expected ''network'' \<and> item d ''signature'' = item expected ''signature'' \<and>
     item d ''source_account'' = item expected ''source_account'' \<and>
     item d ''destination_account'' = item expected ''destination_account'' \<and>
     item d ''transaction_error'' = PStr ''none'' \<and>
     (\<exists>a. item expected ''amount_base_units'' = PStr a \<and> moved_between d (undec_nat a))"

lemma evaluate_oneE:
  assumes "evaluate_one jcs settlement registry v = Inr ev"
  obtains d where "v = PDict d" "ev_descriptor ev \<in> set registry"
    "item d ''source_class'' = PStr (ev_class ev)" "ev_matched ev \<longrightarrow> agrees registry settlement d"
proof -
  from assms obtain d sd h where n: "rc_normalize_observation v = Inr d" and s: "require_source registry d = Inr sd"
    and ev: "ev = \<lparr>ev_descriptor = sd, ev_hash = h, ev_disagreements = disagreements settlement d,
      ev_confirmation = item d ''confirmation_status''\<rparr>"
    by (auto simp: evaluate_one_def bind_res_eq_Inr)
  from n obtain observed where v: "v = PDict d" "item d ''observed_amount_base_units'' = PStr observed"
    "moved_between d (undec_nat observed)" by (rule rc_normalize_observationE)
  have sd: "sd \<in> set registry" "item d ''source_id'' = PStr (sd_source_id sd)" "item d ''source_class'' = PStr (sd_source_class sd)"
    using require_source_Inr [OF s] by (auto simp: descriptor_items_def)
  have "agrees registry settlement d" if "ev_matched ev"
    unfolding agrees_def
    using that v sd by (auto simp: ev ev_matched_def disagreements_Nil intro!: exI [of _ observed])
  then show thesis by (intro that) (use v sd in \<open>auto simp: ev ev_class_def\<close>)
qed

lemma evaluated_observation:
  assumes "list_all2 (\<lambda>v ev. evaluate_one jcs settlement registry v = Inr ev) vs evs"
  shows "v \<in> set vs \<Longrightarrow> \<exists>ev\<in>set evs. evaluate_one jcs settlement registry v = Inr ev"
    and "ev \<in> set evs \<Longrightarrow> \<exists>v\<in>set vs. evaluate_one jcs settlement registry v = Inr ev"
  using assms by (induction rule: list_all2_induct) auto

lemma aggregateE:
  assumes "aggregate_reconciliation jcs expected obs registry un = Inr res" "obs \<noteq> []"
  obtains settlement evs where "expected = PDict settlement" "normalize_expected expected = Inr settlement"
    "evaluate_all jcs settlement registry [] [] obs = Inr evs"
    "res = aggregate_result settlement evs (execution_status_of evs) (verdict_of evs) un"
  using assms
  by (auto simp: aggregate_reconciliation_def normalize_expected_def bind_res_eq_Inr dest: rc_closed_Inr)

lemma aggregate_pending: "aggregate_reconciliation jcs expected [] registry un = Inr res \<Longrightarrow> rr_consensus res = ''pending'' \<and>
    rr_independent_verification res = ''pending''"
  by (auto simp: aggregate_reconciliation_def aggregate_result_def bind_res_eq_Inr)

lemma verdict_approved:
  "snd (snd (verdict_of evs)) = ''approved'' \<longleftrightarrow> (\<forall>ev\<in>set evs. ev_matched ev) \<and> (\<exists>ev\<in>set evs. ev_class ev = ''L1'')"
  by (auto simp: verdict_of_def Let_def list_ex_iff filter_empty_conv)

section \<open>An example\<close>

text \<open>
  A primary source and an independent indexer see the same transfer of 25 units. The serializer of
  the example writes the source identifier, which is enough to tell the two observations apart.
\<close>

definition source_jcs :: serializer where
  "source_jcs v = (case v of PDict d \<Rightarrow> str_of (item d ''source_id'') | _ \<Rightarrow> None)"

definition example_source_a :: source_descriptor where
  "example_source_a = \<lparr>sd_source_id = ''a'', sd_source_class = ''L1'', sd_source_kind = ''rpc'', sd_provider_id = ''p1'',
     sd_trust_domain_id = ''t1'', sd_endpoint_identity_hash = zero_hash, sd_parser_id = ''q1''\<rparr>"

definition example_source_b :: source_descriptor where
  "example_source_b = \<lparr>sd_source_id = ''b'', sd_source_class = ''L3'', sd_source_kind = ''indexer'', sd_provider_id = ''p2'',
     sd_trust_domain_id = ''t2'', sd_endpoint_identity_hash = ''sha256:'' @ replicate 64 (CHR ''f''), sd_parser_id = ''q2''\<rparr>"

definition example_sighting :: "source_descriptor \<Rightarrow> pydict" where
  "example_sighting sd =
     [(KStr ''type'', PStr ''source_observation''), (KStr ''protocol_version'', PStr ''1.0.0''),
      (KStr ''normalization_profile'', PStr ''foundry-pay-domain-v1''), (KStr ''source_id'', PStr (sd_source_id sd)),
      (KStr ''source_class'', PStr (sd_source_class sd)), (KStr ''source_kind'', PStr (sd_source_kind sd)),
      (KStr ''provider_id'', PStr (sd_provider_id sd)), (KStr ''trust_domain_id'', PStr (sd_trust_domain_id sd)),
      (KStr ''endpoint_identity_hash'', PStr (sd_endpoint_identity_hash sd)), (KStr ''parser_id'', PStr (sd_parser_id sd)),
      (KStr ''queried_at'', PStr ''2026-02-03T00:00:00Z''), (KStr ''signature'', PStr (replicate 64 (CHR ''s''))),
      (KStr ''network'', PStr ''solana:devnet''), (KStr ''slot'', PInt 5), (KStr ''confirmation_status'', PStr ''finalized''),
      (KStr ''transaction_error'', PStr ''none''), (KStr ''source_account'', PStr (replicate 32 (CHR ''1''))),
      (KStr ''destination_account'', PStr (replicate 31 (CHR ''1'') @ ''2'')), (KStr ''source_account_before'', PStr ''100''),
      (KStr ''source_account_after'', PStr ''75''), (KStr ''destination_account_before'', PStr ''0''),
      (KStr ''destination_account_after'', PStr ''25''), (KStr ''observed_amount_base_units'', PStr ''25''),
      (KStr ''raw_response_hash'', PStr zero_hash)]"

definition example_transfer :: pydict where
  "example_transfer =
     [(KStr ''execution_request_id'', PStr ''req-1''), (KStr ''obligation_id'', PStr ''ob-1''),
      (KStr ''network'', PStr ''solana:devnet''), (KStr ''signature'', PStr (replicate 64 (CHR ''s''))),
      (KStr ''source_account'', PStr (replicate 32 (CHR ''1''))),
      (KStr ''destination_account'', PStr (replicate 31 (CHR ''1'') @ ''2'')), (KStr ''amount_base_units'', PStr ''25'')]"

definition example_sources :: source_registry where
  "example_sources = [example_source_a, example_source_b]"

definition example_evaluation :: "source_descriptor \<Rightarrow> evaluated" where
  "example_evaluation sd = \<lparr>ev_descriptor = sd, ev_hash = sha256_digest (sd_source_id sd), ev_disagreements = [],
     ev_confirmation = PStr ''finalized''\<rparr>"

lemma example_expected: "normalize_expected (PDict example_transfer) = Inr example_transfer"
  by code_simp

lemma example_evaluate:
  assumes "sd \<in> {example_source_a, example_source_b}"
  shows "evaluate_one source_jcs example_transfer example_sources (PDict (example_sighting sd)) = Inr (example_evaluation sd)"
proof -
  have n: "rc_normalize_observation (PDict (example_sighting sd)) = Inr (example_sighting sd)"
    "require_source example_sources (example_sighting sd) = Inr sd"
    "canonicalize source_jcs (PDict (example_sighting sd)) = Inr (sd_source_id sd)"
    "disagreements example_transfer (example_sighting sd) = []"
    using assms by (elim insertE emptyE; hypsubst; code_simp)+
  moreover have "item (example_sighting sd) ''confirmation_status'' = PStr ''finalized''"
    by (simp add: example_sighting_def item_def)
  ultimately show ?thesis by (simp add: evaluate_one_def observation_hash_def example_evaluation_def)
qed

lemma example_digests_differ: "sha256_digest ''a'' \<noteq> sha256_digest ''b''"
proof -
  have "length ''a'' < 32" "length ''b'' < 32" by simp_all
  note d = this [THEN sha256_short, unfolded i_init_eval i_compress_def i_k_eval]
  have "hd (sha256_hex ''a'') = CHR ''c''" unfolding d(1) by code_simp
  moreover have "hd (sha256_hex ''b'') = CHR ''3''" unfolding d(2) by code_simp
  ultimately show ?thesis by (auto simp: sha256_digest_def)
qed

definition example_observations :: "pyval list" where
  "example_observations = map (PDict \<circ> example_sighting) [example_source_a, example_source_b]"

definition example_result :: reconciliation_result where
  "example_result = aggregate_result example_transfer (map example_evaluation [example_source_a, example_source_b])
     ''finalized'' (''l1_verified'', ''l3_verified'', ''approved'') []"

lemma example_aggregate:
  "aggregate_reconciliation source_jcs (PDict example_transfer) example_observations example_sources [] = Inr example_result"
proof -
  let ?evs = "map example_evaluation [example_source_a, example_source_b]"
  have "evaluate_all source_jcs example_transfer example_sources [] [] example_observations = Inr ?evs"
    using example_evaluate example_digests_differ
    by (simp add: evaluate_all_Inr example_observations_def example_evaluation_def example_source_a_def example_source_b_def)
  moreover have "execution_status_of ?evs = ''finalized''" "verdict_of ?evs = (''l1_verified'', ''l3_verified'', ''approved'')"
    by (simp_all add: execution_status_of_def verdict_of_def qualifying_def diverse_from_l1_def ev_matched_def ev_class_def
        example_evaluation_def example_source_a_def example_source_b_def zero_hash_def)
  ultimately show ?thesis
    by (simp add: aggregate_reconciliation_def example_expected example_result_def example_observations_def)
qed

section \<open>Properties\<close>

text \<open>
  Property C4. Approval means agreement: when the consensus is approved there are observations, each
  by a registered source, and every one of them saw the expected transfer and no other: the same
  network, signature and accounts, no transaction error, and balances that moved by exactly the
  expected amount; one of them is a primary source.
\<close>

theorem approval_needs_agreement:
  assumes "aggregate_reconciliation jcs expected obs registry un = Inr res" "rr_consensus res = ''approved''"
  shows "\<exists>settlement. expected = PDict settlement \<and>
    (\<forall>v\<in>set obs. \<exists>d. v = PDict d \<and> agrees registry settlement d) \<and>
    (\<exists>d. PDict d \<in> set obs \<and> item d ''source_class'' = PStr ''L1'')"
proof -
  have ne: "obs \<noteq> []" using aggregate_pending assms by fastforce
  obtain settlement evs where e: "expected = PDict settlement" "evaluate_all jcs settlement registry [] [] obs = Inr evs"
    "res = aggregate_result settlement evs (execution_status_of evs) (verdict_of evs) un"
    using assms(1) ne by (rule aggregateE)
  have m: "\<forall>ev\<in>set evs. ev_matched ev" "\<exists>ev\<in>set evs. ev_class ev = ''L1''"
    using assms(2) e(3) verdict_approved [of evs] by (simp_all add: aggregate_result_def)
  have all: "list_all2 (\<lambda>v ev. evaluate_one jcs settlement registry v = Inr ev) obs evs"
    using e(2) by (simp add: evaluate_all_Inr)
  have "\<exists>d. v = PDict d \<and> agrees registry settlement d" if v: "v \<in> set obs" for v
  proof -
    obtain ev where ev: "ev \<in> set evs" "evaluate_one jcs settlement registry v = Inr ev"
      using evaluated_observation(1) [OF all v] by blast
    from ev(2) show ?thesis by (rule evaluate_oneE) (use ev(1) m(1) in blast)
  qed
  moreover have "\<exists>d. PDict d \<in> set obs \<and> item d ''source_class'' = PStr ''L1''"
  proof -
    obtain ev v where ev: "ev \<in> set evs" "ev_class ev = ''L1''" "v \<in> set obs" "evaluate_one jcs settlement registry v = Inr ev"
      using m(2) evaluated_observation(2) [OF all] by blast
    from ev(4) show ?thesis by (rule evaluate_oneE) (use ev(2,3) in auto)
  qed
  ultimately show ?thesis using e(1) by blast
qed

theorem approval_needs_agreement_witness:
  "\<exists>settlement. PDict example_transfer = PDict settlement \<and>
    agrees example_sources settlement (example_sighting example_source_a) \<and>
    agrees example_sources settlement (example_sighting example_source_b)"
  using approval_needs_agreement [OF example_aggregate]
  by (auto simp: example_result_def aggregate_result_def example_observations_def)

text \<open>
  Independent verification is independent: it is claimed only of an approved
  consensus, and rests on a matching observation of a registered source of that level whose provider,
  trust domain and endpoint differ from those of every primary source that was heard.
\<close>

theorem independence_is_diverse:
  assumes "aggregate_reconciliation jcs expected obs registry un = Inr res"
    and "(rr_independent_verification res, level) \<in> {(''l3_verified'', ''L3''), (''l2_verified'', ''L2'')}"
  shows "rr_consensus res = ''approved'' \<and>
    (\<exists>ev\<in>set (rr_observations res). ev_matched ev \<and> ev_class ev = level \<and> ev_descriptor ev \<in> set registry \<and>
       (\<forall>b\<in>set (rr_observations res). ev_class b = ''L1'' \<longrightarrow>
          sd_provider_id (ev_descriptor ev) \<noteq> sd_provider_id (ev_descriptor b) \<and>
          sd_trust_domain_id (ev_descriptor ev) \<noteq> sd_trust_domain_id (ev_descriptor b) \<and>
          sd_endpoint_identity_hash (ev_descriptor ev) \<noteq> sd_endpoint_identity_hash (ev_descriptor b)))"
proof -
  have ne: "obs \<noteq> []" using aggregate_pending assms by fastforce
  obtain settlement evs where e: "evaluate_all jcs settlement registry [] [] obs = Inr evs"
    "res = aggregate_result settlement evs (execution_status_of evs) (verdict_of evs) un"
    using assms(1) ne by (rule aggregateE)
  let ?l1 = "map ev_descriptor (filter (\<lambda>ev. ev_matched ev \<and> ev_class ev = ''L1'') evs)"
  have v: "\<forall>ev\<in>set evs. ev_matched ev" "?l1 \<noteq> []" "qualifying level evs ?l1 \<noteq> []"
    using assms(2) e(2)
    by (auto simp: aggregate_result_def verdict_of_def Let_def list_ex_iff split: if_splits)
  then have "rr_consensus res = ''approved''"
    using verdict_approved [of evs] by (auto simp: e(2) aggregate_result_def filter_empty_conv)
  moreover obtain ev where ev: "ev \<in> set evs" "ev_matched ev" "ev_class ev = level" "diverse_from_l1 (ev_descriptor ev) ?l1"
    using v(3) by (auto simp: qualifying_def filter_empty_conv)
  moreover have "ev_descriptor ev \<in> set registry"
    using e(1) ev(1) evaluated_observation(2) [of jcs settlement registry obs evs ev]
    by (auto simp: evaluate_all_Inr elim: evaluate_oneE)
  ultimately show ?thesis
    using v(1) by (auto simp: e(2) aggregate_result_def diverse_from_l1_def list_all_iff)
qed

theorem independence_is_diverse_witness:
  "rr_consensus example_result = ''approved'' \<and>
    (\<exists>ev\<in>set (rr_observations example_result). ev_matched ev \<and> ev_class ev = ''L3'' \<and> ev_descriptor ev \<in> set example_sources)"
  using independence_is_diverse [OF example_aggregate, of "''L3''"]
  by (auto simp: example_result_def aggregate_result_def)

lemma verdict_of_mset: "mset evs = mset evs' \<Longrightarrow> verdict_of evs = verdict_of evs'"
proof -
  assume "mset evs = mset evs'"
  then have s: "set evs = set evs'" by (rule mset_eq_setD)
  have q: "(qualifying level evs (map ev_descriptor (filter P evs)) = []) =
      (qualifying level evs' (map ev_descriptor (filter P evs')) = [])" for level P
    by (simp add: qualifying_def diverse_from_l1_def list_all_iff filter_empty_conv s)
  show ?thesis
    by (simp add: verdict_of_def Let_def list_ex_iff q s filter_empty_conv)
qed

lemma execution_status_mset: "mset evs = mset evs' \<Longrightarrow> execution_status_of evs = execution_status_of evs'"
proof -
  assume "mset evs = mset evs'"
  then have "set evs = set evs'" by (rule mset_eq_setD)
  then show ?thesis by (simp add: execution_status_of_def Let_def filter_empty_conv)
qed

text \<open>
  Property C40. The order in which observations arrive does not matter: any permutation of them is
  accepted too, with the same statuses and the same evaluations.
\<close>

theorem consensus_order_free:
  assumes "aggregate_reconciliation jcs expected obs registry un = Inr res" "mset obs' = mset obs"
  shows "\<exists>res'. aggregate_reconciliation jcs expected obs' registry un = Inr res' \<and>
    rr_consensus res' = rr_consensus res \<and> rr_reconciliation_status res' = rr_reconciliation_status res \<and>
    rr_independent_verification res' = rr_independent_verification res \<and>
    rr_execution_status res' = rr_execution_status res \<and> mset (rr_observations res') = mset (rr_observations res)"
proof (cases "obs = []")
  case True
  with assms show ?thesis by auto
next
  case False
  obtain settlement evs where e: "normalize_expected expected = Inr settlement"
    "evaluate_all jcs settlement registry [] [] obs = Inr evs"
    "res = aggregate_result settlement evs (execution_status_of evs) (verdict_of evs) un"
    using assms(1) False by (rule aggregateE)
  from e(2) have all: "list_all2 (\<lambda>v ev. evaluate_one jcs settlement registry v = Inr ev) obs evs"
    and d: "distinct (map (sd_source_id \<circ> ev_descriptor) evs)" "distinct (map ev_hash evs)"
    by (simp_all add: evaluate_all_Inr)
  obtain evs' where evs': "list_all2 (\<lambda>v ev. evaluate_one jcs settlement registry v = Inr ev) obs' evs'" "mset evs' = mset evs"
    using list_all2_reorder_left_invariance [OF all assms(2)] by blast
  have "distinct (map f evs') = distinct (map f evs)" for f :: "evaluated \<Rightarrow> string"
    using evs'(2) by (metis mset_eq_imp_distinct_iff mset_map)
  then have "evaluate_all jcs settlement registry [] [] obs' = Inr evs'"
    using evs'(1) d by (simp add: evaluate_all_Inr)
  moreover have "obs' \<noteq> []" using False assms(2) by auto
  ultimately show ?thesis
    using e verdict_of_mset [OF evs'(2)] execution_status_mset [OF evs'(2)] evs'(2)
    by (simp add: aggregate_reconciliation_def aggregate_result_def)
qed

theorem consensus_order_free_witness:
  "\<exists>res'. aggregate_reconciliation source_jcs (PDict example_transfer) (rev example_observations) example_sources [] = Inr res' \<and>
    rr_consensus res' = ''approved'' \<and> rr_independent_verification res' = ''l3_verified''"
  using consensus_order_free [OF example_aggregate, of "rev example_observations"]
  by (auto simp: example_result_def aggregate_result_def)

end
