(* ===== verification/Strict_Json.thy ===== *)
theory Strict_Json
  imports Canonical
begin

text \<open>
  \<^verbatim>\<open>parse_strict_json\<close> of \<^verbatim>\<open>canonical.py\<close>: the decoder of the standard library (\<^verbatim>\<open>json.loads\<close>) with the
  module's hooks for objects, integers, floats and constants. The scanner recurses on the nesting of the
  document and takes fuel; \<open>None\<close> is running out of it. The interpreter's limit on nesting depth is not
  a limit of the scanner. \<open>json_source\<close> is the compact text \<^verbatim>\<open>json.dumps\<close> writes.
\<close>

definition malformed_json :: exn where
  "malformed_json = canon_error ''malformed_json'' ''parse'' ''$''"

abbreviation quote_char :: char where "quote_char \<equiv> CHR 0x22"
abbreviation escape_mark :: char where "escape_mark \<equiv> CHR 0x5C"

section \<open>Text\<close>

definition is_ws :: "char \<Rightarrow> bool" where
  "is_ws c \<longleftrightarrow> c = CHR '' '' \<or> c = CHR 0x09 \<or> c = CHR 0x0A \<or> c = CHR 0x0D"

definition skip_ws :: "string \<Rightarrow> string" where
  "skip_ws s = dropWhile is_ws s"

definition expect_char :: "char \<Rightarrow> string \<Rightarrow> string option" where
  "expect_char c s = (case s of [] \<Rightarrow> None | d # r \<Rightarrow> if d = c then Some r else None)"

definition strip_prefix :: "string \<Rightarrow> string \<Rightarrow> string option" where
  "strip_prefix p s = (if take (length p) s = p then Some (drop (length p) s) else None)"

definition hex_value :: "char \<Rightarrow> nat option" where
  "hex_value c =
     (if is_digit c then Some (digit_val c)
      else if in_range 97 102 c then Some (of_char c - 87)
      else if in_range 65 70 c then Some (of_char c - 55) else None)"

fun take_hex4 :: "string \<Rightarrow> (nat \<times> string) option" where
  "take_hex4 (a # b # c # d # r) =
     (case (hex_value a, hex_value b, hex_value c, hex_value d) of
        (Some i, Some j, Some k, Some l) \<Rightarrow> Some (((i * 16 + j) * 16 + k) * 16 + l, r)
      | _ \<Rightarrow> None)"
| "take_hex4 _ = None"

text \<open>A code point as UTF-8, surrogates in their three-byte form.\<close>

definition utf8_encode :: "nat \<Rightarrow> string" where
  "utf8_encode n = map char_of
     (if n < 128 then [n]
      else if n < 2048 then [192 + n div 64, 128 + n mod 64]
      else if n < 65536 then [224 + n div 4096, 128 + n div 64 mod 64, 128 + n mod 64]
      else [240 + n div 262144, 128 + n div 4096 mod 64, 128 + n div 64 mod 64, 128 + n mod 64 :: nat])"

definition high_surrogate :: "nat \<Rightarrow> bool" where "high_surrogate n \<longleftrightarrow> 55296 \<le> n \<and> n \<le> 56319"
definition low_surrogate :: "nat \<Rightarrow> bool" where "low_surrogate n \<longleftrightarrow> 56320 \<le> n \<and> n \<le> 57343"

definition join_surrogates :: "nat \<Rightarrow> nat \<Rightarrow> nat" where
  "join_surrogates h l = 65536 + (h - 55296) * 1024 + (l - 56320)"

text \<open>
  After the four digits of an escape: a high surrogate takes a following low one with it. \<open>None\<close> when
  the second escape is malformed.
\<close>

definition scan_unicode :: "nat \<Rightarrow> string \<Rightarrow> (string \<times> string) option" where
  "scan_unicode n r =
     (if high_surrogate n then
        (case strip_prefix [escape_mark, CHR ''u''] r of
           None \<Rightarrow> Some (utf8_encode n, r)
         | Some r1 \<Rightarrow>
             (case take_hex4 r1 of
                None \<Rightarrow> None
              | Some (m, r2) \<Rightarrow>
                  Some (if low_surrogate m then (utf8_encode (join_surrogates n m), r2) else (utf8_encode n, r))))
      else Some (utf8_encode n, r))"

definition escape_char :: "char \<Rightarrow> char option" where
  "escape_char c =
     map_of [(quote_char, quote_char), (escape_mark, escape_mark), (CHR ''/'', CHR ''/''), (CHR ''b'', CHR 0x08),
       (CHR ''f'', CHR 0x0C), (CHR ''n'', CHR 0x0A), (CHR ''r'', CHR 0x0D), (CHR ''t'', CHR 0x09)] c"

definition is_control :: "char \<Rightarrow> bool" where
  "is_control c \<longleftrightarrow> of_char c < (32::nat)"

lemma take_hex4_length [termination_simp]: "take_hex4 s = Some (n, r) \<Longrightarrow> length r < length s"
  by (cases s rule: take_hex4.cases) (auto split: option.splits)

lemma scan_unicode_length [termination_simp]: "scan_unicode n s = Some (t, r) \<Longrightarrow> length r \<le> length s"
proof -
  have "length r1 \<le> length s" if "strip_prefix p s = Some r1" for p r1
    using that by (auto simp: strip_prefix_def split: if_splits)
  then show "scan_unicode n s = Some (t, r) \<Longrightarrow> length r \<le> length s"
    by (force simp: scan_unicode_def split: if_splits option.splits dest: take_hex4_length)
qed

definition prepend :: "string \<Rightarrow> (string \<times> string) option \<Rightarrow> (string \<times> string) option" where
  "prepend t = map_option (\<lambda>(u, r). (t @ u, r))"

text \<open>The text after the opening quote, strict mode: control characters end it.\<close>

function scan_string :: "string \<Rightarrow> (string \<times> string) option" where
  "scan_string [] = None"
| "scan_string (c # r) =
     (if c = quote_char then Some ([], r)
      else if c = escape_mark then
        (case r of
           [] \<Rightarrow> None
         | e # r1 \<Rightarrow>
             (if e = CHR ''u'' then
                (case take_hex4 r1 of
                   None \<Rightarrow> None
                 | Some (n, r2) \<Rightarrow>
                     (case scan_unicode n r2 of None \<Rightarrow> None | Some (t, r3) \<Rightarrow> prepend t (scan_string r3)))
              else (case escape_char e of None \<Rightarrow> None | Some d \<Rightarrow> prepend [d] (scan_string r1))))
      else if is_control c then None
      else prepend [c] (scan_string r))"
  by pat_completeness auto
termination
  by (relation "measure length") (fastforce dest: take_hex4_length scan_unicode_length)+

declare scan_string.simps(2) [simp del]

section \<open>Numbers and constants\<close>

definition scan_digits :: "string \<Rightarrow> string \<times> string" where
  "scan_digits s = (takeWhile is_digit s, dropWhile is_digit s)"

definition starts_digit :: "string \<Rightarrow> bool" where
  "starts_digit s \<longleftrightarrow> s \<noteq> [] \<and> is_digit (hd s)"

definition scan_integer_part :: "string \<Rightarrow> (string \<times> string) option" where
  "scan_integer_part s =
     (case expect_char (CHR ''0'') s of
        Some r \<Rightarrow> Some (''0'', r)
      | None \<Rightarrow> (if starts_digit s then Some (scan_digits s) else None))"

definition scan_fraction :: "string \<Rightarrow> string \<times> string" where
  "scan_fraction s =
     (case expect_char (CHR ''.'') s of
        Some r \<Rightarrow> (if starts_digit r then (CHR ''.'' # fst (scan_digits r), snd (scan_digits r)) else ([], s))
      | None \<Rightarrow> ([], s))"

definition scan_sign :: "string \<Rightarrow> string \<times> string" where
  "scan_sign s = (case s of [] \<Rightarrow> ([], []) | c # r \<Rightarrow> if c = CHR ''+'' \<or> c = CHR ''-'' then ([c], r) else ([], s))"

definition scan_exponent :: "string \<Rightarrow> string \<times> string" where
  "scan_exponent s =
     (case s of
        [] \<Rightarrow> ([], [])
      | c # r \<Rightarrow>
          (if (c = CHR ''e'' \<or> c = CHR ''E'') \<and> starts_digit (snd (scan_sign r))
           then (c # fst (scan_sign r) @ fst (scan_digits (snd (scan_sign r))), snd (scan_digits (snd (scan_sign r))))
           else ([], s)))"

definition scan_minus :: "string \<Rightarrow> string \<times> string" where
  "scan_minus s = (case expect_char (CHR ''-'') s of Some r \<Rightarrow> (''-'', r) | None \<Rightarrow> ([], s))"

definition scan_number :: "string \<Rightarrow> (pyval \<times> string) res" where
  "scan_number s =
     (case scan_integer_part (snd (scan_minus s)) of
        None \<Rightarrow> Inl malformed_json
      | Some (i, s1) \<Rightarrow>
          (let (f, s2) = scan_fraction s1; (e, s3) = scan_exponent s2
           in bind_res (if f @ e = [] then parse_integer (fst (scan_minus s) @ i)
                else reject_float (fst (scan_minus s) @ i @ f @ e)) (\<lambda>v. Inr (v, s3))))"

fun first_constant :: "(string \<times> pyval res) list \<Rightarrow> string \<Rightarrow> (pyval \<times> string) res" where
  "first_constant [] s = scan_number s"
| "first_constant ((p, v) # ps) s =
     (case strip_prefix p s of Some r \<Rightarrow> bind_res v (\<lambda>x. Inr (x, r)) | None \<Rightarrow> first_constant ps s)"

definition json_constants :: "(string \<times> pyval res) list" where
  "json_constants =
     [(''null'', Inr PNone), (''true'', Inr (PBool True)), (''false'', Inr (PBool False)),
      (''NaN'', reject_constant ''NaN''), (''Infinity'', reject_constant ''Infinity''),
      (''-Infinity'', reject_constant ''-Infinity'')]"

section \<open>Values\<close>

fun scan_once :: "nat \<Rightarrow> string \<Rightarrow> (pyval \<times> string) res option"
  and scan_members :: "nat \<Rightarrow> (string \<times> pyval) list \<Rightarrow> string \<Rightarrow> (pyval \<times> string) res option"
  and scan_elements :: "nat \<Rightarrow> pyval list \<Rightarrow> string \<Rightarrow> (pyval \<times> string) res option"
where
  "scan_once 0 s = None"
| "scan_once (Suc n) s =
     (case expect_char quote_char s of
        Some r \<Rightarrow> Some (case scan_string r of None \<Rightarrow> Inl malformed_json | Some (t, r1) \<Rightarrow> Inr (PStr t, r1))
      | None \<Rightarrow>
     (case expect_char (CHR ''{'') s of
        Some r \<Rightarrow> (case expect_char (CHR ''}'') (skip_ws r) of
                    Some r1 \<Rightarrow> Some (Inr (PDict [], r1))
                  | None \<Rightarrow> scan_members n [] (skip_ws r))
      | None \<Rightarrow>
     (case expect_char (CHR ''['') s of
        Some r \<Rightarrow> (case expect_char (CHR '']'') (skip_ws r) of
                    Some r1 \<Rightarrow> Some (Inr (PList [], r1))
                  | None \<Rightarrow> scan_elements n [] (skip_ws r))
      | None \<Rightarrow> Some (first_constant json_constants s))))"
| "scan_members 0 acc s = None"
| "scan_members (Suc n) acc s =
     (case Option.bind (expect_char quote_char s) scan_string of
        None \<Rightarrow> Some (Inl malformed_json)
      | Some (k, r1) \<Rightarrow>
     (case expect_char (CHR '':'') (skip_ws r1) of
        None \<Rightarrow> Some (Inl malformed_json)
      | Some r2 \<Rightarrow>
     (case scan_once n (skip_ws r2) of
        None \<Rightarrow> None
      | Some (Inl e) \<Rightarrow> Some (Inl e)
      | Some (Inr (v, r3)) \<Rightarrow>
     (case expect_char (CHR ''}'') (skip_ws r3) of
        Some r4 \<Rightarrow> Some (bind_res (pairs_without_duplicates [] (acc @ [(k, v)])) (\<lambda>d. Inr (PDict d, r4)))
      | None \<Rightarrow>
     (case expect_char (CHR '','') (skip_ws r3) of
        Some r4 \<Rightarrow> scan_members n (acc @ [(k, v)]) (skip_ws r4)
      | None \<Rightarrow> Some (Inl malformed_json))))))"
| "scan_elements 0 acc s = None"
| "scan_elements (Suc n) acc s =
     (case scan_once n s of
        None \<Rightarrow> None
      | Some (Inl e) \<Rightarrow> Some (Inl e)
      | Some (Inr (v, r1)) \<Rightarrow>
     (case expect_char (CHR '']'') (skip_ws r1) of
        Some r2 \<Rightarrow> Some (Inr (PList (acc @ [v]), r2))
      | None \<Rightarrow>
     (case expect_char (CHR '','') (skip_ws r1) of
        Some r2 \<Rightarrow> scan_elements n (acc @ [v]) (skip_ws r2)
      | None \<Rightarrow> Some (Inl malformed_json))))"

section \<open>Documents\<close>

text \<open>A Python \<^verbatim>\<open>str\<close>, \<^verbatim>\<open>bytes\<close>, or something else. Strict UTF-8 has no overlong form and no surrogate.\<close>

datatype wire = WText string | WBytes string | WOther

definition continuations :: "nat \<Rightarrow> string \<Rightarrow> bool" where
  "continuations n s \<longleftrightarrow> n \<le> length s \<and> list_all (in_range 128 191) (take n s)"

definition utf8_unit :: "string \<Rightarrow> nat" where
  "utf8_unit s =
     (let c = hd s; r = tl s; second = (\<lambda>lo hi. r \<noteq> [] \<and> in_range lo hi (hd r)) in
      if in_range 0 127 c then 1
      else if in_range 194 223 c \<and> continuations 1 r then 2
      else if (c = char_of (224::nat) \<and> second 160 191 \<or> in_range 225 236 c \<and> second 128 191 \<or>
          c = char_of (237::nat) \<and> second 128 159 \<or> in_range 238 239 c \<and> second 128 191) \<and> continuations 2 r then 3
      else if (c = char_of (240::nat) \<and> second 144 191 \<or> in_range 241 243 c \<and> second 128 191 \<or>
          c = char_of (244::nat) \<and> second 128 143) \<and> continuations 3 r then 4
      else 0)"

function utf8_valid :: "string \<Rightarrow> bool" where
  "utf8_valid s =
     (if s = [] then True else if utf8_unit s = 0 then False else utf8_valid (drop (utf8_unit s) s))"
  by pat_completeness auto
termination
  by (relation "measure length") auto

declare utf8_valid.simps [simp del]

definition has_bom :: "string \<Rightarrow> bool" where
  "has_bom s \<longleftrightarrow> take 3 s = map char_of [239, 187, 191 :: nat]"

text \<open>\<^verbatim>\<open>json.loads\<close> of a text.\<close>

definition json_loads :: "string \<Rightarrow> pyval res option" where
  "json_loads s =
     (if has_bom s then Some (Inl malformed_json)
      else case scan_once (Suc (2 * length s)) (skip_ws s) of
        None \<Rightarrow> None
      | Some (Inl e) \<Rightarrow> Some (Inl e)
      | Some (Inr (v, r)) \<Rightarrow> Some (if skip_ws r = [] then Inr v else Inl malformed_json))"

definition wire_text :: "wire \<Rightarrow> string res" where
  "wire_text w =
     (case w of
        WText s \<Rightarrow> Inr s
      | WBytes b \<Rightarrow>
          (if utf8_valid b then Inr b else Inl (canon_error ''invalid_utf8'' ''parse'' ''$''))
      | WOther \<Rightarrow> Inl (canon_error ''invalid_wire_type'' ''parse'' ''$''))"

definition parse_strict_json :: "wire \<Rightarrow> pyval res option" where
  "parse_strict_json w =
     (case wire_text w of
        Inl e \<Rightarrow> Some (Inl e)
      | Inr s \<Rightarrow>
          map_option (\<lambda>m. bind_res m (\<lambda>v. bind_res (validate_json_value v ''$'') (\<lambda>_. Inr v))) (json_loads s))"

section \<open>Printing\<close>

definition hex2 :: "nat \<Rightarrow> string" where
  "hex2 n = [hex_char (n div 16), hex_char (n mod 16)]"

definition json_escape :: "char \<Rightarrow> string" where
  "json_escape c =
     (if c = quote_char then [escape_mark, quote_char]
      else if c = escape_mark then [escape_mark, escape_mark]
      else if c = CHR 0x08 then [escape_mark, CHR ''b'']
      else if c = CHR 0x0C then [escape_mark, CHR ''f'']
      else if c = CHR 0x0A then [escape_mark, CHR ''n'']
      else if c = CHR 0x0D then [escape_mark, CHR ''r'']
      else if c = CHR 0x09 then [escape_mark, CHR ''t'']
      else if is_control c then [escape_mark, CHR ''u'', CHR ''0'', CHR ''0''] @ hex2 (of_char c)
      else [c])"

definition json_string :: "string \<Rightarrow> string" where
  "json_string s = quote_char # concat (map json_escape s) @ [quote_char]"

primrec json_source :: "pyval \<Rightarrow> string"
  and json_sources :: "pyval list \<Rightarrow> string"
  and json_member_texts :: "pydict \<Rightarrow> string"
  and json_member_text :: "pykey \<times> pyval \<Rightarrow> string"
where
  "json_source PNone = ''null''"
| "json_source (PBool b) = (if b then ''true'' else ''false'')"
| "json_source (PInt i) = str_int i"
| "json_source (PFloat t) = t"
| "json_source (PStr s) = json_string s"
| "json_source (PList xs) = ''['' @ json_sources xs @ '']''"
| "json_source (PDict d) = ''{'' @ json_member_texts d @ ''}''"
| "json_source (POther t) = []"
| "json_sources [] = []"
| "json_sources (x # xs) = json_source x @ (if xs = [] then [] else '','' @ json_sources xs)"
| "json_member_texts [] = []"
| "json_member_texts (kv # d) = json_member_text kv @ (if d = [] then [] else '','' @ json_member_texts d)"
| "json_member_text (k, v) = json_string (key_text k) @ '':'' @ json_source v"

text \<open>No object in a value repeats a key.\<close>

primrec unique_keys :: "pyval \<Rightarrow> bool"
  and unique_keys_list :: "pyval list \<Rightarrow> bool"
  and unique_keys_items :: "pydict \<Rightarrow> bool"
  and unique_keys_item :: "pykey \<times> pyval \<Rightarrow> bool"
where
  "unique_keys PNone = True"
| "unique_keys (PBool b) = True"
| "unique_keys (PInt i) = True"
| "unique_keys (PFloat t) = True"
| "unique_keys (PStr s) = True"
| "unique_keys (PList xs) = unique_keys_list xs"
| "unique_keys (PDict d) = (distinct (map fst d) \<and> unique_keys_items d)"
| "unique_keys (POther t) = True"
| "unique_keys_list [] = True"
| "unique_keys_list (x # xs) = (unique_keys x \<and> unique_keys_list xs)"
| "unique_keys_items [] = True"
| "unique_keys_items (kv # d) = (unique_keys_item kv \<and> unique_keys_items d)"
| "unique_keys_item (k, v) = unique_keys v"

end
