(* ===== verification/Strict_Json_Props.thy ===== *)
theory Strict_Json_Props
  imports Strict_Json
begin

text \<open>
  The strict reader of JSON: the fuel it takes is enough, and it reads back what \<^verbatim>\<open>json.dumps\<close> writes.
\<close>

section \<open>The reader consumes its input\<close>

lemma expect_Some: "expect_char c s = Some r \<longleftrightarrow> s = c # r"
  by (cases s) (auto simp: expect_char_def)

lemma skip_ws_length: "length (skip_ws s) \<le> length s"
  by (simp add: skip_ws_def length_dropWhile_le)

lemma strip_prefix_Some: "strip_prefix p s = Some r \<longleftrightarrow> s = p @ r"
  by (auto simp: strip_prefix_def append_eq_conv_conj) (metis append_take_drop_id)

lemma prepend_Some: "prepend t m = Some (u, r) \<longleftrightarrow> (\<exists>w. m = Some (w, r) \<and> u = t @ w)"
  by (auto simp: prepend_def)

lemma unicode_length: "take_hex4 s = Some (n, r) \<Longrightarrow> scan_unicode n r = Some (t, r') \<Longrightarrow> length r' < length s"
  using take_hex4_length scan_unicode_length by (metis le_less_trans)

lemma scan_string_length: "scan_string s = Some (t, r) \<Longrightarrow> length r < length s"
proof (induction s arbitrary: t rule: measure_induct_rule [where f = length])
  case (less s)
  show ?case
  proof (cases s)
    case (Cons c s')
    from less.prems show ?thesis
      unfolding Cons
      by (auto simp: scan_string.simps(2) prepend_Some Cons split: if_splits list.splits option.splits
          dest!: less.IH [rotated]) (drule (1) unicode_length, simp)+
  qed (use less.prems in simp)
qed

lemma scan_digits_length: "length (snd (scan_digits s)) \<le> length s"
  by (simp add: scan_digits_def length_dropWhile_le)

lemma scan_integer_part_length: "scan_integer_part s = Some (i, r) \<Longrightarrow> length r < length s"
  by (cases s) (auto simp: scan_integer_part_def expect_char_def starts_digit_def scan_digits_def le_imp_less_Suc
      length_dropWhile_le split: if_splits)

lemma scan_fraction_length: "length (snd (scan_fraction s)) \<le> length s"
  using scan_digits_length [of "tl s"] by (cases s) (auto simp: scan_fraction_def expect_char_def)

lemma scan_exponent_length: "length (snd (scan_exponent s)) \<le> length s"
proof -
  have "length (snd (scan_sign r)) \<le> length r" for r by (cases r) (auto simp: scan_sign_def)
  then show ?thesis
    by (cases s) (auto simp: scan_exponent_def intro: order_trans [OF scan_digits_length] le_SucI)
qed

lemma scan_minus_length: "length (snd (scan_minus s)) \<le> length s"
  by (cases s) (auto simp: scan_minus_def expect_char_def)

lemma scan_number_length:
  assumes "scan_number s = Inr (v, r)"
  shows "length r < length s"
proof -
  obtain i s1 where i: "scan_integer_part (snd (scan_minus s)) = Some (i, s1)"
    using assms by (auto simp: scan_number_def split: option.splits)
  with assms have "r = snd (scan_exponent (snd (scan_fraction s1)))"
    by (auto simp: scan_number_def Let_def res_simps split: prod.splits)
  then show ?thesis
    using scan_integer_part_length [OF i] scan_minus_length [of s] scan_fraction_length [of s1]
      scan_exponent_length [of "snd (scan_fraction s1)"] by simp
qed

lemma first_constant_length:
  "first_constant cs s = Inr (v, r) \<Longrightarrow> \<forall>(p, m)\<in>set cs. p \<noteq> [] \<Longrightarrow> length r < length s"
  by (induction cs s rule: first_constant.induct)
    (auto simp: scan_number_length strip_prefix_Some res_simps split: option.splits)

lemma constants_length: "first_constant json_constants s = Inr (v, r) \<Longrightarrow> length r < length s"
  by (erule first_constant_length) (simp add: json_constants_def)

lemma scan_once_SucE:
  assumes "scan_once (Suc n) s = Some (Inr (v, r))"
  obtains t r0 where "s = quote_char # r0" "scan_string r0 = Some (t, r)" "v = PStr t"
  | r0 where "s = CHR ''{'' # r0" "skip_ws r0 = CHR ''}'' # r" "v = PDict []"
  | r0 where "s = CHR ''{'' # r0" "scan_members n [] (skip_ws r0) = Some (Inr (v, r))"
  | r0 where "s = CHR ''['' # r0" "skip_ws r0 = CHR '']'' # r" "v = PList []"
  | r0 where "s = CHR ''['' # r0" "scan_elements n [] (skip_ws r0) = Some (Inr (v, r))"
  | "first_constant json_constants s = Inr (v, r)"
  using assms by (auto simp: expect_Some split: option.splits)

lemma scan_members_SucE:
  assumes "scan_members (Suc n) acc s = Some (Inr (v, r))"
  obtains k w r1 r2 r3 where "s = quote_char # r1" "scan_string r1 = Some (k, r2)"
    "\<exists>r4. skip_ws r2 = CHR '':'' # r4 \<and> scan_once n (skip_ws r4) = Some (Inr (w, r3))"
    "(\<exists>d. skip_ws r3 = CHR ''}'' # r \<and> pairs_without_duplicates [] (acc @ [(k, w)]) = Inr d \<and> v = PDict d) \<or>
     (\<exists>r4. skip_ws r3 = CHR '','' # r4 \<and> scan_members n (acc @ [(k, w)]) (skip_ws r4) = Some (Inr (v, r)))"
proof -
  from assms obtain r1 k r2 r4 w r3 where "s = quote_char # r1" "scan_string r1 = Some (k, r2)"
    "skip_ws r2 = CHR '':'' # r4" "scan_once n (skip_ws r4) = Some (Inr (w, r3))"
    by (auto simp: expect_Some split: option.splits sum.splits bind_splits)
  with assms show thesis
    by (intro that) (auto simp: expect_Some expect_char_def res_simps split: option.splits list.splits if_splits)
qed

lemma scan_elements_SucE:
  assumes "scan_elements (Suc n) vs s = Some (Inr (v, r))"
  obtains w r1 where "scan_once n s = Some (Inr (w, r1))"
    "(skip_ws r1 = CHR '']'' # r \<and> v = PList (vs @ [w])) \<or>
     (\<exists>r2. skip_ws r1 = CHR '','' # r2 \<and> scan_elements n (vs @ [w]) (skip_ws r2) = Some (Inr (v, r)))"
  using assms by (auto simp: expect_Some split: option.splits sum.splits)

lemma skip_ws_Cons: "skip_ws s = c # r \<Longrightarrow> length r < length s"
  using skip_ws_length [of s] by simp

lemma skip_ws_shorter: "length r < length (skip_ws s) \<Longrightarrow> length r < length s"
  using skip_ws_length [of s] by simp

lemma scan_length_all:
  "(\<forall>s v r. scan_once n s = Some (Inr (v, r)) \<longrightarrow> length r < length s) \<and>
   (\<forall>acc s v r. scan_members n acc s = Some (Inr (v, r)) \<longrightarrow> length r < length s) \<and>
   (\<forall>vs s v r. scan_elements n vs s = Some (Inr (v, r)) \<longrightarrow> length r < length s)"
proof (induction n)
  case (Suc n)
  then have IH: "\<And>s v r. scan_once n s = Some (Inr (v, r)) \<Longrightarrow> length r < length s"
    "\<And>acc s v r. scan_members n acc s = Some (Inr (v, r)) \<Longrightarrow> length r < length s"
    "\<And>vs s v r. scan_elements n vs s = Some (Inr (v, r)) \<Longrightarrow> length r < length s" by blast+
  have "length r < length s" if "scan_once (Suc n) s = Some (Inr (v, r))" for s v r
    using that
    by (cases rule: scan_once_SucE)
      (auto dest!: scan_string_length skip_ws_Cons constants_length IH(2,3) skip_ws_shorter)
  moreover have "length r < length s" if "scan_members (Suc n) acc s = Some (Inr (v, r))" for acc s v r
    using that
    by (rule scan_members_SucE)
      (auto dest!: scan_string_length skip_ws_Cons IH(1,2) skip_ws_shorter)
  moreover have "length r < length s" if "scan_elements (Suc n) vs s = Some (Inr (v, r))" for vs s v r
    using that
    by (rule scan_elements_SucE) (auto dest!: skip_ws_Cons IH(1,3) skip_ws_shorter)
  ultimately show ?case by blast
qed simp

lemmas scan_length = scan_length_all [THEN conjunct1, rule_format]
lemmas members_length = scan_length_all [THEN conjunct2, THEN conjunct1, rule_format]

section \<open>Enough fuel\<close>

text \<open>
  Every call that goes one level down has read at least one character, and the elements of an array are
  read at its own level: twice the length is enough.
\<close>

lemma scan_fuel_all:
  "(\<forall>s. 2 * length s < n \<longrightarrow> scan_once n s \<noteq> None) \<and>
   (\<forall>acc s. Suc (2 * length s) < n \<longrightarrow> scan_members n acc s \<noteq> None) \<and>
   (\<forall>vs s. Suc (2 * length s) < n \<longrightarrow> scan_elements n vs s \<noteq> None)"
proof (induction n)
  case (Suc n)
  then have IH: "\<And>s. 2 * length s < n \<Longrightarrow> scan_once n s \<noteq> None"
    "\<And>acc s. Suc (2 * length s) < n \<Longrightarrow> scan_members n acc s \<noteq> None"
    "\<And>vs s. Suc (2 * length s) < n \<Longrightarrow> scan_elements n vs s \<noteq> None" by blast+
  have ws: "Suc (2 * length (skip_ws r)) < n" if "length r < m" "2 * m \<le> n" for r m
    using that skip_ws_length [of r] by linarith
  have "scan_once (Suc n) s \<noteq> None" if "2 * length s < Suc n" for s
    using that IH(2,3) [OF ws [of _ "length s"]] by (auto simp: expect_Some split: option.splits)
  moreover have "scan_elements (Suc n) vs s \<noteq> None" if l: "Suc (2 * length s) < Suc n" for vs s
  proof -
    have "scan_elements n us (skip_ws r2) \<noteq> None"
      if "scan_once n s = Some (Inr (w, r1))" "skip_ws r1 = c # r2" for w r1 c r2 us
      by (rule IH(3) [OF ws [of _ "length s"]])
        (use scan_length [OF that(1)] skip_ws_Cons [OF that(2)] l in simp_all)
    with IH(1) [of s] l show ?thesis by (auto simp: expect_Some split: option.splits sum.splits)
  qed
  moreover have "scan_members (Suc n) acc s \<noteq> None" if l: "Suc (2 * length s) < Suc n" for acc s
  proof -
    have "scan_once n (skip_ws r2) \<noteq> None" 
      if "s = quote_char # r0" "scan_string r0 = Some (k, r1)" "skip_ws r1 = c # r2" for r0 k r1 c r2
      by (rule IH(1)) 
        (use scan_string_length [OF that(2)] skip_ws_Cons [OF that(3)] skip_ws_length [of r2] l that(1) in simp)
    moreover have "scan_members n us (skip_ws r4) \<noteq> None"
      if "s = quote_char # r0" "scan_string r0 = Some (k, r1)" "skip_ws r1 = c # r2"
        "scan_once n (skip_ws r2) = Some (Inr (w, r3))" "skip_ws r3 = d # r4" for r0 k r1 c r2 w r3 d r4 us
      by (rule IH(2) [OF ws [of _ "length s"]])
        (use scan_string_length [OF that(2)] skip_ws_Cons [OF that(3)] scan_length [OF that(4)] skip_ws_length [of r2]
          skip_ws_Cons [OF that(5)] l that(1) in simp_all)
    ultimately show ?thesis
      by (fastforce simp: expect_Some split: option.splits sum.splits bind_splits)
  qed
  ultimately show ?case by blast
qed simp

lemmas scan_fuel = scan_fuel_all [THEN conjunct1, rule_format]

text \<open>More fuel changes nothing.\<close>

lemma scan_more_all:
  "(\<forall>s. scan_once n s \<noteq> None \<longrightarrow> scan_once (Suc n) s = scan_once n s) \<and>
   (\<forall>acc s. scan_members n acc s \<noteq> None \<longrightarrow> scan_members (Suc n) acc s = scan_members n acc s) \<and>
   (\<forall>vs s. scan_elements n vs s \<noteq> None \<longrightarrow> scan_elements (Suc n) vs s = scan_elements n vs s)"
proof (induction n)
  case (Suc n)
  then have IH: "\<And>s. scan_once n s \<noteq> None \<Longrightarrow> scan_once (Suc n) s = scan_once n s"
    "\<And>acc s. scan_members n acc s \<noteq> None \<Longrightarrow> scan_members (Suc n) acc s = scan_members n acc s"
    "\<And>vs s. scan_elements n vs s \<noteq> None \<Longrightarrow> scan_elements (Suc n) vs s = scan_elements n vs s" by blast+
  note unfold = scan_once.simps(2) [of n] scan_once.simps(2) [of "Suc n"] scan_members.simps(2) [of n]
    scan_members.simps(2) [of "Suc n"] scan_elements.simps(2) [of n] scan_elements.simps(2) [of "Suc n"]
  have "scan_once (Suc (Suc n)) s = scan_once (Suc n) s" if "scan_once (Suc n) s \<noteq> None" for s
    using that unfolding unfold(1,2) by (auto simp: IH(2,3) simp del: scan_members.simps scan_elements.simps split: option.splits)
  moreover have "scan_members (Suc (Suc n)) acc s = scan_members (Suc n) acc s" if m: "scan_members (Suc n) acc s \<noteq> None" for acc s
  proof (cases "Option.bind (expect_char quote_char s) scan_string")
    case (Some p)
    obtain k r1 where p: "p = (k, r1)" by (cases p)
    show ?thesis
    proof (cases "expect_char (CHR '':'') (skip_ws r1)")
      case r2: (Some r2)
      with Some p m have "scan_once n (skip_ws r2) \<noteq> None" unfolding unfold(3)
        by (cases "scan_once n (skip_ws r2)") auto
      then obtain x where x: "scan_once n (skip_ws r2) = Some x" "scan_once (Suc n) (skip_ws r2) = Some x"
        using IH(1) by auto
      show ?thesis
        using m Some p r2 x unfolding unfold(3) [of acc s] unfold(4) [of acc s]
        by (cases x) (auto simp: IH(2) simp del: scan_members.simps scan_once.simps split: option.split)
    qed (simp add: unfold Some p del: scan_members.simps)
  qed (simp add: unfold del: scan_members.simps)
  moreover have "scan_elements (Suc (Suc n)) vs s = scan_elements (Suc n) vs s" if e: "scan_elements (Suc n) vs s \<noteq> None" for vs s
  proof -
    obtain x where x: "scan_once n s = Some x" "scan_once (Suc n) s = Some x"
      using e IH(1) [of s] unfolding unfold(5) by (cases "scan_once n s") auto
    show ?thesis
      using e x unfolding unfold(5) [of vs s] unfold(6) [of vs s]
      by (cases x) (auto simp: IH(3) simp del: scan_elements.simps scan_once.simps split: option.split)
  qed
  ultimately show ?case by blast
qed simp

lemma scan_more:
  assumes "scan_once n s \<noteq> None" "n \<le> m"
  shows "scan_once m s = scan_once n s"
  using assms(2,1) by (induction m rule: dec_induct) (auto simp: scan_more_all [THEN conjunct1, rule_format] simp del: scan_once.simps)

section \<open>What is read\<close>

lemma unique_keys_list_iff: "unique_keys_list xs \<longleftrightarrow> (\<forall>x\<in>set xs. unique_keys x)"
  by (induction xs) auto

lemma unique_keys_items_iff: "unique_keys_items d \<longleftrightarrow> (\<forall>kv\<in>set d. unique_keys (snd kv))"
  by (induction d) auto

lemma pairs_distinct:
  "pairs_without_duplicates acc ps = Inr d \<Longrightarrow> distinct (map fst acc) \<Longrightarrow>
     distinct (map fst d) \<and> d = acc @ map (\<lambda>(k, v). (KStr k, v)) ps"
proof (induction acc ps rule: pairs_without_duplicates.induct)
  case (2 acc k v ps)
  then have f: "\<not> has_key acc k" "pairs_without_duplicates (acc @ [(KStr k, v)]) ps = Inr d" by (auto split: if_splits)
  with "2.prems"(2) have "distinct (map fst (acc @ [(KStr k, v)]))" by (simp add: has_key_def)
  note IH = "2.IH" [OF f this]
  have "d = acc @ map (\<lambda>(k, v). (KStr k, v)) ((k, v) # ps)" using IH [THEN conjunct2] by simp
  with IH [THEN conjunct1] show ?case by (rule conjI)
qed simp

lemma json_loads_Inr:
  "json_loads s = Some (Inr v) \<Longrightarrow>
     \<not> has_bom s \<and> (\<exists>r. scan_once (Suc (2 * length s)) (skip_ws s) = Some (Inr (v, r)) \<and> skip_ws r = [])"
  by (auto simp: json_loads_def split: if_splits option.splits sum.splits simp del: scan_once.simps)

lemma json_loads_fuel: "json_loads s \<noteq> None"
  using scan_fuel [of "skip_ws s" "Suc (2 * length s)"] skip_ws_length [of s]
  by (auto simp: json_loads_def le_imp_less_Suc split: option.splits sum.splits simp del: scan_once.simps)

section \<open>What is printed is read back\<close>

lemma hex_value_char [simp]: "n < 16 \<Longrightarrow> hex_value (hex_char n) = Some n"
proof -
  assume "n < 16"
  then have "n \<in> set [0..<16]" by simp
  then show ?thesis by (simp add: upt_rec) (elim disjE; simp; code_simp)
qed

lemma scan_escape: "scan_string (json_escape c @ s) = prepend [c] (scan_string s)"
proof (cases "is_control c \<and> c \<notin> {CHR 0x08, CHR 0x0C, CHR 0x0A, CHR 0x0D, CHR 0x09}")
  case True
  then have c: "of_char c < (32::nat)" by (simp add: is_control_def)
  have h: "take_hex4 (CHR ''0'' # CHR ''0'' # hex2 (of_char c) @ s) = Some (of_char c, s)"
  proof -
    have "hex_value CHR ''0'' = Some 0" by code_simp
    with c show ?thesis by (simp add: hex2_def)
  qed
  have u: "scan_unicode (of_char c) s = Some ([c], s)"
    using c by (simp add: scan_unicode_def high_surrogate_def utf8_encode_def)
  have "c \<noteq> quote_char \<and> c \<noteq> escape_mark" using c by auto
  with True show ?thesis by (auto simp: json_escape_def scan_string.simps(2) h u)
next
  case False
  then show ?thesis
    by (auto simp: json_escape_def scan_string.simps(2) escape_char_def)
qed

lemma scan_json_string: "scan_string (concat (map json_escape t) @ quote_char # r) = Some (t, r)"
  by (induction t) (simp_all add: scan_escape scan_string.simps(2) prepend_def)

text \<open>What may follow a printed value.\<close>

definition ends_value :: "string \<Rightarrow> bool" where
  "ends_value r \<longleftrightarrow> r = [] \<or> hd r = CHR '','' \<or> hd r = CHR '']'' \<or> hd r = CHR ''}''"

lemma digits_then: "list_all is_digit ds \<Longrightarrow> \<not> starts_digit r \<Longrightarrow> scan_digits (ds @ r) = (ds, r)"
  by (induction ds) (cases r, auto simp: scan_digits_def starts_digit_def)

lemma ends_value_tail:
  assumes "ends_value r"
  shows "\<not> starts_digit r" "scan_fraction r = ([], r)" "scan_exponent r = ([], r)"
  using assms
  by (cases r; auto simp: ends_value_def starts_digit_def scan_fraction_def scan_exponent_def expect_char_def is_digit_def)+

lemma dec_nat_head: "\<exists>c ds. dec_nat k = c # ds \<and> is_digit c"
  using dec_nat_digits [of k] dec_nat_not_Nil [of k] by (cases "dec_nat k") auto

lemma scan_dec_nat:
  assumes "ends_value r"
  shows "scan_integer_part (dec_nat k @ r) = Some (dec_nat k, r)"
proof (cases "k = 0")
  case True
  then show ?thesis by (simp add: scan_integer_part_def expect_char_def)
next
  case False
  obtain c ds where c: "dec_nat k = c # ds" "is_digit c" using dec_nat_head by blast
  have "c \<noteq> CHR ''0''" using dec_nat_no_leading_zero [of k] c(1) False by simp
  then have "expect_char (CHR ''0'') (dec_nat k @ r) = None" "starts_digit (dec_nat k @ r)"
    using c by (simp_all add: expect_char_def starts_digit_def)
  then show ?thesis
    using digits_then [OF dec_nat_digits ends_value_tail(1) [OF assms], of k] by (simp add: scan_integer_part_def)
qed

lemma digit_not_mark:
  "is_digit c \<Longrightarrow> c \<notin> {CHR ''-'', CHR ''n'', CHR ''t'', CHR ''f'', CHR ''N'', CHR ''I'', CHR ''{'', CHR ''['',
     CHR '']'', CHR ''}'', CHR 0xEF, quote_char} \<and> \<not> is_ws c"
  by (auto simp: is_digit_def is_ws_def)

lemma digit_cases: "is_digit c \<Longrightarrow> c \<in> set ''0123456789''"
proof -
  assume d: "is_digit c"
  have "digit_char n \<in> set ''0123456789''" if "n < 10" for n
    unfolding digit_char_def by (rule nth_mem) (use that in simp)
  from this [OF digit_val_less [OF d]] show ?thesis by (simp only: digit_char_val [OF d])
qed

lemma unsigned_text:
  assumes "is_digit c"
  shows "digit_count (c # ds) = Suc (length ds)" "int_of_text (c # ds) = int (undec_nat (c # ds))"
  using digit_cases [OF assms] by (auto simp: digit_count_def int_of_text_def)

lemma scan_safe_integer:
  assumes "ends_value r" "0 \<le> i" "i \<le> json_safe_max"
  shows "scan_once (Suc n) (str_int i @ r) = Some (Inr (PInt i, r))"
proof -
  obtain c ds where c: "dec_nat (nat i) = c # ds" "is_digit c" using dec_nat_head by blast
  have m: "scan_minus (dec_nat (nat i) @ r) = ([], dec_nat (nat i) @ r)"
    using c digit_not_mark [OF c(2)] by (simp add: scan_minus_def expect_char_def)
  have d: "dec_nat (nat i) \<noteq> ''-0''" "digit_count (dec_nat (nat i)) = length (dec_nat (nat i))"
    "int_of_text (dec_nat (nat i)) = int (undec_nat (dec_nat (nat i)))"
    using c digit_not_mark [OF c(2)] unsigned_text [OF c(2), of ds] by auto
  have "nat i < 10 ^ 16" using assms(2,3) by (simp add: json_safe_max_def nat_less_iff)
  then have "length (dec_nat (nat i)) \<le> 16" by (rule length_dec_nat) simp
  with d assms(2,3) have p: "parse_integer (dec_nat (nat i)) = Inr (PInt i)" by (simp add: parse_integer_def)
  have "scan_number (dec_nat (nat i) @ r) = Inr (PInt i, r)"
    using scan_dec_nat [OF assms(1), of "nat i"] ends_value_tail(2,3) [OF assms(1)] p
    by (simp add: scan_number_def m)
  then have "first_constant json_constants (dec_nat (nat i) @ r) = Inr (PInt i, r)"
    using c digit_not_mark [OF c(2)] by (simp add: json_constants_def strip_prefix_def)
  then show ?thesis
    using c digit_not_mark [OF c(2)] assms(2) by (simp add: expect_char_def)
qed

lemma json_source_head:
  assumes "signable v"
  shows "\<exists>c t. json_source v = c # t \<and> \<not> is_ws c \<and> c \<noteq> CHR '']'' \<and> c \<noteq> CHR ''}'' \<and> c \<noteq> CHR 0xEF"
proof (cases v)
  case (PInt i)
  obtain c ds where c: "dec_nat (nat i) = c # ds" "is_digit c" using dec_nat_head by blast
  then show ?thesis using PInt assms digit_not_mark [OF c(2)] by simp
qed (use assms in \<open>auto simp: is_ws_def json_string_def\<close>)

lemma skip_ws_text: "signable v \<Longrightarrow> skip_ws (json_source v @ r) = json_source v @ r"
  using json_source_head [of v] by (auto simp: skip_ws_def)

definition reads :: "pyval \<Rightarrow> bool" where
  "reads v \<longleftrightarrow> (\<forall>r. ends_value r \<longrightarrow> (\<exists>N. \<forall>n\<ge>N. scan_once n (json_source v @ r) = Some (Inr (v, r))))"

lemma eventually_Suc: "\<forall>n\<ge>N. P (Suc n) \<Longrightarrow> \<exists>N. \<forall>n\<ge>N. P n"
  by (metis Suc_le_D Suc_le_mono)

lemma elements_read:
  assumes "\<forall>x\<in>set xs. reads x \<and> signable x" "xs \<noteq> []"
  shows "\<exists>N. \<forall>n\<ge>N. scan_elements n vs (json_sources xs @ CHR '']'' # r) = Some (Inr (PList (vs @ xs), r))"
  using assms
proof (induction xs arbitrary: vs)
  case (Cons x xs)
  let ?rest = "(if xs = [] then [] else '','' @ json_sources xs) @ CHR '']'' # r"
  have "ends_value ?rest" by (simp add: ends_value_def)
  with Cons.prems obtain N where N: "\<forall>n\<ge>N. scan_once n (json_source x @ ?rest) = Some (Inr (x, ?rest))"
    unfolding reads_def by auto
  show ?case
  proof (cases "xs = []")
    case True
    with N show ?thesis
      by (intro eventually_Suc [of N]) (simp add: expect_char_def skip_ws_def is_ws_def)
  next
    case False
    with Cons obtain M where M: "\<forall>n\<ge>M. scan_elements n (vs @ [x]) (json_sources xs @ CHR '']'' # r) =
        Some (Inr (PList ((vs @ [x]) @ xs), r))" by fastforce
    obtain y ys where xs: "xs = y # ys" using False by (cases xs) auto
    have "skip_ws (json_sources xs @ CHR '']'' # r) = json_sources xs @ CHR '']'' # r"
      using skip_ws_text [of y] Cons.prems(1) by (simp add: xs)
    with N M False show ?thesis
      by (intro eventually_Suc [of "max N M"]) (simp add: expect_char_def skip_ws_def is_ws_def)
  qed
qed simp

definition text_keys :: "(string \<times> pyval) list \<Rightarrow> pydict" where
  "text_keys ps = map (\<lambda>(k, v). (KStr k, v)) ps"

lemma text_keys_simps [simp]:
  "text_keys [] = []" "text_keys ((k, v) # ps) = (KStr k, v) # text_keys ps"
  "text_keys (ps @ qs) = text_keys ps @ text_keys qs" "text_keys ps = [] \<longleftrightarrow> ps = []"
  by (simp_all add: text_keys_def)

lemma has_key_text_keys: "has_key (text_keys ps) k \<longleftrightarrow> k \<in> fst ` set ps"
  by (force simp: has_key_def text_keys_def)

lemma pairs_accepted:
  "distinct (map fst (acc @ ps)) \<Longrightarrow> pairs_without_duplicates (text_keys acc) ps = Inr (text_keys (acc @ ps))"
proof (induction ps arbitrary: acc)
  case (Cons p ps)
  obtain k v where p: "p = (k, v)" by (cases p)
  have "\<not> has_key (text_keys acc) k" using Cons.prems by (auto simp: p has_key_text_keys)
  with Cons.IH [of "acc @ [p]"] Cons.prems show ?case by (simp add: p)
qed simp

lemma signable_text_keys: "signable_items d \<Longrightarrow> \<exists>ps. d = text_keys ps \<and> (\<forall>p\<in>set ps. signable (snd p))"
proof (induction d)
  case (Cons kv d)
  then obtain ps where "d = text_keys ps" "\<forall>p\<in>set ps. signable (snd p)" by auto
  moreover obtain k v where "kv = (KStr k, v)" "signable v"
    using Cons.prems by (cases kv; cases "fst kv") auto
  ultimately show ?case by (intro exI [of _ "(k, v) # ps"]) simp
qed (simp add: exI [of _ "[]"])

lemma members_read:
  assumes "\<forall>p\<in>set ps. reads (snd p) \<and> signable (snd p)" "ps \<noteq> []" "distinct (map fst (acc @ ps))"
  shows "\<exists>N. \<forall>n\<ge>N. scan_members n acc (json_member_texts (text_keys ps) @ CHR ''}'' # r) =
    Some (Inr (PDict (text_keys (acc @ ps)), r))"
  using assms
proof (induction ps arbitrary: acc)
  case (Cons p ps)
  obtain k x where p: "p = (k, x)" by (cases p)
  let ?rest = "(if ps = [] then [] else '','' @ json_member_texts (text_keys ps)) @ CHR ''}'' # r"
  have "ends_value ?rest" by (simp add: ends_value_def)
  with Cons.prems obtain N where N: "\<forall>n\<ge>N. scan_once n (json_source x @ ?rest) = Some (Inr (x, ?rest))"
    unfolding reads_def by (auto simp: p)
  have key: "scan_string (concat (map json_escape k) @ quote_char # CHR '':'' # json_source x @ ?rest) =
      Some (k, CHR '':'' # json_source x @ ?rest)" by (rule scan_json_string)
  have ws: "skip_ws (json_source x @ ?rest) = json_source x @ ?rest" "skip_ws (c # s) = c # s" if "\<not> is_ws c" for c s
    using Cons.prems(1) that by (simp add: p skip_ws_text, simp add: skip_ws_def)
  have marks: "\<not> is_ws (CHR '':'')" "\<not> is_ws (CHR ''}'')" "\<not> is_ws (CHR '','')" by (simp_all add: is_ws_def)
  note step = N key ws(1) [OF marks(1)] ws(2) [OF marks(1)] ws(2) [OF marks(2)] ws(2) [OF marks(3)]
  show ?case
  proof (cases "ps = []")
    case True
    have "pairs_without_duplicates (text_keys []) (acc @ [(k, x)]) = Inr (text_keys ([] @ acc @ [(k, x)]))"
      by (rule pairs_accepted) (use Cons.prems(3) True p in simp)
    with step True show ?thesis
      by (intro eventually_Suc [of N]) (simp add: p json_string_def expect_char_def)
  next
    case False
    with Cons.IH [of "acc @ [p]"] Cons.prems obtain M where
      M: "\<forall>n\<ge>M. scan_members n (acc @ [(k, x)]) (json_member_texts (text_keys ps) @ CHR ''}'' # r) =
        Some (Inr (PDict (text_keys ((acc @ [(k, x)]) @ ps)), r))" by (auto simp: p)
    have "skip_ws (json_member_texts (text_keys ps) @ CHR ''}'' # r) = json_member_texts (text_keys ps) @ CHR ''}'' # r"
      using False by (cases ps) (auto simp: json_string_def skip_ws_def is_ws_def)
    with step M False show ?thesis
      by (intro eventually_Suc [of "max N M"]) (simp add: p json_string_def expect_char_def)
  qed
qed simp

lemma signable_list_iff: "signable_list xs \<longleftrightarrow> (\<forall>x\<in>set xs. signable x)"
  by (induction xs) auto

lemma text_keys_distinct: "distinct (map fst (text_keys ps)) \<longleftrightarrow> distinct (map fst ps)"
proof -
  have "map fst (text_keys ps) = map KStr (map fst ps)" by (induction ps) auto
  then show ?thesis by (simp add: distinct_map inj_on_def)
qed

lemma json_source_reads: "signable v \<Longrightarrow> unique_keys v \<Longrightarrow> reads v"
proof (induction v)
  case (PInt i)
  then show ?case
    unfolding reads_def using scan_safe_integer by (auto intro!: eventually_Suc [of 0] simp del: scan_once.simps str_int_nonneg)
next
  case (PStr s)
  have "scan_string (concat (map json_escape s) @ quote_char # r) = Some (s, r)" for r by (rule scan_json_string)
  then show ?case
    unfolding reads_def by (auto intro!: eventually_Suc [of 0] simp: json_string_def expect_char_def)
next
  case (PBool b)
  then show ?case
    unfolding reads_def
    by (auto intro!: eventually_Suc [of 0] simp: expect_char_def json_constants_def strip_prefix_def)
next
  case (PList xs)
  then have xs: "\<forall>x\<in>set xs. reads x \<and> signable x" by (simp add: signable_list_iff unique_keys_list_iff)
  show ?case
  proof (cases "xs = []")
    case True
    then show ?thesis
      unfolding reads_def by (auto intro!: eventually_Suc [of 0] simp: expect_char_def skip_ws_def is_ws_def)
  next
    case False
    obtain y ys where y: "xs = y # ys" using False by (cases xs) auto
    have "signable y" using xs y by simp
    with json_source_head obtain c t where c: "json_source y = c # t" "\<not> is_ws c" "c \<noteq> CHR '']''" by blast
    have "\<exists>N. \<forall>n\<ge>N. scan_once n (json_source (PList xs) @ r) = Some (Inr (PList xs, r))" for r
    proof -
      obtain N where "\<forall>n\<ge>N. scan_elements n [] (json_sources xs @ CHR '']'' # r) = Some (Inr (PList ([] @ xs), r))"
        using elements_read [OF xs False] by blast
      with c y show ?thesis
        by (intro eventually_Suc [of N]) (simp add: expect_char_def skip_ws_def is_ws_def)
    qed
    then show ?thesis by (simp add: reads_def)
  qed
next
  case (PDict d)
  have "signable_items d" using PDict.prems(1) by simp
  from signable_text_keys [OF this] obtain ps where d: "d = text_keys ps" "\<forall>p\<in>set ps. signable (snd p)" by blast
  have ps: "\<forall>p\<in>set ps. reads (snd p) \<and> signable (snd p)"
  proof
    fix p assume p: "p \<in> set ps"
    then have m: "(KStr (fst p), snd p) \<in> set d" by (force simp: d(1) text_keys_def)
    then have "unique_keys (snd p)" using PDict.prems(2) by (auto simp: unique_keys_items_iff)
    with PDict.IH [OF m] d(2) p show "reads (snd p) \<and> signable (snd p)" by (auto simp: snds.simps)
  qed
  have ds: "distinct (map fst ([] @ ps))" using PDict.prems(2) by (simp add: d(1) text_keys_distinct)
  show ?case
  proof (cases "ps = []")
    case True
    then show ?thesis
      unfolding reads_def d(1) by (auto intro!: eventually_Suc [of 0] simp: expect_char_def skip_ws_def is_ws_def)
  next
    case False
    have "\<exists>N. \<forall>n\<ge>N. scan_once n (json_source (PDict d) @ r) = Some (Inr (PDict d, r))" for r
    proof -
      obtain N where "\<forall>n\<ge>N. scan_members n [] (json_member_texts d @ CHR ''}'' # r) = Some (Inr (PDict ([] @ d), r))"
        using members_read [OF ps False ds] by (auto simp: d(1))
      moreover obtain t where t: "json_member_texts d @ CHR ''}'' # r = quote_char # t"
        using False by (cases ps) (auto simp: d(1) json_string_def)
      ultimately have "\<forall>n\<ge>N. scan_members n [] (quote_char # t) = Some (Inr (PDict d, r))" by simp
      with t show ?thesis
        by (intro eventually_Suc [of N]) (simp add: expect_char_def skip_ws_def is_ws_def)
    qed
    then show ?thesis by (simp add: reads_def)
  qed
qed simp_all

lemma json_source_scanned:
  assumes "signable v" "unique_keys v"
  shows "scan_once (Suc (2 * length (json_source v))) (json_source v) = Some (Inr (v, []))"
proof -
  let ?n = "Suc (2 * length (json_source v))"
  obtain N where "scan_once (max N ?n) (json_source v @ []) = Some (Inr (v, []))"
    using json_source_reads [OF assms] unfolding reads_def ends_value_def by (metis max.cobounded1)
  moreover have "scan_once (max N ?n) (json_source v) = scan_once ?n (json_source v)"
    by (rule scan_more [OF scan_fuel]) simp_all
  ultimately show ?thesis by simp
qed

section \<open>Properties\<close>

definition example_document :: pyval where
  "example_document =
     PDict [(KStr ''amount'', PStr ''200''), (KStr ''items'', PList [PInt 7, PBool True, PDict [(KStr ''amount'', PInt 0)]])]"

lemma example_document_ok: "signable example_document" "unique_keys example_document"
  by code_simp+

text \<open>
  Property C25. The reader reads back what \<^verbatim>\<open>json.dumps\<close> prints: for every value that may be signed and
  repeats no key, escapes and nesting included, reading its compact text gives the value.
\<close>

theorem strict_json_roundtrip:
  assumes "signable v" "unique_keys v"
  shows "parse_strict_json (WText (json_source v)) = Some (Inr v)"
proof -
  have "char_of (239::nat) = CHR 0xEF" by code_simp
  then have "\<not> has_bom (json_source v)"
    using json_source_head [OF assms(1)] by (auto simp: has_bom_def)
  then have "json_loads (json_source v) = Some (Inr v)"
    using json_source_scanned [OF assms] skip_ws_text [OF assms(1), of "[]"]
    by (simp add: json_loads_def skip_ws_def del: scan_once.simps)
  moreover have "validate_json_value v ''$'' = Inr ()" using assms(1) by (simp only: validate_json_signable)
  ultimately show ?thesis by (simp add: parse_strict_json_def wire_text_def)
qed

theorem strict_json_roundtrip_witness:
  "parse_strict_json (WText (json_source example_document)) = Some (Inr example_document)"
  by (rule strict_json_roundtrip [OF example_document_ok])

end
