(* ===== verification/Strict_Json_Raw.thy ===== *)
theory Strict_Json_Raw
  imports Strict_Json_Props
begin

text \<open>
  What the strict reader accepts, stated over the document itself. \<open>raw_loads\<close> is the grammar alone: it
  keeps every member of every object in order, repeated keys included, and the text of every number and
  word. The hooks of the module and the final validation are not used here; \<open>raw_ok\<close> says which
  documents are acceptable and \<open>raw_value\<close> what they mean.
\<close>

section \<open>Documents with nothing dropped\<close>

datatype raw_json =
    RawText string
  | RawNumber string
  | RawWord string
  | RawArray "raw_json list"
  | RawObject "(string \<times> raw_json) list"

definition raw_number :: "string \<Rightarrow> (raw_json \<times> string) option" where
  "raw_number s =
     (case scan_integer_part (snd (scan_minus s)) of
        None \<Rightarrow> None
      | Some (i, s1) \<Rightarrow>
          Some (RawNumber (fst (scan_minus s) @ i @ fst (scan_fraction s1) @ fst (scan_exponent (snd (scan_fraction s1)))),
                snd (scan_exponent (snd (scan_fraction s1)))))"

fun raw_word :: "string list \<Rightarrow> string \<Rightarrow> (raw_json \<times> string) option" where
  "raw_word [] s = raw_number s"
| "raw_word (p # ps) s = (case strip_prefix p s of Some r \<Rightarrow> Some (RawWord p, r) | None \<Rightarrow> raw_word ps s)"

definition json_words :: "string list" where
  "json_words = [''null'', ''true'', ''false'', ''NaN'', ''Infinity'', ''-Infinity'']"

fun raw_once :: "nat \<Rightarrow> string \<Rightarrow> (raw_json \<times> string) option"
  and raw_members :: "nat \<Rightarrow> (string \<times> raw_json) list \<Rightarrow> string \<Rightarrow> (raw_json \<times> string) option"
  and raw_elements :: "nat \<Rightarrow> raw_json list \<Rightarrow> string \<Rightarrow> (raw_json \<times> string) option"
where
  "raw_once 0 s = None"
| "raw_once (Suc n) s =
     (case expect_char quote_char s of
        Some r \<Rightarrow> map_option (\<lambda>(t, r1). (RawText t, r1)) (scan_string r)
      | None \<Rightarrow>
     (case expect_char (CHR ''{'') s of
        Some r \<Rightarrow> (case expect_char (CHR ''}'') (skip_ws r) of
                    Some r1 \<Rightarrow> Some (RawObject [], r1)
                  | None \<Rightarrow> raw_members n [] (skip_ws r))
      | None \<Rightarrow>
     (case expect_char (CHR ''['') s of
        Some r \<Rightarrow> (case expect_char (CHR '']'') (skip_ws r) of
                    Some r1 \<Rightarrow> Some (RawArray [], r1)
                  | None \<Rightarrow> raw_elements n [] (skip_ws r))
      | None \<Rightarrow> raw_word json_words s)))"
| "raw_members 0 acc s = None"
| "raw_members (Suc n) acc s =
     (case Option.bind (expect_char quote_char s) scan_string of
        None \<Rightarrow> None
      | Some (k, r1) \<Rightarrow>
     (case expect_char (CHR '':'') (skip_ws r1) of
        None \<Rightarrow> None
      | Some r2 \<Rightarrow>
     (case raw_once n (skip_ws r2) of
        None \<Rightarrow> None
      | Some (x, r3) \<Rightarrow>
     (case expect_char (CHR ''}'') (skip_ws r3) of
        Some r4 \<Rightarrow> Some (RawObject (acc @ [(k, x)]), r4)
      | None \<Rightarrow>
     (case expect_char (CHR '','') (skip_ws r3) of
        Some r4 \<Rightarrow> raw_members n (acc @ [(k, x)]) (skip_ws r4)
      | None \<Rightarrow> None)))))"
| "raw_elements 0 acc s = None"
| "raw_elements (Suc n) acc s =
     (case raw_once n s of
        None \<Rightarrow> None
      | Some (x, r1) \<Rightarrow>
     (case expect_char (CHR '']'') (skip_ws r1) of
        Some r2 \<Rightarrow> Some (RawArray (acc @ [x]), r2)
      | None \<Rightarrow>
     (case expect_char (CHR '','') (skip_ws r1) of
        Some r2 \<Rightarrow> raw_elements n (acc @ [x]) (skip_ws r2)
      | None \<Rightarrow> None)))"

definition raw_loads :: "string \<Rightarrow> raw_json option" where
  "raw_loads s =
     (if has_bom s then None
      else case raw_once (Suc (2 * length s)) (skip_ws s) of
        None \<Rightarrow> None
      | Some (raw, r) \<Rightarrow> if skip_ws r = [] then Some raw else None)"

text \<open>
  An acceptable document: numbers are written as the decimal of a safe unsigned integer, with no sign,
  fraction or exponent; the only words are \<^verbatim>\<open>true\<close> and \<^verbatim>\<open>false\<close>; no text or key has a lone surrogate; no
  object, at any depth, has a key twice.
\<close>

definition plain_number :: "string \<Rightarrow> bool" where
  "plain_number t \<longleftrightarrow> t = dec_nat (undec_nat t) \<and> int (undec_nat t) \<le> json_safe_max"

fun raw_ok :: "raw_json \<Rightarrow> bool" where
  "raw_ok (RawText t) = (\<not> has_surrogate t)"
| "raw_ok (RawNumber t) = plain_number t"
| "raw_ok (RawWord t) = (t = ''true'' \<or> t = ''false'')"
| "raw_ok (RawArray xs) = (\<forall>x\<in>set xs. raw_ok x)"
| "raw_ok (RawObject ps) = (distinct (map fst ps) \<and> (\<forall>p\<in>set ps. \<not> has_surrogate (fst p) \<and> raw_ok (snd p)))"

fun raw_value :: "raw_json \<Rightarrow> pyval" where
  "raw_value (RawText t) = PStr t"
| "raw_value (RawNumber t) = PInt (int (undec_nat t))"
| "raw_value (RawWord t) = (if t = ''true'' then PBool True else if t = ''false'' then PBool False else PNone)"
| "raw_value (RawArray xs) = PList (map raw_value xs)"
| "raw_value (RawObject ps) = PDict (map (\<lambda>p. (KStr (fst p), raw_value (snd p))) ps)"

section \<open>The scanner against the grammar\<close>

text \<open>What the hooks let through: the rest is for the final validation.\<close>

fun scan_ok :: "raw_json \<Rightarrow> bool" where
  "scan_ok (RawText t) = True"
| "scan_ok (RawNumber t) = plain_number t"
| "scan_ok (RawWord t) = (t = ''null'' \<or> t = ''true'' \<or> t = ''false'')"
| "scan_ok (RawArray xs) = (\<forall>x\<in>set xs. scan_ok x)"
| "scan_ok (RawObject ps) = (distinct (map fst ps) \<and> (\<forall>p\<in>set ps. scan_ok (snd p)))"

lemma raw_ok_signable: "raw_ok raw \<longleftrightarrow> scan_ok raw \<and> signable (raw_value raw)"
proof (induction raw)
  case (RawNumber t)
  then show ?case by (auto simp: plain_number_def)
next
  case (RawArray xs)
  then show ?case by (auto simp: signable_list_iff)
next
  case (RawObject ps)
  have "signable_items (map (\<lambda>p. (KStr (fst p), raw_value (snd p))) qs) \<longleftrightarrow>
      (\<forall>p\<in>set qs. \<not> has_surrogate (fst p) \<and> signable (raw_value (snd p)))" for qs
    by (induction qs) auto
  moreover have "raw_ok (snd p) \<longleftrightarrow> scan_ok (snd p) \<and> signable (raw_value (snd p))" if "p \<in> set ps" for p
    using RawObject that by (cases p) (auto simp: snds.simps)
  ultimately show ?case by auto
qed auto

definition agrees :: "(pyval \<times> string) res option \<Rightarrow> (raw_json \<times> string) option \<Rightarrow> bool" where
  "agrees m k \<longleftrightarrow>
     (\<forall>v r. m = Some (Inr (v, r)) \<longleftrightarrow> (\<exists>raw. k = Some (raw, r) \<and> scan_ok raw \<and> v = raw_value raw))"

lemma integer_part_decimal:
  assumes "scan_integer_part s = Some (i, r)"
  shows "dec_nat (undec_nat i) = i"
proof -
  have "i = ''0'' \<or> (s \<noteq> [] \<and> hd s \<noteq> CHR ''0'' \<and> is_digit (hd s) \<and> i = takeWhile is_digit s)"
    using assms
    by (cases s) (auto simp: scan_integer_part_def expect_char_def starts_digit_def scan_digits_def split: if_splits)
  then show ?thesis
  proof
    assume "i = ''0''"
    then show ?thesis using undec_dec [of 0] by simp
  next
    assume s: "s \<noteq> [] \<and> hd s \<noteq> CHR ''0'' \<and> is_digit (hd s) \<and> i = takeWhile is_digit s"
    then have "i \<noteq> []" "hd i = hd s" by (cases s; simp)+
    moreover have "list_all is_digit i" using s by (auto simp: list_all_iff dest: set_takeWhileD)
    ultimately show ?thesis using s by (intro dec_undec) auto
  qed
qed

lemma parse_decimal:
  assumes "dec_nat (undec_nat i) = i"
  shows "parse_integer i = Inr v \<longleftrightarrow> plain_number i \<and> v = PInt (int (undec_nat i))"
    and "parse_integer (CHR ''-'' # i) \<noteq> Inr v" and "\<not> plain_number (CHR ''-'' # t)"
proof -
  obtain c ds where c: "i = c # ds" "is_digit c" using dec_nat_head [of "undec_nat i"] assms by auto
  have "length i \<le> 16" if "int (undec_nat i) \<le> json_safe_max"
  proof -
    have "undec_nat i < 10 ^ 16" using that by (simp add: json_safe_max_def)
    from length_dec_nat [OF this] show ?thesis by (simp add: assms)
  qed
  then show "parse_integer i = Inr v \<longleftrightarrow> plain_number i \<and> v = PInt (int (undec_nat i))"
    using unsigned_text [OF c(2), of ds] digit_not_mark [OF c(2)] assms
    by (auto simp: parse_integer_def Let_def plain_number_def c(1) simp del: undec_nat_Cons)
  have "undec_nat i \<noteq> 0 \<or> i = ''0''" using assms by (metis dec_nat_0)
  then show "parse_integer (CHR ''-'' # i) \<noteq> Inr v"
    by (auto simp: parse_integer_def Let_def int_of_text_def)
  show "\<not> plain_number (CHR ''-'' # t)"
    using dec_nat_head [of "undec_nat (CHR ''-'' # t)"] digit_not_mark by (force simp: plain_number_def)
qed

lemma tail_not_plain:
  assumes "fst (scan_fraction s1) @ fst (scan_exponent s2) \<noteq> []"
  shows "\<not> plain_number (i @ fst (scan_fraction s1) @ fst (scan_exponent s2))"
proof -
  have "\<exists>c\<in>set (fst (scan_fraction s1) @ fst (scan_exponent s2)). \<not> is_digit c"
    using assms
    by (auto simp: scan_fraction_def scan_exponent_def is_digit_def split: option.splits if_splits list.splits)
  then show ?thesis
    using dec_nat_digits [of "undec_nat (i @ fst (scan_fraction s1) @ fst (scan_exponent s2))"]
    by (auto simp: plain_number_def list_all_iff) 
qed

lemma minus_cases: "fst (scan_minus s) = [] \<or> fst (scan_minus s) = ''-''"
  by (auto simp: scan_minus_def split: option.splits)

lemma number_agrees: "agrees (Some (scan_number s)) (raw_number s)"
proof (cases "scan_integer_part (snd (scan_minus s))")
  case None
  then show ?thesis by (simp add: agrees_def scan_number_def raw_number_def)
next
  case (Some p)
  obtain i s1 where p: "p = (i, s1)" by (cases p)
  let ?f = "fst (scan_fraction s1)" and ?e = "fst (scan_exponent (snd (scan_fraction s1)))"
  let ?m = "fst (scan_minus s)"
  have dec: "dec_nat (undec_nat i) = i" using Some p by (intro integer_part_decimal) simp
  have num: "parse_integer (?m @ i) = Inr v \<longleftrightarrow> plain_number (?m @ i) \<and> v = PInt (int (undec_nat (?m @ i)))" for v
    using minus_cases [of s] parse_decimal [OF dec] by auto
  have scan: "scan_number s = bind_res (if ?f @ ?e = [] then parse_integer (?m @ i) else reject_float (?m @ i @ ?f @ ?e))
      (\<lambda>v. Inr (v, snd (scan_exponent (snd (scan_fraction s1)))))"
    by (simp add: scan_number_def Some p Let_def split: prod.split)
  show ?thesis
  proof (cases "?f @ ?e = []")
    case True
    then show ?thesis by (auto simp: agrees_def scan raw_number_def Some p res_simps num)
  next
    case False
    from tail_not_plain [OF False, of "?m @ i"] False show ?thesis
      by (auto simp: agrees_def scan raw_number_def Some p res_simps reject_float_def)
  qed
qed

lemma word_agrees: "agrees (Some (first_constant json_constants s)) (raw_word json_words s)"
proof -
  have "agrees (Some (first_constant cs s)) (raw_word (map fst cs) s)"
    if "\<forall>(p, m)\<in>set cs. \<forall>x. m = Inr x \<longleftrightarrow> scan_ok (RawWord p) \<and> x = raw_value (RawWord p)" for cs
    using that
  proof (induction cs)
    case Nil
    show ?case by (simp add: number_agrees)
  next
    case (Cons pm cs)
    then show ?case
      by (cases pm; cases "strip_prefix (fst pm) s") (auto simp: agrees_def res_simps)
  qed
  from this [of json_constants] show ?thesis
    by (auto simp: json_constants_def json_words_def reject_constant_def)
qed

lemma pairs_Inr: "pairs_without_duplicates [] ps = Inr d \<longleftrightarrow> distinct (map fst ps) \<and> d = text_keys ps"
proof
  assume "distinct (map fst ps) \<and> d = text_keys ps"
  then show "pairs_without_duplicates [] ps = Inr d" using pairs_accepted [of "[]" ps] by simp
next
  assume "pairs_without_duplicates [] ps = Inr d"
  from pairs_distinct [OF this] have "distinct (map fst d)" "d = text_keys ps" by (auto simp: text_keys_def)
  then show "distinct (map fst ps) \<and> d = text_keys ps" by (simp add: text_keys_distinct)
qed

lemma raw_members_keep: "raw_members n acc s = Some (raw, r) \<Longrightarrow> \<exists>more. raw = RawObject (acc @ more)"
  by (induction n arbitrary: acc s) (fastforce split: option.splits bind_splits)+

lemma raw_elements_keep: "raw_elements n acc s = Some (raw, r) \<Longrightarrow> \<exists>more. raw = RawArray (acc @ more)"
  by (induction n arbitrary: acc s) (fastforce split: option.splits)+

abbreviation member_values :: "(string \<times> raw_json) list \<Rightarrow> (string \<times> pyval) list" where
  "member_values ps \<equiv> map (\<lambda>p. (fst p, raw_value (snd p))) ps"

lemma text_keys_values: "text_keys (member_values ps) = map (\<lambda>p. (KStr (fst p), raw_value (snd p))) ps"
  by (induction ps) auto

lemma agrees_Some: "agrees m (Some (raw, r)) \<Longrightarrow> scan_ok raw \<Longrightarrow> m = Some (Inr (raw_value raw, r))"
  by (auto simp: agrees_def)

lemma agrees_fails: "agrees m k \<Longrightarrow> (\<And>raw r. k = Some (raw, r) \<Longrightarrow> \<not> scan_ok raw) \<Longrightarrow> m \<noteq> Some (Inr (v, r))"
  by (auto simp: agrees_def)

lemma members_agree:
  assumes once: "\<And>s. agrees (scan_once n s) (raw_once n s)"
    and more: "\<And>acc s. \<forall>p\<in>set acc. scan_ok (snd p) \<Longrightarrow> agrees (scan_members n (member_values acc) s) (raw_members n acc s)"
    and acc: "\<forall>p\<in>set acc. scan_ok (snd p)"
  shows "agrees (scan_members (Suc n) (member_values acc) s) (raw_members (Suc n) acc s)"
proof (cases "Option.bind (expect_char quote_char s) scan_string")
  case None
  then show ?thesis by (simp add: agrees_def)
next
  case (Some q)
  obtain k r1 where q: "q = (k, r1)" by (cases q)
  show ?thesis
  proof (cases "expect_char (CHR '':'') (skip_ws r1)")
    case None
    then show ?thesis by (simp add: agrees_def Some q)
  next
    case r2: (Some r2)
    note head = Some q r2
    show ?thesis
    proof (cases "\<exists>x r3. raw_once n (skip_ws r2) = Some (x, r3) \<and> scan_ok x")
      case True
      then obtain x r3 where x: "raw_once n (skip_ws r2) = Some (x, r3)" "scan_ok x" by blast
      have v: "scan_once n (skip_ws r2) = Some (Inr (raw_value x, r3))"
        using once [of "skip_ws r2"] x by (simp add: agrees_Some)
      have "agrees (scan_members n (member_values (acc @ [(k, x)])) r) (raw_members n (acc @ [(k, x)]) r)" for r
        by (rule more) (use acc x in auto)
      then show ?thesis
        using acc x(2) text_keys_values [of "acc @ [(k, x)]"]
        by (simp add: head x(1) v split: option.split)
           (auto simp: agrees_def res_simps pairs_Inr comp_def)
    next
      case False
      have "scan_members (Suc n) (member_values acc) s \<noteq> Some (Inr (v, r))" for v r
      proof -
        have "scan_once n (skip_ws r2) \<noteq> Some (Inr y)" for y
          using agrees_fails [OF once [of "skip_ws r2"], of "fst y" "snd y"] False by auto
        then show ?thesis by (auto simp: head split: option.splits sum.splits)
      qed
      moreover have "\<not> scan_ok raw" if "raw_members (Suc n) acc s = Some (raw, r)" for raw r
      proof -
        from that obtain x r3 where x: "raw_once n (skip_ws r2) = Some (x, r3)"
          by (auto simp: head split: option.splits)
        with that have "\<exists>more. raw = RawObject ((acc @ [(k, x)]) @ more)"
          by (auto simp: head split: option.splits dest: raw_members_keep)
        with False x show ?thesis by auto
      qed
      ultimately show ?thesis unfolding agrees_def by blast
    qed
  qed
qed

lemma elements_agree:
  assumes once: "\<And>s. agrees (scan_once n s) (raw_once n s)"
    and more: "\<And>acc s. \<forall>x\<in>set acc. scan_ok x \<Longrightarrow> agrees (scan_elements n (map raw_value acc) s) (raw_elements n acc s)"
    and acc: "\<forall>x\<in>set acc. scan_ok x"
  shows "agrees (scan_elements (Suc n) (map raw_value acc) s) (raw_elements (Suc n) acc s)"
proof (cases "\<exists>x r1. raw_once n s = Some (x, r1) \<and> scan_ok x")
  case True
  then obtain x r1 where x: "raw_once n s = Some (x, r1)" "scan_ok x" by blast
  have v: "scan_once n s = Some (Inr (raw_value x, r1))" using once [of s] x by (simp add: agrees_Some)
  have "agrees (scan_elements n (map raw_value (acc @ [x])) r) (raw_elements n (acc @ [x]) r)" for r
    by (rule more) (use acc x in auto)
  then show ?thesis
    using acc x(2) by (simp add: x(1) v split: option.split) (auto simp: agrees_def)
next
  case False
  have "scan_elements (Suc n) (map raw_value acc) s \<noteq> Some (Inr (v, r))" for v r
  proof -
    have "scan_once n s \<noteq> Some (Inr y)" for y
      using agrees_fails [OF once [of s], of "fst y" "snd y"] False by auto
    then show ?thesis by (auto split: option.splits sum.splits)
  qed
  moreover have "\<not> scan_ok raw" if "raw_elements (Suc n) acc s = Some (raw, r)" for raw r
  proof -
    from that obtain x r1 where x: "raw_once n s = Some (x, r1)" by (auto split: option.splits)
    with that have "\<exists>more. raw = RawArray ((acc @ [x]) @ more)"
      by (auto split: option.splits dest: raw_elements_keep)
    with False x show ?thesis by auto
  qed
  ultimately show ?thesis unfolding agrees_def by blast
qed

lemma scan_agrees_all:
  "(\<forall>s. agrees (scan_once n s) (raw_once n s)) \<and>
   (\<forall>acc s. (\<forall>p\<in>set acc. scan_ok (snd p)) \<longrightarrow> agrees (scan_members n (member_values acc) s) (raw_members n acc s)) \<and>
   (\<forall>acc s. (\<forall>x\<in>set acc. scan_ok x) \<longrightarrow> agrees (scan_elements n (map raw_value acc) s) (raw_elements n acc s))"
proof (induction n)
  case 0
  show ?case by (simp add: agrees_def)
next
  case (Suc n)
  then have IH: "\<And>s. agrees (scan_once n s) (raw_once n s)"
    "\<And>acc s. \<forall>p\<in>set acc. scan_ok (snd p) \<Longrightarrow> agrees (scan_members n (member_values acc) s) (raw_members n acc s)"
    "\<And>acc s. \<forall>x\<in>set acc. scan_ok x \<Longrightarrow> agrees (scan_elements n (map raw_value acc) s) (raw_elements n acc s)" by blast+
  have "agrees (scan_once (Suc n) s) (raw_once (Suc n) s)" for s
    using IH(2) [of "[]"] IH(3) [of "[]"] word_agrees [of s]
    by (simp split: option.split) (auto simp: agrees_def split: option.splits)
  with members_agree [OF IH(1,2)] elements_agree [OF IH(1,3)] show ?case by blast
qed

lemma json_loads_agrees:
  "json_loads s = Some (Inr v) \<longleftrightarrow> (\<exists>raw. raw_loads s = Some raw \<and> scan_ok raw \<and> v = raw_value raw)"
proof -
  have a: "agrees (scan_once (Suc (2 * length s)) (skip_ws s)) (raw_once (Suc (2 * length s)) (skip_ws s))"
    using scan_agrees_all by blast
  have "json_loads s = Some (Inr v) \<longleftrightarrow>
      \<not> has_bom s \<and> (\<exists>r. scan_once (Suc (2 * length s)) (skip_ws s) = Some (Inr (v, r)) \<and> skip_ws r = [])"
    by (auto simp: json_loads_def simp del: scan_once.simps split: option.splits sum.splits)
  also have "\<dots> \<longleftrightarrow> (\<exists>raw. raw_loads s = Some raw \<and> scan_ok raw \<and> v = raw_value raw)"
    using a by (auto simp: agrees_def raw_loads_def simp del: scan_once.simps raw_once.simps split: option.splits if_splits)
  finally show ?thesis .
qed

section \<open>Properties\<close>

text \<open>
  Property C26. Exactly what the strict reader accepts, within the nesting limit of the interpreter, which
  is not modelled. The reader answers with a value or a rejection, and it accepts a text (or bytes that
  are strict UTF-8) if and only if the text is a JSON document in which no object at any
  depth repeats a key, every number is written as the plain decimal of a safe unsigned integer (no sign,
  minus zero included, no fraction, no exponent), there is no null, NaN or infinity, and no text or key
  has a lone surrogate; the value is then the one the document denotes.
\<close>

theorem parsed_json_exact:
  "\<exists>m. parse_strict_json w = Some m \<and>
     (\<forall>v. m = Inr v \<longleftrightarrow>
        (\<exists>s raw. wire_text w = Inr s \<and> raw_loads s = Some raw \<and> raw_ok raw \<and> v = raw_value raw))"
proof (cases "wire_text w")
  case (Inl e)
  then show ?thesis by (simp add: parse_strict_json_def)
next
  case (Inr s)
  from json_loads_fuel [of s] obtain m where m: "json_loads s = Some m" by auto
  let ?m = "bind_res m (\<lambda>v. bind_res (validate_json_value v ''$'') (\<lambda>_. Inr v))"
  have "?m = Inr v \<longleftrightarrow> (\<exists>raw. raw_loads s = Some raw \<and> raw_ok raw \<and> v = raw_value raw)" for v
  proof -
    have "?m = Inr v \<longleftrightarrow> json_loads s = Some (Inr v) \<and> signable v"
      by (cases m) (auto simp: m validate_json_signable bind_unit_eq_Inr)
    then show ?thesis unfolding json_loads_agrees raw_ok_signable by blast
  qed
  moreover have "parse_strict_json w = Some ?m" by (simp add: parse_strict_json_def Inr m)
  ultimately show ?thesis using Inr by auto
qed

theorem parsed_json_exact_witness:
  "parse_strict_json (WText (json_source example_document)) = Some (Inr example_document) \<and>
   raw_loads [CHR ''{'', quote_char, CHR ''a'', quote_char, CHR '':'', CHR ''1'', CHR '','',
      quote_char, CHR ''a'', quote_char, CHR '':'', CHR ''2'', CHR ''}''] =
     Some (RawObject [(''a'', RawNumber ''1''), (''a'', RawNumber ''2'')]) \<and>
   (\<exists>e. parse_strict_json (WText [CHR ''{'', quote_char, CHR ''a'', quote_char, CHR '':'', CHR ''1'', CHR '','',
      quote_char, CHR ''a'', quote_char, CHR '':'', CHR ''2'', CHR ''}'']) = Some (Inl e))"
proof -
  let ?twice = "[CHR ''{'', quote_char, CHR ''a'', quote_char, CHR '':'', CHR ''1'', CHR '','',
      quote_char, CHR ''a'', quote_char, CHR '':'', CHR ''2'', CHR ''}'']"
  have doc: "map_option (\<lambda>raw. (raw_ok raw, raw_value raw)) (raw_loads (json_source example_document)) =
      Some (True, example_document)" by code_simp
  then have "parse_strict_json (WText (json_source example_document)) = Some (Inr example_document)"
    using parsed_json_exact [of "WText (json_source example_document)"] by (fastforce simp: wire_text_def)
  moreover have twice: "raw_loads ?twice = Some (RawObject [(''a'', RawNumber ''1''), (''a'', RawNumber ''2'')])"
    by code_simp
  moreover obtain m where m: "parse_strict_json (WText ?twice) = Some m"
      "\<And>v. m = Inr v \<Longrightarrow> raw_ok (RawObject [(''a'', RawNumber ''1''), (''a'', RawNumber ''2'')])"
    using parsed_json_exact [of "WText ?twice"] twice by (auto simp: wire_text_def)
  then have "\<exists>e. parse_strict_json (WText ?twice) = Some (Inl e)" by (cases m) auto
  ultimately show ?thesis by blast
qed

end
