(* ===== verification/Strptime.thy ===== *)
theory Strptime
  imports Py_Time
begin

text \<open>
  \<^verbatim>\<open>datetime.strptime\<close> with \<^verbatim>\<open>%Y-%m-%dT%H:%M:%SZ\<close> where no pattern has fixed the width of the fields
  before: every field but the year may have one digit, a day may start with a blank, and the letters
  match in either case. Texts of full width are read as \<open>strptime_utc\<close> reads them.
\<close>

datatype time_item = TLit char char | TDigit | TField | TDay

text \<open>One or two digits; a single one counts as if a zero stood before it.\<close>

definition take_field :: "string \<Rightarrow> ((nat \<times> bool) list \<times> string) option" where
  "take_field s =
     (case take_digit s of
        None \<Rightarrow> None
      | Some (v, a, r) \<Rightarrow>
          (case take_digit r of
             None \<Rightarrow> Some ([(0, True), (v, a)], r)
           | Some (w, b, r') \<Rightarrow> Some ([(v, a), (w, b)], r')))"

fun take_time_item :: "time_item \<Rightarrow> string \<Rightarrow> ((nat \<times> bool) list \<times> string) option" where
  "take_time_item (TLit c d) s =
     (case s of [] \<Rightarrow> None | e # r \<Rightarrow> if e = c \<or> e = d then Some ([], r) else None)"
| "take_time_item TDigit s = (case take_digit s of None \<Rightarrow> None | Some (v, a, r) \<Rightarrow> Some ([(v, a)], r))"
| "take_time_item TField s = take_field s"
| "take_time_item TDay s =
     (case s of
        [] \<Rightarrow> None
      | c # r \<Rightarrow>
          (if c = CHR '' '' then
             (case take_digit r of None \<Rightarrow> None | Some (v, a, r') \<Rightarrow> Some ([(0, True), (v, a)], r'))
           else take_field s))"

fun scan_time :: "time_item list \<Rightarrow> string \<Rightarrow> (nat \<times> bool) list option" where
  "scan_time [] s = (if s = [] then Some [] else None)"
| "scan_time (i # is) s =
     (case take_time_item i s of
        None \<Rightarrow> None
      | Some (ds, r) \<Rightarrow> (case scan_time is r of None \<Rightarrow> None | Some es \<Rightarrow> Some (ds @ es)))"

definition time_items :: "time_item list" where
  "time_items =
     [TDigit, TDigit, TDigit, TDigit, TLit (CHR ''-'') (CHR ''-''), TField, TLit (CHR ''-'') (CHR ''-''), TDay,
      TLit (CHR ''T'') (CHR ''t''), TField, TLit (CHR '':'') (CHR '':''), TField, TLit (CHR '':'') (CHR '':''), TField,
      TLit (CHR ''Z'') (CHR ''z'')]"

definition strptime_any :: "string \<Rightarrow> int option" where
  "strptime_any s = Option.bind (scan_time time_items s) strptime_fields"

text \<open>A pattern of full width is a special case.\<close>

fun widen :: "time_item list \<Rightarrow> char option list" where
  "widen [] = []"
| "widen (TLit c d # is) = Some c # widen is"
| "widen (TDigit # is) = None # widen is"
| "widen (TField # is) = None # None # widen is"
| "widen (TDay # is) = None # None # widen is"

lemma take_unicode_digit_other:
  "list_all (\<lambda>(pre, base). pre \<noteq> [] \<and> hd pre \<noteq> of_char c) bs \<Longrightarrow> take_unicode_digit bs (c # r) = None"
proof (induction bs)
  case (Cons b bs)
  obtain pre base where b: "b = (pre, base)" by (cases b)
  with Cons.prems have "map of_char (take (length pre) (c # r)) \<noteq> pre" by (cases pre) auto
  with Cons b show ?case by (auto split: list.splits)
qed simp

lemma take_digit_blank: "take_digit (CHR '' '' # r) = None"
proof -
  have "list_all (\<lambda>(pre, base). pre \<noteq> [] \<and> hd pre \<noteq> of_char (CHR '' '')) digit_blocks" by code_simp
  from take_unicode_digit_other [OF this] show ?thesis by (simp add: is_digit_def)
qed

lemma scan_widen: "scan (widen is) s = Some ds \<Longrightarrow> scan_time is s = Some ds"
proof (induction "is" arbitrary: s ds rule: widen.induct)
  case (2 c d "is")
  then show ?case by (auto split: list.splits if_splits)
next
  case (3 "is")
  then show ?case by (auto split: option.splits)
next
  case (4 "is")
  then show ?case by (auto simp: take_field_def split: option.splits)
next
  case (5 "is")
  then obtain c r where s: "s = c # r" by (cases s) auto
  with 5 have "c \<noteq> CHR '' ''" using take_digit_blank by (auto split: option.splits)
  with 5 s show ?case by (auto simp: take_field_def simp del: take_digit.simps split: option.splits)
qed simp

lemma strptime_any_full: "strptime_utc s = Some t \<Longrightarrow> strptime_any s = Some t"
proof -
  have "widen time_items = timestamp_pattern" by (simp add: time_items_def timestamp_pattern_def)
  then show "strptime_utc s = Some t \<Longrightarrow> strptime_any s = Some t"
    using scan_widen [of time_items s]
    by (auto simp: strptime_utc_def strptime_any_def bind_eq_Some_conv)
qed

lemma strptime_any_strftime: "four_digit_year us \<Longrightarrow> strptime_any (strftime_utc us) = Some (to_seconds us)"
  by (rule strptime_any_full [OF strptime_strftime])

lemma strftime_ascii: "four_digit_year us \<Longrightarrow> \<not> has_surrogate (strftime_utc us)"
proof
  assume y: "four_digit_year us" and "has_surrogate (strftime_utc us)"
  then obtain c where c: "c \<in> set (strftime_utc us)" "of_char c = (237::nat)" using has_surrogate_char by blast
  obtain yy m d where e: "ord2ymd (us div 1000000 div 86400) = (yy, m, d)" "1000 \<le> yy" "valid_date yy m d"
    using strftime_components [OF y] by metis
  then have v: "1 \<le> m" "m \<le> 12" "1 \<le> d" "d \<le> 31" using days_in_month_le [of m yy] by (auto simp: valid_date_def)
  have digits: "(of_char x :: nat) < 128" if "x \<in> set (pad2 n)" "0 \<le> n" "n \<le> 99" for x n
    using that pad2_digits [of n] by (auto simp: pad2_def)
  have year: "(of_char x :: nat) < 128" if "x \<in> set (str_int yy)" for x
    using that e(2) dec_nat_digits [of "nat yy"] by (auto simp: list_all_iff is_digit_def)
  let ?s = "us div 1000000"
  have "c \<in> set (str_int yy) \<union> set (pad2 m) \<union> set (pad2 d) \<union> set (pad2 (?s div 3600 mod 24)) \<union>
      set (pad2 (?s div 60 mod 60)) \<union> set (pad2 (?s mod 60)) \<union> set ''-T:Z''"
    using c(1) by (simp add: strftime_utc_def Let_def e(1))
  moreover have "x mod 24 \<le> 99" "x mod 60 \<le> 99" "0 \<le> x mod 24" "0 \<le> x mod 60" for x :: int
    using pos_mod_bound [of 24 x] pos_mod_bound [of 60 x] by simp_all
  moreover have "c \<notin> set ''-T:Z''" using c(2) by auto
  ultimately have "(of_char c :: nat) < 128" using year digits v by (elim UnE) simp_all
  with c(2) show False by simp
qed

end
