(* ===== verification/Linked_Log.thy ===== *)
theory Linked_Log
  imports Tables
begin

text \<open>
  Event logs without numbers of their own per owner: every event of an owner carries the digest of the
  event before it, the first one the genesis text. \<open>linked_log\<close> is the interface of an append that reads
  the newest event of the owner; its facts are that the log of every owner stays linked.
\<close>

fun links_from :: "('e \<Rightarrow> 'h) \<Rightarrow> ('e \<Rightarrow> 'h) \<Rightarrow> 'h \<Rightarrow> 'e list \<Rightarrow> bool" where
  "links_from pv dg h [] = True"
| "links_from pv dg h (e # es) = (pv e = h \<and> links_from pv dg (dg e) es)"

lemma linked_snoc:
  "links_from pv dg h (es @ [e]) \<longleftrightarrow> links_from pv dg h es \<and> pv e = (if es = [] then h else dg (last es))"
  by (induction es arbitrary: h) auto

locale linked_log = chained_log sq pv dg genesis newest
  for sq :: "'e \<Rightarrow> int" and pv dg :: "'e \<Rightarrow> 'h" and genesis :: 'h and newest :: "'e list \<Rightarrow> 'e option" +
  fixes owner :: "'e \<Rightarrow> 'k"
begin

lemma newest_last:
  "sorted_wrt (\<lambda>a b. sq a < sq b) es \<Longrightarrow> newest es = (if es = [] then None else Some (last es))"
  by (cases es rule: rev_cases) (auto simp: newest_Nil newest_snoc sorted_wrt_append)

lemma linked_append:
  assumes "sorted_wrt (\<lambda>a b. sq a < sq b) es" "\<And>k. links_from pv dg genesis (filter (\<lambda>x. owner x = k) es)"
    and "pv e = (case newest (filter (\<lambda>x. owner x = owner e) es) of None \<Rightarrow> genesis | Some p \<Rightarrow> dg p)"
  shows "links_from pv dg genesis (filter (\<lambda>x. owner x = k) (es @ [e]))"
proof (cases "k = owner e")
  case True
  have "sorted_wrt (\<lambda>a b. sq a < sq b) (filter (\<lambda>x. owner x = k) es)"
    using assms(1) by (rule sorted_wrt_filter)
  from newest_last [OF this] show ?thesis
    using assms(2) [of k] assms(3) True by (simp add: linked_snoc split: if_splits)
qed (use assms(2) in simp)

lemma sorted_append:
  assumes "sorted_wrt (\<lambda>a b. sq a < sq b) es" "\<forall>x\<in>set es. sq x < sq e"
  shows "sorted_wrt (\<lambda>a b. sq a < sq b) (es @ [e])"
  using assms by (simp add: sorted_wrt_append)

text \<open>Reading an owner's events in the order of their numbers is reading them in the order they were added.\<close>

lemma read_in_order:
  assumes "sorted_wrt (\<lambda>a b. sq a < sq b) es"
  shows "sort_key sq (filter P es) = filter P es"
proof -
  have "sorted_wrt (\<lambda>a b. sq a < sq b) (filter P es)" using assms by (rule sorted_wrt_filter)
  then have "sorted (map sq (filter P es))" by (simp add: sorted_map sorted_wrt_mono_rel [of _ "\<lambda>a b. sq a < sq b"])
  then show ?thesis by (rule sort_key_id_if_sorted)
qed

end

lemma newest_by_linked: "linked_log sq (newest_by sq)"
  using newest_by_log [of sq] by (simp add: keyed_log_def linked_log_def)

end
