(* ===== verification/Failure_Lab.thy ===== *)
theory Failure_Lab
  imports Exec_Checks Strptime Linked_Log
begin

text \<open>
  \<^verbatim>\<open>services/failure_lab/lab.py\<close>: a simulated chain with transport failures (\<^verbatim>\<open>SimulatedChain\<close>) and the
  journal that drives one broadcast per execution through it (\<^verbatim>\<open>DurableExecutionLab\<close>), with its two
  tables. An operation that commits more than one transaction is given by its parts, so that a process
  may stop between them. The four exception classes are codes of one; the text of
  \<^verbatim>\<open>BroadcastOutcomeUnknown\<close>, which the journal records, is kept.
\<close>

definition lab_error :: "string \<Rightarrow> string \<Rightarrow> exn" where
  "lab_error subclass message = Exn FailureLabError subclass message"

abbreviation lab_invalid :: exn where
  "lab_invalid \<equiv> lab_error ''FailureLabInvalid'' []"

section \<open>The simulated chain\<close>

datatype observation_state = ObserveAvailable | ObserveUnavailable | ObserveUnknown

datatype broadcast_mode = ModeSuccess | ModeResponseLost | ModeUnavailable | ModeUnknown

datatype chain_answer = AnsConfirmed | AnsNotFound | AnsUnknown | AnsUnavailable

record sim_chain =
  chain_effects :: "(string \<times> string option) list"
  chain_calls :: nat
  observation_mode :: observation_state

definition sim_chain_init :: sim_chain where
  "sim_chain_init = \<lparr>chain_effects = [], chain_calls = 0, observation_mode = ObserveAvailable\<rparr>"

definition opt_text :: "string option \<Rightarrow> pyval" where
  "opt_text v = (case v of None \<Rightarrow> PNone | Some s \<Rightarrow> PStr s)"

definition broadcast :: "string option \<Rightarrow> string \<Rightarrow> broadcast_mode \<Rightarrow> sim_chain \<Rightarrow> sim_chain \<times> pydict res" where
  "broadcast signature obligation_id mode c =
     (let c1 = c\<lparr>chain_calls := chain_calls c + 1\<rparr> in
      case mode of
        ModeUnavailable \<Rightarrow> (c1, Inl (lab_error ''BroadcastUnavailable'' []))
      | ModeUnknown \<Rightarrow> (c1, Inl (lab_error ''BroadcastOutcomeUnknown'' ''broadcast outcome is unknown''))
      | _ \<Rightarrow>
          (let previous = (case map_of (chain_effects c) obligation_id of Some p \<Rightarrow> p | None \<Rightarrow> signature);
               c2 = (case map_of (chain_effects c) obligation_id of
                       Some p \<Rightarrow> c1
                     | None \<Rightarrow> c1\<lparr>chain_effects := chain_effects c @ [(obligation_id, signature)]\<rparr>)
           in if previous \<noteq> signature then (c2, Inl lab_invalid)
              else if mode = ModeResponseLost
                then (c2, Inl (lab_error ''BroadcastOutcomeUnknown'' ''response lost after accepted broadcast''))
              else (c2, Inr [(KStr ''signature'', opt_text signature),
                     (KStr ''confirmation_status'', PStr ''confirmed''), (KStr ''slot'', PInt 1)])))"

definition observe :: "string option \<Rightarrow> sim_chain \<Rightarrow> chain_answer" where
  "observe signature c =
     (case observation_mode c of
        ObserveUnavailable \<Rightarrow> AnsUnavailable
      | ObserveUnknown \<Rightarrow> AnsUnknown
      | ObserveAvailable \<Rightarrow>
          (if List.member (map snd (chain_effects c)) signature then AnsConfirmed else AnsNotFound))"

definition effect_count :: "string \<Rightarrow> sim_chain \<Rightarrow> int" where
  "effect_count obligation_id c = (if map_of (chain_effects c) obligation_id = None then 0 else 1)"

section \<open>The journal\<close>

datatype lab_state =
    LabAuthorized
  | LabSigned
  | LabInFlight
  | LabConfirmed
  | LabNeedsRecovery
  | LabFailedKnown
  | LabExpired

record lab_row =
  lx_id :: string
  lx_obligation :: string
  lx_message_hash :: string
  lx_valid_until :: string
  lx_state :: lab_state
  lx_signature :: "string option"
  lx_signed_hash :: "string option"
  lx_broadcasts :: int
  lx_recoveries :: int
  lx_created_at :: string
  lx_updated_at :: string

record lab_event =
  le_sequence :: int
  le_owner :: string
  le_type :: string
  le_payload :: pyval
  le_previous :: string
  le_hash :: string
  le_recorded_at :: string

record lab_db =
  lab_rows :: "lab_row list"
  lab_events :: "lab_event list"

definition lab_db_init :: lab_db where
  "lab_db_init = \<lparr>lab_rows = [], lab_events = []\<rparr>"

text \<open>A text bound to a statement: one that UTF-8 cannot encode is refused by the driver.\<close>

definition bind_text :: "string \<Rightarrow> unit res" where
  "bind_text s = reject_if (has_surrogate s) (PyRaise ''UnicodeEncodeError'')"

definition lab_timestamp :: "py_datetime \<Rightarrow> string res" where
  "lab_timestamp t = bind_res (aware_instant t) (\<lambda>us. Inr (strftime_utc us))"

definition event_body :: "string \<Rightarrow> string \<Rightarrow> pyval \<Rightarrow> string \<Rightarrow> string \<Rightarrow> pyval" where
  "event_body owner event_type payload previous recorded_at = PDict
     [(KStr ''execution_request_id'', PStr owner), (KStr ''event_type'', PStr event_type),
      (KStr ''payload'', payload), (KStr ''previous_hash'', PStr previous), (KStr ''recorded_at'', PStr recorded_at)]"

definition lab_append_event ::
  "serializer \<Rightarrow> string \<Rightarrow> string \<Rightarrow> pydict \<Rightarrow> string \<Rightarrow> lab_event list \<Rightarrow> lab_event list res" where
  "lab_append_event jcs owner event_type payload recorded_at es =
     (let previous = (case newest_by le_sequence (filter (\<lambda>e. le_owner e = owner) es) of
                        None \<Rightarrow> ''genesis'' | Some e \<Rightarrow> le_hash e)
      in bind_res (canonicalize jcs (event_body owner event_type (PDict payload) previous recorded_at)) (\<lambda>b.
         bind_res (json_dumps True (PDict payload)) (\<lambda>stored.
         Inr (es @ [\<lparr>le_sequence = int (length es) + 1, le_owner = owner, le_type = event_type,
           le_payload = stored, le_previous = previous, le_hash = sha256_digest b,
           le_recorded_at = recorded_at\<rparr>]))))"

definition require_execution :: "string \<Rightarrow> lab_db \<Rightarrow> lab_row res" where
  "require_execution rid db =
     bind_res (bind_text rid) (\<lambda>_.
     case select_row lx_id (lab_rows db) rid of None \<Rightarrow> Inl lab_invalid | Some row \<Rightarrow> Inr row)"

text \<open>An UPDATE of the row of one execution followed by an event.\<close>

definition lab_write ::
  "serializer \<Rightarrow> string \<Rightarrow> (lab_row \<Rightarrow> lab_row) \<Rightarrow> string \<Rightarrow> pydict \<Rightarrow> string \<Rightarrow> lab_db \<Rightarrow> lab_db res" where
  "lab_write jcs rid f event_type payload timestamp db =
     bind_res (lab_append_event jcs rid event_type payload timestamp (lab_events db)) (\<lambda>es.
     Inr (db\<lparr>lab_rows := update_row lx_id rid (\<lambda>r. (f r)\<lparr>lx_updated_at := timestamp\<rparr>) (lab_rows db), lab_events := es\<rparr>))"

definition lab_register ::
  "serializer \<Rightarrow> string \<Rightarrow> string \<Rightarrow> string \<Rightarrow> py_datetime \<Rightarrow> py_datetime \<Rightarrow> lab_db \<Rightarrow> lab_db \<times> unit res" where
  "lab_register jcs rid obligation message_hash valid_until now db =
     transaction db
       (bind_res (lab_timestamp now) (\<lambda>timestamp.
        bind_res (bind_text obligation) (\<lambda>_.
        bind_res (reject_if (select_row lx_obligation (lab_rows db) obligation \<noteq> None) lab_invalid) (\<lambda>_.
        bind_res (lab_timestamp valid_until) (\<lambda>until.
        bind_res (run_all [bind_text rid, bind_text message_hash]) (\<lambda>_.
        bind_res (reject_if (select_row lx_id (lab_rows db) rid \<noteq> None) (PyRaise ''IntegrityError'')) (\<lambda>_.
        bind_res (lab_append_event jcs rid ''execution_registered''
          [(KStr ''message_hash'', PStr message_hash), (KStr ''obligation_id'', PStr obligation)] timestamp
          (lab_events db)) (\<lambda>es.
        Inr (db\<lparr>lab_rows := insert_row
               \<lparr>lx_id = rid, lx_obligation = obligation, lx_message_hash = message_hash, lx_valid_until = until,
                lx_state = LabAuthorized, lx_signature = None, lx_signed_hash = None, lx_broadcasts = 0,
                lx_recoveries = 0, lx_created_at = timestamp, lx_updated_at = timestamp\<rparr> (lab_rows db),
               lab_events := es\<rparr>, ())))))))))"

definition persist_signature_tx ::
  "serializer \<Rightarrow> string \<Rightarrow> string \<Rightarrow> string \<Rightarrow> string \<Rightarrow> lab_db \<Rightarrow> (lab_db \<times> unit) res" where
  "persist_signature_tx jcs rid signature signed_hash timestamp db =
     bind_res (require_execution rid db) (\<lambda>row.
     if lx_state row = LabSigned then
       (if lx_signature row = Some signature \<and> lx_signed_hash row = Some signed_hash then Inr (db, ())
        else Inl lab_invalid)
     else if lx_state row \<noteq> LabAuthorized then Inl lab_invalid
     else
       bind_res (run_all [bind_text signature, bind_text signed_hash]) (\<lambda>_.
       bind_res (lab_write jcs rid
         (\<lambda>r. r\<lparr>lx_state := LabSigned, lx_signature := Some signature, lx_signed_hash := Some signed_hash\<rparr>)
         ''signature_persisted''
         [(KStr ''signature'', PStr signature), (KStr ''signed_transaction_hash'', PStr signed_hash)] timestamp db) (\<lambda>db'.
       Inr (db', ()))))"

definition persist_signature ::
  "serializer \<Rightarrow> string \<Rightarrow> string \<Rightarrow> string \<Rightarrow> py_datetime \<Rightarrow> string option \<Rightarrow> lab_db \<Rightarrow> lab_db \<times> unit res" where
  "persist_signature jcs rid signature signed_hash now fault db =
     (case fault of
        Some f \<Rightarrow>
          (db, Inl (if f = ''before_signature_persist'' then lab_error ''InjectedCrash'' [] else PyRaise ''ValueError''))
      | None \<Rightarrow>
          transaction db
            (bind_res (lab_timestamp now) (\<lambda>timestamp.
             persist_signature_tx jcs rid signature signed_hash timestamp db)))"

section \<open>Broadcasting\<close>

text \<open>The first transaction of \<^verbatim>\<open>execute\<close>: the row as it was read, and whether its blockhash had expired.\<close>

definition execute_intent_tx ::
  "serializer \<Rightarrow> string \<Rightarrow> py_datetime \<Rightarrow> lab_db \<Rightarrow> (lab_db \<times> lab_row \<times> bool) res" where
  "execute_intent_tx jcs rid now db =
     bind_res (lab_timestamp now) (\<lambda>timestamp.
     bind_res (require_execution rid db) (\<lambda>row.
     bind_res (reject_if (lx_state row \<noteq> LabSigned) lab_invalid) (\<lambda>_.
     case strptime_any (lx_valid_until row) of
       None \<Rightarrow> Inl lab_invalid
     | Some valid_until \<Rightarrow>
         (if valid_until \<le> instant now then
            bind_res (lab_write jcs rid (\<lambda>r. r\<lparr>lx_state := LabExpired\<rparr>) ''blockhash_expired_before_broadcast''
              [(KStr ''broadcast_count'', PInt (lx_broadcasts row))] timestamp db) (\<lambda>db'.
            Inr (db', row, True))
          else
            bind_res (lab_write jcs rid
              (\<lambda>r. r\<lparr>lx_state := LabInFlight, lx_broadcasts := lx_broadcasts r + 1\<rparr>) ''broadcast_intent_persisted''
              [(KStr ''attempt'', PInt (lx_broadcasts row + 1)), (KStr ''signature'', opt_text (lx_signature row))]
              timestamp db) (\<lambda>db'.
            Inr (db', row, False))))))"

definition lab_transition ::
  "serializer \<Rightarrow> string \<Rightarrow> lab_state \<Rightarrow> lab_state \<Rightarrow> string \<Rightarrow> pydict \<Rightarrow> py_datetime \<Rightarrow> lab_db \<Rightarrow>
   lab_db \<times> unit res" where
  "lab_transition jcs rid from_state to_state event_type payload now db =
     transaction db
       (bind_res (lab_timestamp now) (\<lambda>timestamp.
        bind_res (require_execution rid db) (\<lambda>row.
        bind_res (reject_if (lx_state row \<noteq> from_state) lab_invalid) (\<lambda>_.
        bind_res (lab_write jcs rid (\<lambda>r. r\<lparr>lx_state := to_state\<rparr>) event_type payload timestamp db) (\<lambda>db'.
        Inr (db', ()))))))"

definition lab_mark_needs_recovery ::
  "serializer \<Rightarrow> string \<Rightarrow> py_datetime \<Rightarrow> string \<Rightarrow> lab_db \<Rightarrow> lab_db \<times> unit res" where
  "lab_mark_needs_recovery jcs rid now reason db =
     lab_transition jcs rid LabInFlight LabNeedsRecovery ''broadcast_outcome_unknown''
       [(KStr ''reason'', PStr reason)] now db"

text \<open>A handler that records something and then raises: the failure to record replaces the exception.\<close>

definition then_raise :: "lab_db \<times> unit res \<Rightarrow> exn \<Rightarrow> lab_db \<times> 'a res" where
  "then_raise m e = (fst m, Inl (case snd m of Inl e' \<Rightarrow> e' | Inr _ \<Rightarrow> e))"

text \<open>What \<^verbatim>\<open>execute\<close> records once the transport has answered.\<close>

definition execute_outcome ::
  "serializer \<Rightarrow> string \<Rightarrow> lab_row \<Rightarrow> pydict res \<Rightarrow> py_datetime \<Rightarrow> lab_db \<Rightarrow> lab_db \<times> pydict res" where
  "execute_outcome jcs rid row outcome now db =
     (case outcome of
        Inr receipt \<Rightarrow>
          (let m = lab_transition jcs rid LabInFlight LabConfirmed ''broadcast_confirmed''
                 [(KStr ''attempt'', PInt (lx_broadcasts row + 1)), (KStr ''signature'', item receipt ''signature''),
                  (KStr ''slot'', item receipt ''slot'')] now db
           in (fst m, bind_res (snd m) (\<lambda>_. Inr receipt)))
      | Inl e \<Rightarrow>
          (if exn_code e = ''BroadcastUnavailable'' then
             then_raise (lab_transition jcs rid LabInFlight LabFailedKnown ''broadcast_rejected_before_acceptance''
               [(KStr ''attempt'', PInt (lx_broadcasts row + 1))] now db) e
           else if exn_code e = ''BroadcastOutcomeUnknown'' then
             then_raise (lab_mark_needs_recovery jcs rid now (case e of Exn c s m \<Rightarrow> m | _ \<Rightarrow> []) db) e
           else (db, Inl e)))"

definition lab_execute ::
  "serializer \<Rightarrow> string \<Rightarrow> py_datetime \<Rightarrow> broadcast_mode \<Rightarrow> string option \<Rightarrow> lab_db \<times> sim_chain \<Rightarrow>
   (lab_db \<times> sim_chain) \<times> pydict res" where
  "lab_execute jcs rid now mode fault = (\<lambda>(db, c).
     if fault \<noteq> None \<and> fault \<noteq> Some ''after_broadcast_intent_before_call'' then ((db, c), Inl (PyRaise ''ValueError''))
     else case transaction db (execute_intent_tx jcs rid now db) of
       (db1, Inl e) \<Rightarrow> ((db1, c), Inl e)
     | (db1, Inr (row, True)) \<Rightarrow> ((db1, c), Inl lab_invalid)
     | (db1, Inr (row, False)) \<Rightarrow>
         (if fault \<noteq> None then
            (let m = then_raise (lab_mark_needs_recovery jcs rid now ''process_crash_after_broadcast_intent'' db1)
                   (lab_error ''InjectedCrash'' [])
             in ((fst m, c), snd m))
          else
            (let (c1, outcome) = broadcast (lx_signature row) (lx_obligation row) mode c;
                 m = execute_outcome jcs rid row outcome now db1
             in ((fst m, c1), snd m))))"

section \<open>Recovery and evidence\<close>

definition recovery_result :: "lab_row \<Rightarrow> string \<Rightarrow> string \<Rightarrow> pydict" where
  "recovery_result row outcome observed_at =
     [(KStr ''type'', PStr ''recovery_result''), (KStr ''protocol_version'', PStr ''1.0.0''),
      (KStr ''execution_request_id'', PStr (lx_id row)), (KStr ''outcome'', PStr outcome),
      (KStr ''may_rematerialize'', PBool False), (KStr ''broadcast_count'', PInt (lx_broadcasts row)),
      (KStr ''observed_at'', PStr observed_at)]"

text \<open>The first transaction of \<^verbatim>\<open>recover\<close>: it counts the attempt unless the row is confirmed.\<close>

definition recover_begin_tx ::
  "string \<Rightarrow> string \<Rightarrow> lab_db \<Rightarrow> (lab_db \<times> lab_row) res" where
  "recover_begin_tx rid timestamp db =
     bind_res (require_execution rid db) (\<lambda>row.
     if lx_state row = LabConfirmed then Inr (db, row)
     else if lx_state row \<noteq> LabNeedsRecovery then Inl lab_invalid
     else Inr (db\<lparr>lab_rows := update_row lx_id rid
            (\<lambda>r. r\<lparr>lx_recoveries := lx_recoveries r + 1, lx_updated_at := timestamp\<rparr>) (lab_rows db)\<rparr>, row))"

definition observation_text :: "chain_answer \<Rightarrow> string" where
  "observation_text a = (case a of AnsConfirmed \<Rightarrow> ''confirmed'' | AnsNotFound \<Rightarrow> ''not_found'' | AnsUnknown \<Rightarrow> ''unknown''
     | AnsUnavailable \<Rightarrow> ''unavailable'')"

definition lab_status :: "string \<Rightarrow> lab_db \<Rightarrow> lab_row res" where
  "lab_status rid db = require_execution rid db"

definition recover_record ::
  "serializer \<Rightarrow> string \<Rightarrow> lab_row \<Rightarrow> chain_answer \<Rightarrow> string \<Rightarrow> py_datetime \<Rightarrow> lab_db \<Rightarrow> lab_db \<times> pydict res" where
  "recover_record jcs rid row answer timestamp now db =
     (let m = (if answer = AnsConfirmed
               then lab_transition jcs rid LabNeedsRecovery LabConfirmed ''recovery_confirmed_signature''
                 [(KStr ''signature'', opt_text (lx_signature row))] now db
               else transaction db
                 (bind_res (lab_append_event jcs rid
                    (if answer = AnsUnavailable then ''recovery_source_unavailable'' else ''recovery_outcome_still_unknown'')
                    [(KStr ''observation'', PStr (observation_text answer))] timestamp (lab_events db)) (\<lambda>es.
                  Inr (db\<lparr>lab_events := es\<rparr>, ()))))
      in (fst m, bind_res (snd m) (\<lambda>_.
           bind_res (lab_status rid (fst m)) (\<lambda>refreshed.
           Inr (recovery_result refreshed (if answer = AnsConfirmed then ''confirmed'' else ''needs_recovery'') timestamp)))))"

definition lab_recover ::
  "serializer \<Rightarrow> string \<Rightarrow> py_datetime \<Rightarrow> lab_db \<times> sim_chain \<Rightarrow> (lab_db \<times> sim_chain) \<times> pydict res" where
  "lab_recover jcs rid now = (\<lambda>(db, c).
     case lab_timestamp now of
       Inl e \<Rightarrow> ((db, c), Inl e)
     | Inr timestamp \<Rightarrow>
         (case transaction db (recover_begin_tx rid timestamp db) of
            (db1, Inl e) \<Rightarrow> ((db1, c), Inl e)
          | (db1, Inr row) \<Rightarrow>
              (if lx_state row = LabConfirmed then ((db1, c), Inr (recovery_result row ''confirmed'' timestamp))
               else
                 (let m = recover_record jcs rid row (observe (lx_signature row) c) timestamp now db1
                  in ((fst m, c), snd m)))))"

fun verify_event_chain :: "serializer \<Rightarrow> string \<Rightarrow> string \<Rightarrow> lab_event list \<Rightarrow> unit res" where
  "verify_event_chain jcs rid previous [] = Inr ()"
| "verify_event_chain jcs rid previous (e # es) =
     bind_res (reject_if (le_previous e \<noteq> previous) lab_invalid) (\<lambda>_.
     bind_res (canonicalize jcs (event_body rid (le_type e) (le_payload e) (le_previous e) (le_recorded_at e))) (\<lambda>b.
     bind_res (reject_if (sha256_digest b \<noteq> le_hash e) lab_invalid) (\<lambda>_.
     verify_event_chain jcs rid (le_hash e) es)))"

definition event_dict :: "lab_event \<Rightarrow> pyval" where
  "event_dict e = PDict
     [(KStr ''sequence'', PInt (le_sequence e)), (KStr ''event_type'', PStr (le_type e)),
      (KStr ''payload'', le_payload e), (KStr ''previous_hash'', PStr (le_previous e)),
      (KStr ''event_hash'', PStr (le_hash e)), (KStr ''recorded_at'', PStr (le_recorded_at e))]"

definition lab_state_text :: "lab_state \<Rightarrow> string" where
  "lab_state_text s =
     (case s of LabAuthorized \<Rightarrow> ''authorized'' | LabSigned \<Rightarrow> ''signed'' | LabInFlight \<Rightarrow> ''broadcast_in_flight''
      | LabConfirmed \<Rightarrow> ''confirmed'' | LabNeedsRecovery \<Rightarrow> ''needs_recovery''
      | LabFailedKnown \<Rightarrow> ''broadcast_failed_known'' | LabExpired \<Rightarrow> ''expired_requires_new_prepare'')"

definition may_rematerialize :: "lab_state \<Rightarrow> bool" where
  "may_rematerialize s \<longleftrightarrow> List.member [LabAuthorized, LabSigned, LabFailedKnown, LabExpired] s"

definition lab_evidence :: "serializer \<Rightarrow> string \<Rightarrow> string \<Rightarrow> int \<Rightarrow> lab_db \<Rightarrow> pydict res" where
  "lab_evidence jcs rid scenario economic_effect_count db =
     bind_res (lab_status rid db) (\<lambda>row.
     let es = sort_key le_sequence (filter (\<lambda>e. le_owner e = rid) (lab_events db)) in
     bind_res (verify_event_chain jcs rid ''genesis'' es) (\<lambda>_.
     bind_res (reject_if (es = []) (PyRaise ''IndexError'')) (\<lambda>_.
     Inr [(KStr ''type'', PStr ''failure_scenario_evidence''), (KStr ''protocol_version'', PStr ''1.0.0''),
       (KStr ''scenario'', PStr scenario), (KStr ''execution_request_id'', PStr rid),
       (KStr ''obligation_id'', PStr (lx_obligation row)), (KStr ''final_state'', PStr (lab_state_text (lx_state row))),
       (KStr ''signature_persisted'', PBool (lx_signature row \<noteq> None)),
       (KStr ''broadcast_count'', PInt (lx_broadcasts row)), (KStr ''recovery_count'', PInt (lx_recoveries row)),
       (KStr ''economic_effect_count'', PInt economic_effect_count),
       (KStr ''may_rematerialize'', PBool (may_rematerialize (lx_state row))),
       (KStr ''event_chain_head'', PStr (le_hash (last es))), (KStr ''events'', PList (map event_dict es))])))"

text \<open>
  What the laboratory and its chain can do, an operation at a time; a process may stop after the intent
  is durable, after the transport has answered, or after a recovery attempt is counted.
\<close>

inductive lab_step :: "serializer \<Rightarrow> lab_db \<times> sim_chain \<Rightarrow> lab_db \<times> sim_chain \<Rightarrow> bool" for jcs where
  register: "lab_step jcs (db, c) (fst (lab_register jcs rid obligation message_hash valid_until now db), c)"
| persist: "lab_step jcs (db, c) (fst (persist_signature jcs rid signature signed_hash now fault db), c)"
| execute: "lab_step jcs s (fst (lab_execute jcs rid now mode fault s))"
| stop_after_intent: "lab_step jcs (db, c) (fst (transaction db (execute_intent_tx jcs rid now db)), c)"
| stop_after_broadcast: "transaction db (execute_intent_tx jcs rid now db) = (db1, Inr (row, False)) \<Longrightarrow>
    lab_step jcs (db, c) (db1, fst (broadcast (lx_signature row) (lx_obligation row) mode c))"
| recover: "lab_step jcs s (fst (lab_recover jcs rid now s))"
| stop_in_recovery: "lab_step jcs (db, c) (fst (transaction db (recover_begin_tx rid timestamp db)), c)"
| observation: "lab_step jcs (db, c) (db, c\<lparr>observation_mode := m\<rparr>)"

end
