(* ===== verification/Failure_Lab_Facts.thy ===== *)
theory Failure_Lab_Facts
  imports Failure_Lab
begin

text \<open>
  The invariant of the failure laboratory: how far an execution has come, how often it was broadcast
  and what the chain shows for its obligation agree, and the events of every execution are linked.
\<close>

section \<open>Rows and the chain\<close>

definition effect_of :: "sim_chain \<Rightarrow> string \<Rightarrow> string option option" where
  "effect_of c ob = map_of (chain_effects c) ob"

definition own_effect :: "sim_chain \<Rightarrow> lab_row \<Rightarrow> bool" where
  "own_effect c r \<longleftrightarrow> effect_of c (lx_obligation r) = None \<or> effect_of c (lx_obligation r) = Some (lx_signature r)"

definition signed_row :: "lab_row \<Rightarrow> bool" where
  "signed_row r \<longleftrightarrow> (\<exists>s. lx_signature r = Some s \<and> \<not> has_surrogate s)"

lemma signed_row_update [simp]:
  "signed_row (r\<lparr>lx_updated_at := t\<rparr>) = signed_row r" "signed_row (r\<lparr>lx_state := st\<rparr>) = signed_row r"
  "signed_row (r\<lparr>lx_broadcasts := n\<rparr>) = signed_row r" "signed_row (r\<lparr>lx_recoveries := n\<rparr>) = signed_row r"
  by (simp_all add: signed_row_def)

definition lab_row_ok :: "sim_chain \<Rightarrow> lab_row \<Rightarrow> bool" where
  "lab_row_ok c r \<longleftrightarrow> (lx_state r \<noteq> LabAuthorized \<longrightarrow> signed_row r) \<and>
     (case lx_state r of
        LabInFlight \<Rightarrow> lx_broadcasts r = 1 \<and> own_effect c r
      | LabNeedsRecovery \<Rightarrow> lx_broadcasts r = 1 \<and> own_effect c r
      | LabConfirmed \<Rightarrow> lx_broadcasts r = 1 \<and> own_effect c r \<and> lx_signature r \<in> snd ` set (chain_effects c)
      | LabFailedKnown \<Rightarrow> lx_broadcasts r = 1 \<and> effect_of c (lx_obligation r) = None
      | _ \<Rightarrow> lx_broadcasts r = 0 \<and> effect_of c (lx_obligation r) = None)"

text \<open>\<open>k\<close> is the number of broadcasts that are recorded but not yet made.\<close>

definition lab_rows_ok :: "int \<Rightarrow> lab_row list \<Rightarrow> sim_chain \<Rightarrow> bool" where
  "lab_rows_ok k rows c \<longleftrightarrow>
     distinct (map lx_id rows) \<and> distinct (map lx_obligation rows) \<and> (\<forall>r\<in>set rows. lab_row_ok c r) \<and>
     fst ` set (chain_effects c) \<subseteq> lx_obligation ` set rows \<and>
     int (chain_calls c) + k \<le> sum_list (map lx_broadcasts rows)"

interpretation lab_table: keyed_table lx_id "select_row lx_id" insert_row "update_row lx_id"
  by (rule keyed_rows)

lemma sum_update_row:
  assumes "distinct (map key rows)" "select_row key rows k = Some row"
  shows "sum_list (map g (update_row key k f rows)) = sum_list (map g rows) + (g (f row) - g row :: int)"
  using assms
proof (induction rows)
  case (Cons r rows)
  show ?case
  proof (cases "key r = k")
    case True
    with Cons.prems have r: "row = r" by (simp add: select_row_def)
    have "\<forall>x\<in>set rows. key x \<noteq> k" using Cons.prems(1) True by (metis distinct.simps(2) image_eqI list.simps(9) set_map)
    then have "update_row key k f rows = rows" by (simp add: update_row_def map_idI)
    with True r show ?thesis by (simp add: update_row_def)
  next
    case False
    with Cons show ?thesis by (simp add: select_row_def update_row_def)
  qed
qed (simp add: select_row_def)

text \<open>One row changes, and the chain shows a change for that row's obligation at most.\<close>

lemma lab_rows_moved:
  assumes ok: "lab_rows_ok k rows c" and row: "select_row lx_id rows rid = Some row"
    and f: "\<And>r. lx_id (f r) = lx_id r" "\<And>r. lx_obligation (f r) = lx_obligation r" "lab_row_ok c' (f row)"
    and c': "\<And>ob. ob \<noteq> lx_obligation row \<Longrightarrow> effect_of c' ob = effect_of c ob"
      "set (chain_effects c) \<subseteq> set (chain_effects c')"
      "fst ` set (chain_effects c') \<subseteq> insert (lx_obligation row) (fst ` set (chain_effects c))"
    and calls: "int (chain_calls c') + k' \<le> int (chain_calls c) + k + lx_broadcasts (f row) - lx_broadcasts row"
  shows "lab_rows_ok k' (update_row lx_id rid f rows) c'"
proof -
  have d: "distinct (map lx_id rows)" "distinct (map lx_obligation rows)" using ok by (auto simp: lab_rows_ok_def)
  have m: "row \<in> set rows" using select_row_key [OF row] by simp
  have s: "set (update_row lx_id rid f rows) = insert (f row) {r \<in> set rows. lx_id r \<noteq> rid}"
    by (rule moved_rows [OF d(1) row]) (rule f(1))
  have "lab_row_ok c' r" if r: "r \<in> set rows" "lx_id r \<noteq> rid" for r
  proof -
    have "lx_obligation r \<noteq> lx_obligation row"
      using d(2) r m select_row_key [OF row] by (metis distinct_map inj_onD)
    then have "effect_of c' (lx_obligation r) = effect_of c (lx_obligation r)" by (rule c'(1))
    moreover have "lab_row_ok c r" using ok r(1) by (simp add: lab_rows_ok_def)
    ultimately show ?thesis
      using c'(2) by (auto simp: lab_row_ok_def own_effect_def split: lab_state.splits)
  qed
  with f(3) have rows: "\<forall>r\<in>set (update_row lx_id rid f rows). lab_row_ok c' r" by (auto simp: s)
  have same: "lx_obligation ` set (update_row lx_id rid f rows) = lx_obligation ` set rows"
    using map_update_row_column [of lx_obligation f lx_id rid rows] f(2) by (metis set_map)
  have "insert (lx_obligation row) (fst ` set (chain_effects c)) \<subseteq> lx_obligation ` set rows"
    using ok m by (simp add: lab_rows_ok_def)
  with c'(3) have "fst ` set (chain_effects c') \<subseteq> lx_obligation ` set (update_row lx_id rid f rows)"
    unfolding same by (rule order_trans)
  moreover have "int (chain_calls c') + k' \<le> sum_list (map lx_broadcasts (update_row lx_id rid f rows))"
    using calls ok by (simp add: sum_update_row [OF d(1) row] lab_rows_ok_def)
  ultimately show ?thesis
    using d rows f by (simp add: lab_rows_ok_def map_update_row_column)
qed

lemma lab_row_moved:
  assumes "lab_rows_ok k rows c" "select_row lx_id rows rid = Some row"
    "\<And>r. lx_id (f r) = lx_id r" "\<And>r. lx_obligation (f r) = lx_obligation r" "lab_row_ok c (f row)"
  shows "lab_rows_ok (k + lx_broadcasts (f row) - lx_broadcasts row) (update_row lx_id rid f rows) c"
  by (rule lab_rows_moved [OF assms]) auto

lemma lab_row_registered:
  assumes "lab_rows_ok k rows c" "select_row lx_id rows (lx_id r) = None"
    "select_row lx_obligation rows (lx_obligation r) = None" "lx_state r = LabAuthorized" "lx_broadcasts r = 0"
  shows "lab_rows_ok k (insert_row r rows) c"
proof -
  have "effect_of c (lx_obligation r) = None"
    using assms(1,3) by (auto simp: lab_rows_ok_def effect_of_def map_of_eq_None_iff select_row_None)
  with assms show ?thesis
    by (auto simp: lab_rows_ok_def insert_row_def lab_row_ok_def select_row_None)
qed

section \<open>Events\<close>

definition event_ok :: "serializer \<Rightarrow> lab_event \<Rightarrow> bool" where
  "event_ok jcs e \<longleftrightarrow>
     (\<exists>b. canonicalize jcs (event_body (le_owner e) (le_type e) (le_payload e) (le_previous e) (le_recorded_at e)) = Inr b \<and>
        le_hash e = sha256_digest b)"

definition lab_log_ok :: "serializer \<Rightarrow> lab_event list \<Rightarrow> bool" where
  "lab_log_ok jcs es \<longleftrightarrow>
     map le_sequence es = map (\<lambda>i. int i + 1) [0..<length es] \<and> (\<forall>e\<in>set es. event_ok jcs e) \<and>
     (\<forall>k. links_from le_previous le_hash ''genesis'' (filter (\<lambda>e. le_owner e = k) es))"

interpretation lab_log: linked_log le_sequence le_previous le_hash "''genesis''" "newest_by le_sequence" le_owner
  by (rule newest_by_linked)

text \<open>A payload that \<^verbatim>\<open>json.dumps\<close> stores as it is: its keys are in order and its values are plain.\<close>

definition plain_payload :: "pydict \<Rightarrow> bool" where
  "plain_payload p \<longleftrightarrow> json_dumps True (PDict p) = Inr (PDict p)"

lemma numbered_sorted:
  assumes "map le_sequence es = map (\<lambda>i. int i + 1) [0..<length es]"
  shows "sorted_wrt (\<lambda>a b. le_sequence a < le_sequence b) es"
proof -
  have "sorted_wrt (<) (map le_sequence es)" unfolding assms
    by (auto simp: sorted_wrt_map intro: sorted_wrt_mono_rel [OF _ sorted_wrt_upt])
  then show ?thesis by (simp add: sorted_wrt_map)
qed

lemma lab_append_eventE:
  assumes "lab_append_event jcs k t p ts es = Inr es'" "lab_log_ok jcs es" "plain_payload p"
  obtains e where "es' = es @ [e]" "le_owner e = k" "lab_log_ok jcs es'"
proof -
  let ?previous = "case newest_by le_sequence (filter (\<lambda>e. le_owner e = k) es) of None \<Rightarrow> ''genesis'' | Some e \<Rightarrow> le_hash e"
  obtain b where b: "canonicalize jcs (event_body k t (PDict p) ?previous ts) = Inr b"
    and es': "es' = es @ [\<lparr>le_sequence = int (length es) + 1, le_owner = k, le_type = t, le_payload = PDict p,
      le_previous = ?previous, le_hash = sha256_digest b, le_recorded_at = ts\<rparr>]" (is "_ = es @ [?e]")
    using assms(1,3) by (auto simp: lab_append_event_def plain_payload_def bind_res_eq_Inr Let_def)
  have log: "map le_sequence es = map (\<lambda>i. int i + 1) [0..<length es]" "\<And>k. links_from le_previous le_hash ''genesis'' (filter (\<lambda>e. le_owner e = k) es)"
    using assms(2) by (simp_all add: lab_log_ok_def)
  have "event_ok jcs ?e" using b by (simp add: event_ok_def)
  moreover have "links_from le_previous le_hash ''genesis'' (filter (\<lambda>e. le_owner e = k') (es @ [?e]))" for k'
    by (rule lab_log.linked_append [OF numbered_sorted [OF log(1)] log(2)]) simp
  ultimately have "lab_log_ok jcs es'"
    using assms(2) by (simp add: es' lab_log_ok_def)
  then show thesis by (intro that [OF es']) simp_all
qed

lemma verify_linked:
  "links_from le_previous le_hash h es \<Longrightarrow> \<forall>e\<in>set es. event_ok jcs e \<and> le_owner e = k \<Longrightarrow>
     verify_event_chain jcs k h es = Inr ()"
proof (induction es arbitrary: h)
  case (Cons e es)
  then obtain b where "canonicalize jcs (event_body k (le_type e) (le_payload e) (le_previous e) (le_recorded_at e)) = Inr b"
    "le_hash e = sha256_digest b" by (auto simp: event_ok_def)
  moreover have "verify_event_chain jcs k (le_hash e) es = Inr ()" by (rule Cons.IH) (use Cons.prems in auto)
  ultimately show ?case using Cons.prems(1) by simp
qed simp

section \<open>The invariant\<close>

definition lab_ok :: "serializer \<Rightarrow> int \<Rightarrow> lab_db \<Rightarrow> sim_chain \<Rightarrow> bool" where
  "lab_ok jcs k db c \<longleftrightarrow>
     lab_rows_ok k (lab_rows db) c \<and> lab_log_ok jcs (lab_events db) \<and>
     (\<forall>r\<in>set (lab_rows db). \<exists>e\<in>set (lab_events db). le_owner e = lx_id r)"

lemma lab_ok_events:
  assumes "lab_ok jcs k db c" "lab_append_event jcs rid t p ts (lab_events db) = Inr es" "plain_payload p"
  shows "lab_ok jcs k (db\<lparr>lab_events := es\<rparr>) c"
  using assms(2)
proof (rule lab_append_eventE)
  show "lab_log_ok jcs (lab_events db)" using assms(1) by (simp add: lab_ok_def)
next
  fix e assume "es = lab_events db @ [e]" "lab_log_ok jcs es"
  with assms(1) show ?thesis by (auto simp: lab_ok_def)
qed (rule assms(3))

lemma update_keys_owner:
  assumes "\<And>r. lx_id (f r) = lx_id r" "\<forall>r\<in>set rows. \<exists>e\<in>E. le_owner e = lx_id r"
  shows "\<forall>r\<in>set (update_row lx_id k f rows). \<exists>e\<in>E. le_owner e = lx_id r"
  using assms by (auto simp: set_update_row)

lemma lab_write_ok:
  assumes "lab_write jcs rid f t p ts db = Inr db'" "lab_ok jcs k db c"
    and "select_row lx_id (lab_rows db) rid = Some row" "plain_payload p"
    and "\<And>r. lx_id (f r) = lx_id r" "\<And>r. lx_obligation (f r) = lx_obligation r" "lab_row_ok c (f row)"
  shows "lab_ok jcs (k + lx_broadcasts (f row) - lx_broadcasts row) db' c \<and>
    select_row lx_id (lab_rows db') rid = Some ((f row)\<lparr>lx_updated_at := ts\<rparr>)"
proof -
  let ?f = "\<lambda>r. (f r)\<lparr>lx_updated_at := ts\<rparr>"
  obtain es where es: "lab_append_event jcs rid t p ts (lab_events db) = Inr es"
    and db': "db' = db\<lparr>lab_rows := update_row lx_id rid ?f (lab_rows db), lab_events := es\<rparr>"
    using assms(1) by (auto simp: lab_write_def bind_res_eq_Inr)
  have log: "lab_ok jcs k (db\<lparr>lab_events := es\<rparr>) c" by (rule lab_ok_events [OF assms(2) es assms(4)])
  have r: "lab_row_ok c (?f row)" using assms(7) by (simp add: lab_row_ok_def own_effect_def cong: lab_state.case_cong)
  have "lab_rows_ok (k + lx_broadcasts (?f row) - lx_broadcasts row) (update_row lx_id rid ?f (lab_rows db)) c"
    by (rule lab_row_moved [where f = ?f, OF _ assms(3) _ _ r]) (use assms(2,5,6) in \<open>simp_all add: lab_ok_def\<close>)
  moreover have "\<forall>r\<in>set (lab_rows db'). \<exists>e\<in>set es. le_owner e = lx_id r"
    unfolding db' by (simp, rule update_keys_owner) (use log assms(5) in \<open>simp_all add: lab_ok_def\<close>)
  moreover have "select_row lx_id (lab_rows db') rid = Some (?f row)"
    using assms(3,5) by (simp add: db' lab_table.upd_read)
  ultimately show ?thesis using log by (simp add: lab_ok_def db')
qed

section \<open>Every step keeps it\<close>

lemma require_execution_Inr:
  "require_execution rid db = Inr row \<longleftrightarrow> \<not> has_surrogate rid \<and> select_row lx_id (lab_rows db) rid = Some row"
  by (auto simp: require_execution_def bind_text_def res_simps split: option.splits)

lemma plain_payloadI:
  assumes "sorted (map fst p)" "\<forall>(k, v)\<in>set p. k = KStr (key_text k) \<and> json_dumps True v = Inr v"
  shows "plain_payload p"
proof -
  have "json_dumps_items True p = Inr p" using assms(2) by (induction p) auto
  moreover have "\<not> mixed_keys (map fst p)"
  proof -
    have "key_kind k = 0" if k: "k \<in> set (map fst p)" for k
    proof -
      from k assms(2) have "k = KStr (key_text k)" by auto
      then have "key_kind k = key_kind (KStr (key_text k))" by (rule arg_cong)
      then show ?thesis by simp
    qed
    then show ?thesis by (cases p) (auto simp: mixed_keys_def list_ex_iff)
  qed
  moreover have "map (\<lambda>(k, v). (KStr (key_text k), v)) p = p"
    using assms(2) by (intro map_idI) auto
  ultimately show ?thesis using assms(1) by (simp add: plain_payload_def sort_key_id_if_sorted)
qed

lemma plain_values [simp]: "json_dumps True (opt_text v) = Inr (opt_text v)" "json_dumps True (PInt 0) = Inr (PInt 0)"
  "json_dumps True (PInt 1) = Inr (PInt 1)"
  by (simp add: opt_text_def split: option.split, code_simp, code_simp)

lemma payload_keys:
  "sorted [KStr ''message_hash'', KStr ''obligation_id'']" "sorted [KStr ''signature'', KStr ''signed_transaction_hash'']"
  "sorted [KStr ''attempt'', KStr ''signature'']" "sorted [KStr ''attempt'', KStr ''signature'', KStr ''slot'']"
  by code_simp+

lemma plain_payloads [simp]:
  "plain_payload [(KStr ''message_hash'', PStr a), (KStr ''obligation_id'', PStr b)]"
  "plain_payload [(KStr ''signature'', PStr a), (KStr ''signed_transaction_hash'', PStr b)]"
  "plain_payload [(KStr ''broadcast_count'', PInt 0)]"
  "plain_payload [(KStr ''attempt'', PInt 1), (KStr ''signature'', opt_text v)]"
  "plain_payload [(KStr ''attempt'', PInt 1), (KStr ''signature'', opt_text v), (KStr ''slot'', PInt 1)]"
  "plain_payload [(KStr ''attempt'', PInt 1)]" "plain_payload [(KStr ''reason'', PStr a)]"
  "plain_payload [(KStr ''signature'', opt_text v)]" "plain_payload [(KStr ''observation'', PStr a)]"
  by (rule plain_payloadI, simp only: list.map fst_conv payload_keys sorted1, simp del: json_dumps.simps(3))+

text \<open>A commit of one transaction, or the tables as they were.\<close>

lemma lab_ok_transaction:
  assumes "lab_ok jcs k db c" "\<And>d x. m = Inr (d, x) \<Longrightarrow> lab_ok jcs k d c"
  shows "lab_ok jcs k (fst (transaction db m)) c"
  using assms by (rule fst_transaction)

lemma register_ok: "lab_ok jcs k db c \<Longrightarrow> lab_ok jcs k (fst (lab_register jcs rid ob mh vu now db)) c"
  unfolding lab_register_def
proof (rule lab_ok_transaction)
  fix d x
  assume ok: "lab_ok jcs k db c"
    and "bind_res (lab_timestamp now) (\<lambda>timestamp.
        bind_res (bind_text ob) (\<lambda>_.
        bind_res (reject_if (select_row lx_obligation (lab_rows db) ob \<noteq> None) lab_invalid) (\<lambda>_.
        bind_res (lab_timestamp vu) (\<lambda>until.
        bind_res (run_all [bind_text rid, bind_text mh]) (\<lambda>_.
        bind_res (reject_if (select_row lx_id (lab_rows db) rid \<noteq> None) (PyRaise ''IntegrityError'')) (\<lambda>_.
        bind_res (lab_append_event jcs rid ''execution_registered''
          [(KStr ''message_hash'', PStr mh), (KStr ''obligation_id'', PStr ob)] timestamp
          (lab_events db)) (\<lambda>es.
        Inr (db\<lparr>lab_rows := insert_row
               \<lparr>lx_id = rid, lx_obligation = ob, lx_message_hash = mh, lx_valid_until = until,
                lx_state = LabAuthorized, lx_signature = None, lx_signed_hash = None, lx_broadcasts = 0,
                lx_recoveries = 0, lx_created_at = timestamp, lx_updated_at = timestamp\<rparr> (lab_rows db),
               lab_events := es\<rparr>, ())))))))) = Inr (d, x)"
  then obtain ts until es where n: "select_row lx_obligation (lab_rows db) ob = None" "select_row lx_id (lab_rows db) rid = None"
    and es: "lab_append_event jcs rid ''execution_registered'' [(KStr ''message_hash'', PStr mh), (KStr ''obligation_id'', PStr ob)] ts
      (lab_events db) = Inr es"
    and d: "d = db\<lparr>lab_rows := insert_row
               \<lparr>lx_id = rid, lx_obligation = ob, lx_message_hash = mh, lx_valid_until = until,
                lx_state = LabAuthorized, lx_signature = None, lx_signed_hash = None, lx_broadcasts = 0,
                lx_recoveries = 0, lx_created_at = ts, lx_updated_at = ts\<rparr> (lab_rows db), lab_events := es\<rparr>"
    by (auto simp: bind_res_eq_Inr reject_if_eq_Inr simp del: run_all.simps)
  from es show "lab_ok jcs k d c"
  proof (rule lab_append_eventE)
    show "lab_log_ok jcs (lab_events db)" using ok by (simp add: lab_ok_def)
  next
    fix e assume "es = lab_events db @ [e]" "le_owner e = rid" "lab_log_ok jcs es"
    moreover have "lab_rows_ok k (lab_rows d) c"
      unfolding d using ok n by (simp add: lab_ok_def lab_row_registered)
    ultimately show ?thesis using ok by (auto simp: lab_ok_def d insert_row_def)
  qed simp
qed

lemma persist_ok: "lab_ok jcs k db c \<Longrightarrow> lab_ok jcs k (fst (persist_signature jcs rid sg sh now fault db)) c"
proof (cases fault)
  case None
  assume ok: "lab_ok jcs k db c"
  have "lab_ok jcs k d c" if tx: "persist_signature_tx jcs rid sg sh ts db = Inr (d, x)" for ts d x
  proof -
    from tx obtain row where row: "select_row lx_id (lab_rows db) rid = Some row"
      by (auto simp: persist_signature_tx_def bind_res_eq_Inr require_execution_Inr)
    show ?thesis
    proof (cases "d = db")
      case False
      with tx row have a: "lx_state row = LabAuthorized" "\<not> has_surrogate sg" and u: "lab_write jcs rid
         (\<lambda>r. r\<lparr>lx_state := LabSigned, lx_signature := Some sg, lx_signed_hash := Some sh\<rparr>) ''signature_persisted''
         [(KStr ''signature'', PStr sg), (KStr ''signed_transaction_hash'', PStr sh)] ts db = Inr d"
        by (auto simp: persist_signature_tx_def bind_text_def bind_res_eq_Inr reject_if_eq_Inr require_execution_Inr split: if_splits)
      have "lab_row_ok c row" using ok select_row_key [OF row] by (simp add: lab_ok_def lab_rows_ok_def)
      with lab_write_ok [OF u ok row] a show ?thesis by (simp add: lab_row_ok_def signed_row_def)
    qed (use ok in simp)
  qed
  with ok None show ?thesis
    by (auto simp: persist_signature_def bind_res_eq_Inr intro!: lab_ok_transaction)
qed (simp add: persist_signature_def)

lemma transition_ok:
  assumes ok: "lab_ok jcs k db c" and "plain_payload p"
    and "\<And>row. select_row lx_id (lab_rows db) rid = Some row \<Longrightarrow> lx_state row = from_state \<Longrightarrow>
      lab_row_ok c (row\<lparr>lx_state := to_state\<rparr>)"
  shows "lab_ok jcs k (fst (lab_transition jcs rid from_state to_state t p now db)) c"
  unfolding lab_transition_def
proof (rule lab_ok_transaction [OF ok])
  fix d x
  assume "bind_res (lab_timestamp now) (\<lambda>timestamp.
        bind_res (require_execution rid db) (\<lambda>row.
        bind_res (reject_if (lx_state row \<noteq> from_state) lab_invalid) (\<lambda>_.
        bind_res (lab_write jcs rid (\<lambda>r. r\<lparr>lx_state := to_state\<rparr>) t p timestamp db) (\<lambda>db'.
        Inr (db', ()))))) = Inr (d, x)"
  then obtain ts row where row: "select_row lx_id (lab_rows db) rid = Some row" "lx_state row = from_state"
    and u: "lab_write jcs rid (\<lambda>r. r\<lparr>lx_state := to_state\<rparr>) t p ts db = Inr d"
    by (auto simp: bind_res_eq_Inr reject_if_eq_Inr require_execution_Inr)
  from lab_write_ok [OF u ok row(1) assms(2) _ _ assms(3) [OF row]] show "lab_ok jcs k d c" by simp
qed

definition flying :: "lab_db \<Rightarrow> string \<Rightarrow> lab_row \<Rightarrow> bool" where
  "flying db rid row \<longleftrightarrow>
     (\<exists>row1. select_row lx_id (lab_rows db) rid = Some row1 \<and> lx_state row1 = LabInFlight \<and> signed_row row1 \<and>
        lx_broadcasts row1 = 1 \<and> lx_obligation row1 = lx_obligation row \<and> lx_signature row1 = lx_signature row)"

text \<open>The intent to broadcast makes room for one call and leaves a row that has no effect yet.\<close>

lemma intent_ok:
  assumes "transaction db (execute_intent_tx jcs rid now db) = (db1, m)" "lab_ok jcs 0 db c"
  shows "lab_ok jcs 0 db1 c"
    and "m = Inr (row, False) \<Longrightarrow> lab_ok jcs 1 db1 c \<and> lx_broadcasts row = 0 \<and>
      effect_of c (lx_obligation row) = None \<and> flying db1 rid row"
proof -
  have "lab_ok jcs 0 db1 c \<and> (\<forall>row. m = Inr (row, False) \<longrightarrow> lab_ok jcs 1 db1 c \<and> lx_broadcasts row = 0 \<and>
      effect_of c (lx_obligation row) = None \<and> flying db1 rid row)"
  proof (cases m)
    case (Inl e)
    with assms show ?thesis by (auto simp: transaction_def split: sum.splits)
  next
    case (Inr p)
    obtain row b where p: "p = (row, b)" by (cases p)
    have tx: "execute_intent_tx jcs rid now db = Inr (db1, row, b)"
      using assms(1) Inr p by (auto simp: transaction_def split: sum.splits)
    then obtain ts where row: "select_row lx_id (lab_rows db) rid = Some row" "lx_state row = LabSigned"
      and u: "if b then lab_write jcs rid (\<lambda>r. r\<lparr>lx_state := LabExpired\<rparr>) ''blockhash_expired_before_broadcast''
              [(KStr ''broadcast_count'', PInt (lx_broadcasts row))] ts db = Inr db1
          else lab_write jcs rid (\<lambda>r. r\<lparr>lx_state := LabInFlight, lx_broadcasts := lx_broadcasts r + 1\<rparr>)
              ''broadcast_intent_persisted''
              [(KStr ''attempt'', PInt (lx_broadcasts row + 1)), (KStr ''signature'', opt_text (lx_signature row))] ts db = Inr db1"
      by (auto simp: execute_intent_tx_def bind_res_eq_Inr reject_if_eq_Inr require_execution_Inr
          split: option.splits if_splits)
    have "lab_row_ok c row" using assms(2) select_row_key [OF row(1)] by (simp add: lab_ok_def lab_rows_ok_def)
    with row(2) have z: "lx_broadcasts row = 0" "effect_of c (lx_obligation row) = None" "signed_row row"
      by (simp_all add: lab_row_ok_def)
    show ?thesis
    proof (cases b)
      case True
      with u have "lab_write jcs rid (\<lambda>r. r\<lparr>lx_state := LabExpired\<rparr>) ''blockhash_expired_before_broadcast''
              [(KStr ''broadcast_count'', PInt (lx_broadcasts row))] ts db = Inr db1" by simp
      from lab_write_ok [OF this assms(2) row(1)] z show ?thesis
        by (simp add: lab_row_ok_def Inr p True)
    next
      case False
      with u have "lab_write jcs rid (\<lambda>r. r\<lparr>lx_state := LabInFlight, lx_broadcasts := lx_broadcasts r + 1\<rparr>)
              ''broadcast_intent_persisted''
              [(KStr ''attempt'', PInt (lx_broadcasts row + 1)), (KStr ''signature'', opt_text (lx_signature row))] ts db = Inr db1"
        by simp
      from lab_write_ok [OF this assms(2) row(1)] z
      have "lab_ok jcs 1 db1 c" "select_row lx_id (lab_rows db1) rid =
          Some (row\<lparr>lx_state := LabInFlight, lx_broadcasts := 1, lx_updated_at := ts\<rparr>)"
        by (simp_all add: lab_row_ok_def own_effect_def)
      moreover from this(1) have "lab_ok jcs 0 db1 c" by (simp add: lab_ok_def lab_rows_ok_def)
      ultimately show ?thesis using z by (simp add: Inr p flying_def)
    qed
  qed
  then show "lab_ok jcs 0 db1 c" and "m = Inr (row, False) \<Longrightarrow> lab_ok jcs 1 db1 c \<and> lx_broadcasts row = 0 \<and>
      effect_of c (lx_obligation row) = None \<and> flying db1 rid row"
    by blast+
qed

lemma broadcast_effects:
  assumes "broadcast sg ob mode c = (c1, outcome)" "effect_of c ob = None"
  shows "chain_calls c1 = chain_calls c + 1" "\<And>ob'. ob' \<noteq> ob \<Longrightarrow> effect_of c1 ob' = effect_of c ob'"
    "set (chain_effects c) \<subseteq> set (chain_effects c1)"
    "fst ` set (chain_effects c1) \<subseteq> insert ob (fst ` set (chain_effects c))"
    "effect_of c1 ob = None \<or> effect_of c1 ob = Some sg"
    "exn_code e = ''BroadcastUnavailable'' \<Longrightarrow> outcome = Inl e \<Longrightarrow> effect_of c1 ob = None"
    "outcome = Inr receipt \<Longrightarrow> (ob, sg) \<in> set (chain_effects c1) \<and> effect_of c1 ob = Some sg \<and>
       item receipt ''signature'' = opt_text sg \<and> item receipt ''slot'' = PInt 1"
  using assms
  by (cases mode; auto simp: broadcast_def Let_def effect_of_def lab_error_def map_add_def item_def split: option.splits)+

lemma broadcast_ok:
  assumes "lab_ok jcs 1 db c" "flying db rid row" "effect_of c (lx_obligation row) = None"
    and "broadcast (lx_signature row) (lx_obligation row) mode c = (c1, outcome)"
  shows "lab_ok jcs 0 db c1"
proof -
  obtain row1 where row1: "select_row lx_id (lab_rows db) rid = Some row1" "lx_state row1 = LabInFlight"
    "lx_broadcasts row1 = 1" "lx_obligation row1 = lx_obligation row" "lx_signature row1 = lx_signature row" "signed_row row1"
    using assms(2) by (auto simp: flying_def)
  note b = broadcast_effects [OF assms(4,3)]
  have "lab_row_ok c1 row1" using row1 b(5) by (auto simp: lab_row_ok_def own_effect_def)
  then have "lab_rows_ok 0 (update_row lx_id rid (\<lambda>r. r) (lab_rows db)) c1"
    by (intro lab_rows_moved [where f = "\<lambda>r. r" and k = 1 and c = c, OF _ row1(1)])
      (use assms(1) b row1(4) in \<open>auto simp: lab_ok_def\<close>)
  moreover have "update_row lx_id rid (\<lambda>r. r) (lab_rows db) = lab_rows db" by (simp add: update_row_def)
  ultimately show ?thesis using assms(1) by (simp add: lab_ok_def)
qed

lemma outcome_ok:
  assumes ok: "lab_ok jcs 0 db c1" and fl: "flying db rid row" "lx_broadcasts row = 0" "effect_of c (lx_obligation row) = None"
    and b: "broadcast (lx_signature row) (lx_obligation row) mode c = (c1, outcome)"
  shows "lab_ok jcs 0 (fst (execute_outcome jcs rid row outcome now db)) c1"
proof -
  note be = broadcast_effects [OF b fl(3)]
  obtain row1 where row1: "select_row lx_id (lab_rows db) rid = Some row1"
    "lx_broadcasts row1 = 1" "lx_obligation row1 = lx_obligation row" "lx_signature row1 = lx_signature row" "signed_row row1"
    using fl(1) by (auto simp: flying_def)
  have own: "own_effect c1 row1" using be(5) row1 by (simp add: own_effect_def)
  show ?thesis
  proof (cases outcome)
    case (Inr receipt)
    have p: "plain_payload [(KStr ''attempt'', PInt (lx_broadcasts row + 1)), (KStr ''signature'', item receipt ''signature''),
        (KStr ''slot'', item receipt ''slot'')]" using be(7) [OF Inr] fl(2) by simp
    have "lx_signature row1 \<in> snd ` set (chain_effects c1)" using be(7) [OF Inr] row1(4) by force
    then have "lab_ok jcs 0 (fst (lab_transition jcs rid LabInFlight LabConfirmed t
        [(KStr ''attempt'', PInt (lx_broadcasts row + 1)), (KStr ''signature'', item receipt ''signature''),
        (KStr ''slot'', item receipt ''slot'')] now db)) c1" for t
      by (intro transition_ok [OF ok p]) (use row1 own in \<open>simp add: lab_row_ok_def own_effect_def\<close>)
    then show ?thesis by (simp add: execute_outcome_def Inr Let_def)
  next
    case (Inl e)
    have "lab_ok jcs 0 (fst (lab_transition jcs rid LabInFlight LabFailedKnown t
        [(KStr ''attempt'', PInt (lx_broadcasts row + 1))] now db)) c1" if "exn_code e = ''BroadcastUnavailable''" for t
      by (rule transition_ok [OF ok])
        (use row1 be(6) [OF that Inl] fl(2) in \<open>simp_all add: lab_row_ok_def\<close>)
    moreover have "lab_ok jcs 0 (fst (lab_mark_needs_recovery jcs rid now reason db)) c1" for reason
      unfolding lab_mark_needs_recovery_def
      by (rule transition_ok [OF ok]) (use row1 own in \<open>simp_all add: lab_row_ok_def own_effect_def\<close>)
    ultimately show ?thesis using ok by (auto simp: execute_outcome_def Inl then_raise_def)
  qed
qed

lemma execute_ok:
  assumes ok: "lab_ok jcs 0 db c" and e: "lab_execute jcs rid now mode fault (db, c) = ((db', c'), x)"
  shows "lab_ok jcs 0 db' c'"
proof (cases "fault \<noteq> None \<and> fault \<noteq> Some ''after_broadcast_intent_before_call''")
  case False
  obtain db1 m where i: "transaction db (execute_intent_tx jcs rid now db) = (db1, m)" by fastforce
  show ?thesis
  proof (cases "\<exists>row. m = Inr (row, False)")
    case True
    then obtain row where m: "m = Inr (row, False)" by blast
    have mid: "lab_ok jcs 1 db1 c" "lx_broadcasts row = 0" "effect_of c (lx_obligation row) = None" "flying db1 rid row"
      using intent_ok(2) [OF i ok m] by auto
    show ?thesis
    proof (cases fault)
      case None
      obtain c1 outcome where b: "broadcast (lx_signature row) (lx_obligation row) mode c = (c1, outcome)" by fastforce
      have "lab_ok jcs 0 (fst (execute_outcome jcs rid row outcome now db1)) c1"
        by (rule outcome_ok [OF broadcast_ok [OF mid(1,4,3) b] mid(4,2,3) b])
      with e i m None b show ?thesis by (auto simp: lab_execute_def Let_def)
    next
      case (Some f)
      have "lab_ok jcs 0 (fst (lab_mark_needs_recovery jcs rid now reason db1)) c" for reason
        unfolding lab_mark_needs_recovery_def
        by (rule transition_ok [OF intent_ok(1) [OF i ok]])
          (use mid in \<open>auto simp: flying_def lab_row_ok_def own_effect_def\<close>)
      with e i m Some False show ?thesis by (auto simp: lab_execute_def Let_def then_raise_def)
    qed
  next
    case no: False
    from no e i False have "db' = db1 \<and> c' = c"
      by (auto simp: lab_execute_def split: sum.splits prod.splits bool.splits)
    then show ?thesis using intent_ok(1) [OF i ok] by simp
  qed
qed (use assms in \<open>simp add: lab_execute_def\<close>)

lemma recover_begin_ok: "lab_ok jcs 0 db c \<Longrightarrow> lab_ok jcs 0 (fst (transaction db (recover_begin_tx rid ts db))) c"
proof (rule lab_ok_transaction)
  fix d x
  assume ok: "lab_ok jcs 0 db c" and tx: "recover_begin_tx rid ts db = Inr (d, x)"
  let ?f = "\<lambda>r. r\<lparr>lx_recoveries := lx_recoveries r + 1, lx_updated_at := ts\<rparr>"
  from tx have row: "select_row lx_id (lab_rows db) rid = Some x"
    by (auto simp: recover_begin_tx_def bind_res_eq_Inr require_execution_Inr split: if_splits)
  show "lab_ok jcs 0 d c"
  proof (cases "d = db")
    case False
    with tx row have d: "d = db\<lparr>lab_rows := update_row lx_id rid ?f (lab_rows db)\<rparr>"
      by (auto simp: recover_begin_tx_def bind_res_eq_Inr require_execution_Inr split: if_splits)
    have "lab_row_ok c x" using ok select_row_key [OF row] by (simp add: lab_ok_def lab_rows_ok_def)
    then have "lab_row_ok c (?f x)" by (simp add: lab_row_ok_def own_effect_def cong: lab_state.case_cong)
    then have "lab_rows_ok (0 + lx_broadcasts (?f x) - lx_broadcasts x) (update_row lx_id rid ?f (lab_rows db)) c"
      by (intro lab_row_moved [where f = ?f, OF _ row]) (use ok in \<open>simp_all add: lab_ok_def\<close>)
    moreover have "\<forall>r\<in>set (update_row lx_id rid ?f (lab_rows db)). \<exists>e\<in>set (lab_events db). le_owner e = lx_id r"
      by (rule update_keys_owner) (use ok in \<open>simp_all add: lab_ok_def\<close>)
    ultimately show ?thesis using ok by (simp add: lab_ok_def d)
  qed (use ok in simp)
qed

lemma recover_begin_row:
  assumes "transaction db (recover_begin_tx rid ts db) = (db1, Inr row)"
  shows "\<exists>row1. select_row lx_id (lab_rows db1) rid = Some row1 \<and> lx_state row1 = lx_state row \<and>
    lx_signature row1 = lx_signature row \<and> lx_broadcasts row1 = lx_broadcasts row \<and> lx_id row1 = rid"
  using assms select_row_key [of lx_id "lab_rows db" rid row]
  by (auto simp: transaction_def recover_begin_tx_def bind_res_eq_Inr require_execution_Inr lab_table.upd_read
      split: sum.splits if_splits)

lemma recover_record_ok:
  assumes ok: "lab_ok jcs 0 db c"
    and row1: "select_row lx_id (lab_rows db) rid = Some row1" "lx_signature row1 = lx_signature row"
    and a: "answer = AnsConfirmed \<Longrightarrow> lx_signature row \<in> snd ` set (chain_effects c)"
  shows "lab_ok jcs 0 (fst (recover_record jcs rid row answer ts now db)) c"
proof (cases "answer = AnsConfirmed")
  case True
  have "lab_row_ok c row1" using ok select_row_key [OF row1(1)] by (simp add: lab_ok_def lab_rows_ok_def)
  then have "lab_ok jcs 0 (fst (lab_transition jcs rid LabNeedsRecovery LabConfirmed t
      [(KStr ''signature'', opt_text (lx_signature row))] now db)) c" for t
    by (intro transition_ok [OF ok]) (use row1 a [OF True] in \<open>simp_all add: lab_row_ok_def own_effect_def\<close>)
  then show ?thesis by (simp add: recover_record_def True Let_def)
next
  case False
  have "lab_ok jcs 0 (fst (transaction db (bind_res (lab_append_event jcs rid t [(KStr ''observation'', PStr u)] ts (lab_events db)) (\<lambda>es.
      Inr (db\<lparr>lab_events := es\<rparr>, ()))))) c" for t u
    by (rule lab_ok_transaction [OF ok]) (auto simp: bind_res_eq_Inr intro: lab_ok_events [OF ok])
  with False show ?thesis by (simp add: recover_record_def Let_def)
qed

lemma recover_ok:
  assumes ok: "lab_ok jcs 0 db c" and e: "lab_recover jcs rid now (db, c) = ((db', c'), x)"
  shows "lab_ok jcs 0 db' c'"
proof (cases "lab_timestamp now")
  case (Inr ts)
  obtain db1 m where b: "transaction db (recover_begin_tx rid ts db) = (db1, m)" by fastforce
  have ok1: "lab_ok jcs 0 db1 c" using recover_begin_ok [OF ok, of rid ts] by (simp add: b)
  show ?thesis
  proof (cases m)
    case m: (Inr row)
    obtain row1 where row1: "select_row lx_id (lab_rows db1) rid = Some row1" "lx_signature row1 = lx_signature row"
      using recover_begin_row [OF b [unfolded m]] by blast
    have "lab_ok jcs 0 (fst (recover_record jcs rid row (observe (lx_signature row) c) ts now db1)) c"
      by (rule recover_record_ok [OF ok1 row1]) (auto simp: observe_def split: observation_state.splits if_splits)
    with e Inr b m ok1 show ?thesis by (auto simp: lab_recover_def Let_def split: if_splits)
  qed (use e Inr b ok1 in \<open>simp add: lab_recover_def\<close>)
qed (use assms in \<open>simp add: lab_recover_def\<close>)

lemma lab_step_ok: "lab_step jcs s s' \<Longrightarrow> lab_ok jcs 0 (fst s) (snd s) \<Longrightarrow> lab_ok jcs 0 (fst s') (snd s')"
proof (induction rule: lab_step.induct)
  case (execute s rid now mode fault)
  then show ?case using execute_ok [of jcs "fst s" "snd s" rid now mode fault] by (metis prod.collapse)
next
  case (recover s rid now)
  then show ?case using recover_ok [of jcs "fst s" "snd s" rid now] by (metis prod.collapse)
next
  case (stop_after_intent db c rid now)
  then show ?case using intent_ok(1) [of db jcs rid now _ _ c] by (metis prod.collapse fst_conv snd_conv)
next
  case (stop_after_broadcast db rid now db1 row c mode)
  then have ok: "lab_ok jcs 0 db c" by simp
  obtain c1 outcome where b: "broadcast (lx_signature row) (lx_obligation row) mode c = (c1, outcome)" by fastforce
  have "lab_ok jcs 1 db1 c" "effect_of c (lx_obligation row) = None" "flying db1 rid row"
    using intent_ok(2) [OF stop_after_broadcast.hyps ok refl] by auto
  from broadcast_ok [OF this(1,3,2) b] b show ?case by simp
next
  case (observation db c m)
  then show ?case
    by (simp add: lab_ok_def lab_rows_ok_def lab_row_ok_def own_effect_def effect_of_def cong: lab_state.case_cong)
qed (simp_all add: register_ok persist_ok recover_begin_ok)

interpretation lab: preserved "lab_step jcs" "\<lambda>s. lab_ok jcs 0 (fst s) (snd s)"
  by unfold_locales (rule lab_step_ok)

lemma lab_init_ok: "lab_ok jcs 0 lab_db_init sim_chain_init"
  by (simp add: lab_ok_def lab_rows_ok_def lab_log_ok_def lab_db_init_def sim_chain_init_def)

lemma lab_reached_ok:
  "(lab_step jcs)\<^sup>*\<^sup>* (lab_db_init, sim_chain_init) (db, c) \<Longrightarrow> lab_ok jcs 0 db c"
  using lab.steps_inv [of jcs "(lab_db_init, sim_chain_init)" "(db, c)"] by (simp add: lab_init_ok)

end
