(* ===== verification/Failure_Lab_Props.thy ===== *)
theory Failure_Lab_Props
  imports Failure_Lab_Facts Grant_Examples
begin

text \<open>
  What the failure laboratory shows about broadcasting: at most once per execution whatever fails,
  evidence that always verifies and allows a new attempt only where the chain has no effect, and
  recovery of a broadcast whose response was lost.
\<close>

section \<open>Events that can be recorded\<close>

lemma lab_append_event_total:
  assumes "\<forall>v. reject_unsupported_json v ''$'' = Inr () \<longrightarrow> jcs v \<noteq> None" "lab_log_ok jcs es"
    and "\<not> has_surrogate rid" "\<not> has_surrogate t" "\<not> has_surrogate ts"
    and "reject_unsupported_json (PDict p) ''$.payload'' = Inr ()" "plain_payload p"
  shows "\<exists>es'. lab_append_event jcs rid t p ts es = Inr es'"
proof -
  let ?previous = "case newest_by le_sequence (filter (\<lambda>e. le_owner e = rid) es) of None \<Rightarrow> ''genesis'' | Some e \<Rightarrow> le_hash e"
  have h: "\<not> has_surrogate (le_hash e)" if "e \<in> set es" for e
    using assms(2) that by (auto simp: lab_log_ok_def event_ok_def)
  have "\<not> has_surrogate ''genesis''" by code_simp
  moreover have "e \<in> set es" if "newest_by le_sequence (filter (\<lambda>e. le_owner e = rid) es) = Some e" for e
  proof -
    have "newest_by sq xs = Some e \<Longrightarrow> e \<in> set xs" for sq :: "lab_event \<Rightarrow> int" and xs
      by (induction xs) (auto split: option.splits if_splits)
    with that show ?thesis by fastforce
  qed
  ultimately have prev: "\<not> has_surrogate ?previous" using h by (auto split: option.splits)
  have "reject_unsupported_json (event_body rid t (PDict p) ?previous ts) ''$'' = Inr ()"
    using assms(3-6) prev by (simp add: event_body_def)
  with assms(1) obtain b where "canonicalize jcs (event_body rid t (PDict p) ?previous ts) = Inr b"
    by (cases "jcs (event_body rid t (PDict p) ?previous ts)") (auto simp: canonicalize_def)
  with assms(7) show ?thesis by (simp add: lab_append_event_def plain_payload_def Let_def)
qed

lemma event_owner_text: "event_ok jcs e \<Longrightarrow> \<not> has_surrogate (le_owner e)"
  by (auto simp: event_ok_def event_body_def canonicalize_def bind_res_eq_Inr reject_if_eq_Inr)

section \<open>Properties\<close>

text \<open>
  Property C20. Whatever fails, and wherever a process stops, an execution is broadcast at most once:
  the chain is called at most once per execution, and every effect it shows belongs to one
  execution that was broadcast exactly once, with the signature that execution persisted.
\<close>

theorem lab_broadcasts_once:
  assumes "(lab_step jcs)\<^sup>*\<^sup>* (lab_db_init, sim_chain_init) (db, c)"
  shows "(\<forall>r\<in>set (lab_rows db). 0 \<le> lx_broadcasts r \<and> lx_broadcasts r \<le> 1) \<and>
    int (chain_calls c) \<le> sum_list (map lx_broadcasts (lab_rows db)) \<and>
    (\<forall>ob sg. map_of (chain_effects c) ob = Some sg \<longrightarrow>
       (\<exists>r\<in>set (lab_rows db). lx_obligation r = ob \<and> lx_signature r = sg \<and> lx_broadcasts r = 1 \<and>
          (lx_state r = LabInFlight \<or> lx_state r = LabNeedsRecovery \<or> lx_state r = LabConfirmed)))"
proof -
  have ok: "lab_rows_ok 0 (lab_rows db) c" using lab_reached_ok [OF assms] by (simp add: lab_ok_def)
  have row: "lab_row_ok c r" if "r \<in> set (lab_rows db)" for r using ok that by (simp add: lab_rows_ok_def)
  have "\<exists>r\<in>set (lab_rows db). lx_obligation r = ob \<and> lx_signature r = sg \<and> lx_broadcasts r = 1 \<and>
      (lx_state r = LabInFlight \<or> lx_state r = LabNeedsRecovery \<or> lx_state r = LabConfirmed)"
    if e: "map_of (chain_effects c) ob = Some sg" for ob sg
  proof -
    have "ob \<in> fst ` set (chain_effects c)" using map_of_SomeD [OF e] by force
    then obtain r where r: "r \<in> set (lab_rows db)" "lx_obligation r = ob" using ok by (auto simp: lab_rows_ok_def)
    with row [OF r(1)] e show ?thesis
      by (intro bexI [of _ r]) (auto simp: lab_row_ok_def own_effect_def effect_of_def split: lab_state.splits)
  qed
  moreover have "0 \<le> lx_broadcasts r \<and> lx_broadcasts r \<le> 1" if "r \<in> set (lab_rows db)" for r
    using row [OF that] by (auto simp: lab_row_ok_def split: lab_state.splits)
  ultimately show ?thesis using ok by (simp add: lab_rows_ok_def)
qed

text \<open>
  Property C27. Evidence can be given for every registered execution at any moment: its event chain
  verifies, and when the evidence says that the execution may be materialized again, the chain
  has no effect for its obligation.
\<close>

theorem lab_evidence_sound:
  assumes "(lab_step jcs)\<^sup>*\<^sup>* (lab_db_init, sim_chain_init) (db, c)"
    and "row \<in> set (lab_rows db)"
  shows "\<exists>ev. lab_evidence jcs (lx_id row) scenario n db = Inr ev \<and>
    item ev ''obligation_id'' = PStr (lx_obligation row) \<and>
    (item ev ''may_rematerialize'' = PBool True \<longrightarrow> effect_count (lx_obligation row) c = 0)"
proof -
  have ok: "lab_ok jcs 0 db c" by (rule lab_reached_ok [OF assms(1)])
  then have d: "distinct (map lx_id (lab_rows db))" and log: "lab_log_ok jcs (lab_events db)"
    and e: "\<exists>e\<in>set (lab_events db). le_owner e = lx_id row" and r: "lab_row_ok c row"
    using assms(2) by (auto simp: lab_ok_def lab_rows_ok_def)
  let ?es = "filter (\<lambda>e. le_owner e = lx_id row) (lab_events db)"
  have order: "sort_key le_sequence ?es = ?es"
    by (rule lab_log.read_in_order [OF numbered_sorted]) (use log in \<open>simp add: lab_log_ok_def\<close>)
  have v: "verify_event_chain jcs (lx_id row) ''genesis'' ?es = Inr ()"
    by (rule verify_linked) (use log in \<open>auto simp: lab_log_ok_def\<close>)
  have "\<not> has_surrogate (lx_id row)"
    using e log by (auto simp: lab_log_ok_def dest!: bspec event_owner_text)
  then have "lab_status (lx_id row) db = Inr row"
    using select_row_unique [OF d assms(2)] by (simp add: lab_status_def require_execution_Inr)
  moreover have "?es \<noteq> []" using e by (auto simp: filter_empty_conv)
  moreover have "effect_count (lx_obligation row) c = 0" if "may_rematerialize (lx_state row)"
    using that r by (auto simp: may_rematerialize_def lab_row_ok_def effect_of_def effect_count_def split: lab_state.splits)
  ultimately show ?thesis
    using v by (simp add: lab_evidence_def order Let_def item_def)
qed

text \<open>
  Property C28. A lost response is recovered without a new broadcast: when an execution needs recovery, the
  chain answers and shows the execution's signature, then recovery returns \<^verbatim>\<open>confirmed\<close>, the execution
  is confirmed, and the chain is not called. The serializer accepts the values it must accept, and
  the clock shows a year of four digits.
\<close>

theorem lab_recovery_confirms:
  assumes "(lab_step jcs)\<^sup>*\<^sup>* (lab_db_init, sim_chain_init) (db, c)"
    and "row \<in> set (lab_rows db)" "lx_state row = LabNeedsRecovery"
    and "lx_signature row \<in> snd ` set (chain_effects c)" "observation_mode c = ObserveAvailable"
    and "utcoffset later \<noteq> None" "four_digit_year (instant later)"
    and "\<forall>v. reject_unsupported_json v ''$'' = Inr () \<longrightarrow> jcs v \<noteq> None"
  shows "\<exists>db' res r. lab_recover jcs (lx_id row) later (db, c) = ((db', c), Inr res) \<and>
    item res ''outcome'' = PStr ''confirmed'' \<and> item res ''may_rematerialize'' = PBool False \<and>
    select_row lx_id (lab_rows db') (lx_id row) = Some r \<and> lx_state r = LabConfirmed \<and> lx_broadcasts r = 1"
proof -
  have ok: "lab_ok jcs 0 db c" by (rule lab_reached_ok [OF assms(1)])
  then have d: "distinct (map lx_id (lab_rows db))" and log: "lab_log_ok jcs (lab_events db)"
    and e: "\<exists>e\<in>set (lab_events db). le_owner e = lx_id row" and r: "lab_row_ok c row"
    using assms(2) by (auto simp: lab_ok_def lab_rows_ok_def)
  have id: "\<not> has_surrogate (lx_id row)" using e log by (auto simp: lab_log_ok_def dest!: bspec event_owner_text)
  obtain sg where sg: "lx_signature row = Some sg" "\<not> has_surrogate sg" and b: "lx_broadcasts row = 1"
    using r assms(3) by (auto simp: lab_row_ok_def signed_row_def)
  let ?ts = "strftime_utc (instant later)"
  let ?f = "\<lambda>r. r\<lparr>lx_recoveries := lx_recoveries r + 1, lx_updated_at := ?ts\<rparr>"
  have ts: "lab_timestamp later = Inr ?ts" "\<not> has_surrogate ?ts"
    using assms(6) strftime_ascii [OF assms(7)] by (auto simp: lab_timestamp_def aware_instant_def)
  have s: "select_row lx_id (lab_rows db) (lx_id row) = Some row" by (rule select_row_unique [OF d assms(2)])
  define db1 where "db1 = db\<lparr>lab_rows := update_row lx_id (lx_id row) ?f (lab_rows db)\<rparr>"
  have s1: "select_row lx_id (lab_rows db1) (lx_id row) = Some (?f row)"
    using s by (simp add: db1_def lab_table.upd_read)
  have t1: "recover_begin_tx (lx_id row) ?ts db = Inr (db1, row)"
    using s id assms(3) by (simp add: recover_begin_tx_def require_execution_def bind_text_def db1_def)
  have o: "observe (lx_signature row) c = AnsConfirmed" using assms(4,5) by (auto simp: observe_def)
  have "\<not> has_surrogate ''recovery_confirmed_signature''" by code_simp
  moreover have "reject_unsupported_json (PDict [(KStr ''signature'', opt_text (lx_signature row))]) ''$.payload'' = Inr ()"
    using sg by (simp add: opt_text_def)
  ultimately obtain es where es: "lab_append_event jcs (lx_id row) ''recovery_confirmed_signature''
      [(KStr ''signature'', opt_text (lx_signature row))] ?ts (lab_events db1) = Inr es"
    using lab_append_event_total [OF assms(8) log id _ ts(2)] plain_payloads(8) by (fastforce simp: db1_def)
  define db2 where "db2 = db1\<lparr>lab_rows := update_row lx_id (lx_id row) (\<lambda>r. r\<lparr>lx_state := LabConfirmed, lx_updated_at := ?ts\<rparr>) (lab_rows db1),
      lab_events := es\<rparr>"
  have t2: "lab_transition jcs (lx_id row) LabNeedsRecovery LabConfirmed ''recovery_confirmed_signature''
      [(KStr ''signature'', opt_text (lx_signature row))] later db1 = (db2, Inr ())"
    using s1 id ts(1) es assms(3)
    by (simp add: lab_transition_def require_execution_def bind_text_def lab_write_def transaction_def db2_def)
  have s2: "select_row lx_id (lab_rows db2) (lx_id row) = Some ((?f row)\<lparr>lx_state := LabConfirmed, lx_updated_at := ?ts\<rparr>)"
    using s1 by (simp add: db2_def lab_table.upd_read)
  have "lab_recover jcs (lx_id row) later (db, c) = ((db2, c), Inr (recovery_result
      ((?f row)\<lparr>lx_state := LabConfirmed, lx_updated_at := ?ts\<rparr>) ''confirmed'' ?ts))"
    using ts(1) t1 o t2 s2 id assms(3)
    by (simp add: lab_recover_def transaction_def recover_record_def Let_def lab_status_def require_execution_def bind_text_def)
  with s2 b show ?thesis by (simp add: recovery_result_def item_def)
qed

section \<open>A run\<close>

text \<open>Register, sign, broadcast and lose the response; digests stay symbolic.\<close>

definition lab_event_after :: "string \<Rightarrow> string \<Rightarrow> pydict \<Rightarrow> string \<Rightarrow> lab_event list \<Rightarrow> lab_event" where
  "lab_event_after rid t p ts es =
     (let previous = (case newest_by le_sequence (filter (\<lambda>e. le_owner e = rid) es) of
                        None \<Rightarrow> ''genesis'' | Some e \<Rightarrow> le_hash e)
      in \<lparr>le_sequence = int (length es) + 1, le_owner = rid, le_type = t, le_payload = PDict p, le_previous = previous,
          le_hash = sha256_digest (example_jcs_text (event_body rid t (PDict p) previous ts)), le_recorded_at = ts\<rparr>)"

lemma example_jcs_total: "\<forall>v. reject_unsupported_json v ''$'' = Inr () \<longrightarrow> example_jcs v \<noteq> None"
  by (simp add: example_jcs_def)

lemma lab_event_after_append:
  assumes "lab_log_ok example_jcs es" "\<not> has_surrogate rid" "\<not> has_surrogate t" "\<not> has_surrogate ts"
    "reject_unsupported_json (PDict p) ''$.payload'' = Inr ()" "plain_payload p"
  shows "lab_append_event example_jcs rid t p ts es = Inr (es @ [lab_event_after rid t p ts es])"
    "lab_log_ok example_jcs (es @ [lab_event_after rid t p ts es])"
proof -
  obtain es' where es': "lab_append_event example_jcs rid t p ts es = Inr es'"
    using lab_append_event_total [OF example_jcs_total assms] by blast
  have "b = example_jcs_text v" if "canonicalize example_jcs v = Inr b" for v b
    using canonicalize_Inr [OF that] by (simp add: example_jcs_def)
  with es' assms(6) show a: "lab_append_event example_jcs rid t p ts es = Inr (es @ [lab_event_after rid t p ts es])"
    by (auto simp: lab_append_event_def lab_event_after_def plain_payload_def bind_res_eq_Inr Let_def
        simp del: example_jcs_text.simps json_dumps.simps)
  show "lab_log_ok example_jcs (es @ [lab_event_after rid t p ts es])"
    by (rule lab_append_eventE [OF a assms(1,6)]) simp
qed

definition lab_row_1 :: lab_row where
  "lab_row_1 = \<lparr>lx_id = ''req-1'', lx_obligation = ''ob-1'', lx_message_hash = ''hash'',
     lx_valid_until = ''2026-02-03T00:00:30Z'', lx_state = LabAuthorized, lx_signature = None, lx_signed_hash = None,
     lx_broadcasts = 0, lx_recoveries = 0, lx_created_at = ''2026-02-03T00:00:00Z'', lx_updated_at = ''2026-02-03T00:00:00Z''\<rparr>"

definition lab_payload_1 :: pydict where
  "lab_payload_1 = [(KStr ''message_hash'', PStr ''hash''), (KStr ''obligation_id'', PStr ''ob-1'')]"

definition lab_db_1 :: lab_db where
  "lab_db_1 = \<lparr>lab_rows = [lab_row_1],
     lab_events = [lab_event_after ''req-1'' ''execution_registered'' lab_payload_1 ''2026-02-03T00:00:00Z'' []]\<rparr>"

lemma lab_texts:
  "\<not> has_surrogate ''req-1''" "\<not> has_surrogate ''ob-1''" "\<not> has_surrogate ''hash''" "\<not> has_surrogate ''sig''"
  "\<not> has_surrogate ''2026-02-03T00:00:00Z''" "\<not> has_surrogate ''execution_registered''"
  "\<not> has_surrogate ''signature_persisted''" "\<not> has_surrogate ''broadcast_intent_persisted''"
  "\<not> has_surrogate ''broadcast_outcome_unknown''" "\<not> has_surrogate ''response lost after accepted broadcast''"
  by code_simp+

lemma lab_clock: "lab_timestamp grant_now = Inr ''2026-02-03T00:00:00Z''"
  "lab_timestamp (utc_datetime grant_end) = Inr ''2026-02-03T00:00:30Z''"
  by (simp_all add: lab_timestamp_def aware_instant_def grant_texts grant_end_def)

lemma lab_log_Nil: "lab_log_ok jcs []"
  by (simp add: lab_log_ok_def)

lemma lab_registered:
  "lab_register example_jcs ''req-1'' ''ob-1'' ''hash'' (utc_datetime grant_end) grant_now lab_db_init = (lab_db_1, Inr ())"
  "lab_log_ok example_jcs (lab_events lab_db_1)"
proof -
  have a: "lab_append_event example_jcs ''req-1'' ''execution_registered'' lab_payload_1 ''2026-02-03T00:00:00Z'' [] =
      Inr ([] @ [lab_event_after ''req-1'' ''execution_registered'' lab_payload_1 ''2026-02-03T00:00:00Z'' []])"
    "lab_log_ok example_jcs ([] @ [lab_event_after ''req-1'' ''execution_registered'' lab_payload_1 ''2026-02-03T00:00:00Z'' []])"
    by (rule lab_event_after_append; simp add: lab_log_Nil lab_texts lab_payload_1_def)+
  then show "lab_log_ok example_jcs (lab_events lab_db_1)" by (simp add: lab_db_1_def)
  from a(1) show "lab_register example_jcs ''req-1'' ''ob-1'' ''hash'' (utc_datetime grant_end) grant_now lab_db_init = (lab_db_1, Inr ())"
    by (simp add: lab_register_def lab_clock lab_db_init_def bind_text_def lab_texts select_row_def transaction_def
        lab_payload_1_def [symmetric] lab_db_1_def lab_row_1_def insert_row_def)
qed

definition lab_payload_2 :: pydict where
  "lab_payload_2 = [(KStr ''signature'', PStr ''sig''), (KStr ''signed_transaction_hash'', PStr ''hash'')]"

definition lab_payload_3 :: pydict where
  "lab_payload_3 = [(KStr ''attempt'', PInt 1), (KStr ''signature'', PStr ''sig'')]"

definition lab_payload_4 :: pydict where
  "lab_payload_4 = [(KStr ''reason'', PStr ''response lost after accepted broadcast'')]"

definition lab_next :: "lab_row \<Rightarrow> string \<Rightarrow> pydict \<Rightarrow> lab_db \<Rightarrow> lab_db" where
  "lab_next row t p db = \<lparr>lab_rows = [row],
     lab_events = lab_events db @ [lab_event_after ''req-1'' t p ''2026-02-03T00:00:00Z'' (lab_events db)]\<rparr>"

definition lab_row_2 :: lab_row where
  "lab_row_2 = lab_row_1\<lparr>lx_state := LabSigned, lx_signature := Some ''sig'', lx_signed_hash := Some ''hash''\<rparr>"

definition lab_db_2 :: lab_db where
  "lab_db_2 = lab_next lab_row_2 ''signature_persisted'' lab_payload_2 lab_db_1"

definition lab_row_3 :: lab_row where
  "lab_row_3 = lab_row_2\<lparr>lx_state := LabInFlight, lx_broadcasts := 1\<rparr>"

definition lab_db_3 :: lab_db where
  "lab_db_3 = lab_next lab_row_3 ''broadcast_intent_persisted'' lab_payload_3 lab_db_2"

definition lab_row_4 :: lab_row where
  "lab_row_4 = lab_row_3\<lparr>lx_state := LabNeedsRecovery\<rparr>"

definition lab_db_4 :: lab_db where
  "lab_db_4 = lab_next lab_row_4 ''broadcast_outcome_unknown'' lab_payload_4 lab_db_3"

definition lab_chain_4 :: sim_chain where
  "lab_chain_4 = \<lparr>chain_effects = [(''ob-1'', Some ''sig'')], chain_calls = 1, observation_mode = ObserveAvailable\<rparr>"

lemma lab_payload_plain [simp]: "plain_payload lab_payload_2" "plain_payload lab_payload_3" "plain_payload lab_payload_4"
  using plain_payloads(4) [of "Some ''sig''"] by (simp_all add: lab_payload_2_def lab_payload_3_def lab_payload_4_def opt_text_def)

lemma lab_payload_values [simp]:
  "reject_unsupported_json (PDict lab_payload_2) ''$.payload'' = Inr ()"
  "reject_unsupported_json (PDict lab_payload_3) ''$.payload'' = Inr ()"
  "reject_unsupported_json (PDict lab_payload_4) ''$.payload'' = Inr ()"
  by code_simp+

lemma lab_journal:
  assumes "lab_log_ok example_jcs (lab_events db)" "lab_rows db = [row]" "lx_id row = ''req-1''"
    "\<not> has_surrogate t" "plain_payload p" "reject_unsupported_json (PDict p) ''$.payload'' = Inr ()"
    "(f row)\<lparr>lx_updated_at := ''2026-02-03T00:00:00Z''\<rparr> = row'"
  shows "lab_write example_jcs ''req-1'' f t p ''2026-02-03T00:00:00Z'' db = Inr (lab_next row' t p db) \<and>
    lab_log_ok example_jcs (lab_events (lab_next row' t p db))"
proof -
  note a = lab_event_after_append [OF assms(1) lab_texts(1) assms(4) lab_texts(5) assms(6,5)]
  from a assms(2,3,7) show ?thesis
    by (simp add: lab_write_def lab_next_def update_row_def)
qed

lemma lab_rows_at [simp]: "lab_rows lab_db_1 = [lab_row_1]" "lab_rows lab_db_2 = [lab_row_2]"
  "lab_rows lab_db_3 = [lab_row_3]" "lab_rows lab_db_4 = [lab_row_4]"
  by (simp_all add: lab_db_1_def lab_db_2_def lab_db_3_def lab_db_4_def lab_next_def)

lemma lab_persisted:
  "persist_signature example_jcs ''req-1'' ''sig'' ''hash'' grant_now None lab_db_1 = (lab_db_2, Inr ())"
  "lab_log_ok example_jcs (lab_events lab_db_2)"
proof -
  have j: "lab_write example_jcs ''req-1'' (\<lambda>r. r\<lparr>lx_state := LabSigned, lx_signature := Some ''sig'', lx_signed_hash := Some ''hash''\<rparr>)
      ''signature_persisted'' lab_payload_2 ''2026-02-03T00:00:00Z'' lab_db_1 = Inr lab_db_2 \<and> lab_log_ok example_jcs (lab_events lab_db_2)"
    unfolding lab_db_2_def
    by (rule lab_journal [OF lab_registered(2), of lab_row_1])
      (simp_all add: lab_texts lab_row_1_def lab_row_2_def del: reject_unsupported_json.simps)
  then show "lab_log_ok example_jcs (lab_events lab_db_2)" by simp
  from j show "persist_signature example_jcs ''req-1'' ''sig'' ''hash'' grant_now None lab_db_1 = (lab_db_2, Inr ())"
    by (simp add: persist_signature_def persist_signature_tx_def lab_clock require_execution_def bind_text_def lab_texts
        select_row_def lab_row_1_def transaction_def lab_payload_2_def)
qed

lemma lab_intended:
  "execute_intent_tx example_jcs ''req-1'' grant_now lab_db_2 = Inr (lab_db_3, lab_row_2, False)"
  "lab_log_ok example_jcs (lab_events lab_db_3)"
proof -
  have j: "lab_write example_jcs ''req-1'' (\<lambda>r. r\<lparr>lx_state := LabInFlight, lx_broadcasts := lx_broadcasts r + 1\<rparr>)
      ''broadcast_intent_persisted'' lab_payload_3 ''2026-02-03T00:00:00Z'' lab_db_2 = Inr lab_db_3 \<and> lab_log_ok example_jcs (lab_events lab_db_3)"
    unfolding lab_db_3_def
    by (rule lab_journal [OF lab_persisted(2), of lab_row_2])
      (simp_all add: lab_texts lab_row_1_def lab_row_2_def lab_row_3_def del: reject_unsupported_json.simps)
  then show "lab_log_ok example_jcs (lab_events lab_db_3)" by simp
  have "strptime_any ''2026-02-03T00:00:30Z'' = Some 63905760030000000" by (rule strptime_any_full) (simp add: grant_texts)
  with j show "execute_intent_tx example_jcs ''req-1'' grant_now lab_db_2 = Inr (lab_db_3, lab_row_2, False)"
    by (simp add: execute_intent_tx_def lab_clock require_execution_def bind_text_def lab_texts select_row_def
        lab_row_2_def lab_row_1_def lab_payload_3_def opt_text_def)
qed

lemma lab_lost:
  "lab_execute example_jcs ''req-1'' grant_now ModeResponseLost None (lab_db_2, sim_chain_init) =
     ((lab_db_4, lab_chain_4), Inl (lab_error ''BroadcastOutcomeUnknown'' ''response lost after accepted broadcast''))"
proof -
  have j: "lab_write example_jcs ''req-1'' (\<lambda>r. r\<lparr>lx_state := LabNeedsRecovery\<rparr>)
      ''broadcast_outcome_unknown'' lab_payload_4 ''2026-02-03T00:00:00Z'' lab_db_3 = Inr lab_db_4 \<and> lab_log_ok example_jcs (lab_events lab_db_4)"
    unfolding lab_db_4_def
    by (rule lab_journal [OF lab_intended(2), of lab_row_3])
      (simp_all add: lab_texts lab_row_1_def lab_row_2_def lab_row_3_def lab_row_4_def del: reject_unsupported_json.simps)
  then have m: "lab_mark_needs_recovery example_jcs ''req-1'' grant_now ''response lost after accepted broadcast'' lab_db_3 = (lab_db_4, Inr ())"
    by (simp add: lab_mark_needs_recovery_def lab_transition_def lab_clock require_execution_def bind_text_def lab_texts
        select_row_def lab_row_3_def lab_row_2_def lab_row_1_def transaction_def lab_payload_4_def)
  have "broadcast (Some ''sig'') ''ob-1'' ModeResponseLost sim_chain_init =
      (lab_chain_4, Inl (lab_error ''BroadcastOutcomeUnknown'' ''response lost after accepted broadcast''))"
    by (simp add: broadcast_def sim_chain_init_def lab_chain_4_def)
  moreover have "lx_signature lab_row_2 = Some ''sig''" "lx_obligation lab_row_2 = ''ob-1''"
    by (simp_all add: lab_row_2_def lab_row_1_def)
  ultimately show ?thesis
    using m by (simp add: lab_execute_def transaction_def lab_intended(1) execute_outcome_def then_raise_def lab_error_def)
qed

lemma lab_run: "(lab_step example_jcs)\<^sup>*\<^sup>* (lab_db_init, sim_chain_init) (lab_db_4, lab_chain_4)"
proof -
  have a: "lab_step example_jcs (lab_db_init, sim_chain_init) (lab_db_1, sim_chain_init)"
    using lab_step.register [of example_jcs lab_db_init sim_chain_init "''req-1''" "''ob-1''" "''hash''" "utc_datetime grant_end" grant_now]
    by (simp add: lab_registered)
  have b: "lab_step example_jcs (lab_db_1, sim_chain_init) (lab_db_2, sim_chain_init)"
    using lab_step.persist [of example_jcs lab_db_1 sim_chain_init "''req-1''" "''sig''" "''hash''" grant_now None]
    by (simp add: lab_persisted)
  have c: "lab_step example_jcs (lab_db_2, sim_chain_init) (lab_db_4, lab_chain_4)"
    using lab_step.execute [of example_jcs "(lab_db_2, sim_chain_init)" "''req-1''" grant_now ModeResponseLost None]
    by (simp add: lab_lost)
  from a have "(lab_step example_jcs)\<^sup>*\<^sup>* (lab_db_init, sim_chain_init) (lab_db_1, sim_chain_init)" ..
  also have "(lab_step example_jcs)\<^sup>*\<^sup>* (lab_db_1, sim_chain_init) (lab_db_2, sim_chain_init)" using b ..
  also have "(lab_step example_jcs)\<^sup>*\<^sup>* (lab_db_2, sim_chain_init) (lab_db_4, lab_chain_4)" using c ..
  finally show ?thesis .
qed

theorem lab_broadcasts_once_witness:
  "int (chain_calls lab_chain_4) \<le> sum_list (map lx_broadcasts (lab_rows lab_db_4)) \<and> chain_calls lab_chain_4 = 1"
  using lab_broadcasts_once [OF lab_run] by (simp add: lab_chain_4_def)

theorem lab_evidence_sound_witness:
  "\<exists>ev. lab_evidence example_jcs ''req-1'' ''lost response'' 1 lab_db_4 = Inr ev \<and>
     item ev ''obligation_id'' = PStr ''ob-1''"
proof -
  have "lab_row_4 \<in> set (lab_rows lab_db_4)" by simp
  from lab_evidence_sound [OF lab_run this, of "''lost response''" 1] show ?thesis
    by (auto simp: lab_row_4_def lab_row_3_def lab_row_2_def lab_row_1_def)
qed

theorem lab_recovery_confirms_witness:
  "\<exists>db' res r. lab_recover example_jcs ''req-1'' (utc_datetime grant_end) (lab_db_4, lab_chain_4) = ((db', lab_chain_4), Inr res) \<and>
    item res ''outcome'' = PStr ''confirmed'' \<and> select_row lx_id (lab_rows db') ''req-1'' = Some r \<and>
    lx_state r = LabConfirmed"
proof -
  have "four_digit_year grant_end" by code_simp
  with lab_recovery_confirms [OF lab_run, of lab_row_4 "utc_datetime grant_end"] show ?thesis
    using example_jcs_total by (auto simp: lab_row_4_def lab_row_3_def lab_row_2_def lab_row_1_def lab_chain_4_def)
qed

end
