(* ===== verification/Hmac.thy ===== *)
theory Hmac
  imports Sha256
begin

unbundle bit_operations_syntax

text \<open>
  HMAC (RFC 2104) over SHA-256 as \<^verbatim>\<open>hmac.new(key, message, hashlib.sha256).hexdigest()\<close> computes it, on
  bytes as characters, and \<^verbatim>\<open>hmac.compare_digest\<close> on two texts. Like a digest, an authenticator is only
  known by its shape: no theorem assumes that one cannot be forged.
\<close>

definition sha256_raw :: "string \<Rightarrow> nat list" where
  "sha256_raw b = concat (map (\<lambda>w. be_bytes 4 (unat w)) (sha256_words (map of_char b)))"

definition hmac_block :: "string \<Rightarrow> nat list" where
  "hmac_block key =
     (let k = (if 64 < length key then sha256_raw key else map of_char key) in k @ replicate (64 - length k) 0)"

definition hmac_sha256_hex :: "string \<Rightarrow> string \<Rightarrow> string" where
  "hmac_sha256_hex key message =
     (let k = hmac_block key;
          inner = sha256_raw (map char_of (map (\<lambda>b. b XOR 54) k) @ message)
      in sha256_hex (map char_of (map (\<lambda>b. b XOR 92) k @ inner)))"

definition is_ascii :: "string \<Rightarrow> bool" where
  "is_ascii s \<longleftrightarrow> list_all (\<lambda>c. of_char c < (128::nat)) s"

definition compare_digest :: "string \<Rightarrow> string \<Rightarrow> bool res" where
  "compare_digest a b = (if is_ascii a \<and> is_ascii b then Inr (a = b) else Inl (PyRaise ''TypeError''))"

section \<open>Shape of an authenticator\<close>

lemma length_sha256_raw: "length (sha256_raw b) = 32"
  by (simp add: sha256_raw_def be_bytes_def length_concat_const [where n = 4])

lemma length_hmac_block: "length (hmac_block key) = 64"
  by (simp add: hmac_block_def length_sha256_raw Let_def)

interpretation hmac: hex_digest "hmac_sha256_hex key" for key
proof
  show "length (hmac_sha256_hex key b) = 64" for b
    by (simp add: hmac_sha256_hex_def Let_def sha.digest_length)
  show "list_all is_hex (hmac_sha256_hex key b)" for b
    by (simp add: hmac_sha256_hex_def Let_def sha.digest_hex)
qed

lemma hex_is_ascii: "list_all is_hex s \<Longrightarrow> is_ascii s"
  by (auto simp: is_ascii_def list_all_iff is_hex_def is_digit_def in_range_def)

lemma hmac_ascii: "is_ascii (hmac_sha256_hex key b)"
  by (rule hex_is_ascii) (rule hmac.digest_hex)

end
