(* ===== verification/Fake_Executor.thy ===== *)
theory Fake_Executor
  imports Exec_Checks Strptime Hmac Channel
begin

text \<open>
  \<^verbatim>\<open>foundry_external_execution_protocol/fake_executor.py\<close>: the authority that authenticates authorizations
  with a shared key (\<^verbatim>\<open>FakeAuthorizationAuthority\<close>) and the executor that applies an obligation at most
  once (\<^verbatim>\<open>FakeExternalExecutor\<close>) over its three tables. The subclasses of \<^verbatim>\<open>FakeExecutorError\<close> are the codes
  of one class. A stored JSON text is the object it reads back as.
\<close>

definition fx_error :: "string \<Rightarrow> exn" where
  "fx_error subclass = Exn FakeExecutorError subclass []"

abbreviation fx_failed :: exn where
  "fx_failed \<equiv> fx_error ''FakeExecutorError''"

abbreviation fx_invalid :: exn where
  "fx_invalid \<equiv> fx_error ''AuthorizationInvalid''"

abbreviation fx_mismatch :: exn where
  "fx_mismatch \<equiv> fx_error ''AuthorizationMismatch''"

abbreviation fx_already :: exn where
  "fx_already \<equiv> fx_error ''ObligationAlreadyExecuted''"

text \<open>\<^verbatim>\<open>_json\<close>, bound to a TEXT column: the driver refuses a text that UTF-8 cannot encode.\<close>

definition fx_json :: "pydict \<Rightarrow> pydict res" where
  "fx_json d =
     bind_res (json_text d) (\<lambda>stored.
     bind_res (reject_if (items_surrogate stored) (PyRaise ''UnicodeEncodeError'')) (\<lambda>_. Inr stored))"

definition fx_timestamp :: "pyval \<Rightarrow> int res" where
  "fx_timestamp v =
     (case v of
        PStr s \<Rightarrow> (case strptime_any s of None \<Rightarrow> Inl fx_invalid | Some t \<Rightarrow> Inr t)
      | _ \<Rightarrow> Inl fx_invalid)"

definition require_exact_keys :: "exn \<Rightarrow> pydict \<Rightarrow> string list \<Rightarrow> unit res" where
  "require_exact_keys e d required = bind_res (closed_or e False (PDict d) required []) (\<lambda>_. Inr ())"

section \<open>The authority\<close>

definition fa_fields :: "string list" where
  "fa_fields =
     [''type'', ''protocol_version'', ''authorization_id'', ''execution_request_id'',
      ''execution_commitment_hash'', ''prepared_message_hash'', ''signer'', ''single_use'', ''issued_at'',
      ''expires_at'']"

definition fa_signed_fields :: "string list" where
  "fa_signed_fields = fa_fields @ [''authorization_signature'']"

text \<open>The constructor takes the key; anything but bytes is \<open>None\<close>.\<close>

definition fake_authority :: "string option \<Rightarrow> string res" where
  "fake_authority key =
     (case key of
        None \<Rightarrow> Inl (PyRaise ''ValueError'')
      | Some k \<Rightarrow> (if length k < 32 then Inl (PyRaise ''ValueError'') else Inr k))"

definition fa_signature :: "serializer \<Rightarrow> string \<Rightarrow> pydict \<Rightarrow> string res" where
  "fa_signature jcs key payload =
     bind_res (canonicalize jcs (PDict payload)) (\<lambda>b. Inr (''hmac-sha256:'' @ hmac_sha256_hex key b))"

definition fa_payload :: "pydict \<Rightarrow> string \<Rightarrow> string \<Rightarrow> string \<Rightarrow> bool \<Rightarrow> pydict" where
  "fa_payload prepared authorization_id issued_at expires_at single_use =
     [(KStr ''type'', PStr ''execution_authorization''), (KStr ''protocol_version'', PStr ''1.0.0''),
      (KStr ''authorization_id'', PStr authorization_id),
      (KStr ''execution_request_id'', item prepared ''execution_request_id''),
      (KStr ''execution_commitment_hash'', item prepared ''execution_commitment_hash''),
      (KStr ''prepared_message_hash'', item prepared ''prepared_message_hash''),
      (KStr ''signer'', item prepared ''signer''), (KStr ''single_use'', PBool single_use),
      (KStr ''issued_at'', PStr issued_at), (KStr ''expires_at'', PStr expires_at)]"

definition fa_issue :: "serializer \<Rightarrow> string \<Rightarrow> pydict \<Rightarrow> string \<Rightarrow> string \<Rightarrow> string \<Rightarrow> bool \<Rightarrow> pydict res" where
  "fa_issue jcs key prepared authorization_id issued_at expires_at single_use =
     bind_res (reject_if (missing_keys [''execution_request_id'', ''execution_commitment_hash'',
         ''prepared_message_hash'', ''signer''] prepared \<noteq> []) (PyRaise ''KeyError'')) (\<lambda>_.
     let payload = fa_payload prepared authorization_id issued_at expires_at single_use in
     bind_res (fa_signature jcs key payload) (\<lambda>signature.
     Inr (payload @ [(KStr ''authorization_signature'', PStr signature)])))"

text \<open>
  \<^verbatim>\<open>verify\<close> rebuilds the payload by iterating over a set, in no fixed order; the serializer sorts keys,
  so the model takes the order in which the fields are declared.
\<close>

definition fa_verify :: "serializer \<Rightarrow> string \<Rightarrow> pydict \<Rightarrow> bool res" where
  "fa_verify jcs key authorization =
     (if missing_keys fa_signed_fields authorization \<noteq> [] \<or> unknown_keys fa_signed_fields authorization \<noteq> []
      then Inr False
      else case item authorization ''authorization_signature'' of
        PStr signature \<Rightarrow>
          bind_res (fa_signature jcs key (map (\<lambda>k. (KStr k, item authorization k)) fa_fields)) (\<lambda>expected.
          compare_digest signature expected)
      | _ \<Rightarrow> Inr False)"

section \<open>The tables\<close>

datatype fx_state = FxPrepared | FxAuthorized | FxConfirmed

record fx_row =
  fx_id :: string
  fx_key :: string
  fx_obligation :: string
  fx_fingerprint :: string
  fx_stage :: fx_state
  fx_prepared :: pydict
  fx_authorization :: "string option"
  fx_signature :: "string option"
  fx_receipt :: "pydict option"
  fx_created_at :: string
  fx_updated_at :: string

record fx_consumption =
  fc_id :: string
  fc_request :: string
  fc_consumed_at :: string

record fx_effect =
  ef_obligation :: string
  ef_request :: string
  ef_applied_at :: string

record fx_db =
  fx_rows :: "fx_row list"
  fx_consumptions :: "fx_consumption list"
  fx_effects :: "fx_effect list"

definition fx_init :: fx_db where
  "fx_init = \<lparr>fx_rows = [], fx_consumptions = [], fx_effects = []\<rparr>"

text \<open>
  A bound parameter compared with or stored in a TEXT column: an integer counts as its text, a boolean
  as 1 or 0, and the driver refuses lists and dictionaries.
\<close>

fun bound_text :: "pyval \<Rightarrow> string res" where
  "bound_text (PStr s) = (if has_surrogate s then Inl (PyRaise ''UnicodeEncodeError'') else Inr s)"
| "bound_text (PInt i) = (if sqlite_integer i then Inr (str_int i) else Inl (PyRaise ''OverflowError''))"
| "bound_text (PBool b) = Inr (if b then ''1'' else ''0'')"
| "bound_text _ = Inl (PyRaise ''InterfaceError'')"

section \<open>Preparing\<close>

record fake_executor =
  fe_key :: string
  fe_executor_id :: string
  fe_executor_version :: string

definition fx_request_fields :: "string list" where
  "fx_request_fields =
     [''type'', ''protocol_version'', ''execution_request_id'', ''idempotency_key'', ''economic_plan'',
      ''economic_plan_hash'', ''economic_approval'']"

text \<open>The request names a plan, its hash and an approval of that hash.\<close>

definition fx_check_request :: "serializer \<Rightarrow> pydict \<Rightarrow> (pydict \<times> string \<times> pydict) res" where
  "fx_check_request jcs request =
     bind_res (require_exact_keys fx_failed request fx_request_fields) (\<lambda>_.
     bind_res (reject_if (item request ''type'' \<noteq> PStr ''external_execution_request'') fx_failed) (\<lambda>_.
     bind_res (reject_if (item request ''protocol_version'' \<noteq> PStr ''1.0.0'') fx_failed) (\<lambda>_.
     bind_res (normalize_economic_plan (item request ''economic_plan'')) (\<lambda>plan.
     bind_res (economic_plan_hash jcs (PDict plan)) (\<lambda>plan_hash.
     bind_res (reject_if (item request ''economic_plan_hash'' \<noteq> PStr plan_hash) fx_failed) (\<lambda>_.
     case item request ''economic_approval'' of
       PDict approval \<Rightarrow>
         bind_res (reject_if (item approval ''economic_plan_hash'' \<noteq> PStr plan_hash) fx_failed) (\<lambda>_.
         Inr (plan, plan_hash, approval))
     | _ \<Rightarrow> Inl fx_failed))))))"

definition fx_check_windows :: "pydict \<Rightarrow> pydict \<Rightarrow> pydict \<Rightarrow> string \<Rightarrow> int \<Rightarrow> unit res" where
  "fx_check_windows plan approval simulation expires_at current =
     bind_res (fx_timestamp (item approval ''expires_at'')) (\<lambda>approval_expiry.
     bind_res (reject_if (approval_expiry \<le> current) fx_failed) (\<lambda>_.
     bind_res (fx_timestamp (item plan ''expires_at'')) (\<lambda>plan_expiry.
     bind_res (reject_if (plan_expiry \<le> current) fx_failed) (\<lambda>_.
     bind_res (fx_timestamp (PStr expires_at)) (\<lambda>prepared_expiry.
     bind_res (reject_if (prepared_expiry \<le> current) fx_failed) (\<lambda>_.
     bind_res (reject_if (item simulation ''success'' \<noteq> PBool True) fx_failed) (\<lambda>_.
     bind_res (fx_timestamp (item simulation ''valid_until'')) (\<lambda>simulation_valid_until.
     bind_res (reject_if (simulation_valid_until \<le> current) fx_failed) (\<lambda>_.
     bind_res (reject_if (simulation_valid_until < prepared_expiry) fx_failed) (\<lambda>_.
     reject_if (plan_expiry < prepared_expiry) fx_failed))))))))))"

definition fx_message :: "serializer \<Rightarrow> pydict \<Rightarrow> string res" where
  "fx_message jcs plan =
     bind_res (canonicalize jcs (PDict plan)) (\<lambda>b. Inr (''foundry-fake-solana-message-v1'' @ [CHR 0x00] @ b))"

text \<open>The commitment of a prepared execution for an obligation, as \<^verbatim>\<open>_verify_binding\<close> rebuilds it.\<close>

definition fx_commitment :: "pydict \<Rightarrow> pyval \<Rightarrow> pyval" where
  "fx_commitment prepared obligation_id = PDict
     [(KStr ''protocol_version'', item prepared ''protocol_version''),
      (KStr ''normalization_profile'', PStr ''foundry-pay-domain-v1''),
      (KStr ''execution_request_id'', item prepared ''execution_request_id''),
      (KStr ''obligation_id'', obligation_id), (KStr ''executor_id'', item prepared ''executor_id''),
      (KStr ''executor_version'', item prepared ''executor_version''),
      (KStr ''economic_plan_hash'', item prepared ''economic_plan_hash''),
      (KStr ''prepared_message_hash'', item prepared ''prepared_message_hash''),
      (KStr ''simulation_attestation_hash'', item prepared ''simulation_attestation_hash''),
      (KStr ''signer'', item prepared ''signer''), (KStr ''constraints'', item prepared ''constraints''),
      (KStr ''expires_at'', item prepared ''expires_at'')]"

text \<open>The prepared execution, given the hash of its commitment.\<close>

definition fx_prepared_execution ::
  "fake_executor \<Rightarrow> pyval \<Rightarrow> string \<Rightarrow> string \<Rightarrow> string \<Rightarrow> pydict \<Rightarrow> string \<Rightarrow> string \<Rightarrow> string \<Rightarrow> pydict \<Rightarrow>
   string \<Rightarrow> pydict" where
  "fx_prepared_execution ex request_id plan_hash message message_hash simulation simulation_hash commitment_hash
     signer constraints expires_at =
     [(KStr ''type'', PStr ''prepared_execution''), (KStr ''protocol_version'', PStr ''1.0.0''),
      (KStr ''execution_request_id'', request_id), (KStr ''executor_id'', PStr (fe_executor_id ex)),
      (KStr ''executor_version'', PStr (fe_executor_version ex)), (KStr ''economic_plan_hash'', PStr plan_hash),
      (KStr ''prepared_message_base64'', PStr (b64encode message)),
      (KStr ''prepared_message_hash'', PStr message_hash), (KStr ''simulation'', PDict simulation),
      (KStr ''simulation_attestation_hash'', PStr simulation_hash),
      (KStr ''execution_commitment_hash'', PStr commitment_hash), (KStr ''signer'', PStr signer),
      (KStr ''constraints'', PDict constraints), (KStr ''expires_at'', PStr expires_at)]"

text \<open>Everything \<^verbatim>\<open>prepare\<close> computes before it opens its transaction: plan, document and fingerprint.\<close>

definition fx_document ::
  "fake_executor \<Rightarrow> serializer \<Rightarrow> pydict \<Rightarrow> pydict \<Rightarrow> string \<Rightarrow> pydict \<Rightarrow> string \<Rightarrow> py_datetime \<Rightarrow>
   (pydict \<times> pydict \<times> string \<times> int) res" where
  "fx_document ex jcs request simulation signer constraints expires_at now =
     bind_res (fx_check_request jcs request) (\<lambda>(plan, plan_hash, approval).
     bind_res (aware_instant now) (\<lambda>current.
     bind_res (fx_check_windows plan approval simulation expires_at current) (\<lambda>_.
     bind_res (fx_message jcs plan) (\<lambda>message.
     bind_res (prepared_message_hash message) (\<lambda>message_hash.
     bind_res (simulation_attestation_hash jcs (PDict simulation)) (\<lambda>simulation_hash.
     let document = (\<lambda>h. fx_prepared_execution ex (item request ''execution_request_id'') plan_hash message message_hash
           simulation simulation_hash h signer constraints expires_at)
     in bind_res (execution_commitment_hash jcs (fx_commitment (document []) (item plan ''obligation_id''))) (\<lambda>commitment_hash.
     bind_res (canonicalize jcs (PDict
       [(KStr ''request'', PDict request), (KStr ''simulation'', PDict simulation), (KStr ''signer'', PStr signer),
        (KStr ''constraints'', PDict constraints), (KStr ''expires_at'', PStr expires_at)])) (\<lambda>b.
     Inr (plan, document commitment_hash, sha256_digest b, current)))))))))"

definition fx_prepare_tx ::
  "pyval \<Rightarrow> pyval \<Rightarrow> pyval \<Rightarrow> string \<Rightarrow> pydict \<Rightarrow> string \<Rightarrow> fx_db \<Rightarrow> (fx_db \<times> pydict) res" where
  "fx_prepare_tx request_id idempotency_key obligation_id fingerprint prepared timestamp db =
     bind_res (bound_text request_id) (\<lambda>rid.
     bind_res (bound_text idempotency_key) (\<lambda>key.
     case find (\<lambda>r. fx_id r = rid \<or> fx_key r = key) (fx_rows db) of
       Some existing \<Rightarrow>
         (if fx_fingerprint existing \<noteq> fingerprint then Inl (fx_error ''IdempotencyConflict'')
          else Inr (db, fx_prepared existing))
     | None \<Rightarrow>
         bind_res (bound_text obligation_id) (\<lambda>obligation.
         bind_res (reject_if (select_row ef_obligation (fx_effects db) obligation \<noteq> None) fx_already) (\<lambda>_.
         bind_res (fx_json prepared) (\<lambda>stored.
         Inr (db\<lparr>fx_rows := insert_row
                \<lparr>fx_id = rid, fx_key = key, fx_obligation = obligation, fx_fingerprint = fingerprint,
                 fx_stage = FxPrepared, fx_prepared = stored, fx_authorization = None, fx_signature = None,
                 fx_receipt = None, fx_created_at = timestamp, fx_updated_at = timestamp\<rparr> (fx_rows db)\<rparr>, prepared))))))"

definition fx_prepare ::
  "fake_executor \<Rightarrow> serializer \<Rightarrow> pydict \<Rightarrow> pydict \<Rightarrow> string \<Rightarrow> pydict \<Rightarrow> string \<Rightarrow> py_datetime \<Rightarrow> fx_db \<Rightarrow>
   fx_db \<times> pydict res" where
  "fx_prepare ex jcs request simulation signer constraints expires_at now db =
     transaction db
       (bind_res (fx_document ex jcs request simulation signer constraints expires_at now)
         (\<lambda>(plan, prepared, fingerprint, current).
        fx_prepare_tx (item request ''execution_request_id'') (item request ''idempotency_key'')
          (item plan ''obligation_id'') fingerprint prepared (strftime_utc current) db))"

section \<open>Executing\<close>

definition fx_bound_fields :: "string list" where
  "fx_bound_fields = [''execution_request_id'', ''execution_commitment_hash'', ''prepared_message_hash'', ''signer'']"

text \<open>The stored message: a text that is not Base64 is a mismatch.\<close>

definition fx_stored_message :: "pydict \<Rightarrow> string res" where
  "fx_stored_message prepared =
     (case item prepared ''prepared_message_base64'' of
        PStr s \<Rightarrow> (case b64decode_strict s of None \<Rightarrow> Inl fx_mismatch | Some m \<Rightarrow> Inr m)
      | PNone \<Rightarrow> Inl fx_mismatch
      | _ \<Rightarrow> Inl (PyRaise ''TypeError''))"

definition fx_verify_binding :: "serializer \<Rightarrow> pydict \<Rightarrow> pydict \<Rightarrow> int \<Rightarrow> string \<Rightarrow> unit res" where
  "fx_verify_binding jcs authorization prepared current obligation_id =
     bind_res (run_all (map (\<lambda>f. reject_if (\<not> py_eq (item authorization f) (item prepared f)) fx_mismatch)
       fx_bound_fields)) (\<lambda>_.
     bind_res (fx_stored_message prepared) (\<lambda>message.
     bind_res (prepared_message_hash message) (\<lambda>h.
     bind_res (reject_if (PStr h \<noteq> item prepared ''prepared_message_hash'') fx_mismatch) (\<lambda>_.
     bind_res (simulation_attestation_hash jcs (item prepared ''simulation'')) (\<lambda>s.
     bind_res (reject_if (PStr s \<noteq> item prepared ''simulation_attestation_hash'') fx_mismatch) (\<lambda>_.
     bind_res (execution_commitment_hash jcs (fx_commitment prepared (PStr obligation_id))) (\<lambda>c.
     bind_res (reject_if (PStr c \<noteq> item prepared ''execution_commitment_hash'') fx_mismatch) (\<lambda>_.
     bind_res (fx_timestamp (item prepared ''expires_at'')) (\<lambda>prepared_expiry.
     bind_res (reject_if (prepared_expiry \<le> current) fx_invalid) (\<lambda>_.
     bind_res (fx_timestamp (item authorization ''expires_at'')) (\<lambda>expiry.
     reject_if (prepared_expiry < expiry) fx_invalid)))))))))))"

definition fx_check_authorization :: "fake_executor \<Rightarrow> serializer \<Rightarrow> pydict \<Rightarrow> py_datetime \<Rightarrow> int res" where
  "fx_check_authorization ex jcs authorization now =
     bind_res (require_exact_keys fx_invalid authorization fa_signed_fields) (\<lambda>_.
     bind_res (fa_verify jcs (fe_key ex) authorization) (\<lambda>authentic.
     bind_res (reject_if (\<not> authentic) fx_invalid) (\<lambda>_.
     bind_res (reject_if (item authorization ''type'' \<noteq> PStr ''execution_authorization'') fx_invalid) (\<lambda>_.
     bind_res (reject_if (item authorization ''protocol_version'' \<noteq> PStr ''1.0.0'') fx_invalid) (\<lambda>_.
     bind_res (reject_if (item authorization ''single_use'' \<noteq> PBool True) fx_invalid) (\<lambda>_.
     bind_res (aware_instant now) (\<lambda>current.
     bind_res (fx_timestamp (item authorization ''issued_at'')) (\<lambda>issued_at.
     bind_res (fx_timestamp (item authorization ''expires_at'')) (\<lambda>expires_at.
     bind_res (reject_if (current < issued_at) fx_invalid) (\<lambda>_.
     bind_res (reject_if (expires_at \<le> current) fx_invalid) (\<lambda>_.
     Inr current)))))))))))"

definition fx_receipt_body :: "pyval \<Rightarrow> pydict \<Rightarrow> string \<Rightarrow> string \<Rightarrow> pydict" where
  "fx_receipt_body request_id prepared signature timestamp =
     [(KStr ''type'', PStr ''external_execution_receipt''), (KStr ''protocol_version'', PStr ''1.0.0''),
      (KStr ''execution_request_id'', request_id),
      (KStr ''execution_commitment_hash'', item prepared ''execution_commitment_hash''),
      (KStr ''prepared_message_hash'', item prepared ''prepared_message_hash''),
      (KStr ''transaction_signature'', PStr signature), (KStr ''slot'', PInt 1),
      (KStr ''confirmation_status'', PStr ''confirmed''), (KStr ''observed_at'', PStr timestamp)]"

text \<open>The text that is hashed into a transaction signature; concatenating anything but texts is a TypeError.\<close>

definition fx_transaction_signature :: "pyval \<Rightarrow> pyval \<Rightarrow> string res" where
  "fx_transaction_signature commitment_hash authorization_id =
     (case (commitment_hash, authorization_id) of
        (PStr h, PStr a) \<Rightarrow> Inr (sha256_hex (h @ '':'' @ a))
      | _ \<Rightarrow> Inl (PyRaise ''TypeError''))"

text \<open>What one transaction does to a prepared row once every check has passed.\<close>

definition fx_apply ::
  "serializer \<Rightarrow> pydict \<Rightarrow> string \<Rightarrow> string \<Rightarrow> fx_row \<Rightarrow> string \<Rightarrow> fx_db \<Rightarrow> (fx_db \<times> pydict) res" where
  "fx_apply jcs authorization aid rid row timestamp db =
     (let prepared = fx_prepared row;
          db1 = db\<lparr>fx_consumptions := insert_row \<lparr>fc_id = aid, fc_request = rid, fc_consumed_at = timestamp\<rparr> (fx_consumptions db),
                   fx_rows := update_row fx_id rid (\<lambda>r. r\<lparr>fx_stage := FxAuthorized, fx_authorization := Some aid,
                     fx_updated_at := timestamp\<rparr>) (fx_rows db)\<rparr>
      in bind_res (fx_transaction_signature (item prepared ''execution_commitment_hash'')
           (item authorization ''authorization_id'')) (\<lambda>signature.
         let body = fx_receipt_body (item authorization ''execution_request_id'') prepared signature timestamp in
         bind_res (canonicalize jcs (PDict body)) (\<lambda>b.
         let receipt = body @ [(KStr ''receipt_hash'', PStr (sha256_digest b))] in
         bind_res (reject_if (select_row ef_request (fx_effects db1) rid \<noteq> None) (PyRaise ''IntegrityError'')) (\<lambda>_.
         bind_res (fx_json receipt) (\<lambda>stored.
         Inr (db1\<lparr>fx_effects := insert_row \<lparr>ef_obligation = fx_obligation row, ef_request = rid, ef_applied_at = timestamp\<rparr> (fx_effects db1),
                fx_rows := update_row fx_id rid (\<lambda>r. r\<lparr>fx_stage := FxConfirmed, fx_signature := Some signature,
                  fx_receipt := Some stored, fx_updated_at := timestamp\<rparr>) (fx_rows db1)\<rparr>, receipt))))))"

definition fx_execute_tx ::
  "serializer \<Rightarrow> pydict \<Rightarrow> int \<Rightarrow> fx_db \<Rightarrow> (fx_db \<times> pydict) res" where
  "fx_execute_tx jcs authorization current db =
     bind_res (bound_text (item authorization ''authorization_id'')) (\<lambda>aid.
     bind_res (reject_if (select_row fc_id (fx_consumptions db) aid \<noteq> None) (fx_error ''AuthorizationReplay'')) (\<lambda>_.
     bind_res (bound_text (item authorization ''execution_request_id'')) (\<lambda>rid.
     case select_row fx_id (fx_rows db) rid of
       None \<Rightarrow> Inl fx_mismatch
     | Some row \<Rightarrow>
         bind_res (reject_if (fx_stage row = FxConfirmed) fx_already) (\<lambda>_.
         bind_res (fx_verify_binding jcs authorization (fx_prepared row) current (fx_obligation row)) (\<lambda>_.
         bind_res (reject_if (select_row ef_obligation (fx_effects db) (fx_obligation row) \<noteq> None) fx_already) (\<lambda>_.
         fx_apply jcs authorization aid rid row (strftime_utc current) db))))))"

definition fx_execute ::
  "fake_executor \<Rightarrow> serializer \<Rightarrow> pydict \<Rightarrow> py_datetime \<Rightarrow> string option \<Rightarrow> fx_db \<Rightarrow> fx_db \<times> pydict res" where
  "fx_execute ex jcs authorization now fault db =
     (if fault \<noteq> None \<and> fault \<noteq> Some ''after_commit_before_response'' then (db, Inl (PyRaise ''ValueError''))
      else
        (let m = transaction db
               (bind_res (fx_check_authorization ex jcs authorization now) (\<lambda>current.
                fx_execute_tx jcs authorization current db))
         in (fst m, bind_res (snd m) (\<lambda>receipt.
              if fault \<noteq> None then Inl (fx_error ''ResponseLost'') else Inr receipt))))"

section \<open>Reading\<close>

definition fx_state_text :: "fx_state \<Rightarrow> string" where
  "fx_state_text s = (case s of FxPrepared \<Rightarrow> ''prepared'' | FxAuthorized \<Rightarrow> ''authorized'' | FxConfirmed \<Rightarrow> ''confirmed'')"

definition fx_find :: "string \<Rightarrow> fx_db \<Rightarrow> fx_row res" where
  "fx_find rid db =
     bind_res (bound_text (PStr rid)) (\<lambda>_.
     case select_row fx_id (fx_rows db) rid of None \<Rightarrow> Inl fx_failed | Some row \<Rightarrow> Inr row)"

definition signature_entry :: "string option \<Rightarrow> pydict" where
  "signature_entry s = (case s of None \<Rightarrow> [] | Some t \<Rightarrow> [(KStr ''transaction_signature'', PStr t)])"

definition fx_status :: "string \<Rightarrow> fx_db \<Rightarrow> pydict res" where
  "fx_status rid db =
     bind_res (fx_find rid db) (\<lambda>row.
     Inr ([(KStr ''type'', PStr ''external_execution_status''), (KStr ''protocol_version'', PStr ''1.0.0''),
       (KStr ''execution_request_id'', PStr rid), (KStr ''state'', PStr (fx_state_text (fx_stage row))),
       (KStr ''updated_at'', PStr (fx_updated_at row))] @ signature_entry (fx_signature row)))"

definition fx_read_receipt :: "serializer \<Rightarrow> string \<Rightarrow> fx_db \<Rightarrow> pydict option res" where
  "fx_read_receipt jcs rid db =
     bind_res (fx_find rid db) (\<lambda>row.
     case fx_receipt row of
       None \<Rightarrow> Inr None
     | Some stored \<Rightarrow>
         (let receipt = filter (\<lambda>kv. fst kv \<noteq> KStr ''receipt_hash'') stored;
              receipt_hash = item stored ''receipt_hash''
          in bind_res (canonicalize jcs (PDict receipt)) (\<lambda>b.
             bind_res (reject_if (receipt_hash \<noteq> PStr (sha256_digest b)) fx_failed) (\<lambda>_.
             Inr (Some (receipt @ [(KStr ''receipt_hash'', receipt_hash)]))))))"

definition fx_recover :: "serializer \<Rightarrow> string \<Rightarrow> py_datetime \<Rightarrow> fx_db \<Rightarrow> pydict res" where
  "fx_recover jcs rid observed_at db =
     bind_res (fx_status rid db) (\<lambda>status.
     bind_res
       (if item status ''state'' = PStr ''confirmed'' then
          bind_res (fx_read_receipt jcs rid db) (\<lambda>receipt.
          bind_res (reject_if (receipt = None) fx_failed) (\<lambda>_. Inr (''confirmed'', False)))
        else if item status ''state'' = PStr ''prepared'' then Inr (''failed_before_broadcast'', True)
        else Inr (''unknown'', False)) (\<lambda>(outcome, may_rematerialize).
     bind_res (aware_instant observed_at) (\<lambda>us.
     Inr ([(KStr ''type'', PStr ''recovery_result''), (KStr ''protocol_version'', PStr ''1.0.0''),
       (KStr ''execution_request_id'', PStr rid), (KStr ''outcome'', PStr outcome),
       (KStr ''may_rematerialize'', PBool may_rematerialize), (KStr ''observed_at'', PStr (strftime_utc us))] @
       filter (\<lambda>kv. fst kv = KStr ''transaction_signature'') status))))"

definition fx_effect_count :: "string \<Rightarrow> fx_db \<Rightarrow> nat res" where
  "fx_effect_count obligation db =
     bind_res (bound_text (PStr obligation)) (\<lambda>_.
     Inr (length (filter (\<lambda>e. ef_obligation e = obligation) (fx_effects db))))"

text \<open>Every operation is one transaction, so a process stops before or after it.\<close>

inductive fx_step :: "fake_executor \<Rightarrow> serializer \<Rightarrow> fx_db \<Rightarrow> fx_db \<Rightarrow> bool" for ex jcs where
  prepare: "fx_step ex jcs db (fst (fx_prepare ex jcs request simulation signer constraints expires_at now db))"
| execute: "fx_step ex jcs db (fst (fx_execute ex jcs authorization now fault db))"

end
