(* ===== verification/Fake_Executor_Facts.thy ===== *)
theory Fake_Executor_Facts
  imports Fake_Executor
begin

text \<open>
  What every run of the fake executor keeps: the three tables agree. A confirmed execution has one effect,
  one consumed authorization and a receipt whose hash it can recompute; a prepared one has none of them.
\<close>

section \<open>The invariant\<close>

interpretation fx_table: keyed_table fx_id "select_row fx_id" insert_row "update_row fx_id"
  by (rule keyed_rows)

definition fx_receipt_ok :: "serializer \<Rightarrow> fx_row \<Rightarrow> bool" where
  "fx_receipt_ok jcs r \<longleftrightarrow>
     (\<exists>sg ts b h m stored.
        fx_signature r = Some sg \<and> fx_receipt r = Some stored \<and>
        item (fx_prepared r) ''execution_commitment_hash'' = PStr h \<and>
        item (fx_prepared r) ''prepared_message_hash'' = PStr m \<and>
        canonicalize jcs (PDict (fx_receipt_body (PStr (fx_id r)) (fx_prepared r) sg ts)) = Inr b \<and>
        fx_json (fx_receipt_body (PStr (fx_id r)) (fx_prepared r) sg ts @
          [(KStr ''receipt_hash'', PStr (sha256_digest b))]) = Inr stored)"

definition fx_row_ok :: "serializer \<Rightarrow> fx_db \<Rightarrow> fx_row \<Rightarrow> bool" where
  "fx_row_ok jcs db r \<longleftrightarrow>
     item (fx_prepared r) ''execution_request_id'' = PStr (fx_id r) \<and> \<not> has_surrogate (fx_id r) \<and>
     (case fx_stage r of
        FxPrepared \<Rightarrow> fx_authorization r = None \<and> fx_id r \<notin> ef_request ` set (fx_effects db)
      | FxAuthorized \<Rightarrow> False
      | FxConfirmed \<Rightarrow>
          (fx_obligation r, fx_id r) \<in> (\<lambda>e. (ef_obligation e, ef_request e)) ` set (fx_effects db) \<and>
          (\<exists>a. fx_authorization r = Some a \<and>
             (a, fx_id r) \<in> (\<lambda>c. (fc_id c, fc_request c)) ` set (fx_consumptions db)) \<and>
          fx_receipt_ok jcs r)"

definition fx_ok :: "serializer \<Rightarrow> fx_db \<Rightarrow> bool" where
  "fx_ok jcs db \<longleftrightarrow>
     distinct (map fx_id (fx_rows db)) \<and> distinct (map ef_obligation (fx_effects db)) \<and>
     distinct (map fc_id (fx_consumptions db)) \<and>
     (\<forall>r\<in>set (fx_rows db). fx_row_ok jcs db r) \<and>
     (\<forall>e\<in>set (fx_effects db). \<exists>r\<in>set (fx_rows db). fx_id r = ef_request e \<and> fx_obligation r = ef_obligation e \<and>
        fx_stage r = FxConfirmed) \<and>
     (\<forall>c\<in>set (fx_consumptions db). \<exists>r\<in>set (fx_rows db). fx_id r = fc_request c \<and> fx_authorization r = Some (fc_id c) \<and>
        fx_stage r = FxConfirmed)"

lemma fx_ok_init: "fx_ok jcs fx_init"
  by (simp add: fx_ok_def fx_init_def)

section \<open>Preparing\<close>

lemma bound_text_PStr [simp]: "bound_text (PStr s) = Inr t \<longleftrightarrow> t = s \<and> \<not> has_surrogate s"
  by auto

lemma commitment_request_id:
  assumes "execution_commitment_hash jcs (fx_commitment prepared ob) = Inr h"
  shows "\<exists>s. item prepared ''execution_request_id'' = PStr s"
proof -
  let ?v = "item prepared ''execution_request_id''"
  from assms obtain s where "require_identifier ?v ''$.execution_request_id'' = Inr s"
    by (auto simp: execution_commitment_hash_def fx_commitment_def check_ext_commitment_def item_def
        bind_res_eq_Inr bind_unit_eq_Inr)
  then show ?thesis by (cases ?v) (auto simp: require_identifier_def split: if_splits)
qed

lemma fx_documentE:
  assumes "fx_document ex jcs request simulation signer constraints expires_at now = Inr (plan, prepared, fp, current)"
  obtains s where "item request ''execution_request_id'' = PStr s" "item prepared ''execution_request_id'' = PStr s"
    "fst ` set prepared \<subseteq> range KStr"
proof -
  from assms obtain plan_hash message mh sh ch where
    c: "execution_commitment_hash jcs (fx_commitment (fx_prepared_execution ex (item request ''execution_request_id'') plan_hash
        message mh simulation sh [] signer constraints expires_at) (item plan ''obligation_id'')) = Inr ch"
    and p: "prepared = fx_prepared_execution ex (item request ''execution_request_id'') plan_hash
        message mh simulation sh ch signer constraints expires_at"
    by (auto simp: fx_document_def bind_res_eq_Inr Let_def split: prod.splits)
  have i: "item (fx_prepared_execution ex v plan_hash message mh simulation sh x signer constraints expires_at)
      ''execution_request_id'' = v" for v x
    by (simp add: fx_prepared_execution_def item_def)
  from commitment_request_id [OF c] obtain s where "item request ''execution_request_id'' = PStr s"
    by (auto simp: i)
  moreover have "fst ` set prepared \<subseteq> range KStr" by (simp add: p fx_prepared_execution_def)
  ultimately show ?thesis using that by (simp add: p i)
qed

lemma fx_json_item:
  "fx_json d = Inr e \<Longrightarrow> fst ` set d \<subseteq> range KStr \<Longrightarrow> item d f = PStr s \<Longrightarrow> item e f = PStr s"
  using json_text_item by (auto simp: fx_json_def bind_res_eq_Inr reject_if_eq_Inr)

text \<open>A preparation adds at most one prepared row, with a fresh identifier.\<close>

lemma fx_prepare_txE:
  assumes "fx_prepare_tx (PStr s) key ob fp prepared ts db = Inr (db', p)"
    and "item prepared ''execution_request_id'' = PStr s" "fst ` set prepared \<subseteq> range KStr"
  obtains "db' = db"
  | row where "db' = db\<lparr>fx_rows := insert_row row (fx_rows db)\<rparr>" "select_row fx_id (fx_rows db) (fx_id row) = None"
    "fx_stage row = FxPrepared" "fx_authorization row = None" "\<not> has_surrogate (fx_id row)"
    "item (fx_prepared row) ''execution_request_id'' = PStr (fx_id row)"
proof (cases "db' = db")
  case False
  from assms(1) obtain k where s: "\<not> has_surrogate s" and k: "bound_text key = Inr k"
    by (auto simp: fx_prepare_tx_def bind_res_eq_Inr split: if_splits)
  note assms(1) [unfolded fx_prepare_tx_def]
  with s k False obtain stored o' where
    n: "find (\<lambda>r. fx_id r = s \<or> fx_key r = k) (fx_rows db) = None" and j: "fx_json prepared = Inr stored"
    and db': "db' = db\<lparr>fx_rows := insert_row
                \<lparr>fx_id = s, fx_key = k, fx_obligation = o', fx_fingerprint = fp,
                 fx_stage = FxPrepared, fx_prepared = stored, fx_authorization = None, fx_signature = None,
                 fx_receipt = None, fx_created_at = ts, fx_updated_at = ts\<rparr> (fx_rows db)\<rparr>"
    by (auto simp: bind_res_eq_Inr reject_if_eq_Inr split: option.splits if_splits)
  have "select_row fx_id (fx_rows db) s = None"
    using n by (auto simp: select_row_def find_None_iff)
  moreover have "item stored ''execution_request_id'' = PStr s" by (rule fx_json_item [OF j assms(3,2)])
  ultimately show ?thesis using that(2) [OF db'] s by simp
qed (use that(1) in blast)

lemma fx_row_ok_prepared:
  assumes "fx_ok jcs db" "select_row fx_id (fx_rows db) (fx_id row) = None" "fx_stage row = FxPrepared"
    "fx_authorization row = None" "\<not> has_surrogate (fx_id row)" "item (fx_prepared row) ''execution_request_id'' = PStr (fx_id row)"
  shows "fx_ok jcs (db\<lparr>fx_rows := insert_row row (fx_rows db)\<rparr>)"
proof -
  have "fx_id row \<notin> fx_id ` set (fx_rows db)" using assms(2) by (auto simp: select_row_None)
  moreover from this have "fx_id row \<notin> ef_request ` set (fx_effects db)"
    using assms(1) unfolding fx_ok_def by (metis (no_types, lifting) imageE image_eqI)
  ultimately show ?thesis
    using assms(1,3-) by (auto simp: fx_ok_def insert_row_def fx_row_ok_def split: fx_state.splits)
qed

lemma fx_prepare_ok: "fx_ok jcs db \<Longrightarrow> fx_ok jcs (fst (fx_prepare ex jcs request simulation signer constraints expires_at now db))"
  unfolding fx_prepare_def
proof (rule fst_transaction)
  fix db' x
  assume ok: "fx_ok jcs db" and "bind_res (fx_document ex jcs request simulation signer constraints expires_at now)
      (\<lambda>(plan, prepared, fingerprint, current). fx_prepare_tx (item request ''execution_request_id'')
        (item request ''idempotency_key'') (item plan ''obligation_id'') fingerprint prepared (strftime_utc current) db) = Inr (db', x)"
  then obtain plan prepared fp current where
    d: "fx_document ex jcs request simulation signer constraints expires_at now = Inr (plan, prepared, fp, current)"
    and t: "fx_prepare_tx (item request ''execution_request_id'') (item request ''idempotency_key'')
        (item plan ''obligation_id'') fp prepared (strftime_utc current) db = Inr (db', x)"
    by (auto simp: bind_res_eq_Inr)
  from d obtain s where r: "item request ''execution_request_id'' = PStr s"
    and p: "item prepared ''execution_request_id'' = PStr s" "fst ` set prepared \<subseteq> range KStr"
    by (rule fx_documentE)
  from t [unfolded r] p show "fx_ok jcs db'"
    by (rule fx_prepare_txE) (simp_all add: ok fx_row_ok_prepared)
qed simp

section \<open>Executing\<close>

lemma update_row_twice:
  "(\<And>r. key (f r) = key r) \<Longrightarrow> update_row key k g (update_row key k f t) = update_row key k (\<lambda>r. g (f r)) t"
  by (simp add: update_row_def)

text \<open>What a successful execution found, and what it wrote.\<close>

lemma fx_verify_bindingE:
  assumes "fx_verify_binding jcs a prepared current ob = Inr ()"
  obtains h m where "item prepared ''execution_commitment_hash'' = PStr h" "item prepared ''prepared_message_hash'' = PStr m"
    "execution_commitment_hash jcs (fx_commitment prepared (PStr ob)) = Inr h"
    "\<forall>f\<in>set fx_bound_fields. py_eq (item a f) (item prepared f)"
    "\<exists>t e. fx_timestamp (item prepared ''expires_at'') = Inr t \<and> fx_timestamp (item a ''expires_at'') = Inr e \<and> current < t \<and> e \<le> t"
    "\<exists>message. fx_stored_message prepared = Inr message \<and> m = sha256_digest message"
proof -
  note assms [unfolded fx_verify_binding_def]
  then obtain message m sh h t e where
    f: "run_all (map (\<lambda>f. reject_if (\<not> py_eq (item a f) (item prepared f)) fx_mismatch) fx_bound_fields) = Inr ()"
    and m: "fx_stored_message prepared = Inr message" "prepared_message_hash message = Inr m" "PStr m = item prepared ''prepared_message_hash''"
    and h: "execution_commitment_hash jcs (fx_commitment prepared (PStr ob)) = Inr h" "PStr h = item prepared ''execution_commitment_hash''"
    and t: "fx_timestamp (item prepared ''expires_at'') = Inr t" "\<not> t \<le> current" "fx_timestamp (item a ''expires_at'') = Inr e" "\<not> t < e"
    by (auto simp: bind_res_eq_Inr bind_unit_eq_Inr reject_if_eq_Inr simp del: run_all.simps)
  moreover have "\<forall>f\<in>set fx_bound_fields. py_eq (item a f) (item prepared f)"
    using f by (simp only: run_all_map_reject)
  moreover have "m = sha256_digest message" using m(2) by (auto simp: prepared_message_hash_def split: if_splits)
  ultimately show ?thesis by (intro that [of h m]) force+
qed

lemma fx_applyE:
  assumes "fx_apply jcs a aid rid row ts db = Inr (db', receipt)"
  obtains sg b stored f where
    "db' = \<lparr>fx_rows = update_row fx_id rid f (fx_rows db),
        fx_consumptions = fx_consumptions db @ [\<lparr>fc_id = aid, fc_request = rid, fc_consumed_at = ts\<rparr>],
        fx_effects = fx_effects db @ [\<lparr>ef_obligation = fx_obligation row, ef_request = rid, ef_applied_at = ts\<rparr>]\<rparr>"
    "f = (\<lambda>r. r\<lparr>fx_authorization := Some aid, fx_stage := FxConfirmed, fx_signature := Some sg, fx_receipt := Some stored,
       fx_updated_at := ts\<rparr>)"
    "fx_transaction_signature (item (fx_prepared row) ''execution_commitment_hash'') (item a ''authorization_id'') = Inr sg"
    "canonicalize jcs (PDict (fx_receipt_body (item a ''execution_request_id'') (fx_prepared row) sg ts)) = Inr b"
    "receipt = fx_receipt_body (item a ''execution_request_id'') (fx_prepared row) sg ts @ [(KStr ''receipt_hash'', PStr (sha256_digest b))]"
    "fx_json receipt = Inr stored"
proof -
  from assms obtain sg b stored where
    "fx_transaction_signature (item (fx_prepared row) ''execution_commitment_hash'') (item a ''authorization_id'') = Inr sg"
    "canonicalize jcs (PDict (fx_receipt_body (item a ''execution_request_id'') (fx_prepared row) sg ts)) = Inr b"
    "receipt = fx_receipt_body (item a ''execution_request_id'') (fx_prepared row) sg ts @ [(KStr ''receipt_hash'', PStr (sha256_digest b))]"
    "fx_json receipt = Inr stored"
    "db' = db\<lparr>fx_consumptions := insert_row \<lparr>fc_id = aid, fc_request = rid, fc_consumed_at = ts\<rparr> (fx_consumptions db),
        fx_rows := update_row fx_id rid (\<lambda>r. r\<lparr>fx_stage := FxConfirmed, fx_signature := Some sg, fx_receipt := Some stored, fx_updated_at := ts\<rparr>)
          (update_row fx_id rid (\<lambda>r. r\<lparr>fx_stage := FxAuthorized, fx_authorization := Some aid, fx_updated_at := ts\<rparr>) (fx_rows db)),
        fx_effects := insert_row \<lparr>ef_obligation = fx_obligation row, ef_request = rid, ef_applied_at = ts\<rparr> (fx_effects db)\<rparr>"
    by (auto simp: fx_apply_def Let_def bind_res_eq_Inr reject_if_eq_Inr)
  then show ?thesis
    by (intro that) (cases db; simp add: update_row_twice insert_row_def)+
qed

lemma fx_execute_txE:
  assumes "fx_execute_tx jcs a current db = Inr (db', receipt)"
  obtains aid rid row where
    "bound_text (item a ''authorization_id'') = Inr aid" "select_row fc_id (fx_consumptions db) aid = None"
    "bound_text (item a ''execution_request_id'') = Inr rid" "select_row fx_id (fx_rows db) rid = Some row"
    "fx_stage row \<noteq> FxConfirmed" "fx_verify_binding jcs a (fx_prepared row) current (fx_obligation row) = Inr ()"
    "select_row ef_obligation (fx_effects db) (fx_obligation row) = None"
    "fx_apply jcs a aid rid row (strftime_utc current) db = Inr (db', receipt)"
proof -
  note assms [unfolded fx_execute_tx_def]
  then show ?thesis
    using that by (auto simp: bind_res_eq_Inr bind_unit_eq_Inr reject_if_eq_Inr split: option.splits)
qed

lemma fx_receipt_ok_applied:
  assumes "item a ''execution_request_id'' = PStr (fx_id row)"
    "item (fx_prepared row) ''execution_commitment_hash'' = PStr h" "item (fx_prepared row) ''prepared_message_hash'' = PStr m"
    "canonicalize jcs (PDict (fx_receipt_body (item a ''execution_request_id'') (fx_prepared row) sg ts)) = Inr b"
    "fx_json (fx_receipt_body (item a ''execution_request_id'') (fx_prepared row) sg ts @ [(KStr ''receipt_hash'', PStr (sha256_digest b))]) = Inr stored"
  shows "fx_receipt_ok jcs (row\<lparr>fx_authorization := Some aid, fx_stage := FxConfirmed, fx_signature := Some sg, fx_receipt := Some stored,
       fx_updated_at := ts\<rparr>)"
  unfolding fx_receipt_ok_def using assms by auto

text \<open>Confirming a prepared row, with its effect and its consumption, keeps the tables in agreement.\<close>

lemma fx_confirm_ok:
  assumes ok: "fx_ok jcs db" and s: "select_row fx_id (fx_rows db) rid = Some row" and st: "fx_stage row \<noteq> FxConfirmed"
    and aid: "select_row fc_id (fx_consumptions db) aid = None" and n: "select_row ef_obligation (fx_effects db) (fx_obligation row) = None"
    and db': "db' = \<lparr>fx_rows = update_row fx_id rid f (fx_rows db),
        fx_consumptions = fx_consumptions db @ [\<lparr>fc_id = aid, fc_request = rid, fc_consumed_at = ts\<rparr>],
        fx_effects = fx_effects db @ [\<lparr>ef_obligation = fx_obligation row, ef_request = rid, ef_applied_at = ts\<rparr>]\<rparr>"
    and f: "f = (\<lambda>r. r\<lparr>fx_authorization := Some aid, fx_stage := FxConfirmed, fx_signature := Some sg, fx_receipt := Some stored,
       fx_updated_at := ts\<rparr>)"
    and receipt: "fx_receipt_ok jcs (f row)"
  shows "fx_ok jcs db'"
proof -
  have row: "row \<in> set (fx_rows db)" "fx_id row = rid" using select_row_key [OF s] by auto
  with ok have r: "fx_row_ok jcs db row" and d: "distinct (map fx_id (fx_rows db))" by (auto simp: fx_ok_def)
  have rows: "set (fx_rows db') = insert (f row) {r \<in> set (fx_rows db). fx_id r \<noteq> rid}"
    using moved_rows [OF d s, of f] by (simp add: db' f)
  have new: "fx_row_ok jcs db' (f row)" using r row(2) receipt by (auto simp: fx_row_ok_def db' f)
  have old: "fx_row_ok jcs db' q" if "q \<in> set (fx_rows db)" "fx_id q \<noteq> rid" for q
    using ok that by (auto simp: fx_ok_def fx_row_ok_def db' split: fx_state.splits dest!: bspec [of _ _ q])
  have kept: "\<exists>q\<in>set (fx_rows db'). P q" if "\<exists>q\<in>set (fx_rows db). P q \<and> fx_stage q = FxConfirmed" for P
  proof -
    from that obtain q where q: "q \<in> set (fx_rows db)" "P q" "fx_stage q = FxConfirmed" by blast
    with st s select_row_unique [OF d q(1)] have "fx_id q \<noteq> rid" by auto
    with q rows show ?thesis by blast
  qed
  have frow: "f row \<in> set (fx_rows db')" using rows by simp
  have "\<exists>q\<in>set (fx_rows db'). fx_id q = ef_request e \<and> fx_obligation q = ef_obligation e \<and> fx_stage q = FxConfirmed"
    if "e \<in> set (fx_effects db')" for e
    using that ok kept [of "\<lambda>q. fx_id q = ef_request e \<and> fx_obligation q = ef_obligation e \<and> fx_stage q = FxConfirmed"] frow
    by (cases "e \<in> set (fx_effects db)") (auto simp: fx_ok_def db' f row(2) intro!: bexI [of _ "f row"])
  moreover have "\<exists>q\<in>set (fx_rows db'). fx_id q = fc_request c \<and> fx_authorization q = Some (fc_id c) \<and> fx_stage q = FxConfirmed"
    if "c \<in> set (fx_consumptions db')" for c
    using that ok kept [of "\<lambda>q. fx_id q = fc_request c \<and> fx_authorization q = Some (fc_id c) \<and> fx_stage q = FxConfirmed"] frow
    by (cases "c \<in> set (fx_consumptions db)") (auto simp: fx_ok_def db' f row(2) intro!: bexI [of _ "f row"])
  moreover have "distinct (map ef_obligation (fx_effects db'))" "distinct (map fc_id (fx_consumptions db'))"
    "distinct (map fx_id (fx_rows db'))"
    using ok aid n d by (auto simp: db' f fx_ok_def select_row_None map_update_row_column)
  ultimately show ?thesis
    using new old by (auto simp: fx_ok_def rows)
qed

lemma fx_execute_tx_ok:
  assumes ok: "fx_ok jcs db" and e: "fx_execute_tx jcs a current db = Inr (db', receipt)"
  shows "fx_ok jcs db'"
proof -
  from e obtain aid rid row where
    aid: "select_row fc_id (fx_consumptions db) aid = None"
    and s: "select_row fx_id (fx_rows db) rid = Some row"
    and st: "fx_stage row \<noteq> FxConfirmed" and v: "fx_verify_binding jcs a (fx_prepared row) current (fx_obligation row) = Inr ()"
    and n: "select_row ef_obligation (fx_effects db) (fx_obligation row) = None"
    and ap: "fx_apply jcs a aid rid row (strftime_utc current) db = Inr (db', receipt)"
    by (rule fx_execute_txE)
  have r: "fx_row_ok jcs db row" using ok select_row_key [OF s] by (auto simp: fx_ok_def)
  from v obtain h m where hm: "item (fx_prepared row) ''execution_commitment_hash'' = PStr h"
    "item (fx_prepared row) ''prepared_message_hash'' = PStr m"
    "\<forall>f\<in>set fx_bound_fields. py_eq (item a f) (item (fx_prepared row) f)"
    by (rule fx_verify_bindingE)
  have req: "item a ''execution_request_id'' = PStr (fx_id row)"
    using hm(3) r by (simp add: fx_bound_fields_def fx_row_ok_def)
  from ap show ?thesis
    by (rule fx_applyE)
      (rule fx_confirm_ok [OF ok s st aid n], assumption, assumption,
        use fx_receipt_ok_applied [OF req hm(1,2)] in blast)
qed

lemma fx_execute_db:
  "fst (fx_execute ex jcs a now fault db) = db \<or>
   (\<exists>receipt current. fx_check_authorization ex jcs a now = Inr current \<and>
      fx_execute_tx jcs a current db = Inr (fst (fx_execute ex jcs a now fault db), receipt))"
  by (auto simp: fx_execute_def transaction_def Let_def bind_res_eq_Inr split: sum.splits)

lemma fx_step_ok: "fx_ok jcs db \<Longrightarrow> fx_step ex jcs db db' \<Longrightarrow> fx_ok jcs db'"
  by (erule fx_step.cases)
    (use fx_prepare_ok fx_execute_db [of ex jcs] fx_execute_tx_ok in \<open>simp, metis\<close>)

text \<open>Confirmed rows and consumed authorizations are kept as they are.\<close>

definition fx_kept :: "fx_db \<Rightarrow> fx_db \<Rightarrow> bool" where
  "fx_kept db db' \<longleftrightarrow>
     {r \<in> set (fx_rows db). fx_stage r = FxConfirmed} \<subseteq> set (fx_rows db') \<and>
     set (fx_consumptions db) \<subseteq> set (fx_consumptions db')"

lemma fx_kept_refl: "fx_kept db db"
  by (simp add: fx_kept_def)

lemma fx_execute_tx_kept:
  assumes "fx_ok jcs db" "fx_execute_tx jcs a current db = Inr (db', receipt)"
  shows "fx_kept db db'"
proof -
  from assms(2) obtain aid rid row where
    s: "select_row fx_id (fx_rows db) rid = Some row" "fx_stage row \<noteq> FxConfirmed"
    and ap: "fx_apply jcs a aid rid row (strftime_utc current) db = Inr (db', receipt)"
    by (rule fx_execute_txE)
  have d: "distinct (map fx_id (fx_rows db))" using assms(1) by (simp add: fx_ok_def)
  have "fx_id q \<noteq> rid" if "q \<in> set (fx_rows db)" "fx_stage q = FxConfirmed" for q
    using select_row_unique [OF d that(1)] s that(2) by auto
  with ap show ?thesis
    by (elim fx_applyE) (auto simp: fx_kept_def set_update_row)
qed

lemma fx_step_kept: "fx_ok jcs db \<Longrightarrow> fx_step ex jcs db db' \<Longrightarrow> fx_kept db db'"
proof (erule fx_step.cases)
  fix db0 request simulation signer constraints expires_at now
  assume db: "db = db0" "db' = fst (fx_prepare ex jcs request simulation signer constraints expires_at now db0)"
  have "fx_kept db0 (fst (fx_prepare ex jcs request simulation signer constraints expires_at now db0))"
    unfolding fx_prepare_def
    by (rule fst_transaction)
      (auto simp: fx_kept_def bind_res_eq_Inr fx_prepare_tx_def insert_row_def split: option.splits if_splits)
  with db show "fx_kept db db'" by simp
next
  fix db0 a now fault
  assume "fx_ok jcs db" "db = db0" "db' = fst (fx_execute ex jcs a now fault db0)"
  then show "fx_kept db db'"
    using fx_execute_db [of ex jcs a now fault db0] fx_execute_tx_kept fx_kept_refl by metis
qed

interpretation fx: preserved "fx_step ex jcs" "fx_ok jcs" for ex jcs
  by unfold_locales (rule fx_step_ok)

lemma fx_run_kept: "(fx_step ex jcs)\<^sup>*\<^sup>* db db' \<Longrightarrow> fx_ok jcs db \<Longrightarrow> fx_kept db db'"
  by (rule fx.steps_relation [where R = fx_kept, OF _ _ _ _ fx_step_kept])
    (auto simp: fx_kept_def dest: fx.steps_inv)

lemma fx_reached_ok: "(fx_step ex jcs)\<^sup>*\<^sup>* fx_init db \<Longrightarrow> fx_ok jcs db"
  by (rule fx.steps_inv [OF _ fx_ok_init])

section \<open>What a successful call found\<close>

lemma fx_check_authorizationE:
  assumes "fx_check_authorization ex jcs a now = Inr current"
  obtains payload issued expires where
    "canonicalize jcs (PDict (map (\<lambda>k. (KStr k, item a k)) fa_fields)) = Inr payload"
    "item a ''authorization_signature'' = PStr (''hmac-sha256:'' @ hmac_sha256_hex (fe_key ex) payload)"
    "item a ''single_use'' = PBool True" "current = instant now"
    "fx_timestamp (item a ''issued_at'') = Inr issued" "fx_timestamp (item a ''expires_at'') = Inr expires"
    "issued \<le> current" "current < expires"
proof -
  from assms obtain issued expires where v: "fa_verify jcs (fe_key ex) a = Inr True"
    and rest: "item a ''single_use'' = PBool True" "current = instant now"
    "fx_timestamp (item a ''issued_at'') = Inr issued" "fx_timestamp (item a ''expires_at'') = Inr expires"
    "issued \<le> current" "current < expires"
    by (auto simp: fx_check_authorization_def bind_res_eq_Inr bind_unit_eq_Inr reject_if_eq_Inr aware_instant_Inr)
  from v obtain payload where
    "canonicalize jcs (PDict (map (\<lambda>k. (KStr k, item a k)) fa_fields)) = Inr payload"
    "item a ''authorization_signature'' = PStr (''hmac-sha256:'' @ hmac_sha256_hex (fe_key ex) payload)"
    by (auto simp: fa_verify_def fa_signature_def compare_digest_def bind_res_eq_Inr split: if_splits pyval.splits)
  with rest show ?thesis by (intro that)
qed

lemma fx_changed:
  assumes "fx_execute ex jcs a now fault db = (db', reply)" "db' \<noteq> db"
  obtains current receipt where "fx_execute_tx jcs a current db = Inr (db', receipt)"
    "reply = (if fault = None then Inr receipt else Inl (fx_error ''ResponseLost''))"
  using assms by (auto simp: fx_execute_def transaction_def Let_def bind_res_eq_Inr split: sum.splits if_splits)

lemma fx_executed:
  assumes ok: "fx_ok jcs db" and e: "fx_execute_tx jcs a current db = Inr (db', receipt)"
  obtains rid aid r where "item a ''execution_request_id'' = PStr rid" "bound_text (item a ''authorization_id'') = Inr aid"
    "r \<in> set (fx_rows db')" "fx_id r = rid" "fx_stage r = FxConfirmed" "aid \<in> fc_id ` set (fx_consumptions db')"
proof -
  from e obtain aid rid row where
    aid: "bound_text (item a ''authorization_id'') = Inr aid"
    and s: "select_row fx_id (fx_rows db) rid = Some row"
    and v: "fx_verify_binding jcs a (fx_prepared row) current (fx_obligation row) = Inr ()"
    and ap: "fx_apply jcs a aid rid row (strftime_utc current) db = Inr (db', receipt)"
    by (rule fx_execute_txE)
  have row: "row \<in> set (fx_rows db)" "fx_id row = rid" using select_row_key [OF s] by auto
  then have r: "fx_row_ok jcs db row" using ok by (simp add: fx_ok_def)
  from v have "item a ''execution_request_id'' = PStr rid"
    by (rule fx_verify_bindingE) (use r row(2) in \<open>simp add: fx_bound_fields_def fx_row_ok_def\<close>)
  moreover from ap obtain f where "fx_rows db' = update_row fx_id rid f (fx_rows db)" "aid \<in> fc_id ` set (fx_consumptions db')"
    and f: "fx_id (f row) = rid" "fx_stage (f row) = FxConfirmed"
    by (rule fx_applyE) (simp add: row(2))
  moreover from calculation have "f row \<in> set (fx_rows db')" using row by (simp add: set_update_row)
  ultimately show ?thesis using that aid by blast
qed

text \<open>A consumed authorization changes nothing any more.\<close>

lemma fx_replayed:
  assumes "bound_text (item a ''authorization_id'') = Inr aid" "aid \<in> fc_id ` set (fx_consumptions db)"
  shows "fst (fx_execute ex jcs a now fault db) = db"
proof -
  have "select_row fc_id (fx_consumptions db) aid \<noteq> None" using assms(2) by (auto simp: select_row_None)
  then have "fx_execute_tx jcs a current db = Inl (fx_error ''AuthorizationReplay'')" for current
    using assms(1) by (simp add: fx_execute_tx_def)
  then show ?thesis using fx_execute_db [of ex jcs a now fault db] by auto
qed

end
