(* ===== verification/Stored_Json.thy ===== *)
theory Stored_Json
  imports Ext_Canonical Channel Base64
begin

text \<open>
  What storing a value of the external execution domain as JSON text and reading it back does to it: its
  keys are sorted at every depth (\<open>normal_json\<close>) and nothing else. A serializer that sorts keys itself
  (\<open>key_order_free\<close>, as RFC 8785 requires) gives the same bytes for both.
\<close>

primrec normal_json :: "pyval \<Rightarrow> pyval" where
  "normal_json PNone = PNone"
| "normal_json (PBool b) = PBool b"
| "normal_json (PInt i) = PInt i"
| "normal_json (PFloat t) = PFloat t"
| "normal_json (PStr s) = PStr s"
| "normal_json (PList xs) = PList (map normal_json xs)"
| "normal_json (PDict d) = PDict (sort_key fst (map (map_prod id normal_json) d))"
| "normal_json (POther t) = POther t"

definition normal_dict :: "pydict \<Rightarrow> pydict" where
  "normal_dict d = sort_key fst (map (map_prod id normal_json) d)"

fun text_key :: "pykey \<Rightarrow> bool" where
  "text_key (KStr s) = (\<not> has_surrogate s)"
| "text_key _ = False"

text \<open>The values \<^verbatim>\<open>canonicalization.py\<close> admits, whatever the path they are found at.\<close>

primrec ext_value :: "pyval \<Rightarrow> bool" where
  "ext_value PNone = False"
| "ext_value (PBool b) = True"
| "ext_value (PInt i) = (- json_safe_max \<le> i \<and> i \<le> json_safe_max)"
| "ext_value (PFloat t) = False"
| "ext_value (PStr s) = (\<not> has_surrogate s)"
| "ext_value (PList xs) = list_all id (map ext_value xs)"
| "ext_value (PDict d) = list_all (\<lambda>kv. text_key (fst kv) \<and> snd kv) (map (map_prod id ext_value) d)"
| "ext_value (POther t) = False"

lemma ext_value_list: "ext_value (PList xs) \<longleftrightarrow> (\<forall>x\<in>set xs. ext_value x)"
  by (simp add: list_all_iff)

lemma ext_value_dict: "ext_value (PDict d) \<longleftrightarrow> (\<forall>kv\<in>set d. text_key (fst kv) \<and> ext_value (snd kv))"
  by (simp add: list_all_iff)

declare ext_value.simps(6,7) [simp del]

lemma reject_item_iff:
  "reject_unsupported_item kv path = Inr () \<longleftrightarrow>
     text_key (fst kv) \<and> (\<exists>p. reject_unsupported_json (snd kv) p = Inr ())"
  if "\<And>p q. reject_unsupported_json (snd kv) p = Inr () \<longleftrightarrow> reject_unsupported_json (snd kv) q = Inr ()"
  using that by (cases kv; cases "fst kv") (auto simp: bind_unit_eq_Inr reject_if_eq_Inr)

lemma reject_items_iff:
  "reject_unsupported_items d path = Inr () \<longleftrightarrow> (\<forall>kv\<in>set d. reject_unsupported_item kv path = Inr ())"
  by (induction d) (auto simp: bind_unit_eq_Inr)

lemma reject_ext_value: "reject_unsupported_json v path = Inr () \<longleftrightarrow> ext_value v"
proof (induction v arbitrary: path)
  case (PList xs)
  have "reject_unsupported_list xs path n = Inr () \<longleftrightarrow> (\<forall>x\<in>set xs. ext_value x)" for n
    using PList by (induction xs arbitrary: n) (auto simp: bind_unit_eq_Inr)
  then show ?case by (simp add: ext_value_list)
next
  case (PDict d)
  have "reject_unsupported_item kv path = Inr () \<longleftrightarrow> text_key (fst kv) \<and> ext_value (snd kv)" if "kv \<in> set d" for kv
    using PDict [OF that, of "snd kv"] by (subst reject_item_iff) (auto simp: snds.simps)
  then show ?case by (simp add: reject_items_iff ext_value_dict)
qed (auto simp: reject_if_eq_Inr)

section \<open>Texts without surrogates\<close>

lemma hex_no_surrogate: "list_all is_hex s \<Longrightarrow> \<not> has_surrogate s"
proof
  assume "list_all is_hex s" "has_surrogate s"
  then obtain c where "is_hex c" "of_char c = (237::nat)" using has_surrogate_char [of s] unfolding list_all_iff by blast
  then show False by (simp add: is_hex_def is_digit_def in_range_def)
qed

lemma b64_ascii: "\<not> has_surrogate (b64encode m)"
proof
  assume "has_surrogate (b64encode m)"
  then obtain c where c: "c \<in> set (b64encode m)" "of_char c = (237::nat)" using has_surrogate_char by blast
  have l: "length b64_alphabet = 64" by code_simp
  have "set (b64_groups bs) \<subseteq> insert (CHR ''='') (set b64_alphabet)" if "list_all (\<lambda>b. b < 256) bs" for bs
    using that
  proof (induction bs rule: b64_groups.induct)
    case (4 a b c r)
    have "a div 4 < 64" "a mod 4 * 16 + b div 16 < 64" "b mod 16 * 4 + c div 64 < 64" "c mod 64 < 64"
      using 4 by (auto simp: div_less_iff_less_mult)
    with 4 l show ?case by (auto simp: b64_char_def)
  qed (use l in \<open>auto simp: b64_char_def div_less_iff_less_mult\<close>)
  from this [of "map of_char m"] have "c \<in> insert (CHR ''='') (set b64_alphabet)" using c(1) by (auto simp: b64encode_def list_all_iff)
  moreover have "list_all (\<lambda>c. of_char c \<noteq> (237::nat)) (CHR ''='' # b64_alphabet)" by code_simp
  ultimately show False using c(2) by (auto simp: list_all_iff)
qed

lemma hash_part_ascii: "hash_text h \<Longrightarrow> \<not> has_surrogate (''fixture:'' @ take n (drop 7 h))"
proof
  assume "hash_text h" "has_surrogate (''fixture:'' @ take n (drop 7 h))"
  then obtain c where c: "c \<in> set (''fixture:'' @ take n (drop 7 h))" "of_char c = (237::nat)" and h: "list_all is_hex (drop 7 h)"
    using has_surrogate_char [of "''fixture:'' @ take n (drop 7 h)"] by (auto simp: hash_text_def)
  from c(2) have "\<not> is_hex c" by (simp add: is_hex_def is_digit_def in_range_def)
  with h have "c \<notin> set (take n (drop 7 h))" unfolding list_all_iff using in_set_takeD by metis
  with c show False by auto
qed

section \<open>Sorted values\<close>

lemma insort_key_map: "(\<And>x. f (g x) = h x) \<Longrightarrow> insort_key f (g x) (map g ys) = map g (insort_key h x ys)"
  by (induction ys) auto

lemma sort_key_map: "(\<And>x. f (g x) = h x) \<Longrightarrow> sort_key f (map g xs) = map g (sort_key h xs)"
  by (induction xs) (simp_all add: insort_key_map)

lemma normal_dict_map: "normal_dict d = map (map_prod id normal_json) (sort_key fst d)"
  unfolding normal_dict_def by (rule sort_key_map) simp

lemma normal_json_dict [simp]: "normal_json (PDict d) = PDict (normal_dict d)"
  by (simp add: normal_dict_def)

declare normal_json.simps(7) [simp del]

lemma normal_json_idem [simp]: "normal_json (normal_json v) = normal_json v"
proof (induction v)
  case (PDict d)
  have "normal_dict (normal_dict d) = normal_dict d"
  proof -
    have "map (map_prod id normal_json) (sort_key fst (normal_dict d)) = map (map_prod id normal_json) (normal_dict d)"
      by (simp add: normal_dict_def sort_key_id_if_sorted)
    also have "\<dots> = normal_dict d"
      using PDict by (auto simp: normal_dict_map snds.simps)
    finally show ?thesis by (simp add: normal_dict_map [of "normal_dict d"])
  qed
  then show ?case by simp
qed auto

lemma set_normal_dict: "set (normal_dict d) = map_prod id normal_json ` set d"
  by (simp add: normal_dict_def)

lemma ext_value_normal [simp]: "ext_value (normal_json v) \<longleftrightarrow> ext_value v"
proof (induction v)
  case (PDict d)
  then show ?case by (force simp: ext_value_dict set_normal_dict snds.simps)
qed (auto simp: ext_value_list)

lemma map_of_normal: "map_of (normal_dict d) k = map_option normal_json (map_of d k)"
proof -
  have "map_prod (id :: pykey \<Rightarrow> pykey) normal_json = (\<lambda>(k, v). (k, normal_json v))" by auto
  then show ?thesis by (simp only: normal_dict_map map_of_map comp_apply map_of_sort_key)
qed

lemma item_normal: "item (normal_dict d) k = normal_json (item d k)"
  by (simp add: item_def map_of_normal split: option.split)

section \<open>Storing\<close>

lemma ext_json_dumps: "ext_value v \<Longrightarrow> json_dumps True v = Inr (normal_json v)"
proof (induction v)
  case (PInt i)
  have "nat \<bar>i\<bar> < 10 ^ 16" using PInt by (simp add: json_safe_max_def nat_less_iff abs_less_iff)
  then have "length (dec_nat (nat \<bar>i\<bar>)) \<le> 16" by (rule length_dec_nat) simp
  then show ?case by simp
next
  case (PList xs)
  then have "json_dumps_list True xs = Inr (map normal_json xs)"
    by (induction xs) (auto simp: ext_value_list)
  then show ?case by simp
next
  case (PDict d)
  have v: "\<forall>kv\<in>set d. text_key (fst kv) \<and> json_dumps True (snd kv) = Inr (normal_json (snd kv))"
    using PDict by (auto simp: ext_value_dict snds.simps)
  then have "json_dumps_items True d = Inr (map (map_prod id normal_json) d)"
    by (induction d) (auto simp: map_prod_def split: prod.splits)
  moreover have "\<not> mixed_keys (map fst d)"
  proof -
    have "key_kind (fst kv) = 0" if "kv \<in> set d" for kv using v that by (cases "fst kv") auto
    then show ?thesis by (cases d) (auto simp: mixed_keys_def list_ex_iff)
  qed
  moreover have "map (\<lambda>(k, v). (KStr (key_text k), v)) (normal_dict d) = normal_dict d"
  proof (rule map_idI)
    fix kv assume "kv \<in> set (normal_dict d)"
    then have "text_key (fst kv)" using v by (auto simp: set_normal_dict)
    then show "(case kv of (k, v) \<Rightarrow> (KStr (key_text k), v)) = kv" by (cases kv; cases "fst kv") auto
  qed
  ultimately show ?case by (simp add: normal_dict_def)
qed auto

lemma ext_json_text: "ext_value (PDict d) \<Longrightarrow> json_text d = Inr (normal_dict d)"
  using ext_json_dumps [of "PDict d"] by (simp add: json_text_def)

lemma items_surrogate_ex: "items_surrogate d \<longleftrightarrow> (\<exists>kv\<in>set d. item_surrogate kv)"
  by (induction d) auto

lemma ext_no_surrogate: "ext_value v \<Longrightarrow> \<not> val_surrogate v"
proof (induction v)
  case (PList xs)
  then have "\<not> list_surrogate xs" by (induction xs) (auto simp: ext_value_list)
  then show ?case by simp
next
  case (PDict d)
  have "\<not> item_surrogate kv" if "kv \<in> set d" for kv
    using PDict that by (cases kv; cases "fst kv") (force simp: ext_value_dict snds.simps)+
  then show ?case by (simp add: items_surrogate_ex)
qed auto

section \<open>Serializers that sort keys\<close>

definition key_order_free :: "serializer \<Rightarrow> bool" where
  "key_order_free jcs \<longleftrightarrow> (\<forall>v. ext_value v \<longrightarrow> jcs (normal_json v) = jcs v)"

lemma canonicalize_normal: "key_order_free jcs \<Longrightarrow> ext_value v \<Longrightarrow> canonicalize jcs (normal_json v) = canonicalize jcs v"
  by (simp add: key_order_free_def canonicalize_def reject_ext_value [THEN iffD2] del: reject_unsupported_json.simps)

text \<open>Values with the same stored form have the same canonical bytes.\<close>

lemma canonicalize_same:
  assumes "key_order_free jcs" "ext_value v" "normal_json w = normal_json v"
  shows "canonicalize jcs w = canonicalize jcs v"
proof -
  have "ext_value w" using assms(2) by (metis assms(3) ext_value_normal)
  with assms show ?thesis using canonicalize_normal by metis
qed

lemma example_items_map: "example_jcs_items d = map example_jcs_item d"
  by (induction d) auto

lemma example_jcs_normal: "example_jcs_text (normal_json v) = example_jcs_text v"
proof (induction v)
  case (PList xs)
  then have "example_jcs_list (map normal_json xs) = example_jcs_list xs" by (induction xs) auto
  then show ?case by simp
next
  case (PDict d)
  have "example_jcs_item (map_prod id normal_json kv) = example_jcs_item kv" if "kv \<in> set d" for kv
    using PDict [OF that, of "snd kv"] by (cases kv) (simp add: snds.simps)
  then have "example_jcs_items (normal_dict d) = map example_jcs_item (sort_key fst d)"
    by (auto simp: example_items_map normal_dict_map)
  moreover have "fst (example_jcs_item kv) = fst kv" for kv by (cases kv) simp
  then have "sort_key fst (map example_jcs_item xs) = map example_jcs_item (sort_key fst xs)" for xs
    by (rule sort_key_map)
  ultimately show ?case by (simp add: example_items_map sort_key_id_if_sorted)
qed auto

lemma example_jcs_order_free: "key_order_free example_jcs"
  by (simp add: key_order_free_def example_jcs_def example_jcs_normal)

end
