(* ===== verification/Fake_Executor_Live.thy ===== *)
theory Fake_Executor_Live
  imports Fake_Executor_Facts Stored_Json
begin

text \<open>
  What the fake executor stored can be used again: a receipt read back passes its integrity check, and a
  prepared execution read back still has the hashes it was prepared with, so an authorization of it is
  executed. Both rest on a serializer that sorts keys, because a stored object comes back with its keys
  sorted.
\<close>

section \<open>Reading a receipt back\<close>

lemma canonicalize_ext: "canonicalize jcs v = Inr b \<Longrightarrow> ext_value v"
  by (auto simp: canonicalize_def bind_unit_eq_Inr reject_ext_value)

lemma fx_json_ext: "ext_value (PDict d) \<Longrightarrow> fx_json d = Inr (normal_dict d)"
  using ext_no_surrogate [of "PDict (normal_dict d)"] ext_value_normal [of "PDict d"]
  by (simp add: fx_json_def ext_json_text)

lemma digest_text [simp]: "\<not> has_surrogate (sha256_digest b)"
  unfolding sha256_digest_def by (rule hash_no_surrogate) (rule sha.prefixed_hash_text)

lemma ext_value_signed: "ext_value (PDict (d @ [(KStr k, PStr s)])) \<longleftrightarrow> ext_value (PDict d) \<and> \<not> has_surrogate k \<and> \<not> has_surrogate s"
  by (auto simp: ext_value_dict)

lemma receipt_hash_key: "\<not> has_surrogate ''receipt_hash''"
  by code_simp

lemma fx_receipt_read:
  assumes "fx_receipt_ok jcs r" "key_order_free jcs"
  obtains stored b sg where "fx_receipt r = Some stored" "fx_signature r = Some sg"
    "canonicalize jcs (PDict (filter (\<lambda>kv. fst kv \<noteq> KStr ''receipt_hash'') stored)) = Inr b"
    "item stored ''receipt_hash'' = PStr (sha256_digest b)"
    "item (filter (\<lambda>kv. fst kv \<noteq> KStr ''receipt_hash'') stored) ''transaction_signature'' = PStr sg"
proof -
  from assms(1) obtain sg ts b stored where
    r: "fx_signature r = Some sg" "fx_receipt r = Some stored"
    and b: "canonicalize jcs (PDict (fx_receipt_body (PStr (fx_id r)) (fx_prepared r) sg ts)) = Inr b"
    and j: "fx_json (fx_receipt_body (PStr (fx_id r)) (fx_prepared r) sg ts @ [(KStr ''receipt_hash'', PStr (sha256_digest b))]) = Inr stored"
    by (auto simp: fx_receipt_ok_def)
  define body where "body = fx_receipt_body (PStr (fx_id r)) (fx_prepared r) sg ts"
  have ext: "ext_value (PDict body)" using b by (simp add: body_def canonicalize_ext)
  then have stored: "stored = normal_dict (body @ [(KStr ''receipt_hash'', PStr (sha256_digest b))])"
    using j fx_json_ext [of "body @ [(KStr ''receipt_hash'', PStr (sha256_digest b))]"] receipt_hash_key
    by (simp add: body_def ext_value_signed)
  have rest: "filter (\<lambda>kv. fst kv \<noteq> KStr ''receipt_hash'') stored = normal_dict body"
    unfolding stored normal_dict_def by (simp add: filter_sort body_def fx_receipt_body_def)
  have "canonicalize jcs (PDict (normal_dict body)) = Inr b"
    using canonicalize_normal [OF assms(2) ext] b by (simp add: body_def)
  moreover have "item stored ''receipt_hash'' = PStr (sha256_digest b)" "item (normal_dict body) ''transaction_signature'' = PStr sg"
    by (simp_all add: stored item_def map_of_normal body_def fx_receipt_body_def)
  ultimately show ?thesis using that r rest by metis
qed

lemma fx_confirmed_recovered:
  assumes "fx_ok jcs db" "key_order_free jcs" "r \<in> set (fx_rows db)" "fx_stage r = FxConfirmed" "utcoffset later \<noteq> None"
  obtains res receipt where "fx_recover jcs (fx_id r) later db = Inr res" "fx_read_receipt jcs (fx_id r) db = Inr (Some receipt)"
    "item res ''outcome'' = PStr ''confirmed''" "item res ''may_rematerialize'' = PBool False"
    "item res ''transaction_signature'' = item receipt ''transaction_signature''"
proof -
  have ok: "fx_row_ok jcs db r" and d: "distinct (map fx_id (fx_rows db))" using assms(1,3) by (auto simp: fx_ok_def)
  have rc: "fx_receipt_ok jcs r" and id: "\<not> has_surrogate (fx_id r)" using ok assms(4) by (auto simp: fx_row_ok_def)
  from rc assms(2) obtain stored b sg where st: "fx_receipt r = Some stored" "fx_signature r = Some sg"
    "canonicalize jcs (PDict (filter (\<lambda>kv. fst kv \<noteq> KStr ''receipt_hash'') stored)) = Inr b"
    "item stored ''receipt_hash'' = PStr (sha256_digest b)"
    "item (filter (\<lambda>kv. fst kv \<noteq> KStr ''receipt_hash'') stored) ''transaction_signature'' = PStr sg"
    by (rule fx_receipt_read)
  have f: "fx_find (fx_id r) db = Inr r"
    using select_row_unique [OF d assms(3)] id by (simp add: fx_find_def)
  let ?receipt = "filter (\<lambda>kv. fst kv \<noteq> KStr ''receipt_hash'') stored @ [(KStr ''receipt_hash'', PStr (sha256_digest b))]"
  have rr: "fx_read_receipt jcs (fx_id r) db = Inr (Some ?receipt)"
    using st by (simp add: fx_read_receipt_def f Let_def)
  have "item ?receipt ''transaction_signature'' = PStr sg"
    using st(5) by (auto simp: item_def map_add_def split: option.splits)
  then show ?thesis
    using that [OF _ rr] assms(5)
    by (auto simp: fx_recover_def fx_status_def f rr assms(4) fx_state_text_def item_def signature_entry_def st(2) aware_instant_def
        split: option.splits)
qed


section \<open>Executing what was prepared\<close>

lemma fx_document_parts:
  assumes "fx_document ex jcs request simulation signer constraints expires_at now = Inr (plan, prepared, fp, current)"
  obtains plan_hash message sh ch where
    "prepared = fx_prepared_execution ex (item request ''execution_request_id'') plan_hash message (sha256_digest message)
       simulation sh ch signer constraints expires_at"
    "message \<noteq> []" "simulation_attestation_hash jcs (PDict simulation) = Inr sh"
    "execution_commitment_hash jcs (fx_commitment prepared (item plan ''obligation_id'')) = Inr ch"
proof -
  have same: "fx_commitment (fx_prepared_execution ex v plan_hash message mh simulation sh x signer constraints expires_at) ob =
      fx_commitment (fx_prepared_execution ex v plan_hash message mh simulation sh y signer constraints expires_at) ob"
    for v plan_hash message mh sh x y ob
    by (simp add: fx_commitment_def fx_prepared_execution_def item_def)
  from assms obtain plan_hash message mh sh ch where
    "execution_commitment_hash jcs (fx_commitment (fx_prepared_execution ex (item request ''execution_request_id'') plan_hash
        message mh simulation sh [] signer constraints expires_at) (item plan ''obligation_id'')) = Inr ch"
    "prepared = fx_prepared_execution ex (item request ''execution_request_id'') plan_hash
        message mh simulation sh ch signer constraints expires_at"
    "prepared_message_hash message = Inr mh" "simulation_attestation_hash jcs (PDict simulation) = Inr sh"
    by (auto simp: fx_document_def bind_res_eq_Inr Let_def split: prod.splits)
  then show ?thesis
    using that same [where x = "[]" and y = ch]
    by (auto simp: prepared_message_hash_def split: if_splits)
qed

text \<open>Sorting the keys of a prepared execution changes neither its commitment nor its validity.\<close>

lemma normal_json_eq [simp]: "normal_json v = PStr s \<longleftrightarrow> v = PStr s" "normal_json v = PNone \<longleftrightarrow> v = PNone"
  by (cases v; simp)+

lemma normal_checks [simp]:
  "dn_literal (normal_json v) e p = dn_literal v e p" "require_identifier (normal_json v) p = require_identifier v p"
  "require_hash (normal_json v) p = require_hash v p" "require_solana_pubkey (normal_json v) p = require_solana_pubkey v p"
  "require_timestamp (normal_json v) p = require_timestamp v p"
  by (cases v; simp add: dn_literal_def require_identifier_def require_hash_def require_solana_pubkey_def require_timestamp_def)+

definition map_values :: "(pyval \<Rightarrow> pyval) \<Rightarrow> pydict \<Rightarrow> pydict" where
  "map_values f d = map (map_prod id f) d"

lemma map_fst_values [simp]: "map fst (map_values f d) = map fst d"
  by (simp add: map_values_def)

lemma item_map_values: "f PNone = PNone \<Longrightarrow> item (map_values f d) k = f (item d k)"
  by (induction d) (auto simp: map_values_def item_def)

lemma closed_map_values: "require_closed_keys (map_values normal_json d) req opt p = require_closed_keys d req opt p"
proof -
  have "list_ex (\<lambda>kv. snd kv = PNone) (map_values normal_json d) = list_ex (\<lambda>kv. snd kv = PNone) d"
    by (auto simp: map_values_def list_ex_iff)
  then show ?thesis by (simp add: require_closed_keys_def missing_keys_def unknown_keys_def)
qed

lemma check_commitment_values: "check_ext_commitment (map_values normal_json c) = check_ext_commitment c"
proof -
  have "(case normal_json v of PStr s \<Rightarrow> s = [] | _ \<Rightarrow> True) = (case v of PStr s \<Rightarrow> s = [] | _ \<Rightarrow> True)"
    "(case normal_json v of PDict d \<Rightarrow> False | _ \<Rightarrow> True) = (case v of PDict d \<Rightarrow> False | _ \<Rightarrow> True)" for v
    by (cases v; simp)+
  then show ?thesis by (simp add: check_ext_commitment_def item_map_values closed_map_values)
qed

lemma commitment_normal:
  assumes "key_order_free jcs" "execution_commitment_hash jcs (fx_commitment prepared (PStr ob)) = Inr h"
  shows "execution_commitment_hash jcs (fx_commitment (normal_dict prepared) (PStr ob)) = Inr h"
proof -
  obtain c where pd: "fx_commitment prepared (PStr ob) = PDict c" "fx_commitment (normal_dict prepared) (PStr ob) = PDict (map_values normal_json c)"
    by (auto simp: fx_commitment_def map_values_def item_normal)
  have c: "ext_value (PDict c)" "check_ext_commitment c = Inr ()" "bind_res (canonicalize jcs (PDict c)) (\<lambda>b. Inr (sha256_digest b)) = Inr h"
    using assms(2) unfolding pd(1) by (auto simp: execution_commitment_hash_def bind_unit_eq_Inr reject_ext_value simp del: reject_unsupported_json.simps)
  have n: "normal_json (PDict (map_values normal_json c)) = normal_json (PDict c)"
    by (simp add: normal_dict_def map_values_def comp_def prod.map_comp id_def)
  then have "ext_value (PDict (map_values normal_json c))" using c(1) by (metis ext_value_normal)
  then show ?thesis
    unfolding pd(2) using c check_commitment_values [of c] canonicalize_same [OF assms(1) c(1) n]
    by (simp add: execution_commitment_hash_def reject_ext_value [THEN iffD2] del: reject_unsupported_json.simps)
qed

text \<open>A document the executor prepared passes the checks of execution when it is read back.\<close>

lemma fx_document_ext:
  assumes "fx_document ex jcs request simulation signer constraints expires_at now = Inr (plan, prepared, fp, current)"
  shows "ext_value (PDict prepared)"
  using assms
proof (rule fx_document_parts)
  fix plan_hash message sh ch
  assume p: "prepared = fx_prepared_execution ex (item request ''execution_request_id'') plan_hash message (sha256_digest message)
       simulation sh ch signer constraints expires_at"
    and s: "simulation_attestation_hash jcs (PDict simulation) = Inr sh"
    and c: "execution_commitment_hash jcs (fx_commitment prepared (item plan ''obligation_id'')) = Inr ch"
  have "ext_value (PDict simulation)" "\<not> has_surrogate sh"
    using s by (auto simp: simulation_attestation_hash_def bind_res_eq_Inr dest: canonicalize_ext)
  moreover have "ext_value (fx_commitment prepared (item plan ''obligation_id''))" "\<not> has_surrogate ch"
    using c by (auto simp: execution_commitment_hash_def bind_res_eq_Inr dest: canonicalize_ext split: pyval.splits)
  ultimately show ?thesis
    using b64_ascii [of message]
    by (simp add: p fx_commitment_def fx_prepared_execution_def item_def ext_value_dict)
qed

lemma obligation_text:
  assumes "execution_commitment_hash jcs (fx_commitment prepared v) = Inr h"
  obtains ob where "v = PStr ob" "\<not> has_surrogate ob"
proof -
  from assms obtain s where "require_identifier v ''$.obligation_id'' = Inr s" and e: "ext_value (fx_commitment prepared v)"
    by (auto simp: execution_commitment_hash_def fx_commitment_def check_ext_commitment_def item_def
        bind_res_eq_Inr bind_unit_eq_Inr dest: canonicalize_ext)
  then have "v = PStr s" by (cases v) (auto simp: require_identifier_def split: if_splits)
  with e that show ?thesis by (simp add: fx_commitment_def ext_value_dict)
qed

lemma fx_binding_ok:
  assumes doc: "fx_document ex jcs request simulation signer constraints expires_at now = Inr (plan, prepared, fp, current)"
    and jcs: "key_order_free jcs" and ob: "item plan ''obligation_id'' = PStr ob"
    and bound: "\<forall>f\<in>set fx_bound_fields. item a f = item prepared f"
    and t: "strptime_any expires_at = Some u" "fx_timestamp (item a ''expires_at'') = Inr e" "t < u" "e \<le> u"
  shows "fx_verify_binding jcs a (normal_dict prepared) t ob = Inr ()"
  using doc
proof (rule fx_document_parts)
  fix plan_hash message sh ch
  assume p: "prepared = fx_prepared_execution ex (item request ''execution_request_id'') plan_hash message (sha256_digest message)
       simulation sh ch signer constraints expires_at" and m: "message \<noteq> []"
    and s: "simulation_attestation_hash jcs (PDict simulation) = Inr sh"
    and c: "execution_commitment_hash jcs (fx_commitment prepared (item plan ''obligation_id'')) = Inr ch"
  have i: "item prepared ''execution_request_id'' = item request ''execution_request_id''"
    "item prepared ''execution_commitment_hash'' = PStr ch" "item prepared ''prepared_message_hash'' = PStr (sha256_digest message)"
    "item prepared ''signer'' = PStr signer" "item prepared ''prepared_message_base64'' = PStr (b64encode message)"
    "item prepared ''simulation'' = PDict simulation" "item prepared ''simulation_attestation_hash'' = PStr sh"
    "item prepared ''expires_at'' = PStr expires_at"
    by (simp_all add: p fx_prepared_execution_def item_def)
  obtain rid where rid: "item request ''execution_request_id'' = PStr rid" using doc by (rule fx_documentE)
  have "run_all (map (\<lambda>f. reject_if (\<not> py_eq (item a f) (item (normal_dict prepared) f)) fx_mismatch) fx_bound_fields) = Inr ()"
    using bound i rid by (simp add: run_all_map_reject fx_bound_fields_def item_normal)
  moreover have "simulation_attestation_hash jcs (PDict (normal_dict simulation)) = Inr sh"
  proof -
    have "ext_value (PDict simulation)" using s by (auto simp: simulation_attestation_hash_def bind_res_eq_Inr dest: canonicalize_ext)
    with s canonicalize_normal [OF jcs, of "PDict simulation"] show ?thesis by (simp add: simulation_attestation_hash_def)
  qed
  moreover have "execution_commitment_hash jcs (fx_commitment (normal_dict prepared) (PStr ob)) = Inr ch"
    using commitment_normal [OF jcs] c ob by simp
  ultimately show ?thesis
    using t m by (simp add: fx_verify_binding_def item_normal i fx_stored_message_def b64_strict_roundtrip prepared_message_hash_def
        fx_timestamp_def)
qed

lemma receipt_keys:
  "\<not> has_surrogate ''type''" "\<not> has_surrogate ''protocol_version''" "\<not> has_surrogate ''execution_request_id''"
  "\<not> has_surrogate ''execution_commitment_hash''" "\<not> has_surrogate ''prepared_message_hash''"
  "\<not> has_surrogate ''transaction_signature''" "\<not> has_surrogate ''slot''" "\<not> has_surrogate ''confirmation_status''"
  "\<not> has_surrogate ''observed_at''" "\<not> has_surrogate ''external_execution_receipt''" "\<not> has_surrogate ''1.0.0''"
  "\<not> has_surrogate ''confirmed''"
  by code_simp+

lemma fx_apply_ok:
  assumes "item a ''authorization_id'' = PStr aid" "item a ''execution_request_id'' = PStr rid" "\<not> has_surrogate rid"
    and "item (fx_prepared row) ''execution_commitment_hash'' = PStr h" "item (fx_prepared row) ''prepared_message_hash'' = PStr m"
    and "ext_value (PStr h)" "ext_value (PStr m)" "\<not> has_surrogate ts" "\<forall>v. ext_value v \<longrightarrow> jcs v \<noteq> None"
    and "select_row ef_request (fx_effects db) rid = None"
  shows "\<exists>db' sg b. fx_apply jcs a aid rid row ts db = Inr (db', fx_receipt_body (PStr rid) (fx_prepared row) sg ts @
    [(KStr ''receipt_hash'', PStr (sha256_digest b))])"
proof -
  let ?sg = "sha256_hex (h @ '':'' @ aid)"
  let ?body = "fx_receipt_body (PStr rid) (fx_prepared row) ?sg ts"
  have "\<not> has_surrogate ?sg" by (rule hex_no_surrogate) (rule sha.digest_hex)
  then have ext: "ext_value (PDict ?body)"
    using assms(3-8) by (simp add: fx_receipt_body_def ext_value_dict receipt_keys json_safe_max_def)
  with assms(9) obtain b where b: "canonicalize jcs (PDict ?body) = Inr b"
    by (cases "jcs (PDict ?body)") (auto simp: canonicalize_def reject_ext_value [THEN iffD2] simp del: reject_unsupported_json.simps)
  have j: "fx_json (?body @ [(KStr ''receipt_hash'', PStr (sha256_digest b))]) =
      Inr (normal_dict (?body @ [(KStr ''receipt_hash'', PStr (sha256_digest b))]))"
    by (rule fx_json_ext) (use ext in \<open>simp add: ext_value_signed receipt_hash_key\<close>)
  show ?thesis
    using assms(1,2,4,10) b j by (simp add: fx_apply_def Let_def fx_transaction_signature_def) blast
qed

lemma fx_preparedE:
  assumes "fx_prepare ex jcs request simulation signer constraints expires_at now db = (db', Inr prepared)" "db' \<noteq> db"
  obtains plan fp current rid ob row where
    "fx_document ex jcs request simulation signer constraints expires_at now = Inr (plan, prepared, fp, current)"
    "item prepared ''execution_request_id'' = PStr rid" "\<not> has_surrogate rid" "item plan ''obligation_id'' = PStr ob"
    "select_row fx_id (fx_rows db) rid = None" "select_row ef_obligation (fx_effects db) ob = None"
    "db' = db\<lparr>fx_rows := insert_row row (fx_rows db)\<rparr>" "fx_id row = rid" "fx_obligation row = ob" "fx_stage row = FxPrepared"
    "fx_prepared row = normal_dict prepared"
proof -
  from assms(1) obtain plan p fp current where
    doc: "fx_document ex jcs request simulation signer constraints expires_at now = Inr (plan, p, fp, current)"
    and tx: "fx_prepare_tx (item request ''execution_request_id'') (item request ''idempotency_key'') (item plan ''obligation_id'')
      fp p (strftime_utc current) db = Inr (db', prepared)"
    by (auto simp: fx_prepare_def transaction_def bind_res_eq_Inr split: sum.splits)
  from doc obtain rid where rid: "item request ''execution_request_id'' = PStr rid" "item p ''execution_request_id'' = PStr rid"
    by (rule fx_documentE)
  from doc obtain ob where ob: "item plan ''obligation_id'' = PStr ob" by (rule fx_document_parts) (auto elim: obligation_text)
  have j: "fx_json p = Inr (normal_dict p)" by (rule fx_json_ext) (rule fx_document_ext [OF doc])
  note tx [unfolded fx_prepare_tx_def rid(1) ob]
  with assms(2) j obtain key where
    "find (\<lambda>r. fx_id r = rid \<or> fx_key r = key) (fx_rows db) = None" "\<not> has_surrogate rid" "prepared = p"
    "select_row ef_obligation (fx_effects db) ob = None"
    "db' = db\<lparr>fx_rows := insert_row
                \<lparr>fx_id = rid, fx_key = key, fx_obligation = ob, fx_fingerprint = fp,
                 fx_stage = FxPrepared, fx_prepared = normal_dict p, fx_authorization = None, fx_signature = None,
                 fx_receipt = None, fx_created_at = strftime_utc current, fx_updated_at = strftime_utc current\<rparr> (fx_rows db)\<rparr>"
    by (auto simp: bind_res_eq_Inr bind_unit_eq_Inr reject_if_eq_Inr split: option.splits if_splits)
  moreover from this(1) have "select_row fx_id (fx_rows db) rid = None" by (auto simp: select_row_def find_None_iff)
  ultimately show ?thesis using that doc rid ob by simp
qed

lemma fa_issued:
  assumes "fa_issue jcs key prepared aid issued_at ends_at True = Inr a"
  shows "map fst a = map KStr fa_signed_fields" "item a ''type'' = PStr ''execution_authorization''"
    "item a ''protocol_version'' = PStr ''1.0.0''" "item a ''single_use'' = PBool True" "item a ''authorization_id'' = PStr aid"
    "item a ''issued_at'' = PStr issued_at" "item a ''expires_at'' = PStr ends_at" "\<not> has_surrogate aid"
    "\<forall>f\<in>set fx_bound_fields. item a f = item prepared f"
proof -
  let ?p = "fa_payload prepared aid issued_at ends_at True"
  from assms obtain s where s: "fa_signature jcs key ?p = Inr s" and a: "a = ?p @ [(KStr ''authorization_signature'', PStr s)]"
    by (auto simp: fa_issue_def Let_def bind_res_eq_Inr bind_unit_eq_Inr)
  show "map fst a = map KStr fa_signed_fields" "item a ''type'' = PStr ''execution_authorization''"
    "item a ''protocol_version'' = PStr ''1.0.0''" "item a ''single_use'' = PBool True" "item a ''authorization_id'' = PStr aid"
    "item a ''issued_at'' = PStr issued_at" "item a ''expires_at'' = PStr ends_at" 
    "\<forall>f\<in>set fx_bound_fields. item a f = item prepared f"
    by (simp_all add: a fa_payload_def fa_signed_fields_def fa_fields_def fx_bound_fields_def item_def)
  have "ext_value (PDict ?p)" using s by (auto simp: fa_signature_def bind_res_eq_Inr dest: canonicalize_ext)
  then show "\<not> has_surrogate aid" by (simp add: fa_payload_def ext_value_dict)
qed

text \<open>What the authority issues, it verifies.\<close>

lemma fa_issued_verifies:
  assumes "fa_issue jcs key prepared authorization_id issued_at expires_at single_use = Inr a"
  shows "fa_verify jcs key a = Inr True"
proof -
  let ?p = "fa_payload prepared authorization_id issued_at expires_at single_use"
  from assms obtain s where s: "fa_signature jcs key ?p = Inr s" and a: "a = ?p @ [(KStr ''authorization_signature'', PStr s)]"
    by (auto simp: fa_issue_def Let_def bind_res_eq_Inr bind_unit_eq_Inr)
  have k: "map fst a = map KStr fa_signed_fields"
    by (simp add: a fa_payload_def fa_signed_fields_def fa_fields_def)
  have "missing_keys fa_signed_fields a = []" "unknown_keys fa_signed_fields a = []"
    by (auto simp: missing_keys_def unknown_keys_def k filter_empty_conv)
  moreover have "map (\<lambda>k. (KStr k, item a k)) fa_fields = ?p" "item a ''authorization_signature'' = PStr s"
    by (simp_all add: a fa_payload_def fa_fields_def item_def)
  moreover have "is_ascii s"
    using s hmac_ascii by (auto simp: fa_signature_def bind_res_eq_Inr is_ascii_def)
  ultimately show ?thesis using s by (simp add: fa_verify_def compare_digest_def)
qed

lemma fx_issued_checked:
  assumes "fa_issue jcs (fe_key ex) prepared aid issued_at ends_at True = Inr a" "fa_verify jcs (fe_key ex) a = Inr True"
    and "strptime_any issued_at = Some i" "strptime_any ends_at = Some e" "i \<le> instant later" "instant later < e"
    and "utcoffset later \<noteq> None"
  shows "fx_check_authorization ex jcs a later = Inr (instant later)"
proof -
  have "require_exact_keys fx_invalid a fa_signed_fields = Inr ()"
    using fa_issued(1) [OF assms(1)]
    by (simp add: require_exact_keys_def closed_or_def missing_keys_def unknown_keys_def filter_empty_conv)
  with assms fa_issued [OF assms(1)] show ?thesis
    by (auto simp: fx_check_authorization_def aware_instant_def fx_timestamp_def)
qed

lemma ext_text: "ext_value (PDict d) \<Longrightarrow> item d k = PStr s \<Longrightarrow> \<not> has_surrogate s"
  by (auto simp: item_def ext_value_dict split: option.splits dest!: map_of_SomeD)

text \<open>From a fresh preparation to a receipt.\<close>

lemma fx_prepared_executes:
  assumes ok: "fx_ok jcs db" and jcs: "key_order_free jcs" "\<forall>v. ext_value v \<longrightarrow> jcs v \<noteq> None"
    and prep: "fx_prepare ex jcs request simulation signer constraints expires_at now db = (db', Inr prepared)" "db' \<noteq> db"
    and a: "fa_issue jcs (fe_key ex) prepared aid issued_at ends_at True = Inr a" "fa_verify jcs (fe_key ex) a = Inr True"
    and fresh: "\<forall>c\<in>set (fx_consumptions db). fc_id c \<noteq> aid"
    and t: "strptime_any issued_at = Some i" "strptime_any ends_at = Some e" "strptime_any expires_at = Some u"
      "i \<le> instant later" "instant later < e" "e \<le> u" "utcoffset later \<noteq> None" "four_digit_year (instant later)"
  shows "\<exists>db'' receipt. fx_execute ex jcs a later None db' = (db'', Inr receipt) \<and>
    item receipt ''execution_request_id'' = item prepared ''execution_request_id'' \<and>
    item receipt ''execution_commitment_hash'' = item prepared ''execution_commitment_hash''"
proof -
  let ?now = "instant later"
  from prep obtain plan fp current rid ob row where
    doc: "fx_document ex jcs request simulation signer constraints expires_at now = Inr (plan, prepared, fp, current)"
    and rid: "item prepared ''execution_request_id'' = PStr rid" "\<not> has_surrogate rid" and ob: "item plan ''obligation_id'' = PStr ob"
    and free: "select_row fx_id (fx_rows db) rid = None" "select_row ef_obligation (fx_effects db) ob = None"
    and db': "db' = db\<lparr>fx_rows := insert_row row (fx_rows db)\<rparr>"
    and row: "fx_id row = rid" "fx_obligation row = ob" "fx_stage row = FxPrepared" "fx_prepared row = normal_dict prepared"
    by (rule fx_preparedE)
  note issued = fa_issued [OF a(1)]
  have auth: "fx_check_authorization ex jcs a later = Inr ?now"
    by (rule fx_issued_checked [OF a t(1,2,4,5,7)])
  have v: "fx_verify_binding jcs a (normal_dict prepared) ?now ob = Inr ()"
    by (rule fx_binding_ok [OF doc jcs(1) ob issued(9) t(3) _ _ t(6)]) (use issued t in \<open>simp_all add: fx_timestamp_def\<close>)
  have no_effect: "select_row ef_request (fx_effects db) rid = None"
    using ok free(1) unfolding fx_ok_def select_row_None by metis
  obtain h m where hm: "item (normal_dict prepared) ''execution_commitment_hash'' = PStr h"
    "item (normal_dict prepared) ''prepared_message_hash'' = PStr m"
    using v by (rule fx_verify_bindingE)
  note text_of = ext_text [OF fx_document_ext [OF doc]]
  have "\<exists>db'' sg b. fx_apply jcs a aid rid row (strftime_utc ?now) db' = Inr (db'', fx_receipt_body (PStr rid) (fx_prepared row) sg (strftime_utc ?now) @
      [(KStr ''receipt_hash'', PStr (sha256_digest b))])"
    by (rule fx_apply_ok [OF issued(5) _ rid(2), of row h m])
      (use issued rid row hm text_of jcs(2) no_effect strftime_ascii [OF t(8)] in \<open>simp_all add: fx_bound_fields_def item_normal db'\<close>)
  then obtain db'' sg b where ap: "fx_apply jcs a aid rid row (strftime_utc ?now) db' = Inr (db'', fx_receipt_body (PStr rid) (fx_prepared row) sg (strftime_utc ?now) @
      [(KStr ''receipt_hash'', PStr (sha256_digest b))])" by blast
  have "select_row fx_id (fx_rows db') rid = Some row" using fx_table.ins_read [of "fx_rows db" row] free(1) row(1) by (simp add: db')
  moreover have "select_row fc_id (fx_consumptions db') aid = None" using fresh by (simp add: db' select_row_None)
  moreover have "item a ''execution_request_id'' = PStr rid" using issued(9) rid(1) by (simp add: fx_bound_fields_def)
  ultimately have "fx_execute_tx jcs a ?now db' = Inr (db'', fx_receipt_body (PStr rid) (fx_prepared row) sg (strftime_utc ?now) @
      [(KStr ''receipt_hash'', PStr (sha256_digest b))])"
    using issued(5,8) rid(2) row v free(2) ap by (simp add: fx_execute_tx_def db')
  then have "fx_execute ex jcs a later None db' = (db'', Inr (fx_receipt_body (PStr rid) (fx_prepared row) sg (strftime_utc ?now) @
      [(KStr ''receipt_hash'', PStr (sha256_digest b))]))"
    using auth by (simp add: fx_execute_def transaction_def Let_def)
  then show ?thesis
    using rid(1) row(4) hm(1) by (auto simp: fx_receipt_body_def item_def map_of_normal split: option.splits)
qed

end
