(* ===== verification/Fake_Executor_Props.thy ===== *)
theory Fake_Executor_Props
  imports Fake_Executor_Live Grant_Examples
begin

text \<open>
  What the fake executor promises: an obligation takes effect at most once and only under an
  authentic, current authorization of exactly the prepared execution; what it did survives a lost
  response; and an authorization it issues is one it verifies.
\<close>

lemma distinct_column_filter: "distinct (map k xs) \<Longrightarrow> length (filter (\<lambda>x. k x = y) xs) \<le> 1"
proof (induction xs)
  case (Cons x xs)
  then have "filter (\<lambda>z. k z = k x) xs = []" by (auto simp: filter_empty_conv image_iff)
  with Cons show ?case by auto
qed simp

section \<open>Properties\<close>

text \<open>
  Property C21. Along every run of the fake executor each obligation has at most one effect and each
  authorization is consumed at most once; an effect belongs to a confirmed execution of its
  obligation, a consumed authorization to the confirmed execution that used it, and every confirmed
  execution has both. No execution is ever left between authorized and confirmed.
\<close>

theorem fake_executor_once:
  assumes "(fx_step ex jcs)\<^sup>*\<^sup>* fx_init db"
  shows "(\<forall>ob n. fx_effect_count ob db = Inr n \<longrightarrow> n \<le> 1) \<and> distinct (map fc_id (fx_consumptions db)) \<and>
    (\<forall>e\<in>set (fx_effects db). \<exists>r\<in>set (fx_rows db).
       fx_id r = ef_request e \<and> fx_obligation r = ef_obligation e \<and> fx_stage r = FxConfirmed) \<and>
    (\<forall>c\<in>set (fx_consumptions db). \<exists>r\<in>set (fx_rows db).
       fx_id r = fc_request c \<and> fx_authorization r = Some (fc_id c) \<and> fx_stage r = FxConfirmed) \<and>
    (\<forall>r\<in>set (fx_rows db). fx_stage r = FxPrepared \<or> fx_stage r = FxConfirmed \<and>
       (\<exists>e\<in>set (fx_effects db). ef_obligation e = fx_obligation r \<and> ef_request e = fx_id r) \<and>
       (\<exists>c\<in>set (fx_consumptions db). fx_authorization r = Some (fc_id c) \<and> fc_request c = fx_id r))"
proof -
  have ok: "fx_ok jcs db" by (rule fx_reached_ok [OF assms])
  have "n \<le> 1" if "fx_effect_count ob db = Inr n" for ob n
  proof -
    have "distinct (map ef_obligation (fx_effects db))" using ok by (simp add: fx_ok_def)
    then have "length (filter (\<lambda>e. ef_obligation e = ob) (fx_effects db)) \<le> 1"
      by (rule distinct_column_filter)
    with that show ?thesis by (auto simp: fx_effect_count_def bind_res_eq_Inr split: if_splits)
  qed
  moreover have "fx_stage r = FxPrepared \<or> fx_stage r = FxConfirmed \<and>
       (\<exists>e\<in>set (fx_effects db). ef_obligation e = fx_obligation r \<and> ef_request e = fx_id r) \<and>
       (\<exists>c\<in>set (fx_consumptions db). fx_authorization r = Some (fc_id c) \<and> fc_request c = fx_id r)"
    if "r \<in> set (fx_rows db)" for r
  proof -
    have "fx_row_ok jcs db r" using ok that by (simp add: fx_ok_def)
    then show ?thesis by (auto simp: fx_row_ok_def split: fx_state.splits)
  qed
  ultimately show ?thesis using ok by (simp add: fx_ok_def)
qed

text \<open>
  Property C23. The executor changes its tables only under an authentic, single-use authorization in
  its time window that names exactly what was prepared: the request, the signer, the digest of the stored
  message, and the commitment hash recomputed for the obligation of the row, which has no effect yet and
  whose preparation has not expired.
\<close>

theorem fake_executor_authorized:
  assumes "fst (fx_execute ex jcs a now fault db) \<noteq> db"
  shows "\<exists>row h message payload issued expires until.
    row \<in> set (fx_rows db) \<and> fx_stage row \<noteq> FxConfirmed \<and>
    (\<forall>e\<in>set (fx_effects db). ef_obligation e \<noteq> fx_obligation row) \<and>
    canonicalize jcs (PDict (map (\<lambda>k. (KStr k, item a k)) fa_fields)) = Inr payload \<and>
    item a ''authorization_signature'' = PStr (''hmac-sha256:'' @ hmac_sha256_hex (fe_key ex) payload) \<and>
    item a ''single_use'' = PBool True \<and>
    fx_timestamp (item a ''issued_at'') = Inr issued \<and> fx_timestamp (item a ''expires_at'') = Inr expires \<and>
    fx_timestamp (item (fx_prepared row) ''expires_at'') = Inr until \<and>
    issued \<le> instant now \<and> instant now < expires \<and> expires \<le> until \<and>
    execution_commitment_hash jcs (fx_commitment (fx_prepared row) (PStr (fx_obligation row))) = Inr h \<and>
    item a ''execution_commitment_hash'' = PStr h \<and>
    fx_stored_message (fx_prepared row) = Inr message \<and> item a ''prepared_message_hash'' = PStr (sha256_digest message) \<and>
    py_eq (item a ''signer'') (item (fx_prepared row) ''signer'')"
proof -
  from assms fx_execute_db [of ex jcs a now fault db] obtain receipt current where
    c: "fx_check_authorization ex jcs a now = Inr current"
    and e: "fx_execute_tx jcs a current db = Inr (fst (fx_execute ex jcs a now fault db), receipt)" by blast
  from c obtain payload issued expires where auth:
    "canonicalize jcs (PDict (map (\<lambda>k. (KStr k, item a k)) fa_fields)) = Inr payload"
    "item a ''authorization_signature'' = PStr (''hmac-sha256:'' @ hmac_sha256_hex (fe_key ex) payload)"
    "item a ''single_use'' = PBool True" "current = instant now"
    "fx_timestamp (item a ''issued_at'') = Inr issued" "fx_timestamp (item a ''expires_at'') = Inr expires"
    "issued \<le> current" "current < expires"
    by (rule fx_check_authorizationE)
  from e obtain aid rid row where
    s: "select_row fx_id (fx_rows db) rid = Some row" and st: "fx_stage row \<noteq> FxConfirmed"
    and v: "fx_verify_binding jcs a (fx_prepared row) current (fx_obligation row) = Inr ()"
    and n: "select_row ef_obligation (fx_effects db) (fx_obligation row) = None"
    by (rule fx_execute_txE)
  from v obtain h m where hm: "item (fx_prepared row) ''execution_commitment_hash'' = PStr h"
    "item (fx_prepared row) ''prepared_message_hash'' = PStr m"
    "execution_commitment_hash jcs (fx_commitment (fx_prepared row) (PStr (fx_obligation row))) = Inr h"
    "\<forall>f\<in>set fx_bound_fields. py_eq (item a f) (item (fx_prepared row) f)"
    "\<exists>t e. fx_timestamp (item (fx_prepared row) ''expires_at'') = Inr t \<and> fx_timestamp (item a ''expires_at'') = Inr e \<and> current < t \<and> e \<le> t"
    "\<exists>message. fx_stored_message (fx_prepared row) = Inr message \<and> m = sha256_digest message"
    by (rule fx_verify_bindingE)
  from hm(5) auth(6) obtain until where until: "fx_timestamp (item (fx_prepared row) ''expires_at'') = Inr until" "expires \<le> until"
    by auto
  from hm(6) obtain message where message: "fx_stored_message (fx_prepared row) = Inr message" "m = sha256_digest message" by blast
  have bound: "item a ''execution_commitment_hash'' = PStr h" "item a ''prepared_message_hash'' = PStr m"
    "py_eq (item a ''signer'') (item (fx_prepared row) ''signer'')"
    using hm(1,2,4) by (simp_all add: fx_bound_fields_def)
  have "row \<in> set (fx_rows db)" using select_row_key [OF s] by simp
  then show ?thesis
    using st n [unfolded select_row_None] auth hm(3) until message bound by blast
qed

text \<open>
  Property C24. What the executor did survives a lost response: a call that changes the tables replies with
  a receipt, or loses it when told to; whatever happens afterwards, recovery
  reports the execution as confirmed and not to be materialized again, the durable receipt passes its
  integrity check and carries the signature that recovery reports, and presenting the authorization again
  changes nothing. The serializer does not depend on the order of keys.
\<close>

theorem fake_executor_outcome_kept:
  assumes "(fx_step ex jcs)\<^sup>*\<^sup>* fx_init db" "key_order_free jcs"
    and "fx_execute ex jcs a now fault db = (db', reply)" "db' \<noteq> db"
    and "(fx_step ex jcs)\<^sup>*\<^sup>* db' db''" "utcoffset later \<noteq> None"
  shows "(if fault = None then \<exists>receipt. reply = Inr receipt else reply = Inl (fx_error ''ResponseLost'')) \<and>
    (\<exists>rid res receipt. item a ''execution_request_id'' = PStr rid \<and>
    fx_recover jcs rid later db'' = Inr res \<and> fx_read_receipt jcs rid db'' = Inr (Some receipt) \<and>
    item res ''outcome'' = PStr ''confirmed'' \<and> item res ''may_rematerialize'' = PBool False \<and>
    item res ''transaction_signature'' = item receipt ''transaction_signature'' \<and>
    (\<forall>t fault. fst (fx_execute ex jcs a t fault db'') = db''))"
proof -
  have ok: "fx_ok jcs db" by (rule fx_reached_ok [OF assms(1)])
  from assms(3,4) obtain current receipt where e: "fx_execute_tx jcs a current db = Inr (db', receipt)"
    and reply: "reply = (if fault = None then Inr receipt else Inl (fx_error ''ResponseLost''))"
    by (rule fx_changed)
  obtain rid aid r where r: "item a ''execution_request_id'' = PStr rid" "bound_text (item a ''authorization_id'') = Inr aid"
    "r \<in> set (fx_rows db')" "fx_id r = rid" "fx_stage r = FxConfirmed" "aid \<in> fc_id ` set (fx_consumptions db')"
    by (rule fx_executed [OF ok e])
  have ok': "fx_ok jcs db'" by (rule fx_execute_tx_ok [OF ok e])
  have ok'': "fx_ok jcs db''" by (rule fx.steps_inv [OF assms(5) ok'])
  have kept: "r \<in> set (fx_rows db'')" "aid \<in> fc_id ` set (fx_consumptions db'')"
    using fx_run_kept [OF assms(5) ok'] r by (auto simp: fx_kept_def)
  have replay: "fst (fx_execute ex jcs a t fault db'') = db''" for t fault
    by (rule fx_replayed [OF r(2) kept(2)])
  obtain res rc where "fx_recover jcs rid later db'' = Inr res" "fx_read_receipt jcs rid db'' = Inr (Some rc)"
    "item res ''outcome'' = PStr ''confirmed''" "item res ''may_rematerialize'' = PBool False"
    "item res ''transaction_signature'' = item rc ''transaction_signature''"
    by (rule fx_confirmed_recovered [OF ok'' assms(2) kept(1) r(5) assms(6), unfolded r(4)])
  with r(1) replay reply show ?thesis by auto
qed

text \<open>
  Property C22. The authority and the executor fit together: an authorization issued for a freshly prepared
  execution, presented within its window and within that of the preparation to an executor that has not
  seen it, is executed, although the executor works on what it reads back from its tables; the receipt
  names the request and the commitment that were prepared. The serializer accepts the values of the
  domain and does not depend on the order of keys.
\<close>

theorem prepared_authorization_executes:
  assumes "(fx_step ex jcs)\<^sup>*\<^sup>* fx_init db" "key_order_free jcs" "\<forall>v. ext_value v \<longrightarrow> jcs v \<noteq> None"
    and "fx_prepare ex jcs request simulation signer constraints expires_at now db = (db', Inr prepared)" "db' \<noteq> db"
    and "fa_issue jcs (fe_key ex) prepared aid issued_at ends_at True = Inr a" "\<forall>c\<in>set (fx_consumptions db). fc_id c \<noteq> aid"
    and "strptime_any issued_at = Some i" "strptime_any ends_at = Some e" "strptime_any expires_at = Some u"
    and "i \<le> instant later" "instant later < e" "e \<le> u" "utcoffset later \<noteq> None" "four_digit_year (instant later)"
  shows "\<exists>db'' receipt. fx_execute ex jcs a later None db' = (db'', Inr receipt) \<and>
    item receipt ''execution_request_id'' = item prepared ''execution_request_id'' \<and>
    item receipt ''execution_commitment_hash'' = item prepared ''execution_commitment_hash''"
  by (rule fx_prepared_executes [OF fx_reached_ok [OF assms(1)] assms(2-6) fa_issued_verifies [OF assms(6)] assms(7-)])

section \<open>A run\<close>

text \<open>The plan of \<open>Grant_Examples\<close> is prepared, authorized and executed; digests stay symbolic.\<close>

definition example_fx :: fake_executor where
  "example_fx = \<lparr>fe_key = replicate 32 (CHR ''k''), fe_executor_id = ''exec-1'', fe_executor_version = ''1''\<rparr>"

definition fx_approval :: pydict where
  "fx_approval = [(KStr ''economic_plan_hash'', PStr (ext_digest example_plan_items)), (KStr ''expires_at'', PStr ''2026-02-04T00:00:00Z'')]"

definition fx_request :: pydict where
  "fx_request =
     [(KStr ''type'', PStr ''external_execution_request''), (KStr ''protocol_version'', PStr ''1.0.0''),
      (KStr ''execution_request_id'', PStr ''req-1''), (KStr ''idempotency_key'', PStr ''key-1''),
      (KStr ''economic_plan'', PDict example_plan_items), (KStr ''economic_plan_hash'', PStr (ext_digest example_plan_items)),
      (KStr ''economic_approval'', PDict fx_approval)]"

definition fx_example_message :: string where
  "fx_example_message = ''foundry-fake-solana-message-v1'' @ [CHR 0x00] @ example_jcs_text (PDict example_plan_items)"

definition fx_example_document :: "string \<Rightarrow> pydict" where
  "fx_example_document h = fx_prepared_execution example_fx (PStr ''req-1'') (ext_digest example_plan_items) fx_example_message
     (sha256_digest fx_example_message) example_simulation (ext_digest example_simulation) h example_solana_key
     (constraints_dict example_constraints) ''2026-02-03T12:00:00Z''"

definition fx_example_commit :: pydict where
  "fx_example_commit =
     [(KStr ''protocol_version'', PStr ''1.0.0''), (KStr ''normalization_profile'', PStr ''foundry-pay-domain-v1''),
      (KStr ''execution_request_id'', PStr ''req-1''), (KStr ''obligation_id'', PStr ''ob-1''),
      (KStr ''executor_id'', PStr ''exec-1''), (KStr ''executor_version'', PStr ''1''),
      (KStr ''economic_plan_hash'', PStr (ext_digest example_plan_items)),
      (KStr ''prepared_message_hash'', PStr (sha256_digest fx_example_message)),
      (KStr ''simulation_attestation_hash'', PStr (ext_digest example_simulation)),
      (KStr ''signer'', PStr example_solana_key), (KStr ''constraints'', PDict (constraints_dict example_constraints)),
      (KStr ''expires_at'', PStr ''2026-02-03T12:00:00Z'')]"

definition fx_example_prepared :: pydict where
  "fx_example_prepared = fx_example_document (ext_digest fx_example_commit)"

definition fx_example_inputs :: pydict where
  "fx_example_inputs =
     [(KStr ''request'', PDict fx_request), (KStr ''simulation'', PDict example_simulation), (KStr ''signer'', PStr example_solana_key),
      (KStr ''constraints'', PDict (constraints_dict example_constraints)), (KStr ''expires_at'', PStr ''2026-02-03T12:00:00Z'')]"

lemma example_canonical_ext: "ext_value v \<Longrightarrow> canonicalize example_jcs v = Inr (example_jcs_text v)"
  by (rule canonicalize_example) (simp only: reject_ext_value)

lemma fx_example_values:
  "ext_value (PDict example_plan_items)" "ext_value (PDict example_simulation)"
  "ext_value (PDict (constraints_dict example_constraints))" "\<not> has_surrogate example_solana_key"
  by code_simp+

lemma fx_example_texts:
  "\<not> has_surrogate ''req-1''" "\<not> has_surrogate ''key-1''" "\<not> has_surrogate ''ob-1''" "\<not> has_surrogate ''auth-1''"
  "\<not> has_surrogate ''2026-02-03T12:00:00Z''" "\<not> has_surrogate ''2026-02-04T00:00:00Z''"
  "\<not> has_surrogate ''2026-02-03T00:00:00Z''" "\<not> has_surrogate ''2026-02-03T00:00:30Z''"
  by code_simp+

lemma fx_example_request: "fx_check_request example_jcs fx_request = Inr (example_plan_items, ext_digest example_plan_items, fx_approval)"
proof -
  have "normalize_economic_plan (PDict example_plan_items) = Inr example_plan_items" by code_simp
  moreover have "economic_plan_hash example_jcs (PDict example_plan_items) = Inr (ext_digest example_plan_items)"
    using example_plan_hash by (simp only: example_plan_def ext_digest_def)
  ultimately show ?thesis
    by (simp add: fx_check_request_def require_exact_keys_def closed_or_def fx_request_def fx_approval_def fx_request_fields_def
        missing_keys_def unknown_keys_def item_def)
qed

lemma fx_example_times:
  "fx_timestamp (item example_plan_items ''expires_at'') = Inr 63907228800000000"
  "fx_timestamp (item example_simulation ''valid_until'') = Inr 63905846400000000"
  "fx_timestamp (PStr ''2026-02-04T00:00:00Z'') = Inr 63905846400000000"
  "fx_timestamp (PStr ''2026-02-03T12:00:00Z'') = Inr 63905803200000000"
  "strptime_any ''2026-02-03T12:00:00Z'' = Some 63905803200000000"
  "strptime_any ''2026-02-03T00:00:00Z'' = Some 63905760000000000" "strptime_any ''2026-02-03T00:00:30Z'' = Some 63905760030000000"
  by code_simp+

lemma fx_example_windows:
  "fx_check_windows example_plan_items fx_approval example_simulation ''2026-02-03T12:00:00Z'' 63905760000000000 = Inr ()"
proof -
  have "item fx_approval ''expires_at'' = PStr ''2026-02-04T00:00:00Z''" by (simp add: fx_approval_def item_def)
  moreover have "item example_simulation ''success'' = PBool True" by code_simp
  ultimately show ?thesis by (simp add: fx_check_windows_def fx_example_times)
qed

lemma fx_example_commitment:
  "execution_commitment_hash example_jcs (fx_commitment (fx_example_document h) (PStr ''ob-1'')) = Inr (ext_digest fx_example_commit)"
proof -
  have c: "fx_commitment (fx_example_document h) (PStr ''ob-1'') = PDict fx_example_commit"
    by (simp add: fx_commitment_def fx_example_document_def fx_prepared_execution_def fx_example_commit_def item_def example_fx_def)
  have k: "require_solana_pubkey (PStr example_solana_key) ''$.signer'' = Inr example_solana_key"
    "require_timestamp (PStr ''2026-02-03T12:00:00Z'') ''$.expires_at'' = Inr ''2026-02-03T12:00:00Z''"
    "identifier_text ''req-1''" "identifier_text ''ob-1''" "identifier_text ''exec-1''"
    by code_simp+
  have e: "ext_value (PDict fx_example_commit)"
    using fx_example_values by (simp add: fx_example_commit_def ext_value_dict)
  have "check_ext_commitment fx_example_commit = Inr ()"
    using k by (simp add: check_ext_commitment_def require_closed_keys_def fx_example_commit_def ext_commitment_required_def
        missing_keys_def unknown_keys_def dn_literal_def require_identifier_def require_hash_def item_def)
  then show ?thesis
    unfolding c using example_canonical_ext [OF e] e
    by (simp add: execution_commitment_hash_def ext_digest_def reject_ext_value [THEN iffD2] del: reject_unsupported_json.simps example_jcs_text.simps)
qed

lemma fx_example_prepares:
  "fx_document example_fx example_jcs fx_request example_simulation example_solana_key (constraints_dict example_constraints)
     ''2026-02-03T12:00:00Z'' grant_now =
   Inr (example_plan_items, fx_example_prepared, ext_digest fx_example_inputs, 63905760000000000)"
proof -
  have m: "fx_message example_jcs example_plan_items = Inr fx_example_message"
    using example_canonical_ext [OF fx_example_values(1)]
    by (simp add: fx_message_def fx_example_message_def del: example_jcs_text.simps)
  have s: "simulation_attestation_hash example_jcs (PDict example_simulation) = Inr (ext_digest example_simulation)"
    using example_canonical_ext [OF fx_example_values(2)]
    by (simp add: simulation_attestation_hash_def ext_digest_def del: example_jcs_text.simps)
  have "ext_value (PDict fx_example_inputs)"
    using fx_example_values fx_example_texts by (simp add: fx_example_inputs_def fx_request_def fx_approval_def ext_value_dict)
  from example_canonical_ext [OF this]
  have i: "canonicalize example_jcs (PDict fx_example_inputs) = Inr (example_jcs_text (PDict fx_example_inputs))" .
  have ids: "item fx_request ''execution_request_id'' = PStr ''req-1''" by (simp add: fx_request_def item_def)
  have ob: "item example_plan_items ''obligation_id'' = PStr ''ob-1''" by code_simp
  have h: "prepared_message_hash fx_example_message = Inr (sha256_digest fx_example_message)"
    by (simp add: prepared_message_hash_def fx_example_message_def)
  show ?thesis
    using fx_example_commitment [of "[]"] i
    by (simp add: fx_document_def fx_example_request aware_instant_def fx_example_windows m h s ids ob Let_def
        fx_example_document_def [symmetric] fx_example_prepared_def fx_example_inputs_def [symmetric] ext_digest_def [symmetric]
        del: example_jcs_text.simps)
qed

lemma fx_example_prepared_db:
  obtains db where "fx_prepare example_fx example_jcs fx_request example_simulation example_solana_key
      (constraints_dict example_constraints) ''2026-02-03T12:00:00Z'' grant_now fx_init = (db, Inr fx_example_prepared)"
    "db \<noteq> fx_init" "fx_consumptions db = []" "fx_effects db = []"
proof -
  have ob: "item example_plan_items ''obligation_id'' = PStr ''ob-1''" by code_simp
  have r: "item fx_request ''execution_request_id'' = PStr ''req-1''" "item fx_request ''idempotency_key'' = PStr ''key-1''"
    by (simp_all add: fx_request_def item_def)
  have "fx_json fx_example_prepared = Inr (normal_dict fx_example_prepared)"
    by (rule fx_json_ext) (rule fx_document_ext [OF fx_example_prepares])
  then show ?thesis
    using that fx_example_texts
    by (auto simp: fx_prepare_def fx_example_prepares fx_prepare_tx_def ob r fx_init_def select_row_def insert_row_def transaction_def)
qed

lemma fx_example_authorization:
  obtains a where "fa_issue example_jcs (fe_key example_fx) fx_example_prepared ''auth-1'' ''2026-02-03T00:00:00Z''
    ''2026-02-03T00:00:30Z'' True = Inr a"
proof -
  let ?p = "fa_payload fx_example_prepared ''auth-1'' ''2026-02-03T00:00:00Z'' ''2026-02-03T00:00:30Z'' True"
  have "ext_value (PDict ?p)"
    using fx_example_values fx_example_texts
    by (simp add: fa_payload_def fx_example_prepared_def fx_example_document_def fx_prepared_execution_def item_def ext_value_dict)
  from example_canonical_ext [OF this]
  have "fa_signature example_jcs (fe_key example_fx) ?p = Inr (''hmac-sha256:'' @ hmac_sha256_hex (fe_key example_fx) (example_jcs_text (PDict ?p)))"
    by (simp add: fa_signature_def del: example_jcs_text.simps)
  moreover have "missing_keys [''execution_request_id'', ''execution_commitment_hash'', ''prepared_message_hash'', ''signer''] fx_example_prepared = []"
    by (simp add: missing_keys_def fx_example_prepared_def fx_example_document_def fx_prepared_execution_def)
  ultimately show ?thesis
    using that by (simp add: fa_issue_def Let_def del: example_jcs_text.simps)
qed

lemma example_serializer: "\<forall>v. ext_value v \<longrightarrow> example_jcs v \<noteq> None"
  by (simp add: example_jcs_def)

lemma fx_example_clock: "four_digit_year 63905760000000000" "utcoffset grant_now \<noteq> None"
  by (code_simp, simp)

lemma fx_execute_effects:
  "fx_execute ex jcs a now fault db = (db', Inr receipt) \<Longrightarrow> \<exists>e. fx_effects db' = fx_effects db @ [e]"
  by (auto simp: fx_execute_def transaction_def Let_def bind_res_eq_Inr split: sum.splits if_splits elim!: fx_execute_txE fx_applyE)

lemma fx_example_run:
  obtains a db db' receipt where "(fx_step example_fx example_jcs)\<^sup>*\<^sup>* fx_init db" "(fx_step example_fx example_jcs)\<^sup>*\<^sup>* fx_init db'"
    "fx_execute example_fx example_jcs a grant_now None db = (db', Inr receipt)" "length (fx_effects db') = 1" "db' \<noteq> db"
proof -
  obtain db where db: "fx_prepare example_fx example_jcs fx_request example_simulation example_solana_key
      (constraints_dict example_constraints) ''2026-02-03T12:00:00Z'' grant_now fx_init = (db, Inr fx_example_prepared)"
    "db \<noteq> fx_init" "fx_effects db = []" by (rule fx_example_prepared_db)
  obtain a where a: "fa_issue example_jcs (fe_key example_fx) fx_example_prepared ''auth-1'' ''2026-02-03T00:00:00Z''
    ''2026-02-03T00:00:30Z'' True = Inr a" by (rule fx_example_authorization)
  have "\<exists>db'' receipt. fx_execute example_fx example_jcs a grant_now None db = (db'', Inr receipt) \<and>
    item receipt ''execution_request_id'' = item fx_example_prepared ''execution_request_id'' \<and>
    item receipt ''execution_commitment_hash'' = item fx_example_prepared ''execution_commitment_hash''"
    by (rule fx_prepared_executes [OF fx_ok_init example_jcs_order_free example_serializer db(1,2) a fa_issued_verifies [OF a] _
          fx_example_times(6,7,5)])
      (use fx_example_clock in \<open>simp_all add: fx_init_def\<close>)
  then obtain db' receipt where e: "fx_execute example_fx example_jcs a grant_now None db = (db', Inr receipt)" by blast
  have s: "fx_step example_fx example_jcs fx_init db" "fx_step example_fx example_jcs db db'"
    using fx_step.prepare [of example_fx example_jcs fx_init] fx_step.execute [of example_fx example_jcs db a grant_now None] db(1) e
    by (metis fst_conv)+
  obtain x where "fx_effects db' = fx_effects db @ [x]" using fx_execute_effects [OF e] by blast
  then have "length (fx_effects db') = 1" "db' \<noteq> db" using db(3) by auto
  moreover have "(fx_step example_fx example_jcs)\<^sup>*\<^sup>* fx_init db" using s(1) ..
  moreover from this s(2) have "(fx_step example_fx example_jcs)\<^sup>*\<^sup>* fx_init db'" ..
  ultimately show ?thesis using that e by blast
qed

theorem fake_executor_once_witness:
  "\<exists>db. (fx_step example_fx example_jcs)\<^sup>*\<^sup>* fx_init db \<and> length (fx_effects db) = 1 \<and>
     (\<exists>r\<in>set (fx_rows db). fx_stage r = FxConfirmed \<and> fx_id r = ef_request (hd (fx_effects db)))"
proof -
  obtain db where db: "(fx_step example_fx example_jcs)\<^sup>*\<^sup>* fx_init db" "length (fx_effects db) = 1" by (rule fx_example_run)
  then have "hd (fx_effects db) \<in> set (fx_effects db)" by (cases "fx_effects db") auto
  with fake_executor_once [OF db(1)] db show ?thesis by metis
qed

theorem fake_executor_authorized_witness:
  "\<exists>a db row. (fx_step example_fx example_jcs)\<^sup>*\<^sup>* fx_init db \<and> row \<in> set (fx_rows db) \<and>
     fst (fx_execute example_fx example_jcs a grant_now None db) \<noteq> db \<and> item a ''single_use'' = PBool True"
proof -
  obtain a db db' receipt where db: "(fx_step example_fx example_jcs)\<^sup>*\<^sup>* fx_init db"
    "fx_execute example_fx example_jcs a grant_now None db = (db', Inr receipt)" "db' \<noteq> db" by (rule fx_example_run)
  then have "fst (fx_execute example_fx example_jcs a grant_now None db) \<noteq> db" by simp
  from fake_executor_authorized [OF this] this db(1) show ?thesis by blast
qed

theorem fake_executor_outcome_kept_witness:
  "\<exists>rid res db. fx_effects db \<noteq> [] \<and> fx_recover example_jcs rid grant_now db = Inr res \<and>
     item res ''outcome'' = PStr ''confirmed'' \<and> item res ''may_rematerialize'' = PBool False"
proof -
  obtain a db db' receipt where db: "(fx_step example_fx example_jcs)\<^sup>*\<^sup>* fx_init db"
    "fx_execute example_fx example_jcs a grant_now None db = (db', Inr receipt)" "length (fx_effects db') = 1" "db' \<noteq> db"
    by (rule fx_example_run)
  then have "fx_effects db' \<noteq> []" by auto
  with fake_executor_outcome_kept [OF db(1) example_jcs_order_free db(2,4) rtranclp.rtrancl_refl fx_example_clock(2)]
  show ?thesis by blast
qed

theorem prepared_authorization_executes_witness:
  "\<exists>a db db' receipt. fx_execute example_fx example_jcs a grant_now None db = (db', Inr receipt) \<and>
     item receipt ''execution_request_id'' = PStr ''req-1''"
proof -
  obtain db where db: "fx_prepare example_fx example_jcs fx_request example_simulation example_solana_key
      (constraints_dict example_constraints) ''2026-02-03T12:00:00Z'' grant_now fx_init = (db, Inr fx_example_prepared)"
    "db \<noteq> fx_init" by (rule fx_example_prepared_db)
  obtain a where a: "fa_issue example_jcs (fe_key example_fx) fx_example_prepared ''auth-1'' ''2026-02-03T00:00:00Z''
    ''2026-02-03T00:00:30Z'' True = Inr a" by (rule fx_example_authorization)
  have "item fx_example_prepared ''execution_request_id'' = PStr ''req-1''"
    by (simp add: fx_example_prepared_def fx_example_document_def fx_prepared_execution_def item_def)
  with prepared_authorization_executes [OF rtranclp.rtrancl_refl example_jcs_order_free example_serializer db a _
      fx_example_times(6,7,5), of grant_now] fx_example_clock
  show ?thesis by (auto simp: fx_init_def)
qed

end
