(* ===== verification/Capabilities.thy ===== *)
theory Capabilities
  imports Exec_Checks Channel
begin

text \<open>
  \<^verbatim>\<open>foundry_channel_protocol/capabilities.py\<close>: the closed contracts of the channel operation capability
  (requests, authorizations, observations, recovery requests) and the preparation of an operation. A
  \<^verbatim>\<open>CapabilityContractError\<close> keeps its code and stage. The argument \<open>now\<close> is the instant a clock denotes:
  \<^verbatim>\<open>astimezone\<close> never fails, and takes a naive clock as local time.
\<close>

definition cap_error :: "string \<Rightarrow> string \<Rightarrow> exn" where
  "cap_error code stage = Exn CapabilityContractError code stage"

definition cap_version :: string where "cap_version = ''0.1.0-draft''"
definition capability_id :: string where "capability_id = ''foundry.channels.fixture.operation.v0''"
definition cap_executor_id :: string where "cap_executor_id = ''foundry.channels.fixture-adapter''"
definition cap_limitation :: string where
  "cap_limitation = ''Fixture environment. No real assets. No production custody or security claim.''"

definition operation_kinds :: "string list" where
  "operation_kinds = [''open'', ''top_up'', ''settle'', ''close'', ''refund'']"

definition cap_request_fields :: "string list" where
  "cap_request_fields =
     [''type'', ''protocol_version'', ''capability_id'', ''request_id'', ''operation_id'', ''idempotency_key'',
      ''operation_kind'', ''channel_id'', ''epoch'', ''sender'', ''recipient'', ''destination_wallet'', ''mint'',
      ''amount_base_units'', ''authorization_commitment'', ''expires_at'']"

definition cap_authorization_fields :: "string list" where
  "cap_authorization_fields =
     [''type'', ''protocol_version'', ''capability_id'', ''request_id'', ''operation_id'',
      ''prepared_material_hash'', ''operation_commitment'', ''authorization_id'', ''expires_at'']"

definition cap_observation_fields :: "string list" where
  "cap_observation_fields =
     [''type'', ''protocol_version'', ''capability_id'', ''request_id'', ''operation_id'',
      ''technical_receipt_hash'', ''provider_ids'', ''economic_outcome'', ''observed_at'']"

definition cap_recovery_fields :: "string list" where
  "cap_recovery_fields =
     [''type'', ''protocol_version'', ''capability_id'', ''request_id'', ''operation_id'', ''recovery_id'',
      ''requested_at'']"

section \<open>Checks\<close>

definition exact_fields :: "pyval \<Rightarrow> string list \<Rightarrow> pydict res" where
  "exact_fields v expected =
     (case v of
        PDict d \<Rightarrow>
          (if missing_keys expected d \<noteq> [] \<or> unknown_keys expected d \<noteq> [] then
             (if mixed_keys (unknown_keys expected d) then Inl (PyRaise ''TypeError'')
              else Inl (cap_error ''closed_object_violation'' ''schema''))
           else Inr d)
      | _ \<Rightarrow> Inl (cap_error ''invalid_object'' ''schema''))"

definition cap_identifier_text :: "string \<Rightarrow> bool" where
  "cap_identifier_text s \<longleftrightarrow> 1 \<le> length s \<and> length s \<le> 128 \<and> list_all is_id_char s"

definition cap_identifier :: "pyval \<Rightarrow> unit res" where
  "cap_identifier v =
     bind_res (text_or (cap_error ''invalid_identifier'' ''schema'') cap_identifier_text v) (\<lambda>_. Inr ())"

definition cap_hash :: "pyval \<Rightarrow> unit res" where
  "cap_hash v = bind_res (text_or (cap_error ''invalid_hash'' ''schema'') hash_text v) (\<lambda>_. Inr ())"

definition version_and_capability :: "pydict \<Rightarrow> unit res" where
  "version_and_capability d =
     run_all
       [reject_if (item d ''protocol_version'' \<noteq> PStr cap_version) (cap_error ''unsupported_version'' ''capability''),
        reject_if (item d ''capability_id'' \<noteq> PStr capability_id) (cap_error ''unsupported_capability'' ''capability'')]"

definition cap_timestamp :: "pyval \<Rightarrow> int res" where
  "cap_timestamp v =
     bind_res (validate_timestamp_text v ''$.expires_at'') (\<lambda>s.
     case strptime_utc s of None \<Rightarrow> Inl (PyRaise ''ValueError'') | Some t \<Rightarrow> Inr t)"

definition cap_type :: "pydict \<Rightarrow> string \<Rightarrow> unit res" where
  "cap_type d expected = reject_if (item d ''type'' \<noteq> PStr expected) (cap_error ''wrong_type'' ''schema'')"

section \<open>Contracts\<close>

definition validate_operation_request :: "pyval \<Rightarrow> int \<Rightarrow> pydict res" where
  "validate_operation_request v now =
     bind_res (exact_fields v cap_request_fields) (\<lambda>d.
     bind_res (version_and_capability d) (\<lambda>_.
     bind_res (cap_type d ''channel_operation_request'') (\<lambda>_.
     bind_res (run_all (map (\<lambda>f. cap_identifier (item d f)) [''request_id'', ''operation_id'', ''idempotency_key'',
         ''channel_id'', ''sender'', ''recipient'', ''destination_wallet'', ''mint''])) (\<lambda>_.
     bind_res (py_in (item d ''operation_kind'') operation_kinds) (\<lambda>known.
     bind_res (reject_if (\<not> known) (cap_error ''unsupported_operation'' ''schema'')) (\<lambda>_.
     bind_res (reject_if (case item d ''epoch'' of PInt i \<Rightarrow> i < 0 | _ \<Rightarrow> True) (cap_error ''invalid_epoch'' ''schema'')) (\<lambda>_.
     bind_res (validate_amount_text (item d ''amount_base_units'') ''$.amount_base_units'' True) (\<lambda>_.
     bind_res (cap_hash (item d ''authorization_commitment'')) (\<lambda>_.
     bind_res (cap_timestamp (item d ''expires_at'')) (\<lambda>expiry.
     bind_res (reject_if (expiry \<le> now) (cap_error ''request_expired'' ''lifecycle'')) (\<lambda>_.
     Inr d)))))))))))"

definition cap_bound_fields :: "string list" where
  "cap_bound_fields = [''request_id'', ''operation_id'', ''prepared_material_hash'', ''operation_commitment'']"

definition cap_validate_authorization :: "pyval \<Rightarrow> pydict \<Rightarrow> int \<Rightarrow> pydict res" where
  "cap_validate_authorization v prepared now =
     bind_res (exact_fields v cap_authorization_fields) (\<lambda>d.
     bind_res (version_and_capability d) (\<lambda>_.
     bind_res (cap_type d ''channel_operation_authorization'') (\<lambda>_.
     bind_res (run_all (map (\<lambda>f. cap_identifier (item d f)) [''request_id'', ''operation_id'', ''authorization_id''])) (\<lambda>_.
     bind_res (run_all (map (\<lambda>f. cap_hash (item d f)) [''prepared_material_hash'', ''operation_commitment''])) (\<lambda>_.
     bind_res (run_all (map (\<lambda>f. reject_if (\<not> py_eq (item d f) (item prepared f))
         (cap_error ''authorization_mismatch'' ''authorization'')) cap_bound_fields)) (\<lambda>_.
     bind_res (cap_timestamp (item d ''expires_at'')) (\<lambda>expiry.
     bind_res (reject_if (expiry \<le> now) (cap_error ''authorization_expired'' ''authorization'')) (\<lambda>_.
     bind_res (cap_timestamp (item prepared ''expires_at'')) (\<lambda>until.
     bind_res (reject_if (until < expiry) (cap_error ''authorization_outlives_preparation'' ''authorization'')) (\<lambda>_.
     Inr d))))))))))"

text \<open>
  \<^verbatim>\<open>providers != sorted(set(providers))\<close>: a set holds no list or dictionary, and values of different
  kinds are not ordered; both raise TypeError. Only texts pass the identifier check that follows.
\<close>

fun order_kind :: "pyval \<Rightarrow> nat" where
  "order_kind (PStr s) = 0"
| "order_kind (PBool b) = 1"
| "order_kind (PInt i) = 1"
| "order_kind (PFloat t) = 1"
| "order_kind PNone = 2"
| "order_kind (POther t) = 3"
| "order_kind (PList xs) = 4"
| "order_kind (PDict d) = 4"

definition unordered_values :: "pyval list \<Rightarrow> bool" where
  "unordered_values vs \<longleftrightarrow>
     list_ex (\<lambda>v. order_kind v = 4 \<or> order_kind v \<noteq> order_kind (hd vs) \<or> (order_kind v = 3 \<and> v \<noteq> hd vs)) vs"

definition check_providers :: "pyval \<Rightarrow> unit res" where
  "check_providers v =
     (case v of
        PList vs \<Rightarrow>
          (if vs = [] then Inl (cap_error ''invalid_providers'' ''reconciliation'')
           else if unordered_values vs then Inl (PyRaise ''TypeError'')
           else if list_all (\<lambda>x. str_of x \<noteq> None) vs \<and> sorted_wrt (<) (map (the \<circ> str_of) vs) \<and>
               list_all (cap_identifier_text \<circ> the \<circ> str_of) vs then Inr ()
           else Inl (cap_error ''invalid_providers'' ''reconciliation''))
      | _ \<Rightarrow> Inl (cap_error ''invalid_providers'' ''reconciliation''))"

definition cap_validate_observation :: "pyval \<Rightarrow> pydict \<Rightarrow> pydict res" where
  "cap_validate_observation v receipt =
     bind_res (exact_fields v cap_observation_fields) (\<lambda>d.
     bind_res (version_and_capability d) (\<lambda>_.
     bind_res (cap_type d ''channel_economic_observation'') (\<lambda>_.
     bind_res (run_all (map (\<lambda>f. bind_res (cap_identifier (item d f)) (\<lambda>_.
         reject_if (\<not> py_eq (item d f) (item receipt f)) (cap_error ''observation_mismatch'' ''reconciliation'')))
         [''request_id'', ''operation_id''])) (\<lambda>_.
     bind_res (cap_hash (item d ''technical_receipt_hash'')) (\<lambda>_.
     bind_res (reject_if (\<not> py_eq (item d ''technical_receipt_hash'') (item receipt ''technical_receipt_hash''))
         (cap_error ''receipt_mismatch'' ''reconciliation'')) (\<lambda>_.
     bind_res (check_providers (item d ''provider_ids'')) (\<lambda>_.
     bind_res (py_in (item d ''economic_outcome'') [''matched'', ''mismatch'', ''divergent'']) (\<lambda>known.
     bind_res (reject_if (\<not> known) (cap_error ''invalid_outcome'' ''reconciliation'')) (\<lambda>_.
     bind_res (validate_timestamp_text (item d ''observed_at'') ''$.observed_at'') (\<lambda>_.
     Inr d))))))))))"

definition validate_recovery_request :: "pyval \<Rightarrow> pydict res" where
  "validate_recovery_request v =
     bind_res (exact_fields v cap_recovery_fields) (\<lambda>d.
     bind_res (version_and_capability d) (\<lambda>_.
     bind_res (cap_type d ''channel_recovery_request'') (\<lambda>_.
     bind_res (run_all (map (\<lambda>f. cap_identifier (item d f)) [''request_id'', ''operation_id'', ''recovery_id''])) (\<lambda>_.
     bind_res (validate_timestamp_text (item d ''requested_at'') ''$.requested_at'') (\<lambda>_.
     Inr d)))))"

definition capability_manifest :: pydict where
  "capability_manifest =
     [(KStr ''type'', PStr ''channel_capability_manifest''), (KStr ''protocol_version'', PStr cap_version),
      (KStr ''executor_id'', PStr cap_executor_id),
      (KStr ''capabilities'', PList [PDict
         [(KStr ''capability_id'', PStr capability_id),
          (KStr ''actions'', PList (map PStr [''authorize'', ''evidence'', ''prepare'', ''recover'', ''status'', ''submit''])),
          (KStr ''authority'', PStr ''none''), (KStr ''economic_completion'', PBool False),
          (KStr ''solana_compatibility'', PStr ''not_claimed'')]]),
      (KStr ''limitation'', PStr cap_limitation)]"

section \<open>Preparation\<close>

definition operation_material :: "string \<Rightarrow> string" where
  "operation_material b = ''foundry-channel-fixture-operation-v0'' @ [CHR 0x00] @ b"

definition operation_commitment :: "pydict \<Rightarrow> string \<Rightarrow> string \<Rightarrow> pyval" where
  "operation_commitment d request_hash material_hash = PDict
     [(KStr ''type'', PStr ''channel_execution_commitment''), (KStr ''protocol_version'', PStr cap_version),
      (KStr ''capability_id'', PStr capability_id), (KStr ''request_id'', item d ''request_id''),
      (KStr ''operation_id'', item d ''operation_id''), (KStr ''request_hash'', PStr request_hash),
      (KStr ''prepared_material_hash'', PStr material_hash), (KStr ''executor_id'', PStr cap_executor_id),
      (KStr ''expected_authority_commitment'', item d ''authorization_commitment''),
      (KStr ''expires_at'', item d ''expires_at'')]"

definition prepared_operation :: "pydict \<Rightarrow> string \<Rightarrow> string \<Rightarrow> string \<Rightarrow> pydict" where
  "prepared_operation d request_hash material commitment_hash =
     [(KStr ''type'', PStr ''prepared_channel_operation''), (KStr ''protocol_version'', PStr cap_version),
      (KStr ''capability_id'', PStr capability_id), (KStr ''request_id'', item d ''request_id''),
      (KStr ''operation_id'', item d ''operation_id''), (KStr ''request_hash'', PStr request_hash),
      (KStr ''prepared_material_base64'', PStr (b64encode material)),
      (KStr ''prepared_material_hash'', PStr (sha256_raw_bytes material)),
      (KStr ''operation_commitment'', PStr commitment_hash), (KStr ''executor_id'', PStr cap_executor_id),
      (KStr ''expires_at'', item d ''expires_at'')]"

definition prepare_operation :: "serializer \<Rightarrow> pyval \<Rightarrow> int \<Rightarrow> pydict res" where
  "prepare_operation jcs request now =
     bind_res (validate_operation_request request now) (\<lambda>d.
     bind_res (sha256_canonical_json jcs (PDict d)) (\<lambda>request_hash.
     bind_res (canonical_json_bytes jcs (PDict d)) (\<lambda>b.
     let material = operation_material b in
     bind_res (sha256_canonical_json jcs (operation_commitment d request_hash (sha256_raw_bytes material))) (\<lambda>commitment_hash.
     Inr (prepared_operation d request_hash material commitment_hash)))))"

section \<open>Status\<close>

definition operation_states :: "string list" where
  "operation_states =
     [''draft'', ''prepared'', ''authorized'', ''submitted'', ''needs_recovery'', ''confirmed'', ''reconciled'',
      ''needs_review'', ''disputed'', ''failed_definitive'']"

record operation_status =
  os_request_id :: string
  os_operation_id :: string
  os_state :: string
  os_submit_intent_count :: int
  os_automatic_resubmission_count :: int
  os_updated_at :: string
  os_technical_receipt :: "pydict option"
  os_reconciled_result :: "pydict option"

text \<open>The constructor, with the check of \<^verbatim>\<open>__post_init__\<close>.\<close>

definition make_status :: "operation_status \<Rightarrow> operation_status res" where
  "make_status s =
     bind_res (reject_if (\<not> List.member operation_states (os_state s)) (PyRaise ''ValueError'')) (\<lambda>_. Inr s)"

definition as_contract :: "operation_status \<Rightarrow> pydict" where
  "as_contract s =
     [(KStr ''type'', PStr ''channel_operation_status''), (KStr ''protocol_version'', PStr cap_version),
      (KStr ''capability_id'', PStr capability_id), (KStr ''request_id'', PStr (os_request_id s)),
      (KStr ''operation_id'', PStr (os_operation_id s)), (KStr ''state'', PStr (os_state s)),
      (KStr ''submit_intent_count'', PInt (os_submit_intent_count s)),
      (KStr ''automatic_resubmission_count'', PInt (os_automatic_resubmission_count s)),
      (KStr ''updated_at'', PStr (os_updated_at s))]"

section \<open>Facts\<close>

lemma exact_fields_Inr [res_simps]:
  "exact_fields v expected = Inr d \<longleftrightarrow>
     v = PDict d \<and> (\<forall>k\<in>set expected. has_key d k) \<and> fst ` set d \<subseteq> KStr ` set expected"
  by (cases v) (auto simp: exact_fields_def missing_keys_Nil unknown_keys_Nil)

lemma cap_identifier_Inr [res_simps]: "cap_identifier v = Inr u \<longleftrightarrow> (\<exists>s. v = PStr s \<and> cap_identifier_text s)"
  by (auto simp: cap_identifier_def res_simps)

lemma cap_hash_Inr [res_simps]: "cap_hash v = Inr u \<longleftrightarrow> (\<exists>s. v = PStr s \<and> hash_text s)"
  by (auto simp: cap_hash_def res_simps)

lemma cap_timestamp_Inr [res_simps]: "cap_timestamp v = Inr t \<longleftrightarrow> (\<exists>s. v = PStr s \<and> strptime_utc s = Some t)"
  by (cases v) (auto simp: cap_timestamp_def validate_timestamp_text_def split: option.splits)

lemma identifier_no_surrogate: "cap_identifier_text s \<Longrightarrow> \<not> has_surrogate s"
proof
  assume "cap_identifier_text s" "has_surrogate s"
  then obtain c where "is_id_char c" "of_char c = (237::nat)"
    using has_surrogate_char [of s] unfolding cap_identifier_text_def list_all_iff by blast
  then show False by (auto simp: is_id_char_def is_alnum_def is_digit_def in_range_def)
qed

end
