(* ===== verification/Channel_Adapter.thy ===== *)
theory Channel_Adapter
  imports Capabilities Authority Lifecycle
begin

text \<open>
  \<^verbatim>\<open>services/fake-executor/channel_adapter.py\<close>: the adapter that takes a channel operation from
  preparation through authorization, one submission and recovery to reconciliation. A stored JSON text is
  the object it reads back as. Reconciling reads a row, checks the observation and writes in a later
  transaction that does not look at the row again, so a planned write is part of the state.
\<close>

definition ad_error :: "string \<Rightarrow> string \<Rightarrow> exn" where
  "ad_error code stage = Exn FakeAdapterError code stage"

text \<open>\<^verbatim>\<open>except CapabilityContractError\<close>: the code and the stage are kept.\<close>

definition as_adapter_error :: "'a res \<Rightarrow> 'a res" where
  "as_adapter_error m =
     (case m of
        Inl (Exn CapabilityContractError code stage) \<Rightarrow> Inl (ad_error code stage)
      | _ \<Rightarrow> m)"

definition ad_scenarios :: "string list" where
  "ad_scenarios =
     [''preparation_only'', ''authorization_rejected'', ''definitive_pre_submission_failure'', ''submitted'',
      ''accepted'', ''lost_response'', ''recovery_confirmed'', ''recovery_inconclusive'']"

section \<open>The tables\<close>

datatype ad_stage =
    AdPrepared | AdAuthorized | AdSubmitted | AdNeedsRecovery | AdConfirmed
  | AdReconciled | AdNeedsReview | AdDisputed | AdFailedDefinitive

definition ad_stage_text :: "ad_stage \<Rightarrow> string" where
  "ad_stage_text s =
     (case s of
        AdPrepared \<Rightarrow> ''prepared'' | AdAuthorized \<Rightarrow> ''authorized'' | AdSubmitted \<Rightarrow> ''submitted''
      | AdNeedsRecovery \<Rightarrow> ''needs_recovery'' | AdConfirmed \<Rightarrow> ''confirmed'' | AdReconciled \<Rightarrow> ''reconciled''
      | AdNeedsReview \<Rightarrow> ''needs_review'' | AdDisputed \<Rightarrow> ''disputed'' | AdFailedDefinitive \<Rightarrow> ''failed_definitive'')"

record ad_row =
  ad_request_id :: string
  ad_operation_id :: string
  ad_idempotency_key :: string
  ad_request_hash :: string
  ad_request :: pydict
  ad_prepared :: pydict
  ad_state :: ad_stage
  ad_authorization :: "pydict option"
  ad_scenario :: "string option"
  ad_submit_intent_count :: int
  ad_automatic_resubmission_count :: int
  ad_receipt :: "pydict option"
  ad_result :: "pydict option"
  ad_created_at :: string
  ad_updated_at :: string

record ad_use =
  use_id :: string
  use_request :: string

record ad_db =
  ad_rows :: "ad_row list"
  ad_uses :: "ad_use list"

definition ad_init :: ad_db where
  "ad_init = \<lparr>ad_rows = [], ad_uses = []\<rparr>"

text \<open>\<^verbatim>\<open>_row\<close> and the other lookups by request, for the stage they report; the driver encodes the key.\<close>

definition ad_find :: "string \<Rightarrow> string \<Rightarrow> ad_db \<Rightarrow> ad_row res" where
  "ad_find stage rid db =
     bind_res (reject_if (has_surrogate rid) (PyRaise ''UnicodeEncodeError'')) (\<lambda>_.
     case select_row ad_request_id (ad_rows db) rid of
       None \<Rightarrow> Inl (ad_error ''unknown_request'' stage)
     | Some row \<Rightarrow> Inr row)"

definition ad_update :: "string \<Rightarrow> (ad_row \<Rightarrow> ad_row) \<Rightarrow> ad_db \<Rightarrow> ad_db" where
  "ad_update rid f db = db\<lparr>ad_rows := update_row ad_request_id rid f (ad_rows db)\<rparr>"

definition ad_status :: "string \<Rightarrow> ad_db \<Rightarrow> operation_status res" where
  "ad_status rid db =
     bind_res (ad_find ''status'' rid db) (\<lambda>row.
     make_status
       \<lparr>os_request_id = ad_request_id row, os_operation_id = ad_operation_id row,
        os_state = ad_stage_text (ad_state row), os_submit_intent_count = ad_submit_intent_count row,
        os_automatic_resubmission_count = ad_automatic_resubmission_count row, os_updated_at = ad_updated_at row,
        os_technical_receipt = ad_receipt row, os_reconciled_result = ad_result row\<rparr>)"

section \<open>Preparing and authorizing\<close>

text \<open>
  A request that \<^verbatim>\<open>prepare_operation\<close> accepts has texts for its identifiers. The rows that share an
  identifier with it are read in table order; a row of the same request shares all three, and is the only one.
\<close>

definition ad_prepare_tx :: "serializer \<Rightarrow> pyval \<Rightarrow> int \<Rightarrow> ad_db \<Rightarrow> (ad_db \<times> pydict) res" where
  "ad_prepare_tx jcs request now db =
     bind_res (prepare_operation jcs request now) (\<lambda>prepared.
     let d = dict_of request; request_hash = text_item prepared ''request_hash'';
         rid = text_item d ''request_id''; oid = text_item d ''operation_id'';
         key = text_item d ''idempotency_key''; timestamp = strftime_utc now
     in case find (\<lambda>r. ad_request_id r = rid \<or> ad_operation_id r = oid \<or> ad_idempotency_key r = key) (ad_rows db) of
       Some existing \<Rightarrow>
         (if ad_request_hash existing \<noteq> request_hash then Inl (ad_error ''idempotency_conflict'' ''persistence'')
          else Inr (db, ad_prepared existing))
     | None \<Rightarrow>
         bind_res (json_text d) (\<lambda>request_json.
         bind_res (json_text prepared) (\<lambda>prepared_json.
         Inr (db\<lparr>ad_rows := insert_row
               \<lparr>ad_request_id = rid, ad_operation_id = oid, ad_idempotency_key = key, ad_request_hash = request_hash,
                ad_request = request_json, ad_prepared = prepared_json, ad_state = AdPrepared,
                ad_authorization = None, ad_scenario = None, ad_submit_intent_count = 0,
                ad_automatic_resubmission_count = 0, ad_receipt = None, ad_result = None,
                ad_created_at = timestamp, ad_updated_at = timestamp\<rparr> (ad_rows db)\<rparr>, prepared))))"

definition ad_prepare :: "serializer \<Rightarrow> pyval \<Rightarrow> int \<Rightarrow> ad_db \<Rightarrow> ad_db \<times> pydict res" where
  "ad_prepare jcs request now db = transaction db (ad_prepare_tx jcs request now db)"

text \<open>
  The row is read before the transaction that checks its state again; what it is read for, the prepared
  operation, never changes.
\<close>

definition ad_authorize_tx :: "string \<Rightarrow> pyval \<Rightarrow> int \<Rightarrow> string \<Rightarrow> ad_db \<Rightarrow> (ad_db \<times> unit) res" where
  "ad_authorize_tx rid authorization now scenario db =
     bind_res (reject_if (\<not> List.member ad_scenarios scenario) (ad_error ''unsupported_scenario'' ''scenario'')) (\<lambda>_.
     bind_res (ad_find ''status'' rid db) (\<lambda>row.
     bind_res (reject_if (scenario = ''authorization_rejected'') (ad_error ''authorization_rejected'' ''authorization'')) (\<lambda>_.
     bind_res (as_adapter_error (cap_validate_authorization authorization (ad_prepared row) now)) (\<lambda>validated.
     let aid = text_item validated ''authorization_id'' in
     bind_res (reject_if (select_row use_id (ad_uses db) aid \<noteq> None) (ad_error ''authorization_replay'' ''authorization'')) (\<lambda>_.
     bind_res (reject_if (ad_state row \<noteq> AdPrepared) (ad_error ''invalid_state'' ''lifecycle'')) (\<lambda>_.
     bind_res (json_text validated) (\<lambda>stored.
     Inr (ad_update rid (\<lambda>r. r\<lparr>ad_state := AdAuthorized, ad_authorization := Some stored, ad_scenario := Some scenario,
            ad_updated_at := strftime_utc now\<rparr>)
          (db\<lparr>ad_uses := insert_row \<lparr>use_id = aid, use_request = rid\<rparr> (ad_uses db)\<rparr>), ()))))))))"

definition ad_authorize :: "string \<Rightarrow> pyval \<Rightarrow> int \<Rightarrow> string \<Rightarrow> ad_db \<Rightarrow> ad_db \<times> operation_status res" where
  "ad_authorize rid authorization now scenario db =
     (let m = transaction db (ad_authorize_tx rid authorization now scenario db)
      in (fst m, bind_res (snd m) (\<lambda>_. ad_status rid (fst m))))"

section \<open>Submitting\<close>

text \<open>The prepared operation stores its commitment as a text.\<close>

definition ad_receipt_body :: "ad_row \<Rightarrow> string \<Rightarrow> pydict" where
  "ad_receipt_body row timestamp =
     (let commitment = text_item (ad_prepared row) ''operation_commitment'' in
      [(KStr ''type'', PStr ''technical_channel_receipt''), (KStr ''protocol_version'', PStr cap_version),
       (KStr ''capability_id'', PStr capability_id), (KStr ''request_id'', PStr (ad_request_id row)),
       (KStr ''operation_id'', PStr (ad_operation_id row)), (KStr ''operation_commitment'', PStr commitment),
       (KStr ''technical_identifier'', PStr (''fixture:'' @ take 32 (drop 7 commitment))),
       (KStr ''technical_state'', PStr ''confirmed''), (KStr ''executor_id'', PStr cap_executor_id),
       (KStr ''observed_at'', PStr timestamp)])"

definition ad_make_receipt :: "serializer \<Rightarrow> ad_row \<Rightarrow> string \<Rightarrow> pydict res" where
  "ad_make_receipt jcs row timestamp =
     bind_res (sha256_canonical_json jcs (PDict (ad_receipt_body row timestamp))) (\<lambda>h.
     json_text (ad_receipt_body row timestamp @ [(KStr ''technical_receipt_hash'', PStr h)]))"

definition ad_unknown_scenarios :: "string list" where
  "ad_unknown_scenarios = [''lost_response'', ''recovery_confirmed'', ''recovery_inconclusive'']"

definition ad_submit_tx :: "serializer \<Rightarrow> string \<Rightarrow> int \<Rightarrow> ad_db \<Rightarrow> (ad_db \<times> operation_status) res" where
  "ad_submit_tx jcs rid now db =
     bind_res (ad_find ''lifecycle'' rid db) (\<lambda>row.
     bind_res (reject_if (ad_state row = AdNeedsRecovery) (ad_error ''recovery_required'' ''lifecycle'')) (\<lambda>_.
     bind_res (reject_if (ad_state row \<noteq> AdAuthorized) (ad_error ''invalid_state'' ''lifecycle'')) (\<lambda>_.
     let timestamp = strftime_utc now; scenario = ad_scenario row in
     bind_res
       (if scenario = Some ''definitive_pre_submission_failure'' then
          Inr (\<lambda>r. r\<lparr>ad_state := AdFailedDefinitive, ad_updated_at := timestamp\<rparr>)
        else if scenario = Some ''submitted'' then
          Inr (\<lambda>r. r\<lparr>ad_state := AdSubmitted, ad_submit_intent_count := ad_submit_intent_count r + 1,
            ad_updated_at := timestamp\<rparr>)
        else
          bind_res (ad_make_receipt jcs row timestamp) (\<lambda>receipt.
          Inr (\<lambda>r. r\<lparr>ad_state := (if scenario \<in> Some ` set ad_unknown_scenarios then AdNeedsRecovery else AdConfirmed),
            ad_submit_intent_count := ad_submit_intent_count r + 1,
            ad_receipt := (if scenario = Some ''recovery_inconclusive'' then None else Some receipt),
            ad_updated_at := timestamp\<rparr>))) (\<lambda>change.
     bind_res (ad_status rid (ad_update rid change db)) (\<lambda>status.
     Inr (ad_update rid change db, status))))))"

definition ad_submit :: "serializer \<Rightarrow> string \<Rightarrow> int \<Rightarrow> ad_db \<Rightarrow> ad_db \<times> operation_status res" where
  "ad_submit jcs rid now db = transaction db (ad_submit_tx jcs rid now db)"

section \<open>Recovering\<close>

definition ad_receipt_entry :: "pydict option \<Rightarrow> pydict" where
  "ad_receipt_entry receipt =
     (case receipt of None \<Rightarrow> [] | Some r \<Rightarrow> [(KStr ''technical_receipt_hash'', item r ''technical_receipt_hash'')])"

definition ad_recover_tx :: "string \<Rightarrow> int \<Rightarrow> ad_db \<Rightarrow> (ad_db \<times> pydict) res" where
  "ad_recover_tx rid now db =
     bind_res (ad_find ''recovery'' rid db) (\<lambda>row.
     bind_res
       (if ad_state row = AdConfirmed then Inr (''confirmed'', db)
        else if ad_state row \<noteq> AdNeedsRecovery then Inl (ad_error ''invalid_state'' ''recovery'')
        else if ad_scenario row = Some ''recovery_confirmed'' \<or> ad_receipt row \<noteq> None then
          Inr (''confirmed'', ad_update rid (\<lambda>r. r\<lparr>ad_state := AdConfirmed, ad_updated_at := strftime_utc now\<rparr>) db)
        else Inr (''unknown'', db)) (\<lambda>(outcome, db').
     bind_res (ad_find ''recovery'' rid db') (\<lambda>refreshed.
     Inr (db',
       [(KStr ''type'', PStr ''channel_recovery_result''), (KStr ''protocol_version'', PStr cap_version),
        (KStr ''capability_id'', PStr capability_id), (KStr ''request_id'', PStr rid),
        (KStr ''operation_id'', PStr (ad_operation_id refreshed)), (KStr ''outcome'', PStr outcome),
        (KStr ''new_submission_attempted'', PBool False), (KStr ''may_rematerialize'', PBool False),
        (KStr ''observed_at'', PStr (strftime_utc now))] @ ad_receipt_entry (ad_receipt refreshed)))))"

definition ad_recover :: "string \<Rightarrow> int \<Rightarrow> ad_db \<Rightarrow> ad_db \<times> pydict res" where
  "ad_recover rid now db = transaction db (ad_recover_tx rid now db)"

definition ad_recover_from_contract :: "pyval \<Rightarrow> int \<Rightarrow> ad_db \<Rightarrow> ad_db \<times> pydict res" where
  "ad_recover_from_contract request now db =
     (case bind_res (validate_recovery_request request) (\<lambda>validated.
           bind_res (ad_find ''status'' (text_item validated ''request_id'') db) (\<lambda>row.
           bind_res (reject_if (ad_operation_id row \<noteq> text_item validated ''operation_id'')
             (ad_error ''recovery_mismatch'' ''recovery'')) (\<lambda>_.
           Inr (text_item validated ''request_id'')))) of
        Inl e \<Rightarrow> (db, Inl e)
      | Inr rid \<Rightarrow> ad_recover rid now db)"

section \<open>Reconciling\<close>

record ad_write =
  wr_request :: string
  wr_state :: ad_stage
  wr_result :: "pydict option"
  wr_at :: string

definition outcome_stage :: "string \<Rightarrow> ad_stage" where
  "outcome_stage s = (if s = ''matched'' then AdReconciled else if s = ''mismatch'' then AdNeedsReview else AdDisputed)"

definition ad_result_body :: "string \<Rightarrow> string \<Rightarrow> pydict \<Rightarrow> string \<Rightarrow> string \<Rightarrow> pydict" where
  "ad_result_body rid oid receipt observation_hash timestamp =
     [(KStr ''type'', PStr ''reconciled_channel_result''), (KStr ''protocol_version'', PStr cap_version),
      (KStr ''capability_id'', PStr capability_id), (KStr ''request_id'', PStr rid), (KStr ''operation_id'', PStr oid),
      (KStr ''technical_receipt_hash'', item receipt ''technical_receipt_hash''),
      (KStr ''observation_hash'', PStr observation_hash), (KStr ''economic_outcome'', PStr ''matched''),
      (KStr ''reconciled_at'', PStr timestamp)]"

definition ad_make_result :: "serializer \<Rightarrow> string \<Rightarrow> string \<Rightarrow> pydict \<Rightarrow> pydict \<Rightarrow> string \<Rightarrow> pydict res" where
  "ad_make_result jcs rid oid receipt validated timestamp =
     bind_res (sha256_canonical_json jcs (PDict validated)) (\<lambda>observation_hash.
     let unsigned_result = ad_result_body rid oid receipt observation_hash timestamp in
     bind_res (sha256_canonical_json jcs (PDict unsigned_result)) (\<lambda>h.
     json_text (unsigned_result @ [(KStr ''result_hash'', PStr h)])))"

text \<open>What \<^verbatim>\<open>reconcile\<close> decides from the row it read, and the write that follows.\<close>

definition reconcile_plan :: "serializer \<Rightarrow> string \<Rightarrow> pyval \<Rightarrow> int \<Rightarrow> ad_db \<Rightarrow> ad_write res" where
  "reconcile_plan jcs rid observation now db =
     bind_res (ad_find ''status'' rid db) (\<lambda>row.
     bind_res (reject_if (ad_state row \<notin> {AdConfirmed, AdNeedsReview, AdDisputed})
       (ad_error ''technical_confirmation_required'' ''reconciliation'')) (\<lambda>_.
     case ad_receipt row of
       None \<Rightarrow> Inl (ad_error ''receipt_missing'' ''reconciliation'')
     | Some receipt \<Rightarrow>
         bind_res (as_adapter_error (cap_validate_observation observation receipt)) (\<lambda>validated.
         let target = outcome_stage (text_item validated ''economic_outcome''); timestamp = strftime_utc now in
         bind_res
           (if target = AdReconciled then
              bind_res (ad_make_result jcs rid (ad_operation_id row) receipt validated timestamp) (\<lambda>r. Inr (Some r))
            else Inr None) (\<lambda>result.
         Inr \<lparr>wr_request = rid, wr_state = target, wr_result = result, wr_at = timestamp\<rparr>))))"

definition reconcile_write :: "ad_write \<Rightarrow> ad_db \<Rightarrow> ad_db" where
  "reconcile_write w db =
     ad_update (wr_request w) (\<lambda>r. r\<lparr>ad_state := wr_state w, ad_result := wr_result w, ad_updated_at := wr_at w\<rparr>) db"

definition ad_reconcile :: "serializer \<Rightarrow> string \<Rightarrow> pyval \<Rightarrow> int \<Rightarrow> ad_db \<Rightarrow> ad_db \<times> operation_status res" where
  "ad_reconcile jcs rid observation now db =
     (case reconcile_plan jcs rid observation now db of
        Inl e \<Rightarrow> (db, Inl e)
      | Inr w \<Rightarrow> (reconcile_write w db, ad_status rid (reconcile_write w db)))"

section \<open>Runs\<close>

record ad_system =
  ad_tables :: ad_db
  ad_planned :: "ad_write list"

definition ad_start :: ad_system where
  "ad_start = \<lparr>ad_tables = ad_init, ad_planned = []\<rparr>"

text \<open>Callers interleave: a planned write is carried out at any later time, or its process stops first.\<close>

inductive ad_step :: "serializer \<Rightarrow> ad_system \<Rightarrow> ad_system \<Rightarrow> bool" for jcs where
  prepare: "ad_step jcs s (s\<lparr>ad_tables := fst (ad_prepare jcs request now (ad_tables s))\<rparr>)"
| authorize: "ad_step jcs s (s\<lparr>ad_tables := fst (ad_authorize rid authorization now scenario (ad_tables s))\<rparr>)"
| submit: "ad_step jcs s (s\<lparr>ad_tables := fst (ad_submit jcs rid now (ad_tables s))\<rparr>)"
| recover: "ad_step jcs s (s\<lparr>ad_tables := fst (ad_recover rid now (ad_tables s))\<rparr>)"
| contract: "ad_step jcs s (s\<lparr>ad_tables := fst (ad_recover_from_contract request now (ad_tables s))\<rparr>)"
| plan: "ad_step jcs s (s\<lparr>ad_planned := w # ad_planned s\<rparr>)"
    if "reconcile_plan jcs rid observation now (ad_tables s) = Inr w"
| carried: "ad_step jcs s \<lparr>ad_tables = reconcile_write w (ad_tables s), ad_planned = remove1 w (ad_planned s)\<rparr>"
    if "w \<in> set (ad_planned s)"
| stop: "ad_step jcs s (s\<lparr>ad_planned := remove1 w (ad_planned s)\<rparr>)"

end
