(* ===== verification/Channel_Adapter_Facts.thy ===== *)
theory Channel_Adapter_Facts
  imports Channel_Adapter
begin

text \<open>
  What every run of the channel adapter keeps, whatever reconciliations are planned and carried out late:
  counters that match the stage of the row, one use of one authorization for every row that left
  preparation, a receipt for every confirmed row, and evidence for every reconciled one.
\<close>

section \<open>The invariant\<close>

definition unsent_stages :: "ad_stage set" where
  "unsent_stages = {AdPrepared, AdAuthorized, AdFailedDefinitive}"

definition confirmed_stages :: "ad_stage set" where
  "confirmed_stages = {AdConfirmed, AdReconciled, AdNeedsReview, AdDisputed}"

definition reviewed_stages :: "ad_stage set" where
  "reviewed_stages = {AdReconciled, AdNeedsReview, AdDisputed}"

lemmas stage_defs = unsent_stages_def confirmed_stages_def reviewed_stages_def

text \<open>The columns no operation writes after the insertion.\<close>

definition ad_columns :: "ad_row \<Rightarrow> string \<times> string \<times> string \<times> string \<times> pydict \<times> pydict" where
  "ad_columns r = (ad_request_id r, ad_operation_id r, ad_idempotency_key r, ad_request_hash r, ad_request r, ad_prepared r)"

definition ad_origin :: "serializer \<Rightarrow> ad_row \<Rightarrow> bool" where
  "ad_origin jcs r \<longleftrightarrow>
     (\<exists>d now p. prepare_operation jcs (PDict d) now = Inr p \<and> json_text d = Inr (ad_request r) \<and>
        json_text p = Inr (ad_prepared r) \<and> ad_request_id r = text_item d ''request_id'' \<and>
        ad_operation_id r = text_item d ''operation_id'' \<and> ad_idempotency_key r = text_item d ''idempotency_key'' \<and>
        ad_request_hash r = text_item p ''request_hash'')"

definition ad_authorized :: "ad_use list \<Rightarrow> ad_row \<Rightarrow> bool" where
  "ad_authorized uses r \<longleftrightarrow>
     (\<exists>v now d aid stored. cap_validate_authorization v (ad_prepared r) now = Inr d \<and>
        item d ''authorization_id'' = PStr aid \<and> json_text d = Inr stored \<and> ad_authorization r = Some stored \<and>
        \<lparr>use_id = aid, use_request = ad_request_id r\<rparr> \<in> set uses)"

definition ad_evidence :: "serializer \<Rightarrow> ad_row \<Rightarrow> pydict \<Rightarrow> bool" where
  "ad_evidence jcs r res \<longleftrightarrow>
     (\<exists>rc observation d ts. ad_receipt r = Some rc \<and> cap_validate_observation observation rc = Inr d \<and>
        item d ''economic_outcome'' = PStr ''matched'' \<and>
        ad_make_result jcs (ad_request_id r) (ad_operation_id r) rc d ts = Inr res)"

definition ad_receipt_ok :: "serializer \<Rightarrow> ad_row \<Rightarrow> bool" where
  "ad_receipt_ok jcs r \<longleftrightarrow>
     (case ad_receipt r of
        None \<Rightarrow> ad_state r \<notin> confirmed_stages \<and>
          \<not> (ad_state r = AdNeedsRecovery \<and> ad_scenario r = Some ''recovery_confirmed'')
      | Some rc \<Rightarrow> ad_state r \<in> insert AdNeedsRecovery confirmed_stages \<and> (\<exists>ts. ad_make_receipt jcs r ts = Inr rc))"

definition ad_result_ok :: "serializer \<Rightarrow> ad_row \<Rightarrow> bool" where
  "ad_result_ok jcs r \<longleftrightarrow>
     (case ad_result r of
        None \<Rightarrow> ad_state r \<noteq> AdReconciled
      | Some res \<Rightarrow> ad_state r = AdReconciled \<and> ad_evidence jcs r res)"

definition ad_row_ok :: "serializer \<Rightarrow> ad_use list \<Rightarrow> ad_row \<Rightarrow> bool" where
  "ad_row_ok jcs uses r \<longleftrightarrow> ad_origin jcs r \<and>
     ad_automatic_resubmission_count r = 0 \<and>
     ad_submit_intent_count r = (if ad_state r \<in> unsent_stages then 0 else 1) \<and>
     (ad_state r = AdPrepared \<longleftrightarrow> ad_request_id r \<notin> use_request ` set uses) \<and>
     (ad_state r \<noteq> AdPrepared \<longrightarrow> ad_authorized uses r) \<and> ad_receipt_ok jcs r \<and> ad_result_ok jcs r"

definition ad_write_ok :: "serializer \<Rightarrow> ad_row list \<Rightarrow> ad_write \<Rightarrow> bool" where
  "ad_write_ok jcs rows w \<longleftrightarrow>
     (\<exists>r\<in>set rows. ad_request_id r = wr_request w \<and> ad_state r \<in> confirmed_stages \<and> wr_state w \<in> reviewed_stages \<and>
        (case wr_result w of
           None \<Rightarrow> wr_state w \<noteq> AdReconciled
         | Some res \<Rightarrow> wr_state w = AdReconciled \<and> ad_evidence jcs r res))"

definition ad_db_ok :: "serializer \<Rightarrow> ad_db \<Rightarrow> bool" where
  "ad_db_ok jcs db \<longleftrightarrow>
     distinct (map ad_request_id (ad_rows db)) \<and> distinct (map ad_operation_id (ad_rows db)) \<and>
     distinct (map ad_idempotency_key (ad_rows db)) \<and>
     distinct (map use_id (ad_uses db)) \<and> distinct (map use_request (ad_uses db)) \<and>
     (\<forall>u\<in>set (ad_uses db). use_request u \<in> ad_request_id ` set (ad_rows db)) \<and>
     (\<forall>r\<in>set (ad_rows db). ad_row_ok jcs (ad_uses db) r)"

definition ad_ok :: "serializer \<Rightarrow> ad_system \<Rightarrow> bool" where
  "ad_ok jcs s \<longleftrightarrow> ad_db_ok jcs (ad_tables s) \<and> (\<forall>w\<in>set (ad_planned s). ad_write_ok jcs (ad_rows (ad_tables s)) w)"

lemma ad_ok_start: "ad_ok jcs ad_start"
  by (simp add: ad_ok_def ad_db_ok_def ad_start_def ad_init_def)

section \<open>How the tables change\<close>

text \<open>A row moves to a stage that follows its own; a receipt, once there, stays.\<close>

definition ad_follows :: "ad_stage \<times> pydict option \<Rightarrow> ad_stage \<times> pydict option \<Rightarrow> bool" where
  "ad_follows a b \<longleftrightarrow>
     (case (a, b) of
        ((AdPrepared, None), (s, None)) \<Rightarrow> s = AdAuthorized
      | ((AdAuthorized, None), (s, None)) \<Rightarrow> s \<in> {AdFailedDefinitive, AdSubmitted, AdNeedsRecovery}
      | ((AdAuthorized, None), (s, Some rc)) \<Rightarrow> s \<in> {AdNeedsRecovery, AdConfirmed}
      | ((AdNeedsRecovery, Some rc), (s, Some rc')) \<Rightarrow> s = AdConfirmed \<and> rc' = rc
      | ((s, Some rc), (s', Some rc')) \<Rightarrow> s \<in> confirmed_stages \<and> s' \<in> reviewed_stages \<and> rc' = rc
      | _ \<Rightarrow> False)"

definition ad_position :: "ad_row \<Rightarrow> ad_stage \<times> pydict option" where
  "ad_position r = (ad_state r, ad_receipt r)"

inductive ad_effect :: "serializer \<Rightarrow> ad_db \<Rightarrow> ad_db \<Rightarrow> bool" for jcs where
  same: "ad_effect jcs db db"
| added: "ad_effect jcs db (db\<lparr>ad_rows := insert_row r (ad_rows db)\<rparr>)"
    if "ad_origin jcs r" "ad_state r = AdPrepared" "ad_submit_intent_count r = 0" "ad_automatic_resubmission_count r = 0"
      "ad_receipt r = None" "ad_result r = None" "ad_request_id r \<notin> ad_request_id ` set (ad_rows db)"
      "ad_operation_id r \<notin> ad_operation_id ` set (ad_rows db)"
      "ad_idempotency_key r \<notin> ad_idempotency_key ` set (ad_rows db)"
| moved: "ad_effect jcs db (ad_update rid f (db\<lparr>ad_uses := ad_uses db @ us\<rparr>))"
    if "select_row ad_request_id (ad_rows db) rid = Some row" "\<And>r. ad_columns (f r) = ad_columns r"
      "ad_follows (ad_position row) (ad_position (f row))"
      "ad_row_ok jcs (ad_uses db) row \<Longrightarrow> ad_row_ok jcs (ad_uses db @ us) (f row)"
      "us = [] \<or> (\<exists>u. us = [u] \<and> use_request u = rid \<and> use_id u \<notin> use_id ` set (ad_uses db) \<and> ad_state row = AdPrepared)"

lemma ad_columns_simps:
  "ad_columns r' = ad_columns r \<longleftrightarrow> ad_request_id r' = ad_request_id r \<and> ad_operation_id r' = ad_operation_id r \<and>
     ad_idempotency_key r' = ad_idempotency_key r \<and> ad_request_hash r' = ad_request_hash r \<and>
     ad_request r' = ad_request r \<and> ad_prepared r' = ad_prepared r"
  by (auto simp: ad_columns_def)

lemma ad_authorized_more: "ad_authorized us r \<Longrightarrow> set us \<subseteq> set us' \<Longrightarrow> ad_authorized us' r"
  unfolding ad_authorized_def by blast

lemma ad_row_ok_other:
  assumes "ad_row_ok jcs us r" "set us \<subseteq> set us'" "\<forall>u\<in>set us'. u \<in> set us \<or> use_request u \<noteq> ad_request_id r"
  shows "ad_row_ok jcs us' r"
proof -
  have "ad_request_id r \<in> use_request ` set us' \<longleftrightarrow> ad_request_id r \<in> use_request ` set us"
  proof
    assume "ad_request_id r \<in> use_request ` set us'"
    then obtain u where "u \<in> set us'" "ad_request_id r = use_request u" ..
    with assms(3) have "u \<in> set us" by auto
    with \<open>ad_request_id r = use_request u\<close> show "ad_request_id r \<in> use_request ` set us" ..
  qed (rule subsetD [OF image_mono [OF assms(2)]])
  with assms(1) ad_authorized_more [OF _ assms(2)] show ?thesis unfolding ad_row_ok_def by blast
qed

lemma ad_effect_ok:
  assumes "ad_effect jcs db db'" "ad_db_ok jcs db"
  shows "ad_db_ok jcs db'"
  using assms(1)
proof cases
  case (added r)
  have "ad_request_id r \<notin> use_request ` set (ad_uses db)" using assms(2) added(8) by (auto simp: ad_db_ok_def)
  then have "ad_row_ok jcs (ad_uses db) r"
    using added by (simp add: ad_row_ok_def ad_receipt_ok_def ad_result_ok_def stage_defs)
  with added assms(2) show ?thesis by (auto simp: ad_db_ok_def insert_row_def)
next
  case (moved rid row f us)
  have row: "row \<in> set (ad_rows db)" "ad_request_id row = rid" using moved(2) select_row_key by fast+
  have ids: "ad_request_id (f r) = ad_request_id r" "ad_operation_id (f r) = ad_operation_id r"
    "ad_idempotency_key (f r) = ad_idempotency_key r" for r using moved(3) by (simp_all add: ad_columns_simps)
  have rows: "set (ad_rows db') = insert (f row) {r \<in> set (ad_rows db). ad_request_id r \<noteq> rid}"
    using assms(2) moved(1,2) ids by (simp add: ad_update_def moved_rows ad_db_ok_def)
  have uses: "ad_uses db' = ad_uses db @ us" by (simp add: moved(1) ad_update_def)
  have old: "ad_row_ok jcs (ad_uses db) row" using assms(2) row by (simp add: ad_db_ok_def)
  then have "rid \<notin> use_request ` set (ad_uses db)" if "ad_state row = AdPrepared"
    using that row(2) by (simp add: ad_row_ok_def)
  then have "distinct (map use_id (ad_uses db'))" "distinct (map use_request (ad_uses db'))"
    using assms(2) moved(6) unfolding ad_db_ok_def uses by (elim disjE exE; simp; blast)+
  moreover have "\<forall>r\<in>set (ad_rows db'). ad_row_ok jcs (ad_uses db') r"
  proof -
    have "ad_row_ok jcs (ad_uses db @ us) r" if "r \<in> set (ad_rows db)" "ad_request_id r \<noteq> rid" for r
    proof (rule ad_row_ok_other)
      show "ad_row_ok jcs (ad_uses db) r" using assms(2) that(1) by (simp add: ad_db_ok_def)
      show "\<forall>u\<in>set (ad_uses db @ us). u \<in> set (ad_uses db) \<or> use_request u \<noteq> ad_request_id r"
        using moved(6) that(2) by (elim disjE exE) simp_all
    qed simp
    with moved(5) [OF old] show ?thesis by (simp add: uses rows)
  qed
  moreover have "\<forall>u\<in>set (ad_uses db'). use_request u \<in> ad_request_id ` set (ad_rows db')"
  proof -
    have "ad_request_id ` set (ad_rows db') = ad_request_id ` set (ad_rows db)"
      using row ids(1) by (auto simp: rows)
    moreover have "\<forall>u\<in>set us. use_request u \<in> ad_request_id ` set (ad_rows db)" using moved(6) row by auto
    ultimately show ?thesis using assms(2) by (simp add: uses ad_db_ok_def ball_Un)
  qed
  moreover have "map ad_request_id (ad_rows db') = map ad_request_id (ad_rows db)"
    "map ad_operation_id (ad_rows db') = map ad_operation_id (ad_rows db)"
    "map ad_idempotency_key (ad_rows db') = map ad_idempotency_key (ad_rows db)"
    using ids by (simp_all add: moved(1) ad_update_def map_update_row_column)
  ultimately show ?thesis using assms(2) by (simp add: ad_db_ok_def)
qed (use assms(2) in simp)

text \<open>What a planned write relies on survives every change of the tables.\<close>

lemma follows_confirmed:
  "ad_follows (s, rc) (s', rc') \<Longrightarrow> s \<in> confirmed_stages \<Longrightarrow> s' \<in> confirmed_stages \<and> rc' = rc"
  by (cases s; cases rc; cases rc'; simp add: ad_follows_def stage_defs; blast)

lemma ad_effect_row:
  assumes "ad_effect jcs db db'" "distinct (map ad_request_id (ad_rows db))" "r \<in> set (ad_rows db)"
  shows "\<exists>r'\<in>set (ad_rows db'). ad_columns r' = ad_columns r \<and>
    (ad_position r' = ad_position r \<or> ad_follows (ad_position r) (ad_position r'))"
  using assms(1)
proof cases
  case (moved rid row f us)
  have ids: "ad_request_id (f r) = ad_request_id r" for r using moved(3) by (simp add: ad_columns_simps)
  have rows: "set (ad_rows db') = insert (f row) {r \<in> set (ad_rows db). ad_request_id r \<noteq> rid}"
    using assms(2) moved(1,2) ids by (simp add: ad_update_def moved_rows)
  show ?thesis
  proof (cases "ad_request_id r = rid")
    case True
    then have "r = row" using select_row_unique [OF assms(2,3)] moved(2) by simp
    with moved(3,4) rows show ?thesis by blast
  qed (use rows assms(3) in blast)
qed (use assms(3) in \<open>auto simp: insert_row_def\<close>)

lemma ad_effect_write_ok:
  assumes "ad_effect jcs db db'" "distinct (map ad_request_id (ad_rows db))" "ad_write_ok jcs (ad_rows db) w"
  shows "ad_write_ok jcs (ad_rows db') w"
proof -
  from assms(3) obtain r where r: "r \<in> set (ad_rows db)" "ad_request_id r = wr_request w" "ad_state r \<in> confirmed_stages"
    and w: "wr_state w \<in> reviewed_stages" "case wr_result w of None \<Rightarrow> wr_state w \<noteq> AdReconciled
         | Some res \<Rightarrow> wr_state w = AdReconciled \<and> ad_evidence jcs r res"
    unfolding ad_write_ok_def by blast
  from ad_effect_row [OF assms(1,2) r(1)] obtain r' where r': "r' \<in> set (ad_rows db')" "ad_columns r' = ad_columns r"
    "ad_position r' = ad_position r \<or> ad_follows (ad_position r) (ad_position r')" by blast
  then have "ad_state r' \<in> confirmed_stages \<and> ad_receipt r' = ad_receipt r"
    using r(3) follows_confirmed by (auto simp: ad_position_def)
  then have "ad_request_id r' = wr_request w" "ad_state r' \<in> confirmed_stages" "ad_evidence jcs r' res = ad_evidence jcs r res" for res
    using r' r(2) by (simp_all add: ad_columns_simps ad_evidence_def)
  with r'(1) w show ?thesis by (auto simp: ad_write_ok_def split: option.splits)
qed

section \<open>The operations\<close>

text \<open>The receipt of a row depends on the columns that never change.\<close>

lemma make_receipt_columns: "ad_columns r' = ad_columns r \<Longrightarrow> ad_make_receipt jcs r' ts = ad_make_receipt jcs r ts"
  by (simp add: ad_make_receipt_def ad_receipt_body_def ad_columns_simps)

lemma origin_columns: "ad_columns r' = ad_columns r \<Longrightarrow> ad_origin jcs r' = ad_origin jcs r"
  by (simp add: ad_origin_def ad_columns_simps)

lemma authorized_columns:
  "ad_columns r' = ad_columns r \<Longrightarrow> ad_authorization r' = ad_authorization r \<Longrightarrow> ad_authorized uses r' = ad_authorized uses r"
  by (simp add: ad_authorized_def ad_columns_simps)

lemma evidence_columns:
  "ad_columns r' = ad_columns r \<Longrightarrow> ad_receipt r' = ad_receipt r \<Longrightarrow> ad_evidence jcs r' res = ad_evidence jcs r res"
  by (simp add: ad_evidence_def ad_columns_simps)

lemma ad_find_Inr [res_simps]:
  "ad_find stage rid db = Inr row \<longleftrightarrow> \<not> has_surrogate rid \<and> select_row ad_request_id (ad_rows db) rid = Some row"
  by (auto simp: ad_find_def res_simps split: option.splits)

lemma as_adapter_error_Inr [res_simps]: "as_adapter_error m = Inr x \<longleftrightarrow> m = Inr x"
  by (auto simp: as_adapter_error_def split: sum.splits exn.splits exn_class.splits)

lemma ad_selected:
  assumes "ad_db_ok jcs db" "select_row ad_request_id (ad_rows db) rid = Some row"
  shows "ad_row_ok jcs (ad_uses db) row" "ad_request_id row = rid" "row \<in> set (ad_rows db)"
  using select_row_key [OF assms(2)] assms(1) by (simp_all add: ad_db_ok_def)

lemma prepared_request: "prepare_operation jcs request now = Inr p \<Longrightarrow> request = PDict (dict_of request)"
  by (auto simp: prepare_operation_def validate_operation_request_def bind_res_eq_Inr exact_fields_Inr)

lemma ad_preparedE:
  assumes "ad_prepare_tx jcs request now db = Inr (db', p)"
    and "find (\<lambda>r. ad_request_id r = text_item (dict_of request) ''request_id'' \<or>
      ad_operation_id r = text_item (dict_of request) ''operation_id'' \<or>
      ad_idempotency_key r = text_item (dict_of request) ''idempotency_key'') (ad_rows db) = None"
  obtains r where "db' = db\<lparr>ad_rows := insert_row r (ad_rows db)\<rparr>"
    "ad_request_id r = text_item (dict_of request) ''request_id''" "ad_operation_id r = text_item (dict_of request) ''operation_id''"
    "ad_idempotency_key r = text_item (dict_of request) ''idempotency_key''" "ad_state r = AdPrepared" "ad_submit_intent_count r = 0"
    "ad_automatic_resubmission_count r = 0" "ad_receipt r = None" "ad_result r = None" "ad_origin jcs r"
proof -
  from assms obtain q1 q2 where q: "prepare_operation jcs request now = Inr p" "json_text (dict_of request) = Inr q1" "json_text p = Inr q2"
    and db': "db' = db\<lparr>ad_rows := insert_row
      \<lparr>ad_request_id = text_item (dict_of request) ''request_id'', ad_operation_id = text_item (dict_of request) ''operation_id'',
       ad_idempotency_key = text_item (dict_of request) ''idempotency_key'', ad_request_hash = text_item p ''request_hash'',
       ad_request = q1, ad_prepared = q2, ad_state = AdPrepared, ad_authorization = None, ad_scenario = None,
       ad_submit_intent_count = 0, ad_automatic_resubmission_count = 0, ad_receipt = None, ad_result = None,
       ad_created_at = strftime_utc now, ad_updated_at = strftime_utc now\<rparr> (ad_rows db)\<rparr>"
    by (auto simp: ad_prepare_tx_def bind_res_eq_Inr Let_def)
  show ?thesis
  proof (rule that [OF db'])
    show "ad_origin jcs \<lparr>ad_request_id = text_item (dict_of request) ''request_id'', ad_operation_id = text_item (dict_of request) ''operation_id'',
       ad_idempotency_key = text_item (dict_of request) ''idempotency_key'', ad_request_hash = text_item p ''request_hash'',
       ad_request = q1, ad_prepared = q2, ad_state = AdPrepared, ad_authorization = None, ad_scenario = None,
       ad_submit_intent_count = 0, ad_automatic_resubmission_count = 0, ad_receipt = None, ad_result = None,
       ad_created_at = strftime_utc now, ad_updated_at = strftime_utc now\<rparr>"
      unfolding ad_origin_def
      by (rule exI [of _ "dict_of request"], rule exI [of _ now], rule exI [of _ p])
        (simp add: q prepared_request [OF q(1), symmetric])
  qed simp_all
qed

lemma ad_prepare_effect: "ad_effect jcs db (fst (ad_prepare jcs request now db))"
  unfolding ad_prepare_def
proof (rule fst_transaction)
  show "ad_effect jcs db db" by (rule ad_effect.same)
  fix db' p
  let ?d = "dict_of request"
  let ?f = "find (\<lambda>r. ad_request_id r = text_item ?d ''request_id'' \<or> ad_operation_id r = text_item ?d ''operation_id'' \<or>
      ad_idempotency_key r = text_item ?d ''idempotency_key'') (ad_rows db)"
  assume m: "ad_prepare_tx jcs request now db = Inr (db', p)"
  show "ad_effect jcs db db'"
  proof (cases ?f)
    case None
    from m None obtain r where db': "db' = db\<lparr>ad_rows := insert_row r (ad_rows db)\<rparr>"
      and r: "ad_request_id r = text_item ?d ''request_id''" "ad_operation_id r = text_item ?d ''operation_id''"
        "ad_idempotency_key r = text_item ?d ''idempotency_key''" "ad_state r = AdPrepared" "ad_submit_intent_count r = 0"
        "ad_automatic_resubmission_count r = 0" "ad_receipt r = None" "ad_result r = None" and o: "ad_origin jcs r"
      by (rule ad_preparedE)
    from None have "\<forall>x\<in>set (ad_rows db). ad_request_id x \<noteq> ad_request_id r \<and> ad_operation_id x \<noteq> ad_operation_id r \<and>
        ad_idempotency_key x \<noteq> ad_idempotency_key r" by (auto simp: find_None_iff r)
    then show ?thesis unfolding db' by (intro ad_effect.added r o) force+
  next
    case (Some e)
    with m have "db' = db" by (auto simp: ad_prepare_tx_def bind_res_eq_Inr Let_def split: if_splits)
    then show ?thesis by (simp add: ad_effect.same)
  qed
qed

lemma authorization_text:
  assumes "cap_validate_authorization v prepared now = Inr d"
  shows "item d ''authorization_id'' = PStr (text_item d ''authorization_id'')"
  using assms by (auto simp: cap_validate_authorization_def res_simps text_item_def)

lemma ad_authorize_effect:
  assumes ok: "ad_db_ok jcs db"
  shows "ad_effect jcs db (fst (ad_authorize rid authorization now scenario db))"
  unfolding ad_authorize_def Let_def fst_conv
proof (rule fst_transaction)
  show "ad_effect jcs db db" by (rule ad_effect.same)
  fix db' u
  assume "ad_authorize_tx rid authorization now scenario db = Inr (db', u)"
  then obtain row d stored where row: "select_row ad_request_id (ad_rows db) rid = Some row"
    and v: "cap_validate_authorization authorization (ad_prepared row) now = Inr d"
    and n: "select_row use_id (ad_uses db) (text_item d ''authorization_id'') = None"
    and st: "ad_state row = AdPrepared" and j: "json_text d = Inr stored"
    and db': "db' = ad_update rid (\<lambda>r. r\<lparr>ad_state := AdAuthorized, ad_authorization := Some stored,
          ad_scenario := Some scenario, ad_updated_at := strftime_utc now\<rparr>)
        (db\<lparr>ad_uses := insert_row \<lparr>use_id = text_item d ''authorization_id'', use_request = rid\<rparr> (ad_uses db)\<rparr>)"
    by (auto simp: ad_authorize_tx_def res_simps Let_def)
  let ?u = "\<lparr>use_id = text_item d ''authorization_id'', use_request = rid\<rparr>"
  have old: "ad_row_ok jcs (ad_uses db) row" "ad_request_id row = rid" by (rule ad_selected [OF ok row])+
  then have rc: "ad_receipt row = None" "ad_result row = None"
    using st by (auto simp: ad_row_ok_def ad_receipt_ok_def ad_result_ok_def stage_defs split: option.splits)
  have "ad_authorized (ad_uses db @ [?u]) (row\<lparr>ad_state := AdAuthorized, ad_authorization := Some stored,
      ad_scenario := Some scenario, ad_updated_at := strftime_utc now\<rparr>)"
    unfolding ad_authorized_def
    by (intro exI [of _ authorization] exI [of _ now] exI [of _ d] exI [of _ "text_item d ''authorization_id''"] exI [of _ stored])
      (simp add: v j old authorization_text [OF v])
  moreover have "ad_origin jcs (row\<lparr>ad_state := AdAuthorized, ad_authorization := Some stored,
      ad_scenario := Some scenario, ad_updated_at := strftime_utc now\<rparr>)"
    by (subst origin_columns [of _ row]) (use old(1) in \<open>simp_all add: ad_row_ok_def ad_columns_def\<close>)
  ultimately have "ad_row_ok jcs (ad_uses db @ [?u]) (row\<lparr>ad_state := AdAuthorized, ad_authorization := Some stored,
      ad_scenario := Some scenario, ad_updated_at := strftime_utc now\<rparr>)"
    using st rc old by (simp add: ad_row_ok_def ad_receipt_ok_def ad_result_ok_def stage_defs)
  moreover have "use_id ?u \<notin> use_id ` set (ad_uses db)" using n by (auto simp: select_row_None)
  ultimately show "ad_effect jcs db db'"
    unfolding db' insert_row_def using st rc
    by (intro ad_effect.moved [OF row]) (simp_all add: ad_columns_def ad_follows_def ad_position_def)
qed

text \<open>A move that uses no authorization, from the properties of the row it writes.\<close>

lemma ad_move_effect:
  assumes ok: "ad_db_ok jcs db" and row: "select_row ad_request_id (ad_rows db) rid = Some row"
    and f: "\<And>r. ad_columns (f r) = ad_columns r" "ad_authorization (f row) = ad_authorization row"
      "ad_automatic_resubmission_count (f row) = ad_automatic_resubmission_count row"
    and st: "ad_state row \<noteq> AdPrepared" "ad_state (f row) \<noteq> AdPrepared"
      "ad_submit_intent_count (f row) = (if ad_state (f row) \<in> unsent_stages then 0 else 1)"
    and e: "ad_follows (ad_position row) (ad_position (f row))" "ad_receipt_ok jcs (f row)" "ad_result_ok jcs (f row)"
  shows "ad_effect jcs db (ad_update rid f db)"
proof -
  have "ad_row_ok jcs (ad_uses db @ []) (f row)" if "ad_row_ok jcs (ad_uses db) row"
    using that f(2,3) st e(2,3) authorized_columns [OF f(1,2)] origin_columns [OF f(1)] f(1) [of row]
    by (simp add: ad_row_ok_def ad_columns_simps)
  then have "ad_effect jcs db (ad_update rid f (db\<lparr>ad_uses := ad_uses db @ []\<rparr>))"
    by (intro ad_effect.moved [OF row f(1) e(1)]) simp_all
  then show ?thesis by simp
qed

lemma ad_submit_effect:
  assumes ok: "ad_db_ok jcs db"
  shows "ad_effect jcs db (fst (ad_submit jcs rid now db))"
  unfolding ad_submit_def
proof (rule fst_transaction)
  show "ad_effect jcs db db" by (rule ad_effect.same)
  fix db' status
  assume t: "ad_submit_tx jcs rid now db = Inr (db', status)"
  then obtain row where row: "select_row ad_request_id (ad_rows db) rid = Some row" and st: "ad_state row = AdAuthorized"
    by (auto simp: ad_submit_tx_def res_simps Let_def)
  have old: "ad_row_ok jcs (ad_uses db) row" by (rule ad_selected [OF ok row])
  then have r: "ad_receipt row = None" "ad_result row = None" "ad_submit_intent_count row = 0"
    using st by (auto simp: ad_row_ok_def ad_receipt_ok_def ad_result_ok_def stage_defs split: option.splits)
  note facts = ad_columns_def ad_follows_def ad_position_def ad_receipt_ok_def ad_result_ok_def stage_defs
  consider (fails) "ad_scenario row = Some ''definitive_pre_submission_failure''"
    | (stays) "ad_scenario row = Some ''submitted''"
    | (sends) "ad_scenario row \<noteq> Some ''definitive_pre_submission_failure''" "ad_scenario row \<noteq> Some ''submitted''" by blast
  then show "ad_effect jcs db db'"
  proof cases
    case fails
    with t row st have db': "db' = ad_update rid (\<lambda>r. r\<lparr>ad_state := AdFailedDefinitive, ad_updated_at := strftime_utc now\<rparr>) db"
      by (auto simp: ad_submit_tx_def res_simps Let_def)
    show ?thesis unfolding db' using st r by (intro ad_move_effect [OF ok row]) (simp_all add: facts)
  next
    case stays
    with t row st have db': "db' = ad_update rid (\<lambda>r. r\<lparr>ad_state := AdSubmitted,
        ad_submit_intent_count := ad_submit_intent_count r + 1, ad_updated_at := strftime_utc now\<rparr>) db"
      by (auto simp: ad_submit_tx_def res_simps Let_def)
    show ?thesis unfolding db' using st r by (intro ad_move_effect [OF ok row]) (simp_all add: facts)
  next
    case sends
    let ?f = "\<lambda>rc r. r\<lparr>ad_state := (if ad_scenario row \<in> Some ` set ad_unknown_scenarios then AdNeedsRecovery else AdConfirmed),
        ad_submit_intent_count := ad_submit_intent_count r + 1,
        ad_receipt := (if ad_scenario row = Some ''recovery_inconclusive'' then None else Some rc), ad_updated_at := strftime_utc now\<rparr>"
    from sends t row st obtain rc where rc: "ad_make_receipt jcs row (strftime_utc now) = Inr rc"
      and db': "db' = ad_update rid (?f rc) db"
      by (auto simp: ad_submit_tx_def res_simps Let_def)
    have "ad_make_receipt jcs (?f rc row) (strftime_utc now) = Inr rc"
      using rc make_receipt_columns [of "?f rc row" row] by (simp add: ad_columns_def)
    then show ?thesis unfolding db' using st r
      by (intro ad_move_effect [OF ok row]) (auto simp: facts ad_unknown_scenarios_def)
  qed
qed

lemma ad_recover_effect:
  assumes ok: "ad_db_ok jcs db"
  shows "ad_effect jcs db (fst (ad_recover rid now db))"
  unfolding ad_recover_def
proof (rule fst_transaction)
  show "ad_effect jcs db db" by (rule ad_effect.same)
  fix db' res
  let ?f = "\<lambda>r. r\<lparr>ad_state := AdConfirmed, ad_updated_at := strftime_utc now\<rparr>"
  assume "ad_recover_tx rid now db = Inr (db', res)"
  then obtain row where row: "select_row ad_request_id (ad_rows db) rid = Some row"
    and db': "db' = db \<or> ad_state row = AdNeedsRecovery \<and> db' = ad_update rid ?f db \<and>
      (ad_scenario row = Some ''recovery_confirmed'' \<or> ad_receipt row \<noteq> None)"
    by (auto simp: ad_recover_tx_def res_simps split: if_splits)
  show "ad_effect jcs db db'"
  proof (cases "db' = db")
    case False
    with db' have st: "ad_state row = AdNeedsRecovery" and new: "db' = ad_update rid ?f db"
      and known: "ad_scenario row = Some ''recovery_confirmed'' \<or> ad_receipt row \<noteq> None" by auto
    have "ad_row_ok jcs (ad_uses db) row" by (rule ad_selected [OF ok row])
    with known obtain rc ts where rc: "ad_receipt row = Some rc" "ad_make_receipt jcs row ts = Inr rc"
      and r: "ad_result row = None" "ad_submit_intent_count row = 1"
      using st by (auto simp: ad_row_ok_def ad_receipt_ok_def ad_result_ok_def stage_defs split: option.splits)
    have "ad_make_receipt jcs (?f row) ts = Inr rc"
      using rc make_receipt_columns [of "?f row" row] by (simp add: ad_columns_def)
    then show ?thesis unfolding new using st rc r
      by (intro ad_move_effect [OF ok row])
        (auto simp: ad_columns_def ad_follows_def ad_position_def ad_receipt_ok_def ad_result_ok_def stage_defs)
  qed (simp add: ad_effect.same)
qed

lemma ad_contract_effect:
  "ad_db_ok jcs db \<Longrightarrow> ad_effect jcs db (fst (ad_recover_from_contract request now db))"
  by (auto simp: ad_recover_from_contract_def ad_effect.same ad_recover_effect split: sum.split)

section \<open>Reconciliations\<close>

lemma reconcile_planE:
  assumes "reconcile_plan jcs rid observation now db = Inr w"
  obtains row rc d where "select_row ad_request_id (ad_rows db) rid = Some row"
    "ad_state row \<in> confirmed_stages" "ad_receipt row = Some rc" "cap_validate_observation observation rc = Inr d"
    "wr_request w = rid" "wr_state w = outcome_stage (text_item d ''economic_outcome'')"
    "case wr_result w of None \<Rightarrow> wr_state w \<noteq> AdReconciled
     | Some res \<Rightarrow> wr_state w = AdReconciled \<and>
         ad_make_result jcs rid (ad_operation_id row) rc d (strftime_utc now) = Inr res"
  using assms by (auto simp: reconcile_plan_def res_simps Let_def stage_defs split: option.splits if_splits)

lemma observed_outcome:
  assumes "cap_validate_observation v receipt = Inr d"
  shows "item d ''economic_outcome'' = PStr (text_item d ''economic_outcome'')"
  using assms unfolding cap_validate_observation_def
  by (auto simp: bind_res_eq_Inr reject_if_eq_Inr text_item_def py_in_Inr_True)

lemma outcome_reviewed: "outcome_stage t \<in> reviewed_stages"
  by (simp add: outcome_stage_def stage_defs)

lemma ad_plan_ok:
  assumes ok: "ad_db_ok jcs db" and "reconcile_plan jcs rid observation now db = Inr w"
  shows "ad_write_ok jcs (ad_rows db) w"
  using assms(2)
proof (rule reconcile_planE)
  fix row rc d
  assume row: "select_row ad_request_id (ad_rows db) rid = Some row"
    and st: "ad_state row \<in> confirmed_stages" "ad_receipt row = Some rc" and v: "cap_validate_observation observation rc = Inr d"
    and w: "wr_request w = rid" "wr_state w = outcome_stage (text_item d ''economic_outcome'')"
      "case wr_result w of None \<Rightarrow> wr_state w \<noteq> AdReconciled | Some res \<Rightarrow> wr_state w = AdReconciled \<and>
         ad_make_result jcs rid (ad_operation_id row) rc d (strftime_utc now) = Inr res"
  have id: "ad_request_id row = rid" "row \<in> set (ad_rows db)" by (rule ad_selected [OF ok row])+
  have "ad_evidence jcs row res" if "wr_result w = Some res" for res
    using that w st(2) v id observed_outcome [OF v]
    by (auto simp: ad_evidence_def outcome_stage_def split: if_splits)
  then show ?thesis
    unfolding ad_write_ok_def using id st w outcome_reviewed [of "text_item d ''economic_outcome''"]
    by (intro bexI [of _ row]) (auto split: option.splits)
qed

lemma ad_write_effect:
  assumes ok: "ad_db_ok jcs db" and w: "ad_write_ok jcs (ad_rows db) w"
  shows "ad_effect jcs db (reconcile_write w db)"
proof -
  let ?f = "\<lambda>r. r\<lparr>ad_state := wr_state w, ad_result := wr_result w, ad_updated_at := wr_at w\<rparr>"
  from w obtain row where r: "row \<in> set (ad_rows db)" "ad_request_id row = wr_request w" "ad_state row \<in> confirmed_stages"
    and ws: "wr_state w \<in> reviewed_stages" "case wr_result w of None \<Rightarrow> wr_state w \<noteq> AdReconciled
         | Some res \<Rightarrow> wr_state w = AdReconciled \<and> ad_evidence jcs row res"
    unfolding ad_write_ok_def by blast
  have "distinct (map ad_request_id (ad_rows db))" using ok by (simp add: ad_db_ok_def)
  then have row: "select_row ad_request_id (ad_rows db) (wr_request w) = Some row"
    using select_row_unique [of ad_request_id, OF _ r(1)] r(2) by simp
  have old: "ad_row_ok jcs (ad_uses db) row" by (rule ad_selected [OF ok row])
  then obtain rc ts where rc: "ad_receipt row = Some rc" "ad_make_receipt jcs row ts = Inr rc"
    using r(3) by (auto simp: ad_row_ok_def ad_receipt_ok_def split: option.splits)
  have c: "ad_columns (?f x) = ad_columns x" for x by (simp add: ad_columns_def)
  have "ad_make_receipt jcs (?f row) ts = Inr rc" using rc make_receipt_columns [OF c] by simp
  moreover have "ad_result_ok jcs (?f row)"
    using ws(2) evidence_columns [of "?f row" row] by (auto simp: ad_result_ok_def c split: option.splits)
  moreover have "ad_submit_intent_count row = 1" "ad_state row \<noteq> AdPrepared" "ad_state row \<noteq> AdNeedsRecovery"
    using old r(3) by (auto simp: ad_row_ok_def stage_defs)
  moreover have "ad_follows (ad_position row) (ad_position (?f row))"
    using r(3) ws(1) rc(1) by (auto simp: ad_follows_def ad_position_def stage_defs split: ad_stage.splits)
  ultimately show ?thesis
    unfolding reconcile_write_def using rc ws(1)
    by (intro ad_move_effect [OF ok row c]) (auto simp: ad_receipt_ok_def stage_defs)
qed

section \<open>Runs\<close>

lemma ad_step_effect:
  assumes "ad_ok jcs s" "ad_step jcs s s'"
  shows "ad_effect jcs (ad_tables s) (ad_tables s') \<and>
    (\<forall>w\<in>set (ad_planned s'). w \<in> set (ad_planned s) \<or> ad_write_ok jcs (ad_rows (ad_tables s)) w)"
  using assms(2)
proof cases
  case (plan rid observation now w)
  with assms(1) ad_plan_ok show ?thesis by (auto simp: ad_ok_def ad_effect.same)
next
  case (carried w)
  with assms(1) show ?thesis using set_remove1_subset [of w "ad_planned s"] by (auto simp: ad_ok_def intro: ad_write_effect)
next
  case (stop w)
  then show ?thesis using set_remove1_subset [of w "ad_planned s"] by (auto simp: ad_effect.same)
qed (use assms(1) in \<open>auto simp: ad_ok_def intro: ad_prepare_effect ad_authorize_effect ad_submit_effect ad_recover_effect ad_contract_effect\<close>)

lemma ad_step_ok:
  assumes "ad_ok jcs s" "ad_step jcs s s'"
  shows "ad_ok jcs s'"
proof -
  note e = ad_step_effect [OF assms]
  have "ad_db_ok jcs (ad_tables s)" using assms(1) by (simp add: ad_ok_def)
  then have "ad_db_ok jcs (ad_tables s')" "distinct (map ad_request_id (ad_rows (ad_tables s)))"
    using e ad_effect_ok by (auto simp: ad_db_ok_def)
  with e assms(1) show ?thesis by (auto simp: ad_ok_def intro: ad_effect_write_ok)
qed

interpretation adapter: preserved "ad_step jcs" "ad_ok jcs" for jcs
  by unfold_locales (rule ad_step_ok)

lemmas ad_reached_ok = adapter.steps_inv [OF _ ad_ok_start]

definition valid_ad_step :: "serializer \<Rightarrow> ad_system \<Rightarrow> ad_system \<Rightarrow> bool" where
  "valid_ad_step jcs s s' \<longleftrightarrow> ad_ok jcs s \<and> ad_step jcs s s'"

interpretation adapter_rows: row_lifecycle "valid_ad_step jcs" "\<lambda>s. ad_rows (ad_tables s)" ad_columns ad_position ad_follows for jcs
proof
  fix s s' r
  assume "valid_ad_step jcs s s'" "r \<in> set (ad_rows (ad_tables s))"
  then have "ad_effect jcs (ad_tables s) (ad_tables s')" "distinct (map ad_request_id (ad_rows (ad_tables s)))"
    using ad_step_effect by (auto simp: valid_ad_step_def ad_ok_def ad_db_ok_def)
  from ad_effect_row [OF this \<open>r \<in> _\<close>]
  show "\<exists>r'\<in>set (ad_rows (ad_tables s')). ad_columns r' = ad_columns r \<and> ad_follows\<^sup>*\<^sup>* (ad_position r) (ad_position r')"
    by (metis r_into_rtranclp rtranclp.rtrancl_refl)
qed

lemma ad_run_valid:
  assumes "(ad_step jcs)\<^sup>*\<^sup>* s s'" "ad_ok jcs s"
  shows "(valid_ad_step jcs)\<^sup>*\<^sup>* s s'"
  using assms(1)
proof (induction rule: rtranclp_induct)
  case (step y z)
  have "ad_ok jcs y" using step.hyps(1) assms(2) by (rule adapter.steps_inv)
  with step show ?case by (auto simp: valid_ad_step_def intro: rtranclp.rtrancl_into_rtrancl)
qed simp

text \<open>A call of \<^verbatim>\<open>reconcile\<close> that nothing interrupts is a plan and its write.\<close>

lemma reconcile_steps: "(ad_step jcs)\<^sup>*\<^sup>* s (s\<lparr>ad_tables := fst (ad_reconcile jcs rid observation now (ad_tables s))\<rparr>)"
proof (cases "reconcile_plan jcs rid observation now (ad_tables s)")
  case (Inr w)
  then have "(ad_step jcs)\<^sup>*\<^sup>* s (s\<lparr>ad_planned := w # ad_planned s\<rparr>)" by (intro r_into_rtranclp ad_step.plan)
  moreover have "ad_step jcs (s\<lparr>ad_planned := w # ad_planned s\<rparr>) (s\<lparr>ad_tables := reconcile_write w (ad_tables s)\<rparr>)"
    using ad_step.carried [of w "s\<lparr>ad_planned := w # ad_planned s\<rparr>" jcs] by (cases s) simp
  ultimately show ?thesis by (simp add: ad_reconcile_def Inr)
qed (simp add: ad_reconcile_def)

end
