(* ===== verification/Channel_Adapter_Props.thy ===== *)
theory Channel_Adapter_Props
  imports Channel_Adapter_Facts Stored_Json Closure_Examples
begin

text \<open>
  What the channel adapter promises: an operation is submitted at most once, under one authorization of
  exactly what was prepared; a reconciled operation carries a chain of evidence from its request to a
  matching observation; and an operation whose outcome is unknown is never resolved by sending it again.
\<close>

section \<open>Stored records\<close>

lemma signable_items_all: "signable_items d \<longleftrightarrow> (\<forall>kv\<in>set d. signable_item kv)"
  by (induction d) auto

lemma signable_list_all: "signable_list xs \<longleftrightarrow> (\<forall>x\<in>set xs. signable x)"
  by (induction xs) auto

lemma signable_item_iff: "signable_item kv \<longleftrightarrow> text_key (fst kv) \<and> signable (snd kv)"
  by (cases kv; cases "fst kv") auto

lemma signable_ext: "signable v \<Longrightarrow> ext_value v"
proof (induction v)
  case (PDict d)
  then show ?case by (force simp: ext_value_dict signable_items_all signable_item_iff snds.simps)
qed (auto simp: ext_value_list signable_list_all)

lemma signable_normal: "signable (normal_json v) \<longleftrightarrow> signable v"
proof (induction v)
  case (PDict d)
  then show ?case by (force simp: signable_items_all signable_item_iff set_normal_dict snds.simps)
qed (auto simp: signable_list_all)

lemma signable_stored: "signable (PDict d) \<Longrightarrow> json_text d = Inr (normal_dict d)"
  by (rule ext_json_text) (rule signable_ext)

text \<open>A record stored with its own hash verifies when it is read back.\<close>

lemma stored_self_hash:
  assumes jcs: "key_order_free jcs" and h: "sha256_canonical_json jcs (PDict body) = Inr h"
    and j: "json_text (body @ [(KStr own, PStr h)]) = Inr stored" and own: "own \<noteq> []" "KStr own \<notin> fst ` set body" "\<not> has_surrogate own"
  shows "verify_self_hashed_record jcs (PDict stored) own = Inr (normal_dict body)"
    and "item stored k = normal_json (item (body @ [(KStr own, PStr h)]) k)"
proof -
  from h obtain b where b: "signable (PDict body)" "jcs (PDict body) = Some b" "h = sha256_raw_bytes b"
    by (auto simp: sha256_canonical_json_Inr)
  have "signable (PDict (body @ [(KStr own, PStr h)]))"
    using b own(3) by (simp add: signable_items_append)
  from signable_stored [OF this] j have stored: "stored = normal_dict (body @ [(KStr own, PStr h)])" by simp
  show "item stored k = normal_json (item (body @ [(KStr own, PStr h)]) k)" for k by (simp only: stored item_normal)
  from this [of own] own(2) have i: "item stored own = PStr h"
    by (simp add: item_def map_add_def map_of_eq_None_iff [THEN iffD2])
  have "filter (\<lambda>kv. fst kv \<noteq> KStr own) (map (map_prod id normal_json) body) = map (map_prod id normal_json) body"
    using own(2) by (force simp: filter_id_conv)
  then have "filter (\<lambda>kv. fst kv \<noteq> KStr own) stored = normal_dict body"
    unfolding stored normal_dict_def by (simp add: filter_sort)
  moreover have "has_key stored own" using i item_not_PNone_has_key by force
  moreover have "jcs (normal_json (PDict body)) = Some b"
    using jcs b(2) signable_ext [OF b(1)] unfolding key_order_free_def by metis
  moreover have "signable (PDict (normal_dict body))" using b(1) signable_normal [of "PDict body"] by simp
  ultimately show "verify_self_hashed_record jcs (PDict stored) own = Inr (normal_dict body)"
    using i own(1) b(3) by (simp add: verify_self_hashed_record_Inr)
qed

section \<open>What an authorization binds\<close>

lemma authorization_binds:
  assumes "cap_validate_authorization v prepared now = Inr d" "json_text d = Inr stored"
  obtains expiry until where "\<forall>f\<in>set cap_bound_fields. item stored f = item prepared f"
    "item stored ''authorization_id'' = item d ''authorization_id''"
    "cap_timestamp (item stored ''expires_at'') = Inr expiry" "cap_timestamp (item prepared ''expires_at'') = Inr until"
    "now < expiry" "expiry \<le> until"
proof -
  from assms(1) have keys: "fst ` set d \<subseteq> range KStr"
    unfolding cap_validate_authorization_def by (auto simp: bind_res_eq_Inr exact_fields_Inr)
  have same: "item stored f = item d f" if "item d f = PStr t" for f t
    using json_text_item [OF assms(2) keys that] that by simp
  from assms(1) obtain expiry until where d:
    "\<forall>f\<in>set cap_bound_fields. \<exists>t. item d f = PStr t \<and> py_eq (PStr t) (item prepared f)"
    "\<exists>t. item d ''authorization_id'' = PStr t"
    "cap_timestamp (item d ''expires_at'') = Inr expiry" "cap_timestamp (item prepared ''expires_at'') = Inr until"
    "now < expiry" "expiry \<le> until"
    unfolding cap_validate_authorization_def cap_bound_fields_def
    by (auto simp: bind_res_eq_Inr run_all_eq_Inr reject_if_eq_Inr cap_identifier_Inr cap_hash_Inr not_le not_less)
  have "item stored f = item prepared f" if "f \<in> set cap_bound_fields" for f
    using d(1) that same by (metis py_eq.simps(5))
  moreover have "item stored ''authorization_id'' = item d ''authorization_id''" using d(2) same by blast
  moreover have "item stored ''expires_at'' = item d ''expires_at''" using d(3) same by (auto simp: cap_timestamp_Inr)
  ultimately show ?thesis using that d(3-6) by simp
qed

lemma ad_position_simps [simp]: "fst (ad_position r) = ad_state r" "snd (ad_position r) = ad_receipt r"
  by (simp_all add: ad_position_def)







lemma receipt_record:
  assumes "key_order_free jcs" "ad_make_receipt jcs r ts = Inr rc"
  shows "\<exists>q. verify_self_hashed_record jcs (PDict rc) ''technical_receipt_hash'' = Inr q"
    and "item rc ''request_id'' = PStr (ad_request_id r)"
    and "item rc ''operation_commitment'' = PStr (text_item (ad_prepared r) ''operation_commitment'')"
    and "\<exists>h. item rc ''technical_receipt_hash'' = PStr h"
proof -
  from assms(2) obtain h where h: "sha256_canonical_json jcs (PDict (ad_receipt_body r ts)) = Inr h"
    "json_text (ad_receipt_body r ts @ [(KStr ''technical_receipt_hash'', PStr h)]) = Inr rc"
    by (auto simp: ad_make_receipt_def bind_res_eq_Inr)
  have own: "''technical_receipt_hash'' \<noteq> []" "KStr ''technical_receipt_hash'' \<notin> fst ` set (ad_receipt_body r ts)"
    "\<not> has_surrogate ''technical_receipt_hash''"
    by (simp, simp add: ad_receipt_body_def Let_def, code_simp)
  note stored = stored_self_hash [OF assms(1) h own]
  show "\<exists>q. verify_self_hashed_record jcs (PDict rc) ''technical_receipt_hash'' = Inr q" using stored(1) by blast
  show "item rc ''request_id'' = PStr (ad_request_id r)"
    "item rc ''operation_commitment'' = PStr (text_item (ad_prepared r) ''operation_commitment'')"
    "\<exists>h. item rc ''technical_receipt_hash'' = PStr h"
    unfolding stored(2) by (simp_all add: ad_receipt_body_def Let_def item_def)
qed

lemma result_record:
  assumes "key_order_free jcs" "ad_make_result jcs rid oid rc ob ts = Inr res" "\<exists>h. item rc ''technical_receipt_hash'' = PStr h"
  shows "\<exists>q. verify_self_hashed_record jcs (PDict res) ''result_hash'' = Inr q"
    and "item res ''request_id'' = PStr rid"
    and "item res ''technical_receipt_hash'' = item rc ''technical_receipt_hash''"
    and "\<exists>oh. sha256_canonical_json jcs (PDict ob) = Inr oh \<and> item res ''observation_hash'' = PStr oh"
proof -
  from assms(2) obtain oh h where oh: "sha256_canonical_json jcs (PDict ob) = Inr oh"
    and h: "sha256_canonical_json jcs (PDict (ad_result_body rid oid rc oh ts)) = Inr h"
    "json_text (ad_result_body rid oid rc oh ts @ [(KStr ''result_hash'', PStr h)]) = Inr res"
    by (auto simp: ad_make_result_def bind_res_eq_Inr Let_def)
  have own: "''result_hash'' \<noteq> []" "KStr ''result_hash'' \<notin> fst ` set (ad_result_body rid oid rc oh ts)"
    "\<not> has_surrogate ''result_hash''"
    by (simp, simp add: ad_result_body_def, code_simp)
  note stored = stored_self_hash [OF assms(1) h own]
  show "\<exists>q. verify_self_hashed_record jcs (PDict res) ''result_hash'' = Inr q" using stored(1) by blast
  show "item res ''request_id'' = PStr rid" unfolding stored(2) by (simp add: ad_result_body_def item_def)
  have "item (ad_result_body rid oid rc oh ts @ [(KStr ''result_hash'', PStr h)]) ''technical_receipt_hash'' =
      item rc ''technical_receipt_hash''" by (simp add: ad_result_body_def item_def)
  with assms(3) show "item res ''technical_receipt_hash'' = item rc ''technical_receipt_hash''" by (auto simp: stored(2))
  have "item res ''observation_hash'' = PStr oh" unfolding stored(2) by (simp add: ad_result_body_def item_def)
  with oh show "\<exists>oh. sha256_canonical_json jcs (PDict ob) = Inr oh \<and> item res ''observation_hash'' = PStr oh" by blast
qed

lemma origin_record:
  assumes "ad_origin jcs r"
  obtains d t p where "prepare_operation jcs (PDict d) t = Inr p" "json_text d = Inr (ad_request r)"
    "item p ''request_id'' = PStr (ad_request_id r)"
    "item p ''operation_commitment'' = PStr (text_item (ad_prepared r) ''operation_commitment'')"
proof -
  from assms obtain d t p where p: "prepare_operation jcs (PDict d) t = Inr p" "json_text d = Inr (ad_request r)"
    "json_text p = Inr (ad_prepared r)" "ad_request_id r = text_item d ''request_id''"
    unfolding ad_origin_def by blast
  from p(1) obtain h m c where v: "validate_operation_request (PDict d) t = Inr d" and pp: "p = prepared_operation d h m c"
    by (auto simp: prepare_operation_def validate_operation_request_def bind_res_eq_Inr exact_fields_Inr Let_def)
  from v obtain i where "item d ''request_id'' = PStr i"
    unfolding validate_operation_request_def
    by (auto simp: bind_res_eq_Inr run_all_eq_Inr cap_identifier_Inr)
  then have "item p ''request_id'' = PStr (ad_request_id r)" "item p ''operation_commitment'' = PStr c"
    by (simp_all add: pp prepared_operation_def p(4) text_item_def item_def [of "_ # _"])
  moreover have "fst ` set p \<subseteq> range KStr" by (simp add: pp prepared_operation_def)
  ultimately show ?thesis
    using that p(1,2) json_text_item [OF p(3)] by (simp add: text_item_def)
qed

section \<open>Properties\<close>

lemma filter_single: "distinct (map k xs) \<Longrightarrow> x \<in> set xs \<Longrightarrow> length (filter (\<lambda>y. k y = k x) xs) = 1"
proof (induction xs)
  case (Cons a xs)
  show ?case
  proof (cases "x = a")
    case True
    with Cons.prems have "filter (\<lambda>y. k y = k x) xs = []" by (auto simp: filter_empty_conv image_iff)
    with True show ?thesis by simp
  next
    case False
    with Cons show ?thesis by (auto simp: image_iff)
  qed
qed simp

text \<open>
  Property C17. Along every run of the adapter, with reconciliations interleaved in any way, an operation
  is submitted at most once and never again by itself: the intent counter is zero until the submission and
  one from then on. Every operation that left preparation used exactly one authorization, which no other
  operation used, and which names the request, the operation, the prepared bytes and the commitment of
  its row and expires no later than the preparation.
\<close>

theorem adapter_submits_once:
  assumes "(ad_step jcs)\<^sup>*\<^sup>* ad_start s" "r \<in> set (ad_rows (ad_tables s))"
  shows "ad_automatic_resubmission_count r = 0 \<and>
    ad_submit_intent_count r = (if ad_state r \<in> {AdPrepared, AdAuthorized, AdFailedDefinitive} then 0 else 1) \<and>
    distinct (map use_id (ad_uses (ad_tables s))) \<and>
    length (filter (\<lambda>u. use_request u = ad_request_id r) (ad_uses (ad_tables s))) = (if ad_state r = AdPrepared then 0 else 1) \<and>
    (ad_state r \<noteq> AdPrepared \<longrightarrow>
      (\<exists>stored aid expiry until. ad_authorization r = Some stored \<and>
        (\<forall>f\<in>set cap_bound_fields. item stored f = item (ad_prepared r) f) \<and>
        item stored ''authorization_id'' = PStr aid \<and>
        \<lparr>use_id = aid, use_request = ad_request_id r\<rparr> \<in> set (ad_uses (ad_tables s)) \<and>
        cap_timestamp (item stored ''expires_at'') = Inr expiry \<and>
        cap_timestamp (item (ad_prepared r) ''expires_at'') = Inr until \<and> expiry \<le> until))"
proof -
  have ok: "ad_db_ok jcs (ad_tables s)" using ad_reached_ok [OF assms(1)] by (simp add: ad_ok_def)
  then have row: "ad_row_ok jcs (ad_uses (ad_tables s)) r" using assms(2) by (simp add: ad_db_ok_def)
  have bound: "\<exists>stored aid expiry until. ad_authorization r = Some stored \<and>
        (\<forall>f\<in>set cap_bound_fields. item stored f = item (ad_prepared r) f) \<and>
        item stored ''authorization_id'' = PStr aid \<and>
        \<lparr>use_id = aid, use_request = ad_request_id r\<rparr> \<in> set (ad_uses (ad_tables s)) \<and>
        cap_timestamp (item stored ''expires_at'') = Inr expiry \<and>
        cap_timestamp (item (ad_prepared r) ''expires_at'') = Inr until \<and> expiry \<le> until" if "ad_state r \<noteq> AdPrepared"
  proof -
    from row that obtain v now d aid stored where a: "cap_validate_authorization v (ad_prepared r) now = Inr d"
      "json_text d = Inr stored" "item d ''authorization_id'' = PStr aid" "ad_authorization r = Some stored"
      "\<lparr>use_id = aid, use_request = ad_request_id r\<rparr> \<in> set (ad_uses (ad_tables s))"
      unfolding ad_row_ok_def ad_authorized_def by blast
    from a(1,2) show ?thesis by (rule authorization_binds) (use a(3-5) in auto)
  qed
  have used: "length (filter (\<lambda>u. use_request u = ad_request_id r) (ad_uses (ad_tables s))) = (if ad_state r = AdPrepared then 0 else 1)"
  proof (cases "ad_state r = AdPrepared")
    case True
    with row show ?thesis by (auto simp: ad_row_ok_def filter_empty_conv image_iff)
  next
    case False
    with bound obtain aid where u: "\<lparr>use_id = aid, use_request = ad_request_id r\<rparr> \<in> set (ad_uses (ad_tables s))" by blast
    have "distinct (map use_request (ad_uses (ad_tables s)))" using ok by (simp add: ad_db_ok_def)
    from filter_single [OF this u] False show ?thesis by simp
  qed
  show ?thesis
    using row ok bound used by (simp add: ad_row_ok_def ad_db_ok_def unsent_stages_def)
qed

text \<open>
  Property C18. A reconciled operation carries its evidence, even when its reconciliation was planned
  before other writes: the stored receipt and result verify as self-hashed records, the receipt names the
  commitment of the operation as it was prepared from the stored request, and the result names that
  receipt and the hash of an observation that was accepted against it and reports a match. No other
  operation has a result.
\<close>

theorem adapter_reconciled_on_evidence:
  assumes "key_order_free jcs" "(ad_step jcs)\<^sup>*\<^sup>* ad_start s" "r \<in> set (ad_rows (ad_tables s))"
    and "ad_state r = AdReconciled \<or> ad_result r \<noteq> None"
  shows "ad_state r = AdReconciled \<and>
    (\<exists>d t p rc res observation ob oh. prepare_operation jcs (PDict d) t = Inr p \<and> json_text d = Inr (ad_request r) \<and>
      ad_receipt r = Some rc \<and> (\<exists>q. verify_self_hashed_record jcs (PDict rc) ''technical_receipt_hash'' = Inr q) \<and>
      item rc ''request_id'' = item p ''request_id'' \<and> item rc ''operation_commitment'' = item p ''operation_commitment'' \<and>
      ad_result r = Some res \<and> (\<exists>q. verify_self_hashed_record jcs (PDict res) ''result_hash'' = Inr q) \<and>
      item res ''request_id'' = item p ''request_id'' \<and>
      item res ''technical_receipt_hash'' = item rc ''technical_receipt_hash'' \<and>
      cap_validate_observation observation rc = Inr ob \<and> item ob ''economic_outcome'' = PStr ''matched'' \<and>
      sha256_canonical_json jcs (PDict ob) = Inr oh \<and> item res ''observation_hash'' = PStr oh)"
proof -
  have "ad_db_ok jcs (ad_tables s)" using ad_reached_ok [OF assms(2)] by (simp add: ad_ok_def)
  then have row: "ad_origin jcs r" "ad_receipt_ok jcs r" "ad_result_ok jcs r" using assms(3) by (simp_all add: ad_db_ok_def ad_row_ok_def)
  from row(3) assms(4) obtain res where st: "ad_state r = AdReconciled" "ad_result r = Some res" and "ad_evidence jcs r res"
    by (auto simp: ad_result_ok_def split: option.splits)
  then obtain rc observation ob ts where rc: "ad_receipt r = Some rc"
    and ob: "cap_validate_observation observation rc = Inr ob" "item ob ''economic_outcome'' = PStr ''matched''"
    and m: "ad_make_result jcs (ad_request_id r) (ad_operation_id r) rc ob ts = Inr res"
    unfolding ad_evidence_def by blast
  from row(2) rc obtain ts' where "ad_make_receipt jcs r ts' = Inr rc" by (auto simp: ad_receipt_ok_def)
  note receipt = receipt_record [OF assms(1) this]
  note result = result_record [OF assms(1) m receipt(4)]
  from row(1) obtain d t p where p: "prepare_operation jcs (PDict d) t = Inr p" "json_text d = Inr (ad_request r)"
    "item p ''request_id'' = PStr (ad_request_id r)"
    "item p ''operation_commitment'' = PStr (text_item (ad_prepared r) ''operation_commitment'')"
    by (rule origin_record)
  from result(4) obtain oh where "sha256_canonical_json jcs (PDict ob) = Inr oh" "item res ''observation_hash'' = PStr oh" by blast
  with st rc ob p receipt(1-3) result(1-3) show ?thesis by metis
qed


section \<open>An example run\<close>

text \<open>
  One operation through all of the adapter: prepared, authorized, submitted with its response lost,
  recovered from the stored receipt, and reconciled with a matching observation.
\<close>

definition ad_ex_request :: pydict where
  "ad_ex_request =
     [(KStr ''type'', PStr ''channel_operation_request''), (KStr ''protocol_version'', PStr cap_version),
      (KStr ''capability_id'', PStr capability_id), (KStr ''request_id'', PStr ''req-1''),
      (KStr ''operation_id'', PStr ''op-1''), (KStr ''idempotency_key'', PStr ''key-1''),
      (KStr ''operation_kind'', PStr ''settle''), (KStr ''channel_id'', PStr ''channel-1''), (KStr ''epoch'', PInt 0),
      (KStr ''sender'', PStr ''sender''), (KStr ''recipient'', PStr ''recipient''),
      (KStr ''destination_wallet'', PStr ''wallet''), (KStr ''mint'', PStr ''mint''),
      (KStr ''amount_base_units'', PStr ''5''), (KStr ''authorization_commitment'', PStr example_voucher_hash),
      (KStr ''expires_at'', PStr ''2026-02-04T00:00:00Z'')]"

definition ad_ex_material :: string where
  "ad_ex_material = operation_material (example_jcs_text (PDict ad_ex_request))"

definition ad_ex_commitment :: pydict where
  "ad_ex_commitment = dict_of (operation_commitment ad_ex_request (digest ad_ex_request) (sha256_raw_bytes ad_ex_material))"

definition ad_ex_prepared :: pydict where
  "ad_ex_prepared = prepared_operation ad_ex_request (digest ad_ex_request) ad_ex_material (digest ad_ex_commitment)"

definition ad_ex_authorization :: pydict where
  "ad_ex_authorization =
     [(KStr ''type'', PStr ''channel_operation_authorization''), (KStr ''protocol_version'', PStr cap_version),
      (KStr ''capability_id'', PStr capability_id), (KStr ''request_id'', PStr ''req-1''),
      (KStr ''operation_id'', PStr ''op-1''), (KStr ''prepared_material_hash'', PStr (sha256_raw_bytes ad_ex_material)),
      (KStr ''operation_commitment'', PStr (digest ad_ex_commitment)), (KStr ''authorization_id'', PStr ''auth-1''),
      (KStr ''expires_at'', PStr ''2026-02-03T12:00:00Z'')]"

lemma ad_ex_valid: "validate_operation_request (PDict ad_ex_request) 63905760000000000 = Inr ad_ex_request"
  by code_simp

lemma ad_ex_items [simp]:
  "item ad_ex_request ''request_id'' = PStr ''req-1''" "item ad_ex_request ''operation_id'' = PStr ''op-1''"
  "item ad_ex_request ''idempotency_key'' = PStr ''key-1''" "item ad_ex_request ''expires_at'' = PStr ''2026-02-04T00:00:00Z''"
  "item ad_ex_request ''authorization_commitment'' = PStr example_voucher_hash"
  by (simp_all add: ad_ex_request_def item_def)

lemma ad_ex_texts [simp]:
  "\<not> has_surrogate ''req-1''" "\<not> has_surrogate ''op-1''" "\<not> has_surrogate ''auth-1''" "\<not> has_surrogate cap_version"
  "\<not> has_surrogate capability_id" "\<not> has_surrogate cap_executor_id" "\<not> has_surrogate example_voucher_hash"
  "cap_identifier_text ''req-1''" "cap_identifier_text ''op-1''" "cap_identifier_text ''auth-1''"
  "strptime_utc ''2026-02-03T12:00:00Z'' = Some 63905803200000000" "strptime_utc ''2026-02-04T00:00:00Z'' = Some 63905846400000000"
  by code_simp+

lemma ad_ex_signable: "signable_items ad_ex_request" "signable_items ad_ex_commitment" "signable_items ad_ex_prepared"
  "signable_items ad_ex_authorization"
proof -
  show "signable_items ad_ex_request" by code_simp
  have "\<not> has_surrogate (b64encode ad_ex_material)" by (rule b64_ascii)
  then show "signable_items ad_ex_commitment" "signable_items ad_ex_prepared" "signable_items ad_ex_authorization"
    by (simp_all add: ad_ex_commitment_def operation_commitment_def ad_ex_prepared_def prepared_operation_def ad_ex_authorization_def)
qed

lemma ad_ex_prepares: "prepare_operation example_jcs (PDict ad_ex_request) 63905760000000000 = Inr ad_ex_prepared"
proof -
  have "canonical_json_bytes example_jcs (PDict ad_ex_request) = Inr (example_jcs_text (PDict ad_ex_request))"
    using ad_ex_signable(1) by (simp add: canonical_json_bytes_Inr example_jcs_def del: example_jcs_text.simps)
  moreover have "operation_commitment ad_ex_request (digest ad_ex_request) (sha256_raw_bytes ad_ex_material) = PDict ad_ex_commitment"
    by (simp add: ad_ex_commitment_def operation_commitment_def)
  ultimately show ?thesis
    using ad_ex_signable(1,2)
    by (simp add: prepare_operation_def ad_ex_valid digest_hash Let_def ad_ex_material_def [symmetric] ad_ex_prepared_def
        del: example_jcs_text.simps)
qed

definition ad_ex_row :: ad_row where
  "ad_ex_row =
     \<lparr>ad_request_id = ''req-1'', ad_operation_id = ''op-1'', ad_idempotency_key = ''key-1'', ad_request_hash = digest ad_ex_request,
      ad_request = normal_dict ad_ex_request, ad_prepared = normal_dict ad_ex_prepared, ad_state = AdPrepared,
      ad_authorization = None, ad_scenario = None, ad_submit_intent_count = 0, ad_automatic_resubmission_count = 0,
      ad_receipt = None, ad_result = None, ad_created_at = strftime_utc 63905760000000000,
      ad_updated_at = strftime_utc 63905760000000000\<rparr>"

lemma ad_ex_prepare:
  "ad_prepare example_jcs (PDict ad_ex_request) 63905760000000000 ad_init = (\<lparr>ad_rows = [ad_ex_row], ad_uses = []\<rparr>, Inr ad_ex_prepared)"
proof -
  have "json_text ad_ex_request = Inr (normal_dict ad_ex_request)" "json_text ad_ex_prepared = Inr (normal_dict ad_ex_prepared)"
    by (rule signable_stored; simp add: ad_ex_signable)+
  moreover have "text_item ad_ex_prepared ''request_hash'' = digest ad_ex_request"
    by (simp add: ad_ex_prepared_def prepared_operation_def text_item_def item_def [of "_ # _"])
  ultimately show ?thesis
    by (simp add: ad_prepare_def ad_prepare_tx_def ad_ex_prepares Let_def text_item_def ad_init_def insert_row_def transaction_def ad_ex_row_def)
qed

definition ad_ex_authorized :: ad_row where
  "ad_ex_authorized = ad_ex_row\<lparr>ad_state := AdAuthorized, ad_authorization := Some (normal_dict ad_ex_authorization),
     ad_scenario := Some ''lost_response'', ad_updated_at := strftime_utc 63905760000000000\<rparr>"

lemma ad_ex_prepared_items:
  "item ad_ex_prepared ''request_id'' = PStr ''req-1''" "item ad_ex_prepared ''operation_id'' = PStr ''op-1''"
  "item ad_ex_prepared ''prepared_material_hash'' = PStr (sha256_raw_bytes ad_ex_material)"
  "item ad_ex_prepared ''operation_commitment'' = PStr (digest ad_ex_commitment)"
  "item ad_ex_prepared ''expires_at'' = PStr ''2026-02-04T00:00:00Z''"
  by (simp_all add: ad_ex_prepared_def prepared_operation_def item_def [of "_ # _"])

lemma ad_ex_authorizes:
  "cap_validate_authorization (PDict ad_ex_authorization) (normal_dict ad_ex_prepared) 63905760000000000 = Inr ad_ex_authorization"
proof -
  have "exact_fields (PDict ad_ex_authorization) cap_authorization_fields = Inr ad_ex_authorization"
    by (simp add: exact_fields_Inr ad_ex_authorization_def cap_authorization_fields_def has_key_def)
  moreover have "cap_timestamp (PStr ''2026-02-03T12:00:00Z'') = Inr 63905803200000000"
    "cap_timestamp (PStr ''2026-02-04T00:00:00Z'') = Inr 63905846400000000"
    by (simp_all add: cap_timestamp_Inr)
  moreover have "cap_identifier (PStr ''req-1'') = Inr ()" "cap_identifier (PStr ''op-1'') = Inr ()" "cap_identifier (PStr ''auth-1'') = Inr ()"
    "cap_hash (PStr (sha256_raw_bytes ad_ex_material)) = Inr ()" "cap_hash (PStr (digest ad_ex_commitment)) = Inr ()"
    by (simp_all add: cap_identifier_Inr cap_hash_Inr)
  ultimately show ?thesis
    by (simp add: cap_validate_authorization_def version_and_capability_def cap_type_def cap_bound_fields_def item_normal
        ad_ex_prepared_items) (simp add: ad_ex_authorization_def item_def)
qed

lemma ad_ex_authorize:
  "fst (ad_authorize ''req-1'' (PDict ad_ex_authorization) 63905760000000000 ''lost_response'' \<lparr>ad_rows = [ad_ex_row], ad_uses = []\<rparr>) =
   \<lparr>ad_rows = [ad_ex_authorized], ad_uses = [\<lparr>use_id = ''auth-1'', use_request = ''req-1''\<rparr>]\<rparr>"
proof -
  have "json_text ad_ex_authorization = Inr (normal_dict ad_ex_authorization)"
    by (rule signable_stored) (simp add: ad_ex_signable)
  moreover have "text_item ad_ex_authorization ''authorization_id'' = ''auth-1''"
    by (simp add: ad_ex_authorization_def text_item_def item_def)
  moreover have "ad_prepared ad_ex_row = normal_dict ad_ex_prepared" "ad_request_id ad_ex_row = ''req-1''" "ad_state ad_ex_row = AdPrepared"
    by (simp_all add: ad_ex_row_def)
  ultimately show ?thesis
    by (simp add: ad_authorize_def ad_authorize_tx_def ad_find_def ad_scenarios_def ad_ex_authorizes as_adapter_error_def Let_def
        select_row_def insert_row_def transaction_def ad_update_def update_row_def ad_ex_authorized_def)
qed

definition ad_ex_receipt :: pydict where
  "ad_ex_receipt = normal_dict (ad_receipt_body ad_ex_row ''2026-02-03T00:00:00Z'' @
     [(KStr ''technical_receipt_hash'', PStr (digest (ad_receipt_body ad_ex_row ''2026-02-03T00:00:00Z'')))])"

lemma ad_ex_times [simp]: "strftime_utc 63905760000000000 = ''2026-02-03T00:00:00Z''" "\<not> has_surrogate ''2026-02-03T00:00:00Z''"
  by (rule closure_times, code_simp)

lemma ad_ex_body:
  "signable_items (ad_receipt_body ad_ex_row ''2026-02-03T00:00:00Z'')"
  "\<not> has_surrogate (''fixture:'' @ take 32 (drop 7 (digest d)))"
proof -
  show t: "\<not> has_surrogate (''fixture:'' @ take 32 (drop 7 (digest d)))" for d by (rule hash_part_ascii) simp
  have c: "text_item (ad_prepared ad_ex_row) ''operation_commitment'' = digest ad_ex_commitment"
    by (simp add: ad_ex_row_def text_item_def item_normal ad_ex_prepared_items)
  show "signable_items (ad_receipt_body ad_ex_row ''2026-02-03T00:00:00Z'')"
    using t [of ad_ex_commitment] by (simp add: ad_receipt_body_def c Let_def) (simp add: ad_ex_row_def)
qed

lemma ad_ex_make_receipt: "ad_make_receipt example_jcs ad_ex_row ''2026-02-03T00:00:00Z'' = Inr ad_ex_receipt"
proof -
  have "signable (PDict (ad_receipt_body ad_ex_row ''2026-02-03T00:00:00Z'' @
     [(KStr ''technical_receipt_hash'', PStr (digest (ad_receipt_body ad_ex_row ''2026-02-03T00:00:00Z'')))]))"
    using ad_ex_body(1) by (simp add: signable_items_append)
  from signable_stored [OF this] show ?thesis
    by (simp add: ad_make_receipt_def digest_hash [OF ad_ex_body(1)] ad_ex_receipt_def)
qed

definition ad_ex_submitted :: ad_row where
  "ad_ex_submitted = ad_ex_authorized\<lparr>ad_state := AdNeedsRecovery, ad_submit_intent_count := 1, ad_receipt := Some ad_ex_receipt\<rparr>"

abbreviation ad_ex_db :: "ad_row \<Rightarrow> ad_db" where
  "ad_ex_db r \<equiv> \<lparr>ad_rows = [r], ad_uses = [\<lparr>use_id = ''auth-1'', use_request = ''req-1''\<rparr>]\<rparr>"

lemma ad_status_Inr:
  assumes "\<not> has_surrogate rid" "select_row ad_request_id (ad_rows db) rid = Some row"
  shows "\<exists>status. ad_status rid db = Inr status"
proof -
  have "List.member operation_states (ad_stage_text (ad_state row))"
    by (cases "ad_state row") (simp_all add: ad_stage_text_def operation_states_def)
  with assms show ?thesis by (simp add: ad_status_def ad_find_def make_status_def)
qed

text \<open>A submission whose response is lost keeps its receipt.\<close>

lemma ad_submit_lost:
  assumes rid: "\<not> has_surrogate rid" and row: "select_row ad_request_id (ad_rows db) rid = Some row"
    and st: "ad_state row = AdAuthorized" "ad_scenario row = Some ''lost_response''"
    and rc: "ad_make_receipt jcs row (strftime_utc now) = Inr rc"
  shows "fst (ad_submit jcs rid now db) =
    ad_update rid (\<lambda>r. r\<lparr>ad_state := AdNeedsRecovery, ad_submit_intent_count := ad_submit_intent_count r + 1,
      ad_receipt := Some rc, ad_updated_at := strftime_utc now\<rparr>) db"
proof -
  let ?db = "ad_update rid (\<lambda>r. r\<lparr>ad_state := AdNeedsRecovery, ad_submit_intent_count := ad_submit_intent_count r + 1,
      ad_receipt := Some rc, ad_updated_at := strftime_utc now\<rparr>) db"
  obtain row' where "select_row ad_request_id (ad_rows ?db) rid = Some row'"
    using row by (simp add: ad_update_def select_update_row)
  then obtain status where "ad_status rid ?db = Inr status" using ad_status_Inr [OF rid] by blast
  with rid row st rc show ?thesis
    by (simp add: ad_submit_def ad_submit_tx_def ad_find_def Let_def ad_unknown_scenarios_def transaction_def)
qed

lemma ad_ex_submit: "fst (ad_submit example_jcs ''req-1'' 63905760000000000 (ad_ex_db ad_ex_authorized)) = ad_ex_db ad_ex_submitted"
proof -
  have "ad_make_receipt example_jcs ad_ex_authorized ''2026-02-03T00:00:00Z'' = Inr ad_ex_receipt"
    using ad_ex_make_receipt make_receipt_columns [of ad_ex_authorized ad_ex_row] by (simp add: ad_columns_def ad_ex_authorized_def)
  moreover have "ad_request_id ad_ex_authorized = ''req-1''" "ad_state ad_ex_authorized = AdAuthorized"
    "ad_scenario ad_ex_authorized = Some ''lost_response''" "ad_submit_intent_count ad_ex_authorized = 0"
    "ad_updated_at ad_ex_authorized = ''2026-02-03T00:00:00Z''"
    by (simp_all add: ad_ex_authorized_def ad_ex_row_def)
  ultimately show ?thesis
    by (subst ad_submit_lost [of _ _ ad_ex_authorized _ _ ad_ex_receipt])
      (simp_all add: select_row_def ad_update_def update_row_def ad_ex_submitted_def)
qed

definition ad_ex_recovered :: ad_row where
  "ad_ex_recovered = ad_ex_submitted\<lparr>ad_state := AdConfirmed\<rparr>"

lemma ad_ex_recover: "fst (ad_recover ''req-1'' 63905760000000000 (ad_ex_db ad_ex_submitted)) = ad_ex_db ad_ex_recovered"
  by (simp add: ad_recover_def ad_recover_tx_def ad_find_def select_row_def ad_update_def update_row_def transaction_def ad_ex_recovered_def
      ad_ex_submitted_def ad_ex_authorized_def ad_ex_row_def)

definition ad_ex_observation :: pydict where
  "ad_ex_observation =
     [(KStr ''type'', PStr ''channel_economic_observation''), (KStr ''protocol_version'', PStr cap_version),
      (KStr ''capability_id'', PStr capability_id), (KStr ''request_id'', PStr ''req-1''), (KStr ''operation_id'', PStr ''op-1''),
      (KStr ''technical_receipt_hash'', PStr (digest (ad_receipt_body ad_ex_row ''2026-02-03T00:00:00Z''))),
      (KStr ''provider_ids'', PList [PStr ''provider-1'']), (KStr ''economic_outcome'', PStr ''matched''),
      (KStr ''observed_at'', PStr ''2026-02-03T00:00:00Z'')]"

lemma ad_ex_observed: "cap_validate_observation (PDict ad_ex_observation) ad_ex_receipt = Inr ad_ex_observation"
proof -
  have "exact_fields (PDict ad_ex_observation) cap_observation_fields = Inr ad_ex_observation"
    by (simp add: exact_fields_Inr ad_ex_observation_def cap_observation_fields_def has_key_def)
  moreover have "item ad_ex_receipt ''request_id'' = PStr ''req-1''" "item ad_ex_receipt ''operation_id'' = PStr ''op-1''"
    "item ad_ex_receipt ''technical_receipt_hash'' = PStr (digest (ad_receipt_body ad_ex_row ''2026-02-03T00:00:00Z''))"
    unfolding ad_ex_receipt_def item_normal by (simp_all add: ad_receipt_body_def Let_def item_def) (simp_all add: ad_ex_row_def)
  moreover have "cap_identifier (PStr ''req-1'') = Inr ()" "cap_identifier (PStr ''op-1'') = Inr ()" "cap_hash (PStr (digest d)) = Inr ()" for d
    by (simp_all add: cap_identifier_Inr cap_hash_Inr)
  moreover have "check_providers (PList [PStr ''provider-1'']) = Inr ()" by code_simp
  moreover have "py_in (PStr ''matched'') [''matched'', ''mismatch'', ''divergent''] = Inr True" by code_simp
  moreover have "validate_timestamp_text (PStr ''2026-02-03T00:00:00Z'') ''$.observed_at'' = Inr ''2026-02-03T00:00:00Z''" by code_simp
  ultimately show ?thesis
    by (simp add: cap_validate_observation_def version_and_capability_def cap_type_def) (simp add: ad_ex_observation_def item_def)
qed

lemma ad_ex_result: "\<exists>res. ad_make_result example_jcs ''req-1'' ''op-1'' ad_ex_receipt ad_ex_observation ''2026-02-03T00:00:00Z'' = Inr res"
proof -
  have "\<not> has_surrogate ''provider-1''" by code_simp
  then have o: "signable_items ad_ex_observation" by (simp add: ad_ex_observation_def)
  obtain h where h: "item ad_ex_receipt ''technical_receipt_hash'' = PStr h" "hash_text h"
    unfolding ad_ex_receipt_def item_normal by (simp add: ad_receipt_body_def Let_def item_def)
  let ?body = "ad_result_body ''req-1'' ''op-1'' ad_ex_receipt (digest ad_ex_observation) ''2026-02-03T00:00:00Z''"
  have b: "signable_items ?body" using h by (simp add: ad_result_body_def)
  then have "signable (PDict (?body @ [(KStr ''result_hash'', PStr (digest ?body))]))"
    by (simp add: signable_items_append)
  from signable_stored [OF this] show ?thesis
    by (simp add: ad_make_result_def digest_hash [OF o] digest_hash [OF b] Let_def)
qed

lemma ad_ex_reconciled:
  obtains row where "fst (ad_reconcile example_jcs ''req-1'' (PDict ad_ex_observation) 63905760000000000 (ad_ex_db ad_ex_recovered)) = ad_ex_db row"
    "ad_state row = AdReconciled"
proof -
  obtain res where m: "ad_make_result example_jcs ''req-1'' ''op-1'' ad_ex_receipt ad_ex_observation ''2026-02-03T00:00:00Z'' = Inr res"
    using ad_ex_result by blast
  have r: "ad_request_id ad_ex_recovered = ''req-1''" "ad_operation_id ad_ex_recovered = ''op-1''"
    "ad_state ad_ex_recovered = AdConfirmed" "ad_receipt ad_ex_recovered = Some ad_ex_receipt"
    by (simp_all add: ad_ex_recovered_def ad_ex_submitted_def ad_ex_authorized_def ad_ex_row_def)
  have "text_item ad_ex_observation ''economic_outcome'' = ''matched''"
    by (simp add: ad_ex_observation_def text_item_def item_def)
  then have "reconcile_plan example_jcs ''req-1'' (PDict ad_ex_observation) 63905760000000000 (ad_ex_db ad_ex_recovered) =
      Inr \<lparr>wr_request = ''req-1'', wr_state = AdReconciled, wr_result = Some res, wr_at = ''2026-02-03T00:00:00Z''\<rparr>"
    using m r by (simp add: reconcile_plan_def ad_find_def select_row_def ad_ex_observed as_adapter_error_def outcome_stage_def Let_def)
  then show ?thesis
    using that r by (simp add: ad_reconcile_def reconcile_write_def ad_update_def update_row_def)
qed

text \<open>The states of the run: the operation unknown after its submission, and reconciled in the end.\<close>

lemma ad_ex_run:
  obtains s s' r r' where "(ad_step example_jcs)\<^sup>*\<^sup>* ad_start s" "(ad_step example_jcs)\<^sup>*\<^sup>* s s'" "(ad_step example_jcs)\<^sup>*\<^sup>* ad_start s'"
    "r \<in> set (ad_rows (ad_tables s))" "ad_state r = AdNeedsRecovery" "ad_receipt r \<noteq> None"
    "ad_rows (ad_tables s') = [r']" "ad_state r' = AdReconciled"
proof -
  let ?s = "\<lambda>db. \<lparr>ad_tables = db, ad_planned = []\<rparr>"
  obtain row where row: "fst (ad_reconcile example_jcs ''req-1'' (PDict ad_ex_observation) 63905760000000000 (ad_ex_db ad_ex_recovered)) = ad_ex_db row"
    "ad_state row = AdReconciled" by (rule ad_ex_reconciled)
  have "ad_step example_jcs ad_start (?s \<lparr>ad_rows = [ad_ex_row], ad_uses = []\<rparr>)"
    using ad_step.prepare [of example_jcs ad_start "PDict ad_ex_request" 63905760000000000] by (simp add: ad_start_def ad_ex_prepare)
  then have "(ad_step example_jcs)\<^sup>*\<^sup>* ad_start (?s \<lparr>ad_rows = [ad_ex_row], ad_uses = []\<rparr>)" ..
  also have "ad_step example_jcs \<dots> (?s (ad_ex_db ad_ex_authorized))"
    using ad_step.authorize [of example_jcs "?s \<lparr>ad_rows = [ad_ex_row], ad_uses = []\<rparr>" "''req-1''" "PDict ad_ex_authorization"
      63905760000000000 "''lost_response''"] by (simp add: ad_ex_authorize)
  also have "ad_step example_jcs \<dots> (?s (ad_ex_db ad_ex_submitted))"
    using ad_step.submit [of example_jcs "?s (ad_ex_db ad_ex_authorized)" "''req-1''" 63905760000000000] by (simp add: ad_ex_submit)
  finally have sent: "(ad_step example_jcs)\<^sup>*\<^sup>* ad_start (?s (ad_ex_db ad_ex_submitted))" .
  have "ad_step example_jcs (?s (ad_ex_db ad_ex_submitted)) (?s (ad_ex_db ad_ex_recovered))"
    using ad_step.recover [of example_jcs "?s (ad_ex_db ad_ex_submitted)" "''req-1''" 63905760000000000] by (simp add: ad_ex_recover)
  then have a: "(ad_step example_jcs)\<^sup>*\<^sup>* (?s (ad_ex_db ad_ex_submitted)) (?s (ad_ex_db ad_ex_recovered))" ..
  have b: "(ad_step example_jcs)\<^sup>*\<^sup>* (?s (ad_ex_db ad_ex_recovered)) (?s (ad_ex_db row))"
    using reconcile_steps [of example_jcs "?s (ad_ex_db ad_ex_recovered)" "''req-1''" "PDict ad_ex_observation" 63905760000000000]
    by (simp add: row)
  have last: "(ad_step example_jcs)\<^sup>*\<^sup>* (?s (ad_ex_db ad_ex_submitted)) (?s (ad_ex_db row))" by (rule rtranclp_trans [OF a b])
  have "ad_state ad_ex_submitted = AdNeedsRecovery" "ad_receipt ad_ex_submitted \<noteq> None"
    by (simp_all add: ad_ex_submitted_def ad_ex_authorized_def ad_ex_row_def)
  then show ?thesis
    by (intro that [OF sent last rtranclp_trans [OF sent last], of ad_ex_submitted row]) (use row(2) in simp_all)
qed

theorem adapter_submits_once_witness:
  "\<exists>s r. (ad_step example_jcs)\<^sup>*\<^sup>* ad_start s \<and> ad_rows (ad_tables s) = [r] \<and> ad_state r = AdReconciled \<and>
     ad_submit_intent_count r = 1 \<and> ad_automatic_resubmission_count r = 0 \<and> length (ad_uses (ad_tables s)) \<ge> 1"
proof -
  obtain s' r' where s': "(ad_step example_jcs)\<^sup>*\<^sup>* ad_start s'" "ad_rows (ad_tables s') = [r']" "ad_state r' = AdReconciled"
    by (rule ad_ex_run)
  then have "r' \<in> set (ad_rows (ad_tables s'))" by simp
  from adapter_submits_once [OF s'(1) this] s'(3)
  have "ad_submit_intent_count r' = 1" "ad_automatic_resubmission_count r' = 0"
    "length (filter (\<lambda>u. use_request u = ad_request_id r') (ad_uses (ad_tables s'))) = 1" by simp_all
  with s' show ?thesis by (metis length_filter_le)
qed

theorem adapter_reconciled_on_evidence_witness:
  "\<exists>s r rc res. (ad_step example_jcs)\<^sup>*\<^sup>* ad_start s \<and> r \<in> set (ad_rows (ad_tables s)) \<and> ad_receipt r = Some rc \<and> ad_result r = Some res \<and>
     item res ''technical_receipt_hash'' = item rc ''technical_receipt_hash''"
proof -
  obtain s' r' where s': "(ad_step example_jcs)\<^sup>*\<^sup>* ad_start s'" "ad_rows (ad_tables s') = [r']" "ad_state r' = AdReconciled"
    by (rule ad_ex_run)
  then have r': "r' \<in> set (ad_rows (ad_tables s'))" by simp
  from adapter_reconciled_on_evidence [OF example_jcs_order_free s'(1) r'] s'(3)
  obtain rc res where "ad_receipt r' = Some rc" "ad_result r' = Some res"
    "item res ''technical_receipt_hash'' = item rc ''technical_receipt_hash''" by blast
  with s'(1) r' show ?thesis by blast
qed


end
