(* ===== verification/Spec2Isabelle.thy ===== *)
theory Spec2Isabelle
  imports Voucher_Ledger Binding Settlement_Props Closure_Props Grant_Props Reconciliation_Props
    Strict_Json_Raw Failure_Lab_Props Fake_Executor_Props Channel_Adapter_Props
begin

text \<open>
  \<^bold>\<open>Verification of Foundry Pay: payment channels and external execution.\<close>

  The program is a set of offline Python libraries that decide whether a payment may happen and keep
  durable journals of what was decided. Nothing in it moves money: an external executor does, and the
  libraries make sure that it is asked at most once, for an amount somebody has a right to, and that
  completion is only ever recorded on independent evidence.

  \<^bold>\<open>Parts and how they interact.\<close> A channel snapshot (\<^verbatim>\<open>channel.py\<close>) fixes who pays whom, in which mint,
  and the accounting of a channel epoch. A voucher (\<^verbatim>\<open>voucher.py\<close>) is a signed cumulative amount
  against a snapshot; its ledger activates vouchers. A recipient binding (\<^verbatim>\<open>recipient_binding.py\<close>) is
  the recipient's cosigned choice of a destination wallet, usable once. A settlement (\<^verbatim>\<open>settlement.py\<close>)
  turns an activated voucher and a binding into a reservation, a durable submission intent, one
  executor call, and a reconciled result. Closure (\<^verbatim>\<open>closure.py\<close>) freezes a channel, refunds what
  nobody has a right to, and finalizes it. Every artifact is hashed over canonical JSON
  (\<^verbatim>\<open>canonical.py\<close>). Plans for the external executor have their own stricter canonical form
  (\<^verbatim>\<open>canonicalization.py\<close> of the external execution protocol). Between the two stand the services: an
  authority grants an authorization for exactly one prepared message, a signer signs that message once,
  and a reconciliation protocol decides from several sources what happened. Two fake executors and a
  failure laboratory play the external side, with lost responses, crashes and late writes.

  \<^bold>\<open>Theories.\<close> Paths below are relative to \<^verbatim>\<open>src/packages/channel-protocol/python/foundry_channel_protocol\<close>
  unless said otherwise.

  \<^item> \<open>Prelude\<close>: exceptions as values (\<open>exn\<close>, \<open>'a res\<close>), sequencing of checks (\<open>bind_res\<close>, \<open>reject_if\<close>,
    \<open>run_all\<close>), which exceptions escape (\<open>raises\<close>), decimal text.
  \<^item> \<open>Py_Values\<close>, \<open>Py_Time\<close>: Python values and dictionaries (\<open>pyval\<close>, \<open>pydict\<close>), \<^verbatim>\<open>==\<close> and membership,
    the regular expressions and closed-object checks every module repeats, stored JSON; calendar
    arithmetic, \<^verbatim>\<open>strptime\<close>, \<^verbatim>\<open>fromisoformat\<close>, \<^verbatim>\<open>strftime\<close> and \<^verbatim>\<open>datetime\<close> values.
  \<^item> \<open>Sha256\<close>, \<open>Hmac\<close>, \<open>Base64\<close>: the standard-library functions the code uses, executable; \<open>Sha256_Eval\<close>
    checks the digest of a published test text by evaluation.
  \<^item> \<open>Tables\<close>, \<open>Lifecycle\<close>, \<open>Linked_Log\<close>: database tables as lists of rows, transactions, and the interfaces
    of the journals. \<open>Stored_Json\<close>: what storing a value as JSON text and reading it back does to it.
  \<^item> \<open>Canonical\<close>: \<^verbatim>\<open>canonical.py\<close>, from the value domain to domain-separated and self-excluding hashes.
    \<open>Strict_Json\<close>, \<open>Strict_Json_Props\<close>: \<^verbatim>\<open>parse_strict_json\<close> over the JSON scanner of the standard library.
    \<open>Strict_Json_Raw\<close>: a reader of the same grammar without hooks, which keeps every member of an object
    and every number as text, and against which the strict reader is specified.
  \<^item> \<open>Channel\<close>: \<^verbatim>\<open>channel.py\<close>, snapshot and funding validation, and the funding transition.
  \<^item> \<open>Voucher\<close>, \<open>Voucher_Ledger\<close>: \<^verbatim>\<open>voucher.py\<close>, verification of one voucher, and the class
    \<^verbatim>\<open>ReferenceVoucherLedger\<close> with its four operations as \<open>ledger_step\<close>.
  \<^item> \<open>Binding\<close>: \<^verbatim>\<open>recipient_binding.py\<close>, verification of a binding and the one-use journal.
  \<^item> \<open>Settlement_Request\<close>, \<open>Settlement_Store\<close>, \<open>Settlement_Runtime\<close>, \<open>Settlement_Recovery\<close>: \<^verbatim>\<open>settlement.py\<close>,
    the artifacts, the four tables (\<open>runtime\<close>), and every method of \<^verbatim>\<open>SettlementRuntime\<close>, gathered in
    \<open>settlement_step\<close>, one step per transaction. Its label says whether the executor was called, and
    whether the step is the read of a recovery or its write (\<open>Reads\<close>, \<open>Writes\<close>): \<^verbatim>\<open>recover\<close> and
    \<^verbatim>\<open>record_provider_divergence\<close> decide on a row they read and write in a later transaction that does
    not look at it again, so any steps of other callers lie between, and a write needs only that its
    read came earlier in the run (\<open>may_follow\<close>, \<open>settlement_run_after\<close>).
    \<open>Settlement_Effects\<close> proves that each step is one of a few effects, \<open>Settlement_Invariants\<close>,
    \<open>Settlement_Reservations\<close> (the book of reservations, with the settlements a late write reopened) and
    \<open>Settlement_Props\<close> derive the properties, \<open>Settlement_Examples\<close> holds concrete runs.
  \<^item> \<open>Closure\<close>, \<open>Refund_Runtime\<close>: \<^verbatim>\<open>closure.py\<close>, the artifacts of closing a channel and the class
    \<^verbatim>\<open>ClosureRuntime\<close> (\<open>refund_db\<close>, \<open>refund_step\<close>); \<open>Closure_Facts\<close>, \<open>Refund_Invariants\<close>, \<open>Closure_Props\<close>,
    \<open>Closure_Examples\<close> as for settlement.
  \<^item> \<open>Ext_Canonical\<close>: \<^verbatim>\<open>src/packages/external-execution-protocol/.../canonicalization.py\<close>, plans,
    commitments, their hashes, and base58 keys. \<open>Exec_Checks\<close>: checks the services share.
  \<^item> \<open>Authority\<close>, \<open>Authority_Facts\<close>: \<^verbatim>\<open>src/services/authorization/authority.py\<close>, the checks of a grant and
    the journal of grants (\<open>grant_step\<close>), where the expiry that \<^verbatim>\<open>state\<close> stores is a step of its own, decided
    on a row read at any earlier moment. \<open>Signer\<close>, \<open>Signer_Facts\<close>: \<^verbatim>\<open>src/services/signer/boundary.py\<close>, the
    signer, its journal, and concurrent signer processes over one journal (\<open>signer_system\<close>). The signing
    provider has a state of its own and sees the journal, so that its calls and their order are part
    of what \<open>sign\<close> returns.
    \<open>Grant_Examples\<close> and \<open>Grant_Props\<close> hold their properties.
  \<^item> \<open>Reconciliation\<close>, \<open>Reconciliation_Props\<close>: \<^verbatim>\<open>src/services/reconciliation/protocol.py\<close>, sources, observations
    and the consensus over them.
  \<^item> \<open>Failure_Lab\<close> (\<open>_Facts\<close>, \<open>_Props\<close>): \<^verbatim>\<open>src/services/failure_lab/lab.py\<close>, the durable execution with its
    event log and the simulated chain, a step per durable transaction (\<open>lab_step\<close>).
  \<^item> \<open>Strptime\<close>, \<open>Fake_Executor\<close> (\<open>_Facts\<close>, \<open>_Live\<close>, \<open>_Props\<close>): \<^verbatim>\<open>fake_executor.py\<close> of the external execution
    protocol, the authority that authenticates with a shared key and the executor over its three
    tables (\<open>fx_step\<close>).
  \<^item> \<open>Capabilities\<close>: \<^verbatim>\<open>capabilities.py\<close>, the closed contracts of a channel operation and its preparation.
    \<open>Channel_Adapter\<close> (\<open>_Facts\<close>, \<open>_Props\<close>): \<^verbatim>\<open>src/services/fake-executor/channel_adapter.py\<close>, the adapter that
    takes an operation to its reconciliation (\<open>ad_step\<close>); a write that was decided on an earlier read is
    part of its state, so that reconciliations interleave.

  \<^bold>\<open>How state and operations correspond.\<close> A SQLite table is a list of row records in insertion order
  with its UNIQUE constraints checked where the code inserts; a method is a function from the tables
  and its arguments to the new tables and a result; a \<^verbatim>\<open>with connection\<close> block is \<open>transaction\<close>, which
  keeps the old tables when the body raises. A Python exception is \<open>Inl\<close>: \<open>Exn class code field\<close> for a
  rejection of the library, \<open>PyRaise\<close> for one the interpreter raises through it.

  \<^bold>\<open>Interfaces.\<close> \<open>keyed_table\<close> (a table read by its key), \<open>preserved\<close> (a step relation and an invariant),
  \<open>chained_log\<close> and \<open>keyed_log\<close> (numbered journals in which each entry carries the digest of the one
  before), \<open>linked_log\<close> (event logs linked per owner), \<open>reservation_book\<close> (rows that hold part of a
  capacity until released), \<open>row_lifecycle\<close> (rows that are never deleted and move along a graph of
  states), \<open>hex_digest\<close> (what the code relies on of a digest text, for SHA-256 and HMAC). Each is interpreted on the model's own tables, and the invariants rest on the
  facts of those interpretations.

  \<^bold>\<open>What is shown.\<close>

  \<^item> Settlement: the executor is called at most once per settlement over every run, only with a bound
    authorization and after the intent is durable; reservations that stand never exceed the activated
    right nor the vault, and only the unguarded write of a recovery brings back one that was released;
    completion needs matching evidence; states move along the lifecycle, apart from such a write, which
    moves a row to the target its read decided on; the journal is hash-chained; registration is
    idempotent; an orphaned submission stays where it is.
  \<^item> Closure: the refund runtime keeps its invariant along every run, completes only on evidence,
    moves along its lifecycle; a refund never touches what the recipient has a right to; the frozen
    and requested snapshots the code builds pass its own validation; a channel is finalized only
    when nothing is left in it.
  \<^item> Channel, voucher, binding: accounting is conserved by validation and by funding; a verified voucher
    or binding was signed over exactly the payload checked and lies within its right and its time
    window; the ledger is monotone, its history is kept, its journal is legal; a binding is used once;
    which exceptions can escape.
  \<^item> Canonicalization: canonical bytes exist exactly on the declared domain; self-excluding hashes
    round-trip and bind; domains are separated; a public key has one base58 text. The strict parser
    accepts exactly the documents without repeated keys, with plain safe integers, well-formed texts and
    no other constant than true and false, and reads back what is printed.
  \<^item> Authority and signer: an issued authorization binds exactly the checked plan and message; a grant
    is consumed at most once, also when a late expiry overwrites the consumed state, and at most one is
    live for an obligation; the signing provider is asked at most once per authorization, over every
    interleaving, and only after the claim is stored; what is granted can be signed.
  \<^item> Reconciliation: approval needs every source heard to have seen exactly the expected transfer, a primary
    source among them, and the verdict does not depend on the order of the observations.
  \<^item> Failure laboratory and fake executor: whatever fails, an execution is broadcast and an obligation
    takes effect at most once, only under an authentic authorization; evidence verifies at any moment;
    recovery reports what happened; an authorization of what was prepared is executed.
  \<^item> Channel adapter: an operation is submitted at most once under one authorization of its prepared
    bytes; its state moves only along the recorded lifecycle; a reconciled one carries verifiable
    evidence from request to observation; an unknown outcome is never resolved by sending again.

  \<^bold>\<open>Parameters.\<close> The JSON canonicalization scheme library (\<open>serializer\<close>: a value to bytes or failure),
  the signature verifiers and providers, the executor and the observation verifiers are not part of
  the modelled code: they are arguments of the definitions. Where a property relies on one, the law is
  a hypothesis of the theorem (the serializer is injective on the two values compared, is defined on
  the domain, or does not depend on the order of keys, \<open>key_order_free\<close>; the verifier accepts what the
  provider signs), and its witness uses \<open>example_jcs\<close> and the other concrete instances.
  No theorem assumes that SHA-256 has no collisions: a binding property concludes equality or
  exhibits the two colliding byte strings.

  \<^bold>\<open>Bounds and fuel.\<close> The JSON scanner takes fuel: twice the length of the text and one more, which is
  proved to be enough for every text, and more changes nothing. Nothing else uses fuel: \<open>dec_nat\<close>,
  \<open>to_bytes\<close> and the SHA-256 \<open>chunks\<close> recurse on a number or list that gets smaller and are total. Integers are Python's; the bounds the
  code imposes (unsigned 64-bit amounts, JSON-safe integers, SQLite's 64-bit columns, CPython's
  4300-digit limit on reading integers) are branches of the model.

  \<^bold>\<open>Not modelled.\<close> Opening and migrating database files, the nesting limit of the interpreter, the schema
  conformance runner, the network clients and backfill behind the reconciliation sources, the chaos
  proxy and the process matrices of the failure laboratory, the HTTP services, scripts and evidence
  generators: they read files, sockets and processes, or drive the modelled code on fixtures.
\<close>

section \<open>The authority and the signer together\<close>

text \<open>
  Property C6. What the authority grants, the signer signs: if the signer's verifier accepts what the
  authority's provider signs, and the message in the prepared execution is canonical base64, then a
  freshly issued authorization, presented within the window its texts state to a signer that has not
  seen it, yields a receipt with the provider's envelope for exactly that message, after one call of the
  provider with the claim on record, and the journal records it as signed.
\<close>

theorem issued_grant_signable:
  assumes "authority_issue jcs sp max_ttl g now rows = (rows', Inr a)"
    and "r \<in> set rows'" "\<forall>s\<in>set rows. au_id s \<noteq> au_id r"
    and "gr_signer g = PStr signer_id" "gr_prepared_execution g = PDict prepared"
    and "item prepared ''prepared_message_base64'' = PStr (b64encode m)"
    and "\<forall>payload signature. sp payload = Inr (PStr signature) \<longrightarrow> gv payload signature = VTrue"
    and "ext_timestamp_text (au_issued_at r)" "strptime_utc (au_issued_at r) = Some issued"
    and "ext_timestamp_text (au_expires_at r)" "strptime_utc (au_expires_at r) = Some expires"
    and "utcoffset later \<noteq> None" "issued \<le> to_seconds (instant later)" "to_seconds (instant later) < expires"
    and "select_row so_id srows (au_id r) = None"
    and "\<forall>j. fst (provider w j m signer_id) = Some (PStr envelope)" "envelope \<noteq> []" "\<not> has_surrogate envelope"
  shows "\<exists>srows' receipt row claim.
    sign jcs gv provider signer_id (gr_prepared_execution g) a later w srows =
      (snd (provider w (srows @ [claim]) m signer_id), srows', Inr (PDict receipt)) \<and>
    so_id claim = au_id r \<and> so_state claim = OpSigning \<and>
    item receipt ''signature_envelope'' = PStr envelope \<and>
    item receipt ''prepared_message_hash'' = PStr (sha256_digest m) \<and>
    row \<in> set srows' \<and> so_id row = au_id r \<and> so_state row = OpSigned \<and> so_envelope row = Some envelope"
proof -
  obtain plan prepared' e payload signature ob fp stored where
    cg: "check_grant jcs max_ttl g (to_seconds (instant now)) = Inr (plan, prepared', e)"
    and pl: "authorization_signing_payload jcs (unsigned_authorization g prepared' (to_seconds (instant now)) e) = Inr payload"
    and sg: "sp payload = Inr (PStr signature)" "signature \<noteq> []"
    and a: "a = PDict (unsigned_authorization g prepared' (to_seconds (instant now)) e @
       [(KStr ''authorization_signature'', PStr signature)])"
    and r: "r = grant_row (unsigned_authorization g prepared' (to_seconds (instant now)) e @
       [(KStr ''authorization_signature'', PStr signature)]) ob fp stored"
    using assms(1-3) by (rule fresh_issueE)
  have gv: "gv payload signature = VTrue" using sg(1) assms(7) by blast
  have p: "prepared' = prepared"
    using cg assms(5) by (elim check_grant_signable) simp
  have texts: "au_issued_at r = strftime_utc (to_seconds (instant now))" "au_expires_at r = strftime_utc e"
    "au_id r = text_item [(KStr ''authorization_id'', gr_authorization_id g)] ''authorization_id''"
    by (simp_all add: r grant_row_def text_item_def item_def [of "[_]"])
  obtain od where od: "check_order jcs gv signer_id (gr_prepared_execution g) a later = Inr (od, to_seconds (instant later))"
    "od_message od = m" "od_signer od = signer_id"
    "PStr (od_authorization_id od) = gr_authorization_id g" "od_message_hash od = sha256_digest m"
    unfolding a
    by (rule signer_accepts [where gv = gv, OF cg assms(4) assms(6) [folded p] pl gv sg(2) assms(8-11) [unfolded texts] assms(12-14)])
  have id: "au_id r = od_authorization_id od"
    using texts(3) unfolding od(4) [symmetric] by (simp add: text_item_def item_def)
  obtain rows2 row claim where "sign jcs gv provider signer_id (gr_prepared_execution g) a later w srows =
      (snd (provider w (srows @ [claim]) m signer_id), rows2,
       Inr (PDict (signature_receipt od envelope (to_seconds (instant later)))))"
    "so_id claim = od_authorization_id od" "so_state claim = OpSigning"
    "row \<in> set rows2" "so_id row = od_authorization_id od" "so_state row = OpSigned" "so_envelope row = Some envelope"
    by (rule sign_accepted [OF od(1), of srows provider w envelope]) (use assms(15-18) id od(2,3) in simp_all)
  moreover have "item (signature_receipt od envelope t) ''signature_envelope'' = PStr envelope"
    "item (signature_receipt od envelope t) ''prepared_message_hash'' = PStr (sha256_digest m)" for t
    by (simp_all add: signature_receipt_def item_def od(5))
  ultimately show ?thesis using id by metis
qed

theorem issued_grant_signable_witness:
  "\<exists>srows' receipt row claim.
    sign example_jcs example_grant_verifier logging_provider example_solana_key
      (PDict example_prepared) (PDict example_signed) grant_now [] [] =
      ([([claim], example_message, example_solana_key)], srows', Inr (PDict receipt)) \<and>
    item receipt ''signature_envelope'' = PStr ''envelope'' \<and> row \<in> set srows' \<and> so_id row = ''auth-1'' \<and>
    so_state row = OpSigned"
proof -
  have e: "gr_signer example_grant_request = PStr example_solana_key" "gr_prepared_execution example_grant_request = PDict example_prepared"
    by (simp_all add: example_grant_request_def)
  have t: "ext_timestamp_text (au_issued_at example_grant_row)" "strptime_utc (au_issued_at example_grant_row) = Some 63905760000000000"
    "ext_timestamp_text (au_expires_at example_grant_row)" "strptime_utc (au_expires_at example_grant_row) = Some 63905760030000000"
    by (simp_all only: example_grant_columns grant_texts)
  have v: "\<forall>payload signature. example_grant_provider payload = Inr (PStr signature) \<longrightarrow>
      example_grant_verifier payload signature = VTrue"
    by (simp add: example_grant_provider_def example_grant_verifier_def)
  have "\<not> has_surrogate ''envelope''" by code_simp
  with issued_grant_signable [OF example_issue _ _ e, where m = example_message and gv = example_grant_verifier and
      r = example_grant_row and later = grant_now and srows = "[]" and provider = logging_provider and w = "[]" and
      envelope = "''envelope''", OF _ _ _ v t]
  show ?thesis by (auto simp: select_row_def e(2) example_grant_columns logging_provider_def)
qed

end
